(* ===== verification/Prelude.thy ===== *)
theory Prelude
  imports Main "HOL-Library.Word" "HOL-Library.List_Lexorder" "HOL-Library.Char_ord"
begin

text \<open>
  What every component shares: the operations of \<^verbatim>\<open>std::string\<close> the sources use (find, rfind,
  substr, replace of one character), the decimal conversions of the C++ library (\<^verbatim>\<open>stoi\<close>,
  \<^verbatim>\<open>stoll\<close>, \<^verbatim>\<open>stoul\<close>, \<^verbatim>\<open>to_string\<close>) with their two exceptions as values, and the generic
  lemmas about them.  A string is a list of bytes; positions are natural numbers.
\<close>

named_theorems std_string_simps
  \<comment> \<open>unfolding rules of the string operations, for evaluating closed instances\<close>

type_synonym u16 = "16 word"
type_synonym u32 = "32 word"
type_synonym u64 = "64 word"

section \<open>Strings\<close>

definition nl :: string where
  "nl = [CHR 0x0A]"

definition dquote :: string where
  "dquote = [CHR 0x22]"

fun starts_with :: "string \<Rightarrow> string \<Rightarrow> bool" where
  "starts_with [] s = True"
| "starts_with (d # ds) [] = False"
| "starts_with (d # ds) (c # s) = (d = c \<and> starts_with ds s)"

text \<open>\<open>find_from d s i\<close>: the first occurrence of \<open>d\<close> in \<open>s\<close>, counted from \<open>i\<close>.\<close>

fun find_from :: "string \<Rightarrow> string \<Rightarrow> nat \<Rightarrow> nat option" where
  "find_from d [] i = (if d = [] then Some i else None)"
| "find_from d (c # s) i =
     (if starts_with d (c # s) then Some i else find_from d s (Suc i))"

text \<open>\<^verbatim>\<open>s.find(d, k)\<close>; \<open>None\<close> is \<^verbatim>\<open>npos\<close>.\<close>

definition str_find :: "string \<Rightarrow> string \<Rightarrow> nat \<Rightarrow> nat option" where
  [std_string_simps]: "str_find s d k = (if k \<le> length s then find_from d (drop k s) k else None)"

text \<open>The greatest index below \<open>n\<close> that holds \<open>c\<close>: \<^verbatim>\<open>s.rfind(c, n - 1)\<close> for \<open>n \<le> length s\<close>.\<close>

fun rfind_below :: "string \<Rightarrow> char \<Rightarrow> nat \<Rightarrow> nat option" where
  "rfind_below s c 0 = None"
| "rfind_below s c (Suc n) = (if s ! n = c then Some n else rfind_below s c n)"

definition substr :: "string \<Rightarrow> nat \<Rightarrow> nat \<Rightarrow> string" where
  [std_string_simps]: "substr s k n = take n (drop k s)"

definition replace_char :: "char \<Rightarrow> char \<Rightarrow> string \<Rightarrow> string" where
  [std_string_simps]: "replace_char a b s = map (\<lambda>c. if c = a then b else c) s"

definition has_char :: "char \<Rightarrow> string \<Rightarrow> bool" where
  [std_string_simps]: "has_char c s = list_ex (\<lambda>x. x = c) s"

lemma starts_with_append [simp]: "starts_with d (d @ s)"
  by (induction d) auto

lemma starts_with_iff: "starts_with d s \<longleftrightarrow> (\<exists>t. s = d @ t)"
  by (induction d s rule: starts_with.induct) auto

lemma starts_with_single [simp]: "starts_with [c] s \<longleftrightarrow> (\<exists>t. s = c # t)"
  by (simp add: starts_with_iff)

lemma find_from_bounds: "find_from d s i = Some j \<Longrightarrow> i \<le> j \<and> j \<le> i + length s"
  by (induction d s i rule: find_from.induct) (fastforce split: if_splits)+

lemma str_find_bounds:
  assumes "str_find s d k = Some j" shows "k \<le> j" and "j \<le> length s"
  using assms find_from_bounds [of d "drop k s" k j]
  by (auto simp: str_find_def split: if_splits)

lemma find_from_offset: "find_from d s (i + n) = map_option (\<lambda>j. j + n) (find_from d s i)"
  by (induction d s i rule: find_from.induct) auto

lemma find_from_char_None: "c \<notin> set s \<Longrightarrow> find_from [c] s i = None"
  by (induction s arbitrary: i) auto

lemma find_from_char_append: "c \<notin> set u \<Longrightarrow> find_from [c] (u @ c # v) i = Some (i + length u)"
  by (induction u arbitrary: i) auto

lemma rfind_below_Some: "rfind_below s c n = Some i \<Longrightarrow> i < n \<and> s ! i = c"
  by (induction n) (auto split: if_splits intro: less_SucI)

lemma rfind_below_None: "rfind_below s c n = None \<longleftrightarrow> (\<forall>i<n. s ! i \<noteq> c)"
  by (induction n) (auto simp: less_Suc_eq)

lemma rfind_below_append:
  assumes "c \<notin> set v" and "n = length (u @ c # v)"
  shows "rfind_below (u @ c # v @ w) c n = Some (length u)"
  using assms
proof (induction v arbitrary: n w rule: rev_induct)
  case Nil
  then show ?case by simp
next
  case (snoc x v)
  then have "rfind_below (u @ c # v @ (x # w)) c (length (u @ c # v)) = Some (length u)"
    by simp
  with snoc.prems show ?case by (auto simp: nth_append)
qed

lemma rfind_below_absent: "c \<notin> set s \<Longrightarrow> n \<le> length s \<Longrightarrow> rfind_below s c n = None"
  by (auto simp: rfind_below_None)

lemma set_replace_char: "a \<noteq> b \<Longrightarrow> a \<notin> set (replace_char a b s)"
  by (auto simp: replace_char_def)

lemma length_replace_char [simp]: "length (replace_char a b s) = length s"
  by (simp add: replace_char_def)


section \<open>Decimal conversions\<close>

text \<open>
  The two exceptions of the C++ conversions.  A conversion returns the value and the number of
  characters it consumed (the \<^verbatim>\<open>pos\<close> argument of \<^verbatim>\<open>std::stoi\<close>).
\<close>

datatype conv_error = Invalid_argument | Out_of_range

definition isdigit :: "char \<Rightarrow> bool" where
  [std_string_simps]: "isdigit c = (48 \<le> (of_char c :: nat) \<and> (of_char c :: nat) \<le> 57)"

definition isspace :: "char \<Rightarrow> bool" where
  [std_string_simps]: "isspace c =
     ((of_char c :: nat) = 32 \<or> 9 \<le> (of_char c :: nat) \<and> (of_char c :: nat) \<le> 13)"

definition digit_val :: "char \<Rightarrow> nat" where
  [std_string_simps]: "digit_val c = of_char c - 48"

definition dec_val :: "string \<Rightarrow> nat" where
  [std_string_simps]: "dec_val s = foldl (\<lambda>a c. 10 * a + digit_val c) 0 s"

text \<open>
  \<^verbatim>\<open>strtol\<close> in base 10: leading white space, an optional sign, the longest run of digits.
  The result is the sign (true for minus), the magnitude and the end position.
\<close>

definition strto_dec :: "string \<Rightarrow> (bool \<times> nat \<times> nat) option" where
  [std_string_simps]: "strto_dec s =
     (let s1 = dropWhile isspace s;
          neg = (s1 \<noteq> [] \<and> hd s1 = CHR ''-'');
          s2 = (if s1 \<noteq> [] \<and> (hd s1 = CHR ''-'' \<or> hd s1 = CHR ''+'') then tl s1 else s1);
          ds = takeWhile isdigit s2
      in if ds = [] then None
         else Some (neg, dec_val ds, length s - length s2 + length ds))"

definition sto_signed :: "nat \<Rightarrow> string \<Rightarrow> conv_error + (int \<times> nat)" where
  [std_string_simps]: "sto_signed w s =
     (case strto_dec s of
        None \<Rightarrow> Inl Invalid_argument
      | Some (neg, m, p) \<Rightarrow>
          (let v = (if neg then - int m else int m)
           in if - (2 ^ (w - 1)) \<le> v \<and> v < 2 ^ (w - 1) then Inr (v, p) else Inl Out_of_range))"

definition stoi :: "string \<Rightarrow> conv_error + (int \<times> nat)" where
  [std_string_simps]: "stoi s = sto_signed 32 s"

definition stoll :: "string \<Rightarrow> conv_error + (int \<times> nat)" where
  [std_string_simps]: "stoll s = sto_signed 64 s"

text \<open>
  \<^verbatim>\<open>strtoul\<close> negates the magnitude in the unsigned type when the text has a minus sign;
  only a magnitude beyond 64 bits is out of range.
\<close>

definition stoul :: "string \<Rightarrow> conv_error + (u64 \<times> nat)" where
  [std_string_simps]: "stoul s =
     (case strto_dec s of
        None \<Rightarrow> Inl Invalid_argument
      | Some (neg, m, p) \<Rightarrow>
          if m < 2 ^ 64 then Inr (if neg then - of_nat m else of_nat m, p) else Inl Out_of_range)"

fun dec_digits :: "nat \<Rightarrow> string" where
  "dec_digits n =
     (if n < 10 then [char_of (48 + n)] else dec_digits (n div 10) @ [char_of (48 + n mod 10)])"

declare dec_digits.simps [simp del]

text \<open>\<^verbatim>\<open>std::to_string\<close> on the unsigned and on the signed integers.\<close>

definition to_string :: "nat \<Rightarrow> string" where
  [std_string_simps]: "to_string n = dec_digits n"

definition to_string_int :: "int \<Rightarrow> string" where
  [std_string_simps]: "to_string_int i = (if i < 0 then CHR ''-'' # dec_digits (nat (- i)) else dec_digits (nat i))"

lemma digit_char: "d < 10 \<Longrightarrow> isdigit (char_of (48 + d)) \<and> digit_val (char_of (48 + d)) = d"
  by (simp add: isdigit_def digit_val_def of_char_of)

lemma dec_val_Nil [simp]: "dec_val [] = 0"
  by (simp add: dec_val_def)

lemma dec_val_snoc [simp]: "dec_val (s @ [c]) = 10 * dec_val s + digit_val c"
  by (simp add: dec_val_def)

lemma dec_digits_digits: "list_all isdigit (dec_digits n)"
proof (induction n rule: dec_digits.induct)
  case (1 n)
  show ?case
    by (subst dec_digits.simps) (use 1 digit_char [of n] digit_char [of "n mod 10"] in auto)
qed

lemma dec_digits_nonempty [simp]: "dec_digits n \<noteq> []"
  by (subst dec_digits.simps) simp

lemma dec_val_digits [simp]: "dec_val (dec_digits n) = n"
proof (induction n rule: dec_digits.induct)
  case (1 n)
  show ?case
  proof (cases "n < 10")
    case True
    then show ?thesis
      using dec_val_snoc [of "[]"] by (simp add: dec_digits.simps [of n] digit_char)
  next
    case False
    with 1 have "dec_val (dec_digits (n div 10)) = n div 10" by simp
    moreover have "dec_digits n = dec_digits (n div 10) @ [char_of (48 + n mod 10)]"
      using False by (simp add: dec_digits.simps [of n])
    ultimately show ?thesis
      using dec_val_snoc [of "dec_digits (n div 10)" "char_of (48 + n mod 10)"]
        digit_char [of "n mod 10"] by simp
  qed
qed

lemma isdigit_not_space: "isdigit c \<Longrightarrow> \<not> isspace c"
  by (auto simp: isdigit_def isspace_def)

lemma isdigit_not_sign: "isdigit c \<Longrightarrow> c \<noteq> CHR ''-'' \<and> c \<noteq> CHR ''+'' \<and> c \<noteq> CHR '' ''"
  by (auto simp: isdigit_def)

text \<open>On a non-empty run of digits every conversion reads all of it.\<close>

lemma strto_dec_digits:
  assumes "s \<noteq> []" and "list_all isdigit s"
  shows "strto_dec s = Some (False, dec_val s, length s)"
proof -
  obtain c t where s: "s = c # t" using assms(1) by (cases s) auto
  with assms(2) have c: "isdigit c" by simp
  have "takeWhile isdigit s = s" using assms(2) by (simp add: list_all_iff takeWhile_eq_all_conv)
  moreover have "dropWhile isspace s = s" using s c isdigit_not_space by simp
  ultimately show ?thesis
    using s isdigit_not_sign [OF c] by (simp add: strto_dec_def)
qed

lemma stoul_digits:
  assumes "s \<noteq> []" and "list_all isdigit s"
  shows "stoul s = (if dec_val s < 2 ^ 64 then Inr (of_nat (dec_val s), length s) else Inl Out_of_range)"
  using strto_dec_digits [OF assms] by (simp add: stoul_def)

lemma sto_signed_range:
  assumes "sto_signed w s = Inr (v, p)" shows "- (2 ^ (w - 1)) \<le> v \<and> v < 2 ^ (w - 1)"
  using assms by (auto simp: sto_signed_def Let_def split: option.splits if_splits)

lemma stoul_to_string: "n < 2 ^ 64 \<Longrightarrow> stoul (to_string n) = Inr (of_nat n, length (to_string n))"
  using dec_digits_digits [of n] by (simp add: stoul_digits to_string_def)

lemma to_string_digits: "list_all isdigit (to_string n)" "to_string n \<noteq> []"
  by (simp_all add: to_string_def dec_digits_digits)

lemma dec_val_to_string [simp]: "dec_val (to_string n) = n"
  by (simp add: to_string_def)

lemma ucast_of_nat_u64:
  "n < 2 ^ 64 \<Longrightarrow> ucast (of_nat n :: u64) = (of_nat n :: 'a::len word)"
  by (simp add: unsigned_of_nat take_bit_nat_eq_self)

section \<open>Logging levels\<close>

text \<open>The constants of \<^verbatim>\<open>include/rvsliblog.h\<close>.\<close>

definition lognone :: int where "lognone = 0"
definition logresults :: int where "logresults = 1"
definition logerror :: int where "logerror = 2"
definition loginfo :: int where "loginfo = 3"
definition logdebug :: int where "logdebug = 4"
definition logtrace :: int where "logtrace = 5"

lemmas log_levels = lognone_def logresults_def logerror_def loginfo_def logdebug_def logtrace_def

section \<open>Loops whose rounds may not come back\<close>

text \<open>A loop over the elements of a list whose rounds may not end.\<close>

fun fold_option :: "('a \<Rightarrow> 's \<Rightarrow> 's option) \<Rightarrow> 'a list \<Rightarrow> 's \<Rightarrow> 's option" where
  "fold_option f [] s = Some s"
| "fold_option f (x # xs) s = Option.bind (f x s) (fold_option f xs)"

text \<open>
  What a computation that may not come back guarantees: its result satisfies \<open>P\<close>, and it comes
  back when \<open>t\<close> holds.  Partial correctness is the instance \<open>False\<close>, total correctness \<open>True\<close>.
\<close>

definition outcome :: "bool \<Rightarrow> ('a \<Rightarrow> bool) \<Rightarrow> 'a option \<Rightarrow> bool" where
  "outcome t P r = (case r of None \<Rightarrow> \<not> t | Some x \<Rightarrow> P x)"

lemma outcome_simps [simp]: "outcome t P (Some x) = P x" "outcome t P None = (\<not> t)"
  by (simp_all add: outcome_def)

lemma outcome_bind: "outcome t Q r \<Longrightarrow> (\<And>x. Q x \<Longrightarrow> outcome t P (f x)) \<Longrightarrow> outcome t P (Option.bind r f)"
  by (cases r) auto

lemma outcome_mono: "outcome t Q r \<Longrightarrow> (\<And>x. Q x \<Longrightarrow> P x) \<Longrightarrow> outcome t P r"
  by (cases r) auto

lemma outcomeD: "outcome t P r \<Longrightarrow> r = Some x \<Longrightarrow> P x"
  by simp

lemma outcome_total: "outcome True P r \<Longrightarrow> \<exists>x. r = Some x \<and> P x"
  by (cases r) auto

lemma outcome_fold:
  "(\<And>x s. x \<in> set xs \<Longrightarrow> P s \<Longrightarrow> outcome t P (f x s)) \<Longrightarrow> P s \<Longrightarrow> outcome t P (fold_option f xs s)"
proof (induction xs arbitrary: s)
  case (Cons x xs)
  then show ?case unfolding fold_option.simps by (intro outcome_bind [of t P]) auto
qed simp

end
