(* ===== verification/Ordered_Map.thy ===== *)
theory Ordered_Map
  imports Prelude "HOL-Library.Product_Lexorder"
begin

text \<open>
  \<^verbatim>\<open>std::map\<close> as the sources use it: find, insert (which keeps an existing entry), assignment
  through \<^verbatim>\<open>operator[]\<close>, and iteration in key order.  The representation is the association
  list that iteration would yield, strictly sorted by key.  The locale \<open>std_map\<close> states the
  contract the components rely on and proves the facts about loops of insertions once.
\<close>

type_synonym ('k, 'v) omap = "('k \<times> 'v) list"

abbreviation om_find :: "('k, 'v) omap \<Rightarrow> 'k \<Rightarrow> 'v option" where
  "om_find m \<equiv> map_of m"

fun om_assign :: "'k::linorder \<Rightarrow> 'v \<Rightarrow> ('k, 'v) omap \<Rightarrow> ('k, 'v) omap" where
  "om_assign k v [] = [(k, v)]"
| "om_assign k v ((a, b) # m) =
     (if k < a then (k, v) # (a, b) # m
      else if k = a then (k, v) # m
      else (a, b) # om_assign k v m)"

definition om_insert :: "'k::linorder \<Rightarrow> 'v \<Rightarrow> ('k, 'v) omap \<Rightarrow> ('k, 'v) omap" where
  "om_insert k v m = (case om_find m k of None \<Rightarrow> om_assign k v m | Some _ \<Rightarrow> m)"

definition om_wf :: "('k::linorder, 'v) omap \<Rightarrow> bool" where
  "om_wf m \<longleftrightarrow> sorted_wrt (<) (map fst m)"

locale std_map =
  fixes find :: "'m \<Rightarrow> 'k \<Rightarrow> 'v option"
    and assign :: "'k \<Rightarrow> 'v \<Rightarrow> 'm \<Rightarrow> 'm"
    and insert :: "'k \<Rightarrow> 'v \<Rightarrow> 'm \<Rightarrow> 'm"
    and wf :: "'m \<Rightarrow> bool"
  assumes find_assign: "find (assign k v m) = (find m)(k \<mapsto> v)"
    and find_insert: "find (insert k v m) = (if find m k = None then (find m)(k \<mapsto> v) else find m)"
    and wf_assign: "wf m \<Longrightarrow> wf (assign k v m)"
    and wf_insert: "wf m \<Longrightarrow> wf (insert k v m)"
begin

lemma find_fold_assign:
  "find (fold (\<lambda>(k, v). assign k v) kvs m) = find m ++ map_of (rev kvs)"
  by (induction kvs arbitrary: m) (auto simp: find_assign map_add_def fun_eq_iff split: option.splits)

lemma find_fold_insert:
  "find (fold (\<lambda>(k, v). insert k v) kvs m) = map_of kvs ++ find m"
  by (induction kvs arbitrary: m)
    (auto simp: find_insert map_add_def fun_eq_iff split: option.splits if_splits)

lemma wf_fold_assign: "wf m \<Longrightarrow> wf (fold (\<lambda>(k, v). assign k v) kvs m)"
  by (induction kvs arbitrary: m) (auto simp: wf_assign)

lemma wf_fold_insert: "wf m \<Longrightarrow> wf (fold (\<lambda>(k, v). insert k v) kvs m)"
  by (induction kvs arbitrary: m) (auto simp: wf_insert)

lemma insert_existing: "find m k = Some w \<Longrightarrow> find (insert k v m) = find m"
  by (simp add: find_insert)

end

lemma om_find_assign [simp]: "om_find (om_assign k v m) = (om_find m)(k \<mapsto> v)"
  by (induction k v m rule: om_assign.induct) (auto simp: fun_eq_iff)

lemma om_find_insert:
  "om_find (om_insert k v m) = (if om_find m k = None then (om_find m)(k \<mapsto> v) else om_find m)"
  by (auto simp: om_insert_def split: option.splits)

lemma om_keys_assign: "fst ` set (om_assign k v m) = Set.insert k (fst ` set m)"
  by (induction k v m rule: om_assign.induct) auto

lemma om_wf_Nil [simp]: "om_wf []"
  by (simp add: om_wf_def)

lemma om_wf_Cons: "om_wf ((a, b) # m) \<longleftrightarrow> (\<forall>k \<in> fst ` set m. a < k) \<and> om_wf m"
  by (auto simp: om_wf_def)

lemma om_wf_assign [simp]: "om_wf m \<Longrightarrow> om_wf (om_assign k v m)"
proof (induction k v m rule: om_assign.induct)
  case (1 k v)
  then show ?case by (simp add: om_wf_def)
next
  case (2 k v a b m)
  then have a: "\<forall>x \<in> fst ` set m. a < x" and m: "om_wf m" by (auto simp: om_wf_Cons)
  consider "k < a" | "k = a" | "a < k" by force
  then show ?case
  proof cases
    case 1
    then show ?thesis using a m by (force simp: om_wf_Cons)
  next
    case 2
    then show ?thesis using a m by (simp add: om_wf_Cons)
  next
    case 3
    then have "om_wf (om_assign k v m)" using 2 m by auto
    then show ?thesis using 3 a by (auto simp: om_wf_Cons om_keys_assign)
  qed
qed

lemma om_wf_insert [simp]: "om_wf m \<Longrightarrow> om_wf (om_insert k v m)"
  by (auto simp: om_insert_def split: option.splits)

lemma om_wf_distinct: "om_wf m \<Longrightarrow> distinct (map fst m)"
  by (auto simp: om_wf_def strict_sorted_iff)

text \<open>Iterating a well-formed map visits exactly its entries.\<close>

lemma om_iter_find: "om_wf m \<Longrightarrow> (k, v) \<in> set m \<longleftrightarrow> om_find m k = Some v"
  using om_wf_distinct [of m] by (auto simp: map_of_eq_Some_iff)

interpretation om: std_map om_find om_assign om_insert om_wf
  by unfold_locales (auto simp: om_find_insert)

end
