(* ===== verification/Rvs_Options.thy ===== *)
theory Rvs_Options
  imports Ordered_Map
begin

text \<open>
  \<^verbatim>\<open>rvs/src/rvsoptions.cpp\<close>: the option table.  The static map is passed explicitly; the
  overloads that take a map argument are the same functions on another map.
\<close>

type_synonym options = "(string, string) omap"

definition has_option_val :: "options \<Rightarrow> string \<Rightarrow> string \<Rightarrow> bool \<times> string" where
  "has_option_val opt Option pval =
     (case om_find opt Option of None \<Rightarrow> (False, pval) | Some v \<Rightarrow> (True, v))"

definition has_option :: "options \<Rightarrow> string \<Rightarrow> bool" where
  "has_option opt Option = (case om_find opt Option of None \<Rightarrow> False | Some _ \<Rightarrow> True)"

lemma has_option_val_iff [simp]: "fst (has_option_val opt k v) = has_option opt k"
  by (simp add: has_option_val_def has_option_def split: option.splits)

lemma has_option_iff: "has_option opt k \<longleftrightarrow> om_find opt k \<noteq> None"
  by (simp add: has_option_def split: option.splits)

lemma has_option_val_unchanged: "\<not> has_option opt k \<Longrightarrow> has_option_val opt k v = (False, v)"
  by (simp add: has_option_val_def has_option_def split: option.splits)

end
