(* ===== verification/Rvs_Cli.thy ===== *)
theory Rvs_Cli
  imports Rvs_Options
begin

text \<open>
  \<^verbatim>\<open>rvs/src/rvscli.cpp\<close>: the command line parser, a push-down machine whose stack holds the
  kinds of token that may come next.  The reference is a grammar of well-formed command lines
  (\<open>item\<close>): the parser accepts exactly the rendered items and stores their bindings.
\<close>

section \<open>The parser\<close>

datatype econtext = Eof | Value | Optionalvalue | Command

record cli =
  cli_context :: "econtext list"  \<comment> \<open>the stack, top first\<close>
  current_option :: string
  current_value :: string
  errstr :: string
  cli_opt :: options

text \<open>The constructor of a token: its stack holds \<open>Eof\<close> and the continuations that are not \<open>Eof\<close>.\<close>

type_synonym optbase = "string \<times> econtext list"

definition optbase_new :: "string \<Rightarrow> econtext \<Rightarrow> econtext \<Rightarrow> econtext \<Rightarrow> optbase" where
  "optbase_new ptruename s1 s2 s3 =
     (ptruename, (if s3 \<noteq> Eof then [s3] else []) @ (if s2 \<noteq> Eof then [s2] else []) @ [s1, Eof])"

definition grammar_entries :: "(string \<times> optbase) list" where
  "grammar_entries =
    [(''-a'', optbase_new ''-a'' Command Eof Eof), (''--appendLog'', optbase_new ''-a'' Command Eof Eof),
     (''-c'', optbase_new ''-c'' Command Value Eof), (''--config'', optbase_new ''-c'' Command Value Eof),
     (''-d'', optbase_new ''-d'' Command Value Eof), (''--debugLevel'', optbase_new ''-d'' Command Value Eof),
     (''-g'', optbase_new ''-g'' Command Eof Eof), (''--listGpus'', optbase_new ''-g'' Command Eof Eof),
     (''-i'', optbase_new ''-i'' Command Value Eof), (''--indexes'', optbase_new ''-i'' Command Value Eof),
     (''-s'', optbase_new ''-s'' Command Value Eof), (''--selectActions'', optbase_new ''-s'' Command Value Eof),
     (''-j'', optbase_new ''-j'' Command Optionalvalue Eof), (''--json'', optbase_new ''-j'' Command Optionalvalue Eof),
     (''-l'', optbase_new ''-l'' Command Value Eof), (''--debugLogFile'', optbase_new ''-l'' Command Value Eof),
     (''-q'', optbase_new ''-q'' Command Eof Eof), (''--quiet'', optbase_new ''-q'' Command Eof Eof),
     (''-n'', optbase_new ''-n'' Command Value Eof), (''--numTimes'', optbase_new ''-n'' Command Value Eof),
     (''-p'', optbase_new ''-p'' Command Optionalvalue Eof), (''--parallel'', optbase_new ''-p'' Command Optionalvalue Eof),
     (''-m'', optbase_new ''-m'' Command Value Eof), (''--module'', optbase_new ''-m'' Command Value Eof),
     (''-r'', optbase_new ''-r'' Command Value Eof), (''--run'', optbase_new ''-r'' Command Value Eof),
     (''-t'', optbase_new ''-t'' Command Value Eof), (''--duration'', optbase_new ''-t'' Command Value Eof),
     (''--listTests'', optbase_new ''--listTests'' Command Eof Eof),
     (''-v'', optbase_new ''-v'' Command Eof Eof), (''--verbose'', optbase_new ''-v'' Command Eof Eof),
     (''--version'', optbase_new ''-ver'' Command Eof Eof),
     (''-h'', optbase_new ''-h'' Command Eof Eof), (''--help'', optbase_new ''-h'' Command Eof Eof)]"

definition init_grammar :: "(string, optbase) omap" where
  "init_grammar = fold (\<lambda>(k, v). om_insert k v) grammar_entries []"

definition emit_option :: "cli \<Rightarrow> cli" where
  "emit_option c =
     (let c1 = (if current_option c \<noteq> []
                then c\<lparr>cli_opt := om_assign (current_option c) (current_value c) (cli_opt c)\<rparr>
                else c)
      in c1\<lparr>current_option := [], current_value := []\<rparr>)"

definition adjust_context :: "econtext list \<Rightarrow> cli \<Rightarrow> cli" where
  "adjust_context new_context c = c\<lparr>cli_context := new_context\<rparr>"

definition try_command :: "cli \<Rightarrow> string \<Rightarrow> bool \<times> cli" where
  "try_command c token =
     (case om_find init_grammar token of
        None \<Rightarrow> (False, c)
      | Some (name, new_context) \<Rightarrow>
          (True, adjust_context new_context ((emit_option c)\<lparr>current_option := name\<rparr>)))"

definition try_value :: "cli \<Rightarrow> string \<Rightarrow> bool \<times> cli" where
  "try_value c token =
     (if token = [] then (False, c)
      else if om_find init_grammar token \<noteq> None then (False, c)
      else (True, emit_option (c\<lparr>current_value := token\<rparr>)))"

definition try_optionalvalue :: "cli \<Rightarrow> string \<Rightarrow> bool \<times> cli" where
  "try_optionalvalue c token =
     (if token = [] then (True, c)
      else if om_find init_grammar token \<noteq> None then (False, c)
      else (True, emit_option (c\<lparr>current_value := token\<rparr>)))"

text \<open>
  The inner loop of \<^verbatim>\<open>parse\<close> for one token: pop the stack until the token is consumed or the
  parser returns.  Reading the top of an empty stack would be undefined; it is a value here.
\<close>

datatype cli_outcome = Token_done cli | Return int cli | Stack_underflow

fun cli_token :: "econtext list \<Rightarrow> cli \<Rightarrow> string \<Rightarrow> cli_outcome" where
  "cli_token [] c token = Stack_underflow"
| "cli_token (ctx # rest) c token =
     (let c = c\<lparr>cli_context := rest\<rparr> in
      case ctx of
        Command \<Rightarrow>
          (case try_command c token of
             (True, c') \<Rightarrow> Token_done c'
           | (False, c') \<Rightarrow> cli_token rest c' token)
      | Value \<Rightarrow>
          (case try_value c token of
             (True, c') \<Rightarrow> Token_done c'
           | (False, c') \<Rightarrow>
               Return (-1) (c'\<lparr>errstr := ''syntax error: value expected after '' @ current_option c'\<rparr>))
      | Optionalvalue \<Rightarrow>
          (case try_optionalvalue c token of
             (True, c') \<Rightarrow> Token_done c'
           | (False, c') \<Rightarrow> cli_token rest c' token)
      | Eof \<Rightarrow>
          if token = [] then Return 0 (emit_option c)
          else Return (-1) (c\<lparr>errstr := ''unexpected command line argument: '' @ token\<rparr>))"

definition get_token :: "string list \<Rightarrow> string" where
  "get_token args = (case args of [] \<Rightarrow> [] | a # _ \<Rightarrow> a)"

lemma grammar_find: "om_find init_grammar = map_of grammar_entries"
  by (simp add: init_grammar_def om.find_fold_insert)

lemma grammar_no_empty [simp]: "om_find init_grammar [] = None"
  by (simp add: grammar_find grammar_entries_def)

lemma try_command_empty: "try_command c [] = (False, c)"
  by (simp add: try_command_def)

lemma cli_token_empty_shrinks:
  "cli_token st c [] = Token_done c' \<Longrightarrow> length (cli_context c') < length st"
proof (induction st arbitrary: c)
  case Nil
  then show ?case by simp
next
  case (Cons ctx rest)
  then show ?case
    by (cases ctx) (auto simp: try_command_empty try_value_def try_optionalvalue_def Let_def less_SucI)
qed

text \<open>
  The outer loop.  While arguments remain, each round consumes one; afterwards each round shrinks
  the stack.
\<close>

function cli_loop :: "cli \<Rightarrow> string list \<Rightarrow> (int \<times> cli) option" where
  "cli_loop c args =
     (case cli_token (cli_context c) c (get_token args) of
        Token_done c' \<Rightarrow> cli_loop c' (tl args)
      | Return r c' \<Rightarrow> Some (r, c')
      | Stack_underflow \<Rightarrow> None)"
  by pat_completeness auto
termination
proof (relation "measures [\<lambda>(c, args). length args, \<lambda>(c, args). length (cli_context c)]", goal_cases)
  case 1
  show ?case by simp
next
  case (2 c args c')
  then show ?case
    by (cases args) (auto simp: get_token_def dest: cli_token_empty_shrinks)
qed

declare cli_loop.simps [simp del]

text \<open>\<open>exe\<close> is the link \<^verbatim>\<open>/proc/<pid>/exe\<close> resolves to, \<open>None\<close> when it cannot be read.\<close>

fun last_sep :: "string \<Rightarrow> nat \<Rightarrow> nat option" where
  "last_sep s 0 = None"
| "last_sep s (Suc n) = (if s ! n = CHR ''/'' \<or> s ! n = CHR 0x5C then Some n else last_sep s n)"

definition extract_path :: "string option \<Rightarrow> options \<Rightarrow> options" where
  "extract_path exe opt =
     (case exe of
        None \<Rightarrow> opt
      | Some argv0 \<Rightarrow>
          om_assign ''pwd''
            ((case last_sep argv0 (length argv0) of None \<Rightarrow> argv0 | Some found \<Rightarrow> substr argv0 0 found) @ ''/'')
            opt)"

definition cli_parse :: "string option \<Rightarrow> options \<Rightarrow> string list \<Rightarrow> (int \<times> cli) option" where
  "cli_parse exe opt args =
     cli_loop \<lparr>cli_context = [Command, Eof], current_option = [], current_value = [],
               errstr = [], cli_opt = extract_path exe opt\<rparr> args"

section \<open>The reference grammar\<close>

text \<open>An option with no value, with a value, and with its optional value left out or given.\<close>

datatype item = Flag string | With_value string string | Opt_bare string | Opt_value string string

definition plain_ctx :: "econtext list" where "plain_ctx = [Command, Eof]"
definition value_ctx :: "econtext list" where "value_ctx = [Value, Command, Eof]"
definition optval_ctx :: "econtext list" where "optval_ctx = [Optionalvalue, Command, Eof]"

lemmas ctx_defs = plain_ctx_def value_ctx_def optval_ctx_def

fun item_tokens :: "item \<Rightarrow> string list" where
  "item_tokens (Flag a) = [a]"
| "item_tokens (With_value a v) = [a, v]"
| "item_tokens (Opt_bare a) = [a]"
| "item_tokens (Opt_value a v) = [a, v]"

definition alias_of :: "econtext list \<Rightarrow> string \<Rightarrow> bool" where
  "alias_of ctx a = (case om_find init_grammar a of None \<Rightarrow> False | Some (n, ctx') \<Rightarrow> ctx' = ctx)"

definition is_value :: "string \<Rightarrow> bool" where
  "is_value v \<longleftrightarrow> v \<noteq> [] \<and> om_find init_grammar v = None"

fun item_ok :: "item \<Rightarrow> bool" where
  "item_ok (Flag a) = alias_of plain_ctx a"
| "item_ok (With_value a v) = (alias_of value_ctx a \<and> is_value v)"
| "item_ok (Opt_bare a) = alias_of optval_ctx a"
| "item_ok (Opt_value a v) = (alias_of optval_ctx a \<and> is_value v)"

definition true_name :: "string \<Rightarrow> string" where
  "true_name a = (case om_find init_grammar a of None \<Rightarrow> a | Some (n, _) \<Rightarrow> n)"

fun item_binding :: "item \<Rightarrow> string \<times> string" where
  "item_binding (Flag a) = (true_name a, [])"
| "item_binding (With_value a v) = (true_name a, v)"
| "item_binding (Opt_bare a) = (true_name a, [])"
| "item_binding (Opt_value a v) = (true_name a, v)"

definition store_items :: "item list \<Rightarrow> options \<Rightarrow> options" where
  "store_items items opt = fold (\<lambda>(k, v). om_assign k v) (map item_binding items) opt"


section \<open>Facts about the table\<close>

lemma grammar_shapes:
  "list_all (\<lambda>(a, n, ctx). a \<noteq> [] \<and> n \<noteq> [] \<and> (ctx = plain_ctx \<or> ctx = value_ctx \<or> ctx = optval_ctx))
     grammar_entries"
  by (simp add: grammar_entries_def optbase_new_def ctx_defs)

lemma grammar_find_shape:
  assumes "om_find init_grammar a = Some (n, ctx)"
  shows "a \<noteq> []" and "n \<noteq> []" and "ctx = plain_ctx \<or> ctx = value_ctx \<or> ctx = optval_ctx"
proof -
  have "(a, n, ctx) \<in> set grammar_entries" using assms by (simp add: grammar_find map_of_SomeD)
  then show "a \<noteq> []" "n \<noteq> []" "ctx = plain_ctx \<or> ctx = value_ctx \<or> ctx = optval_ctx"
    using grammar_shapes by (auto simp: list_all_iff)
qed

lemma grammar_cases:
  obtains (none) "om_find init_grammar a = None"
  | (plain) "alias_of plain_ctx a" "om_find init_grammar a = Some (true_name a, plain_ctx)"
  | (val) "alias_of value_ctx a" "om_find init_grammar a = Some (true_name a, value_ctx)"
  | (optval) "alias_of optval_ctx a" "om_find init_grammar a = Some (true_name a, optval_ctx)"
proof (cases "om_find init_grammar a")
  case None
  then show ?thesis by (rule none)
next
  case (Some nc)
  obtain n ctx where nc: "nc = (n, ctx)" by (cases nc)
  with Some grammar_find_shape(3) [of a n ctx] show ?thesis
    using plain val optval by (auto simp: alias_of_def true_name_def)
qed

lemma alias_ofD:
  "alias_of ctx a \<Longrightarrow> om_find init_grammar a = Some (true_name a, ctx) \<and> a \<noteq> [] \<and> true_name a \<noteq> []"
  using grammar_find_shape [of a] by (auto simp: alias_of_def true_name_def split: option.splits)

section \<open>One round of the parser\<close>

text \<open>
  Between two items the buffer holds at most a pending option without a value, and the stack is
  that of a command, or of an optional value whose option is pending.  \<open>settled\<close> is the option
  table once the pending option is stored.
\<close>

definition ready :: "cli \<Rightarrow> bool" where
  "ready c \<longleftrightarrow> current_value c = [] \<and> (cli_context c = plain_ctx \<or> cli_context c = optval_ctx)"

definition settled :: "cli \<Rightarrow> options" where
  "settled c = cli_opt (emit_option c)"

lemma emit_option_fields [simp]:
  "current_option (emit_option c) = []" "current_value (emit_option c) = []"
  "cli_context (emit_option c) = cli_context c"
  by (simp_all add: emit_option_def Let_def)

lemma settled_simps [simp]:
  "settled (c\<lparr>cli_context := x\<rparr>) = settled c" "settled (c\<lparr>errstr := e\<rparr>) = settled c"
  "settled (emit_option c) = cli_opt (emit_option c)"
  by (simp_all add: settled_def emit_option_def Let_def)

text \<open>The state after a command token.\<close>

definition after_command :: "cli \<Rightarrow> string \<Rightarrow> econtext list \<Rightarrow> cli" where
  "after_command c a ctx =
     adjust_context ctx ((emit_option (c\<lparr>cli_context := [Eof]\<rparr>))\<lparr>current_option := true_name a\<rparr>)"

lemma after_command_fields [simp]:
  "current_option (after_command c a ctx) = true_name a"
  "current_value (after_command c a ctx) = []"
  "cli_context (after_command c a ctx) = ctx"
  "cli_opt (after_command c a ctx) = settled c"
  by (simp_all add: after_command_def adjust_context_def settled_def emit_option_def Let_def)

lemma settled_after_command:
  "alias_of ctx' a \<Longrightarrow> settled (after_command c a ctx) = om_assign (true_name a) [] (settled c)"
  using alias_ofD [of ctx' a] by (simp add: settled_def [of "after_command c a ctx"] emit_option_def)

lemma cli_token_command:
  assumes "ready c" and "alias_of ctx a"
  shows "cli_token (cli_context c) c a = Token_done (after_command c a ctx)"
  using assms alias_ofD [OF assms(2)]
  by (auto simp: ready_def ctx_defs try_command_def try_optionalvalue_def after_command_def Let_def)

lemma cli_loop_command:
  assumes "ready c" and "alias_of ctx a"
  shows "cli_loop c (a # args) = cli_loop (after_command c a ctx) args"
  by (subst cli_loop.simps) (simp add: get_token_def cli_token_command [OF assms])

text \<open>A value after a command: the pair is stored at once.\<close>

definition after_value :: "cli \<Rightarrow> string \<Rightarrow> econtext list \<Rightarrow> string \<Rightarrow> cli" where
  "after_value c a ctx v = emit_option ((after_command c a ctx)\<lparr>cli_context := plain_ctx, current_value := v\<rparr>)"

lemma after_value_ready: "ready (after_value c a ctx v)"
  by (simp add: ready_def after_value_def)

lemma settled_after_value:
  "alias_of ctx' a \<Longrightarrow> settled (after_value c a ctx v) = om_assign (true_name a) v (settled c)"
  using alias_ofD [of ctx' a] by (simp add: after_value_def) (simp add: emit_option_def)

lemma cli_token_value:
  assumes "is_value v" and "ctx = value_ctx \<or> ctx = optval_ctx"
  shows "cli_token ctx (after_command c a ctx) v = Token_done (after_value c a ctx v)"
  using assms
  by (auto simp: is_value_def ctx_defs try_value_def try_optionalvalue_def after_value_def Let_def)

lemma cli_loop_value:
  assumes "is_value v" and "ctx = value_ctx \<or> ctx = optval_ctx"
  shows "cli_loop (after_command c a ctx) (v # args) = cli_loop (after_value c a ctx v) args"
  by (subst cli_loop.simps) (simp add: get_token_def cli_token_value [OF assms])

text \<open>The end of the command line.\<close>

lemma cli_token_end_plain:
  "cli_token plain_ctx c [] = Return 0 (emit_option (c\<lparr>cli_context := []\<rparr>))"
  by (simp add: ctx_defs try_command_empty)

lemma cli_loop_end:
  assumes "ready c"
  shows "\<exists>c'. cli_loop c [] = Some (0, c') \<and> cli_opt c' = settled c"
proof -
  have plain: "\<exists>c'. cli_loop d [] = Some (0, c') \<and> cli_opt c' = settled d"
    if "cli_context d = plain_ctx" for d
    by (subst cli_loop.simps) (simp add: get_token_def that cli_token_end_plain flip: settled_def)
  show ?thesis
  proof (cases "cli_context c = plain_ctx")
    case True
    then show ?thesis by (rule plain)
  next
    case False
    with assms have ctx: "cli_context c = optval_ctx" by (simp add: ready_def)
    then have "cli_loop c [] = cli_loop (c\<lparr>cli_context := plain_ctx\<rparr>) []"
      by (subst cli_loop.simps) (simp add: get_token_def ctx_defs try_optionalvalue_def)
    with plain [of "c\<lparr>cli_context := plain_ctx\<rparr>"] show ?thesis by simp
  qed
qed

section \<open>The parser accepts every well-formed line\<close>

lemma cli_loop_item:
  assumes "ready c" and "item_ok it"
  shows "\<exists>c'. cli_loop c (item_tokens it @ args) = cli_loop c' args \<and> ready c' \<and>
     settled c' = (case item_binding it of (k, v) \<Rightarrow> om_assign k v (settled c))"
proof (cases it)
  case (Flag a)
  with assms have a: "alias_of plain_ctx a" by simp
  from assms(1) a have "cli_loop c (a # args) = cli_loop (after_command c a plain_ctx) args"
    by (rule cli_loop_command)
  moreover have "ready (after_command c a plain_ctx)" by (simp add: ready_def)
  ultimately show ?thesis using Flag settled_after_command [OF a] by auto
next
  case (With_value a v)
  with assms have a: "alias_of value_ctx a" and v: "is_value v" by simp_all
  from assms(1) a have "cli_loop c (a # v # args) = cli_loop (after_command c a value_ctx) (v # args)"
    by (rule cli_loop_command)
  also have "\<dots> = cli_loop (after_value c a value_ctx v) args" using v by (simp add: cli_loop_value)
  finally show ?thesis using With_value settled_after_value [OF a] after_value_ready by auto
next
  case (Opt_bare a)
  with assms have a: "alias_of optval_ctx a" by simp
  from assms(1) a have "cli_loop c (a # args) = cli_loop (after_command c a optval_ctx) args"
    by (rule cli_loop_command)
  moreover have "ready (after_command c a optval_ctx)" by (simp add: ready_def)
  ultimately show ?thesis using Opt_bare settled_after_command [OF a] by auto
next
  case (Opt_value a v)
  with assms have a: "alias_of optval_ctx a" and v: "is_value v" by simp_all
  from assms(1) a have "cli_loop c (a # v # args) = cli_loop (after_command c a optval_ctx) (v # args)"
    by (rule cli_loop_command)
  also have "\<dots> = cli_loop (after_value c a optval_ctx v) args" using v by (simp add: cli_loop_value)
  finally show ?thesis using Opt_value settled_after_value [OF a] after_value_ready by auto
qed

lemma cli_loop_items:
  assumes "ready c" and "list_all item_ok items"
  shows "\<exists>c'. cli_loop c (concat (map item_tokens items)) = Some (0, c') \<and>
     cli_opt c' = store_items items (settled c)"
  using assms
proof (induction items arbitrary: c)
  case Nil
  then show ?case using cli_loop_end [of c] by (auto simp: store_items_def)
next
  case (Cons it items)
  obtain c' where step: "cli_loop c (item_tokens it @ concat (map item_tokens items)) =
      cli_loop c' (concat (map item_tokens items))" and c': "ready c'"
      "settled c' = (case item_binding it of (k, v) \<Rightarrow> om_assign k v (settled c))"
    using cli_loop_item [of c it] Cons.prems by auto
  from Cons.IH [OF c'(1)] Cons.prems step c'(2) show ?case
    by (cases "item_binding it") (auto simp: store_items_def)
qed

section \<open>The parser accepts nothing else\<close>

lemma cli_loop_bad_token:
  assumes "a \<noteq> []" and "om_find init_grammar a = None" and "cli_context c = plain_ctx"
  shows "\<exists>c'. cli_loop c (a # args) = Some (-1, c')"
  using assms by (subst cli_loop.simps) (simp add: get_token_def ctx_defs try_command_def)

lemma cli_loop_missing_value:
  assumes "args = [] \<or> \<not> is_value (hd args)" and "[] \<notin> set args"
  shows "\<exists>c'. cli_loop (after_command c a value_ctx) args = Some (-1, c')"
  using assms
  by (subst cli_loop.simps)
    (cases args; auto simp: get_token_def value_ctx_def try_value_def is_value_def Let_def)

lemma cli_loop_sound:
  assumes "ready c" and "[] \<notin> set args"
    and "cli_context c = plain_ctx \<or> args = [] \<or> om_find init_grammar (hd args) \<noteq> None"
    and "cli_loop c args = Some (0, c')"
  shows "\<exists>items. list_all item_ok items \<and> args = concat (map item_tokens items)"
  using assms
proof (induction "length args" arbitrary: c args rule: less_induct)
  case less
  show ?case
  proof (cases args)
    case Nil
    then show ?thesis by (intro exI [of _ "[]"]) simp
  next
    case (Cons a rest)
    have loop: "cli_loop c (a # rest) = Some (0, c')" using less.prems(4) Cons by simp
    have ne: "[] \<notin> set rest" using less.prems(2) Cons by auto
    have grow: "\<exists>items. list_all item_ok items \<and> args = concat (map item_tokens items)"
      if "item_ok it" "args = item_tokens it @ r" "length r < length args" "[] \<notin> set r" "ready d"
        "cli_context d = plain_ctx \<or> r = [] \<or> om_find init_grammar (hd r) \<noteq> None"
        "cli_loop d r = Some (0, c')" for it r d
    proof -
      from less.hyps [OF that(3,5,4,6,7)] obtain items where
        "list_all item_ok items" "r = concat (map item_tokens items)" by blast
      with that(1,2) show ?thesis by (intro exI [of _ "it # items"]) simp
    qed
    show ?thesis
    proof (cases a rule: grammar_cases)
      case none
      with less.prems(2,3) Cons have "cli_context c = plain_ctx" "a \<noteq> []" by auto
      with none loop cli_loop_bad_token [of a c rest] show ?thesis by auto
    next
      case plain
      with less.prems(1) loop have "cli_loop (after_command c a plain_ctx) rest = Some (0, c')"
        by (simp add: cli_loop_command)
      with plain Cons ne show ?thesis
        by (intro grow [of "Flag a" rest "after_command c a plain_ctx"]) (auto simp: ready_def)
    next
      case val
      with less.prems(1) loop have l: "cli_loop (after_command c a value_ctx) rest = Some (0, c')"
        by (simp add: cli_loop_command)
      then obtain v r where v: "rest = v # r" "is_value v"
        using cli_loop_missing_value [of rest c a] ne by (cases rest) auto
      with l have "cli_loop (after_value c a value_ctx v) r = Some (0, c')"
        by (simp add: cli_loop_value)
      with val Cons ne v after_value_ready show ?thesis
        by (intro grow [of "With_value a v" r "after_value c a value_ctx v"])
          (auto simp: after_value_def)
    next
      case optval
      with less.prems(1) loop have l: "cli_loop (after_command c a optval_ctx) rest = Some (0, c')"
        by (simp add: cli_loop_command)
      show ?thesis
      proof (cases "rest \<noteq> [] \<and> is_value (hd rest)")
        case True
        then obtain v r where v: "rest = v # r" "is_value v" by (cases rest) auto
        with l have "cli_loop (after_value c a optval_ctx v) r = Some (0, c')"
          by (simp add: cli_loop_value)
        with optval Cons ne v after_value_ready show ?thesis
          by (intro grow [of "Opt_value a v" r "after_value c a optval_ctx v"])
            (auto simp: after_value_def)
      next
        case False
        then have "rest = [] \<or> om_find init_grammar (hd rest) \<noteq> None"
          using ne by (cases rest) (auto simp: is_value_def)
        with optval Cons ne l show ?thesis
          by (intro grow [of "Opt_bare a" rest "after_command c a optval_ctx"]) (auto simp: ready_def)
      qed
    qed
  qed
qed

section \<open>The stack never underflows\<close>

lemma cli_token_no_underflow: "st \<noteq> [] \<Longrightarrow> last st = Eof \<Longrightarrow> cli_token st c token \<noteq> Stack_underflow"
proof (induction st arbitrary: c)
  case Nil
  then show ?case by simp
next
  case (Cons ctx rest)
  show ?case
  proof (cases "rest = []")
    case True
    with Cons.prems show ?thesis by (simp add: Let_def)
  next
    case False
    with Cons show ?thesis
      by (cases ctx) (auto simp: Let_def split: prod.splits bool.splits)
  qed
qed

lemma cli_token_keeps_bottom:
  assumes "cli_token st c token = Token_done c'" and "st \<noteq> []" and "last st = Eof"
  shows "cli_context c' \<noteq> [] \<and> last (cli_context c') = Eof"
  using assms
proof (induction st arbitrary: c)
  case Nil
  then show ?case by simp
next
  case (Cons ctx rest)
  have cmd: "cli_context d \<noteq> [] \<and> last (cli_context d) = Eof"
    if "try_command e token = (True, d)" for d e
    using that grammar_find_shape(3) [of token]
    by (auto simp: try_command_def adjust_context_def ctx_defs split: option.splits prod.splits)
  have rest: "rest \<noteq> [] \<and> last rest = Eof" if "ctx \<noteq> Eof" using Cons.prems that by (auto split: if_splits)
  show ?case
  proof (cases ctx)
    case Eof
    with Cons.prems show ?thesis by (simp add: Let_def split: if_splits)
  next
    case Value
    with Cons.prems rest show ?thesis by (auto simp: try_value_def Let_def split: if_splits)
  next
    case Optionalvalue
    with Cons.prems(1) rest Cons.IH show ?thesis
      by (auto simp: try_optionalvalue_def Let_def split: if_splits)
  next
    case Command
    obtain b d where bd: "try_command (c\<lparr>cli_context := rest\<rparr>) token = (b, d)" by (meson surj_pair)
    with Command Cons.prems(1) rest Cons.IH cmd [of "c\<lparr>cli_context := rest\<rparr>" d] show ?thesis
      by (cases b) auto
  qed
qed

lemma cli_loop_total:
  "cli_context c \<noteq> [] \<Longrightarrow> last (cli_context c) = Eof \<Longrightarrow> \<exists>r c'. cli_loop c args = Some (r, c')"
proof (induction c args rule: cli_loop.induct)
  case (1 c args)
  show ?case
  proof (cases "cli_token (cli_context c) c (get_token args)")
    case (Token_done c')
    with 1 cli_token_keeps_bottom [OF Token_done] have "\<exists>r c''. cli_loop c' (tl args) = Some (r, c'')"
      by blast
    with Token_done show ?thesis by (subst cli_loop.simps) simp
  next
    case (Return r c')
    then show ?thesis by (subst cli_loop.simps) simp
  next
    case Stack_underflow
    with 1 cli_token_no_underflow show ?thesis by blast
  qed
qed

definition cli_start :: "options \<Rightarrow> cli" where
  "cli_start opt = \<lparr>cli_context = [Command, Eof], current_option = [], current_value = [],
     errstr = [], cli_opt = opt\<rparr>"

lemma cli_parse_start: "cli_parse exe opt args = cli_loop (cli_start (extract_path exe opt)) args"
  by (simp add: cli_parse_def cli_start_def)

lemma cli_start_ready: "ready (cli_start opt)" "settled (cli_start opt) = opt"
  "cli_context (cli_start opt) = plain_ctx"
  by (simp_all add: cli_start_def ready_def settled_def emit_option_def plain_ctx_def)

lemma store_items_find:
  "om_find (store_items items opt) k =
     (case map_of (rev (map item_binding items)) k of Some v \<Rightarrow> Some v | None \<Rightarrow> om_find opt k)"
  by (simp add: store_items_def om.find_fold_assign map_add_def)

section \<open>The error string\<close>

text \<open>Only a return with \<open>-1\<close> writes \<^verbatim>\<open>errstr\<close>.\<close>

lemma emit_option_errstr [simp]: "errstr (emit_option c) = errstr c"
  by (simp add: emit_option_def Let_def)

lemma try_errstr:
  "errstr (snd (try_command c t)) = errstr c" "errstr (snd (try_value c t)) = errstr c"
  "errstr (snd (try_optionalvalue c t)) = errstr c"
  by (auto simp: try_command_def try_value_def try_optionalvalue_def adjust_context_def
      split: option.splits prod.splits)

lemma cli_token_errstr:
  "case cli_token st c t of
     Token_done c' \<Rightarrow> errstr c' = errstr (c::cli)
   | Return r c' \<Rightarrow> r = 0 \<and> errstr c' = errstr c \<or> r = -1 \<and> errstr c' \<noteq> []
   | Stack_underflow \<Rightarrow> True"
proof (induction st arbitrary: c)
  case Nil
  then show ?case by simp
next
  case (Cons ctx rest)
  let ?c = "c\<lparr>cli_context := rest\<rparr>"
  show ?case
  proof (cases ctx)
    case Command
    obtain b d where "try_command ?c t = (b, d)" by (meson surj_pair)
    with Command Cons [of d] try_errstr(1) [of ?c t] show ?thesis
      by (cases b) (auto split: cli_outcome.splits)
  next
    case Value
    obtain b d where "try_value ?c t = (b, d)" by (meson surj_pair)
    with Value try_errstr(2) [of ?c t] show ?thesis
      by (cases b) (auto split: cli_outcome.splits)
  next
    case Optionalvalue
    obtain b d where "try_optionalvalue ?c t = (b, d)" by (meson surj_pair)
    with Optionalvalue Cons [of d] try_errstr(3) [of ?c t] show ?thesis
      by (cases b) (auto split: cli_outcome.splits)
  next
    case Eof
    then show ?thesis by (simp add: Let_def)
  qed
qed

lemma cli_loop_errstr:
  "cli_loop c args = Some (r, c') \<Longrightarrow> r = 0 \<and> errstr c' = errstr c \<or> r = -1 \<and> errstr c' \<noteq> []"
proof (induction c args rule: cli_loop.induct)
  case (1 c args)
  from 1(2) have "(case cli_token (cli_context c) c (get_token args) of
      Token_done d \<Rightarrow> cli_loop d (tl args) | Return r d \<Rightarrow> Some (r, d)
    | Stack_underflow \<Rightarrow> None) = Some (r, c')"
    by (simp add: cli_loop.simps [of c args])
  with 1(1) cli_token_errstr [where st = "cli_context c" and c = c and t = "get_token args"] show ?case
    by (cases "cli_token (cli_context c) c (get_token args)") auto
qed

section \<open>Properties\<close>

text \<open>
  C14: On a command line without empty arguments the parser returns 0 exactly when the line is a
  sequence of well-formed items of the grammar: every option is in the table, an option that
  requires a value is followed by one, no value stands alone, and no value is itself an option.
\<close>

theorem cli_accepts_iff:
  assumes "[] \<notin> set args"
  shows "(\<exists>c. cli_parse exe opt args = Some (0, c)) \<longleftrightarrow>
    (\<exists>items. list_all item_ok items \<and> args = concat (map item_tokens items))"
proof
  let ?c = "cli_start (extract_path exe opt)"
  assume "\<exists>c. cli_parse exe opt args = Some (0, c)"
  then obtain c where "cli_loop ?c args = Some (0, c)" by (auto simp: cli_parse_start)
  then show "\<exists>items. list_all item_ok items \<and> args = concat (map item_tokens items)"
    using cli_loop_sound [of ?c args c] assms by (simp add: cli_start_ready)
next
  assume "\<exists>items. list_all item_ok items \<and> args = concat (map item_tokens items)"
  then show "\<exists>c. cli_parse exe opt args = Some (0, c)"
    using cli_loop_items [OF cli_start_ready(1)] by (auto simp: cli_parse_start)
qed

theorem cli_accepts_iff_witness:
  "(\<exists>c. cli_parse None [] [''-i'', ''0''] = Some (0, c)) \<and>
   \<not> (\<exists>items. list_all item_ok items \<and> [''-c''] = concat (map item_tokens items))"
proof
  have "list_all item_ok [With_value ''-i'' ''0'']"
    by (simp add: alias_of_def is_value_def grammar_find grammar_entries_def optbase_new_def ctx_defs)
  then show "\<exists>c. cli_parse None [] [''-i'', ''0''] = Some (0, c)"
    using cli_accepts_iff [of "[''-i'', ''0'']" None "[]"]
    by (auto intro!: exI [of _ "[With_value ''-i'' ''0'']"])
  have "\<nexists>c. cli_parse None [] [''-c''] = Some (0, c)"
    by (simp add: cli_parse_def cli_loop.simps get_token_def extract_path_def try_command_def
        try_value_def adjust_context_def grammar_find grammar_entries_def optbase_new_def)
  then show "\<not> (\<exists>items. list_all item_ok items \<and> [''-c''] = concat (map item_tokens items))"
    using cli_accepts_iff [of "[''-c'']" None "[]"] by simp
qed

text \<open>
  C15: Rendering well-formed items and parsing them stores, under the short name of each option,
  the value of its last occurrence (empty for a flag or an optional value left out), and leaves
  every option the line does not name as it was.
\<close>

theorem cli_stores_bindings:
  assumes "list_all item_ok items"
  shows "\<exists>c. cli_parse exe opt (concat (map item_tokens items)) = Some (0, c) \<and>
    (\<forall>k. om_find (cli_opt c) k =
       (case map_of (rev (map item_binding items)) k of
          Some v \<Rightarrow> Some v | None \<Rightarrow> om_find (extract_path exe opt) k))"
  using cli_loop_items [OF cli_start_ready(1) assms, of "extract_path exe opt"]
  by (auto simp: cli_parse_start cli_start_ready store_items_find)

theorem cli_stores_bindings_witness:
  "\<exists>c. cli_parse None [] [''--config'', ''a'', ''-j'', ''-c'', ''b''] = Some (0, c) \<and>
     om_find (cli_opt c) ''-c'' = Some ''b'' \<and> om_find (cli_opt c) ''-j'' = Some []"
  using cli_stores_bindings [of "[With_value ''--config'' ''a'', Opt_bare ''-j'', With_value ''-c'' ''b'']" None "[]"]
  by (auto simp: alias_of_def is_value_def true_name_def grammar_find grammar_entries_def
      optbase_new_def ctx_defs)

text \<open>
  C16: The parser returns on every command line, with 0 and no error text, or with \<open>-1\<close> and an
  error text; the stack of contexts never underflows.
\<close>

theorem cli_parse_returns:
  "\<exists>r c. cli_parse exe opt args = Some (r, c) \<and> (r = 0 \<and> errstr c = [] \<or> r = -1 \<and> errstr c \<noteq> [])"
proof -
  obtain r c where "cli_loop (cli_start (extract_path exe opt)) args = Some (r, c)"
    using cli_loop_total [of "cli_start (extract_path exe opt)" args] by (auto simp: cli_start_def)
  with cli_loop_errstr [OF this] show ?thesis by (simp add: cli_parse_start cli_start_def)
qed

end
