(* ===== verification/Gpu_List.thy ===== *)
theory Gpu_List
  imports Ordered_Map "HOL-Library.Multiset"
begin

unbundle bit_operations_syntax

text \<open>
  \<^verbatim>\<open>src/gpu_util.cpp\<close> and the GPU part of \<^verbatim>\<open>src/rvs_util.cpp\<close>: the cross-index of the GPUs
  (ids, locations, nodes, devices, indexes, PCI addresses), built from the KFD topology and the SMI
  library, and the selection of the GPUs an action runs on.  The topology files, the SMI processors
  and the HIP devices are read from the system: they are arguments, with the contents the code
  reads from them.
\<close>

section \<open>The KFD topology\<close>

text \<open>
  One node directory: the number in \<^verbatim>\<open>gpu_id\<close> and the lines "name value" of \<^verbatim>\<open>properties\<close>.  The
  loops read the file token by token and compare every token with the wanted name; a value is a
  number, hence never a name, so a loop over the lines is the same loop.
\<close>

record kfd_node =
  kfd_gpu_id :: nat
  kfd_props :: "(string \<times> nat) list"

text \<open>
  Reading a \<^verbatim>\<open>uint32_t\<close>: a value out of range stores the maximum and puts the stream in the failed
  state, which ends the loop.
\<close>

definition read_u32 :: "nat \<Rightarrow> u32 \<times> bool" where
  "read_u32 v = (if v < 2 ^ 32 then (of_nat v, True) else (-1, False))"

definition read_gpu_id :: "nat \<Rightarrow> u32" where
  "read_gpu_id v = (if v < 2 ^ 31 then of_nat v else 2 ^ 31 - 1)"

record gpulist =
  location_id :: "u16 list"
  gpu_id :: "u16 list"
  gpu_idx :: "u16 list"
  device_id :: "u16 list"
  node_id :: "u16 list"
  domain_id :: "u16 list"
  domain_loc_map :: "(u16 \<times> u16, u16) omap"
  pci_bdf :: "string list"

definition gpulist_empty :: gpulist where
  "gpulist_empty = \<lparr>location_id = [], gpu_id = [], gpu_idx = [], device_id = [], node_id = [],
     domain_id = [], domain_loc_map = [], pci_bdf = []\<rparr>"

text \<open>The first line with the wanted name, as the loops with \<^verbatim>\<open>break\<close> find it.\<close>

fun first_prop :: "string \<Rightarrow> (string \<times> nat) list \<Rightarrow> u32 option" where
  "first_prop want [] = None"
| "first_prop want ((n, v) # ps) = (if n = want then Some (fst (read_u32 v)) else first_prop want ps)"

fun gpu_get_all_location_id :: "kfd_node list \<Rightarrow> u16 list \<Rightarrow> u16 list" where
  "gpu_get_all_location_id [] acc = acc"
| "gpu_get_all_location_id (n # ns) acc =
     gpu_get_all_location_id ns
       (if read_gpu_id (kfd_gpu_id n) \<noteq> 0
        then (case first_prop ''location_id'' (kfd_props n) of None \<Rightarrow> acc | Some v \<Rightarrow> acc @ [ucast v])
        else acc)"

fun gpu_get_all_gpu_id :: "kfd_node list \<Rightarrow> u16 list \<Rightarrow> u16 list" where
  "gpu_get_all_gpu_id [] acc = acc"
| "gpu_get_all_gpu_id (n # ns) acc =
     gpu_get_all_gpu_id ns
       (if read_gpu_id (kfd_gpu_id n) \<noteq> 0 then acc @ [ucast (read_gpu_id (kfd_gpu_id n))] else acc)"

fun gpu_get_all_device_id :: "kfd_node list \<Rightarrow> u16 list \<Rightarrow> u16 list" where
  "gpu_get_all_device_id [] acc = acc"
| "gpu_get_all_device_id (n # ns) acc =
     gpu_get_all_device_id ns
       (if read_gpu_id (kfd_gpu_id n) \<noteq> 0
        then (case first_prop ''device_id'' (kfd_props n) of None \<Rightarrow> acc | Some v \<Rightarrow> acc @ [ucast v])
        else acc)"

text \<open>
  The SMI processors in order, each with the KFD id the library reports or \<open>None\<close> on failure; the
  map keeps the first index of an id.
\<close>

fun smi_index_map :: "nat option list \<Rightarrow> nat \<Rightarrow> (nat, u16) omap \<Rightarrow> (nat, u16) omap" where
  "smi_index_map [] i m = m"
| "smi_index_map (p # ps) i m =
     smi_index_map ps (Suc i) (case p of None \<Rightarrow> m | Some kfd \<Rightarrow> om_insert kfd (of_nat i) m)"

fun gpu_idx_loop :: "(nat, u16) omap \<Rightarrow> kfd_node list \<Rightarrow> u16 list \<Rightarrow> u16 list" where
  "gpu_idx_loop m [] acc = acc"
| "gpu_idx_loop m (n # ns) acc =
     gpu_idx_loop m ns
       (if read_gpu_id (kfd_gpu_id n) \<noteq> 0
        then (case om_find m (unat (read_gpu_id (kfd_gpu_id n))) of None \<Rightarrow> acc | Some i \<Rightarrow> acc @ [i])
        else acc)"

definition gpu_get_all_gpu_idx :: "nat option list \<Rightarrow> kfd_node list \<Rightarrow> u16 list \<Rightarrow> u16 list" where
  "gpu_get_all_gpu_idx smi ns acc =
     (if smi = [] then acc else gpu_idx_loop (smi_index_map smi 0 []) ns acc)"

fun gpu_get_all_node_id :: "kfd_node list \<Rightarrow> nat \<Rightarrow> u16 list \<Rightarrow> u16 list" where
  "gpu_get_all_node_id [] i acc = acc"
| "gpu_get_all_node_id (n # ns) i acc =
     gpu_get_all_node_id ns (Suc i)
       (if read_gpu_id (kfd_gpu_id n) \<noteq> 0 then acc @ [of_nat i] else acc)"

text \<open>
  The domain loop reads the whole file.  Its two variables are declared outside of the loop over
  the nodes, so a node without one of the lines uses the value of the node before.
\<close>

fun domain_props :: "(string \<times> nat) list \<Rightarrow> u16 list \<times> u32 \<times> u32 \<Rightarrow> u16 list \<times> u32 \<times> u32" where
  "domain_props [] st = st"
| "domain_props ((n, v) # ps) (doms, dv, lv) =
     (if n = ''domain'' then
        (case read_u32 v of (x, good) \<Rightarrow>
           let st = (doms @ [ucast x], x, lv) in if good then domain_props ps st else st)
      else if n = ''location_id'' then
        (case read_u32 v of (x, good) \<Rightarrow>
           let st = (doms, dv, x) in if good then domain_props ps st else st)
      else domain_props ps (doms, dv, lv))"

fun gpu_get_all_domain_id ::
  "kfd_node list \<Rightarrow> u16 list \<times> u32 \<times> u32 \<Rightarrow> (u16 \<times> u16, u16) omap \<Rightarrow> u16 list \<times> (u16 \<times> u16, u16) omap" where
  "gpu_get_all_domain_id [] (doms, dv, lv) m = (doms, m)"
| "gpu_get_all_domain_id (n # ns) st m =
     (if read_gpu_id (kfd_gpu_id n) \<noteq> 0 then
        (case domain_props (kfd_props n) st of (doms, dv, lv) \<Rightarrow>
           gpu_get_all_domain_id ns (doms, dv, lv)
             (om_assign (ucast dv, ucast lv) (ucast (read_gpu_id (kfd_gpu_id n))) m))
      else gpu_get_all_domain_id ns st m)"

text \<open>Hexadecimal text of a number, and its padding to four digits.\<close>

definition hex_char :: "nat \<Rightarrow> char" where
  "hex_char d = (if d < 10 then char_of (48 + d) else char_of (87 + d))"

fun hex_digits :: "nat \<Rightarrow> string" where
  "hex_digits n = (if n < 16 then [hex_char n] else hex_digits (n div 16) @ [hex_char (n mod 16)])"

declare hex_digits.simps [simp del]

definition pad4 :: "string \<Rightarrow> string" where
  "pad4 s = replicate (4 - min 4 (length s)) (CHR ''0'') @ s"

fun bdf_props :: "(string \<times> nat) list \<Rightarrow> string \<times> string \<times> string \<Rightarrow> string \<times> string \<times> string" where
  "bdf_props [] st = st"
| "bdf_props ((n, v) # ps) (domain, bus, device) =
     (if n = ''domain'' then
        (case read_u32 v of (x, good) \<Rightarrow>
           let st = (pad4 (hex_digits (unat x)), bus, device) in if good then bdf_props ps st else st)
      else if n = ''location_id'' then
        (case read_u32 v of (x, good) \<Rightarrow>
           let location = pad4 (hex_digits (unat x));
               st = (domain, substr location 0 2, substr location 2 2)
           in if good then bdf_props ps st else st)
      else bdf_props ps (domain, bus, device))"

fun gpu_get_all_pci_bdf :: "kfd_node list \<Rightarrow> string \<times> string \<times> string \<Rightarrow> string list \<Rightarrow> string list" where
  "gpu_get_all_pci_bdf [] st acc = acc"
| "gpu_get_all_pci_bdf (n # ns) st acc =
     (if read_gpu_id (kfd_gpu_id n) \<noteq> 0 then
        (case bdf_props (kfd_props n) st of (domain, bus, device) \<Rightarrow>
           gpu_get_all_pci_bdf ns (domain, bus, device)
             (acc @ [domain @ '':'' @ bus @ '':'' @ device @ ''.0'']))
      else gpu_get_all_pci_bdf ns st acc)"

text \<open>
  \<open>garbage\<close> is the indeterminate initial value of the two domain variables.  The vectors are static
  and the functions append to them, so a second call appends a second copy.
\<close>

definition gpulist_Initialize :: "u32 \<times> u32 \<Rightarrow> nat option list \<Rightarrow> kfd_node list \<Rightarrow> gpulist \<Rightarrow> gpulist" where
  "gpulist_Initialize garbage smi ns g =
     (case gpu_get_all_domain_id ns (domain_id g, fst garbage, snd garbage) (domain_loc_map g) of
        (doms, dlm) \<Rightarrow>
          g\<lparr>location_id := gpu_get_all_location_id ns (location_id g),
            gpu_id := gpu_get_all_gpu_id ns (gpu_id g),
            gpu_idx := gpu_get_all_gpu_idx smi ns (gpu_idx g),
            device_id := gpu_get_all_device_id ns (device_id g),
            node_id := gpu_get_all_node_id ns 0 (node_id g),
            domain_id := doms,
            domain_loc_map := dlm,
            pci_bdf := gpu_get_all_pci_bdf ns ([], [], []) (pci_bdf g)\<rparr>)"

section \<open>Lookups\<close>

text \<open>
  Every lookup finds the position of a key in one vector and reads another vector there.  Reading
  past the end of the second vector is undefined in C++; it is a value here.
\<close>

datatype 'v lookup = Found 'v | Not_found | Out_of_bounds

fun position :: "'k \<Rightarrow> 'k list \<Rightarrow> nat \<Rightarrow> nat option" where
  "position k [] i = None"
| "position k (x # xs) i = (if x = k then Some i else position k xs (Suc i))"

definition lookup_by :: "'k list \<Rightarrow> 'v list \<Rightarrow> 'k \<Rightarrow> 'v lookup" where
  "lookup_by keys vals k =
     (case position k keys 0 of
        None \<Rightarrow> Not_found
      | Some pos \<Rightarrow> if pos < length vals then Found (vals ! pos) else Out_of_bounds)"

definition gpu2location :: "gpulist \<Rightarrow> u16 \<Rightarrow> u16 lookup" where
  "gpu2location g GpuID = lookup_by (gpu_id g) (location_id g) GpuID"

definition location2gpu :: "gpulist \<Rightarrow> u16 \<Rightarrow> u16 lookup" where
  "location2gpu g LocationID = lookup_by (location_id g) (gpu_id g) LocationID"

definition node2gpu :: "gpulist \<Rightarrow> u16 \<Rightarrow> u16 lookup" where
  "node2gpu g NodeID = lookup_by (node_id g) (gpu_id g) NodeID"

definition node2bdf :: "gpulist \<Rightarrow> u16 \<Rightarrow> string lookup" where
  "node2bdf g NodeID = lookup_by (node_id g) (pci_bdf g) NodeID"

definition location2device :: "gpulist \<Rightarrow> u16 \<Rightarrow> u16 lookup" where
  "location2device g LocationID = lookup_by (location_id g) (device_id g) LocationID"

definition gpu2device :: "gpulist \<Rightarrow> u16 \<Rightarrow> u16 lookup" where
  "gpu2device g GpuID = lookup_by (gpu_id g) (device_id g) GpuID"

definition gpu2gpuindex :: "gpulist \<Rightarrow> u16 \<Rightarrow> u16 lookup" where
  "gpu2gpuindex g GpuID = lookup_by (gpu_id g) (gpu_idx g) GpuID"

definition gpu2node :: "gpulist \<Rightarrow> u16 \<Rightarrow> u16 lookup" where
  "gpu2node g GpuID = lookup_by (gpu_id g) (node_id g) GpuID"

definition location2node :: "gpulist \<Rightarrow> u16 \<Rightarrow> u16 lookup" where
  "location2node g LocationID = lookup_by (location_id g) (node_id g) LocationID"

definition gpu2domain :: "gpulist \<Rightarrow> u16 \<Rightarrow> u16 lookup" where
  "gpu2domain g GpuID = lookup_by (gpu_id g) (domain_id g) GpuID"

definition domlocation2gpu :: "gpulist \<Rightarrow> u16 \<Rightarrow> u16 \<Rightarrow> u16 lookup" where
  "domlocation2gpu g domainID LocationID =
     (case om_find (domain_loc_map g) (domainID, LocationID) of None \<Rightarrow> Not_found | Some v \<Rightarrow> Found v)"

definition domlocation2node :: "gpulist \<Rightarrow> u16 \<Rightarrow> u16 \<Rightarrow> u16 lookup" where
  "domlocation2node g domainID LocationID =
     (case om_find (domain_loc_map g) (domainID, LocationID) of
        None \<Rightarrow> Not_found | Some v \<Rightarrow> gpu2node g v)"

text \<open>\<open>smi_num_devices\<close> is the size of the SMI map of PCI addresses.\<close>

fun gpu_check_if_gpu_indexes :: "nat \<Rightarrow> u16 list \<Rightarrow> bool" where
  "gpu_check_if_gpu_indexes smi_num_devices [] = True"
| "gpu_check_if_gpu_indexes smi_num_devices (x # xs) =
     (if smi_num_devices \<le> unat x then False else gpu_check_if_gpu_indexes smi_num_devices xs)"

section \<open>The platform name\<close>

definition gpu_dev_map :: "(u16, string) omap" where
  "gpu_dev_map = fold (\<lambda>(k, v). om_insert k v)
    [(0x74a1, ''MI300X''), (0x74a9, ''MI300X-HF''), (0x74a2, ''MI308X''), (0x74a8, ''MI308X-HF''),
     (0x74a5, ''MI325X''), (0x75a0, ''MI350X''), (0x75a3, ''MI355X''), (0x75a8, ''MI350P'')] []"

definition classify_uw :: "u64 \<Rightarrow> string" where
  "classify_uw cap_uw =
     (if 400 * 1000000 \<le> cap_uw \<and> cap_uw \<le> 500 * 1000000 then ''MI350P-450W''
      else if 550 * 1000000 \<le> cap_uw \<and> cap_uw \<le> 650 * 1000000 then ''MI350P-600W''
      else [])"

definition classify_w :: "u32 \<Rightarrow> string" where
  "classify_w cap_w =
     (if 400 \<le> cap_w \<and> cap_w \<le> 500 then ''MI350P-450W''
      else if 550 \<le> cap_w \<and> cap_w \<le> 650 then ''MI350P-600W''
      else [])"

text \<open>
  What the SMI library answers for the first processor: \<open>None\<close> without one; otherwise the maximum
  power cap and the power limit, each \<open>None\<close> when its query fails.
\<close>

type_synonym smi_power = "(u64 option \<times> u32 option) option"

definition gpu_get_platform_name :: "smi_power \<Rightarrow> gpulist \<Rightarrow> string" where
  "gpu_get_platform_name pwr g =
     (let dev_id = (case device_id g of [] \<Rightarrow> 0 | d # _ \<Rightarrow> d) in
      if list_ex (\<lambda>d. dev_id \<noteq> d) (device_id g) then []
      else (case om_find gpu_dev_map dev_id of
              None \<Rightarrow> []
            | Some name \<Rightarrow>
                if name = ''MI350P'' then
                  (case pwr of
                     None \<Rightarrow> ''MI350P-450W''
                   | Some (max_power_cap, power_limit) \<Rightarrow>
                       (case max_power_cap of
                          Some cap \<Rightarrow>
                            if 0 < cap then (let sku = classify_uw cap in if sku \<noteq> [] then sku else ''MI350P-450W'')
                            else (case power_limit of
                                    Some lim \<Rightarrow> if 0 < lim then (let sku = classify_w lim in if sku \<noteq> [] then sku else ''MI350P-450W'')
                                                else ''MI350P-450W''
                                  | None \<Rightarrow> ''MI350P-450W'')
                        | None \<Rightarrow>
                            (case power_limit of
                               Some lim \<Rightarrow> if 0 < lim then (let sku = classify_w lim in if sku \<noteq> [] then sku else ''MI350P-450W'')
                                           else ''MI350P-450W''
                             | None \<Rightarrow> ''MI350P-450W'')))
                else name))"

section \<open>HIP devices\<close>

text \<open>A HIP device: its PCI address as HIP reports it, its name and its architecture string.\<close>

record hip_device =
  hip_dom :: u32
  hip_bus :: u32
  hip_dev :: u32
  hip_fun :: u32
  hip_bus_id :: string
  hip_name :: string
  hip_mcm_die :: bool  \<comment> \<open>what \<^verbatim>\<open>gpu_check_if_mcm_die\<close> answers\<close>
  hip_gfx90a :: bool

definition dev_location_id :: "hip_device \<Rightarrow> u32" where
  "dev_location_id d = (push_bit 8 (hip_bus d) OR push_bit 3 (hip_dev d)) OR hip_fun d"

datatype mcm_type_t = PRIMARY | SECONDARY

text \<open>The part of both device loops that finds the GPU; \<open>None\<close> is \<^verbatim>\<open>continue\<close>.\<close>

datatype 'a probe = Skip | Fault | Probe 'a

definition probe_gpu :: "gpulist \<Rightarrow> hip_device \<Rightarrow> (u16 \<times> u16 \<times> u16) probe" where
  "probe_gpu g d =
     (case domlocation2gpu g (ucast (hip_dom d)) (ucast (dev_location_id d)) of
        Found gid \<Rightarrow>
          (case gpu2device g gid of
             Found devId \<Rightarrow>
               (case gpu2gpuindex g gid of
                  Found gpuIdx \<Rightarrow> Probe (gid, devId, gpuIdx)
                | Not_found \<Rightarrow> Skip | Out_of_bounds \<Rightarrow> Fault)
           | Not_found \<Rightarrow> Skip | Out_of_bounds \<Rightarrow> Fault)
      | _ \<Rightarrow> Skip)"

record gpu_selection =
  sel_device :: "u16 list"
  sel_device_id :: int
  sel_device_all :: bool
  sel_index :: "u16 list"
  sel_index_all :: bool

definition cur_gpu_selected :: "gpu_selection \<Rightarrow> u16 \<Rightarrow> u16 \<Rightarrow> bool" where
  "cur_gpu_selected s gid gpuIdx =
     (if sel_device_all s \<or> sel_index_all s then True
      else list_ex (\<lambda>x. x = gid) (sel_device s) \<or> list_ex (\<lambda>x. x = gpuIdx) (sel_index s))"

text \<open>
  The loop of \<^verbatim>\<open>fetch_gpu_list\<close>: the selected devices by HIP index, and the MCM types of the
  probed devices in order.  \<open>None\<close> is a lookup past the end of a vector.
\<close>

fun fetch_gpu_loop ::
  "gpulist \<Rightarrow> gpu_selection \<Rightarrow> bool \<Rightarrow> hip_device list \<Rightarrow> nat \<Rightarrow> (nat, u16) omap \<times> mcm_type_t list \<times> bool
     \<Rightarrow> ((nat, u16) omap \<times> mcm_type_t list \<times> bool) option" where
  "fetch_gpu_loop g s mcm_check [] i st = Some st"
| "fetch_gpu_loop g s mcm_check (d # ds) i (m, mcm, found) =
     (case probe_gpu g d of
        Fault \<Rightarrow> None
      | Skip \<Rightarrow> fetch_gpu_loop g s mcm_check ds (Suc i) (m, mcm, found)
      | Probe (gid, devId, gpuIdx) \<Rightarrow>
          if 0 < sel_device_id s \<and> sel_device_id s \<noteq> uint devId
          then fetch_gpu_loop g s mcm_check ds (Suc i) (m, mcm, found)
          else
            let mcm' = (if mcm_check
                        then mcm @ [if hip_gfx90a d \<and> hip_mcm_die d then SECONDARY else PRIMARY]
                        else mcm)
            in if cur_gpu_selected s gid gpuIdx
               then fetch_gpu_loop g s mcm_check ds (Suc i) (om_insert i gid m, mcm', True)
               else fetch_gpu_loop g s mcm_check ds (Suc i) (m, mcm', found))"

definition fetch_gpu_list ::
  "gpulist \<Rightarrow> gpu_selection \<Rightarrow> bool \<Rightarrow> hip_device list \<Rightarrow> (nat, u16) omap \<Rightarrow> mcm_type_t list
     \<Rightarrow> ((nat, u16) omap \<times> mcm_type_t list \<times> bool) option" where
  "fetch_gpu_list g s mcm_check ds m mcm = fetch_gpu_loop g s mcm_check ds 0 (m, mcm, False)"

record device_info =
  di_bus :: string
  di_name :: string
  di_node_id :: int
  di_gpu_id :: int
  di_device_id :: int
  di_bdfId :: u64

definition complete_bdf :: "hip_device \<Rightarrow> u64" where
  "complete_bdf d =
     ((push_bit 24 (ucast (hip_dom d) AND 0xFFFF) OR push_bit 16 (ucast (hip_bus d) AND 0xFF))
        OR push_bit 3 (ucast (hip_dev d) AND 0x1F)) OR (ucast (hip_fun d) AND 0x7)"

fun gpu_info_loop :: "gpulist \<Rightarrow> hip_device list \<Rightarrow> device_info list \<Rightarrow> device_info list option" where
  "gpu_info_loop g [] acc = Some acc"
| "gpu_info_loop g (d # ds) acc =
     (case domlocation2node g (ucast (hip_dom d)) (ucast (dev_location_id d)) of
        Not_found \<Rightarrow> gpu_info_loop g ds acc
      | Out_of_bounds \<Rightarrow> None
      | Found nid \<Rightarrow>
          (case domlocation2gpu g (ucast (hip_dom d)) (ucast (dev_location_id d)) of
             Found gid \<Rightarrow>
               (case gpu2device g gid of
                  Found dev \<Rightarrow>
                    gpu_info_loop g ds (acc @ [\<lparr>di_bus = hip_bus_id d, di_name = hip_name d,
                      di_node_id = uint nid, di_gpu_id = uint gid, di_device_id = uint dev,
                      di_bdfId = complete_bdf d\<rparr>])
                | Not_found \<Rightarrow> gpu_info_loop g ds acc
                | Out_of_bounds \<Rightarrow> None)
           | _ \<Rightarrow> gpu_info_loop g ds acc))"

definition get_gpu_info :: "gpulist \<Rightarrow> hip_device list \<Rightarrow> device_info list option" where
  "get_gpu_info g ds = map_option (sort_key di_bdfId) (gpu_info_loop g ds [])"

text \<open>The identifier that joins HIP and SMI devices, and the search for the handle and for the node.\<close>

definition hip_bdf_id :: "hip_device \<Rightarrow> u64" where
  "hip_bdf_id d =
     ((push_bit 32 (ucast (hip_dom d) AND 0x00000000ffffffff) OR push_bit 8 (ucast (hip_bus d) AND 0xff))
        OR push_bit 3 (ucast (hip_dev d) AND 0x1f)) OR (ucast (hip_fun d) AND 0x7)"

definition gpu_hip_to_smi_hdl :: "hip_device list \<Rightarrow> (u64, 'h) omap \<Rightarrow> nat \<Rightarrow> 'h option" where
  "gpu_hip_to_smi_hdl hips smi_map hip_index =
     (if length hips \<le> hip_index then None
      else om_find smi_map (hip_bdf_id (hips ! hip_index)))"

fun node_props :: "(string \<times> nat) list \<Rightarrow> u32 \<times> u32 \<Rightarrow> u32 \<times> u32" where
  "node_props [] st = st"
| "node_props ((n, v) # ps) (dv, lv) =
     (if n = ''domain'' then
        (case read_u32 v of (x, good) \<Rightarrow> if good then node_props ps (x, lv) else (x, lv))
      else if n = ''location_id'' then
        (case read_u32 v of (x, good) \<Rightarrow> if good then node_props ps (dv, x) else (dv, x))
      else node_props ps (dv, lv))"

fun hip_to_node_loop :: "u64 \<Rightarrow> kfd_node list \<Rightarrow> nat \<Rightarrow> nat option" where
  "hip_to_node_loop bdf [] i = None"
| "hip_to_node_loop bdf (n # ns) i =
     (if read_gpu_id (kfd_gpu_id n) = 0 then hip_to_node_loop bdf ns (Suc i)
      else case node_props (kfd_props n) (0, 0) of (dv, lv) \<Rightarrow>
        if bdf = (push_bit 32 (ucast dv) OR ucast lv) then Some i else hip_to_node_loop bdf ns (Suc i))"

definition gpu_hip_to_node :: "hip_device list \<Rightarrow> kfd_node list \<Rightarrow> nat \<Rightarrow> nat option" where
  "gpu_hip_to_node hips ns hip_index =
     (if length hips \<le> hip_index then None
      else hip_to_node_loop (hip_bdf_id (hips ! hip_index)) ns 0)"


section \<open>Positions and lookups\<close>

lemma position_shift: "position k xs (Suc i) = map_option Suc (position k xs i)"
  by (induction xs arbitrary: i) auto

lemma position_None: "position k xs i = None \<longleftrightarrow> k \<notin> set xs"
  by (induction xs arbitrary: i) auto

lemma position_nth: "distinct xs \<Longrightarrow> i < length xs \<Longrightarrow> position (xs ! i) xs 0 = Some i"
proof (induction xs arbitrary: i)
  case Nil
  then show ?case by simp
next
  case (Cons x xs)
  then show ?case
    by (cases i) (auto simp: position_shift)
qed

lemma position_append: "position k (xs @ ys) i =
    (case position k xs i of Some j \<Rightarrow> Some j | None \<Rightarrow> position k ys (i + length xs))"
  by (induction xs arbitrary: i) (auto split: option.splits)

lemma position_less: "position k xs i = Some j \<Longrightarrow> j < i + length xs"
  by (induction xs arbitrary: i) (fastforce split: if_splits)+

lemma lookup_by_nth:
  "distinct ks \<Longrightarrow> length vs = length ks \<Longrightarrow> i < length ks \<Longrightarrow> lookup_by ks vs (ks ! i) = Found (vs ! i)"
  by (simp add: lookup_by_def position_nth)

lemma lookup_by_absent: "k \<notin> set ks \<Longrightarrow> lookup_by ks vs k = Not_found"
  using position_None [of k ks 0] by (simp add: lookup_by_def)

lemma lookup_by_append:
  assumes "length vs = length ks"
  shows "lookup_by (ks @ ks) (vs @ vs) k = lookup_by ks vs k"
proof (cases "position k ks 0")
  case None
  then have "k \<notin> set ks" by (simp add: position_None)
  then show ?thesis by (simp add: lookup_by_absent)
next
  case (Some j)
  with position_less [OF Some] assms show ?thesis
    by (simp add: lookup_by_def position_append nth_append)
qed

section \<open>The vectors the topology yields\<close>

definition is_gpu :: "kfd_node \<Rightarrow> bool" where
  "is_gpu n \<longleftrightarrow> read_gpu_id (kfd_gpu_id n) \<noteq> 0"

definition id16 :: "kfd_node \<Rightarrow> u16" where
  "id16 n = ucast (read_gpu_id (kfd_gpu_id n))"

text \<open>A node states a property when one of its lines has the name; the first one counts.\<close>

definition states :: "string \<Rightarrow> kfd_node \<Rightarrow> bool" where
  "states p n \<longleftrightarrow> first_prop p (kfd_props n) \<noteq> None"

definition prop16 :: "string \<Rightarrow> kfd_node \<Rightarrow> u16" where
  "prop16 p n = ucast (the (first_prop p (kfd_props n)))"

definition topology_ok :: "kfd_node list \<Rightarrow> bool" where
  "topology_ok ns \<longleftrightarrow>
     list_all (\<lambda>n. is_gpu n \<longrightarrow> states ''location_id'' n \<and> states ''device_id'' n) ns \<and>
     distinct (map id16 (filter is_gpu ns))"

lemma location_ids:
  "list_all (\<lambda>n. is_gpu n \<longrightarrow> states ''location_id'' n) ns \<Longrightarrow>
     gpu_get_all_location_id ns acc = acc @ map (prop16 ''location_id'') (filter is_gpu ns)"
  by (induction ns arbitrary: acc) (auto simp: is_gpu_def states_def prop16_def)

lemma device_ids:
  "list_all (\<lambda>n. is_gpu n \<longrightarrow> states ''device_id'' n) ns \<Longrightarrow>
     gpu_get_all_device_id ns acc = acc @ map (prop16 ''device_id'') (filter is_gpu ns)"
  by (induction ns arbitrary: acc) (auto simp: is_gpu_def states_def prop16_def)

lemma gpu_ids: "gpu_get_all_gpu_id ns acc = acc @ map id16 (filter is_gpu ns)"
  by (induction ns arbitrary: acc) (auto simp: is_gpu_def id16_def)

lemma node_ids:
  "gpu_get_all_node_id ns i acc =
     acc @ map (of_nat \<circ> fst) (filter (is_gpu \<circ> snd) (enumerate i ns))"
  by (induction ns arbitrary: i acc) (auto simp: is_gpu_def)

lemma gpus_enumerate: "map snd (filter (is_gpu \<circ> snd) (enumerate i ns)) = filter is_gpu ns"
  by (induction ns arbitrary: i) auto

lemma gpus_enumerate_length: "length (filter (is_gpu \<circ> snd) (enumerate i ns)) = length (filter is_gpu ns)"
  using arg_cong [OF gpus_enumerate, of length i ns] by simp

lemma topology_okD:
  assumes "topology_ok ns"
  shows "list_all (\<lambda>n. is_gpu n \<longrightarrow> states ''location_id'' n) ns"
    and "list_all (\<lambda>n. is_gpu n \<longrightarrow> states ''device_id'' n) ns"
    and "distinct (map id16 (filter is_gpu ns))"
  using assms by (auto simp: topology_ok_def list_all_iff)

lemma gpulist_empty_fields [simp]:
  "location_id gpulist_empty = []" "gpu_id gpulist_empty = []" "device_id gpulist_empty = []"
  "node_id gpulist_empty = []" "gpu_idx gpulist_empty = []" "domain_loc_map gpulist_empty = []"
  by (simp_all add: gpulist_empty_def)

text \<open>The vectors after one call on the tables \<open>g\<close>.\<close>

lemma Initialize_vectors:
  assumes "topology_ok ns"
  shows "gpu_id (gpulist_Initialize z smi ns g) = gpu_id g @ map id16 (filter is_gpu ns)"
    and "location_id (gpulist_Initialize z smi ns g) = location_id g @ map (prop16 ''location_id'') (filter is_gpu ns)"
    and "device_id (gpulist_Initialize z smi ns g) = device_id g @ map (prop16 ''device_id'') (filter is_gpu ns)"
    and "node_id (gpulist_Initialize z smi ns g) =
      node_id g @ map (of_nat \<circ> fst) (filter (is_gpu \<circ> snd) (enumerate 0 ns))"
  by (simp_all add: gpulist_Initialize_def gpu_ids location_ids device_ids node_ids
      topology_okD [OF assms] split: prod.splits)

text \<open>The position of a node among the GPU nodes.\<close>

lemma gpu_at:
  assumes "k < length ns" and "is_gpu (ns ! k)"
  shows "\<exists>i < length (filter is_gpu ns). filter is_gpu ns ! i = ns ! k \<and>
     filter (is_gpu \<circ> snd) (enumerate 0 ns) ! i = (k, ns ! k)"
proof -
  have "(k, ns ! k) \<in> set (filter (is_gpu \<circ> snd) (enumerate 0 ns))"
    using assms by (auto simp: in_set_enumerate_eq)
  then obtain i where i: "i < length (filter (is_gpu \<circ> snd) (enumerate 0 ns))"
    "filter (is_gpu \<circ> snd) (enumerate 0 ns) ! i = (k, ns ! k)" by (metis in_set_conv_nth)
  from i have "map snd (filter (is_gpu \<circ> snd) (enumerate 0 ns)) ! i = ns ! k" by simp
  then have "filter is_gpu ns ! i = ns ! k" by (simp only: gpus_enumerate)
  with i show ?thesis by (auto simp: gpus_enumerate_length)
qed

lemma lookup_after_initialize:
  assumes "topology_ok ns" and "k < length ns" and "is_gpu (ns ! k)"
    and g: "g = gpulist_Initialize z smi ns gpulist_empty"
  shows "gpu2location g (id16 (ns ! k)) = Found (prop16 ''location_id'' (ns ! k))"
    and "gpu2device g (id16 (ns ! k)) = Found (prop16 ''device_id'' (ns ! k))"
    and "gpu2node g (id16 (ns ! k)) = Found (of_nat k)"
proof -
  obtain i where i: "i < length (filter is_gpu ns)" "filter is_gpu ns ! i = ns ! k"
    "filter (is_gpu \<circ> snd) (enumerate 0 ns) ! i = (k, ns ! k)"
    using gpu_at [OF assms(2,3)] by blast
  note vec = Initialize_vectors [OF assms(1), where g = gpulist_empty and z = z and smi = smi]
  have key: "id16 (ns ! k) = map id16 (filter is_gpu ns) ! i" using i by simp
  have look: "lookup_by (map id16 (filter is_gpu ns)) vs (id16 (ns ! k)) = Found (vs ! i)"
    if "length vs = length (filter is_gpu ns)" for vs :: "u16 list"
    using topology_okD(3) [OF assms(1)] i that by (simp add: key lookup_by_nth del: nth_map)
  show "gpu2location g (id16 (ns ! k)) = Found (prop16 ''location_id'' (ns ! k))"
    using look i by (simp add: g gpu2location_def vec)
  show "gpu2device g (id16 (ns ! k)) = Found (prop16 ''device_id'' (ns ! k))"
    using look i by (simp add: g gpu2device_def vec)
  show "gpu2node g (id16 (ns ! k)) = Found (of_nat k)"
    using look i by (simp add: g gpu2node_def vec gpus_enumerate_length)
qed

text \<open>A second initialisation doubles every vector and changes no answer.\<close>

lemma lookup_after_reinitialize:
  assumes "topology_ok ns"
    and g: "g = gpulist_Initialize z smi ns gpulist_empty" and g': "g' = gpulist_Initialize z' smi' ns g"
  shows "gpu2location g' x = gpu2location g x" and "gpu2device g' x = gpu2device g x"
    and "gpu2node g' x = gpu2node g x" and "gpu_id g' = gpu_id g @ gpu_id g"
  by (simp_all add: gpu2location_def gpu2device_def gpu2node_def g g'
      Initialize_vectors [OF assms(1)] lookup_by_append gpus_enumerate_length)

section \<open>The selection of the devices\<close>

text \<open>What makes a device selected, and under which id.\<close>

definition wanted :: "gpulist \<Rightarrow> gpu_selection \<Rightarrow> hip_device \<Rightarrow> u16 \<Rightarrow> bool" where
  "wanted g s d gid \<longleftrightarrow>
     (\<exists>devId gpuIdx. probe_gpu g d = Probe (gid, devId, gpuIdx) \<and>
        (sel_device_id s \<le> 0 \<or> sel_device_id s = uint devId) \<and> cur_gpu_selected s gid gpuIdx)"

lemma fetch_gpu_loop_map:
  assumes "fetch_gpu_loop g s mc ds i (m, mcm, found) = Some (m', mcm', found')"
    and "om_wf m" and "\<forall>j \<in> fst ` set m. j < i" and "found \<longleftrightarrow> m \<noteq> []"
  shows "om_wf m' \<and> (found' \<longleftrightarrow> m' \<noteq> []) \<and>
    (\<forall>j gid. om_find m' j = Some gid \<longleftrightarrow>
       (j < i \<and> om_find m j = Some gid) \<or> (i \<le> j \<and> j - i < length ds \<and> wanted g s (ds ! (j - i)) gid))"
  using assms
proof (induction ds arbitrary: i m mcm found)
  case Nil
  then have "om_find m j = Some gid \<Longrightarrow> j < i" for j gid
    by (metis fst_conv image_eqI map_of_SomeD)
  with Nil show ?case by auto
next
  case (Cons d ds)
  have below: "om_find m j = None" if "i \<le> j" for j
    using Cons.prems(3) that by (auto simp: map_of_eq_None_iff)
  have shift: "(Suc i \<le> j \<and> j - Suc i < length ds \<and> wanted g s (ds ! (j - Suc i)) gid) \<longleftrightarrow>
      (i < j \<and> j - i < length (d # ds) \<and> wanted g s ((d # ds) ! (j - i)) gid)" for j gid
    by (cases "i < j") (auto simp: nth_Cons' Suc_diff_Suc)
  have skip: ?case if run: "fetch_gpu_loop g s mc ds (Suc i) (m, mcm1, found) = Some (m', mcm', found')"
    and no: "\<And>gid. \<not> wanted g s d gid" for mcm1
  proof -
    have "\<forall>j \<in> fst ` set m. j < Suc i" using Cons.prems(3) by auto
    note ih = Cons.IH [OF run Cons.prems(2) this Cons.prems(4)]
    have "om_find m' j = Some gid \<longleftrightarrow> (j < i \<and> om_find m j = Some gid) \<or>
        (i \<le> j \<and> j - i < length (d # ds) \<and> wanted g s ((d # ds) ! (j - i)) gid)" for j gid
      using ih below [of j] no shift [of j gid] by (cases "j = i") (auto simp: less_Suc_eq)
    with ih show ?thesis by blast
  qed
  show ?case
  proof (cases "probe_gpu g d")
    case Skip
    then show ?thesis using Cons.prems(1) skip [of mcm] by (simp add: wanted_def)
  next
    case Fault
    with Cons.prems(1) show ?thesis by simp
  next
    case (Probe t)
    obtain gid devId gpuIdx where t: "t = (gid, devId, gpuIdx)" by (cases t)
    define mcm1 where "mcm1 = (if mc then mcm @ [if hip_gfx90a d \<and> hip_mcm_die d then SECONDARY else PRIMARY] else mcm)"
    show ?thesis
    proof (cases "\<not> (0 < sel_device_id s \<and> sel_device_id s \<noteq> uint devId) \<and> cur_gpu_selected s gid gpuIdx")
      case False
      then have "\<And>gid. \<not> wanted g s d gid" using Probe t by (auto simp: wanted_def)
      then show ?thesis
        using Cons.prems(1) Probe t False skip [of mcm] skip [of mcm1]
        by (auto simp: Let_def mcm1_def split: if_splits)
    next
      case True
      then have w: "wanted g s d x \<longleftrightarrow> x = gid" for x using Probe t by (auto simp: wanted_def)
      let ?m = "om_insert i gid m"
      have new: "om_find ?m = (om_find m)(i \<mapsto> gid)" using below [of i] by (simp add: om_find_insert)
      have run: "fetch_gpu_loop g s mc ds (Suc i) (?m, mcm1, True) = Some (m', mcm', found')"
        using Cons.prems(1) Probe t True by (auto simp: Let_def mcm1_def split: if_splits)
      have b1: "\<forall>j \<in> fst ` set ?m. j < Suc i"
        using Cons.prems(3) below [of i] by (auto simp: om_insert_def om_keys_assign)
      have b2: "True \<longleftrightarrow> ?m \<noteq> []" using fun_cong [OF new, of i] by auto
      have ih: "om_wf m' \<and> (found' \<longleftrightarrow> m' \<noteq> []) \<and> (\<forall>j gid'. om_find m' j = Some gid' \<longleftrightarrow>
          (j < Suc i \<and> om_find ?m j = Some gid') \<or>
          (Suc i \<le> j \<and> j - Suc i < length ds \<and> wanted g s (ds ! (j - Suc i)) gid'))"
        by (rule Cons.IH [OF run om_wf_insert [OF Cons.prems(2)] b1 b2])
      have "om_find m' j = Some gid' \<longleftrightarrow> (j < i \<and> om_find m j = Some gid') \<or>
          (i \<le> j \<and> j - i < length (d # ds) \<and> wanted g s ((d # ds) ! (j - i)) gid')" for j gid'
      proof -
        have ihj: "om_find m' j = Some gid' \<longleftrightarrow> (j < Suc i \<and> ((om_find m)(i \<mapsto> gid)) j = Some gid') \<or>
            (i < j \<and> j - i < length (d # ds) \<and> wanted g s ((d # ds) ! (j - i)) gid')"
          using ih unfolding new shift by blast
        consider "j < i" | "j = i" | "i < j" by linarith
        then show ?thesis
          unfolding ihj by cases (auto simp: w)
      qed
      with ih show ?thesis by blast
    qed
  qed
qed


lemma fetch_gpu_list_map:
  assumes "fetch_gpu_list g s mc ds [] mcm = Some (m, mcm', found)"
  shows "om_wf m" and "found \<longleftrightarrow> m \<noteq> []"
    and "om_find m j = Some gid \<longleftrightarrow> j < length ds \<and> wanted g s (ds ! j) gid"
  using fetch_gpu_loop_map [of g s mc ds 0 "[]" mcm False m mcm' found] assms
  by (auto simp: fetch_gpu_list_def)

section \<open>The table of devices\<close>

lemma get_gpu_info_sorted:
  assumes "get_gpu_info g ds = Some infos"
  shows "sorted (map di_bdfId infos)"
    and "\<exists>found. gpu_info_loop g ds [] = Some found \<and> mset infos = mset found"
  using assms by (auto simp: get_gpu_info_def)

lemma gpu_info_loop_length: "gpu_info_loop g ds acc = Some r \<Longrightarrow> length r \<le> length acc + length ds"
  by (induction g ds acc rule: gpu_info_loop.induct) (force split: lookup.splits)+

section \<open>Index checks and platform names\<close>

lemma gpu_check_if_gpu_indexes_iff:
  "gpu_check_if_gpu_indexes n xs \<longleftrightarrow> list_all (\<lambda>x. unat x < n) xs"
  by (induction xs) auto

lemma gpu_dev_map_find:
  "om_find gpu_dev_map = map_of [(0x74a1, ''MI300X''), (0x74a9, ''MI300X-HF''), (0x74a2, ''MI308X''),
     (0x74a8, ''MI308X-HF''), (0x74a5, ''MI325X''), (0x75a0, ''MI350X''), (0x75a3, ''MI355X''), (0x75a8, ''MI350P'')]"
  by (simp only: gpu_dev_map_def om.find_fold_insert) simp

definition platform_names :: "string list" where
  "platform_names = [[], ''MI300X'', ''MI300X-HF'', ''MI308X'', ''MI308X-HF'', ''MI325X'', ''MI350X'', ''MI355X'',
     ''MI350P-450W'', ''MI350P-600W'']"

lemma classify_names:
  "classify_uw c \<in> {[], ''MI350P-450W'', ''MI350P-600W''}" "classify_w w \<in> {[], ''MI350P-450W'', ''MI350P-600W''}"
  by (simp_all add: classify_uw_def classify_w_def)

lemma platform_name_mixed:
  "d \<in> set (device_id g) \<Longrightarrow> d' \<in> set (device_id g) \<Longrightarrow> d \<noteq> d' \<Longrightarrow> gpu_get_platform_name pwr g = []"
proof -
  assume d: "d \<in> set (device_id g)" "d' \<in> set (device_id g)" "d \<noteq> d'"
  have mixed: "list_ex (\<lambda>x. e \<noteq> x) (device_id g)" for e
    using d by (cases "e = d") (auto simp: list_ex_iff)
  show ?thesis by (simp only: gpu_get_platform_name_def Let_def mixed if_True)
qed

text \<open>With one kind of device only its identifier counts, however often the tables were filled.\<close>

definition name_of_device :: "smi_power \<Rightarrow> u16 \<Rightarrow> string" where
  "name_of_device pwr d = gpu_get_platform_name pwr (gpulist_empty\<lparr>device_id := [d]\<rparr>)"

lemma platform_name_uniform:
  assumes "device_id g \<noteq> []" and "list_all (\<lambda>x. x = d) (device_id g)"
  shows "gpu_get_platform_name pwr g = name_of_device pwr d"
proof -
  obtain ds where ds: "device_id g = d # ds" using assms by (cases "device_id g") auto
  have same: "\<not> list_ex (\<lambda>x. d \<noteq> x) (d # ds)"
    using assms(2) unfolding ds by (auto simp: list_all_iff list_ex_iff)
  show ?thesis
    unfolding name_of_device_def gpu_get_platform_name_def
    by (simp only: ds same Let_def list.case if_False) simp
qed

section \<open>A sample topology\<close>

text \<open>A CPU node and two GPUs of the same kind, as three HIP-independent node directories.\<close>

definition sample_nodes :: "kfd_node list" where
  "sample_nodes =
     [\<lparr>kfd_gpu_id = 0, kfd_props = []\<rparr>,
      \<lparr>kfd_gpu_id = 28851, kfd_props = [(''location_id'', 1280), (''domain'', 0), (''device_id'', 29857)]\<rparr>,
      \<lparr>kfd_gpu_id = 51499, kfd_props = [(''location_id'', 9472), (''domain'', 0), (''device_id'', 29857)]\<rparr>]"

definition sample_gpus :: gpulist where
  "sample_gpus = gpulist_Initialize (0, 0) [Some 28851, Some 51499] sample_nodes gpulist_empty"

definition sample_hip :: "hip_device list" where
  "sample_hip =
     [\<lparr>hip_dom = 0, hip_bus = 5, hip_dev = 0, hip_fun = 0, hip_bus_id = ''0000:05:00.0'', hip_name = ''A'',
       hip_mcm_die = False, hip_gfx90a = False\<rparr>,
      \<lparr>hip_dom = 0, hip_bus = 37, hip_dev = 0, hip_fun = 0, hip_bus_id = ''0000:25:00.0'', hip_name = ''B'',
       hip_mcm_die = False, hip_gfx90a = False\<rparr>]"

lemmas sample_topology_defs = sample_nodes_def topology_ok_def is_gpu_def id16_def states_def prop16_def
  read_gpu_id_def read_u32_def

lemma sample_topology_ok: "topology_ok sample_nodes"
  by (simp add: sample_topology_defs)

lemma sample_lookups:
  "domlocation2gpu sample_gpus 0 1280 = Found 28851" "domlocation2gpu sample_gpus 0 9472 = Found 51499"
  "gpu2device sample_gpus 28851 = Found 29857" "gpu2device sample_gpus 51499 = Found 29857"
  "gpu2gpuindex sample_gpus 28851 = Found 0" "gpu2gpuindex sample_gpus 51499 = Found 1"
  "domlocation2node sample_gpus 0 1280 = Found 1" "domlocation2node sample_gpus 0 9472 = Found 2"
  by (simp_all add: sample_gpus_def gpulist_Initialize_def sample_nodes_def read_gpu_id_def read_u32_def
      gpulist_empty_def domlocation2gpu_def domlocation2node_def gpu2node_def gpu2device_def gpu2gpuindex_def
      lookup_by_def gpu_get_all_gpu_idx_def om_insert_def)

section \<open>Properties\<close>

text \<open>
  After the tables are filled from a topology in which every GPU node states its location and
  device and no two share a 16-bit id, looking up the id of any GPU node finds its own location,
  its own device id, and the number of its node directory.
\<close>

theorem lookups_find_the_node:
  assumes "topology_ok ns" and "k < length ns" and "is_gpu (ns ! k)"
  shows "let g = gpulist_Initialize z smi ns gpulist_empty; x = id16 (ns ! k) in
    gpu2location g x = Found (prop16 ''location_id'' (ns ! k)) \<and>
    gpu2device g x = Found (prop16 ''device_id'' (ns ! k)) \<and> gpu2node g x = Found (of_nat k)"
  using lookup_after_initialize [OF assms refl, of z smi] by (simp add: Let_def)

theorem lookups_find_the_node_witness:
  "gpu2location sample_gpus 28851 = Found 1280 \<and> gpu2device sample_gpus 28851 = Found 29857 \<and>
   gpu2node sample_gpus 28851 = Found 1"
  using lookups_find_the_node [OF sample_topology_ok, of 1 "(0, 0)" "[Some 28851, Some 51499]"]
  by (simp add: sample_gpus_def sample_topology_defs Let_def)

text \<open>
  Filling the tables a second time, which the code does for the summary, doubles the vectors
  and changes no look-up by GPU id.
\<close>

theorem lookups_survive_reinitialize:
  assumes "topology_ok ns"
  shows "let g = gpulist_Initialize z smi ns gpulist_empty; g' = gpulist_Initialize z' smi' ns g in
    gpu_id g' = gpu_id g @ gpu_id g \<and> gpu2location g' x = gpu2location g x \<and>
    gpu2device g' x = gpu2device g x \<and> gpu2node g' x = gpu2node g x"
  using lookup_after_reinitialize [OF assms refl refl] by (simp add: Let_def)

theorem lookups_survive_reinitialize_witness:
  "gpu2node (gpulist_Initialize (1, 1) [] sample_nodes sample_gpus) 51499 = gpu2node sample_gpus 51499"
  using lookups_survive_reinitialize [OF sample_topology_ok, of "(0, 0)" "[Some 28851, Some 51499]" "(1, 1)" "[]" 51499]
  by (simp add: sample_gpus_def Let_def)

text \<open>
  The devices an action runs on: the map of \<^verbatim>\<open>fetch_gpu_list\<close> holds exactly the HIP indexes
  whose device the tables know, passes the device id filter, and is selected (by \<open>all\<close>, by its GPU
  id or by its GPU index), each with its GPU id; the result tells whether there is one.
\<close>

theorem fetch_gpu_list_selects:
  assumes "fetch_gpu_list g s mc ds [] mcm = Some (m, mcm', found)"
  shows "om_wf m \<and> (found \<longleftrightarrow> m \<noteq> []) \<and>
    (om_find m j = Some gid \<longleftrightarrow> j < length ds \<and> wanted g s (ds ! j) gid)"
  using fetch_gpu_list_map [OF assms] by blast

theorem fetch_gpu_list_selects_witness:
  "\<exists>m mcm. fetch_gpu_list sample_gpus \<lparr>sel_device = [51499], sel_device_id = 0, sel_device_all = False,
       sel_index = [], sel_index_all = False\<rparr> False sample_hip [] [] = Some (m, mcm, True) \<and>
     om_find m 0 \<noteq> Some 28851 \<and> m \<noteq> []"
proof -
  let ?s = "\<lparr>sel_device = [51499], sel_device_id = 0, sel_device_all = False, sel_index = [], sel_index_all = False\<rparr>"
  have run: "fetch_gpu_list sample_gpus ?s False sample_hip [] [] = Some ([(1, 51499)], [], True)"
    by (simp add: fetch_gpu_list_def sample_hip_def probe_gpu_def dev_location_id_def sample_lookups cur_gpu_selected_def
        om_insert_def Let_def)
  from fetch_gpu_list_selects [OF this, of 0 28851] run show ?thesis
    by (simp add: sample_hip_def wanted_def probe_gpu_def dev_location_id_def sample_lookups cur_gpu_selected_def)
qed

text \<open>
  The platform name is that of the one device id all GPUs share; without a GPU, and with GPUs
  of two kinds, there is none.
\<close>

theorem platform_name_decided:
  "gpu_get_platform_name pwr g =
     (if device_id g \<noteq> [] \<and> list_all (\<lambda>x. x = hd (device_id g)) (device_id g)
      then name_of_device pwr (hd (device_id g)) else [])"
proof (cases "device_id g = []")
  case True
  then show ?thesis by (simp add: gpu_get_platform_name_def gpu_dev_map_find)
next
  case False
  show ?thesis
  proof (cases "list_all (\<lambda>x. x = hd (device_id g)) (device_id g)")
    case True
    with False platform_name_uniform [of g "hd (device_id g)" pwr] show ?thesis by simp
  next
    case f: False
    then obtain d where "d \<in> set (device_id g)" "d \<noteq> hd (device_id g)" by (auto simp: list_all_iff)
    with f False platform_name_mixed [of d g "hd (device_id g)" pwr] show ?thesis by auto
  qed
qed

end
