(* ===== verification/Overview.thy ===== *)
theory Overview
  imports Gpu_List
begin

text \<open>
  The system overview the launcher prints (\<^verbatim>\<open>systemOverview\<close> and the version functions of
  \<^verbatim>\<open>rvs/src/rvsexec_do_yaml.cpp\<close>).  The texts it reads (the lines of \<^verbatim>\<open>/etc/os-release\<close>, the
  output of \<^verbatim>\<open>dkms status\<close>, the first line of the ROCm version file) are arguments.  The table is a
  list of lines; a constructor call \<^verbatim>\<open>std::string(n, ' ')\<close> with a negative \<open>n\<close> throws, which ends
  the list with the flag \<open>False\<close>.
\<close>

section \<open>Versions\<close>

fun os_release_name :: "string list \<Rightarrow> string" where
  "os_release_name [] = []"
| "os_release_name (line # ls) =
     (if starts_with ''PRETTY_NAME='' line then
        (let osName = drop 12 line in
         if osName \<noteq> [] \<and> hd osName = CHR 0x22 \<and> last osName = CHR 0x22 then
           (let osName = substr osName 1 (length osName - 2) in
            case str_find osName ''('' 0 of None \<Rightarrow> osName | Some pos \<Rightarrow> substr osName 0 pos)
         else osName)
      else os_release_name ls)"

definition getOSNameVersion :: "string list option \<Rightarrow> string" where
  "getOSNameVersion file =
     (case file of
        None \<Rightarrow> ''N/A''
      | Some ls \<Rightarrow> (let osName = os_release_name ls in if osName = [] then ''N/A'' else osName))"

definition getAmdGpuDriverVersion :: "string option \<Rightarrow> string" where
  "getAmdGpuDriverVersion pipe =
     (case pipe of
        None \<Rightarrow> ''N/A''
      | Some result \<Rightarrow>
          (case str_find result ''/'' 0 of
             None \<Rightarrow> ''N/A''
           | Some slashPos \<Rightarrow>
               (case str_find result ''-'' slashPos of
                  None \<Rightarrow> ''N/A''
                | Some commaPos \<Rightarrow> substr result (slashPos + 1) (commaPos - slashPos - 1))))"

text \<open>
  \<open>core\<close> is \<open>None\<close> in a build without the ROCm core library; otherwise the numbers it reports,
  if it succeeds.  \<open>vfile\<close> is the first line of the version file, if the file opens.
\<close>

definition getROCmVersion :: "(nat \<times> nat \<times> nat) option option \<Rightarrow> string option \<Rightarrow> string" where
  "getROCmVersion core vfile =
     (case core of
        Some (Some (mj, mn, p)) \<Rightarrow> to_string mj @ ''.'' @ to_string mn @ ''.'' @ to_string p
      | Some None \<Rightarrow> ''N/A''
      | None \<Rightarrow> (case vfile of None \<Rightarrow> ''N/A'' | Some line \<Rightarrow> if line = [] then ''N/A'' else line))"

section \<open>The table\<close>

definition setw_left :: "nat \<Rightarrow> string \<Rightarrow> string" where
  "setw_left n t = t @ replicate (n - length t) (CHR '' '')"

text \<open>\<^verbatim>\<open>std::string(n, ' ')\<close>.\<close>

definition blanks :: "int \<Rightarrow> string option" where
  "blanks n = (if n < 0 then None else Some (replicate (nat n) (CHR '' '')))"

definition table_line :: "char \<Rightarrow> string" where
  "table_line c = ''+'' @ replicate 69 c @ ''+''"

definition cr :: string where "cr = [CHR 0x0D]"
definition red :: string where "red = CHR 0x1B # ''[31m''"
definition green :: string where "green = CHR 0x1B # ''[32m''"
definition plain_colour :: string where "plain_colour = CHR 0x1B # ''[0m''"

definition title_line :: "string \<Rightarrow> string" where
  "title_line header =
     (let padding = 69 - length header; padleft = padding div 2; padright = padding - padleft
      in ''|'' @ replicate padleft (CHR '' '') @ header @ replicate padright (CHR '' '') @ ''|'')"

definition overview_row :: "string \<Rightarrow> string \<Rightarrow> string" where
  "overview_row key val = cr @ ''|'' @ '' '' @ setw_left 32 key @ '' | '' @ setw_left 32 val @ '' '' @ ''|''"

definition no_gpus_row :: string where
  "no_gpus_row = cr @ ''|'' @ '' '' @ setw_left 32 ''GPUs'' @ '' | '' @ red @ setw_left 32 ''No GPUs detected !''
     @ plain_colour @ '' '' @ ''|''"

definition gpu_row :: "string \<Rightarrow> string \<Rightarrow> string option" where
  "gpu_row l r =
     (case blanks (32 - int (length l)) of
        None \<Rightarrow> None
      | Some a \<Rightarrow>
          (case blanks (32 - int (length r)) of
             None \<Rightarrow> None
           | Some b \<Rightarrow> Some (cr @ ''|'' @ '' '' @ l @ a @ '' '' @ ''|'' @ '' '' @ r @ b @ '' '' @ ''|'')))"

definition na_row :: "string \<Rightarrow> string" where
  "na_row l = cr @ ''|'' @ '' '' @ setw_left 32 l @ '' '' @ ''|'' @ '' '' @ red @ setw_left 32 ''N/A'' @ '' ''
     @ plain_colour @ ''|''"

definition short_name :: "string \<Rightarrow> string" where
  "short_name n = (if 24 < length n then substr n 0 (24 - 4) @ ''...'' else n)"

definition gpu_label :: "device_info \<Rightarrow> string" where
  "gpu_label d = short_name (di_name d) @ '' - '' @ to_string_int (di_gpu_id d)"

definition gpu_place :: "nat \<Rightarrow> device_info \<Rightarrow> string" where
  "gpu_place i d = to_string i @ '' - '' @ to_string_int (di_node_id d) @ '' - '' @ di_bus d"

text \<open>
  The loop over the pairs; an entry \<open>None\<close> throws.  With a single device left the code would read
  past the vector: the whole result is \<open>None\<close>.
\<close>

fun gpu_pairs :: "nat \<Rightarrow> device_info list \<Rightarrow> string option list option" where
  "gpu_pairs i [] = Some []"
| "gpu_pairs i [d] = None"
| "gpu_pairs i (d # e # ds) =
     map_option (\<lambda>rest.
       [gpu_row (gpu_label d) (gpu_label e), gpu_row (gpu_place i d) (gpu_place (i + 1) e),
        Some (table_line (if ds = [] then CHR ''='' else CHR ''-''))] @ rest)
       (gpu_pairs (i + 2) ds)"

definition part1 :: string where "part1 = ''GPU Name - GPU ID''"
definition part2 :: string where "part2 = ''ID - Node ID - BDF''"

definition gpu_lines :: "device_info list \<Rightarrow> string option list option" where
  "gpu_lines gpus =
     (if odd (length gpus) then
        (case gpus of
           [] \<Rightarrow> None
         | d # ds \<Rightarrow>
             map_option (\<lambda>rest.
               [gpu_row part1 (gpu_label d), gpu_row part2 (gpu_place 0 d),
                Some (table_line (if length gpus = 1 then CHR ''='' else CHR ''-''))] @ rest)
               (gpu_pairs 1 ds))
      else
        map_option (\<lambda>rest.
          [if gpus \<noteq> [] then gpu_row part1 (replicate 32 (CHR '' '')) else Some (na_row part1),
           gpu_row part2 (replicate 32 (CHR '' '')), Some (table_line (CHR ''-''))] @ rest)
          (gpu_pairs 0 gpus))"

fun emit :: "string option list \<Rightarrow> string list \<times> bool" where
  "emit [] = ([], True)"
| "emit (None # ls) = ([], False)"
| "emit (Some l # ls) = (let (out, ok) = emit ls in (l # out, ok))"

record versions =
  v_os :: string
  v_rvs :: string
  v_rocm :: string
  v_amdgpu :: string

definition systemOverview :: "versions \<Rightarrow> device_info list \<Rightarrow> (string list \<times> bool) option" where
  "systemOverview v gpus =
     map_option (\<lambda>ls. emit (
         [Some (title_line ''System Overview''), Some (table_line (CHR ''-'')),
          Some (overview_row ''Operating System'' (v_os v)), Some (overview_row ''RVS version'' (v_rvs v)),
          Some (overview_row ''ROCm version'' (v_rocm v)), Some (overview_row ''amdgpu version'' (v_amdgpu v)),
          Some (if gpus \<noteq> [] then overview_row ''GPUs'' (to_string (length gpus)) else no_gpus_row),
          Some (table_line (CHR ''-''))] @ ls))
       (gpu_lines gpus)"

section \<open>Width of the table\<close>

text \<open>What a terminal shows of a line: without the carriage return and the colour sequences.\<close>

function visible :: "string \<Rightarrow> string" where
  "visible [] = []"
| "visible (c # s) =
     (if c = CHR 0x0D then visible s
      else if c = CHR 0x1B then visible (drop 1 (dropWhile (\<lambda>x. x \<noteq> CHR ''m'') s))
      else c # visible s)"
  by pat_completeness auto
termination
  by (relation "measure length") (auto simp: less_Suc_eq_le intro: le_trans [OF diff_le_self length_dropWhile_le])

definition printable :: "string \<Rightarrow> bool" where
  "printable s \<longleftrightarrow> list_all (\<lambda>c. c \<noteq> CHR 0x0D \<and> c \<noteq> CHR 0x1B) s"

lemma visible_append: "printable a \<Longrightarrow> visible (a @ b) = a @ visible b"
  by (induction a) (auto simp: printable_def)

lemma visible_printable: "printable a \<Longrightarrow> visible a = a"
  using visible_append [of a "[]"] by simp

lemma printable_simps [simp]:
  "printable []" "printable (c # s) \<longleftrightarrow> c \<noteq> CHR 0x0D \<and> c \<noteq> CHR 0x1B \<and> printable s"
  "printable (a @ b) \<longleftrightarrow> printable a \<and> printable b"
  "printable (replicate n c) \<longleftrightarrow> n = 0 \<or> c \<noteq> CHR 0x0D \<and> c \<noteq> CHR 0x1B"
  by (auto simp: printable_def list_all_iff)

lemma visible_codes [simp]:
  "visible (cr @ s) = visible s" "visible (red @ s) = visible s" "visible (plain_colour @ s) = visible s"
  "visible (green @ s) = visible s"
  by (simp_all add: cr_def red_def plain_colour_def green_def)

definition width_ok :: "string \<Rightarrow> bool" where
  "width_ok l \<longleftrightarrow> length (visible l) = 71"

lemma length_setw: "length (setw_left n t) = max n (length t)"
  by (simp add: setw_left_def)

lemma printable_setw [simp]: "printable (setw_left n t) \<longleftrightarrow> printable t"
  by (auto simp: setw_left_def)

lemma visible_parts:
  "printable t \<Longrightarrow> visible (setw_left n t @ s) = setw_left n t @ visible s"
  by (simp add: visible_append)

lemma width_table_line: "c \<noteq> CHR 0x0D \<and> c \<noteq> CHR 0x1B \<Longrightarrow> width_ok (table_line c)"
  by (simp add: width_ok_def table_line_def visible_printable)

lemma width_overview_row:
  assumes "printable key" "printable val" "length key \<le> 32" "length val \<le> 32"
  shows "width_ok (overview_row key val)"
  using assms by (simp add: width_ok_def overview_row_def visible_parts length_setw)

lemma width_no_gpus: "width_ok no_gpus_row"
  by (simp add: width_ok_def no_gpus_row_def visible_parts length_setw)

lemma width_na_row: "printable l \<Longrightarrow> length l \<le> 32 \<Longrightarrow> width_ok (na_row l)"
  by (simp add: width_ok_def na_row_def visible_parts length_setw)

lemma gpu_row_fits:
  assumes "printable l" "printable r" "length l \<le> 32" "length r \<le> 32"
  shows "\<exists>t. gpu_row l r = Some t \<and> width_ok t"
  using assms by (simp add: gpu_row_def blanks_def width_ok_def visible_append visible_printable)

lemma width_title:
  "printable h \<Longrightarrow> length h \<le> 69 \<Longrightarrow> width_ok (title_line h)"
  by (simp add: title_line_def width_ok_def Let_def visible_append)

section \<open>The labels fit their columns\<close>

lemma length_dec_digits: "n < 10 ^ Suc k \<Longrightarrow> length (dec_digits n) \<le> Suc k"
proof (induction k arbitrary: n)
  case 0
  then show ?case by (simp add: dec_digits.simps)
next
  case (Suc k)
  show ?case
  proof (cases "n < 10")
    case False
    have "n div 10 < 10 ^ Suc k" using Suc.prems by (simp add: less_mult_imp_div_less mult.commute)
    with Suc.IH [of "n div 10"] False show ?thesis by (subst dec_digits.simps) simp
  qed (simp add: dec_digits.simps)
qed

lemma length_u16_text: "0 \<le> i \<Longrightarrow> i < 65536 \<Longrightarrow> length (to_string_int i) \<le> 5"
  using length_dec_digits [of "nat i" 4] by (simp add: to_string_int_def)

lemma printable_digits: "printable (dec_digits n)"
proof -
  have "isdigit c \<Longrightarrow> c \<noteq> CHR 0x0D \<and> c \<noteq> CHR 0x1B" for c by (auto simp: isdigit_def)
  then show ?thesis using dec_digits_digits [of n] by (auto simp: printable_def list_all_iff)
qed

definition fits :: "device_info \<Rightarrow> bool" where
  "fits d \<longleftrightarrow> printable (di_name d) \<and> printable (di_bus d) \<and> length (di_bus d) \<le> 18 \<and>
     0 \<le> di_gpu_id d \<and> di_gpu_id d < 65536 \<and> 0 \<le> di_node_id d \<and> di_node_id d < 65536"

lemma printable_take: "printable s \<Longrightarrow> printable (take n s)"
  by (auto simp: printable_def list_all_iff dest: in_set_takeD)

lemma label_fits: "fits d \<Longrightarrow> printable (gpu_label d) \<and> length (gpu_label d) \<le> 32"
  using length_u16_text [of "di_gpu_id d"]
  by (auto simp: fits_def gpu_label_def short_name_def substr_def to_string_int_def printable_digits printable_take)

lemma place_fits: "fits d \<Longrightarrow> i < 1000 \<Longrightarrow> printable (gpu_place i d) \<and> length (gpu_place i d) \<le> 32"
  using length_u16_text [of "di_node_id d"] length_dec_digits [of i 2]
  by (auto simp: fits_def gpu_place_def to_string_def to_string_int_def printable_digits)

definition good_line :: "string option \<Rightarrow> bool" where
  "good_line l \<longleftrightarrow> (case l of None \<Rightarrow> False | Some t \<Rightarrow> width_ok t)"

lemma good_gpu_row:
  "printable l \<Longrightarrow> printable r \<Longrightarrow> length l \<le> 32 \<Longrightarrow> length r \<le> 32 \<Longrightarrow> good_line (gpu_row l r)"
  using gpu_row_fits [of l r] by (auto simp: good_line_def)

lemma good_table_line: "c \<noteq> CHR 0x0D \<and> c \<noteq> CHR 0x1B \<Longrightarrow> good_line (Some (table_line c))"
  by (simp add: good_line_def width_table_line)

lemma gpu_pairs_good:
  "even (length ds) \<Longrightarrow> list_all fits ds \<Longrightarrow> i + length ds \<le> 1000 \<Longrightarrow>
   \<exists>ls. gpu_pairs i ds = Some ls \<and> list_all good_line ls"
proof (induction i ds rule: gpu_pairs.induct)
  case (3 i d e ds)
  then obtain ls where ls: "gpu_pairs (i + 2) ds = Some ls" "list_all good_line ls" by auto
  have "fits d" "fits e" "i < 1000" "i + 1 < 1000" using "3.prems" by auto
  then have "good_line (gpu_row (gpu_label d) (gpu_label e))"
    and "good_line (gpu_row (gpu_place i d) (gpu_place (i + 1) e))"
    using label_fits place_fits by (auto intro!: good_gpu_row)
  then show ?case using ls by (simp add: good_table_line)
qed simp_all

lemma parts_fit: "printable part1" "printable part2" "length part1 \<le> 32" "length part2 \<le> 32"
  by (simp_all add: part1_def part2_def)

lemma gpu_lines_good:
  assumes "list_all fits gpus" and "length gpus \<le> 1000"
  shows "\<exists>ls. gpu_lines gpus = Some ls \<and> list_all good_line ls"
proof (cases "odd (length gpus)")
  case True
  then obtain d ds where g: "gpus = d # ds" by (cases gpus) auto
  then have d: "fits d" "(0::nat) < 1000" and ds: "even (length ds)" "list_all fits ds" "1 + length ds \<le> 1000"
    using assms True by auto
  obtain ls where ls: "gpu_pairs 1 ds = Some ls" "list_all good_line ls"
    using gpu_pairs_good [OF ds] by auto
  have "good_line (gpu_row part1 (gpu_label d))" "good_line (gpu_row part2 (gpu_place 0 d))"
    using label_fits [OF d(1)] place_fits [OF d] parts_fit by (auto intro!: good_gpu_row)
  then show ?thesis using True ls g by (simp add: gpu_lines_def good_table_line)
next
  case False
  then obtain ls where ls: "gpu_pairs 0 gpus = Some ls" "list_all good_line ls"
    using gpu_pairs_good [of gpus 0] assms by auto
  have sp: "printable (replicate 32 (CHR '' ''))" "length (replicate 32 (CHR '' '')) \<le> 32" by simp_all
  have "good_line (gpu_row part1 (replicate 32 (CHR '' '')))" "good_line (gpu_row part2 (replicate 32 (CHR '' '')))"
    using parts_fit sp good_gpu_row by blast+
  moreover have "good_line (Some (na_row part1))"
    using width_na_row parts_fit by (simp add: good_line_def)
  ultimately show ?thesis using False ls by (simp add: gpu_lines_def good_table_line)
qed

lemma emit_good: "list_all good_line ls \<Longrightarrow> emit ls = (map the ls, True) \<and> list_all width_ok (map the ls)"
  by (induction ls rule: emit.induct) (auto simp: good_line_def)

definition versions_fit :: "versions \<Rightarrow> bool" where
  "versions_fit v \<longleftrightarrow> list_all (\<lambda>t. printable t \<and> length t \<le> 32) [v_os v, v_rvs v, v_rocm v, v_amdgpu v]"

lemma systemOverview_fits:
  assumes "versions_fit v" and "list_all fits gpus" and "length gpus \<le> 1000"
  shows "\<exists>ls. systemOverview v gpus = Some (ls, True) \<and> list_all width_ok ls"
proof -
  obtain gl where gl: "gpu_lines gpus = Some gl" "list_all good_line gl"
    using gpu_lines_good [OF assms(2,3)] by auto
  have row: "good_line (Some (overview_row k t))" if "printable k" "printable t" "length k \<le> 32" "length t \<le> 32" for k t
    using width_overview_row that by (simp add: good_line_def)
  have n: "length (to_string (length gpus)) \<le> 32" "printable (to_string (length gpus))"
    using length_dec_digits [of "length gpus" 3] assms(3) by (simp_all add: to_string_def printable_digits)
  let ?head = "[Some (title_line ''System Overview''), Some (table_line (CHR ''-'')),
          Some (overview_row ''Operating System'' (v_os v)), Some (overview_row ''RVS version'' (v_rvs v)),
          Some (overview_row ''ROCm version'' (v_rocm v)), Some (overview_row ''amdgpu version'' (v_amdgpu v)),
          Some (if gpus \<noteq> [] then overview_row ''GPUs'' (to_string (length gpus)) else no_gpus_row),
          Some (table_line (CHR ''-''))]"
  have "good_line (Some (title_line ''System Overview''))"
    by (simp add: good_line_def width_title)
  moreover have "good_line (Some (if gpus \<noteq> [] then overview_row ''GPUs'' (to_string (length gpus)) else no_gpus_row))"
    using row n by (simp add: good_line_def width_no_gpus)
  ultimately have "list_all good_line (?head @ gl)"
    using gl(2) assms(1) by (simp add: good_table_line row versions_fit_def)
  from emit_good [OF this] gl(1) show ?thesis
    by (simp add: systemOverview_def del: emit.simps)
qed

text \<open>The table of devices that \<^verbatim>\<open>get_gpu_info\<close> returns has 16-bit identifiers.\<close>

lemma gpu_info_loop_fields:
  "gpu_info_loop g ds acc = Some r \<Longrightarrow> list_all fits acc \<Longrightarrow>
   list_all (\<lambda>d. printable (hip_name d) \<and> printable (hip_bus_id d) \<and> length (hip_bus_id d) \<le> 18) ds \<Longrightarrow> list_all fits r"
proof (induction g ds acc rule: gpu_info_loop.induct)
  case (2 g d ds acc)
  have w: "0 \<le> uint x \<and> uint x < 65536" for x :: u16 using uint_lt2p [of x] by simp
  show ?case
    using 2 w by (auto split: lookup.splits simp: fits_def)
qed simp

lemma get_gpu_info_fits:
  assumes "get_gpu_info g ds = Some infos"
    and "list_all (\<lambda>d. printable (hip_name d) \<and> printable (hip_bus_id d) \<and> length (hip_bus_id d) \<le> 18) ds"
  shows "list_all fits infos" and "length infos \<le> length ds"
  using assms gpu_info_loop_fields [of g ds "[]"] gpu_info_loop_length [of g ds "[]"]
  by (auto simp: get_gpu_info_def list_all_iff)

section \<open>Properties\<close>

text \<open>
  With printable version strings of at most 32 characters, printable device names and PCI
  addresses of at most 18 characters, and up to 1000 devices, the overview prints without an
  exception; the devices come in the order of their PCI address, and every line, once the colour
  codes are left out, is exactly 71 characters wide.
\<close>

theorem overview_is_a_table:
  assumes "versions_fit v" and "length ds \<le> 1000" and "get_gpu_info g ds = Some infos"
    and "list_all (\<lambda>d. printable (hip_name d) \<and> printable (hip_bus_id d) \<and> length (hip_bus_id d) \<le> 18) ds"
  shows "sorted (map di_bdfId infos) \<and>
    (\<exists>ls. systemOverview v infos = Some (ls, True) \<and> list_all width_ok ls)"
proof -
  have "list_all fits infos" "length infos \<le> 1000"
    using get_gpu_info_fits [OF assms(3,4)] assms(2) by auto
  then show ?thesis using systemOverview_fits [OF assms(1)] get_gpu_info_sorted(1) [OF assms(3)] by blast
qed

theorem overview_is_a_table_witness:
  "\<exists>infos ls. get_gpu_info sample_gpus sample_hip = Some infos \<and> length infos = 2 \<and>
     systemOverview \<lparr>v_os = ''Ubuntu 22.04'', v_rvs = ''1.2.0'', v_rocm = ''6.4'', v_amdgpu = ''6.12''\<rparr> infos =
       Some (ls, True) \<and> list_all width_ok ls"
proof -
  let ?v = "\<lparr>v_os = ''Ubuntu 22.04'', v_rvs = ''1.2.0'', v_rocm = ''6.4'', v_amdgpu = ''6.12''\<rparr>"
  obtain infos where i: "get_gpu_info sample_gpus sample_hip = Some infos" "length infos = 2"
    by (simp add: get_gpu_info_def sample_hip_def dev_location_id_def sample_lookups)
  have "versions_fit ?v" by (simp add: versions_fit_def)
  moreover have "length sample_hip \<le> 1000" by (simp add: sample_hip_def)
  moreover have "list_all (\<lambda>d. printable (hip_name d) \<and> printable (hip_bus_id d) \<and> length (hip_bus_id d) \<le> 18) sample_hip"
    by (simp add: sample_hip_def)
  ultimately show ?thesis using overview_is_a_table [OF _ _ i(1)] i by blast
qed

end
