(* ===== verification/Log_Node.thy ===== *)
theory Log_Node
  imports Prelude
begin

text \<open>
  The nodes of a structured log record and their JSON text: \<^verbatim>\<open>src/rvslognodebase.cpp\<close>,
  \<^verbatim>\<open>rvslognode.cpp\<close>, \<^verbatim>\<open>rvslognodestring.cpp\<close>, \<^verbatim>\<open>rvslognodeint.cpp\<close>, \<^verbatim>\<open>rvslognoderec.cpp\<close>,
  \<^verbatim>\<open>rvsminnode.cpp\<close> and \<^verbatim>\<open>rvslognodelist.cpp\<close>.  The class hierarchy is one datatype with a
  constructor for each class; the virtual methods are functions by cases.  The reference
  semantics is a JSON value with its token sequence and a lexer for JSON text: a record built from
  clean names and values prints a text that lexes to exactly the tokens of its value.
\<close>

section \<open>Nodes\<close>

datatype log_node =
    LogNode string "log_node list"
  | LogNodeString string string
  | LogNodeInt string int
  | LogNodeRec string int u32 u32 "log_node list"
  | MinNode string int bool "log_node list"
  | LogListNode string int "log_node list"

fun Add :: "log_node \<Rightarrow> log_node \<Rightarrow> log_node option" where
  "Add (LogNode n cs) c = Some (LogNode n (cs @ [c]))"
| "Add (LogNodeRec n l s u cs) c = Some (LogNodeRec n l s u (cs @ [c]))"
| "Add (MinNode n l b cs) c = Some (MinNode n l b (cs @ [c]))"
| "Add (LogListNode n l cs) c = Some (LogListNode n l (cs @ [c]))"
| "Add (LogNodeString n v) c = None"
| "Add (LogNodeInt n v) c = None"

fun LogLevel :: "log_node \<Rightarrow> int" where
  "LogLevel (LogNodeRec n l s u cs) = l"
| "LogLevel (MinNode n l b cs) = l"
| "LogLevel (LogListNode n l cs) = l"
| "LogLevel (LogNode n cs) = 0"
| "LogLevel (LogNodeString n v) = 0"
| "LogLevel (LogNodeInt n v) = 0"

text \<open>The loop over the children puts a separator between two of them.\<close>

fun commas :: "'a \<Rightarrow> 'a list list \<Rightarrow> 'a list" where
  "commas x [] = []"
| "commas x [a] = a"
| "commas x (a # b # r) = a @ x # commas x (b # r)"

definition RVSINDENT :: string where
  "RVSINDENT = ''  ''"

definition quoted :: "string \<Rightarrow> string" where
  "quoted s = dquote @ s @ dquote"

text \<open>\<^verbatim>\<open>%6d\<close> and \<^verbatim>\<open>%-6d\<close>: the unsigned arguments are read as signed.\<close>

definition fmt_right6 :: "u32 \<Rightarrow> string" where
  "fmt_right6 w = (let t = to_string_int (sint w) in replicate (6 - length t) (CHR '' '') @ t)"

definition fmt_left6 :: "u32 \<Rightarrow> string" where
  "fmt_left6 w = (let t = to_string_int (sint w) in t @ replicate (6 - length t) (CHR '' ''))"

definition time_text :: "u32 \<Rightarrow> u32 \<Rightarrow> string" where
  "time_text sec usec = fmt_right6 sec @ ''.'' @ fmt_left6 usec"

fun ToJson :: "string \<Rightarrow> log_node \<Rightarrow> string" where
  "ToJson Lead (LogNode n cs) =
     nl @ Lead @ quoted n @ '' : {'' @ commas (CHR '','') (map (ToJson (Lead @ RVSINDENT)) cs)
     @ nl @ Lead @ ''}''"
| "ToJson Lead (LogNodeString n v) = nl @ Lead @ quoted n @ '' : '' @ quoted v"
| "ToJson Lead (LogNodeInt n v) = nl @ Lead @ quoted n @ '' : '' @ to_string_int v"
| "ToJson Lead (LogNodeRec n l s u cs) =
     nl @ Lead @ ''{'' @ nl @ Lead @ RVSINDENT @ quoted ''loglevel'' @ '' : '' @ to_string_int l @ '',''
     @ nl @ Lead @ RVSINDENT @ quoted ''time'' @ '' : '' @ quoted (time_text s u) @ '',''
     @ commas (CHR '','') (map (ToJson (Lead @ RVSINDENT)) cs) @ nl @ Lead @ ''}''"
| "ToJson Lead (MinNode n l named cs) =
     nl @ ''{'' @ (if named then Lead @ quoted n @ '' : {'' else [])
     @ commas (CHR '','') (map (ToJson (Lead @ RVSINDENT)) cs) @ nl @ Lead @ ''}''
     @ (if named then nl @ Lead @ ''}'' else [])"
| "ToJson Lead (LogListNode n l cs) =
     nl @ ''{'' @ Lead @ quoted n @ '' : ['' @ commas (CHR '','') (map (ToJson (Lead @ RVSINDENT)) cs)
     @ nl @ Lead @ '']'' @ ''}''"

section \<open>JSON values, tokens and a lexer\<close>

datatype json = JStr string | JNum int | JArr "json list" | JObj "(string \<times> json) list"

datatype jtok = LBrace | RBrace | LBrack | RBrack | Colon | Comma | Str string | Num int

fun toks :: "json \<Rightarrow> jtok list" where
  "toks (JStr s) = [Str s]"
| "toks (JNum i) = [Num i]"
| "toks (JArr vs) = LBrack # commas Comma (map toks vs) @ [RBrack]"
| "toks (JObj ms) = LBrace # commas Comma (map (\<lambda>(k, v). Str k # Colon # toks v) ms) @ [RBrace]"

text \<open>A character a JSON string may hold as itself.\<close>

definition plain :: "char \<Rightarrow> bool" where
  "plain c \<longleftrightarrow> c \<noteq> CHR 0x22 \<and> c \<noteq> CHR 0x5C \<and> 32 \<le> (of_char c :: nat)"

definition punct :: "char \<Rightarrow> jtok option" where
  "punct c = map_of [(CHR ''{'', LBrace), (CHR ''}'', RBrace), (CHR ''['', LBrack), (CHR '']'', RBrack),
                     (CHR '':'', Colon), (CHR '','', Comma)] c"

lemma dropWhile_Cons_length: "dropWhile P s = x # r \<Longrightarrow> length r < length s"
  by (metis Suc_le_lessD length_Cons length_dropWhile_le)

function lex_json :: "string \<Rightarrow> jtok list option" where
  "lex_json [] = Some []"
| "lex_json (c # s) =
     (if isspace c then lex_json s
      else case punct c of
        Some t \<Rightarrow> map_option (Cons t) (lex_json s)
      | None \<Rightarrow>
          if c = CHR 0x22 then
            (case dropWhile (\<lambda>x. x \<noteq> CHR 0x22) s of
               [] \<Rightarrow> None
             | q # rest \<Rightarrow>
                 if list_all plain (takeWhile (\<lambda>x. x \<noteq> CHR 0x22) s)
                 then map_option (Cons (Str (takeWhile (\<lambda>x. x \<noteq> CHR 0x22) s))) (lex_json rest)
                 else None)
          else if isdigit c then
            map_option (Cons (Num (int (dec_val (takeWhile isdigit (c # s)))))) (lex_json (dropWhile isdigit s))
          else if c = CHR ''-'' \<and> s \<noteq> [] \<and> isdigit (hd s) then
            map_option (Cons (Num (- int (dec_val (takeWhile isdigit s))))) (lex_json (dropWhile isdigit s))
          else None)"
  by pat_completeness auto
termination
  by (relation "measure length") (auto simp: le_imp_less_Suc length_dropWhile_le dest: dropWhile_Cons_length)

text \<open>The value a node stands for: a member of an object, or a value of its own.\<close>

fun json_member :: "log_node \<Rightarrow> (string \<times> json) option" where
  "json_member (LogNode n cs) =
     (if list_all plain n then map_option (\<lambda>ms. (n, JObj ms)) (those (map json_member cs)) else None)"
| "json_member (LogNodeString n v) = (if list_all plain n \<and> list_all plain v then Some (n, JStr v) else None)"
| "json_member (LogNodeInt n v) = (if list_all plain n then Some (n, JNum v) else None)"
| "json_member (LogNodeRec n l s u cs) = None"
| "json_member (MinNode n l b cs) = None"
| "json_member (LogListNode n l cs) = None"

fun json_value :: "log_node \<Rightarrow> json option" where
  "json_value (LogNodeRec n l s u cs) =
     (if cs = [] then None
      else map_option (\<lambda>ms. JObj ([(''loglevel'', JNum l), (''time'', JStr (time_text s u))] @ ms))
             (those (map json_member cs)))"
| "json_value (MinNode n l named cs) =
     (case those (map json_member cs) of
        None \<Rightarrow> None
      | Some ms \<Rightarrow> if \<not> named then Some (JObj ms)
                   else if list_all plain n then Some (JObj [(n, JObj ms)]) else None)"
| "json_value (LogListNode n l cs) =
     (if list_all plain n then map_option (\<lambda>vs. JObj [(n, JArr vs)]) (those (map json_value cs)) else None)"
| "json_value (LogNode n cs) = None"
| "json_value (LogNodeString n v) = None"
| "json_value (LogNodeInt n v) = None"

section \<open>Lexing a printed text\<close>

definition no_digit :: "string \<Rightarrow> bool" where
  "no_digit s \<longleftrightarrow> (case s of [] \<Rightarrow> True | c # _ \<Rightarrow> \<not> isdigit c)"

definition lexes :: "string \<Rightarrow> jtok list \<Rightarrow> bool" where
  "lexes s ts \<longleftrightarrow> (\<forall>rest. no_digit rest \<longrightarrow> lex_json (s @ rest) = map_option ((@) ts) (lex_json rest))"

lemma no_digit_simps [simp]: "no_digit []" "no_digit (c # s) \<longleftrightarrow> \<not> isdigit c"
  by (simp_all add: no_digit_def)

lemma lexesD: "lexes s ts \<Longrightarrow> lex_json s = Some ts"
  by (auto simp: lexes_def dest: spec [of _ "[]"])

named_theorems lexing

lemma map_append_simps:
  "map_option ((@) []) x = x" "map_option (\<lambda>r. p # t @ r) x = map_option ((@) (p # t)) x"
  by (cases x; simp)+

lemma lexes_Nil [lexing]: "lexes [] []"
  by (simp add: lexes_def map_append_simps)

lemma lexes_append: "lexes s t \<Longrightarrow> lexes s' t' \<Longrightarrow> no_digit s' \<Longrightarrow> lexes (s @ s') (t @ t')"
proof -
  assume a: "lexes s t" and b: "lexes s' t'" and nd: "no_digit s'"
  show ?thesis unfolding lexes_def
  proof (intro allI impI)
    fix rest assume r: "no_digit rest"
    have nd': "no_digit (s' @ rest)" using nd r by (cases s') auto
    from a nd' have "lex_json (s @ (s' @ rest)) = map_option ((@) t) (lex_json (s' @ rest))"
      unfolding lexes_def by blast
    also have "lex_json (s' @ rest) = map_option ((@) t') (lex_json rest)"
      using b r unfolding lexes_def by blast
    finally show "lex_json ((s @ s') @ rest) = map_option ((@) (t @ t')) (lex_json rest)"
      by (cases "lex_json rest") simp_all
  qed
qed

lemma lexes_space [lexing]: "lexes s t \<Longrightarrow> isspace c \<Longrightarrow> lexes (c # s) t"
  by (simp add: lexes_def)

lemma lexes_lead [lexing]: "lexes s t \<Longrightarrow> list_all isspace l \<Longrightarrow> lexes (l @ s) t"
  by (induction l) (auto intro: lexes_space)

lemma lexes_punct: "lexes s t \<Longrightarrow> punct c = Some p \<Longrightarrow> \<not> isspace c \<Longrightarrow> lexes (c # s) (p # t)"
  by (auto simp: lexes_def option.map_comp comp_def map_append_simps)

lemma punct_simps:
  "punct (CHR ''{'') = Some LBrace" "punct (CHR ''}'') = Some RBrace" "punct (CHR ''['') = Some LBrack"
  "punct (CHR '']'') = Some RBrack" "punct (CHR '':'') = Some Colon" "punct (CHR '','') = Some Comma"
  "punct (CHR 0x22) = None" "punct (CHR ''-'') = None"
  by (simp_all add: punct_def)

lemma isspace_simps:
  "\<not> isspace (CHR ''{'')" "\<not> isspace (CHR ''}'')" "\<not> isspace (CHR ''['')" "\<not> isspace (CHR '']'')"
  "\<not> isspace (CHR '':'')" "\<not> isspace (CHR '','')" "\<not> isspace (CHR 0x22)" "\<not> isspace (CHR ''-'')"
  "isspace (CHR '' '')" "isspace (CHR 0x0A)"
  by (simp_all add: isspace_def)

lemma punct_cases [lexing]:
  assumes "lexes s t"
  shows "lexes (CHR ''{'' # s) (LBrace # t)" "lexes (CHR ''}'' # s) (RBrace # t)"
    "lexes (CHR ''['' # s) (LBrack # t)" "lexes (CHR '']'' # s) (RBrack # t)"
    "lexes (CHR '':'' # s) (Colon # t)" "lexes (CHR '','' # s) (Comma # t)"
  using assms by (simp_all add: lexes_punct punct_simps isspace_simps)

lemma lexes_quoted [lexing]:
  assumes "lexes s t" and "list_all plain v"
  shows "lexes (quoted v @ s) (Str v # t)"
  unfolding lexes_def
proof (intro allI impI)
  fix rest assume "no_digit rest"
  have p: "\<forall>x\<in>set v. x \<noteq> CHR 0x22" using assms(2) by (auto simp: list_all_iff plain_def)
  have "takeWhile (\<lambda>x. x \<noteq> CHR 0x22) (v @ CHR 0x22 # s @ rest) = v"
    and "dropWhile (\<lambda>x. x \<noteq> CHR 0x22) (v @ CHR 0x22 # s @ rest) = CHR 0x22 # s @ rest"
    using p by (simp_all add: takeWhile_tail dropWhile_append3)
  moreover have "lex_json (s @ rest) = map_option ((@) t) (lex_json rest)"
    using assms(1) \<open>no_digit rest\<close> by (simp add: lexes_def)
  ultimately show "lex_json ((quoted v @ s) @ rest) = map_option ((@) (Str v # t)) (lex_json rest)"
    using assms(2) by (simp add: quoted_def dquote_def punct_simps isspace_simps option.map_comp comp_def map_append_simps)
qed

lemma take_drop_digits:
  assumes "list_all isdigit d" and "no_digit r"
  shows "takeWhile isdigit (d @ r) = d" and "dropWhile isdigit (d @ r) = r"
  using assms by (induction d) (auto split: list.splits simp: no_digit_def)

lemma lexes_int [lexing]:
  assumes "lexes s t" and "no_digit s"
  shows "lexes (to_string_int i @ s) (Num i # t)"
  unfolding lexes_def
proof (intro allI impI)
  fix rest assume r: "no_digit rest"
  define d where "d = to_string (nat \<bar>i\<bar>)"
  obtain x d' where d': "d = x # d'" using to_string_digits(2) [of "nat \<bar>i\<bar>"] by (cases d) (auto simp: d_def)
  have dd: "list_all isdigit d" and dv: "dec_val d = nat \<bar>i\<bar>"
    by (simp_all add: d_def to_string_digits(1))
  have nd: "no_digit (s @ rest)" using assms(2) r by (cases s) auto
  note td = take_drop_digits [OF dd nd]
  have rest: "lex_json (s @ rest) = map_option ((@) t) (lex_json rest)"
    using assms(1) r by (simp add: lexes_def)
  have x: "isdigit x" "\<not> isspace x" "punct x = None" "x \<noteq> CHR 0x22"
    using dd d' isdigit_not_space by (auto simp: isdigit_def punct_def)
  show "lex_json ((to_string_int i @ s) @ rest) = map_option ((@) (Num i # t)) (lex_json rest)"
  proof (cases "i < 0")
    case True
    then have "to_string_int i = CHR ''-'' # d" by (simp add: to_string_int_def to_string_def d_def)
    then show ?thesis
      using td dv rest True x by (simp add: d' punct_simps isspace_simps option.map_comp comp_def isdigit_def map_append_simps)
  next
    case False
    then have "to_string_int i = d" by (simp add: to_string_int_def to_string_def d_def)
    then show ?thesis
      using td dv rest False x by (simp add: d' option.map_comp comp_def map_append_simps)
  qed
qed

lemma lexes_commas:
  assumes "list_all2 lexes cs ts" and "lexes s t" and "no_digit s"
  shows "lexes (commas (CHR '','') cs @ s) (commas Comma ts @ t)"
  using assms(1)
proof (induction cs ts rule: list_all2_induct)
  case Nil
  then show ?case using assms(2) by simp
next
  case (Cons c cs u us)
  have nd: "\<not> isdigit (CHR '','')" by (simp add: isdigit_def)
  show ?case
  proof (cases cs)
    case Nil
    then show ?thesis using Cons.hyps assms lexes_append [OF Cons.hyps(1) assms(2,3)] by simp
  next
    case c2: (Cons c' cs')
    then obtain u' us' where u: "us = u' # us'" using Cons.hyps(2) by (cases us) auto
    have "lexes (CHR '','' # commas (CHR '','') cs @ s) (Comma # commas Comma us @ t)"
      by (rule punct_cases(6)) (rule Cons.IH)
    from lexes_append [OF Cons.hyps(1) this] nd show ?thesis by (simp add: c2 u)
  qed
qed


section \<open>A well-formed record prints the text of its value\<close>

lemma those_Some: "those xs = Some ys \<longleftrightarrow> list_all2 (\<lambda>x y. x = Some y) xs ys"
  by (induction xs arbitrary: ys) (auto split: option.splits simp: list_all2_Cons1)

lemma those_map: "those (map f xs) = Some ys \<longleftrightarrow> list_all2 (\<lambda>x y. f x = Some y) xs ys"
  by (simp add: those_Some list_all2_map1)

lemma plain_to_string_int: "list_all plain (to_string_int i)"
proof -
  have d: "isdigit c \<Longrightarrow> plain c" for c by (auto simp: isdigit_def plain_def)
  have "list_all plain (dec_digits n)" for n
    using dec_digits_digits [of n] d by (auto simp: list_all_iff)
  then show ?thesis by (simp add: to_string_int_def plain_def)
qed

lemma plain_time_text: "list_all plain (time_text s u)"
proof -
  have sp: "list_all plain (replicate n (CHR '' ''))" for n by (simp add: list_all_iff plain_def)
  show ?thesis
    using plain_to_string_int sp by (simp add: time_text_def fmt_right6_def fmt_left6_def Let_def) (simp add: plain_def)
qed

lemma plain_literals: "list_all plain ''loglevel''" "list_all plain ''time''"
  by (simp_all add: plain_def)

lemma isspace_indent [simp]: "list_all isspace RVSINDENT"
  by (simp add: RVSINDENT_def isspace_def)

lemma isdigit_simps [simp]:
  "\<not> isdigit (CHR ''}'')" "\<not> isdigit (CHR '']'')" "\<not> isdigit (CHR '','')" "\<not> isdigit (CHR 0x0A)"
  by (simp_all add: isdigit_def)

lemma no_digit_append [simp]: "no_digit (a @ b) \<longleftrightarrow> (if a = [] then no_digit b else no_digit a)"
  by (cases a) auto

abbreviation member_toks :: "string \<times> json \<Rightarrow> jtok list" where
  "member_toks m \<equiv> (case m of (k, v) \<Rightarrow> Str k # Colon # toks v)"

lemma lexes_members:
  assumes "those (map f cs) = Some ms"
    and "\<And>c m. c \<in> set cs \<Longrightarrow> f c = Some m \<Longrightarrow> lexes (ToJson L c) (g m)"
    and "lexes s t" and "no_digit s"
  shows "lexes (commas (CHR '','') (map (ToJson L) cs) @ s) (commas Comma (map g ms) @ t)"
proof (rule lexes_commas [OF _ assms(3,4)])
  have "list_all2 (\<lambda>x y. f x = Some y) cs ms" using assms(1) by (simp add: those_map)
  then show "list_all2 lexes (map (ToJson L) cs) (map g ms)"
    using assms(2) by (auto simp: list_all2_conv_all_nth)
qed

text \<open>The end of a node: a line break, the indentation and the closing bracket.\<close>

lemma lexes_close:
  "list_all isspace L \<Longrightarrow> lexes s t \<Longrightarrow> lexes (CHR 0x0A # L @ CHR ''}'' # s) (RBrace # t)"
  "list_all isspace L \<Longrightarrow> lexes s t \<Longrightarrow> lexes (CHR 0x0A # L @ CHR '']'' # s) (RBrack # t)"
  by (intro lexing isspace_simps; assumption)+

lemma json_member_lexes:
  "json_member n = Some (k, v) \<Longrightarrow> list_all isspace L \<Longrightarrow> lexes (ToJson L n) (member_toks (k, v))"
proof (induction n arbitrary: L k v rule: json_member.induct)
  case (1 n cs)
  obtain ms where ms: "those (map json_member cs) = Some ms" "k = n" "v = JObj ms" "list_all plain n"
    using "1.prems"(1) by (auto split: if_splits)
  have ch: "lexes (ToJson (L @ RVSINDENT) c) (member_toks m)" if "c \<in> set cs" "json_member c = Some m" for c m
    using "1.IH" [OF ms(4) that(1), of "fst m" "snd m" "L @ RVSINDENT"] that(2) "1.prems"(2) by simp
  have "lexes (CHR 0x0A # L @ quoted n @ CHR '' '' # CHR '':'' # CHR '' '' # CHR ''{'' #
      commas (CHR '','') (map (ToJson (L @ RVSINDENT)) cs) @ CHR 0x0A # L @ CHR ''}'' # [])
      (Str n # Colon # LBrace # commas Comma (map member_toks ms) @ RBrace # [])"
    by (intro lexing isspace_simps ms(4) "1.prems"(2) lexes_members [OF ms(1) ch] lexes_close) simp_all
  then show ?case using ms by (simp add: nl_def)
next
  case (2 n v')
  then have p: "list_all plain n" "list_all plain v'" "k = n" "v = JStr v'" by (auto split: if_splits)
  have "lexes (CHR 0x0A # L @ quoted n @ CHR '' '' # CHR '':'' # CHR '' '' # quoted v' @ [])
      (Str n # Colon # Str v' # [])"
    by (intro lexing isspace_simps p "2.prems"(2))
  then show ?case using p by (simp add: nl_def)
next
  case (3 n i)
  then have p: "list_all plain n" "k = n" "v = JNum i" by (auto split: if_splits)
  have "lexes (CHR 0x0A # L @ quoted n @ CHR '' '' # CHR '':'' # CHR '' '' # to_string_int i @ [])
      (Str n # Colon # Num i # [])"
    by (intro lexing isspace_simps p "3.prems"(2)) simp
  then show ?case using p by (simp add: nl_def)
qed auto


lemma json_value_lexes:
  "json_value n = Some v \<Longrightarrow> list_all isspace L \<Longrightarrow> lexes (ToJson L n) (toks v)"
proof (induction n arbitrary: L v rule: json_value.induct)
  case (1 n l s u cs)
  let ?I = "L @ RVSINDENT"
  obtain ms where ms: "those (map json_member cs) = Some ms" "cs \<noteq> []"
      "v = JObj ((''loglevel'', JNum l) # (''time'', JStr (time_text s u)) # ms)"
    using "1.prems"(1) by (auto split: if_splits)
  have ch: "lexes (ToJson ?I c) (member_toks m)" if "json_member c = Some m" for c m
    using json_member_lexes [of c "fst m" "snd m" ?I] that "1.prems"(2) by simp
  have ne: "ms \<noteq> []" using ms(1,2) by (auto simp: those_map)
  have sep: "commas x (a # map g ms) = a @ x # commas x (map g ms)" for x :: jtok and a and g
    using ne by (cases ms) auto
  have "lexes (CHR 0x0A # L @ CHR ''{'' # CHR 0x0A # L @ RVSINDENT @ quoted ''loglevel'' @ CHR '' '' # CHR '':'' #
      CHR '' '' # to_string_int l @ CHR '','' # CHR 0x0A # L @ RVSINDENT @ quoted ''time'' @ CHR '' '' # CHR '':'' #
      CHR '' '' # quoted (time_text s u) @ CHR '','' #
      commas (CHR '','') (map (ToJson ?I) cs) @ CHR 0x0A # L @ CHR ''}'' # [])
      (LBrace # Str ''loglevel'' # Colon # Num l # Comma # Str ''time'' # Colon # Str (time_text s u) # Comma #
       commas Comma (map member_toks ms) @ RBrace # [])"
    by (intro lexing isspace_simps plain_literals plain_time_text isspace_indent "1.prems"(2)
          lexes_members [OF ms(1) ch] lexes_close) simp_all
  then show ?case by (simp add: ms(3) nl_def sep)
next
  case (2 n l named cs)
  let ?I = "L @ RVSINDENT"
  obtain ms where ms: "those (map json_member cs) = Some ms" using "2.prems"(1) by (auto split: option.splits)
  have ch: "lexes (ToJson ?I c) (member_toks m)" if "json_member c = Some m" for c m
    using json_member_lexes [of c "fst m" "snd m" ?I] that "2.prems"(2) by simp
  show ?case
  proof (cases named)
    case False
    have "lexes (CHR 0x0A # CHR ''{'' # commas (CHR '','') (map (ToJson ?I) cs) @ CHR 0x0A # L @ CHR ''}'' # [])
        (LBrace # commas Comma (map member_toks ms) @ RBrace # [])"
      by (intro lexing isspace_simps "2.prems"(2) lexes_members [OF ms ch] lexes_close) simp_all
    then show ?thesis using False "2.prems"(1) ms by (auto simp: nl_def)
  next
    case True
    then have v: "v = JObj [(n, JObj ms)]" "list_all plain n" using "2.prems"(1) ms by (auto split: if_splits)
    have "lexes (CHR 0x0A # CHR ''{'' # L @ quoted n @ CHR '' '' # CHR '':'' # CHR '' '' # CHR ''{'' #
        commas (CHR '','') (map (ToJson ?I) cs) @ CHR 0x0A # L @ CHR ''}'' # CHR 0x0A # L @ CHR ''}'' # [])
        (LBrace # Str n # Colon # LBrace # commas Comma (map member_toks ms) @ RBrace # RBrace # [])"
      by (intro lexing isspace_simps v(2) "2.prems"(2) lexes_members [OF ms ch] lexes_close) simp_all
    then show ?thesis using True by (simp add: nl_def v)
  qed
next
  case (3 n l cs)
  let ?I = "L @ RVSINDENT"
  obtain vs where vs: "those (map json_value cs) = Some vs" "v = JObj [(n, JArr vs)]" "list_all plain n"
    using "3.prems"(1) by (auto split: if_splits)
  have ch: "lexes (ToJson ?I c) (toks m)" if "c \<in> set cs" "json_value c = Some m" for c m
    using "3.IH" [OF vs(3) that, of ?I] "3.prems"(2) by simp
  have "lexes (CHR 0x0A # CHR ''{'' # L @ quoted n @ CHR '' '' # CHR '':'' # CHR '' '' # CHR ''['' #
      commas (CHR '','') (map (ToJson ?I) cs) @ CHR 0x0A # L @ CHR '']'' # CHR ''}'' # [])
      (LBrace # Str n # Colon # LBrack # commas Comma (map toks vs) @ RBrack # RBrace # [])"
    by (intro lexing isspace_simps vs(3) "3.prems"(2) lexes_members [OF vs(1) ch] lexes_close) simp_all
  then show ?case by (simp add: nl_def vs)
qed auto

section \<open>A parser for JSON text\<close>

text \<open>
  Recursive descent over the tokens; the fuel bounds the depth of the calls, and the number of
  tokens is enough for every value.
\<close>

fun p_value :: "nat \<Rightarrow> jtok list \<Rightarrow> (json \<times> jtok list) option"
  and p_elems :: "nat \<Rightarrow> jtok list \<Rightarrow> (json list \<times> jtok list) option"
  and p_members :: "nat \<Rightarrow> jtok list \<Rightarrow> ((string \<times> json) list \<times> jtok list) option" where
  "p_value 0 ts = None"
| "p_value (Suc n) ts =
     (case ts of
        Str s # r \<Rightarrow> Some (JStr s, r)
      | Num i # r \<Rightarrow> Some (JNum i, r)
      | LBrack # RBrack # r \<Rightarrow> Some (JArr [], r)
      | LBrack # r \<Rightarrow> map_option (\<lambda>(vs, r). (JArr vs, r)) (p_elems n r)
      | LBrace # RBrace # r \<Rightarrow> Some (JObj [], r)
      | LBrace # r \<Rightarrow> map_option (\<lambda>(ms, r). (JObj ms, r)) (p_members n r)
      | _ \<Rightarrow> None)"
| "p_elems 0 ts = None"
| "p_elems (Suc n) ts =
     (case p_value n ts of
        Some (v, RBrack # r) \<Rightarrow> Some ([v], r)
      | Some (v, Comma # r) \<Rightarrow> map_option (\<lambda>(vs, r). (v # vs, r)) (p_elems n r)
      | _ \<Rightarrow> None)"
| "p_members 0 ts = None"
| "p_members (Suc n) ts =
     (case ts of
        Str k # Colon # r \<Rightarrow>
          (case p_value n r of
             Some (v, RBrace # r) \<Rightarrow> Some ([(k, v)], r)
           | Some (v, Comma # r) \<Rightarrow> map_option (\<lambda>(ms, r). ((k, v) # ms, r)) (p_members n r)
           | _ \<Rightarrow> None)
      | _ \<Rightarrow> None)"

definition parse_json :: "string \<Rightarrow> json option" where
  "parse_json s =
     (case lex_json s of
        None \<Rightarrow> None
      | Some ts \<Rightarrow> (case p_value (length ts) ts of Some (v, []) \<Rightarrow> Some v | _ \<Rightarrow> None))"

lemma toks_nonempty: "toks v \<noteq> []"
  by (cases v) auto

lemma toks_head: "hd (toks v) \<noteq> RBrack"
  by (cases v) auto

lemma commas_Cons: "commas x (a # r) = (if r = [] then a else a @ x # commas x r)"
  by (cases r) auto

lemma p_elems_toks:
  assumes "\<And>v n r. v \<in> set vs \<Longrightarrow> length (toks v) \<le> n \<Longrightarrow> p_value n (toks v @ r) = Some (v, r)"
    and "vs \<noteq> []" and "length (commas Comma (map toks vs)) < n"
  shows "p_elems n (commas Comma (map toks vs) @ RBrack # r) = Some (vs, r)"
  using assms
proof (induction vs arbitrary: n)
  case Nil
  then show ?case by simp
next
  case (Cons v vs)
  obtain m where n: "n = Suc m" using Cons.prems(3) by (cases n) auto
  have v: "p_value m (toks v @ s) = Some (v, s)" for s
    using Cons.prems(1) [of v m s] Cons.prems(3) n by (auto simp: commas_Cons split: if_splits)
  show ?case
  proof (cases "vs = []")
    case True
    with v n show ?thesis by simp
  next
    case False
    with Cons.prems n have "p_elems m (commas Comma (map toks vs) @ RBrack # r) = Some (vs, r)"
      by (intro Cons.IH) (auto simp: commas_Cons)
    with v n False show ?thesis by (simp add: commas_Cons)
  qed
qed

lemma p_members_toks:
  assumes "\<And>k v n r. (k, v) \<in> set ms \<Longrightarrow> length (toks v) \<le> n \<Longrightarrow> p_value n (toks v @ r) = Some (v, r)"
    and "ms \<noteq> []" and "length (commas Comma (map member_toks ms)) < n"
  shows "p_members n (commas Comma (map member_toks ms) @ RBrace # r) = Some (ms, r)"
  using assms
proof (induction ms arbitrary: n)
  case Nil
  then show ?case by simp
next
  case (Cons kv ms)
  obtain k v where kv: "kv = (k, v)" by (cases kv)
  obtain m where n: "n = Suc m" using Cons.prems(3) by (cases n) auto
  have v: "p_value m (toks v @ s) = Some (v, s)" for s
    using Cons.prems(1) [of k v m s] Cons.prems(3) n kv by (auto simp: commas_Cons split: if_splits)
  show ?case
  proof (cases "ms = []")
    case True
    with v n kv show ?thesis by simp
  next
    case False
    with Cons.prems n kv have "p_members m (commas Comma (map member_toks ms) @ RBrace # r) = Some (ms, r)"
      by (intro Cons.IH) (auto simp: commas_Cons)
    with v n False kv show ?thesis by (simp add: commas_Cons)
  qed
qed

lemma p_value_toks: "length (toks v) \<le> n \<Longrightarrow> p_value n (toks v @ r) = Some (v, r)"
proof (induction v arbitrary: n r)
  case (JStr s)
  then show ?case by (cases n) auto
next
  case (JNum i)
  then show ?case by (cases n) auto
next
  case (JArr vs)
  obtain m where n: "n = Suc m" using JArr.prems by (cases n) auto
  show ?case
  proof (cases vs)
    case Nil
    with n show ?thesis by simp
  next
    case (Cons w ws)
    let ?t = "commas Comma (map toks vs) @ RBrack # r"
    have e: "p_elems m ?t = Some (vs, r)"
      using JArr.prems n Cons by (intro p_elems_toks JArr.IH) auto
    have "?t \<noteq> []" "hd ?t \<noteq> RBrack"
      using toks_nonempty [of w] toks_head [of w] Cons by (auto simp: commas_Cons)
    then have "p_value n (LBrack # ?t) = map_option (\<lambda>(vs, r). (JArr vs, r)) (p_elems m ?t)"
      using n by (cases ?t) (auto split: jtok.splits)
    with e show ?thesis by simp
  qed
next
  case (JObj ms)
  obtain m where n: "n = Suc m" using JObj.prems by (cases n) auto
  show ?case
  proof (cases ms)
    case Nil
    with n show ?thesis by simp
  next
    case (Cons kv ks)
    let ?t = "commas Comma (map member_toks ms) @ RBrace # r"
    have e: "p_members m ?t = Some (ms, r)"
      using JObj.prems n Cons by (intro p_members_toks JObj.IH) (auto intro: rev_image_eqI)
    have "\<exists>k. hd ?t = Str k" "?t \<noteq> []"
      using Cons by (cases kv; simp add: commas_Cons)+
    then have "p_value n (LBrace # ?t) = map_option (\<lambda>(ms, r). (JObj ms, r)) (p_members m ?t)"
      using n by (cases ?t) auto
    with e show ?thesis by simp
  qed
qed

lemma parse_json_lex: "lex_json s = Some (toks v) \<Longrightarrow> parse_json s = Some v"
  using p_value_toks [of v "length (toks v)" "[]"] by (simp add: parse_json_def)

section \<open>Properties\<close>

text \<open>
  C18: The JSON text of a record whose names and texts hold no quote, backslash or control
  character parses back to the value of the record: its level, its time stamp and its members in
  the order they were added, nested nodes included.
\<close>

theorem record_json_roundtrip:
  assumes "json_value n = Some v" and "list_all isspace L"
  shows "parse_json (ToJson L n) = Some v"
  by (rule parse_json_lex [OF lexesD [OF json_value_lexes [OF assms]]])

theorem record_json_roundtrip_witness:
  "parse_json (ToJson ''  '' (LogNodeRec ''action_1'' 3 1 2
       [LogNodeString ''module'' ''gst'', LogNode ''gpu'' [LogNodeInt ''id'' (- 7)]])) =
     Some (JObj [(''loglevel'', JNum 3), (''time'', JStr (time_text 1 2)), (''module'', JStr ''gst''),
       (''gpu'', JObj [(''id'', JNum (- 7))])])"
  by (rule record_json_roundtrip) (simp_all add: plain_def isspace_def)

end
