(* ===== verification/Logger.thy ===== *)
theory Logger
  imports Log_Node
begin

text \<open>
  The logger, \<^verbatim>\<open>src/rvsliblogger.cpp\<close>: its static variables are one record, its methods take and
  return that record.  The streams \<^verbatim>\<open>cout\<close> and \<^verbatim>\<open>cerr\<close> are the text written to them so far; the
  files are a map from names to contents.  What the operating system answers (whether a file can
  be opened, whether a directory exists or can be made, the clock) is the record \<open>os\<close>, an argument
  of the operations that ask it.  A node given to a method is the tree it is at that moment.
\<close>

unbundle bit_operations_syntax

section \<open>State\<close>

record os =
  can_open :: "string \<Rightarrow> bool"
  opendir :: "string \<Rightarrow> bool"
  mkdir_p :: "string \<Rightarrow> bool"
  ticks :: "u32 \<times> u32"
  now_ms :: nat

record logger =
  loglevel_m :: int
  tojson_m :: bool
  append_m :: bool
  isfirstrecord_m :: bool
  initModule :: bool
  isfirstaction_m :: bool
  bStop :: bool
  stop_flags :: u16
  b_quiet :: bool
  log_file :: string
  json_log_file :: string
  files :: "string \<Rightarrow> string option"
  cout :: string
  cerr :: string

definition logger_start :: "(string \<Rightarrow> string option) \<Rightarrow> logger" where
  "logger_start fs = \<lparr>loglevel_m = 2, tojson_m = False, append_m = False, isfirstrecord_m = True,
     initModule = True, isfirstaction_m = True, bStop = False, stop_flags = 0, b_quiet = False,
     log_file = [], json_log_file = [], files = fs, cout = [], cerr = []\<rparr>"

definition loglevelname :: "string list" where
  "loglevelname = [''NONE  '', ''RESULT'', ''ERROR '', ''INFO  '', ''DEBUG '', ''TRACE '']"

section \<open>Setters\<close>

definition set_append :: "bool \<Rightarrow> logger \<Rightarrow> logger" where
  "set_append flag g = g\<lparr>append_m := flag\<rparr>"

definition log_level :: "int \<Rightarrow> logger \<Rightarrow> logger" where
  "log_level rLevel g = g\<lparr>loglevel_m := rLevel\<rparr>"

definition to_json :: "bool \<Rightarrow> logger \<Rightarrow> logger" where
  "to_json flag g = g\<lparr>tojson_m := flag\<rparr>"

definition quiet :: "logger \<Rightarrow> logger" where
  "quiet g = g\<lparr>b_quiet := True\<rparr>"

definition isPathedFile :: "string \<Rightarrow> bool" where
  "isPathedFile fname = has_char (CHR ''/'') fname"

definition doesFolderExist :: "os \<Rightarrow> string \<Rightarrow> logger \<Rightarrow> bool \<times> logger" where
  "doesFolderExist os fname g =
     (let dirName = (case rfind_below fname (CHR ''/'') (length fname) of
                       Some loc \<Rightarrow> substr fname 0 loc
                     | None \<Rightarrow> fname) in
      if \<not> opendir os dirName \<and> \<not> mkdir_p os dirName then (False, g)
      else if \<not> can_open os fname then (False, g)
      else (True, g\<lparr>files := (files g)(fname \<mapsto> [])\<rparr>))"

definition json_filename :: "os \<Rightarrow> string" where
  "json_filename os = ''/var/tmp/'' @ ''rvs'' @ ''_'' @ to_string (now_ms os) @ ''.json''"

definition print :: "string \<Rightarrow> logger \<Rightarrow> logger" where
  "print s g = g\<lparr>cout := cout g @ s\<rparr>"

text \<open>The buffer holds 1024 bytes; a longer name leaves it without its end mark, which every
  later reader of it needs: \<open>None\<close>.\<close>

definition set_log_file :: "os \<Rightarrow> string \<Rightarrow> logger \<Rightarrow> logger option" where
  "set_log_file os fname g =
     (if 1024 \<le> length fname then None
      else
        let g = g\<lparr>log_file := fname\<rparr> in
        Some (if isPathedFile fname then
                (let (ok, g) = doesFolderExist os fname g in
                 if ok then g else print ''Unable to create log file, check path.'' g)
              else g))"

definition set_json_log_file :: "os \<Rightarrow> string \<Rightarrow> logger \<Rightarrow> logger" where
  "set_json_log_file os fname g =
     (let (ss, g) =
        (if fname \<noteq> [] then
           (let g = g\<lparr>json_log_file := fname\<rparr> in
            if isPathedFile fname then
              (let (ok, g) = doesFolderExist os fname g in
               if \<not> ok then (''Unable to create Json log file specified at'' @ fname @ nl,
                             g\<lparr>json_log_file := json_filename os\<rparr>)
               else ([], g))
            else ([], g))
         else ([], g\<lparr>json_log_file := json_filename os\<rparr>)) in
      print (ss @ ''Json log file created at '' @ json_log_file g @ nl) g)"

section \<open>Error messages and plain records\<close>

definition Err :: "string option \<Rightarrow> string option \<Rightarrow> string option \<Rightarrow> logger \<Rightarrow> int \<times> logger" where
  "Err Message Module Action g =
     (case Message of
        None \<Rightarrow> (1, g)
      | Some message \<Rightarrow>
          (let module = (case Module of Some m \<Rightarrow> '' ['' @ m @ '']'' | None \<Rightarrow> []);
               action = (case Action of Some a \<Rightarrow> '' ['' @ a @ '']'' | None \<Rightarrow> []);
               out = ''RVS-ERROR'' @ module @ action @ '' '' @ message
           in (0, g\<lparr>cerr := cerr g @ out @ nl\<rparr>)))"

definition ToFile :: "os \<Rightarrow> string \<Rightarrow> bool \<Rightarrow> logger \<Rightarrow> int \<times> logger" where
  "ToFile os Row json_rec g =
     (if bStop g \<and> stop_flags g \<noteq> 0 then (0, g)
      else
        let logfile = (if json_rec then json_log_file g else log_file g) in
        if logfile = [] then (-1, g)
        else if \<not> can_open os logfile then (-1, g)
        else (0, g\<lparr>files := (files g)(logfile \<mapsto> (case files g logfile of Some c \<Rightarrow> c | None \<Rightarrow> []) @ Row)\<rparr>))"

definition unknown_level :: "int \<Rightarrow> logger \<Rightarrow> logger" where
  "unknown_level l g = snd (Err (Some (''unknown logging level: '' @ to_string_int l)) (Some ''CLI'') None g)"

definition LogExt :: "os \<Rightarrow> string \<Rightarrow> int \<Rightarrow> u32 \<Rightarrow> u32 \<Rightarrow> logger \<Rightarrow> int \<times> logger" where
  "LogExt os Message level Sec uSec g =
     (if bStop g \<and> stop_flags g \<noteq> 0 then (0, g)
      else if level < lognone \<or> level > logtrace then (-1, unknown_level level g)
      else if level > loglevel_m g then (0, g)
      else
        let (secs, usecs) = (if Sec OR uSec \<noteq> 0 then (Sec, uSec) else ticks os);
            row = ''['' @ loglevelname ! nat level @ ''] ['' @ time_text secs usecs @ ''] '' @ Message;
            g = (if \<not> b_quiet g then print (row @ nl) g else g)
        in if tojson_m g then (0, g)
           else
             let (row, g) = (if isfirstrecord_m g then (row, g\<lparr>isfirstrecord_m := False\<rparr>) else (nl @ row, g))
             in (0, snd (ToFile os row False g)))"

definition log :: "os \<Rightarrow> string \<Rightarrow> int \<Rightarrow> logger \<Rightarrow> int \<times> logger" where
  "log os Message level g = LogExt os Message level 0 0 g"

section \<open>Building records\<close>

definition CreateNode :: "string \<Rightarrow> log_node" where
  "CreateNode Name = LogNode Name []"

definition AddString :: "log_node \<Rightarrow> string \<Rightarrow> string \<Rightarrow> log_node option" where
  "AddString Parent Key Val = Add Parent (LogNodeString Key Val)"

definition AddInt :: "log_node \<Rightarrow> string \<Rightarrow> int \<Rightarrow> log_node option" where
  "AddInt Parent Key Val = Add Parent (LogNodeInt Key Val)"

definition AddNode :: "log_node \<Rightarrow> log_node \<Rightarrow> log_node option" where
  "AddNode Parent Child = Add Parent Child"

definition JsonNamedListCreate :: "string \<Rightarrow> int \<Rightarrow> log_node" where
  "JsonNamedListCreate name level = LogListNode name level []"

definition name_json_file :: "os \<Rightarrow> logger \<Rightarrow> logger" where
  "name_json_file os g =
     (if json_log_file g = [] then
        (let g = g\<lparr>json_log_file := json_filename os\<rparr>
         in print (''json log file is '' @ json_log_file g @ nl) g)
      else g)"

definition LogRecordCreate ::
  "os \<Rightarrow> string \<Rightarrow> string \<Rightarrow> int \<Rightarrow> u32 \<Rightarrow> u32 \<Rightarrow> bool \<Rightarrow> logger \<Rightarrow> log_node option \<times> logger" where
  "LogRecordCreate os Module Action level Sec uSec minimal g =
     (let g = name_json_file os g in
      if minimal then (Some (MinNode Action level False []), g)
      else
        let (sec, usec) = (if Sec OR uSec \<noteq> 0 then (Sec, uSec) else ticks os);
            rec = LogNodeRec Action level sec usec [];
            levelname = (if lognone \<le> level \<and> level < logtrace then loglevelname ! nat level
                         else ''UNKNOWN'')
        in (Option.bind (AddString rec ''action'' Action) (\<lambda>rec.
              Option.bind (AddString rec ''module'' Module) (\<lambda>rec.
                AddString rec ''loglevelname'' levelname)), g))"

section \<open>The JSON document\<close>

definition JsonStartNodeCreate :: "os \<Rightarrow> string \<Rightarrow> string \<Rightarrow> logger \<Rightarrow> int \<times> logger" where
  "JsonStartNodeCreate os Module Action g =
     (let g = name_json_file os g in
      ToFile os (''{'' @ nl @ dquote @ ''version'' @ dquote @ '':'' @ dquote @ ''1.0'' @ dquote @ '','' @ nl
                 @ dquote @ Module @ dquote @ '':'' @ ''{'' @ nl) True g)"

definition JsonActionStartNodeCreate :: "os \<Rightarrow> string \<Rightarrow> string \<Rightarrow> logger \<Rightarrow> int \<times> logger" where
  "JsonActionStartNodeCreate os Module Action g =
     (let g = (if initModule g \<or> json_log_file g = []
               then (snd (JsonStartNodeCreate os Module Action g))\<lparr>initModule := False\<rparr> else g);
          g = g\<lparr>isfirstrecord_m := True\<rparr>;
          (row, g) = (if isfirstaction_m g then (nl, g\<lparr>isfirstaction_m := False\<rparr>) else (nl @ '','', g))
      in ToFile os (row @ RVSINDENT @ dquote @ Action @ dquote @ '':'' @ ''['' @ nl) True g)"

definition JsonActionEndNodeCreate :: "os \<Rightarrow> logger \<Rightarrow> int \<times> logger" where
  "JsonActionEndNodeCreate os g = ToFile os (RVSINDENT @ '']'') True g"

definition JsonEndNodeCreate :: "os \<Rightarrow> logger \<Rightarrow> int \<times> logger" where
  "JsonEndNodeCreate os g =
     (if json_log_file g = [] then (-1, g)
      else ToFile os (RVSINDENT @ RVSINDENT @ ''}'' @ nl @ ''}'') True g)"

definition LogRecordFlush :: "os \<Rightarrow> log_node \<Rightarrow> logger \<Rightarrow> int \<times> logger" where
  "LogRecordFlush os r g =
     (if \<not> tojson_m g then (0, g)
      else
        let level = LogLevel r in
        if level < lognone \<or> level > logtrace then (-1, unknown_level level g)
        else if level > loglevel_m g then (0, g)
        else
          let row = (if append_m g then '','' else if \<not> isfirstrecord_m g then '','' else []);
              row = row @ ToJson ''  '' r;
              g = snd (ToFile os row True g)
          in (0, if isfirstrecord_m g then g\<lparr>isfirstrecord_m := False\<rparr> else g))"

section \<open>Log file life cycle\<close>

definition JsonPatchAppend :: "os \<Rightarrow> int \<Rightarrow> logger \<Rightarrow> int \<times> int \<times> logger" where
  "JsonPatchAppend os pSts g =
     (case files g (json_log_file g) of
        None \<Rightarrow> (-1, pSts, g)
      | Some c \<Rightarrow>
          if \<not> can_open os (json_log_file g) then (-1, pSts, g)
          else (0, 1, g\<lparr>files := (files g)(json_log_file g \<mapsto> butlast c @ '' '')\<rparr>))"

definition init_log_file :: "os \<Rightarrow> logger \<Rightarrow> int \<times> logger" where
  "init_log_file os g =
     (let g = g\<lparr>isfirstrecord_m := True, bStop := False, stop_flags := 0\<rparr> in
      if log_file g = [] then (0, g)
      else if append_m g then
        (if tojson_m g then
           (let (sts, patch_status, g) = JsonPatchAppend os (-1) g in
            if sts \<noteq> 0 then (-1, g) else (0, snd (ToFile os [] False g)))
         else (0, snd (ToFile os [] False g)))
      else
        if \<not> can_open os (log_file g) then (-1, g)
        else
          let g = g\<lparr>files := (files g)(log_file g \<mapsto> [])\<rparr>
          in (0, snd (ToFile os (if tojson_m g then ''['' else []) False g)))"

definition terminate :: "os \<Rightarrow> logger \<Rightarrow> int \<times> logger" where
  "terminate os g =
     (if log_file g = [] then (0, g)
      else (0, snd (ToFile os (if tojson_m g then nl @ '']'' else nl) False g)))"

definition Stop :: "os \<Rightarrow> u16 \<Rightarrow> logger \<Rightarrow> logger" where
  "Stop os flags g = snd (terminate os (g\<lparr>bStop := True, stop_flags := flags\<rparr>))"

definition Stopping :: "logger \<Rightarrow> bool" where
  "Stopping g = bStop g"

section \<open>Logging of text\<close>

definition stopped :: "logger \<Rightarrow> bool" where
  "stopped g \<longleftrightarrow> bStop g \<and> stop_flags g \<noteq> 0"

definition content :: "string \<Rightarrow> logger \<Rightarrow> string" where
  "content f g = (case files g f of Some c \<Rightarrow> c | None \<Rightarrow> [])"

lemma content_upd [simp]: "content f (g\<lparr>files := (files g)(f \<mapsto> c)\<rparr>) = c"
  by (simp add: content_def)

lemma ToFile_stopped: "stopped g \<Longrightarrow> ToFile os row j g = (0, g)"
  by (simp add: ToFile_def stopped_def)

lemma ToFile_writes:
  "\<not> stopped g \<Longrightarrow> f = (if j then json_log_file g else log_file g) \<Longrightarrow> f \<noteq> [] \<Longrightarrow> can_open os f \<Longrightarrow>
   ToFile os row j g = (0, g\<lparr>files := (files g)(f \<mapsto> content f g @ row)\<rparr>)"
  by (auto simp: ToFile_def stopped_def Let_def content_def)

definition level_ok :: "int \<Rightarrow> int \<Rightarrow> bool" where
  "level_ok L l \<longleftrightarrow> lognone \<le> l \<and> l \<le> logtrace \<and> l \<le> L"

text \<open>The line of a message, and the messages logged one after the other.\<close>

definition log_row :: "os \<Rightarrow> string \<Rightarrow> int \<Rightarrow> u32 \<Rightarrow> u32 \<Rightarrow> string" where
  "log_row os msg l Sec uSec =
     (let (secs, usecs) = (if Sec OR uSec \<noteq> 0 then (Sec, uSec) else ticks os)
      in ''['' @ loglevelname ! nat l @ ''] ['' @ time_text secs usecs @ ''] '' @ msg)"

type_synonym message = "string \<times> int \<times> u32 \<times> u32"

fun log_all :: "os \<Rightarrow> message list \<Rightarrow> logger \<Rightarrow> logger" where
  "log_all os [] g = g"
| "log_all os ((msg, l, s, u) # ms) g = log_all os ms (snd (LogExt os msg l s u g))"

fun rows_of :: "os \<Rightarrow> int \<Rightarrow> message list \<Rightarrow> string list" where
  "rows_of os L [] = []"
| "rows_of os L ((msg, l, s, u) # ms) =
     (if level_ok L l then [log_row os msg l s u] else []) @ rows_of os L ms"

text \<open>A logger that writes its lines to the file \<open>f\<close>.\<close>

definition text_ready :: "os \<Rightarrow> string \<Rightarrow> int \<Rightarrow> logger \<Rightarrow> bool" where
  "text_ready os f L g \<longleftrightarrow>
     \<not> stopped g \<and> \<not> tojson_m g \<and> log_file g = f \<and> f \<noteq> [] \<and> can_open os f \<and> loglevel_m g = L"

lemma unknown_level_fields [simp]:
  "files (unknown_level l g) = files g" "tojson_m (unknown_level l g) = tojson_m g"
  "append_m (unknown_level l g) = append_m g" "isfirstrecord_m (unknown_level l g) = isfirstrecord_m g"
  "initModule (unknown_level l g) = initModule g" "isfirstaction_m (unknown_level l g) = isfirstaction_m g"
  "bStop (unknown_level l g) = bStop g" "stop_flags (unknown_level l g) = stop_flags g"
  "log_file (unknown_level l g) = log_file g" "json_log_file (unknown_level l g) = json_log_file g"
  "loglevel_m (unknown_level l g) = loglevel_m g" "cout (unknown_level l g) = cout g"
  "b_quiet (unknown_level l g) = b_quiet g"
  by (simp_all add: unknown_level_def Err_def Let_def)

lemma LogExt_step:
  assumes "text_ready os f L g" and "g' = snd (LogExt os msg l s u g)"
  shows "text_ready os f L g'"
    and "content f g' = content f g @
           (if level_ok L l then (if isfirstrecord_m g then [] else nl) @ log_row os msg l s u else [])"
    and "isfirstrecord_m g' \<longleftrightarrow> isfirstrecord_m g \<and> \<not> level_ok L l"
proof -
  have t: "\<not> stopped g" "\<not> tojson_m g" "log_file g = f" "f \<noteq> []" "can_open os f"
    using assms(1) by (auto simp: text_ready_def)
  have "text_ready os f L g' \<and> content f g' = content f g @
           (if level_ok L l then (if isfirstrecord_m g then [] else nl) @ log_row os msg l s u else []) \<and>
      (isfirstrecord_m g' \<longleftrightarrow> isfirstrecord_m g \<and> \<not> level_ok L l)"
  proof (cases "level_ok L l")
    case True
    then show ?thesis
      using assms t
      by (auto simp: LogExt_def text_ready_def stopped_def level_ok_def ToFile_def print_def log_row_def
            content_def Let_def case_prod_beta)
  next
    case False
    then show ?thesis
      using assms t by (auto simp: LogExt_def text_ready_def stopped_def level_ok_def content_def)
  qed
  then show "text_ready os f L g'" and "content f g' = content f g @
           (if level_ok L l then (if isfirstrecord_m g then [] else nl) @ log_row os msg l s u else [])"
    and "isfirstrecord_m g' \<longleftrightarrow> isfirstrecord_m g \<and> \<not> level_ok L l" by blast+
qed

lemma log_all_content:
  assumes "text_ready os f L g"
  shows "text_ready os f L (log_all os ms g) \<and>
    content f (log_all os ms g) = content f g @
      (if isfirstrecord_m g then commas (CHR 0x0A) (rows_of os L ms)
       else concat (map (\<lambda>r. nl @ r) (rows_of os L ms)))"
  using assms
proof (induction os ms g rule: log_all.induct)
  case (1 os g)
  then show ?case by simp
next
  case (2 os msg l s u ms g)
  let ?g = "snd (LogExt os msg l s u g)"
  note st = LogExt_step [OF "2.prems" refl, of msg l s u]
  have cons: "commas (CHR 0x0A) (x # xs) = x @ concat (map (\<lambda>r. nl @ r) xs)" for x xs
    by (induction xs arbitrary: x) (simp_all add: nl_def)
  show ?case using "2.IH" [OF st(1)] st(2,3) by (auto simp: cons simp del: commas.simps)
qed

definition log_session :: "os \<Rightarrow> message list \<Rightarrow> logger \<Rightarrow> logger" where
  "log_session os ms g = snd (terminate os (log_all os ms (snd (init_log_file os g))))"

lemma log_session_content:
  assumes "log_file g = f" and "f \<noteq> []" and "can_open os f" and "\<not> tojson_m g" and "\<not> append_m g"
  shows "content f (log_session os ms g) =
    (if rows_of os (loglevel_m g) ms = [] then nl else concat (map (\<lambda>r. r @ nl) (rows_of os (loglevel_m g) ms)))"
proof -
  let ?L = "loglevel_m g" and ?i = "snd (init_log_file os g)"
  have i: "text_ready os f ?L ?i" "content f ?i = []" "isfirstrecord_m ?i"
    using assms by (auto simp: init_log_file_def text_ready_def stopped_def ToFile_def content_def Let_def)
  have a: "text_ready os f ?L (log_all os ms ?i)"
    "content f (log_all os ms ?i) = commas (CHR 0x0A) (rows_of os ?L ms)"
    using log_all_content [OF i(1), of ms] i(2,3) by auto
  have e: "commas (CHR 0x0A) (x # xs) @ nl = concat (map (\<lambda>r. r @ nl) (x # xs))" for x xs
    by (induction xs arbitrary: x) (simp_all add: nl_def)
  have "content f (log_session os ms g) = content f (log_all os ms ?i) @ nl"
    using a(1) by (auto simp: log_session_def terminate_def text_ready_def stopped_def ToFile_def content_def Let_def)
  then show ?thesis using a(2) e by (cases "rows_of os ?L ms") (simp_all del: commas.simps add: commas.simps(1))
qed

section \<open>The JSON document of a run\<close>

text \<open>What the modules call: an action opens its list, flushes its records and closes the list.\<close>

fun flush_all :: "os \<Rightarrow> log_node list \<Rightarrow> logger \<Rightarrow> logger" where
  "flush_all os [] g = g"
| "flush_all os (r # rs) g = flush_all os rs (snd (LogRecordFlush os r g))"

definition json_action :: "os \<Rightarrow> string \<Rightarrow> string \<times> log_node list \<Rightarrow> logger \<Rightarrow> logger" where
  "json_action os m a g =
     snd (JsonActionEndNodeCreate os (flush_all os (snd a) (snd (JsonActionStartNodeCreate os m (fst a) g))))"

definition json_run :: "os \<Rightarrow> string \<Rightarrow> (string \<times> log_node list) list \<Rightarrow> logger \<Rightarrow> logger" where
  "json_run os m acts g = snd (JsonEndNodeCreate os (fold (json_action os m) acts g))"

definition json_ready :: "os \<Rightarrow> string \<Rightarrow> int \<Rightarrow> logger \<Rightarrow> bool" where
  "json_ready os f L g \<longleftrightarrow>
     \<not> stopped g \<and> tojson_m g \<and> \<not> append_m g \<and> json_log_file g = f \<and> f \<noteq> [] \<and> can_open os f \<and> loglevel_m g = L"

definition shown :: "int \<Rightarrow> log_node list \<Rightarrow> log_node list" where
  "shown L rs = filter (\<lambda>r. level_ok L (LogLevel r)) rs"

lemma flush_step:
  assumes "json_ready os f L g" and "g' = snd (LogRecordFlush os r g)"
  shows "json_ready os f L g' \<and>
    content f g' = content f g @ (if level_ok L (LogLevel r)
       then (if isfirstrecord_m g then [] else '','') @ ToJson ''  '' r else []) \<and>
    (isfirstrecord_m g' \<longleftrightarrow> isfirstrecord_m g \<and> \<not> level_ok L (LogLevel r)) \<and>
    isfirstaction_m g' = isfirstaction_m g \<and> initModule g' = initModule g"
proof (cases "level_ok L (LogLevel r)")
  case True
  then show ?thesis
    using assms by (auto simp: LogRecordFlush_def json_ready_def stopped_def level_ok_def ToFile_def content_def Let_def)
next
  case False
  then show ?thesis
    using assms by (auto simp: LogRecordFlush_def json_ready_def stopped_def level_ok_def content_def Let_def)
qed

lemma flush_all_content:
  assumes "json_ready os f L g"
  shows "json_ready os f L (flush_all os rs g) \<and>
    content f (flush_all os rs g) = content f g @
      (if isfirstrecord_m g then commas (CHR '','') (map (ToJson ''  '') (shown L rs))
       else concat (map (\<lambda>r. '','' @ ToJson ''  '' r) (shown L rs))) \<and>
    isfirstaction_m (flush_all os rs g) = isfirstaction_m g \<and> initModule (flush_all os rs g) = initModule g"
  using assms
proof (induction os rs g rule: flush_all.induct)
  case (1 os g)
  then show ?case by (simp add: shown_def)
next
  case (2 os r rs g)
  note st = flush_step [OF "2.prems" refl, of r]
  have cons: "commas (CHR '','') (x # map h xs) = x @ concat (map (\<lambda>r. CHR '','' # h r) xs)" for x xs and h :: "log_node \<Rightarrow> string"
    by (induction xs arbitrary: x) simp_all
  show ?case using "2.IH" [OF conjunct1 [OF st]] st by (auto simp: cons shown_def simp del: commas.simps)
qed

definition action_text :: "int \<Rightarrow> string \<times> log_node list \<Rightarrow> string" where
  "action_text L a = RVSINDENT @ dquote @ fst a @ dquote @ '':'' @ ''['' @ nl @
     commas (CHR '','') (map (ToJson ''  '') (shown L (snd a))) @ RVSINDENT @ '']''"

definition head_text :: "string \<Rightarrow> string" where
  "head_text m = ''{'' @ nl @ dquote @ ''version'' @ dquote @ '':'' @ dquote @ ''1.0'' @ dquote @ '','' @ nl
                 @ dquote @ m @ dquote @ '':'' @ ''{'' @ nl"

lemma json_action_step:
  assumes "json_ready os f L g" and "g' = json_action os m a g"
  shows "json_ready os f L g' \<and> \<not> initModule g' \<and> \<not> isfirstaction_m g' \<and>
    content f g' = content f g @ (if initModule g then head_text m else []) @ nl @
      (if isfirstaction_m g then [] else '','') @ action_text L a"
proof -
  let ?s = "snd (JsonActionStartNodeCreate os m (fst a) g)"
  have s: "json_ready os f L ?s \<and> isfirstrecord_m ?s \<and> \<not> initModule ?s \<and> \<not> isfirstaction_m ?s \<and>
      content f ?s = content f g @ (if initModule g then head_text m else []) @ nl @
        (if isfirstaction_m g then [] else '','') @ RVSINDENT @ dquote @ fst a @ dquote @ '':'' @ ''['' @ nl"
    using assms(1)
    by (cases "initModule g"; cases "isfirstaction_m g")
       (simp_all add: JsonActionStartNodeCreate_def JsonStartNodeCreate_def json_ready_def stopped_def ToFile_def
          content_def Let_def name_json_file_def head_text_def)
  note fl = flush_all_content [OF conjunct1 [OF s], of "snd a"]
  show ?thesis
    using s fl unfolding assms(2)
    by (auto simp: json_action_def JsonActionEndNodeCreate_def json_ready_def stopped_def ToFile_def content_def
          Let_def action_text_def split: option.splits)
qed

lemma json_actions_content:
  assumes "json_ready os f L g" and "\<not> initModule g" and "\<not> isfirstaction_m g"
  shows "json_ready os f L (fold (json_action os m) acts g) \<and>
    content f (fold (json_action os m) acts g) =
      content f g @ concat (map (\<lambda>a. nl @ '','' @ action_text L a) acts)"
  using assms
proof (induction acts arbitrary: g)
  case (Cons a acts)
  note st = json_action_step [OF Cons.prems(1) refl, of m a]
  then show ?case using Cons.IH [of "json_action os m a g"] Cons.prems(2,3) by simp
qed simp

lemma json_run_content:
  assumes "json_ready os f L g" and "initModule g" and "isfirstaction_m g" and "acts \<noteq> []"
  shows "content f (json_run os m acts g) = content f g @ head_text m @ nl @
    commas (CHR '','') (map (\<lambda>a. action_text L a @ nl) (butlast acts) @ [action_text L (last acts)]) @
    RVSINDENT @ RVSINDENT @ ''}'' @ nl @ ''}''"
proof -
  obtain a as where acts: "acts = a # as" using assms(4) by (cases acts) auto
  note st = json_action_step [OF assms(1) refl, of m a]
  note rest = json_actions_content [of os f L "json_action os m a g" m as]
  have join: "x @ concat (map (\<lambda>a. nl @ '','' @ action_text L a) xs) =
      commas (CHR '','') (map (\<lambda>a. action_text L a @ nl) (butlast (b # xs)) @ [action_text L (last (b # xs))])"
    if "x = action_text L b" for x b xs
    using that
  proof (induction xs arbitrary: x b)
    case (Cons c xs)
    then show ?case using Cons.IH [OF refl, of c] by (cases "butlast (c # xs)") (auto split: if_splits)
  qed simp
  have "content f (json_run os m acts g) = content f (fold (json_action os m) acts g) @
      RVSINDENT @ RVSINDENT @ ''}'' @ nl @ ''}''"
    using st rest unfolding acts
    by (auto simp: json_run_def JsonEndNodeCreate_def json_ready_def stopped_def ToFile_def content_def Let_def)
  then show ?thesis
    using st rest assms(2,3) join [OF refl, of a as] unfolding acts by simp
qed

text \<open>The value of an action: its name and the values of the records the level lets through.\<close>

definition action_value :: "int \<Rightarrow> string \<times> log_node list \<Rightarrow> (string \<times> json) option" where
  "action_value L a =
     (if list_all plain (fst a) then map_option (\<lambda>vs. (fst a, JArr vs)) (those (map json_value (shown L (snd a))))
      else None)"

definition document_value :: "string \<Rightarrow> (string \<times> json) list \<Rightarrow> json" where
  "document_value m vs = JObj [(''version'', JStr ''1.0''), (m, JObj vs)]"

lemma lexes_nl [lexing]: "lexes s t \<Longrightarrow> lexes (nl @ s) t"
  by (simp add: nl_def lexes_space isspace_simps)

lemma action_text_lexes:
  assumes "action_value L a = Some (k, v)" and "lexes s t" and "no_digit s"
  shows "lexes (action_text L a @ s) (member_toks (k, v) @ t)"
proof -
  obtain vs where vs: "those (map json_value (shown L (snd a))) = Some vs" "k = fst a" "v = JArr vs" "list_all plain (fst a)"
    using assms(1) by (auto simp: action_value_def split: if_splits)
  have sp: "list_all isspace ''  ''" by (simp add: isspace_def)
  have ch: "lexes (ToJson ''  '' c) (toks w)" if "json_value c = Some w" for c w
    by (rule json_value_lexes [OF that sp])
  have bracket: "\<not> isdigit (CHR '' '')" by (simp add: isdigit_def)
  have "lexes (RVSINDENT @ quoted (fst a) @ CHR '':'' # CHR ''['' # nl @
      commas (CHR '','') (map (ToJson ''  '') (shown L (snd a))) @ RVSINDENT @ CHR '']'' # s)
      (Str (fst a) # Colon # LBrack # commas Comma (map toks vs) @ RBrack # t)"
    by (intro lexing isspace_simps isspace_indent vs(4) lexes_members [OF vs(1) ch] assms(2))
       (simp_all add: RVSINDENT_def bracket)
  then show ?thesis by (simp add: action_text_def vs quoted_def)
qed

lemma json_run_lexes:
  assumes g: "json_ready os f L g" "initModule g" "isfirstaction_m g" "content f g = []"
    and m: "list_all plain m"
    and acts: "those (map (action_value L) acts) = Some vs" "acts \<noteq> []"
  shows "lex_json (content f (json_run os m acts g)) = Some (toks (document_value m vs))"
proof (rule lexesD)
  let ?as = "map (\<lambda>a. action_text L a @ nl) (butlast acts) @ [action_text L (last acts)]"
  have av: "list_all2 (\<lambda>a v. action_value L a = Some v) acts vs" using acts(1) by (simp add: those_map)
  have nd: "no_digit nl" by (simp add: nl_def)
  have l1: "lexes (action_text L a @ nl) (member_toks v)" and l2: "lexes (action_text L a) (member_toks v)"
    if "action_value L a = Some v" for a v
    using action_text_lexes [of L a "fst v" "snd v" nl "[]"] action_text_lexes [of L a "fst v" "snd v" "[]" "[]"]
      lexes_nl [OF lexes_Nil] lexes_Nil nd that by simp_all
  have len: "length acts = length vs" using av by (rule list_all2_lengthD)
  then have "vs \<noteq> []" using acts(2) by auto
  then have lastv: "action_value L (last acts) = Some (last vs)"
    using av acts(2) len by (simp add: list_all2_conv_all_nth last_conv_nth)
  have "list_all2 lexes ?as (map member_toks (butlast vs) @ [member_toks (last vs)])"
  proof (rule list_all2_appendI)
    show "list_all2 lexes (map (\<lambda>a. action_text L a @ nl) (butlast acts)) (map member_toks (butlast vs))"
      using av l1 by (auto simp: list_all2_conv_all_nth nth_butlast)
    show "list_all2 lexes [action_text L (last acts)] [member_toks (last vs)]"
      using lastv l2 by simp
  qed
  moreover have "map member_toks (butlast vs) @ [member_toks (last vs)] = map member_toks vs"
    using av acts(2) by (cases vs rule: rev_cases) auto
  ultimately have as: "list_all2 lexes ?as (map member_toks vs)" by simp
  have ver: "list_all plain ''version''" "list_all plain ''1.0''" by (simp_all add: plain_def)
  have sp: "\<not> isdigit (CHR '' '')" by (simp add: isdigit_def)
  have "lexes (CHR ''{'' # nl @ quoted ''version'' @ CHR '':'' # quoted ''1.0'' @ CHR '','' # nl @ quoted m @
      CHR '':'' # CHR ''{'' # nl @ nl @ commas (CHR '','') ?as @ RVSINDENT @ RVSINDENT @ CHR ''}'' # nl @ CHR ''}'' # [])
      (LBrace # Str ''version'' # Colon # Str ''1.0'' # Comma # Str m # Colon # LBrace #
       commas Comma (map member_toks vs) @ RBrace # RBrace # [])"
    by (intro lexing isspace_simps isspace_indent ver m lexes_commas [OF as]) (simp add: RVSINDENT_def sp)
  then show "lexes (content f (json_run os m acts g)) (toks (document_value m vs))"
    by (simp add: json_run_content [OF g(1-3) acts(2)] g(4) head_text_def quoted_def document_value_def)
qed

section \<open>Stopping\<close>

lemma stop_stops: "flags \<noteq> 0 \<Longrightarrow> stopped (Stop os flags g) \<and> files (Stop os flags g) = files g"
  by (auto simp: Stop_def terminate_def stopped_def ToFile_def Let_def)

lemma stopped_LogExt: "stopped g \<Longrightarrow> LogExt os msg l s u g = (0, g)"
  by (simp add: LogExt_def stopped_def)

lemma stopped_flush: "stopped g \<Longrightarrow> files (snd (LogRecordFlush os r g)) = files g"
  by (auto simp: LogRecordFlush_def ToFile_def stopped_def Let_def)

lemma stopped_name: "stopped (name_json_file os g) = stopped g" "files (name_json_file os g) = files g"
  by (simp_all add: name_json_file_def stopped_def print_def Let_def)

lemma stopped_json:
  assumes "stopped g"
  shows "files (snd (JsonActionStartNodeCreate os m a g)) = files g"
    and "files (snd (JsonActionEndNodeCreate os g)) = files g"
    and "files (snd (JsonEndNodeCreate os g)) = files g"
    and "files (snd (terminate os g)) = files g"
proof -
  have st: "stopped (g\<lparr>initModule := x\<rparr>) = stopped g" "stopped (g\<lparr>isfirstrecord_m := x\<rparr>) = stopped g"
    "stopped (g\<lparr>isfirstaction_m := x\<rparr>) = stopped g" for g x
    by (simp_all add: stopped_def)
  show "files (snd (JsonActionStartNodeCreate os m a g)) = files g"
    using assms
    by (simp add: JsonActionStartNodeCreate_def JsonStartNodeCreate_def ToFile_stopped st stopped_name Let_def)
qed (use assms in \<open>auto simp: JsonActionEndNodeCreate_def JsonEndNodeCreate_def terminate_def ToFile_stopped Let_def\<close>)

section \<open>Steps of a logger\<close>

text \<open>
  The calls modules and threads make between two \<^verbatim>\<open>init_log_file\<close>, in any order.  (The two
  setters of the file names are made before the run starts.)
\<close>

inductive logger_step :: "os \<Rightarrow> logger \<Rightarrow> logger \<Rightarrow> bool" for os where
  Step_LogExt: "logger_step os g (snd (LogExt os msg l s u g))"
| Step_Flush: "logger_step os g (snd (LogRecordFlush os r g))"
| Step_Create: "logger_step os g (snd (LogRecordCreate os m a l s u b g))"
| Step_JsonActionStart: "logger_step os g (snd (JsonActionStartNodeCreate os m a g))"
| Step_JsonActionEnd: "logger_step os g (snd (JsonActionEndNodeCreate os g))"
| Step_JsonEnd: "logger_step os g (snd (JsonEndNodeCreate os g))"
| Step_Err: "logger_step os g (snd (Err msg' m' a' g))"
| Step_terminate: "logger_step os g (snd (terminate os g))"
| Step_level: "logger_step os g (log_level l g)"
| Step_json: "logger_step os g (to_json b g)"
| Step_append: "logger_step os g (set_append b g)"
| Step_quiet: "logger_step os g (quiet g)"

lemma stopped_fields: "bStop g' = bStop g \<Longrightarrow> stop_flags g' = stop_flags g \<Longrightarrow> stopped g' = stopped g"
  by (simp add: stopped_def)

lemma stopped_step:
  assumes "logger_step os g g'" and "stopped g"
  shows "stopped g' \<and> files g' = files g"
  using assms
proof (cases rule: logger_step.cases)
  case (Step_LogExt msg l s u)
  then show ?thesis using assms(2) by (simp add: stopped_LogExt)
next
  case (Step_Flush r)
  then show ?thesis
    using assms(2) stopped_flush [OF assms(2), of os r]
    by (auto simp: LogRecordFlush_def ToFile_stopped Let_def stopped_def)
next
  case (Step_Create m a l s u b)
  then show ?thesis
    using assms(2) by (simp add: LogRecordCreate_def stopped_name Let_def case_prod_beta)
next
  case (Step_JsonActionStart m a)
  have st: "stopped (h\<lparr>initModule := x\<rparr>) = stopped h" "stopped (h\<lparr>isfirstrecord_m := x\<rparr>) = stopped h"
    "stopped (h\<lparr>isfirstaction_m := x\<rparr>) = stopped h" for h x
    by (simp_all add: stopped_def)
  show ?thesis
    using Step_JsonActionStart assms(2) stopped_json(1) [OF assms(2), of os m a]
    by (simp add: JsonActionStartNodeCreate_def JsonStartNodeCreate_def ToFile_stopped st stopped_name Let_def)
next
  case Step_JsonActionEnd
  then show ?thesis using assms(2) by (simp add: JsonActionEndNodeCreate_def ToFile_stopped)
next
  case Step_JsonEnd
  then show ?thesis using assms(2) by (simp add: JsonEndNodeCreate_def ToFile_stopped)
next
  case (Step_Err msg' m' a')
  then show ?thesis using assms(2) by (simp add: Err_def Let_def stopped_def split: option.splits)
next
  case Step_terminate
  then show ?thesis using assms(2) by (simp add: terminate_def ToFile_stopped)
qed (simp_all add: log_level_def to_json_def set_append_def quiet_def stopped_def)

lemma stopped_steps:
  "(logger_step os)\<^sup>*\<^sup>* g g' \<Longrightarrow> stopped g \<Longrightarrow> stopped g' \<and> files g' = files g"
  by (induction rule: rtranclp_induct) (auto dest: stopped_step)

section \<open>Properties\<close>

text \<open>
  C19: A whole JSON run: the modules open each action, flush its records and close it, and the
  launcher closes the document.  When the file starts empty and names and texts are clean, the
  text of the file parses to one object with the version and, under the module name, one member
  for each action whose array holds, in order, the values of the records the log level lets through.
\<close>

theorem json_run_document:
  assumes "json_ready os f L g" and "initModule g" and "isfirstaction_m g" and "content f g = []"
    and "list_all plain m" and "those (map (action_value L) acts) = Some vs" and "acts \<noteq> []"
  shows "parse_json (content f (json_run os m acts g)) = Some (document_value m vs)"
  by (rule parse_json_lex [OF json_run_lexes [OF assms]])

definition sample_os :: os where
  "sample_os = \<lparr>can_open = (\<lambda>_. True), opendir = (\<lambda>_. True), mkdir_p = (\<lambda>_. True),
     ticks = (5, 6), now_ms = 0\<rparr>"

definition sample_logger :: "bool \<Rightarrow> logger" where
  "sample_logger json = (logger_start (\<lambda>_. None))\<lparr>loglevel_m := 3, tojson_m := json,
     log_file := ''rvs.log'', json_log_file := ''rvs.json''\<rparr>"

lemmas sample_logger_defs = sample_os_def sample_logger_def logger_start_def

theorem json_run_document_witness:
  "parse_json (content ''rvs.json'' (json_run sample_os ''gst''
      [(''a'', [MinNode ''a'' 1 False [LogNodeInt ''gpu'' 1], MinNode ''a'' 5 False []]), (''b'', [])]
      (sample_logger True))) =
   Some (JObj [(''version'', JStr ''1.0''),
     (''gst'', JObj [(''a'', JArr [JObj [(''gpu'', JNum 1)]]), (''b'', JArr [])])])"
proof -
  let ?acts = "[(''a'', [MinNode ''a'' 1 False [LogNodeInt ''gpu'' 1], MinNode ''a'' 5 False []]), (''b'', [])]"
  have "parse_json (content ''rvs.json'' (json_run sample_os ''gst'' ?acts (sample_logger True))) =
      Some (document_value ''gst'' [(''a'', JArr [JObj [(''gpu'', JNum 1)]]), (''b'', JArr [])])"
    by (rule json_run_document [where L = 3])
      (simp_all add: json_ready_def stopped_def sample_logger_defs content_def plain_def
        action_value_def shown_def level_ok_def log_levels)
  then show ?thesis by (simp add: document_value_def)
qed

text \<open>
  A text log opened for writing and terminated holds exactly the lines of the messages whose
  level is valid and not above the log level, in the order they were logged, one line each; with
  no such message it holds one empty line.
\<close>

theorem text_log_lines:
  assumes "log_file g = f" and "f \<noteq> []" and "can_open os f" and "\<not> tojson_m g" and "\<not> append_m g"
  shows "content f (log_session os ms g) =
    (if rows_of os (loglevel_m g) ms = [] then nl
     else concat (map (\<lambda>r. r @ nl) (rows_of os (loglevel_m g) ms)))"
  by (rule log_session_content [OF assms])

theorem text_log_lines_witness:
  "content ''rvs.log'' (log_session sample_os [(''hello'', 3, 1, 2), (''noise'', 4, 1, 2), (''bad'', 9, 1, 2)]
      (sample_logger False)) = ''[INFO  ] ['' @ time_text 1 2 @ ''] hello'' @ nl"
  using text_log_lines [of "sample_logger False" "''rvs.log''" sample_os
      "[(''hello'', 3, 1, 2), (''noise'', 4, 1, 2), (''bad'', 9, 1, 2)]"]
  by (simp add: sample_logger_defs level_ok_def log_row_def loglevelname_def log_levels)

text \<open>
  C20: After a stop with non-zero flags no sequence of logging calls, from any thread and in any
  order, changes the content of any file, and the logger stays stopped.
\<close>

theorem stop_silences_logger:
  assumes "flags \<noteq> 0" and "(logger_step os)\<^sup>*\<^sup>* (Stop os flags g) g'"
  shows "Stopping g' \<and> files g' = files g"
  using stopped_steps [OF assms(2)] stop_stops [OF assms(1), of os g] by (simp add: Stopping_def stopped_def)

theorem stop_silences_logger_witness:
  "files (snd (LogExt sample_os ''late'' 1 1 1 (Stop sample_os 1 (sample_logger False)))) ''rvs.log'' = None"
  using stop_silences_logger [of 1 sample_os "sample_logger False"
      "snd (LogExt sample_os ''late'' 1 1 1 (Stop sample_os 1 (sample_logger False)))"]
    Step_LogExt [of sample_os "Stop sample_os 1 (sample_logger False)" "''late''" 1 1 1]
  by (simp add: sample_logger_def logger_start_def r_into_rtranclp)

text \<open>
  A full log record created for an action parses as an object with its level, time, action,
  module and level name, in this order; the name of the trace level, and of every level out of
  range, is "UNKNOWN".
\<close>

theorem log_record_value:
  assumes "list_all plain m" and "list_all plain a" and "s \<noteq> 0 \<or> u \<noteq> 0"
  shows "\<exists>r. fst (LogRecordCreate os m a l s u False g) = Some r \<and>
    parse_json (ToJson ''  '' r) = Some (JObj [(''loglevel'', JNum l), (''time'', JStr (time_text s u)),
      (''action'', JStr a), (''module'', JStr m),
      (''loglevelname'', JStr (if 0 \<le> l \<and> l < 5 then loglevelname ! nat l else ''UNKNOWN''))])"
proof -
  define nm where "nm = (if 0 \<le> l \<and> l < 5 then loglevelname ! nat l else ''UNKNOWN'')"
  have "\<forall>x \<in> set loglevelname. list_all plain x" by (simp add: loglevelname_def plain_def)
  moreover have "nm \<in> set loglevelname" if "0 \<le> l" "l < 5"
  proof -
    have "nat l < length loglevelname" using that by (simp add: loglevelname_def)
    then show ?thesis using that by (simp add: nm_def)
  qed
  moreover have "list_all plain ''UNKNOWN''" by (simp add: plain_def)
  ultimately have "list_all plain nm" by (cases "0 \<le> l \<and> l < 5") (auto simp: nm_def)
  moreover have "s OR u \<noteq> 0" using assms(3) by (metis word_bw_same(2) or_eq_0_iff)
  moreover have "list_all plain ''action''" "list_all plain ''module''" "list_all plain ''loglevelname''"
    by (simp_all add: plain_def)
  ultimately have "fst (LogRecordCreate os m a l s u False g) = Some (LogNodeRec a l s u
      [LogNodeString ''action'' a, LogNodeString ''module'' m, LogNodeString ''loglevelname'' nm])"
    "json_value (LogNodeRec a l s u
      [LogNodeString ''action'' a, LogNodeString ''module'' m, LogNodeString ''loglevelname'' nm]) =
     Some (JObj [(''loglevel'', JNum l), (''time'', JStr (time_text s u)), (''action'', JStr a),
       (''module'', JStr m), (''loglevelname'', JStr nm)])"
    using assms(1,2) by (simp_all add: LogRecordCreate_def AddString_def Let_def nm_def log_levels)
  moreover have "list_all isspace ''  ''" by (simp add: isspace_def)
  ultimately show ?thesis
    using parse_json_lex [OF lexesD [OF json_value_lexes]] unfolding nm_def by blast
qed

theorem log_record_value_witness:
  "\<exists>r. fst (LogRecordCreate sample_os ''gst'' ''a'' 5 1 0 False (sample_logger True)) = Some r \<and>
    parse_json (ToJson ''  '' r) = Some (JObj [(''loglevel'', JNum 5), (''time'', JStr (time_text 1 0)),
      (''action'', JStr ''a''), (''module'', JStr ''gst''), (''loglevelname'', JStr ''UNKNOWN'')])"
  using log_record_value [of "''gst''" "''a''" 1 0 sample_os 5 "sample_logger True"] by (simp add: plain_def)

end
