(* ===== verification/Module_Manager.thy ===== *)
theory Module_Manager
  imports Logger Rvs_Options
begin

text \<open>
  The module manager, \<^verbatim>\<open>rvs/src/rvsmodule.cpp\<close>, with the action proxy \<^verbatim>\<open>rvsaction.cpp\<close> and the
  interfaces \<^verbatim>\<open>rvsif_base.cpp\<close>, \<^verbatim>\<open>rvsif0.cpp\<close>, \<^verbatim>\<open>rvsif1.cpp\<close>.  A module library is what \<^verbatim>\<open>dlopen\<close>
  returns for a file name: a record of its exported functions.  They work on a state \<open>'w\<close> of their
  own, behind action pointers of type \<open>'act\<close>; the functions the launcher calls while an action runs
  may also use the logger.  The state of the manager is the two static maps; the logger and the
  libraries' state travel with it in \<open>sys\<close>.
\<close>

section \<open>Data\<close>

type_synonym ('w, 'r) lib_op = "'w \<times> logger \<Rightarrow> 'r \<times> 'w \<times> logger"

record ('w, 'act, 'res) solib =
  so_sym :: "string \<Rightarrow> bool"
  so_has_interface :: "int \<Rightarrow> bool"
  so_init :: "('w, int) lib_op"
  so_terminate :: "('w, int) lib_op"
  so_action_create :: "('w, 'act option) lib_op"
  so_action_destroy :: "'act \<Rightarrow> ('w, int) lib_op"
  so_description :: string
  so_config :: string
  so_output :: string
  so_property_set :: "'act \<Rightarrow> string \<Rightarrow> string \<Rightarrow> ('w, int) lib_op"
  so_callback_set :: "'act \<Rightarrow> ('w, int) lib_op"
  so_run :: "'act \<Rightarrow> ('w, int \<times> 'res list) lib_op"  \<comment> \<open>the return code and the results it reports\<close>

datatype ifkind = IF0 | IF1

record ('w, 'act, 'res) module_t =
  m_name :: string
  m_lib :: "('w, 'act, 'res) solib"
  m_ifmap :: "(nat, ifkind) omap"

text \<open>The proxy of an action: the functions of its interfaces are those of its module's library.\<close>

record ('w, 'act, 'res) action_t =
  a_name :: string
  a_plibaction :: 'act
  a_lib :: "('w, 'act, 'res) solib"
  a_ifmap :: "(nat, ifkind \<times> 'act) omap"

record ('w, 'act, 'res) sys =
  s_log :: logger
  s_world :: 'w
  s_filemap :: "(string, string) omap"
  s_modulemap :: "(string, ('w, 'act, 'res) module_t) omap"
  s_lp_set :: bool  \<comment> \<open>the logger proxy \<^verbatim>\<open>rvs::lp\<close> holds the logger's functions\<close>

text \<open>The file of modules as the YAML library reads it: absent, not readable, or its pairs.\<close>

datatype modules_file = No_file | Load_error string | Pairs "(string \<times> string) list"

record ('w, 'act, 'res) env =
  e_os :: os
  e_options :: options
  e_dlopen :: "string \<Rightarrow> ('w, 'act, 'res) solib option"
  e_dlerror :: string
  e_modules_lib_dir :: string  \<comment> \<open>the value of \<^verbatim>\<open>rvs_get_rvs_modules_lib_dir_string\<close>\<close>

text \<open>What a call may end in: a value, an exception with its text, or undefined behaviour.\<close>

datatype 'a outcome = Ret 'a | Throw string | Undefined

definition err :: "string \<Rightarrow> ('w, 'act, 'res) sys \<Rightarrow> ('w, 'act, 'res) sys" where
  "err msg s = s\<lparr>s_log := snd (Err (Some msg) (Some ''CLI'') None (s_log s))\<rparr>"

text \<open>\<^verbatim>\<open>snprintf\<close> into a buffer of 1024 bytes.\<close>

definition buff1024 :: "string \<Rightarrow> string" where
  "buff1024 t = take 1023 t"

definition squoted :: "string \<Rightarrow> string" where
  "squoted t = [CHR 0x27] @ t @ [CHR 0x27]"

definition call_lib :: "('w, 'r) lib_op \<Rightarrow> ('w, 'act, 'res) sys \<Rightarrow> 'r \<times> ('w, 'act, 'res) sys" where
  "call_lib f s = (case f (s_world s, s_log s) of (r, w, g) \<Rightarrow> (r, s\<lparr>s_world := w, s_log := g\<rparr>))"

section \<open>Reading the list of modules\<close>

definition module_initialize ::
  "(string \<Rightarrow> modules_file) \<Rightarrow> string \<Rightarrow> ('w, 'act, 'res) sys \<Rightarrow> int outcome \<times> ('w, 'act, 'res) sys" where
  "module_initialize fs pConfig s =
     (case fs pConfig of
        No_file \<Rightarrow> (Ret (-1), err (buff1024 (''file does not exist: '' @ pConfig)) s)
      | Load_error w \<Rightarrow> (Throw w, s)
      | Pairs [] \<Rightarrow> (Ret (-1), err ''unsupported file format. Version string not found.'' s)
      | Pairs ((key, val) # rest) \<Rightarrow>
          if key \<noteq> ''version'' then (Ret (-1), err ''unsupported file format. Version string not found.'' s)
          else if val \<noteq> ''1'' then
            (Ret (-1), err (buff1024 (''file version is '' @ val @ '', expected 1'')) s)
          else (Ret 0, s\<lparr>s_filemap := fold (\<lambda>(k, v). om_insert k v) rest (s_filemap s)\<rparr>))"

section \<open>Interfaces\<close>

definition init_interface_method ::
  "('w, 'act, 'res) solib option \<Rightarrow> string \<Rightarrow> ('w, 'act, 'res) sys \<Rightarrow> int \<times> ('w, 'act, 'res) sys" where
  "init_interface_method psolib pMethodName s =
     (case psolib of
        None \<Rightarrow> (-1, err ''psolib is null.'' s)
      | Some lib \<Rightarrow>
          if \<not> so_sym lib pMethodName
          then (-1, err (buff1024 (''could not find .so method '' @ squoted pMethodName)) s)
          else (0, s))"

text \<open>A run of such calls, each failure lowering the status by one.\<close>

fun init_methods ::
  "('w, 'act, 'res) solib option \<Rightarrow> string list \<Rightarrow> int \<Rightarrow> ('w, 'act, 'res) sys \<Rightarrow> int \<times> ('w, 'act, 'res) sys" where
  "init_methods psolib [] sts s = (sts, s)"
| "init_methods psolib (n # ns) sts s =
     (let (r, s) = init_interface_method psolib n s in init_methods psolib ns (if r \<noteq> 0 then sts - 1 else sts) s)"

definition if0_methods :: "string list" where
  "if0_methods = [''rvs_module_get_description'', ''rvs_module_get_config'', ''rvs_module_get_output'']"

definition if1_methods :: "string list" where
  "if1_methods = [''rvs_module_action_property_set'', ''rvs_module_action_run'', ''rvs_module_action_callback_set'']"

definition global_methods :: "string list" where
  "global_methods = [''rvs_module_init'', ''rvs_module_terminate'', ''rvs_module_action_create'',
     ''rvs_module_action_destroy'', ''rvs_module_has_interface'']"

definition init_interface_0 ::
  "('w, 'act, 'res) solib \<Rightarrow> (nat, ifkind) omap \<Rightarrow> ('w, 'act, 'res) sys
     \<Rightarrow> int \<times> (nat, ifkind) omap \<times> ('w, 'act, 'res) sys" where
  "init_interface_0 lib ifm s =
     (if \<not> so_has_interface lib 0 then (-1, ifm, err ''Interface IF0 not available.'' s)
      else let (sts, s) = init_methods (Some lib) if0_methods 0 s
           in if sts \<noteq> 0 then (sts, ifm, s) else (0, om_insert 0 IF0 ifm, s))"

definition init_interface_1 ::
  "('w, 'act, 'res) solib \<Rightarrow> (nat, ifkind) omap \<Rightarrow> ('w, 'act, 'res) sys
     \<Rightarrow> int \<times> (nat, ifkind) omap \<times> ('w, 'act, 'res) sys" where
  "init_interface_1 lib ifm s =
     (if \<not> so_has_interface lib 1 then (-1, ifm, err ''Interface IF1 not available.'' s)
      else let (sts, s) = init_methods (Some lib) if1_methods 0 s
           in if sts \<noteq> 0 then (sts, ifm, s) else (0, om_insert 1 IF1 ifm, s))"

definition init_interfaces ::
  "('w, 'act, 'res) solib \<Rightarrow> ('w, 'act, 'res) sys \<Rightarrow> int \<times> (nat, ifkind) omap \<times> ('w, 'act, 'res) sys" where
  "init_interfaces lib s =
     (let (sts, s) = init_methods (Some lib) global_methods 0 s in
      if sts \<noteq> 0 then (sts, [], s)
      else
        let (r0, ifm, s) = init_interface_0 lib [] s in
        if r0 \<noteq> 0 then (sts - 1, ifm, s)
        else
          let (r1, ifm, s) = init_interface_1 lib ifm s
          in (if r1 \<noteq> 0 then sts - 1 else sts, ifm, s))"

section \<open>Loading a module\<close>

text \<open>\<^verbatim>\<open>initialize()\<close> of an instance hands the logger's functions to the library.\<close>

definition module_instance_initialize ::
  "('w, 'act, 'res) solib \<Rightarrow> ('w, 'act, 'res) sys \<Rightarrow> int \<times> ('w, 'act, 'res) sys" where
  "module_instance_initialize lib s = call_lib (so_init lib) (s\<lparr>s_lp_set := True\<rparr>)"

definition open_library :: "('w, 'act, 'res) env \<Rightarrow> string \<Rightarrow> ('w, 'act, 'res) solib option \<times> string" where
  "open_library env so =
     (let libpath = snd (has_option_val (e_options env) ''pwd'' []) @ ''../lib/rvs/'';
          sofullname = libpath @ so
      in case e_dlopen env sofullname of
           Some lib \<Rightarrow> (Some lib, sofullname)
         | None \<Rightarrow>
             (let (found, libpath) = has_option_val (e_options env) ''pwd'' libpath;
                  libpath = (if found then libpath else ''./'');
                  sofullname = libpath @ so
              in case e_dlopen env sofullname of
                   Some lib \<Rightarrow> (Some lib, sofullname)
                 | None \<Rightarrow>
                     (let sofullname = (e_modules_lib_dir env @ ''/'') @ so
                      in (e_dlopen env sofullname, sofullname))))"

definition find_create_module ::
  "('w, 'act, 'res) env \<Rightarrow> string \<Rightarrow> ('w, 'act, 'res) sys
     \<Rightarrow> ('w, 'act, 'res) module_t option \<times> ('w, 'act, 'res) sys" where
  "find_create_module env name s =
     (case om_find (s_modulemap s) name of
        Some m \<Rightarrow> (Some m, s)
      | None \<Rightarrow>
          (case om_find (s_filemap s) name of
             None \<Rightarrow> (None, err (buff1024 (''module '' @ squoted name @ '' not found in configuration.'')) s)
           | Some so \<Rightarrow>
               (case open_library env so of
                  (None, sofullname) \<Rightarrow>
                    (None, err (buff1024 (''reason: '' @ squoted (e_dlerror env)))
                             (err (buff1024 (''could not load .so '' @ squoted sofullname)) s))
                | (Some lib, _) \<Rightarrow>
                    (let (sts, ifm, s) = init_interfaces lib s in
                     if sts \<noteq> 0 then
                       (None, err (buff1024 (''could not init interfaces for '' @ squoted so)) s)
                     else
                       let (sts, s) = module_instance_initialize lib s in
                       if sts \<noteq> 0 then (None, err (buff1024 (''could not initialize '' @ squoted so)) s)
                       else
                         let m = \<lparr>m_name = name, m_lib = lib, m_ifmap = ifm\<rparr>
                         in (Some m, s\<lparr>s_modulemap := om_insert name m (s_modulemap s)\<rparr>)))))"

section \<open>Actions\<close>

text \<open>The proxy gets a clone of every interface, bound to the library's action.\<close>

definition clone_interfaces :: "(nat, ifkind) omap \<Rightarrow> 'act \<Rightarrow> (nat, ifkind \<times> 'act) omap" where
  "clone_interfaces ifm act = fold (\<lambda>(i, k). om_insert i (k, act)) ifm []"

definition action_create ::
  "('w, 'act, 'res) env \<Rightarrow> string \<Rightarrow> ('w, 'act, 'res) sys
     \<Rightarrow> ('w, 'act, 'res) action_t option \<times> ('w, 'act, 'res) sys" where
  "action_create env name s =
     (case find_create_module env name s of
        (None, s) \<Rightarrow> (None, err (buff1024 (''module '' @ squoted name @ '' not available.'')) s)
      | (Some m, s) \<Rightarrow>
          (case call_lib (so_action_create (m_lib m)) s of
             (None, s) \<Rightarrow>
               (None, err (buff1024 (''module '' @ squoted name @ '' could not create lib action.'')) s)
           | (Some act, s) \<Rightarrow>
               (Some \<lparr>a_name = name, a_plibaction = act, a_lib = m_lib m,
                      a_ifmap = clone_interfaces (m_ifmap m) act\<rparr>, s)))"

definition get_interface :: "('w, 'act, 'res) action_t \<Rightarrow> nat \<Rightarrow> (ifkind \<times> 'act) option" where
  "get_interface pa iID = om_find (a_ifmap pa) iID"

definition action_destroy ::
  "('w, 'act, 'res) env \<Rightarrow> ('w, 'act, 'res) action_t \<Rightarrow> ('w, 'act, 'res) sys \<Rightarrow> int \<times> ('w, 'act, 'res) sys" where
  "action_destroy env pa s =
     (case find_create_module env (a_name pa) s of
        (None, s) \<Rightarrow> (-1, s)
      | (Some m, s) \<Rightarrow> call_lib (so_action_destroy (m_lib m) (a_plibaction pa)) s)"

fun terminate_modules :: "(string \<times> ('w, 'act, 'res) module_t) list \<Rightarrow> ('w, 'act, 'res) sys \<Rightarrow> ('w, 'act, 'res) sys" where
  "terminate_modules [] s = s"
| "terminate_modules ((n, m) # ms) s = terminate_modules ms (snd (call_lib (so_terminate (m_lib m)) s))"

definition module_terminate :: "('w, 'act, 'res) sys \<Rightarrow> int \<times> ('w, 'act, 'res) sys" where
  "module_terminate s = (0, (terminate_modules (s_modulemap s) s)\<lparr>s_modulemap := []\<rparr>)"

text \<open>The calls through interface IF1.\<close>

definition if1_property_set ::
  "('w, 'act, 'res) env \<Rightarrow> ('w, 'act, 'res) solib \<Rightarrow> 'act \<Rightarrow> string \<Rightarrow> string \<Rightarrow> ('w, 'act, 'res) sys
     \<Rightarrow> int \<times> ('w, 'act, 'res) sys" where
  "if1_property_set env lib act pKey pVal s =
     (let s = s\<lparr>s_log := snd (log (e_os env) (''property: ['' @ pKey @ '']   val:['' @ pVal @ '']'') logdebug (s_log s))\<rparr>
      in call_lib (so_property_set lib act pKey pVal) s)"

definition if1_callback_set ::
  "('w, 'act, 'res) solib \<Rightarrow> 'act \<Rightarrow> ('w, 'act, 'res) sys \<Rightarrow> int \<times> ('w, 'act, 'res) sys" where
  "if1_callback_set lib act s = call_lib (so_callback_set lib act) s"

definition if1_run ::
  "('w, 'act, 'res) solib \<Rightarrow> 'act \<Rightarrow> ('w, 'act, 'res) sys \<Rightarrow> (int \<times> 'res list) \<times> ('w, 'act, 'res) sys" where
  "if1_run lib act s = call_lib (so_run lib act) s"

section \<open>Listing the modules\<close>

definition sys_print :: "string \<Rightarrow> ('w, 'act, 'res) sys \<Rightarrow> ('w, 'act, 'res) sys" where
  "sys_print t s = s\<lparr>s_log := print t (s_log s)\<rparr>"

fun list_modules_loop ::
  "('w, 'act, 'res) env \<Rightarrow> (string \<times> string) list \<Rightarrow> ('w, 'act, 'res) sys \<Rightarrow> ('w, 'act, 'res) sys" where
  "list_modules_loop env [] s = s"
| "list_modules_loop env ((name, so) # ms) s =
     (case action_create env name s of
        (None, s) \<Rightarrow> list_modules_loop env ms (err (buff1024 (''could not open module '' @ squoted name)) s)
      | (Some pa, s) \<Rightarrow>
          (let s = sys_print (''  '' @ name @ '':'' @ nl) s in
           case get_interface pa 0 of
             Some (IF0, act) \<Rightarrow>
               (let s = sys_print ([CHR 0x09] @ ''Description: '' @ so_description (a_lib pa) @ nl) s;
                    s = sys_print ([CHR 0x09] @ ''Input config. parameters: '' @ so_config (a_lib pa) @ nl) s;
                    s = sys_print ([CHR 0x09] @ ''Output: '' @ so_output (a_lib pa) @ nl @ nl) s
                in list_modules_loop env ms (snd (action_destroy env pa s)))
           | _ \<Rightarrow>
               list_modules_loop env ms
                 (err ''could not obtain interface if0'' (snd (action_destroy env pa s)))))"

definition do_list_modules :: "('w, 'act, 'res) env \<Rightarrow> ('w, 'act, 'res) sys \<Rightarrow> ('w, 'act, 'res) sys" where
  "do_list_modules env s = list_modules_loop env (s_filemap s) s"

section \<open>What the calls leave alone\<close>

lemma err_fields [simp]:
  "s_world (err t s) = s_world s" "s_filemap (err t s) = s_filemap s"
  "s_modulemap (err t s) = s_modulemap s" "s_lp_set (err t s) = s_lp_set s"
  by (simp_all add: err_def)

lemma call_lib_fields [simp]:
  "s_filemap (snd (call_lib f s)) = s_filemap s" "s_modulemap (snd (call_lib f s)) = s_modulemap s"
  "s_lp_set (snd (call_lib f s)) = s_lp_set s"
  by (simp_all add: call_lib_def case_prod_beta)

lemma init_method_fields [simp]:
  "s_filemap (snd (init_interface_method l n s)) = s_filemap s"
  "s_modulemap (snd (init_interface_method l n s)) = s_modulemap s"
  "s_world (snd (init_interface_method l n s)) = s_world s"
  by (simp_all add: init_interface_method_def split: option.splits)

lemma init_methods_fields [simp]:
  "s_filemap (snd (init_methods l ns sts s)) = s_filemap s"
  "s_modulemap (snd (init_methods l ns sts s)) = s_modulemap s"
  "s_world (snd (init_methods l ns sts s)) = s_world s"
  by (induction l ns sts s rule: init_methods.induct) (simp_all add: case_prod_beta Let_def)

lemma init_methods_count:
  "fst (init_methods (Some lib) ns sts s) = sts - int (length (filter (\<lambda>n. \<not> so_sym lib n) ns))"
  by (induction ns arbitrary: sts s) (simp_all add: init_interface_method_def case_prod_beta Let_def)

lemma filter_none: "length (filter (\<lambda>n. \<not> P n) ns) = 0 \<longleftrightarrow> list_all P ns"
  by (induction ns) auto

text \<open>A library that exports every function and both interfaces.\<close>

definition lib_complete :: "('w, 'act, 'res) solib \<Rightarrow> bool" where
  "lib_complete lib \<longleftrightarrow> list_all (so_sym lib) (global_methods @ if0_methods @ if1_methods) \<and>
     so_has_interface lib 0 \<and> so_has_interface lib 1"

definition both_interfaces :: "(nat, ifkind) omap" where
  "both_interfaces = [(0, IF0), (1, IF1)]"

lemma init_interfaces_result:
  assumes "init_interfaces lib s = (sts, ifm, s')"
  shows "sts = 0 \<longleftrightarrow> lib_complete lib" and "sts = 0 \<Longrightarrow> ifm = both_interfaces"
    and "s_filemap s' = s_filemap s" and "s_modulemap s' = s_modulemap s" and "s_world s' = s_world s"
proof -
  let ?ok = "\<lambda>ns. list_all (so_sym lib) ns"
  have ok: "fst (init_methods (Some lib) ns 0 t) = 0 \<longleftrightarrow> ?ok ns" for ns t
    using filter_none [of "so_sym lib" ns] by (simp add: init_methods_count)
  have neg: "fst (init_methods (Some lib) ns 0 t) \<noteq> 1" for ns t by (simp add: init_methods_count)
  have "(sts = 0 \<longleftrightarrow> lib_complete lib) \<and> (sts = 0 \<longrightarrow> ifm = both_interfaces) \<and>
      s_filemap s' = s_filemap s \<and> s_modulemap s' = s_modulemap s \<and> s_world s' = s_world s"
    using assms
    by (auto simp: init_interfaces_def init_interface_0_def init_interface_1_def ok neg lib_complete_def both_interfaces_def
        om_insert_def case_prod_beta Let_def split: if_splits)
  then show "sts = 0 \<longleftrightarrow> lib_complete lib" and "sts = 0 \<Longrightarrow> ifm = both_interfaces"
    and "s_filemap s' = s_filemap s" and "s_modulemap s' = s_modulemap s" and "s_world s' = s_world s" by auto
qed

section \<open>The invariant of the manager\<close>

definition module_ok :: "string \<times> ('w, 'act, 'res) module_t \<Rightarrow> bool" where
  "module_ok e \<longleftrightarrow> m_name (snd e) = fst e \<and> m_ifmap (snd e) = both_interfaces \<and> lib_complete (m_lib (snd e))"

definition manager_ok :: "('w, 'act, 'res) sys \<Rightarrow> bool" where
  "manager_ok s \<longleftrightarrow> om_wf (s_filemap s) \<and> om_wf (s_modulemap s) \<and> list_all module_ok (s_modulemap s)"

lemma set_om_assign: "set (om_assign k v m) \<subseteq> insert (k, v) (set m)"
  by (induction k v m rule: om_assign.induct) auto

lemma set_om_insert: "set (om_insert k v m) \<subseteq> insert (k, v) (set m)"
  using set_om_assign [of k v m] by (auto simp: om_insert_def split: option.splits)

lemma manager_ok_find: "manager_ok s \<Longrightarrow> om_find (s_modulemap s) n = Some m \<Longrightarrow> module_ok (n, m)"
  by (auto simp: manager_ok_def list_all_iff dest: map_of_SomeD)

text \<open>The three outcomes of looking a module up.\<close>

lemma find_create_cases:
  obtains (known) m where "om_find (s_modulemap s) name = Some m" "find_create_module env name s = (Some m, s)"
  | (failed) s' where "om_find (s_modulemap s) name = None" "find_create_module env name s = (None, s')"
      "s_filemap s' = s_filemap s" "s_modulemap s' = s_modulemap s"
  | (loaded) lib so s' where "om_find (s_modulemap s) name = None" "om_find (s_filemap s) name = Some so"
      "fst (open_library env so) = Some lib" "lib_complete lib"
      "find_create_module env name s = (Some \<lparr>m_name = name, m_lib = lib, m_ifmap = both_interfaces\<rparr>, s')"
      "s_filemap s' = s_filemap s"
      "s_modulemap s' = om_insert name \<lparr>m_name = name, m_lib = lib, m_ifmap = both_interfaces\<rparr> (s_modulemap s)"
proof (cases "om_find (s_modulemap s) name")
  case (Some m)
  then show ?thesis by (intro known [of m]) (simp_all add: find_create_module_def)
next
  case new: None
  show ?thesis
  proof (cases "om_find (s_filemap s) name")
    case None
    with new show ?thesis
      by (intro failed [of "snd (find_create_module env name s)"]) (simp_all add: find_create_module_def)
  next
    case so: (Some so)
    show ?thesis
    proof (cases "open_library env so")
      case (Pair r full)
      show ?thesis
      proof (cases r)
        case None
        with new so Pair show ?thesis
          by (intro failed [of "snd (find_create_module env name s)"]) (simp_all add: find_create_module_def)
      next
        case lib: (Some lib)
        obtain sts ifm s1 where i: "init_interfaces lib s = (sts, ifm, s1)" by (cases "init_interfaces lib s") auto
        obtain rc s2 where m: "module_instance_initialize lib s1 = (rc, s2)"
          by (cases "module_instance_initialize lib s1") auto
        note ii = init_interfaces_result [OF i]
        have s2: "s_filemap s2 = s_filemap s" "s_modulemap s2 = s_modulemap s"
          using m ii(3,4) call_lib_fields [of "so_init lib" "s1\<lparr>s_lp_set := True\<rparr>"]
          by (auto simp: module_instance_initialize_def)
        show ?thesis
        proof (cases "sts = 0 \<and> rc = 0")
          case True
          then show ?thesis
            using new so Pair lib i m ii s2
            by (intro loaded [of so lib "snd (find_create_module env name s)"])
              (simp_all add: find_create_module_def Let_def)
        next
          case False
          then show ?thesis
            using new so Pair lib i m ii(3,4) s2
            by (cases "sts = 0"; intro failed [of "snd (find_create_module env name s)"])
              (simp_all add: find_create_module_def)
        qed
      qed
    qed
  qed
qed

lemma find_create_ok:
  fixes s :: "('w, 'act, 'res) sys"
  assumes "manager_ok s" and "find_create_module env name s = (r, s')"
  shows "manager_ok s'"
proof (rule find_create_cases [where s = s and name = name and env = env])
  fix m assume "find_create_module env name s = (Some m, s)"
  with assms show ?thesis by simp
next
  fix t assume "find_create_module env name s = (None, t)" "s_filemap t = s_filemap s" "s_modulemap t = s_modulemap s"
  with assms show ?thesis by (simp add: manager_ok_def)
next
  fix lib :: "('w, 'act, 'res) solib" and so :: string and t
  let ?m = "\<lparr>m_name = name, m_lib = lib, m_ifmap = both_interfaces\<rparr>"
  assume l: "lib_complete lib" "find_create_module env name s = (Some ?m, t)" "s_filemap t = s_filemap s"
    "s_modulemap t = om_insert name ?m (s_modulemap s)"
  have "list_all module_ok (om_insert name ?m (s_modulemap s))"
    using assms(1) l(1) set_om_insert [of name ?m "s_modulemap s"]
    by (auto simp: manager_ok_def list_all_iff module_ok_def)
  with assms l show ?thesis by (simp add: manager_ok_def)
qed

lemma find_create_stable:
  assumes "find_create_module env name s = (r, s')"
  shows "s_filemap s' = s_filemap s"
    and "om_find (s_modulemap s') = (case r of None \<Rightarrow> om_find (s_modulemap s)
           | Some m \<Rightarrow> (om_find (s_modulemap s))(name \<mapsto> m))"
proof -
  have "s_filemap s' = s_filemap s \<and> om_find (s_modulemap s') = (case r of None \<Rightarrow> om_find (s_modulemap s)
           | Some m \<Rightarrow> (om_find (s_modulemap s))(name \<mapsto> m))"
    by (rule find_create_cases [where s = s and name = name and env = env])
       (use assms in \<open>auto simp: om_find_insert fun_upd_idem\<close>)
  then show "s_filemap s' = s_filemap s"
    and "om_find (s_modulemap s') = (case r of None \<Rightarrow> om_find (s_modulemap s)
           | Some m \<Rightarrow> (om_find (s_modulemap s))(name \<mapsto> m))" by auto
qed

text \<open>A module that was found is found again without any effect: it is opened and initialised once.\<close>

lemma find_create_once:
  assumes "find_create_module env name s = (Some m, s')"
  shows "find_create_module env' name s' = (Some m, s')"
  using find_create_stable(2) [OF assms] by (simp add: find_create_module_def)

lemma clone_both: "clone_interfaces both_interfaces act = [(0, IF0, act), (1, IF1, act)]"
  by (simp add: clone_interfaces_def both_interfaces_def om_insert_def)

lemma action_create_result:
  assumes "manager_ok s" and "action_create env name s = (r, s')"
  shows "manager_ok s'" and "s_filemap s' = s_filemap s"
    and "r = Some pa \<Longrightarrow> a_name pa = name \<and> lib_complete (a_lib pa) \<and>
      get_interface pa 0 = Some (IF0, a_plibaction pa) \<and> get_interface pa 1 = Some (IF1, a_plibaction pa) \<and>
      (\<exists>m. om_find (s_modulemap s') name = Some m \<and> m_lib m = a_lib pa)"
proof -
  obtain q s1 where f: "find_create_module env name s = (q, s1)" by (cases "find_create_module env name s") auto
  note ok = find_create_ok [OF assms(1) f] and st = find_create_stable [OF f]
  have mm: "manager_ok t" if "s_filemap t = s_filemap s1" "s_modulemap t = s_modulemap s1" for t
    using ok that by (simp add: manager_ok_def)
  have s': "s_filemap s' = s_filemap s1 \<and> s_modulemap s' = s_modulemap s1"
  proof (cases q)
    case None
    with assms(2) f show ?thesis by (auto simp: action_create_def)
  next
    case (Some m)
    obtain x s2 where c: "call_lib (so_action_create (m_lib m)) s1 = (x, s2)" by fastforce
    then have "s_filemap s2 = s_filemap s1" "s_modulemap s2 = s_modulemap s1"
      using call_lib_fields(1,2) [of "so_action_create (m_lib m)" s1] by simp_all
    with assms(2) f Some c show ?thesis by (cases x) (auto simp: action_create_def)
  qed
  then show "manager_ok s'" and "s_filemap s' = s_filemap s" using mm st(1) by simp_all
  show "a_name pa = name \<and> lib_complete (a_lib pa) \<and>
      get_interface pa 0 = Some (IF0, a_plibaction pa) \<and> get_interface pa 1 = Some (IF1, a_plibaction pa) \<and>
      (\<exists>m. om_find (s_modulemap s') name = Some m \<and> m_lib m = a_lib pa)" if r: "r = Some pa"
  proof -
    obtain m act where m: "q = Some m" and c: "call_lib (so_action_create (m_lib m)) s1 = (Some act, s')"
      and pa: "pa = \<lparr>a_name = name, a_plibaction = act, a_lib = m_lib m, a_ifmap = clone_interfaces (m_ifmap m) act\<rparr>"
      using assms(2) f r by (auto simp: action_create_def split: option.splits prod.splits)
    have find: "om_find (s_modulemap s1) name = Some m" using st(2) m by simp
    have mok: "module_ok (name, m)" by (rule manager_ok_find [OF ok find])
    have "s_modulemap s' = s_modulemap s1" using call_lib_fields(2) [of "so_action_create (m_lib m)" s1] c by simp
    then show ?thesis
      using mok find pa by (auto simp: module_ok_def get_interface_def clone_both)
  qed
qed

lemma action_destroy_ok: "manager_ok s \<Longrightarrow> manager_ok (snd (action_destroy env pa s))"
  using find_create_ok [of s env "a_name pa"]
  by (auto simp: action_destroy_def manager_ok_def split: prod.splits option.splits)

lemma terminate_modules_fields [simp]:
  "s_filemap (terminate_modules ms s) = s_filemap s" "s_modulemap (terminate_modules ms s) = s_modulemap s"
  by (induction ms s rule: terminate_modules.induct) simp_all

lemma module_terminate_ok:
  "manager_ok s \<Longrightarrow> manager_ok (snd (module_terminate s)) \<and> s_modulemap (snd (module_terminate s)) = []"
  by (simp add: module_terminate_def manager_ok_def)

section \<open>The list of modules\<close>

lemma module_initialize_ok: "manager_ok s \<Longrightarrow> manager_ok (snd (module_initialize fs f s))"
  by (auto simp: module_initialize_def manager_ok_def om.wf_fold_insert split: modules_file.splits list.splits)

lemma module_initialize_success:
  "fst (module_initialize fs f s) = Ret 0 \<longleftrightarrow> (\<exists>rest. fs f = Pairs ((''version'', ''1'') # rest))"
  by (auto simp: module_initialize_def split: modules_file.splits list.splits)

text \<open>The first entry of a name counts, and an entry of an earlier call before it.\<close>

lemma module_initialize_files:
  assumes "fs f = Pairs ((''version'', ''1'') # rest)"
  shows "om_find (s_filemap (snd (module_initialize fs f s))) = map_of rest ++ om_find (s_filemap s)"
  using assms by (simp add: module_initialize_def om.find_fold_insert)

text \<open>The three places a library is looked for, in order.\<close>

definition library_places :: "('w, 'act, 'res) env \<Rightarrow> string \<Rightarrow> string list" where
  "library_places env so =
     (case om_find (e_options env) ''pwd'' of
        Some pwd \<Rightarrow> [pwd @ ''../lib/rvs/'' @ so, pwd @ so, e_modules_lib_dir env @ ''/'' @ so]
      | None \<Rightarrow> [''../lib/rvs/'' @ so, ''./'' @ so, e_modules_lib_dir env @ ''/'' @ so])"

fun first_open :: "(string \<Rightarrow> 'l option) \<Rightarrow> string list \<Rightarrow> 'l option" where
  "first_open dl [] = None"
| "first_open dl (p # ps) = (case dl p of Some l \<Rightarrow> Some l | None \<Rightarrow> first_open dl ps)"

lemma open_library_first: "fst (open_library env so) = first_open (e_dlopen env) (library_places env so)"
  by (simp add: open_library_def library_places_def has_option_val_def Let_def split: option.splits)

section \<open>Steps of the manager\<close>

text \<open>
  The calls the launcher makes on the manager, in any order; \<open>fs\<close> is what the YAML library reads
  from the file of modules.
\<close>

inductive manager_step ::
  "('w, 'act, 'res) env \<Rightarrow> (string \<Rightarrow> modules_file) \<Rightarrow> ('w, 'act, 'res) sys \<Rightarrow> ('w, 'act, 'res) sys \<Rightarrow> bool"
  for env fs where
  Step_initialize: "manager_step env fs s (snd (module_initialize fs f s))"
| Step_find: "manager_step env fs s (snd (find_create_module env n s))"
| Step_action_create: "manager_step env fs s (snd (action_create env n s))"
| Step_action_destroy: "manager_step env fs s (snd (action_destroy env pa s))"
| Step_property: "manager_step env fs s (snd (if1_property_set env lib act k v s))"
| Step_callback: "manager_step env fs s (snd (if1_callback_set lib act s))"
| Step_run: "manager_step env fs s (snd (if1_run lib act s))"
| Step_list: "manager_step env fs s (do_list_modules env s)"
| Step_terminate: "manager_step env fs s (snd (module_terminate s))"

lemma manager_ok_cong:
  "s_filemap t = s_filemap s \<Longrightarrow> s_modulemap t = s_modulemap s \<Longrightarrow> manager_ok t = manager_ok s"
  by (simp add: manager_ok_def)

lemma action_create_ok: "manager_ok s \<Longrightarrow> manager_ok (snd (action_create env n s))"
  by (metis action_create_result(1) prod.collapse)

lemma list_modules_ok: "manager_ok s \<Longrightarrow> manager_ok (list_modules_loop env ms s)"
proof (induction ms arbitrary: s)
  case Nil
  then show ?case by simp
next
  case (Cons e ms)
  obtain name so where e: "e = (name, so)" by (cases e)
  obtain r s1 where c: "action_create env name s = (r, s1)" by fastforce
  have ok: "manager_ok s1" using action_create_ok [OF Cons.prems, of env name] c by simp
  have p: "manager_ok (sys_print t u) = manager_ok u" "manager_ok (err t u) = manager_ok u" for t u
    by (simp_all add: sys_print_def err_def manager_ok_def)
  show ?case
  proof (cases r)
    case None
    with e c ok show ?thesis by (simp add: Cons.IH p)
  next
    case (Some pa)
    with e c ok show ?thesis
      by (auto simp: Let_def p action_destroy_ok intro!: Cons.IH split: option.splits prod.splits ifkind.splits)
  qed
qed

lemma manager_step_ok: "manager_step env fs s s' \<Longrightarrow> manager_ok s \<Longrightarrow> manager_ok s'"
proof (induction rule: manager_step.induct)
  case (Step_find s n)
  then show ?case by (metis find_create_ok prod.collapse)
next
  case (Step_property s lib act k v)
  then show ?case by (simp add: if1_property_set_def manager_ok_def)
next
  case (Step_callback s lib act)
  then show ?case by (simp add: if1_callback_set_def manager_ok_def)
next
  case (Step_run s lib act)
  then show ?case by (simp add: if1_run_def manager_ok_def)
qed (simp_all add: module_initialize_ok action_create_ok action_destroy_ok module_terminate_ok
      do_list_modules_def list_modules_ok)

text \<open>The manager before its first call: both maps are empty.\<close>

definition sys_start :: "'w \<Rightarrow> logger \<Rightarrow> ('w, 'act, 'res) sys" where
  "sys_start w g = \<lparr>s_log = g, s_world = w, s_filemap = [], s_modulemap = [], s_lp_set = False\<rparr>"

lemma manager_reachable_ok: "(manager_step env fs)\<^sup>*\<^sup>* (sys_start w g) s \<Longrightarrow> manager_ok s"
proof (induction rule: rtranclp_induct)
  case base
  then show ?case by (simp add: sys_start_def manager_ok_def)
next
  case (step s t)
  then show ?case by (blast intro: manager_step_ok)
qed

section \<open>A sample library\<close>

definition sample_lib :: "(nat, nat, unit) solib" where
  "sample_lib = \<lparr>so_sym = (\<lambda>_. True), so_has_interface = (\<lambda>i. i = 0 \<or> i = 1),
     so_init = (\<lambda>(w, g). (0, w, g)), so_terminate = (\<lambda>(w, g). (0, 0, g)),
     so_action_create = (\<lambda>(w, g). (Some w, Suc w, g)), so_action_destroy = (\<lambda>a (w, g). (0, w, g)),
     so_description = ''d'', so_config = ''c'', so_output = ''o'',
     so_property_set = (\<lambda>a k v (w, g). (0, w, g)), so_callback_set = (\<lambda>a (w, g). (0, w, g)),
     so_run = (\<lambda>a (w, g). ((0, []), w, g))\<rparr>"

definition sample_env :: "(nat, nat, unit) env" where
  "sample_env = \<lparr>e_os = sample_os, e_options = [],
     e_dlopen = (\<lambda>p. if p = ''./libgst.so'' then Some sample_lib else None),
     e_dlerror = ''no such file'', e_modules_lib_dir = ''/opt/rocm/lib/rvs''\<rparr>"

definition sample_modules :: "string \<Rightarrow> modules_file" where
  "sample_modules f = Pairs [(''version'', ''1''), (''gst'', ''libgst.so''), (''gst'', ''libold.so'')]"

definition sample_sys :: "(nat, nat, unit) sys" where
  "sample_sys = snd (module_initialize sample_modules ''rvsmodules.config'' (sys_start 0 (sample_logger False)))"

lemma sample_sys_eq:
  "sample_sys = \<lparr>s_log = sample_logger False, s_world = 0, s_filemap = [(''gst'', ''libgst.so'')],
     s_modulemap = [], s_lp_set = False\<rparr>"
  by (simp add: sample_sys_def sys_start_def module_initialize_def sample_modules_def om_insert_def)

lemmas sample_manager_defs = sample_sys_eq sample_env_def sample_lib_def action_create_def
  find_create_module_def open_library_def has_option_val_def init_interfaces_def init_interface_0_def
  init_interface_1_def global_methods_def if0_methods_def if1_methods_def init_interface_method_def
  module_instance_initialize_def call_lib_def om_insert_def clone_interfaces_def

section \<open>Properties\<close>

text \<open>
  C21: In every state the launcher's calls can reach, an action that is created carries both
  interfaces of its module, each bound to the action of the library; its module stays in the map
  under the module's name and exports every function the launcher will call.
\<close>

theorem action_has_interfaces:
  assumes "(manager_step env fs)\<^sup>*\<^sup>* (sys_start w g) s" and "action_create env name s = (Some pa, s')"
  shows "a_name pa = name \<and> get_interface pa 0 = Some (IF0, a_plibaction pa) \<and>
    get_interface pa 1 = Some (IF1, a_plibaction pa) \<and> lib_complete (a_lib pa) \<and>
    (\<exists>m. om_find (s_modulemap s') name = Some m \<and> m_lib m = a_lib pa)"
  using action_create_result(3) [OF manager_reachable_ok [OF assms(1)] assms(2) refl] by blast

theorem action_has_interfaces_witness:
  "\<exists>pa s'. action_create sample_env ''gst'' sample_sys = (Some pa, s') \<and>
     get_interface pa 1 = Some (IF1, 0)"
proof -
  have reach: "(manager_step sample_env sample_modules)\<^sup>*\<^sup>* (sys_start 0 (sample_logger False)) sample_sys"
    unfolding sample_sys_def by (rule r_into_rtranclp) (rule Step_initialize)
  obtain pa s' where run: "action_create sample_env ''gst'' sample_sys = (Some pa, s')" "a_plibaction pa = 0"
    by (simp add: sample_manager_defs Let_def)
  from action_has_interfaces [OF reach run(1)] run show ?thesis by simp
qed

text \<open>
  C22: A module is opened and initialised once: after a successful look-up, looking the same name
  up again, whatever the options and the file system then are, returns the same module and
  changes nothing.
\<close>

theorem module_loaded_once:
  assumes "find_create_module env name s = (Some m, s')"
  shows "find_create_module env' name s' = (Some m, s')"
  by (rule find_create_once [OF assms])

theorem module_loaded_once_witness:
  "\<exists>m s'. find_create_module sample_env ''gst'' sample_sys = (Some m, s') \<and>
     find_create_module (sample_env\<lparr>e_dlopen := (\<lambda>_. None)\<rparr>) ''gst'' s' = (Some m, s')"
proof -
  obtain m s' where run: "find_create_module sample_env ''gst'' sample_sys = (Some m, s')"
    by (simp add: sample_manager_defs Let_def)
  from module_loaded_once [OF this] run show ?thesis by blast
qed

text \<open>
  The library of a module is the first that opens among three places: the tree beside the
  executable, the directory of the executable (the current directory when the path of the
  executable is unknown), and the module directory of the installation.
\<close>

theorem library_search_order:
  "fst (open_library env so) = first_open (e_dlopen env) (library_places env so)"
  by (rule open_library_first)

text \<open>
  Reading the file of modules returns 0 exactly when the file opens with version 1; then each
  name maps to its first entry, and an entry already known stays.
\<close>

theorem modules_file_read:
  "(fst (module_initialize fs f s) = Ret 0 \<longleftrightarrow> (\<exists>rest. fs f = Pairs ((''version'', ''1'') # rest))) \<and>
   om_find (s_filemap (snd (module_initialize fs f s))) k =
     (case om_find (s_filemap s) k of
        Some so \<Rightarrow> Some so
      | None \<Rightarrow> (case fs f of
          Pairs ((v, n) # rest) \<Rightarrow> if v = ''version'' \<and> n = ''1'' then map_of rest k else None
        | _ \<Rightarrow> None))"
  by (auto simp: module_initialize_success)
    (auto simp: module_initialize_def om.find_fold_insert map_add_def split: modules_file.splits list.splits option.splits)

end
