(* ===== verification/Rvs_Util.thy ===== *)
theory Rvs_Util
  imports Prelude
begin

text \<open>
  \<^verbatim>\<open>src/rvs_util.cpp\<close> and the templates of \<^verbatim>\<open>include/rvs_util.h\<close>: splitting and
  parsing of configuration values, conversion of string arrays, and the path functions that find
  the installation prefix.  An out-parameter is passed in with its old value and returned, so a
  function that leaves it alone returns it unchanged.
\<close>

section \<open>Splitting and parsing\<close>

text \<open>
  The \<^verbatim>\<open>do\<close> loop of \<^verbatim>\<open>str_split\<close>.  With an empty delimiter the position never moves, so the
  loop is a partial function: \<open>None\<close> is "does not return".
\<close>

partial_function (option) str_split_loop ::
  "string \<Rightarrow> string \<Rightarrow> nat \<Rightarrow> string list \<Rightarrow> string list option" where
  "str_split_loop str_val delimiter prev_pos str_tokens =
     (let cur_pos = (case str_find str_val delimiter prev_pos of
                       None \<Rightarrow> length str_val | Some i \<Rightarrow> i);
          token = substr str_val prev_pos (cur_pos - prev_pos);
          str_tokens' = (if token \<noteq> [] then str_tokens @ [token] else str_tokens);
          prev_pos' = cur_pos + length delimiter
      in if cur_pos < length str_val \<and> prev_pos' < length str_val
         then str_split_loop str_val delimiter prev_pos' str_tokens'
         else Some str_tokens')"

definition str_split :: "string \<Rightarrow> string \<Rightarrow> string list option" where
  "str_split str_val delimiter = str_split_loop str_val delimiter 0 []"

definition is_positive_integer :: "string \<Rightarrow> bool" where
  "is_positive_integer str_val \<longleftrightarrow> str_val \<noteq> [] \<and> list_all isdigit str_val"

text \<open>Return codes: 0 parsed, 1 syntax error, 2 empty.\<close>

definition rvs_util_parse_bool :: "string \<Rightarrow> bool \<Rightarrow> int \<times> bool" where
  "rvs_util_parse_bool buff pval =
     (if buff = [] then (2, pval)
      else if buff = ''true'' then (0, True)
      else if buff = ''false'' then (0, False)
      else (1, pval))"

definition rvs_util_parse :: "string \<Rightarrow> 'a::len word \<Rightarrow> int \<times> 'a word" where
  "rvs_util_parse buff pval =
     (if buff = [] then (2, pval)
      else if is_positive_integer buff then
        (case stoul buff of
           Inr (v, _) \<Rightarrow> (0, ucast v)
         | Inl _ \<Rightarrow> (1, pval))
      else (1, pval))"

text \<open>
  The conversion loops skip what they cannot convert; the comparison of the lengths after the
  loop turns any skipped element into the error code \<open>-1\<close>.
\<close>

fun uintarr_loop :: "string list \<Rightarrow> 'a::len word list \<Rightarrow> 'a word list" where
  "uintarr_loop [] acc = acc"
| "uintarr_loop (s # ss) acc =
     (if is_positive_integer s then
        (case stoul s of Inr (v, _) \<Rightarrow> uintarr_loop ss (acc @ [ucast v]) | Inl _ \<Rightarrow> uintarr_loop ss acc)
      else uintarr_loop ss acc)"

definition rvs_util_strarr_to_uintarr :: "string list \<Rightarrow> int \<times> 'a::len word list" where
  "rvs_util_strarr_to_uintarr sArr =
     (let piArr = uintarr_loop sArr [] in
      if length sArr \<noteq> length piArr then (-1, piArr) else (int (length piArr), piArr))"

fun intarr_loop :: "string list \<Rightarrow> 'a::len word list \<Rightarrow> 'a word list" where
  "intarr_loop [] acc = acc"
| "intarr_loop (s # ss) acc =
     (if is_positive_integer s then
        (case stoi s of Inr (v, _) \<Rightarrow> intarr_loop ss (acc @ [word_of_int v]) | Inl _ \<Rightarrow> intarr_loop ss acc)
      else intarr_loop ss acc)"

definition rvs_util_strarr_to_intarr :: "string list \<Rightarrow> int \<times> 'a::len word list" where
  "rvs_util_strarr_to_intarr sArr =
     (let piArr = intarr_loop sArr [] in
      if length sArr \<noteq> length piArr then (-1, piArr) else (int (length piArr), piArr))"

section \<open>Path functions\<close>

function rvs_strip_trailing_slashes :: "string \<Rightarrow> string" where
  "rvs_strip_trailing_slashes s =
     (if 1 < length s \<and> last s = CHR ''/'' then rvs_strip_trailing_slashes (butlast s) else s)"
  by pat_completeness auto
termination
  by (relation "measure length") auto

declare rvs_strip_trailing_slashes.simps [simp del]

text \<open>The loops that skip trailing slashes, down to the position \<open>lo\<close>.\<close>

fun trim_end :: "nat \<Rightarrow> string \<Rightarrow> nat \<Rightarrow> nat" where
  "trim_end lo path 0 = 0"
| "trim_end lo path (Suc n) = (if lo < Suc n \<and> path ! n = CHR ''/'' then trim_end lo path n else Suc n)"

definition rvs_path_dirname :: "string \<Rightarrow> string" where
  "rvs_path_dirname path =
     (if path = [] then path
      else let e = trim_end 1 path (length path) in
        (case rfind_below path (CHR ''/'') e of
           None \<Rightarrow> ''.''
         | Some pos \<Rightarrow> if pos = 0 then ''/'' else substr path 0 pos))"

definition rvs_path_basename :: "string \<Rightarrow> string" where
  "rvs_path_basename path =
     (if path = [] then path
      else let e = trim_end 0 path (length path) in
        if e = 0 then []
        else (case rfind_below path (CHR ''/'') e of
                None \<Rightarrow> substr path 0 e
              | Some start \<Rightarrow> substr path (start + 1) (e - start - 1)))"

text \<open>
  The environment variable \<^verbatim>\<open>RVS_PREFIX\<close> and the resolved path of the running executable (empty
  when the link cannot be read) are read from the system: they are arguments.
\<close>

definition rvs_rvs_prefix_from_rvs_process :: "string option \<Rightarrow> string \<Rightarrow> string" where
  "rvs_rvs_prefix_from_rvs_process pfx exe =
     (case pfx of
        Some (c # cs) \<Rightarrow> rvs_strip_trailing_slashes (c # cs)
      | _ \<Rightarrow>
        (if exe = [] \<or> rvs_path_basename exe \<noteq> ''rvs'' then []
         else let bindir = rvs_path_dirname exe;
                  binname = rvs_path_basename bindir
              in if binname = ''bin'' \<or> binname = ''sbin'' then rvs_path_dirname bindir else []))"

definition rvs_get_rvs_data_root_string ::
  "string option \<Rightarrow> string \<Rightarrow> string \<Rightarrow> string \<Rightarrow> string" where
  "rvs_get_rvs_data_root_string env exe relpath_data_dir data_root =
     (let pfx = rvs_rvs_prefix_from_rvs_process env exe in
      if pfx \<noteq> [] then pfx @ ''/'' @ relpath_data_dir else data_root)"

definition rvs_get_rvs_modules_lib_dir_string ::
  "string option \<Rightarrow> string \<Rightarrow> string \<Rightarrow> string \<Rightarrow> string" where
  "rvs_get_rvs_modules_lib_dir_string env exe relpath_module_lib_dir lib_path =
     (let pfx = rvs_rvs_prefix_from_rvs_process env exe in
      if pfx \<noteq> [] then pfx @ ''/'' @ relpath_module_lib_dir else lib_path)"

text \<open>
  \<open>core\<close> is the path \<^verbatim>\<open>getROCmInstallPath\<close> returns, \<open>None\<close> when it fails or the program
  is built without it.
\<close>

definition rvs_get_rocm_install_path_string :: "string option \<Rightarrow> string option \<Rightarrow> string \<Rightarrow> string" where
  "rvs_get_rocm_install_path_string core env rocm_path =
     (case core of
        Some (c # cs) \<Rightarrow> c # cs
      | _ \<Rightarrow> (case env of Some (c # cs) \<Rightarrow> c # cs | _ \<Rightarrow> rocm_path))"


section \<open>The fields of a string: the reference for the split\<close>

text \<open>The maximal runs of characters other than \<open>c\<close>; \<open>acc\<close> is the run read so far.\<close>

fun fields_from :: "char \<Rightarrow> string \<Rightarrow> string \<Rightarrow> string list" where
  "fields_from c acc [] = (if acc = [] then [] else [acc])"
| "fields_from c acc (x # xs) =
     (if x = c then (if acc = [] then [] else [acc]) @ fields_from c [] xs
      else fields_from c (acc @ [x]) xs)"

definition split_fields :: "char \<Rightarrow> string \<Rightarrow> string list" where
  "split_fields c s = fields_from c [] s"

lemma fields_from_run: "c \<notin> set u \<Longrightarrow> fields_from c acc (u @ v) = fields_from c (acc @ u) v"
  by (induction u arbitrary: acc) auto

lemma fields_Nil [simp]: "split_fields c [] = []"
  by (simp add: split_fields_def)

lemma fields_no_delim: "c \<notin> set u \<Longrightarrow> split_fields c u = (if u = [] then [] else [u])"
  using fields_from_run [of c u "[]" "[]"] by (simp add: split_fields_def)

lemma fields_delim: "c \<notin> set u \<Longrightarrow> split_fields c (u @ c # v) = (if u = [] then [] else [u]) @ split_fields c v"
  using fields_from_run [of c u "[]" "c # v"] by (simp add: split_fields_def)

lemma fields_Cons_delim [simp]: "split_fields c (c # v) = split_fields c v"
  by (simp add: split_fields_def)

lemma fields_from_concat: "c \<notin> set acc \<Longrightarrow> concat (fields_from c acc s) = acc @ filter (\<lambda>x. x \<noteq> c) s"
  by (induction c acc s rule: fields_from.induct) auto

lemma fields_from_clean:
  "c \<notin> set acc \<Longrightarrow> t \<in> set (fields_from c acc s) \<Longrightarrow> t \<noteq> [] \<and> c \<notin> set t"
  by (induction c acc s rule: fields_from.induct) (auto split: if_splits)

lemma fields_concat: "concat (split_fields c s) = filter (\<lambda>x. x \<noteq> c) s"
  by (simp add: split_fields_def fields_from_concat)

lemma fields_clean: "t \<in> set (split_fields c s) \<Longrightarrow> t \<noteq> [] \<and> c \<notin> set t"
  using fields_from_clean [of c "[]"] by (simp add: split_fields_def)

text \<open>Writing fields one after another with the delimiter between them.\<close>

fun join_with :: "char \<Rightarrow> string list \<Rightarrow> string" where
  "join_with c [] = []"
| "join_with c [t] = t"
| "join_with c (t # u # ts) = t @ c # join_with c (u # ts)"

lemma fields_join:
  "\<forall>t \<in> set ts. t \<noteq> [] \<and> c \<notin> set t \<Longrightarrow> split_fields c (join_with c ts) = ts"
  by (induction c ts rule: join_with.induct) (auto simp: fields_no_delim fields_delim)

section \<open>The split loop\<close>

lemma split_list_first_char: "c \<in> set r \<Longrightarrow> \<exists>u v. r = u @ c # v \<and> c \<notin> set u"
  by (rule split_list_first)

lemma str_split_loop_fields:
  assumes "prev \<le> length s"
  shows "str_split_loop s [c] prev toks = Some (toks @ split_fields c (drop prev s))"
  using assms
proof (induction "length s - prev" arbitrary: prev toks rule: less_induct)
  case less
  show ?case
  proof (cases "c \<in> set (drop prev s)")
    case False
    then have "str_find s [c] prev = None"
      using less.prems by (simp add: str_find_def find_from_char_None)
    with False less.prems show ?thesis
      by (subst str_split_loop.simps) (simp add: substr_def fields_no_delim)
  next
    case True
    then obtain u v where uv: "drop prev s = u @ c # v" "c \<notin> set u"
      using split_list_first_char by metis
    have "length (drop prev s) = length (u @ c # v)" by (simp only: uv)
    with less.prems have len: "length s = prev + length u + 1 + length v" by simp
    have find: "str_find s [c] prev = Some (prev + length u)"
      using uv less.prems by (simp add: str_find_def find_from_char_append)
    have tok: "substr s prev (length u) = u" using uv by (simp add: substr_def)
    have "drop (prev + length u + 1) s = drop (length u + 1) (drop prev s)"
      by (simp add: add.commute add.left_commute)
    also have "\<dots> = v" by (simp add: uv)
    finally have rest: "drop (prev + length u + 1) s = v" .
    show ?thesis
    proof (cases "prev + length u + 1 < length s")
      case True
      then have "str_split_loop s [c] (prev + length u + 1) (if u = [] then toks else toks @ [u]) =
          Some ((if u = [] then toks else toks @ [u]) @ split_fields c v)"
        using less.hyps [of "prev + length u + 1"] rest by simp
      with True find tok uv len show ?thesis
        by (subst str_split_loop.simps) (cases "u = []"; simp add: fields_delim)
    next
      case False
      with len have "v = []" by simp
      with False find tok uv len show ?thesis
        by (subst str_split_loop.simps) (simp add: fields_delim)
    qed
  qed
qed

lemma str_split_char: "str_split s [c] = Some (split_fields c s)"
  by (simp add: str_split_def str_split_loop_fields)

lemma str_split_loop_terminates:
  assumes "d \<noteq> []"
  shows "\<exists>r. str_split_loop s d prev toks = Some r"
proof (induction "length s - prev" arbitrary: prev toks rule: less_induct)
  case less
  define cur where "cur = (case str_find s d prev of None \<Rightarrow> length s | Some i \<Rightarrow> i)"
  define toks' where "toks' = (if substr s prev (cur - prev) \<noteq> []
     then toks @ [substr s prev (cur - prev)] else toks)"
  have eq: "str_split_loop s d prev toks =
      (if cur < length s \<and> cur + length d < length s
       then str_split_loop s d (cur + length d) toks' else Some toks')"
    by (subst str_split_loop.simps) (simp add: cur_def toks'_def Let_def)
  show ?case
  proof (cases "cur < length s \<and> cur + length d < length s")
    case True
    then obtain i where i: "str_find s d prev = Some i" "cur = i"
      by (auto simp: cur_def split: option.splits)
    then have "length s - (cur + length d) < length s - prev"
      using str_find_bounds(1) [OF i(1)] True assms by (cases d) auto
    with eq True less show ?thesis by simp
  next
    case False
    with eq show ?thesis by simp
  qed
qed

lemma str_find_empty: "k \<le> length s \<Longrightarrow> str_find s [] k = Some k"
  by (cases "drop k s") (auto simp: str_find_def)

lemma str_split_loop_stuck:
  assumes "s \<noteq> []" shows "str_split_loop s [] 0 toks = None"
proof -
  have "\<not> (d = [] \<and> p = 0 \<and> s' \<noteq> [])" if "str_split_loop s' d p ts = Some r" for s' d p ts r
  proof (rule str_split_loop.raw_induct [where P = "\<lambda>s' d p ts r. \<not> (d = [] \<and> p = 0 \<and> s' \<noteq> [])", OF _ that])
    fix f s' d p ts r
    assume IH: "\<And>s' d p ts r. f s' d p ts = Some r \<Longrightarrow> \<not> (d = [] \<and> p = 0 \<and> s' \<noteq> [])"
      and eq: "(let cur_pos = (case str_find s' d p of None \<Rightarrow> length s' | Some i \<Rightarrow> i);
          token = substr s' p (cur_pos - p);
          str_tokens' = (if token \<noteq> [] then ts @ [token] else ts);
          prev_pos' = cur_pos + length d
      in if cur_pos < length s' \<and> prev_pos' < length s'
         then f s' d prev_pos' str_tokens' else Some str_tokens') = Some r"
    show "\<not> (d = [] \<and> p = 0 \<and> s' \<noteq> [])"
    proof
      assume h: "d = [] \<and> p = 0 \<and> s' \<noteq> []"
      then have "f s' [] 0 ts = Some r"
        using eq str_find_empty [of 0 s'] by (simp add: substr_def)
      from IH [OF this] h show False by simp
    qed
  qed
  with assms show ?thesis by (metis option.exhaust)
qed


section \<open>Parsing values\<close>

lemma is_positive_integer_to_string [simp]: "is_positive_integer (to_string n)"
  by (simp add: is_positive_integer_def to_string_digits)

lemma rvs_util_parse_cases:
  "rvs_util_parse buff pval =
     (if buff = [] then (2, pval)
      else if list_all isdigit buff \<and> dec_val buff < 2 ^ 64
        then (0, of_nat (dec_val buff))
      else (1, pval))"
  by (auto simp: rvs_util_parse_def is_positive_integer_def stoul_digits
      ucast_of_nat_u64)

lemma rvs_util_parse_code: "fst (rvs_util_parse buff pval) \<in> {0, 1, 2}"
  by (simp add: rvs_util_parse_cases)

lemma rvs_util_parse_fail: "fst (rvs_util_parse buff pval) \<noteq> 0 \<Longrightarrow> snd (rvs_util_parse buff pval) = pval"
  by (auto simp: rvs_util_parse_cases split: if_splits)

lemma rvs_util_parse_to_string:
  "n < 2 ^ 64 \<Longrightarrow> rvs_util_parse (to_string n) pval = (0, of_nat n)"
  by (simp add: rvs_util_parse_cases to_string_digits)

lemma rvs_util_parse_bool_code: "fst (rvs_util_parse_bool buff pval) \<in> {0, 1, 2}"
  by (simp add: rvs_util_parse_bool_def)

lemma rvs_util_parse_bool_0:
  "fst (rvs_util_parse_bool buff pval) = 0 \<longleftrightarrow> buff = ''true'' \<or> buff = ''false''"
  by (simp add: rvs_util_parse_bool_def)

text \<open>An element of the array converts when it is a decimal number below \<open>2 ^ 64\<close>.\<close>

definition converts :: "string \<Rightarrow> bool" where
  "converts s \<longleftrightarrow> is_positive_integer s \<and> dec_val s < 2 ^ 64"

lemma uintarr_loop_eq:
  "uintarr_loop ss acc = acc @ map (\<lambda>s. of_nat (dec_val s)) (filter converts ss)"
proof (induction ss arbitrary: acc)
  case Nil
  then show ?case by simp
next
  case (Cons s ss)
  show ?case
  proof (cases "is_positive_integer s")
    case True
    then have st: "stoul s = (if dec_val s < 2 ^ 64 then Inr (of_nat (dec_val s), length s) else Inl Out_of_range)"
      by (simp add: is_positive_integer_def stoul_digits)
    have "ucast (of_nat (dec_val s) :: u64) = (of_nat (dec_val s) :: 'a word)" if "dec_val s < 2 ^ 64"
      using that by (rule ucast_of_nat_u64)
    with Cons True st show ?thesis by (simp add: converts_def)
  next
    case False
    with Cons show ?thesis by (simp add: converts_def)
  qed
qed

lemma rvs_util_strarr_to_uintarr_eq:
  "rvs_util_strarr_to_uintarr ss =
     (let vs = map (\<lambda>s. of_nat (dec_val s)) (filter converts ss) in
      (if list_all converts ss then int (length ss) else -1, vs))"
proof (cases "list_all converts ss")
  case True
  then have "filter converts ss = ss" by (simp add: list_all_iff)
  with True show ?thesis by (simp add: rvs_util_strarr_to_uintarr_def uintarr_loop_eq Let_def)
next
  case False
  then have "length (filter converts ss) < length ss"
    by (auto simp: list_all_iff intro: length_filter_less)
  with False show ?thesis by (simp add: rvs_util_strarr_to_uintarr_def uintarr_loop_eq Let_def)
qed

lemma uintarr_all:
  "list_all converts ss \<Longrightarrow> rvs_util_strarr_to_uintarr ss = (int (length ss), map (\<lambda>s. of_nat (dec_val s)) ss)"
  by (simp add: rvs_util_strarr_to_uintarr_eq list_all_iff Let_def)

lemma uintarr_error:
  "\<not> list_all converts ss \<Longrightarrow> fst (rvs_util_strarr_to_uintarr ss) = -1"
  by (simp add: rvs_util_strarr_to_uintarr_eq Let_def)

section \<open>Paths\<close>

lemma trim_end_le: "trim_end lo p n \<le> n"
  by (induction n) (auto intro: le_SucI)

lemma trim_end_slashes:
  assumes "q \<noteq> []" and "last q \<noteq> CHR ''/''" and "lo \<le> length q"
  shows "trim_end lo (q @ replicate k (CHR ''/'') @ w) (length q + k) = length q"
proof (induction k arbitrary: w)
  case 0
  obtain n where n: "length q = Suc n" using assms(1) by (cases "length q") auto
  then have "(q @ w) ! n \<noteq> CHR ''/''" using assms(1,2) by (simp add: nth_append last_conv_nth)
  with n show ?case by simp
next
  case (Suc k)
  have "(q @ replicate (Suc k) (CHR ''/'') @ w) ! (length q + k) = CHR ''/''"
    by (simp add: nth_append del: replicate_Suc)
  moreover have "lo < Suc (length q + k)" using assms(3) by simp
  moreover have "trim_end lo (q @ replicate (Suc k) (CHR ''/'') @ w) (length q + k) = length q"
    using Suc [of "CHR ''/'' # w"] by (simp add: replicate_append_same [symmetric] del: replicate_append_same)
  ultimately show ?case by simp
qed

text \<open>
  A path in normal form: a directory, a slash, a name without slashes, and any number of trailing
  slashes.  Both functions ignore the trailing slashes and split at the last inner one.
\<close>

lemma path_split:
  fixes k :: nat
  assumes "d \<noteq> []" and "b \<noteq> []" and "CHR ''/'' \<notin> set b"
  and p: "p = d @ CHR ''/'' # b @ replicate k (CHR ''/'')"
  shows "rvs_path_dirname p = d" and "rvs_path_basename p = b"
proof -
  let ?q = "d @ CHR ''/'' # b"
  have last: "last ?q \<noteq> CHR ''/''" using assms(2,3) last_in_set [of b] by (cases "last b = CHR ''/''") auto
  have p': "p = ?q @ replicate k (CHR ''/'') @ []" and lp: "length p = length ?q + k" and ne: "p \<noteq> []"
    by (simp_all add: p)
  have t: "trim_end lo p (length p) = length ?q" if "lo \<le> 1" for lo
  proof -
    have "trim_end lo (?q @ replicate k (CHR ''/'') @ []) (length ?q + k) = length ?q"
      by (rule trim_end_slashes) (use last that in simp_all)
    then show ?thesis by (simp only: p' [symmetric] lp [symmetric])
  qed
  have r: "rfind_below p (CHR ''/'') (length ?q) = Some (length d)"
    using rfind_below_append [of "CHR ''/''" b "length ?q" d "replicate k (CHR ''/'')"] assms(3) by (simp add: p)
  show "rvs_path_dirname p = d"
    using t [of 1] r ne assms(1) by (simp add: rvs_path_dirname_def substr_def) (simp add: p)
  show "rvs_path_basename p = b"
    using t [of 0] r ne by (simp add: rvs_path_basename_def substr_def) (simp add: p)
qed

lemma rvs_strip_trailing_slashes_eq:
  "s \<noteq> [] \<Longrightarrow> last s \<noteq> CHR ''/'' \<Longrightarrow> rvs_strip_trailing_slashes (s @ replicate k (CHR ''/'')) = s"
proof (induction k)
  case 0
  then show ?case by (simp add: rvs_strip_trailing_slashes.simps)
next
  case (Suc k)
  have "butlast (s @ replicate (Suc k) (CHR ''/'')) = s @ replicate k (CHR ''/'')"
    by (simp add: butlast_append replicate_append_same [symmetric] del: replicate_append_same)
  moreover have "1 < length (s @ replicate (Suc k) (CHR ''/''))" using Suc.prems by (cases s) auto
  moreover have "last (s @ replicate (Suc k) (CHR ''/'')) = CHR ''/''"
    by (simp add: replicate_append_same [symmetric] del: replicate_append_same)
  ultimately show ?case
    using Suc by (subst rvs_strip_trailing_slashes.simps) simp
qed

text \<open>The installed layout \<open>prefix/bin/rvs\<close> gives the prefix back.\<close>

lemma prefix_from_exe:
  assumes "pfx \<noteq> []" and "bin = ''bin'' \<or> bin = ''sbin''" and "env = None \<or> env = Some []"
  shows "rvs_rvs_prefix_from_rvs_process env (pfx @ CHR ''/'' # bin @ CHR ''/'' # ''rvs'') = pfx"
proof -
  let ?dir = "pfx @ CHR ''/'' # bin" and ?exe = "pfx @ CHR ''/'' # bin @ CHR ''/'' # ''rvs''"
  have "rvs_path_dirname ?exe = ?dir" "rvs_path_basename ?exe = ''rvs''"
    using path_split [of ?dir "''rvs''" ?exe 0] by simp_all
  moreover have "rvs_path_dirname ?dir = pfx" "rvs_path_basename ?dir = bin"
    using path_split [of pfx bin ?dir 0] assms(1,2) by auto
  ultimately show ?thesis
    using assms by (auto simp: rvs_rvs_prefix_from_rvs_process_def Let_def)
qed

section \<open>Properties\<close>

text \<open>
  Splitting at a one-character delimiter yields exactly the maximal runs of other characters,
  in order: empty fields are dropped, and a delimiter at either end adds nothing.
\<close>

theorem str_split_is_fields: "str_split s [c] = Some (split_fields c s)"
  by (rule str_split_char)

text \<open>
  Writing non-empty fields that do not contain the delimiter with the delimiter between them
  and splitting the text gives the fields back.
\<close>

theorem str_split_join:
  assumes "\<forall>t \<in> set ts. t \<noteq> [] \<and> c \<notin> set t"
  shows "str_split (join_with c ts) [c] = Some ts"
  using assms by (simp add: str_split_char fields_join)

theorem str_split_join_witness:
  "str_split (join_with CHR '','' [''0'', ''12'']) '','' = Some [''0'', ''12'']"
  by (rule str_split_join) simp

text \<open>
  The split returns exactly when the delimiter is not empty or the string is: with an empty
  delimiter the position never moves and the loop does not end.
\<close>

theorem str_split_returns_iff: "(\<exists>r. str_split s d = Some r) \<longleftrightarrow> \<not> (d = [] \<and> s \<noteq> [])"
proof (cases "d = []")
  case True
  show ?thesis
  proof (cases "s = []")
    case True
    with \<open>d = []\<close> show ?thesis
      by (simp add: str_split_def str_split_loop.simps str_find_def substr_def)
  next
    case False
    with \<open>d = []\<close> show ?thesis by (simp add: str_split_def str_split_loop_stuck)
  qed
next
  case False
  with str_split_loop_terminates [of d s 0 "[]"] show ?thesis by (simp add: str_split_def)
qed

text \<open>
  Parsing an unsigned value reports success exactly for a non-empty text of digits below
  \<open>2 ^ 64\<close>, and then stores the number modulo the width of the target (a 16-bit target truncates
  silently); on any failure the target keeps its old value.
\<close>

theorem rvs_util_parse_value:
  fixes pval :: "'a::len word"
  shows "(fst (rvs_util_parse buff pval) = 0 \<longleftrightarrow> buff \<noteq> [] \<and> list_all isdigit buff \<and> dec_val buff < 2 ^ 64) \<and>
    unat (snd (rvs_util_parse buff pval)) =
      (if fst (rvs_util_parse buff pval) = 0 then dec_val buff mod 2 ^ LENGTH('a) else unat pval)"
  by (auto simp: rvs_util_parse_cases unat_of_nat)

text \<open>
  Converting a string array gives the numbers in order and their count when every element is
  a decimal number below \<open>2 ^ 64\<close>; otherwise \<open>-1\<close>, with the convertible elements in the array.
\<close>

theorem rvs_util_strarr_to_uintarr_spec:
  "rvs_util_strarr_to_uintarr ss =
     (if list_all converts ss then int (length ss) else -1,
      map (\<lambda>s. of_nat (dec_val s)) (filter converts ss))"
  by (simp add: rvs_util_strarr_to_uintarr_eq)

text \<open>
  In the installed layout, with the executable at \<open>prefix/bin/rvs\<close> or \<open>prefix/sbin/rvs\<close> and
  no override in the environment, the data directory is the one under the prefix.
\<close>

theorem data_root_under_prefix:
  assumes "pfx \<noteq> []" and "bin = ''bin'' \<or> bin = ''sbin''" and "env = None \<or> env = Some []"
  shows "rvs_get_rvs_data_root_string env (pfx @ CHR ''/'' # bin @ ''/rvs'') rel root = pfx @ ''/'' @ rel"
  using prefix_from_exe [OF assms] assms(1) by (simp add: rvs_get_rvs_data_root_string_def)

theorem data_root_under_prefix_witness:
  "rvs_get_rvs_data_root_string None ''/opt/rocm/bin/rvs'' ''share'' ''root'' = ''/opt/rocm/share''"
  using data_root_under_prefix [of "''/opt/rocm''" "''bin''" None "''share''" "''root''"] by simp

end
