(* ===== verification/Action_Base.thy ===== *)
theory Action_Base
  imports Ordered_Map Rvs_Util
begin

text \<open>
  \<^verbatim>\<open>src/rvsactionbase.cpp\<close> and \<^verbatim>\<open>include/rvsactionbase.h\<close>: the property store every action
  inherits, the typed getters with their return codes (0 found, 1 invalid, 2 missing), and the
  routine that reads the keys common to all modules.  Messages sent to the logger are returned
  as a list of events, in the order of the calls.
\<close>

section \<open>Data\<close>

datatype actionstate = ACTION_RUNNING | ACTION_COMPLETED

datatype actionstatus = ACTION_SUCCESS | ACTION_FAILED | ACTION_ERROR

record action_result_t =
  ar_state :: actionstate
  ar_status :: actionstatus
  ar_output :: string

record ('cb, 'up) actionbase =
  action_name :: string
  ab_module_name :: string
  property_device_id :: u16
  property_device_index :: "u16 list"
  property_device_index_all :: bool
  property_device :: "u16 list"
  property_device_all :: bool
  property_parallel :: bool
  property_count :: u64
  property_wait :: u64
  property_duration :: u64
  property_log_interval :: u64
  bjson :: bool
  property :: "(string, string) omap"
  property_log_level :: int
  ab_callback :: "'cb option"  \<comment> \<open>the registered function, \<open>None\<close> is the null pointer\<close>
  ab_user_param :: "'up option"

text \<open>The constructor sets these members and leaves the others as the storage holds them.\<close>

definition actionbase_new :: "('cb, 'up) actionbase \<Rightarrow> ('cb, 'up) actionbase" where
  "actionbase_new raw = raw\<lparr>property_log_level := 2, property_device_all := True,
     property_device_index_all := True, property_device_id := 0, property_device := [],
     property_device_index := [], ab_callback := None, ab_user_param := None, property := []\<rparr>"

section \<open>The property store and the callback\<close>

definition property_set :: "('cb, 'up) actionbase \<Rightarrow> string \<Rightarrow> string \<Rightarrow> int \<times> ('cb, 'up) actionbase" where
  "property_set a pKey pVal =
     (case om_find (property a) pKey of
        Some _ \<Rightarrow> (0, a\<lparr>property := om_assign pKey pVal (property a)\<rparr>)
      | None \<Rightarrow> (0, a\<lparr>property := om_insert pKey pVal (property a)\<rparr>))"

definition callback_set ::
  "('cb, 'up) actionbase \<Rightarrow> 'cb option \<Rightarrow> 'up option \<Rightarrow> int \<times> ('cb, 'up) actionbase" where
  "callback_set a cb up =
     (if cb = None \<or> up = None then (1, a) else (0, a\<lparr>ab_callback := cb, ab_user_param := up\<rparr>))"

text \<open>The second component is the call the function makes, if any.\<close>

definition action_callback ::
  "('cb, 'up) actionbase \<Rightarrow> action_result_t option \<Rightarrow> int \<times> ('cb \<times> action_result_t \<times> 'up option) option" where
  "action_callback a action_result =
     (case (ab_callback a, action_result) of
        (Some cb, Some r) \<Rightarrow> (0, Some (cb, r, ab_user_param a))
      | _ \<Rightarrow> (1, None))"

definition has_property_val :: "('cb, 'up) actionbase \<Rightarrow> string \<Rightarrow> string \<Rightarrow> bool \<times> string" where
  "has_property_val a key pval =
     (case om_find (property a) key of Some v \<Rightarrow> (True, v) | None \<Rightarrow> (False, pval))"

definition has_property :: "('cb, 'up) actionbase \<Rightarrow> string \<Rightarrow> bool" where
  "has_property a key = fst (has_property_val a key [])"

section \<open>Typed getters\<close>

text \<open>The value, the flag \<open>all\<close>, and the code; \<open>None\<close> when the split does not return.\<close>

definition property_get_uint_list ::
  "('cb, 'up) actionbase \<Rightarrow> string \<Rightarrow> string \<Rightarrow> 'a::len word list \<Rightarrow> bool
     \<Rightarrow> (int \<times> 'a word list \<times> bool) option" where
  "property_get_uint_list a key delimiter pval pball =
     (case has_property_val a key [] of
        (False, _) \<Rightarrow> Some (2, pval, pball)
      | (True, strval) \<Rightarrow>
          (if strval = ''all'' then Some (0, [], True)
           else (case str_split strval delimiter of
                   None \<Rightarrow> None
                 | Some strarray \<Rightarrow>
                     (case rvs_util_strarr_to_uintarr strarray of
                        (sts, vals) \<Rightarrow> if sts < 0 then Some (1, [], False) else Some (0, vals, False)))))"

definition yaml_device_prop_delimiter :: string where
  "yaml_device_prop_delimiter = '' ''"

definition property_get_device ::
  "('cb, 'up) actionbase \<Rightarrow> (int \<times> ('cb, 'up) actionbase) option" where
  "property_get_device a =
     map_option (\<lambda>(sts, d, al). (sts, a\<lparr>property_device := d, property_device_all := al\<rparr>))
       (property_get_uint_list a ''device'' yaml_device_prop_delimiter
          (property_device a) (property_device_all a))"

definition property_get_device_index ::
  "('cb, 'up) actionbase \<Rightarrow> (int \<times> ('cb, 'up) actionbase) option" where
  "property_get_device_index a =
     map_option (\<lambda>(sts, d, al). (sts, a\<lparr>property_device_index := d, property_device_index_all := al\<rparr>))
       (property_get_uint_list a ''device_index'' yaml_device_prop_delimiter
          (property_device_index a) (property_device_index_all a))"

definition property_get_int :: "('cb, 'up) actionbase \<Rightarrow> string \<Rightarrow> 'a::len word \<Rightarrow> int \<times> 'a word" where
  "property_get_int a prop_name key =
     (case has_property_val a prop_name [] of
        (True, val) \<Rightarrow> rvs_util_parse val key
      | (False, _) \<Rightarrow> (2, key))"

definition property_get_int_def ::
  "('cb, 'up) actionbase \<Rightarrow> string \<Rightarrow> 'a::len word \<Rightarrow> 'a word \<Rightarrow> int \<times> 'a word" where
  "property_get_int_def a prop_name key def_value =
     (case has_property_val a prop_name [] of
        (True, val) \<Rightarrow> rvs_util_parse val key
      | (False, _) \<Rightarrow> (0, def_value))"

definition property_get_bool :: "('cb, 'up) actionbase \<Rightarrow> string \<Rightarrow> bool \<Rightarrow> int \<times> bool" where
  "property_get_bool a prop_name pVal =
     (case has_property_val a prop_name [] of
        (False, _) \<Rightarrow> (2, pVal)
      | (True, sval) \<Rightarrow> rvs_util_parse_bool sval pVal)"

definition property_get_string :: "('cb, 'up) actionbase \<Rightarrow> string \<Rightarrow> string \<Rightarrow> int \<times> string" where
  "property_get_string a prop_name pVal =
     (case has_property_val a prop_name pVal of
        (False, v) \<Rightarrow> (2, v)
      | (True, v) \<Rightarrow> (0, v))"

text \<open>The template with a default: code 2 stores the default and becomes 0.\<close>

definition property_get_default :: "int \<times> 'v \<Rightarrow> 'v \<Rightarrow> int \<times> 'v" where
  "property_get_default got Default =
     (case got of (sts, v) \<Rightarrow> if sts = 2 then (0, Default) else (sts, v))"

section \<open>The keys common to all modules\<close>

datatype log_event = Log_err string | Log_msg string int

definition duration_mods :: "string list" where
  "duration_mods = [''gst'', ''iet'', ''tst'', ''pebb'', ''pbqt'', ''gm'', ''pulse'']"

text \<open>
  One step of the routine: read a key with a getter, keep the value, and on a non-zero code
  record the events and the failure.
\<close>

definition step_key :: "int \<Rightarrow> log_event list \<Rightarrow> bool \<times> log_event list \<Rightarrow> bool \<times> log_event list" where
  "step_key sts ev r = (if sts \<noteq> 0 then (False, snd r @ ev) else r)"

definition common_duration_keys ::
  "('cb, 'up) actionbase \<Rightarrow> bool \<times> log_event list \<Rightarrow> (bool \<times> log_event list) \<times> ('cb, 'up) actionbase" where
  "common_duration_keys a r =
     (if \<not> list_ex (\<lambda>m. m = ab_module_name a) duration_mods then (r, a)
      else
        let (e1, dur) = property_get_int_def a ''duration'' (property_duration a) 10000;
            a1 = a\<lparr>property_duration := dur\<rparr>;
            r1 = step_key e1 [Log_err ''Invalid 'duration' key''] r;
            (e2, li) = property_get_int_def a1 ''log_interval'' (property_log_interval a1) 1000;
            a2 = a1\<lparr>property_log_interval := li\<rparr>
        in (step_key e2 [Log_err ''Invalid 'log_interval' key''] r1, a2))"

definition common_scalar_keys ::
  "('cb, 'up) actionbase \<Rightarrow> bool \<times> log_event list \<Rightarrow> (bool \<times> log_event list) \<times> ('cb, 'up) actionbase" where
  "common_scalar_keys a r =
     (let (e1, par) = property_get_default (property_get_bool a ''parallel'' (property_parallel a)) False;
          a1 = a\<lparr>property_parallel := par\<rparr>;
          r1 = step_key e1 [Log_err ''invalid 'parallel' key value''] r;
          (e2, cnt) = property_get_int_def a1 ''count'' (property_count a1) 1;
          a2 = a1\<lparr>property_count := cnt\<rparr>;
          r2 = step_key e2 [Log_err ''invalid 'count' key value''] r1;
          (e3, wt) = property_get_int_def a2 ''wait'' (property_wait a2) 500;
          a3 = a2\<lparr>property_wait := wt\<rparr>;
          r3 = step_key e3 [] r2
      in common_duration_keys a3 r3)"

definition common_device_keys ::
  "('cb, 'up) actionbase \<Rightarrow> bool \<times> log_event list
     \<Rightarrow> ((bool \<times> log_event list) \<times> ('cb, 'up) actionbase) option" where
  "common_device_keys a r =
     (case property_get_device a of
        None \<Rightarrow> None
      | Some (s1, a1) \<Rightarrow>
          let r1 = step_key s1 [Log_err (if s1 = 1 then ''Invalid 'device' key value.''
                                         else ''Missing 'device' key.'')] r;
              (e2, did) = property_get_int_def a1 ''deviceid'' (property_device_id a1) 0;
              a2 = a1\<lparr>property_device_id := did\<rparr>;
              r2 = step_key e2 [Log_err ''Invalid 'deviceid' key value.''] r1
          in (case property_get_device_index a2 of
                None \<Rightarrow> None
              | Some (s3, a3) \<Rightarrow>
                  let a4 = (if s3 \<noteq> 0 then a3\<lparr>property_device_index_all := True\<rparr> else a3);
                      r4 = (fst r2, if s3 \<noteq> 0
                                    then snd r2 @ [Log_msg (if s3 = 1 then ''Invalid 'device_index' key value.''
                                                            else ''Missing 'device_index' key.'') loginfo]
                                    else snd r2);
                      a5 = (if property_device_index a4 \<noteq> [] \<or> property_device a4 \<noteq> []
                            then a4\<lparr>property_device_all := False, property_device_index_all := False\<rparr>
                            else a4)
                  in Some (r4, a5)))"

definition get_all_common_config_keys ::
  "('cb, 'up) actionbase \<Rightarrow> ((bool \<times> log_event list) \<times> ('cb, 'up) actionbase) option" where
  "get_all_common_config_keys a =
     (case property_get_string a ''name'' (action_name a) of
        (sts, nm) \<Rightarrow>
          let a0 = a\<lparr>action_name := nm\<rparr> in
          if sts \<noteq> 0 then Some ((False, [Log_err ''Action name missing'']), a0)
          else
            let trace = Log_msg (''['' @ nm @ ''] '' @ ab_module_name a0 @ ''   Getting all common properties'') logtrace;
                a1 = (if has_property a0 ''cli.-j'' then a0\<lparr>bjson := True\<rparr> else a0)
            in (case common_device_keys a1 (True, [trace]) of
                  None \<Rightarrow> None
                | Some (r, a2) \<Rightarrow> Some (common_scalar_keys a2 r)))"

section \<open>The getters\<close>

lemma property_set_code [simp]: "fst (property_set a k v) = 0"
  by (simp add: property_set_def split: option.splits)

lemma property_set_find: "om_find (property (snd (property_set a k v))) = (om_find (property a))(k \<mapsto> v)"
  by (simp add: property_set_def om_find_insert split: option.splits)

lemma property_set_wf: "om_wf (property a) \<Longrightarrow> om_wf (property (snd (property_set a k v)))"
  by (simp add: property_set_def split: option.splits)

lemma has_property_val_set:
  "has_property_val (snd (property_set a k v)) k' d = (if k' = k then (True, v) else has_property_val a k' d)"
  by (simp add: has_property_val_def property_set_find)

lemma has_property_iff: "has_property a k \<longleftrightarrow> om_find (property a) k \<noteq> None"
  by (simp add: has_property_def has_property_val_def split: option.splits)

text \<open>What a getter sees of the store, as one function of the entry.\<close>

abbreviation entry :: "('cb, 'up) actionbase \<Rightarrow> string \<Rightarrow> string option" where
  "entry a k \<equiv> om_find (property a) k"

definition uint_text :: "string \<Rightarrow> bool" where
  "uint_text s \<longleftrightarrow> s \<noteq> [] \<and> list_all isdigit s \<and> dec_val s < 2 ^ 64"

lemma uint_text_converts: "uint_text s = converts s"
  by (auto simp: uint_text_def converts_def is_positive_integer_def)

definition uint_entry_ok :: "string option \<Rightarrow> bool" where
  "uint_entry_ok e = (case e of None \<Rightarrow> True | Some s \<Rightarrow> uint_text s)"

lemma property_get_int_def_cases:
  "property_get_int_def a k old d =
     (case entry a k of
        None \<Rightarrow> (0, d)
      | Some s \<Rightarrow> if uint_text s then (0, of_nat (dec_val s)) else (if s = [] then 2 else 1, old))"
  by (auto simp: property_get_int_def_def has_property_val_def rvs_util_parse_cases uint_text_def
      split: option.splits)

lemma property_get_int_def_0: "fst (property_get_int_def a k old d) = 0 \<longleftrightarrow> uint_entry_ok (entry a k)"
  by (simp add: property_get_int_def_cases uint_entry_ok_def split: option.splits)

text \<open>A list entry is "all" or a blank-separated list of numbers; the empty text is the empty list.\<close>

definition uint_list_ok :: "string \<Rightarrow> bool" where
  "uint_list_ok s \<longleftrightarrow> s = ''all'' \<or> list_all uint_text (split_fields (CHR '' '') s)"

definition uint_list_of :: "string \<Rightarrow> 'a::len word list" where
  "uint_list_of s = (if s = ''all'' then [] else map (\<lambda>t. of_nat (dec_val t)) (split_fields (CHR '' '') s))"

lemma property_get_uint_list_cases:
  fixes old :: "'a::len word list"
  shows "property_get_uint_list a k yaml_device_prop_delimiter old oldall =
     Some (case entry a k of
        None \<Rightarrow> (2, old, oldall)
      | Some s \<Rightarrow> if uint_list_ok s then (0, uint_list_of s, s = ''all'') else (1, [], False))"
proof (cases "entry a k")
  case None
  then show ?thesis by (simp add: property_get_uint_list_def has_property_val_def)
next
  case (Some s)
  let ?f = "split_fields (CHR '' '') s"
  have "(rvs_util_strarr_to_uintarr ?f :: int \<times> 'a word list) = (int (length ?f), map (\<lambda>t. of_nat (dec_val t)) ?f)"
    if "list_all uint_text ?f"
    using that uintarr_all [of ?f] by (simp add: uint_text_converts [abs_def])
  moreover have "fst (rvs_util_strarr_to_uintarr ?f :: int \<times> 'a word list) = -1" if "\<not> list_all uint_text ?f"
    using that uintarr_error [of ?f] by (simp add: uint_text_converts [abs_def])
  ultimately show ?thesis
    using Some by (cases "rvs_util_strarr_to_uintarr ?f :: int \<times> 'a word list")
      (auto simp: property_get_uint_list_def has_property_val_def yaml_device_prop_delimiter_def
        str_split_char uint_list_ok_def uint_list_of_def split: if_splits)
qed


lemma property_get_bool_default_cases:
  "property_get_default (property_get_bool a k old) d =
     (case entry a k of
        None \<Rightarrow> (0, d)
      | Some s \<Rightarrow> if s = [] then (0, d) else if s = ''true'' then (0, True)
                  else if s = ''false'' then (0, False) else (1, old))"
  by (simp add: property_get_default_def property_get_bool_def has_property_val_def
      rvs_util_parse_bool_def split: option.splits)

definition bool_entry_ok :: "string option \<Rightarrow> bool" where
  "bool_entry_ok e = (case e of None \<Rightarrow> True | Some s \<Rightarrow> s = [] \<or> s = ''true'' \<or> s = ''false'')"

lemma property_get_bool_default_0:
  "fst (property_get_default (property_get_bool a k old) d) = 0 \<longleftrightarrow> bool_entry_ok (entry a k)"
  by (auto simp: property_get_bool_default_cases bool_entry_ok_def split: option.splits)

section \<open>What the common routine promises\<close>

definition device_entry_ok :: "string option \<Rightarrow> bool" where
  "device_entry_ok e = (case e of None \<Rightarrow> False | Some s \<Rightarrow> uint_list_ok s)"

definition is_duration_mod :: "string \<Rightarrow> bool" where
  "is_duration_mod m = list_ex (\<lambda>x. x = m) duration_mods"

definition scalar_ok :: "('cb, 'up) actionbase \<Rightarrow> bool" where
  "scalar_ok a \<longleftrightarrow> bool_entry_ok (entry a ''parallel'') \<and> uint_entry_ok (entry a ''count'') \<and>
     uint_entry_ok (entry a ''wait'') \<and>
     (is_duration_mod (ab_module_name a) \<longrightarrow>
        uint_entry_ok (entry a ''duration'') \<and> uint_entry_ok (entry a ''log_interval''))"

definition common_ok :: "('cb, 'up) actionbase \<Rightarrow> bool" where
  "common_ok a \<longleftrightarrow> entry a ''name'' \<noteq> None \<and> device_entry_ok (entry a ''device'') \<and>
     uint_entry_ok (entry a ''deviceid'') \<and> scalar_ok a"

text \<open>The list and the flag a device key leaves behind, from its old value and its entry.\<close>

definition list_after :: "u16 list \<Rightarrow> string option \<Rightarrow> u16 list" where
  "list_after old e = (case e of None \<Rightarrow> old | Some s \<Rightarrow> if uint_list_ok s then uint_list_of s else [])"

definition all_after :: "bool \<Rightarrow> string option \<Rightarrow> bool" where
  "all_after old e = (case e of None \<Rightarrow> old | Some s \<Rightarrow> s = ''all'')"

definition lists_given :: "('cb, 'up) actionbase \<Rightarrow> bool" where
  "lists_given a \<longleftrightarrow> list_after (property_device a) (entry a ''device'') \<noteq> [] \<or>
     list_after (property_device_index a) (entry a ''device_index'') \<noteq> []"

lemma all_is_ok [simp]: "uint_list_ok ''all''"
  by (simp add: uint_list_ok_def)

lemma bad_list_not_all [simp]: "\<not> uint_list_ok s \<Longrightarrow> (s = ''all'') = False"
  by (auto simp: uint_list_ok_def)

lemma property_get_device_cases:
  "\<exists>sts. property_get_device a = Some (sts, a\<lparr>property_device := list_after (property_device a) (entry a ''device''),
      property_device_all := all_after (property_device_all a) (entry a ''device'')\<rparr>) \<and>
    (sts = 0 \<longleftrightarrow> device_entry_ok (entry a ''device'')) \<and> (sts = 2 \<longleftrightarrow> entry a ''device'' = None)"
  by (auto simp: property_get_device_def property_get_uint_list_cases list_after_def all_after_def
      device_entry_ok_def split: option.splits)

lemma property_get_device_index_cases:
  "\<exists>sts. property_get_device_index a = Some (sts, a\<lparr>
      property_device_index := list_after (property_device_index a) (entry a ''device_index''),
      property_device_index_all := all_after (property_device_index_all a) (entry a ''device_index'')\<rparr>) \<and>
    (sts = 0 \<longleftrightarrow> device_entry_ok (entry a ''device_index''))"
  by (auto simp: property_get_device_index_def property_get_uint_list_cases list_after_def all_after_def
      device_entry_ok_def split: option.splits)

lemma step_key_fst: "fst (step_key sts ev r) \<longleftrightarrow> sts = 0 \<and> fst r"
  by (simp add: step_key_def)

lemma common_duration_keys_ok:
  "fst (fst (common_duration_keys a r)) \<longleftrightarrow> fst r \<and>
     (is_duration_mod (ab_module_name a) \<longrightarrow>
        uint_entry_ok (entry a ''duration'') \<and> uint_entry_ok (entry a ''log_interval''))"
  by (auto simp: common_duration_keys_def is_duration_mod_def step_key_fst Let_def case_prod_beta
      property_get_int_def_0)

lemma common_duration_keys_frame:
  "property (snd (common_duration_keys a r)) = property a"
  "property_device (snd (common_duration_keys a r)) = property_device a"
  "property_device_index (snd (common_duration_keys a r)) = property_device_index a"
  "property_device_all (snd (common_duration_keys a r)) = property_device_all a"
  "property_device_index_all (snd (common_duration_keys a r)) = property_device_index_all a"
  "property_device_id (snd (common_duration_keys a r)) = property_device_id a"
  by (simp_all add: common_duration_keys_def Let_def case_prod_beta)


lemma common_scalar_keys_ok: "fst (fst (common_scalar_keys a r)) \<longleftrightarrow> fst r \<and> scalar_ok a"
  by (auto simp: common_scalar_keys_def scalar_ok_def step_key_fst Let_def case_prod_beta
      property_get_int_def_0 property_get_bool_default_0 common_duration_keys_ok)

lemma common_scalar_keys_frame:
  "property_device (snd (common_scalar_keys a r)) = property_device a"
  "property_device_index (snd (common_scalar_keys a r)) = property_device_index a"
  "property_device_all (snd (common_scalar_keys a r)) = property_device_all a"
  "property_device_index_all (snd (common_scalar_keys a r)) = property_device_index_all a"
  "property_device_id (snd (common_scalar_keys a r)) = property_device_id a"
  by (simp_all add: common_scalar_keys_def Let_def case_prod_beta common_duration_keys_frame)

lemma common_device_keys_eq:
  "\<exists>evs a'. common_device_keys a r = Some ((fst r \<and> device_entry_ok (entry a ''device'') \<and>
        uint_entry_ok (entry a ''deviceid''), evs), a') \<and>
     property a' = property a \<and> ab_module_name a' = ab_module_name a \<and>
     property_device a' = list_after (property_device a) (entry a ''device'') \<and>
     property_device_index a' = list_after (property_device_index a) (entry a ''device_index'') \<and>
     property_device_all a' = (\<not> lists_given a \<and> all_after (property_device_all a) (entry a ''device'')) \<and>
     property_device_index_all a' = (\<not> lists_given a \<and>
        (device_entry_ok (entry a ''device_index'') \<longrightarrow>
           all_after (property_device_index_all a) (entry a ''device_index'')))"
proof -
  let ?a1 = "a\<lparr>property_device := list_after (property_device a) (entry a ''device''),
      property_device_all := all_after (property_device_all a) (entry a ''device'')\<rparr>"
  obtain s1 where s1: "property_get_device a = Some (s1, ?a1)"
      "s1 = 0 \<longleftrightarrow> device_entry_ok (entry a ''device'')"
    using property_get_device_cases [of a] by blast
  obtain e2 did where e2: "property_get_int_def ?a1 ''deviceid'' (property_device_id ?a1) 0 = (e2, did)"
    by (meson surj_pair)
  then have e2': "e2 = 0 \<longleftrightarrow> uint_entry_ok (entry a ''deviceid'')"
    using property_get_int_def_0 [of ?a1 "''deviceid''" "property_device_id ?a1" 0] by simp
  let ?a2 = "?a1\<lparr>property_device_id := did\<rparr>"
  let ?a3 = "?a2\<lparr>property_device_index := list_after (property_device_index a) (entry a ''device_index''),
      property_device_index_all := all_after (property_device_index_all a) (entry a ''device_index'')\<rparr>"
  obtain s3 where s3: "property_get_device_index ?a2 = Some (s3, ?a3)"
      "s3 = 0 \<longleftrightarrow> device_entry_ok (entry a ''device_index'')"
    using property_get_device_index_cases [of ?a2] by auto
  show ?thesis
    using s1 e2 e2' s3
    by (auto simp: common_device_keys_def Let_def step_key_def lists_given_def)
qed

text \<open>The whole routine: it returns, succeeds exactly on the valid keys, and sets the selection.\<close>

lemma get_all_common_config_keys_eq:
  "\<exists>evs a'. get_all_common_config_keys a = Some ((common_ok a, evs), a') \<and>
     (entry a ''name'' \<noteq> None \<longrightarrow>
       property_device a' = list_after (property_device a) (entry a ''device'') \<and>
       property_device_index a' = list_after (property_device_index a) (entry a ''device_index'') \<and>
       property_device_all a' = (\<not> lists_given a \<and> all_after (property_device_all a) (entry a ''device'')) \<and>
       property_device_index_all a' = (\<not> lists_given a \<and>
         (device_entry_ok (entry a ''device_index'') \<longrightarrow>
            all_after (property_device_index_all a) (entry a ''device_index''))))"
proof (cases "entry a ''name''")
  case None
  then show ?thesis
    by (simp add: get_all_common_config_keys_def property_get_string_def has_property_val_def
        common_ok_def Let_def)
next
  case (Some nm)
  define a1 where "a1 = (if has_property (a\<lparr>action_name := nm\<rparr>) ''cli.-j''
     then a\<lparr>action_name := nm, bjson := True\<rparr> else a\<lparr>action_name := nm\<rparr>)"
  have ent: "property a1 = property a" "ab_module_name a1 = ab_module_name a"
    "property_device a1 = property_device a" "property_device_index a1 = property_device_index a"
    "property_device_all a1 = property_device_all a"
    "property_device_index_all a1 = property_device_index_all a"
    by (simp_all add: a1_def)
  have given: "lists_given a1 = lists_given a" by (simp add: lists_given_def ent)
  let ?r = "(True, [Log_msg (''['' @ nm @ ''] '' @ ab_module_name a @
        ''   Getting all common properties'') logtrace])"
  let ?ok = "device_entry_ok (entry a ''device'') \<and> uint_entry_ok (entry a ''deviceid'')"
  obtain evs a2 where dev: "common_device_keys a1 ?r = Some ((?ok, evs), a2)"
    and pr: "property a2 = property a" "ab_module_name a2 = ab_module_name a"
    and fields:
      "property_device a2 = list_after (property_device a) (entry a ''device'')"
      "property_device_index a2 = list_after (property_device_index a) (entry a ''device_index'')"
      "property_device_all a2 = (\<not> lists_given a \<and> all_after (property_device_all a) (entry a ''device''))"
      "property_device_index_all a2 = (\<not> lists_given a \<and>
         (device_entry_ok (entry a ''device_index'') \<longrightarrow>
            all_after (property_device_index_all a) (entry a ''device_index'')))"
    using common_device_keys_eq [of a1 ?r] by (auto simp only: ent given fst_conv simp_thms)
  have run: "get_all_common_config_keys a = Some (common_scalar_keys a2 (?ok, evs))"
    using Some dev by (simp add: get_all_common_config_keys_def property_get_string_def
        has_property_val_def Let_def a1_def split: if_splits)
  have "scalar_ok a2 = scalar_ok a" by (simp add: scalar_ok_def pr)
  with Some have ok: "fst (fst (common_scalar_keys a2 (?ok, evs))) = common_ok a"
    by (auto simp: common_scalar_keys_ok common_ok_def)
  obtain b evs' a' where res: "common_scalar_keys a2 (?ok, evs) = ((b, evs'), a')"
    by (metis surj_pair)
  show ?thesis
    using run ok common_scalar_keys_frame [of a2 "(?ok, evs)"] fields by (simp add: res)
qed

section \<open>The values of the scalar keys\<close>

text \<open>The number a valid entry stands for, the default when the key is missing.\<close>

definition uint_value :: "string option \<Rightarrow> 'a::len word \<Rightarrow> 'a word" where
  "uint_value e d = (case e of None \<Rightarrow> d | Some s \<Rightarrow> of_nat (dec_val s))"

definition bool_value :: "string option \<Rightarrow> bool" where
  "bool_value e = (e = Some ''true'')"

lemma property_get_int_def_value:
  "uint_entry_ok (entry a k) \<Longrightarrow> snd (property_get_int_def a k old d) = uint_value (entry a k) d"
  by (auto simp: property_get_int_def_cases uint_entry_ok_def uint_value_def split: option.splits)

lemma property_get_bool_default_value:
  "bool_entry_ok (entry a k) \<Longrightarrow>
     snd (property_get_default (property_get_bool a k old) False) = bool_value (entry a k)"
  by (auto simp: property_get_bool_default_cases bool_entry_ok_def bool_value_def split: option.splits)

lemma common_duration_keys_values:
  assumes "fst (fst (common_duration_keys a r))" and "is_duration_mod (ab_module_name a)"
  shows "property_duration (snd (common_duration_keys a r)) = uint_value (entry a ''duration'') 10000"
    and "property_log_interval (snd (common_duration_keys a r)) = uint_value (entry a ''log_interval'') 1000"
  using assms
  by (simp_all add: common_duration_keys_ok)
    (simp_all add: common_duration_keys_def is_duration_mod_def Let_def case_prod_beta
      property_get_int_def_value)

lemma common_duration_keys_scalars:
  "property_parallel (snd (common_duration_keys a r)) = property_parallel a"
  "property_count (snd (common_duration_keys a r)) = property_count a"
  "property_wait (snd (common_duration_keys a r)) = property_wait a"
  by (simp_all add: common_duration_keys_def Let_def case_prod_beta)

lemma common_scalar_keys_values:
  assumes "fst (fst (common_scalar_keys a r))"
  shows "property_parallel (snd (common_scalar_keys a r)) = bool_value (entry a ''parallel'')"
    and "property_count (snd (common_scalar_keys a r)) = uint_value (entry a ''count'') 1"
    and "property_wait (snd (common_scalar_keys a r)) = uint_value (entry a ''wait'') 500"
    and "is_duration_mod (ab_module_name a) \<Longrightarrow>
       property_duration (snd (common_scalar_keys a r)) = uint_value (entry a ''duration'') 10000 \<and>
       property_log_interval (snd (common_scalar_keys a r)) = uint_value (entry a ''log_interval'') 1000"
proof -
  have ok: "scalar_ok a" using assms by (simp add: common_scalar_keys_ok)
  obtain b r' where run: "common_scalar_keys a r = common_duration_keys b r'"
    and b: "property b = property a" "ab_module_name b = ab_module_name a"
      "property_parallel b = bool_value (entry a ''parallel'')"
      "property_count b = uint_value (entry a ''count'') 1"
      "property_wait b = uint_value (entry a ''wait'') 500"
    using ok by (simp add: common_scalar_keys_def scalar_ok_def Let_def case_prod_beta
        property_get_int_def_value property_get_bool_default_value)
  show "property_parallel (snd (common_scalar_keys a r)) = bool_value (entry a ''parallel'')"
    "property_count (snd (common_scalar_keys a r)) = uint_value (entry a ''count'') 1"
    "property_wait (snd (common_scalar_keys a r)) = uint_value (entry a ''wait'') 500"
    by (simp_all add: run b common_duration_keys_scalars)
  show "property_duration (snd (common_scalar_keys a r)) = uint_value (entry a ''duration'') 10000 \<and>
       property_log_interval (snd (common_scalar_keys a r)) = uint_value (entry a ''log_interval'') 1000"
    if "is_duration_mod (ab_module_name a)"
    using that assms common_duration_keys_values [of b r'] by (simp add: run b)
qed

lemma common_keys_scalar_run:
  assumes "get_all_common_config_keys a = Some ((True, evs), a')"
  shows "\<exists>b r. common_scalar_keys b r = ((True, evs), a') \<and> property b = property a \<and>
    ab_module_name b = ab_module_name a"
proof (cases "entry a ''name''")
  case None
  with assms show ?thesis
    by (simp add: get_all_common_config_keys_def property_get_string_def has_property_val_def Let_def)
next
  case (Some nm)
  define a1 where "a1 = (if has_property (a\<lparr>action_name := nm\<rparr>) ''cli.-j''
     then a\<lparr>action_name := nm, bjson := True\<rparr> else a\<lparr>action_name := nm\<rparr>)"
  let ?r = "(True, [Log_msg (''['' @ nm @ ''] '' @ ab_module_name a @
        ''   Getting all common properties'') logtrace])"
  obtain r2 a2 where dev: "common_device_keys a1 ?r = Some (r2, a2)"
    and a2: "property a2 = property a" "ab_module_name a2 = ab_module_name a"
    using common_device_keys_eq [of a1 ?r] by (auto simp: a1_def split: if_splits)
  have "get_all_common_config_keys a = Some (common_scalar_keys a2 r2)"
    using Some dev by (simp add: get_all_common_config_keys_def property_get_string_def
        has_property_val_def Let_def a1_def split: if_splits)
  with assms a2 show ?thesis by (intro exI [of _ a2] exI [of _ r2]) simp
qed

section \<open>A sample action\<close>

text \<open>An action of the duration module \<open>gst\<close> as the loader leaves it, on two listed GPUs.\<close>

definition sample_raw :: "(unit, unit) actionbase" where
  "sample_raw = \<lparr>action_name = [], ab_module_name = [], property_device_id = 7,
     property_device_index = [], property_device_index_all = False, property_device = [],
     property_device_all = False, property_parallel = True, property_count = 9, property_wait = 9,
     property_duration = 9, property_log_interval = 9, bjson = False, property = [],
     property_log_level = 0, ab_callback = None, ab_user_param = None\<rparr>"

definition sample_props :: "(string, string) omap" where
  "sample_props = [(''count'', ''3''), (''device'', ''1 20''), (''name'', ''action_1'')]"

definition sample_action :: "(unit, unit) actionbase" where
  "sample_action = (actionbase_new sample_raw)\<lparr>property := sample_props, ab_module_name := ''gst''\<rparr>"

lemmas sample_defs = sample_action_def sample_props_def actionbase_new_def

lemma sample_accepted: "\<exists>evs a'. get_all_common_config_keys sample_action = Some ((True, evs), a')"
proof -
  have "common_ok sample_action"
    by (simp add: sample_defs common_ok_def device_entry_ok_def uint_entry_ok_def scalar_ok_def
        bool_entry_ok_def uint_list_ok_def uint_text_def split_fields_def isdigit_def dec_val_def digit_val_def)
  then show ?thesis using get_all_common_config_keys_eq [of sample_action] by fastforce
qed

section \<open>Properties\<close>


text \<open>
  When a new action reads its common keys successfully, all GPUs are selected exactly when
  the device key is "all" and no device index is listed; the listed devices are the numbers of
  the device key, cut to 16 bits.
\<close>

theorem common_keys_selection:
  assumes "a = (actionbase_new raw)\<lparr>property := ps, ab_module_name := m\<rparr>"
    and "get_all_common_config_keys a = Some ((True, evs), a')"
  shows "(property_device_all a' \<longleftrightarrow> om_find ps ''device'' = Some ''all'' \<and> property_device_index a' = []) \<and>
    (\<exists>s. om_find ps ''device'' = Some s \<and> property_device a' = uint_list_of s)"
proof -
  have ok: "common_ok a" and nm: "entry a ''name'' \<noteq> None"
    using get_all_common_config_keys_eq [of a] assms(2) by (auto simp: common_ok_def)
  then obtain s where s: "om_find ps ''device'' = Some s" "uint_list_ok s"
    using assms(1) by (auto simp: common_ok_def device_entry_ok_def split: option.splits)
  have eqs: "property_device a' = uint_list_of s" "property_device_index a' = list_after [] (om_find ps ''device_index'')"
     "property_device_all a' = (\<not> lists_given a \<and> s = ''all'')"
    using get_all_common_config_keys_eq [of a] assms nm s
    by (auto simp: actionbase_new_def list_after_def all_after_def)
  have "lists_given a \<longleftrightarrow> uint_list_of s \<noteq> ([] :: u16 list) \<or> property_device_index a' \<noteq> []"
    using assms(1) s eqs by (simp add: lists_given_def actionbase_new_def list_after_def)
  with eqs s show ?thesis by (auto simp: uint_list_of_def)
qed

theorem common_keys_selection_witness:
  "\<exists>evs a'. get_all_common_config_keys sample_action = Some ((True, evs), a') \<and>
     \<not> property_device_all a' \<and> property_device a' = [1, 20]"
proof -
  obtain evs a' where run: "get_all_common_config_keys sample_action = Some ((True, evs), a')"
    using sample_accepted by blast
  have "om_find sample_props ''device'' = Some ''1 20''" by (simp add: sample_props_def)
  moreover have "uint_list_of ''1 20'' = ([1, 20] :: u16 list)"
    by (simp add: uint_list_of_def split_fields_def dec_val_def digit_val_def)
  ultimately show ?thesis
    using common_keys_selection [OF sample_action_def run] run by auto
qed

text \<open>
  When the common keys are read successfully, every scalar key holds the number or flag its
  text stands for, or the documented default when the action does not set it: parallel false,
  count 1, wait 500, duration 10000 and log interval 1000 (the last two in the duration modules).
\<close>

theorem common_keys_values:
  assumes "get_all_common_config_keys a = Some ((True, evs), a')"
  shows "property_parallel a' = bool_value (entry a ''parallel'') \<and>
    property_count a' = uint_value (entry a ''count'') 1 \<and>
    property_wait a' = uint_value (entry a ''wait'') 500 \<and>
    (is_duration_mod (ab_module_name a) \<longrightarrow>
       property_duration a' = uint_value (entry a ''duration'') 10000 \<and>
       property_log_interval a' = uint_value (entry a ''log_interval'') 1000)"
proof -
  obtain b r where "common_scalar_keys b r = ((True, evs), a')" "property b = property a"
    "ab_module_name b = ab_module_name a"
    using common_keys_scalar_run [OF assms] by blast
  with common_scalar_keys_values [of b r] show ?thesis by simp
qed

theorem common_keys_values_witness:
  "\<exists>evs a'. get_all_common_config_keys sample_action = Some ((True, evs), a') \<and>
     property_count a' = 3 \<and> property_duration a' = 10000 \<and> \<not> property_parallel a'"
proof -
  obtain evs a' where run: "get_all_common_config_keys sample_action = Some ((True, evs), a')"
    using sample_accepted by blast
  from common_keys_values [OF this] run show ?thesis
    by (simp add: sample_defs uint_value_def bool_value_def is_duration_mod_def duration_mods_def
        dec_val_def digit_val_def)
qed

text \<open>
  A number written into the property store in decimal is read back by the integer getter as
  that number at the width of the target, whatever the store held under the key before.
\<close>

theorem property_int_roundtrip:
  assumes "n < 2 ^ 64"
  shows "property_get_int_def (snd (property_set a k (to_string n))) k old d = (0, of_nat n)"
  using assms by (simp add: property_get_int_def_cases property_set_find uint_text_def to_string_digits)

theorem property_int_roundtrip_witness:
  "property_get_int_def (snd (property_set sample_action ''duration'' (to_string 65537))) ''duration'' 0 1 =
     (0, 1 :: u16)"
  using property_int_roundtrip [of 65537 sample_action "''duration''" "0 :: u16" 1] by simp

end
