(* ===== verification/Session.thy ===== *)
theory Session
  imports Rvs_Options
begin

text \<open>
  \<^verbatim>\<open>rvs/src/rvs_interface.cpp\<close>, \<^verbatim>\<open>rvs/include/rvs.h\<close>, \<^verbatim>\<open>rvs/include/rvsinternal.h\<close>:
  the session interface of the library.  The static variables are a record that every call takes
  and returns; each call holds the mutex from start to end, so a call is one step.  The executor
  (\<^verbatim>\<open>rvs::exec\<close>) is the interface \<open>executor\<close>: an object that a run takes and returns, together
  with the results it hands to \<^verbatim>\<open>rvs_callback\<close> in order.  \<open>None\<close> stands for a call that does not
  return: a run that ends in an exception, and what the C++ leaves undefined (a call through a null
  callback, an index past the module table).
\<close>

section \<open>Data\<close>

datatype rvs_status_t = RVS_STATUS_SUCCESS | RVS_STATUS_FAILED | RVS_STATUS_INVALID_ARGUMENT
  | RVS_STATUS_INVALID_STATE | RVS_STATUS_INVALID_SESSION | RVS_STATUS_INVALID_SESSION_STATE

datatype rvs_session_state_t = RVS_SESSION_STATE_IDLE | RVS_SESSION_STATE_CREATED
  | RVS_SESSION_STATE_READY | RVS_SESSION_STATE_INITIATED | RVS_SESSION_STATE_INPROGRESS
  | RVS_SESSION_STATE_COMPLETED

text \<open>The enumeration values, which order the states.\<close>

fun session_state_code :: "rvs_session_state_t \<Rightarrow> nat" where
  "session_state_code RVS_SESSION_STATE_IDLE = 0"
| "session_state_code RVS_SESSION_STATE_CREATED = 1"
| "session_state_code RVS_SESSION_STATE_READY = 2"
| "session_state_code RVS_SESSION_STATE_INITIATED = 3"
| "session_state_code RVS_SESSION_STATE_INPROGRESS = 4"
| "session_state_code RVS_SESSION_STATE_COMPLETED = 5"

lemma session_state_code_inj: "session_state_code a = session_state_code b \<Longrightarrow> a = b"
  by (cases a; cases b) simp_all

instantiation rvs_session_state_t :: linorder
begin

definition less_eq_rvs_session_state_t :: "rvs_session_state_t \<Rightarrow> rvs_session_state_t \<Rightarrow> bool" where
  "less_eq_rvs_session_state_t a b \<longleftrightarrow> session_state_code a \<le> session_state_code b"

definition less_rvs_session_state_t :: "rvs_session_state_t \<Rightarrow> rvs_session_state_t \<Rightarrow> bool" where
  "less_rvs_session_state_t a b \<longleftrightarrow> session_state_code a < session_state_code b"

instance
  by standard (auto simp: less_eq_rvs_session_state_t_def less_rvs_session_state_t_def
      intro: session_state_code_inj)

end

datatype rvs_state_t = RVS_STATE_INITIALIZED | RVS_STATE_UNINITIALIZED

text \<open>
  The property with its union: the type selects the member.  A type outside the enumeration is
  kept as \<open>Unknown_type\<close>; the module is the integer value of its enumeration.
\<close>

datatype rvs_session_property_t =
    Default_conf nat | Custom_conf string | Custom_action string | Unknown_type int

record rvs_results_t =
  res_status :: rvs_status_t
  res_state :: rvs_session_state_t
  res_output_log :: string

record ('cb, 'ex) rvs_session_t =
  ses_id :: nat
  ses_state :: rvs_session_state_t
  ses_callback :: "'cb option"
  ses_property :: rvs_session_property_t
  ses_executor :: "'ex option"

record ('cb, 'ex) rvs_lib =
  rvs_state :: rvs_state_t
  rvs_session :: "('cb, 'ex) rvs_session_t list"

definition rvs_max_sessions :: nat where
  "rvs_max_sessions = 1"

text \<open>All-zero memory: no id, idle, null pointers, and the first type with the first module.\<close>

definition zero_session :: "('cb, 'ex) rvs_session_t" where
  "zero_session = \<lparr>ses_id = 0, ses_state = RVS_SESSION_STATE_IDLE, ses_callback = None,
     ses_property = Default_conf 0, ses_executor = None\<rparr>"

definition lib_start :: "('cb, 'ex) rvs_lib" where
  "lib_start = \<lparr>rvs_state = RVS_STATE_UNINITIALIZED, rvs_session = replicate rvs_max_sessions zero_session\<rparr>"

section \<open>The calls\<close>

definition set_slot :: "('cb, 'ex) rvs_lib \<Rightarrow> nat \<Rightarrow> ('cb, 'ex) rvs_session_t \<Rightarrow> ('cb, 'ex) rvs_lib" where
  "set_slot l i s = l\<lparr>rvs_session := (rvs_session l)[i := s]\<rparr>"

text \<open>The two searches of the table; the result is the index.\<close>

fun find_slot :: "('s \<Rightarrow> bool) \<Rightarrow> 's list \<Rightarrow> nat \<Rightarrow> nat option" where
  "find_slot p [] i = None"
| "find_slot p (s # ss) i = (if p s then Some i else find_slot p ss (Suc i))"

definition rvs_get_session_instance :: "('cb, 'ex) rvs_lib \<Rightarrow> nat option" where
  "rvs_get_session_instance l = find_slot (\<lambda>s. ses_state s = RVS_SESSION_STATE_IDLE) (rvs_session l) 0"

definition rvs_validate_session :: "('cb, 'ex) rvs_lib \<Rightarrow> nat \<Rightarrow> nat option" where
  "rvs_validate_session l session_id = find_slot (\<lambda>s. ses_id s = session_id) (rvs_session l) 0"

definition rvs_initialize :: "('cb, 'ex) rvs_lib \<Rightarrow> rvs_status_t \<times> ('cb, 'ex) rvs_lib" where
  "rvs_initialize l =
     (if rvs_state l = RVS_STATE_INITIALIZED then (RVS_STATUS_INVALID_STATE, l)
      else (RVS_STATUS_SUCCESS,
            l\<lparr>rvs_state := RVS_STATE_INITIALIZED, rvs_session := replicate rvs_max_sessions zero_session\<rparr>))"

text \<open>\<open>out\<close> tells whether the pointer for the identifier is valid; the identifier is returned.\<close>

definition rvs_session_create ::
  "('cb, 'ex) rvs_lib \<Rightarrow> bool \<Rightarrow> 'cb option \<Rightarrow> rvs_status_t \<times> nat option \<times> ('cb, 'ex) rvs_lib" where
  "rvs_session_create l out session_cb =
     (if \<not> out \<or> session_cb = None then (RVS_STATUS_INVALID_ARGUMENT, None, l)
      else if rvs_state l \<noteq> RVS_STATE_INITIALIZED then (RVS_STATUS_INVALID_STATE, None, l)
      else (case rvs_get_session_instance l of
              None \<Rightarrow> (RVS_STATUS_FAILED, None, l)
            | Some i \<Rightarrow>
                let s = (rvs_session l ! i)\<lparr>ses_id := i + 1, ses_state := RVS_SESSION_STATE_CREATED,
                                            ses_callback := session_cb\<rparr>
                in (RVS_STATUS_SUCCESS, Some (ses_id s), set_slot l i s)))"

definition rvs_session_set_property ::
  "('cb, 'ex) rvs_lib \<Rightarrow> nat \<Rightarrow> rvs_session_property_t option \<Rightarrow> rvs_status_t \<times> ('cb, 'ex) rvs_lib" where
  "rvs_session_set_property l session_id session_property =
     (case session_property of
        None \<Rightarrow> (RVS_STATUS_INVALID_ARGUMENT, l)
      | Some prop \<Rightarrow>
          if rvs_state l \<noteq> RVS_STATE_INITIALIZED then (RVS_STATUS_INVALID_STATE, l)
          else (case rvs_validate_session l session_id of
                  None \<Rightarrow> (RVS_STATUS_INVALID_SESSION, l)
                | Some i \<Rightarrow>
                    let s = rvs_session l ! i in
                    (case prop of
                       Unknown_type _ \<Rightarrow> (RVS_STATUS_INVALID_ARGUMENT, l)
                     | _ \<Rightarrow>
                         if ses_state s \<noteq> RVS_SESSION_STATE_CREATED \<and>
                            ses_state s \<noteq> RVS_SESSION_STATE_COMPLETED
                         then (RVS_STATUS_INVALID_SESSION_STATE, l)
                         else (RVS_STATUS_SUCCESS,
                               set_slot l i (s\<lparr>ses_state := RVS_SESSION_STATE_READY, ses_property := prop\<rparr>)))))"

definition conf_modules :: "string list" where
  "conf_modules = [''babel'', ''gpup'', ''gst'', ''iet'', ''mem'', ''pebb'', ''peqt'', ''pesm'',
     ''pbqt'', ''rcqt'', ''smqt'']"

text \<open>The option map of the run: \<open>Inl\<close> the early return, \<open>None\<close> the index past the table.\<close>

definition execute_options :: "rvs_session_property_t \<Rightarrow> (rvs_status_t + options) option" where
  "execute_options prop =
     (case prop of
        Default_conf m \<Rightarrow> if m < length conf_modules then Some (Inr [(''module'', conf_modules ! m)]) else None
      | Custom_conf path \<Rightarrow> Some (Inr [(''conf'', path)])
      | Custom_action action \<Rightarrow> Some (Inr [(''yaml'', action)])
      | Unknown_type _ \<Rightarrow> Some (Inl RVS_STATUS_INVALID_SESSION))"

type_synonym 'cb notification = "'cb \<times> nat \<times> rvs_results_t"

definition rvs_callback ::
  "('cb, 'ex) rvs_lib \<Rightarrow> rvs_results_t \<Rightarrow> nat \<Rightarrow> (('cb, 'ex) rvs_lib \<times> 'cb notification list) option" where
  "rvs_callback l results user_param =
     (case rvs_validate_session l user_param of
        None \<Rightarrow> Some (l, [])
      | Some i \<Rightarrow>
          let s = (rvs_session l ! i)\<lparr>ses_state := res_state results\<rparr> in
          (case ses_callback s of
             None \<Rightarrow> None
           | Some cb \<Rightarrow> Some (set_slot l i s, [(cb, user_param, results)])))"

fun deliver ::
  "('cb, 'ex) rvs_lib \<Rightarrow> nat \<Rightarrow> rvs_results_t list \<Rightarrow> (('cb, 'ex) rvs_lib \<times> 'cb notification list) option" where
  "deliver l session_id [] = Some (l, [])"
| "deliver l session_id (r # rs) =
     (case rvs_callback l r session_id of
        None \<Rightarrow> None
      | Some (l', ev) \<Rightarrow> map_option (\<lambda>(l'', evs). (l'', ev @ evs)) (deliver l' session_id rs))"

text \<open>
  A run: its return code (\<open>None\<close> when it does not return: an exception leaves the call, or its
  behaviour is undefined), the results it handed to the callback, and the executor after it.
\<close>

type_synonym 'ex exec_run = "'ex \<Rightarrow> options \<Rightarrow> int option \<times> rvs_results_t list \<times> 'ex"

definition rvs_session_execute ::
  "'ex \<Rightarrow> 'ex exec_run \<Rightarrow> ('cb, 'ex) rvs_lib \<Rightarrow> nat
     \<Rightarrow> (rvs_status_t \<times> ('cb, 'ex) rvs_lib \<times> 'cb notification list) option" where
  "rvs_session_execute exec_new exec_run l session_id =
     (if rvs_state l \<noteq> RVS_STATE_INITIALIZED then Some (RVS_STATUS_INVALID_STATE, l, [])
      else (case rvs_validate_session l session_id of
              None \<Rightarrow> Some (RVS_STATUS_INVALID_SESSION, l, [])
            | Some i \<Rightarrow>
                let s = rvs_session l ! i in
                if ses_state s \<noteq> RVS_SESSION_STATE_READY then Some (RVS_STATUS_INVALID_SESSION_STATE, l, [])
                else (case execute_options (ses_property s) of
                        None \<Rightarrow> None
                      | Some (Inl e) \<Rightarrow> Some (e, l, [])
                      | Some (Inr opt) \<Rightarrow>
                          let ex = (case ses_executor s of None \<Rightarrow> exec_new | Some e \<Rightarrow> e);
                              l1 = set_slot l i (s\<lparr>ses_state := RVS_SESSION_STATE_INITIATED, ses_executor := Some ex\<rparr>);
                              (rc, results, ex') = exec_run ex opt
                          in (case (rc, deliver l1 session_id results) of
                                (Some rc, Some (l2, evs)) \<Rightarrow>
                                  let l3 = set_slot l2 i ((rvs_session l2 ! i)\<lparr>ses_executor := Some ex'\<rparr>)
                                  in Some (if rc \<noteq> 0 then RVS_STATUS_FAILED else RVS_STATUS_SUCCESS, l3, evs)
                              | _ \<Rightarrow> None))))"

definition rvs_session_destroy :: "('cb, 'ex) rvs_lib \<Rightarrow> nat \<Rightarrow> rvs_status_t \<times> ('cb, 'ex) rvs_lib" where
  "rvs_session_destroy l session_id =
     (if rvs_state l \<noteq> RVS_STATE_INITIALIZED then (RVS_STATUS_INVALID_STATE, l)
      else (case rvs_validate_session l session_id of
              None \<Rightarrow> (RVS_STATUS_INVALID_SESSION, l)
            | Some i \<Rightarrow>
                if ses_state (rvs_session l ! i) = RVS_SESSION_STATE_INPROGRESS
                then (RVS_STATUS_INVALID_SESSION_STATE, l)
                else (RVS_STATUS_SUCCESS,
                      set_slot l i ((rvs_session l ! i)\<lparr>ses_id := 0, ses_state := RVS_SESSION_STATE_IDLE,
                        ses_callback := None, ses_executor := None, ses_property := Default_conf 0\<rparr>))))"

definition rvs_terminate :: "('cb, 'ex) rvs_lib \<Rightarrow> rvs_status_t \<times> ('cb, 'ex) rvs_lib" where
  "rvs_terminate l =
     (if rvs_state l \<noteq> RVS_STATE_INITIALIZED then (RVS_STATUS_INVALID_STATE, l)
      else (RVS_STATUS_SUCCESS, l\<lparr>rvs_state := RVS_STATE_UNINITIALIZED\<rparr>))"


section \<open>The table searches\<close>

lemma find_slot_Some:
  "find_slot p ss i = Some j \<Longrightarrow> i \<le> j \<and> j < i + length ss \<and> p (ss ! (j - i))"
proof (induction ss arbitrary: i)
  case Nil
  then show ?case by simp
next
  case (Cons s ss)
  show ?case
  proof (cases "p s")
    case True
    with Cons.prems show ?thesis by auto
  next
    case False
    with Cons.prems have "find_slot p ss (Suc i) = Some j" by simp
    from Cons.IH [OF this] have "Suc i \<le> j \<and> j < Suc i + length ss \<and> p (ss ! (j - Suc i))" .
    moreover from this have "j - i = Suc (j - Suc i)" by (simp add: Suc_diff_Suc Suc_le_lessD)
    ultimately show ?thesis by simp
  qed
qed

lemma find_slot_None: "find_slot p ss i = None \<longleftrightarrow> (\<forall>s \<in> set ss. \<not> p s)"
  by (induction ss arbitrary: i) auto

lemma instance_Some:
  "rvs_get_session_instance l = Some i \<Longrightarrow>
     i < length (rvs_session l) \<and> ses_state (rvs_session l ! i) = RVS_SESSION_STATE_IDLE"
  using find_slot_Some [of _ "rvs_session l" 0 i] by (auto simp: rvs_get_session_instance_def)

lemma validate_Some:
  "rvs_validate_session l sid = Some i \<Longrightarrow> i < length (rvs_session l) \<and> ses_id (rvs_session l ! i) = sid"
  using find_slot_Some [of _ "rvs_session l" 0 i] by (auto simp: rvs_validate_session_def)

section \<open>The invariant of the table\<close>

text \<open>
  A slot is free (no id, no callback, no executor) exactly when it is idle; otherwise it carries
  its own index plus one and a callback.  The stored property always has a type of the enumeration.
\<close>

definition known_type :: "rvs_session_property_t \<Rightarrow> bool" where
  "known_type prop = (case prop of Unknown_type _ \<Rightarrow> False | _ \<Rightarrow> True)"

definition slot_ok :: "nat \<Rightarrow> ('cb, 'ex) rvs_session_t \<Rightarrow> bool" where
  "slot_ok i s \<longleftrightarrow> known_type (ses_property s) \<and>
     (if ses_state s = RVS_SESSION_STATE_IDLE
      then ses_id s = 0 \<and> ses_callback s = None \<and> ses_executor s = None
      else ses_id s = i + 1 \<and> ses_callback s \<noteq> None)"

definition lib_ok :: "('cb, 'ex) rvs_lib \<Rightarrow> bool" where
  "lib_ok l \<longleftrightarrow> length (rvs_session l) = rvs_max_sessions \<and>
     (\<forall>i < length (rvs_session l). slot_ok i (rvs_session l ! i))"

lemma set_slot_session [simp]: "rvs_session (set_slot l i s) = (rvs_session l)[i := s]"
  by (simp add: set_slot_def)

lemma set_slot_state [simp]: "rvs_state (set_slot l i s) = rvs_state l"
  by (simp add: set_slot_def)

lemma set_slot_ok: "lib_ok l \<Longrightarrow> slot_ok i s \<Longrightarrow> lib_ok (set_slot l i s)"
  by (simp add: lib_ok_def) (metis nth_list_update_eq nth_list_update_neq)

lemma zero_session_ok: "slot_ok i zero_session"
  by (simp add: slot_ok_def zero_session_def known_type_def)

lemma lib_start_ok: "lib_ok lib_start"
  by (simp add: lib_ok_def lib_start_def zero_session_ok)

lemma lib_ok_slot: "lib_ok l \<Longrightarrow> i < length (rvs_session l) \<Longrightarrow> slot_ok i (rvs_session l ! i)"
  by (simp add: lib_ok_def)

lemma rvs_initialize_ok: "lib_ok l \<Longrightarrow> lib_ok (snd (rvs_initialize l))"
  by (auto simp: rvs_initialize_def lib_ok_def zero_session_ok)

lemma rvs_session_create_ok:
  assumes "lib_ok l" shows "lib_ok (snd (snd (rvs_session_create l out cb)))"
proof (cases "rvs_get_session_instance l")
  case None
  with assms show ?thesis by (simp add: rvs_session_create_def)
next
  case (Some i)
  with assms lib_ok_slot [of l i] instance_Some [OF Some] show ?thesis
    by (auto simp: rvs_session_create_def Let_def slot_ok_def intro!: set_slot_ok)
qed

lemma rvs_session_set_property_ok:
  assumes "lib_ok l" shows "lib_ok (snd (rvs_session_set_property l sid prop))"
proof (cases "rvs_validate_session l sid")
  case None
  with assms show ?thesis by (simp add: rvs_session_set_property_def split: option.splits)
next
  case (Some i)
  with assms lib_ok_slot [of l i] validate_Some [OF Some] show ?thesis
    by (auto simp: rvs_session_set_property_def Let_def slot_ok_def known_type_def
        split: option.splits rvs_session_property_t.splits if_splits intro!: set_slot_ok)
qed

lemma rvs_session_destroy_ok:
  assumes "lib_ok l" shows "lib_ok (snd (rvs_session_destroy l sid))"
  using assms
  by (auto simp: rvs_session_destroy_def slot_ok_def known_type_def split: option.splits intro!: set_slot_ok)

lemma rvs_terminate_ok: "lib_ok l \<Longrightarrow> lib_ok (snd (rvs_terminate l))"
  by (auto simp: rvs_terminate_def lib_ok_def)

section \<open>Delivery of the results\<close>

definition live_result :: "rvs_results_t \<Rightarrow> bool" where
  "live_result r \<longleftrightarrow> res_state r = RVS_SESSION_STATE_INPROGRESS \<or> res_state r = RVS_SESSION_STATE_COMPLETED"

text \<open>The state a slot is left in: that of the last result, or its old state without one.\<close>

definition state_after :: "rvs_session_state_t \<Rightarrow> rvs_results_t list \<Rightarrow> rvs_session_state_t" where
  "state_after st rs = (if rs = [] then st else res_state (last rs))"

text \<open>In a table that satisfies the invariant the id of a busy slot finds that slot.\<close>

lemma find_slot_first:
  "j < length ss \<Longrightarrow> p (ss ! j) \<Longrightarrow> (\<And>k. k < j \<Longrightarrow> \<not> p (ss ! k)) \<Longrightarrow> find_slot p ss i = Some (i + j)"
proof (induction ss arbitrary: i j)
  case Nil
  then show ?case by simp
next
  case (Cons s ss)
  show ?case
  proof (cases j)
    case 0
    with Cons.prems(2) show ?thesis by simp
  next
    case (Suc j')
    with Cons.prems(3) [of 0] have "\<not> p s" by simp
    moreover have "find_slot p ss (Suc i) = Some (Suc i + j')"
      using Cons.prems(1,2) Cons.prems(3) [of "Suc _"] Suc by (intro Cons.IH) auto
    ultimately show ?thesis using Suc by simp
  qed
qed

lemma validate_busy:
  assumes "lib_ok l" and "i < length (rvs_session l)" and "ses_state (rvs_session l ! i) \<noteq> RVS_SESSION_STATE_IDLE"
  shows "rvs_validate_session l (i + 1) = Some i"
proof -
  have "ses_id (rvs_session l ! i) = i + 1" using lib_ok_slot [OF assms(1,2)] assms(3) by (simp add: slot_ok_def)
  moreover have "ses_id (rvs_session l ! k) \<noteq> i + 1" if "k < i" for k
    using lib_ok_slot [OF assms(1), of k] that assms(2) by (auto simp: slot_ok_def split: if_splits)
  ultimately show ?thesis
    using find_slot_first [of i "rvs_session l" "\<lambda>s. ses_id s = i + 1" 0] assms(2)
    by (simp add: rvs_validate_session_def)
qed

lemma deliver_effect:
  assumes "lib_ok l" and "i < length (rvs_session l)"
    and "ses_state (rvs_session l ! i) \<noteq> RVS_SESSION_STATE_IDLE" and "list_all live_result rs"
  shows "deliver l (i + 1) rs =
    Some (set_slot l i ((rvs_session l ! i)\<lparr>ses_state := state_after (ses_state (rvs_session l ! i)) rs\<rparr>),
          map (\<lambda>r. (the (ses_callback (rvs_session l ! i)), i + 1, r)) rs)"
  using assms
proof (induction rs arbitrary: l)
  case Nil
  then show ?case by (simp add: state_after_def set_slot_def)
next
  case (Cons r rs)
  let ?s = "rvs_session l ! i"
  let ?l = "set_slot l i (?s\<lparr>ses_state := res_state r\<rparr>)"
  have ok: "slot_ok i ?s" using Cons.prems(1,2) by (rule lib_ok_slot)
  then obtain cb where cb: "ses_callback ?s = Some cb" using Cons.prems(3) by (auto simp: slot_ok_def)
  have r: "res_state r \<noteq> RVS_SESSION_STATE_IDLE" using Cons.prems(4) by (auto simp: live_result_def)
  have "lib_ok ?l" using Cons.prems ok r by (intro set_slot_ok) (auto simp: slot_ok_def)
  from Cons.IH [OF this] Cons.prems r
  have "deliver ?l (i + 1) rs = Some (set_slot ?l i (?s\<lparr>ses_state := state_after (res_state r) rs\<rparr>),
      map (\<lambda>r. (cb, i + 1, r)) rs)"
    using cb by simp
  moreover have "rvs_callback l r (i + 1) = Some (?l, [(cb, i + 1, r)])"
    using validate_busy [OF Cons.prems(1-3)] cb by (simp add: rvs_callback_def)
  ultimately show ?case
    using cb by (simp add: set_slot_def state_after_def)
qed


lemma state_executor_swap:
  "s\<lparr>ses_state := a, ses_executor := b\<rparr> = s\<lparr>ses_executor := b, ses_state := a\<rparr>"
  by (rule rvs_session_t.equality) simp_all

section \<open>Calls as steps and their specification\<close>

datatype 'cb call = Initialize | Create bool "'cb option" | Set_property nat "rvs_session_property_t option"
  | Execute nat | Destroy nat | Terminate

text \<open>The table after a call; \<open>None\<close> when the call is undefined.\<close>

fun call_step :: "'ex \<Rightarrow> 'ex exec_run \<Rightarrow> ('cb, 'ex) rvs_lib \<Rightarrow> 'cb call \<Rightarrow> ('cb, 'ex) rvs_lib option" where
  "call_step exec_new exec_run l Initialize = Some (snd (rvs_initialize l))"
| "call_step exec_new exec_run l (Create out cb) = Some (snd (snd (rvs_session_create l out cb)))"
| "call_step exec_new exec_run l (Set_property sid prop) = Some (snd (rvs_session_set_property l sid prop))"
| "call_step exec_new exec_run l (Execute sid) =
     map_option (\<lambda>(st, l', evs). l') (rvs_session_execute exec_new exec_run l sid)"
| "call_step exec_new exec_run l (Destroy sid) = Some (snd (rvs_session_destroy l sid))"
| "call_step exec_new exec_run l Terminate = Some (snd (rvs_terminate l))"

inductive reachable :: "'ex \<Rightarrow> 'ex exec_run \<Rightarrow> ('cb, 'ex) rvs_lib \<Rightarrow> bool" for exec_new exec_run where
  reach_start: "reachable exec_new exec_run lib_start"
| reach_step: "reachable exec_new exec_run l \<Longrightarrow> call_step exec_new exec_run l c = Some l' \<Longrightarrow>
     reachable exec_new exec_run l'"

text \<open>
  The abstract machine: whether the library is initialised and the state of every session.  Each
  rule is one permitted transition; a refused call changes nothing.
\<close>

type_synonym abs_lib = "bool \<times> rvs_session_state_t list"

inductive spec_step :: "abs_lib \<Rightarrow> 'cb call \<Rightarrow> abs_lib \<Rightarrow> bool" where
  spec_refuse: "spec_step a c a"
| spec_init: "spec_step (False, ss) Initialize (True, replicate rvs_max_sessions RVS_SESSION_STATE_IDLE)"
| spec_create: "i < length ss \<Longrightarrow> ss ! i = RVS_SESSION_STATE_IDLE \<Longrightarrow>
     spec_step (True, ss) (Create True (Some cb)) (True, ss[i := RVS_SESSION_STATE_CREATED])"
| spec_configure: "i < length ss \<Longrightarrow>
     ss ! i = RVS_SESSION_STATE_CREATED \<or> ss ! i = RVS_SESSION_STATE_COMPLETED \<Longrightarrow>
     spec_step (True, ss) (Set_property (i + 1) (Some prop)) (True, ss[i := RVS_SESSION_STATE_READY])"
| spec_execute: "i < length ss \<Longrightarrow> ss ! i = RVS_SESSION_STATE_READY \<Longrightarrow> RVS_SESSION_STATE_INITIATED \<le> t \<Longrightarrow>
     spec_step (True, ss) (Execute (i + 1)) (True, ss[i := t])"
| spec_destroy: "i < length ss \<Longrightarrow> ss ! i \<noteq> RVS_SESSION_STATE_INPROGRESS \<Longrightarrow>
     spec_step (True, ss) (Destroy sid) (True, ss[i := RVS_SESSION_STATE_IDLE])"
| spec_terminate: "spec_step (True, ss) Terminate (False, ss)"

inductive_cases spec_executeE: "spec_step (True, ss) (Execute sid) a"
inductive_simps spec_terminate_iff: "spec_step (True, ss) Terminate a"

definition abs_lib :: "('cb, 'ex) rvs_lib \<Rightarrow> abs_lib" where
  "abs_lib l = (rvs_state l = RVS_STATE_INITIALIZED, map ses_state (rvs_session l))"

lemma abs_set_slot: "abs_lib (set_slot l i s) = (fst (abs_lib l), (snd (abs_lib l))[i := ses_state s])"
  by (simp add: abs_lib_def map_update)

lemma abs_lib_init: "rvs_state l = RVS_STATE_INITIALIZED \<Longrightarrow> abs_lib l = (True, map ses_state (rvs_session l))"
  by (simp add: abs_lib_def)

lemma create_refines: "spec_step (abs_lib l) (Create out cb) (abs_lib (snd (snd (rvs_session_create l out cb))))"
proof (cases "out \<and> cb \<noteq> None \<and> rvs_state l = RVS_STATE_INITIALIZED \<and> rvs_get_session_instance l \<noteq> None")
  case False
  then have "snd (snd (rvs_session_create l out cb)) = l"
    by (auto simp: rvs_session_create_def split: option.splits)
  then show ?thesis by (simp add: spec_refuse)
next
  case True
  then obtain i c where i: "rvs_get_session_instance l = Some i" and c: "cb = Some c" by auto
  from True i c have "abs_lib (snd (snd (rvs_session_create l out cb))) =
      (True, (map ses_state (rvs_session l))[i := RVS_SESSION_STATE_CREATED])"
    by (simp add: rvs_session_create_def Let_def abs_set_slot abs_lib_init)
  moreover have "spec_step (True, map ses_state (rvs_session l)) (Create True (Some c))
      (True, (map ses_state (rvs_session l))[i := RVS_SESSION_STATE_CREATED])"
    using instance_Some [OF i] by (intro spec_create) auto
  ultimately show ?thesis using True c by (simp add: abs_lib_init)
qed

lemma set_property_refines:
  assumes "lib_ok l"
  shows "spec_step (abs_lib l) (Set_property sid prop) (abs_lib (snd (rvs_session_set_property l sid prop)))"
proof (cases "snd (rvs_session_set_property l sid prop) = l")
  case True
  then show ?thesis by (simp add: spec_refuse)
next
  case False
  then obtain p i where p: "prop = Some p" and i: "rvs_validate_session l sid = Some i"
    and init: "rvs_state l = RVS_STATE_INITIALIZED"
    and st: "ses_state (rvs_session l ! i) = RVS_SESSION_STATE_CREATED \<or>
      ses_state (rvs_session l ! i) = RVS_SESSION_STATE_COMPLETED"
    and eq: "snd (rvs_session_set_property l sid prop) =
      set_slot l i ((rvs_session l ! i)\<lparr>ses_state := RVS_SESSION_STATE_READY, ses_property := p\<rparr>)"
    by (auto simp: rvs_session_set_property_def Let_def
        split: option.splits rvs_session_property_t.splits if_splits)
  from validate_Some [OF i] lib_ok_slot [OF assms, of i] st have sid: "i < length (rvs_session l)" "sid = i + 1"
    by (auto simp: slot_ok_def)
  have "spec_step (True, map ses_state (rvs_session l)) (Set_property (i + 1) (Some p))
      (True, (map ses_state (rvs_session l))[i := RVS_SESSION_STATE_READY])"
    using sid(1) st by (intro spec_configure) auto
  then show ?thesis using sid(2) p init eq by (simp add: abs_set_slot abs_lib_init)
qed

lemma destroy_refines: "spec_step (abs_lib l) (Destroy sid) (abs_lib (snd (rvs_session_destroy l sid)))"
proof (cases "snd (rvs_session_destroy l sid) = l")
  case True
  then show ?thesis by (simp add: spec_refuse)
next
  case False
  then obtain i where i: "rvs_validate_session l sid = Some i" and init: "rvs_state l = RVS_STATE_INITIALIZED"
    and st: "ses_state (rvs_session l ! i) \<noteq> RVS_SESSION_STATE_INPROGRESS"
    by (auto simp: rvs_session_destroy_def split: option.splits if_splits)
  have "spec_step (True, map ses_state (rvs_session l)) (Destroy sid)
      (True, (map ses_state (rvs_session l))[i := RVS_SESSION_STATE_IDLE])"
    using validate_Some [OF i] st by (intro spec_destroy) auto
  then show ?thesis using i init st by (simp add: rvs_session_destroy_def abs_set_slot abs_lib_init)
qed

lemma initialize_refines: "spec_step (abs_lib l) Initialize (abs_lib (snd (rvs_initialize l)))"
  using spec_init [of "map ses_state (rvs_session l)"]
  by (auto simp: rvs_initialize_def abs_lib_def zero_session_def intro: spec_refuse)

lemma terminate_refines: "spec_step (abs_lib l) Terminate (abs_lib (snd (rvs_terminate l)))"
  using spec_terminate [of "map ses_state (rvs_session l)"]
  by (auto simp: rvs_terminate_def abs_lib_def intro: spec_refuse)

section \<open>The executor as an interface\<close>

text \<open>
  What the session layer needs of \<^verbatim>\<open>rvs::exec\<close>: every result it reports says "in progress" or
  "completed", and a run that returns 0 ends with a result that says "completed".
\<close>

locale executor =
  fixes exec_new :: 'ex and exec_run :: "'ex exec_run"
  assumes results_live: "exec_run e opt = (rc, rs, e') \<Longrightarrow> list_all live_result rs"
    and success_completes: "exec_run e opt = (Some 0, rs, e') \<Longrightarrow> rs \<noteq> [] \<and> res_state (last rs) = RVS_SESSION_STATE_COMPLETED"
begin

text \<open>A run in closed form: the slot in state \<open>Ready\<close> is the only one that changes.\<close>

lemma execute_ready:
  assumes ok: "lib_ok l" and init: "rvs_state l = RVS_STATE_INITIALIZED"
    and i: "i < length (rvs_session l)" and rdy: "ses_state (rvs_session l ! i) = RVS_SESSION_STATE_READY"
    and opt: "execute_options (ses_property (rvs_session l ! i)) = Some (Inr opt)"
    and run: "exec_run (case ses_executor (rvs_session l ! i) of None \<Rightarrow> exec_new | Some e \<Rightarrow> e) opt = (Some rc, rs, e')"
  shows "rvs_session_execute exec_new exec_run l (i + 1) =
    Some (if rc \<noteq> 0 then RVS_STATUS_FAILED else RVS_STATUS_SUCCESS,
      set_slot l i ((rvs_session l ! i)\<lparr>ses_state := state_after RVS_SESSION_STATE_INITIATED rs, ses_executor := Some e'\<rparr>),
      map (\<lambda>r. (the (ses_callback (rvs_session l ! i)), i + 1, r)) rs)"
proof -
  let ?s = "rvs_session l ! i"
  let ?ex = "case ses_executor ?s of None \<Rightarrow> exec_new | Some e \<Rightarrow> e"
  let ?l1 = "set_slot l i (?s\<lparr>ses_state := RVS_SESSION_STATE_INITIATED, ses_executor := Some ?ex\<rparr>)"
  have val: "rvs_validate_session l (i + 1) = Some i" using validate_busy [OF ok i] rdy by simp
  have "slot_ok i ?s" using ok i by (rule lib_ok_slot)
  then have "lib_ok ?l1" using ok rdy by (intro set_slot_ok) (auto simp: slot_ok_def)
  from deliver_effect [OF this, of i rs] results_live [OF run] i
  have del: "deliver ?l1 (i + 1) rs = Some (set_slot l i (?s\<lparr>ses_state := state_after RVS_SESSION_STATE_INITIATED rs,
      ses_executor := Some ?ex\<rparr>), map (\<lambda>r. (the (ses_callback ?s), i + 1, r)) rs)"
    by (simp add: set_slot_def state_executor_swap)
  show ?thesis
    using val init rdy opt run del i
    by (simp add: rvs_session_execute_def Let_def set_slot_def)
qed

lemma state_after_live:
  "list_all live_result rs \<Longrightarrow> state_after RVS_SESSION_STATE_INITIATED rs \<in>
     {RVS_SESSION_STATE_INITIATED, RVS_SESSION_STATE_INPROGRESS, RVS_SESSION_STATE_COMPLETED}"
  by (auto simp: state_after_def live_result_def list_all_iff dest: last_in_set)

text \<open>Every call of \<^verbatim>\<open>execute\<close> is one of four refusals, or the run above, or the undefined index.\<close>

lemma execute_cases:
  assumes "lib_ok l"
  obtains (refused) st where "rvs_session_execute exec_new exec_run l sid = Some (st, l, [])"
      "st \<noteq> RVS_STATUS_SUCCESS"
  | (undefined) "rvs_session_execute exec_new exec_run l sid = None"
  | (ran) i and rc :: int and rs and e' :: 'ex where "i < length (rvs_session l)" "sid = i + 1"
      "ses_state (rvs_session l ! i) = RVS_SESSION_STATE_READY" "list_all live_result rs"
      "rc = 0 \<Longrightarrow> rs \<noteq> [] \<and> res_state (last rs) = RVS_SESSION_STATE_COMPLETED"
      "rvs_session_execute exec_new exec_run l sid = Some (if rc \<noteq> 0 then RVS_STATUS_FAILED else RVS_STATUS_SUCCESS,
         set_slot l i ((rvs_session l ! i)\<lparr>ses_state := state_after RVS_SESSION_STATE_INITIATED rs, ses_executor := Some e'\<rparr>),
         map (\<lambda>r. (the (ses_callback (rvs_session l ! i)), i + 1, r)) rs)"
proof (cases "rvs_state l = RVS_STATE_INITIALIZED")
  case False
  then show ?thesis by (intro refused [of RVS_STATUS_INVALID_STATE]) (simp_all add: rvs_session_execute_def)
next
  case init: True
  show ?thesis
  proof (cases "rvs_validate_session l sid")
    case None
    with init show ?thesis by (intro refused [of RVS_STATUS_INVALID_SESSION]) (simp_all add: rvs_session_execute_def)
  next
    case (Some i)
    let ?s = "rvs_session l ! i"
    from validate_Some [OF Some] have i: "i < length (rvs_session l)" and sid: "ses_id ?s = sid" by auto
    show ?thesis
    proof (cases "ses_state ?s = RVS_SESSION_STATE_READY")
      case False
      with init Some show ?thesis by (intro refused [of RVS_STATUS_INVALID_SESSION_STATE]) (simp_all add: rvs_session_execute_def)
    next
      case rdy: True
      with lib_ok_slot [OF assms i] sid have s: "sid = i + 1" "known_type (ses_property ?s)"
        by (auto simp: slot_ok_def)
      show ?thesis
      proof (cases "execute_options (ses_property ?s)")
        case None
        with init Some rdy undefined show ?thesis by (simp add: rvs_session_execute_def Let_def)
      next
        case (Some r)
        with s(2) obtain opt where opt: "execute_options (ses_property ?s) = Some (Inr opt)"
          by (auto simp: execute_options_def known_type_def split: rvs_session_property_t.splits if_splits)
        obtain rco rs e' where run':
          "exec_run (case ses_executor ?s of None \<Rightarrow> exec_new | Some e \<Rightarrow> e) opt = (rco, rs, e')"
          by (metis surj_pair)
        show ?thesis
        proof (cases rco)
          case None
          with init \<open>rvs_validate_session l sid = Some i\<close> rdy opt run' undefined show ?thesis
            by (simp add: rvs_session_execute_def Let_def)
        next
          case rc: (Some rc)
        note run = run' [unfolded rc]
        have succ: "rs \<noteq> [] \<and> res_state (last rs) = RVS_SESSION_STATE_COMPLETED" if "rc = 0"
          using run success_completes that by blast
        show ?thesis
          by (rule ran [where rc = rc and rs = rs and e' = e', OF i s(1) rdy results_live [OF run] succ])
            (use execute_ready [OF assms init i rdy opt run] s(1) in simp_all)
        qed
      qed
    qed
  qed
qed

lemma execute_ok:
  assumes "lib_ok l" and "rvs_session_execute exec_new exec_run l sid = Some (st, l', evs)"
  shows "lib_ok l'"
proof (rule execute_cases [OF assms(1), where sid = sid])
  fix st' assume "rvs_session_execute exec_new exec_run l sid = Some (st', l, [])"
  with assms show ?thesis by simp
next
  assume "rvs_session_execute exec_new exec_run l sid = None"
  with assms show ?thesis by simp
next
  fix i rc rs e'
  assume i: "i < length (rvs_session l)" and rdy: "ses_state (rvs_session l ! i) = RVS_SESSION_STATE_READY"
    and live: "list_all live_result rs"
    and run: "rvs_session_execute exec_new exec_run l sid = Some (if rc \<noteq> 0 then RVS_STATUS_FAILED else RVS_STATUS_SUCCESS,
      set_slot l i ((rvs_session l ! i)\<lparr>ses_state := state_after RVS_SESSION_STATE_INITIATED rs, ses_executor := Some e'\<rparr>),
      map (\<lambda>r. (the (ses_callback (rvs_session l ! i)), i + 1, r)) rs)"
  have "slot_ok i (rvs_session l ! i)" using assms(1) i by (rule lib_ok_slot)
  then show ?thesis
    using run rdy assms state_after_live [OF live] by (auto simp: slot_ok_def intro!: set_slot_ok)
qed

lemma execute_refines:
  assumes "lib_ok l" and "rvs_session_execute exec_new exec_run l sid = Some (st, l', evs)"
  shows "spec_step (abs_lib l) (Execute sid) (abs_lib l')"
proof (rule execute_cases [OF assms(1), where sid = sid])
  fix st' assume "rvs_session_execute exec_new exec_run l sid = Some (st', l, [])"
  with assms show ?thesis by (simp add: spec_refuse)
next
  assume "rvs_session_execute exec_new exec_run l sid = None"
  with assms show ?thesis by simp
next
  fix i and rc :: int and rs e'
  assume i: "i < length (rvs_session l)" and sid: "sid = i + 1"
    and rdy: "ses_state (rvs_session l ! i) = RVS_SESSION_STATE_READY"
    and live: "list_all live_result rs"
    and run: "rvs_session_execute exec_new exec_run l sid = Some (if rc \<noteq> 0 then RVS_STATUS_FAILED else RVS_STATUS_SUCCESS,
      set_slot l i ((rvs_session l ! i)\<lparr>ses_state := state_after RVS_SESSION_STATE_INITIATED rs, ses_executor := Some e'\<rparr>),
      map (\<lambda>r. (the (ses_callback (rvs_session l ! i)), i + 1, r)) rs)"
  have init: "rvs_state l = RVS_STATE_INITIALIZED"
    using run assms(2) by (rule_tac ccontr) (auto simp: rvs_session_execute_def split: if_splits)
  have "RVS_SESSION_STATE_INITIATED \<le> state_after RVS_SESSION_STATE_INITIATED rs"
    using state_after_live [OF live] by (auto simp: less_eq_rvs_session_state_t_def)
  then have "spec_step (True, map ses_state (rvs_session l)) (Execute (i + 1))
      (True, (map ses_state (rvs_session l))[i := state_after RVS_SESSION_STATE_INITIATED rs])"
    using i rdy by (intro spec_execute) auto
  then show ?thesis using run assms(2) sid init by (auto simp: abs_set_slot abs_lib_init)
qed

lemma call_step_ok: "lib_ok l \<Longrightarrow> call_step exec_new exec_run l c = Some l' \<Longrightarrow> lib_ok l'"
  using rvs_initialize_ok rvs_session_create_ok rvs_session_set_property_ok execute_ok
    rvs_session_destroy_ok rvs_terminate_ok
  by (cases c) fastforce+

lemma call_step_refines:
  "lib_ok l \<Longrightarrow> call_step exec_new exec_run l c = Some l' \<Longrightarrow> spec_step (abs_lib l) c (abs_lib l')"
  using initialize_refines create_refines set_property_refines execute_refines
    destroy_refines terminate_refines
  by (cases c) fastforce+

lemma reachable_ok: "reachable exec_new exec_run l \<Longrightarrow> lib_ok l"
  by (induction rule: reachable.induct) (auto intro: lib_start_ok call_step_ok)

text \<open>A completed run leaves its session configurable again.\<close>

lemma execute_success_completes:
  assumes "lib_ok l" and "rvs_session_execute exec_new exec_run l sid = Some (RVS_STATUS_SUCCESS, l', evs)"
  shows "\<exists>i < length (rvs_session l). sid = i + 1 \<and>
     ses_state (rvs_session l' ! i) = RVS_SESSION_STATE_COMPLETED \<and> evs \<noteq> [] \<and>
     rvs_validate_session l' sid = Some i"
proof (rule execute_cases [OF assms(1), where sid = sid])
  fix st' assume "rvs_session_execute exec_new exec_run l sid = Some (st', l, [])" "st' \<noteq> RVS_STATUS_SUCCESS"
  with assms show ?thesis by simp
next
  assume "rvs_session_execute exec_new exec_run l sid = None"
  with assms show ?thesis by simp
next
  fix i and rc :: int and rs e'
  assume i: "i < length (rvs_session l)" and sid: "sid = i + 1"
    and fin: "rc = 0 \<Longrightarrow> rs \<noteq> [] \<and> res_state (last rs) = RVS_SESSION_STATE_COMPLETED"
    and run: "rvs_session_execute exec_new exec_run l sid = Some (if rc \<noteq> 0 then RVS_STATUS_FAILED else RVS_STATUS_SUCCESS,
      set_slot l i ((rvs_session l ! i)\<lparr>ses_state := state_after RVS_SESSION_STATE_INITIATED rs, ses_executor := Some e'\<rparr>),
      map (\<lambda>r. (the (ses_callback (rvs_session l ! i)), i + 1, r)) rs)"
  from run assms(2) have "rc = 0" by (auto split: if_splits)
  with fin have rs: "rs \<noteq> []" "res_state (last rs) = RVS_SESSION_STATE_COMPLETED" by auto
  with run assms(2) \<open>rc = 0\<close> i have st: "ses_state (rvs_session l' ! i) = RVS_SESSION_STATE_COMPLETED" "evs \<noteq> []"
    "length (rvs_session l') = length (rvs_session l)"
    by (auto simp: state_after_def)
  moreover have "rvs_validate_session l' (i + 1) = Some i"
    using validate_busy [OF execute_ok [OF assms]] st i by simp
  ultimately show ?thesis using i sid by auto
qed

text \<open>A run whose last report says "in progress" has failed and leaves its session in progress.\<close>

lemma execute_in_progress:
  assumes "lib_ok l" and "rvs_session_execute exec_new exec_run l sid = Some (st, l', evs)"
    and "evs \<noteq> []" and "res_state (snd (snd (last evs))) = RVS_SESSION_STATE_INPROGRESS"
  shows "st = RVS_STATUS_FAILED \<and> lib_ok l' \<and> rvs_state l' = RVS_STATE_INITIALIZED \<and>
    ses_state (rvs_session l' ! 0) = RVS_SESSION_STATE_INPROGRESS"
proof (rule execute_cases [OF assms(1), where sid = sid])
  fix st' assume "rvs_session_execute exec_new exec_run l sid = Some (st', l, [])"
  with assms show ?thesis by simp
next
  assume "rvs_session_execute exec_new exec_run l sid = None"
  with assms show ?thesis by simp
next
  fix i and rc :: int and rs e'
  assume i: "i < length (rvs_session l)"
    and fin: "rc = 0 \<Longrightarrow> rs \<noteq> [] \<and> res_state (last rs) = RVS_SESSION_STATE_COMPLETED"
    and run: "rvs_session_execute exec_new exec_run l sid = Some (if rc \<noteq> 0 then RVS_STATUS_FAILED else RVS_STATUS_SUCCESS,
      set_slot l i ((rvs_session l ! i)\<lparr>ses_state := state_after RVS_SESSION_STATE_INITIATED rs, ses_executor := Some e'\<rparr>),
      map (\<lambda>r. (the (ses_callback (rvs_session l ! i)), i + 1, r)) rs)"
  have one: "length (rvs_session l) = 1" using assms(1) by (simp add: lib_ok_def rvs_max_sessions_def)
  have rs: "rs \<noteq> []" "res_state (last rs) = RVS_SESSION_STATE_INPROGRESS"
    using run assms(2-4) by (auto simp: last_map)
  with fin have "rc \<noteq> 0" by auto
  moreover have "rvs_state l = RVS_STATE_INITIALIZED"
    using run assms(2,3) by (auto simp: rvs_session_execute_def split: if_splits)
  ultimately show ?thesis
    using run assms(2) rs i one execute_ok [OF assms(1,2)] by (auto simp: state_after_def)
qed

end

section \<open>Which calls are accepted\<close>

text \<open>The guard of a call on the abstract state; a run in addition depends on the executor.\<close>

fun enabled :: "abs_lib \<Rightarrow> 'cb call \<Rightarrow> bool" where
  "enabled (init, ss) Initialize = (\<not> init)"
| "enabled (init, ss) (Create out cb) = (init \<and> out \<and> cb \<noteq> None \<and> RVS_SESSION_STATE_IDLE \<in> set ss)"
| "enabled (init, ss) (Set_property sid prop) =
     (init \<and> (case prop of None \<Rightarrow> False | Some p \<Rightarrow> known_type p) \<and> 1 \<le> sid \<and> sid \<le> length ss \<and>
      (ss ! (sid - 1) = RVS_SESSION_STATE_CREATED \<or> ss ! (sid - 1) = RVS_SESSION_STATE_COMPLETED))"
| "enabled (init, ss) (Execute sid) =
     (init \<and> 1 \<le> sid \<and> sid \<le> length ss \<and> ss ! (sid - 1) = RVS_SESSION_STATE_READY)"
| "enabled (init, ss) (Destroy sid) =
     (init \<and> (if sid = 0 then RVS_SESSION_STATE_IDLE \<in> set ss
               else sid \<le> length ss \<and> ss ! (sid - 1) \<noteq> RVS_SESSION_STATE_IDLE \<and>
                    ss ! (sid - 1) \<noteq> RVS_SESSION_STATE_INPROGRESS))"
| "enabled (init, ss) Terminate = init"

text \<open>The status of a call other than a run.\<close>

fun call_status :: "('cb, 'ex) rvs_lib \<Rightarrow> 'cb call \<Rightarrow> rvs_status_t option" where
  "call_status l Initialize = Some (fst (rvs_initialize l))"
| "call_status l (Create out cb) = Some (fst (rvs_session_create l out cb))"
| "call_status l (Set_property sid prop) = Some (fst (rvs_session_set_property l sid prop))"
| "call_status l (Execute sid) = None"
| "call_status l (Destroy sid) = Some (fst (rvs_session_destroy l sid))"
| "call_status l Terminate = Some (fst (rvs_terminate l))"

lemma instance_exists:
  "rvs_get_session_instance l = None \<longleftrightarrow> RVS_SESSION_STATE_IDLE \<notin> set (map ses_state (rvs_session l))"
  by (force simp: rvs_get_session_instance_def find_slot_None)

lemma validate_iff:
  assumes "lib_ok l"
  shows "rvs_validate_session l (Suc j) = (if j < length (rvs_session l) \<and>
     ses_state (rvs_session l ! j) \<noteq> RVS_SESSION_STATE_IDLE then Some j else None)"
proof (cases "rvs_validate_session l (Suc j)")
  case None
  then show ?thesis using validate_busy [OF assms, of j] by auto
next
  case (Some i)
  from validate_Some [OF Some] lib_ok_slot [OF assms, of i] have "i = j" "j < length (rvs_session l)"
    "ses_state (rvs_session l ! j) \<noteq> RVS_SESSION_STATE_IDLE"
    by (auto simp: slot_ok_def split: if_splits)
  with Some show ?thesis by simp
qed

lemma validate_zero:
  assumes "lib_ok l"
  shows "(case rvs_validate_session l 0 of
      None \<Rightarrow> RVS_SESSION_STATE_IDLE \<notin> set (map ses_state (rvs_session l))
    | Some i \<Rightarrow> ses_state (rvs_session l ! i) = RVS_SESSION_STATE_IDLE \<and>
        RVS_SESSION_STATE_IDLE \<in> set (map ses_state (rvs_session l)))"
proof (cases "rvs_validate_session l 0")
  case None
  then have "\<forall>s \<in> set (rvs_session l). ses_id s \<noteq> 0"
    by (simp add: rvs_validate_session_def find_slot_None)
  then show ?thesis
    using None lib_ok_slot [OF assms] by (fastforce simp: in_set_conv_nth slot_ok_def)
next
  case (Some i)
  have "ses_state (rvs_session l ! i) = RVS_SESSION_STATE_IDLE" "i < length (rvs_session l)"
    using validate_Some [OF Some] lib_ok_slot [OF assms, of i] by (auto simp: slot_ok_def split: if_splits)
  with Some show ?thesis by (auto simp: image_iff intro!: bexI [of _ "rvs_session l ! i"])
qed

lemma status_enabled:
  assumes "lib_ok l" and "call_status l c = Some st"
  shows "st = RVS_STATUS_SUCCESS \<longleftrightarrow> enabled (abs_lib l) c"
proof (cases c)
  case Initialize
  with assms(2) show ?thesis by (cases "rvs_state l") (auto simp: rvs_initialize_def abs_lib_def)
next
  case (Create out cb)
  with assms(2) show ?thesis
    using instance_exists [of l]
    by (auto simp: rvs_session_create_def abs_lib_def Let_def split: option.splits if_splits)
next
  case (Set_property sid p)
  show ?thesis
  proof (cases sid)
    case 0
    with Set_property assms(2) validate_zero [OF assms(1)] show ?thesis
      by (auto simp: rvs_session_set_property_def abs_lib_def Let_def
          split: option.splits rvs_session_property_t.splits if_splits)
  next
    case (Suc j)
    with Set_property assms(2) validate_iff [OF assms(1), of j] show ?thesis
      by (auto simp: rvs_session_set_property_def abs_lib_def known_type_def Let_def
          split: option.splits rvs_session_property_t.splits if_splits)
  qed
next
  case (Execute sid)
  with assms(2) show ?thesis by simp
next
  case (Destroy sid)
  show ?thesis
  proof (cases sid)
    case 0
    with Destroy assms(2) validate_zero [OF assms(1)] show ?thesis
      by (auto simp: rvs_session_destroy_def abs_lib_def split: option.splits if_splits)
  next
    case (Suc j)
    with Destroy assms(2) validate_iff [OF assms(1), of j] show ?thesis
      by (auto simp: rvs_session_destroy_def abs_lib_def split: option.splits if_splits)
  qed
next
  case Terminate
  with assms(2) show ?thesis by (auto simp: rvs_terminate_def abs_lib_def split: if_splits)
qed

section \<open>A session stuck in progress\<close>

text \<open>
  Between calls no run is active.  On a table whose session is in progress only \<^verbatim>\<open>rvs_terminate\<close>
  succeeds, and every other call leaves the table alone.
\<close>

lemma in_progress_unchanged:
  assumes "lib_ok l" and "rvs_state l = RVS_STATE_INITIALIZED"
    and "ses_state (rvs_session l ! 0) = RVS_SESSION_STATE_INPROGRESS" and "c \<noteq> Terminate"
  shows "call_step en er l c = Some l \<and> call_status l c \<noteq> Some RVS_STATUS_SUCCESS"
proof -
  have "length (rvs_session l) = 1" using assms(1) by (simp add: lib_ok_def rvs_max_sessions_def)
  then obtain s where s: "rvs_session l = [s]" by (auto simp: length_Suc_conv)
  have "slot_ok 0 s" using lib_ok_slot [OF assms(1), of 0] s by simp
  then have id: "ses_id s = 1" using assms(3) s by (simp add: slot_ok_def)
  show ?thesis
    using assms(2-4) id
    by (cases c) (auto simp: s rvs_initialize_def rvs_session_create_def rvs_get_session_instance_def
        rvs_session_set_property_def rvs_validate_session_def rvs_session_execute_def rvs_session_destroy_def Let_def
        split: option.splits rvs_session_property_t.splits)
qed

lemma terminate_clears:
  "rvs_state l = RVS_STATE_INITIALIZED \<Longrightarrow>
   rvs_initialize (snd (rvs_terminate l)) = (RVS_STATUS_SUCCESS, lib_start\<lparr>rvs_state := RVS_STATE_INITIALIZED\<rparr>)"
  by (simp add: rvs_initialize_def rvs_terminate_def lib_start_def)

end
