(* ===== verification/Exec_Yaml.thy ===== *)
theory Exec_Yaml
  imports Module_Manager Overview Action_Base Session
begin

text \<open>
  Execution of the actions of a configuration: \<^verbatim>\<open>rvs/src/rvsexec_do_yaml.cpp\<close> and the callbacks of
  \<^verbatim>\<open>rvs/src/rvsexec.cpp\<close>.  A parsed document is what the code's accessor calls return on it, in the
  order the code makes them: a conversion \<^verbatim>\<open>as<std::string>()\<close> is a string or the text of the
  exception it throws.  The frames the progress thread of the quiet mode draws are not part of the
  printed text.
\<close>

section \<open>Documents\<close>

type_synonym 'a may_throw = "string + 'a"

record yscalar =
  y_null :: bool
  y_string :: "string may_throw"

record yprop =
  p_key :: "string may_throw"
  p_value :: yscalar
  p_children :: "(string may_throw \<times> yscalar) list"

record yaction =
  ya_name :: "string may_throw"
  ya_module :: "string may_throw"
  ya_props :: "yprop list"

text \<open>The member \<^verbatim>\<open>actions\<close>, \<open>None\<close> when it is not defined.\<close>

type_synonym ydoc = "yaction list option"

section \<open>State\<close>

record ('w, 'act) exec_env =
  x_env :: "('w, 'act, action_result_t) env"
  x_modules_file :: "string \<Rightarrow> modules_file"
  x_file_good :: "string \<Rightarrow> bool"
  x_load_file :: "string \<Rightarrow> ydoc may_throw"
  x_load_string :: "string \<Rightarrow> ydoc may_throw"
  x_data_root :: string
  x_versions :: versions
  x_smi_devices :: nat
  x_smi_ids :: "nat option list"
  x_power :: smi_power
  x_garbage :: "u32 \<times> u32"
  x_nodes :: "kfd_node list"
  x_hip :: "hip_device list"

record exec_action =
  ea_name :: string
  ea_module :: string
  ea_result :: bool

record ('w, 'act, 'cb) exec =
  x_sys :: "('w, 'act, action_result_t) sys"
  x_gpus :: gpulist
  app_callback :: "'cb option"
  user_param :: nat
  num_times :: int
  action_details :: "exec_action list"
  x_calls :: "('cb \<times> nat \<times> rvs_results_t) list"  \<comment> \<open>the calls of the application's callback so far\<close>

type_synonym ('w, 'act, 'cb, 'a) cmd = "('w, 'act, 'cb) exec \<Rightarrow> 'a outcome \<times> ('w, 'act, 'cb) exec"

definition x_err :: "string \<Rightarrow> ('w, 'act, 'cb) exec \<Rightarrow> ('w, 'act, 'cb) exec" where
  "x_err t x = x\<lparr>x_sys := err t (x_sys x)\<rparr>"

definition x_log :: "('w, 'act) exec_env \<Rightarrow> string \<Rightarrow> int \<Rightarrow> ('w, 'act, 'cb) exec \<Rightarrow> ('w, 'act, 'cb) exec" where
  "x_log env t level x =
     x\<lparr>x_sys := (x_sys x)\<lparr>s_log := snd (log (e_os (x_env env)) t level (s_log (x_sys x)))\<rparr>\<rparr>"

definition x_print :: "string \<Rightarrow> ('w, 'act, 'cb) exec \<Rightarrow> ('w, 'act, 'cb) exec" where
  "x_print t x = x\<lparr>x_sys := sys_print t (x_sys x)\<rparr>"

definition x_do :: "(('w, 'act, action_result_t) sys \<Rightarrow> 'r \<times> ('w, 'act, action_result_t) sys)
    \<Rightarrow> ('w, 'act, 'cb) exec \<Rightarrow> 'r \<times> ('w, 'act, 'cb) exec" where
  "x_do f x = (case f (x_sys x) of (r, s) \<Rightarrow> (r, x\<lparr>x_sys := s\<rparr>))"

abbreviation x_options :: "('w, 'act) exec_env \<Rightarrow> options" where
  "x_options env \<equiv> e_options (x_env env)"

text \<open>The next command, unless this one did not return.\<close>

fun and_then :: "'a outcome \<times> 's \<Rightarrow> ('a \<Rightarrow> 's \<Rightarrow> 'b outcome \<times> 's) \<Rightarrow> 'b outcome \<times> 's" where
  "and_then (Ret a, s) k = k a s"
| "and_then (Throw w, s) k = (Throw w, s)"
| "and_then (Undefined, s) k = (Undefined, s)"

definition convert :: "'a may_throw \<Rightarrow> 's \<Rightarrow> 'a outcome \<times> 's" where
  "convert v s = (case v of Inl w \<Rightarrow> (Throw w, s) | Inr a \<Rightarrow> (Ret a, s))"

section \<open>Callbacks\<close>

definition exec_new :: "('w, 'act, action_result_t) sys \<Rightarrow> gpulist \<Rightarrow> ('w, 'act, 'cb) exec" where
  "exec_new s g = \<lparr>x_sys = s, x_gpus = g, app_callback = None, user_param = 0, num_times = 1,
     action_details = [], x_calls = []\<rparr>"

definition set_callback :: "'cb option \<Rightarrow> nat \<Rightarrow> ('w, 'act, 'cb) exec \<Rightarrow> int \<times> ('w, 'act, 'cb) exec" where
  "set_callback cb up x =
     (if cb = None then (-1, x) else (0, x\<lparr>app_callback := cb, user_param := up\<rparr>))"

text \<open>\<^verbatim>\<open>callback(const rvs_results_t*)\<close>.\<close>

definition callback_results :: "rvs_results_t \<Rightarrow> ('w, 'act, 'cb) exec \<Rightarrow> ('w, 'act, 'cb) exec" where
  "callback_results r x =
     (case app_callback x of
        None \<Rightarrow> x
      | Some cb \<Rightarrow> x\<lparr>x_calls := x_calls x @ [(cb, user_param x, r)]\<rparr>)"

text \<open>\<^verbatim>\<open>callback(const action_result_t*)\<close>.\<close>

definition callback_action :: "action_result_t \<Rightarrow> ('w, 'act, 'cb) exec \<Rightarrow> ('w, 'act, 'cb) exec" where
  "callback_action result x =
     (let send = (\<lambda>st. case app_callback x of
                         None \<Rightarrow> x
                       | Some cb \<Rightarrow> x\<lparr>x_calls := x_calls x @ [(cb, user_param x,
                           \<lparr>res_status = st, res_state = RVS_SESSION_STATE_INPROGRESS, res_output_log = ar_output result\<rparr>)]\<rparr>)
      in case ar_status result of
           ACTION_SUCCESS \<Rightarrow> send RVS_STATUS_SUCCESS
         | ACTION_FAILED \<Rightarrow> send RVS_STATUS_FAILED
         | ACTION_ERROR \<Rightarrow> x)"

text \<open>The static function a module calls; either pointer may be null.\<close>

definition exec_action_callback ::
  "action_result_t option \<Rightarrow> bool \<Rightarrow> ('w, 'act, 'cb) exec \<Rightarrow> ('w, 'act, 'cb) exec" where
  "exec_action_callback result has_user_param x =
     (case result of None \<Rightarrow> x | Some r \<Rightarrow> if \<not> has_user_param then x else callback_action r x)"

section \<open>Selection of actions\<close>

text \<open>The words \<^verbatim>\<open>iss >> token\<close> reads.\<close>

fun words_from :: "string \<Rightarrow> string \<Rightarrow> string list" where
  "words_from acc [] = (if acc = [] then [] else [acc])"
| "words_from acc (c # s) =
     (if isspace c then (if acc = [] then [] else [acc]) @ words_from [] s else words_from (acc @ [c]) s)"

definition token_numeric :: "string \<Rightarrow> bool" where
  "token_numeric t = (case stoi t of Inr (idx, pos) \<Rightarrow> pos = length t \<and> 0 \<le> idx | Inl _ \<Rightarrow> False)"

definition select_actions :: "options \<Rightarrow> string list \<times> int list" where
  "select_actions opt =
     (let (given, select_val) = has_option_val opt ''-s'' [] in
      if given \<and> select_val \<noteq> [] then
        (let tokens = words_from [] (replace_char (CHR '','') (CHR '' '') select_val) in
         if list_all token_numeric tokens
         then ([], map (\<lambda>t. case stoi t of Inr (v, _) \<Rightarrow> v | Inl _ \<Rightarrow> 0) tokens)
         else (tokens, []))
      else ([], []))"

definition has_selection :: "string list \<times> int list \<Rightarrow> bool" where
  "has_selection sel \<longleftrightarrow> fst sel \<noteq> [] \<or> snd sel \<noteq> []"

definition selected :: "string list \<times> int list \<Rightarrow> string \<Rightarrow> int \<Rightarrow> bool" where
  "selected sel name idx \<longleftrightarrow> list_ex (\<lambda>n. n = name) (fst sel) \<or> list_ex (\<lambda>i. i = idx) (snd sel)"

section \<open>Properties of an action\<close>

text \<open>\<^verbatim>\<open>unsigned long\<close> and \<^verbatim>\<open>unsigned long long\<close> have 64 bits both.\<close>

abbreviation stoull :: "string \<Rightarrow> conv_error + (u64 \<times> nat)" where
  "stoull \<equiv> stoul"

definition is_yaml_properties_collection :: "string \<Rightarrow> string \<Rightarrow> bool" where
  "is_yaml_properties_collection module_nm property_name =
     (if module_nm = ''gpup'' then property_name = ''properties'' \<or> property_name = ''io_links-properties''
      else if module_nm = ''peqt'' then property_name = ''capability''
      else if module_nm = ''gm'' then property_name = ''metrics''
      else False)"

definition set_prop ::
  "('w, 'act) exec_env \<Rightarrow> ('w, 'act, action_result_t) solib \<Rightarrow> 'act \<Rightarrow> string \<Rightarrow> string
     \<Rightarrow> ('w, 'act, 'cb) exec \<Rightarrow> int \<times> ('w, 'act, 'cb) exec" where
  "set_prop env lib act k v x = x_do (if1_property_set (x_env env) lib act k v) x"

fun do_yaml_properties_collection ::
  "('w, 'act) exec_env \<Rightarrow> ('w, 'act, action_result_t) solib \<Rightarrow> 'act \<Rightarrow> string
     \<Rightarrow> (string may_throw \<times> yscalar) list \<Rightarrow> int \<Rightarrow> ('w, 'act, 'cb, int) cmd" where
  "do_yaml_properties_collection env lib act parent_name [] sts x = (Ret sts, x)"
| "do_yaml_properties_collection env lib act parent_name ((k, v) # kvs) sts x =
     and_then (convert k x) (\<lambda>key x.
       and_then (convert (if y_null v then Inr [] else y_string v) x) (\<lambda>val x.
         let (r, x) = set_prop env lib act (parent_name @ ''.'' @ key) val x
         in do_yaml_properties_collection env lib act parent_name kvs (sts + r) x))"

text \<open>The key \<^verbatim>\<open>device\<close> when the option \<^verbatim>\<open>-i\<close> gives indexes; the result is the sum of the return codes.\<close>

definition set_device ::
  "('w, 'act) exec_env \<Rightarrow> ('w, 'act, action_result_t) solib \<Rightarrow> 'act \<Rightarrow> string \<Rightarrow> yscalar
     \<Rightarrow> ('w, 'act, 'cb, int) cmd" where
  "set_device env lib act indexes v x =
     (case str_split indexes '' '' of
        None \<Rightarrow> (Undefined, x)
      | Some strarray \<Rightarrow>
          (let idx = snd (rvs_util_strarr_to_uintarr strarray :: int \<times> u16 list) in
           if gpu_check_if_gpu_indexes (x_smi_devices env) idx then
             (let (r1, x) = set_prop env lib act ''device_index'' indexes x in
              and_then (convert (y_string v) x) (\<lambda>val x.
                let (r2, x) = set_prop env lib act ''device'' val x in (Ret (r1 + r2), x)))
           else (let (r, x) = set_prop env lib act ''device'' indexes x in (Ret r, x))))"

fun yaml_props_loop ::
  "('w, 'act) exec_env \<Rightarrow> ('w, 'act, action_result_t) solib \<Rightarrow> 'act \<Rightarrow> string \<Rightarrow> string option
     \<Rightarrow> yprop list \<Rightarrow> int \<Rightarrow> ('w, 'act, 'cb, int) cmd" where
  "yaml_props_loop env lib act module_nm indexes [] sts x = (Ret sts, x)"
| "yaml_props_loop env lib act module_nm indexes (p # ps) sts x =
     and_then (convert (p_key p) x) (\<lambda>key x.
       and_then
         (if is_yaml_properties_collection module_nm key
          then do_yaml_properties_collection env lib act key (p_children p) 0 x
          else if indexes \<noteq> None \<and> key = ''device''
          then set_device env lib act (replace_char (CHR '','') (CHR '' '') (the indexes)) (p_value p) x
          else and_then (convert (y_string (p_value p)) x) (\<lambda>val x.
                 let (r, x) = set_prop env lib act key val x in (Ret r, x)))
         (\<lambda>r x. yaml_props_loop env lib act module_nm indexes ps (sts + r) x))"

definition do_yaml_properties ::
  "('w, 'act) exec_env \<Rightarrow> ('w, 'act, action_result_t) solib \<Rightarrow> 'act \<Rightarrow> string \<Rightarrow> yprop list
     \<Rightarrow> ('w, 'act, 'cb, int) cmd" where
  "do_yaml_properties env lib act module_nm props x =
     (let opt = x_options env;
          indexes = (case has_option_val opt ''-i'' [] of (given, v) \<Rightarrow> if given \<and> v \<noteq> [] then Some v else None);
          x = x_log env (''Module name :'' @ module_nm) logresults x
      in and_then (yaml_props_loop env lib act module_nm indexes props 0 x) (\<lambda>sts x.
           let (sts, x) =
             (case has_option_val opt ''-p'' [] of (given, parallel) \<Rightarrow>
                if \<not> given then (sts, x)
                else if parallel = ''false'' then (let (r, x) = set_prop env lib act ''parallel'' ''false'' x in (sts + r, x))
                else if parallel = ''true'' then (let (r, x) = set_prop env lib act ''parallel'' ''true'' x in (sts + r, x))
                else if parallel = [] then (let (r, x) = set_prop env lib act ''parallel'' ''true'' x in (sts + r, x))
                else (sts + 1, x\<lparr>x_sys := (x_sys x)\<lparr>s_log := snd (Err (Some
                        ''Invalid value provided for -p (--parallel) option. Valid values: true/false.'') None None
                        (s_log (x_sys x)))\<rparr>\<rparr>))
           in case has_option_val opt ''-t'' [] of (given, duration) \<Rightarrow>
                if \<not> given then (Ret sts, x)
                else (case stoull duration of
                        Inl _ \<Rightarrow> (Throw ''stoull'', x)
                      | Inr (d, _) \<Rightarrow>
                          let (r, x) = set_prop env lib act ''duration'' (to_string (unat (d * 1000))) x
                          in (Ret (sts + r), x))))"

section \<open>One action\<close>

text \<open>What the body of the loop ends in: the next action, or leaving the function.\<close>

datatype step = Next | Leave int

definition failed_result :: "string \<Rightarrow> rvs_results_t" where
  "failed_result t = \<lparr>res_status = RVS_STATUS_FAILED, res_state = RVS_SESSION_STATE_COMPLETED,
     res_output_log = buff1024 t\<rparr>"

text \<open>\<^verbatim>\<open>result.output_log = buff; callback(&result)\<close>.\<close>

definition notify_failed :: "string \<Rightarrow> ('w, 'act, 'cb) exec \<Rightarrow> ('w, 'act, 'cb) exec" where
  "notify_failed t x = callback_results (failed_result t) x"

definition toupper :: "char \<Rightarrow> char" where
  "toupper c = (if CHR ''a'' \<le> c \<and> c \<le> CHR ''z'' then char_of (of_char c - 32 :: nat) else c)"

definition summary_row :: "string \<Rightarrow> exec_action \<Rightarrow> string" where
  "summary_row lead a = lead @ ''|'' @ '' '' @ setw_left 32 (ea_name a) @ '' | '' @ setw_left 14 (ea_module a) @ '' | ''
     @ (if ea_result a then green else red) @ setw_left 14 (if ea_result a then ''PASS'' else ''FAIL'')
     @ plain_colour @ ''  '' @ ''|'' @ nl"

definition set_cli_options ::
  "('w, 'act) exec_env \<Rightarrow> ('w, 'act, action_result_t) solib \<Rightarrow> 'act \<Rightarrow> ('w, 'act, 'cb) exec \<Rightarrow> ('w, 'act, 'cb) exec" where
  "set_cli_options env lib act x =
     fold (\<lambda>(k, v) x. snd (set_prop env lib act (''cli.'' @ k) v x)) (x_options env) x"

definition x_destroy ::
  "('w, 'act) exec_env \<Rightarrow> ('w, 'act, action_result_t) action_t \<Rightarrow> ('w, 'act, 'cb) exec \<Rightarrow> ('w, 'act, 'cb) exec" where
  "x_destroy env pa x = snd (x_do (action_destroy (x_env env) pa) x)"

definition x_stopping :: "('w, 'act, 'cb) exec \<Rightarrow> bool" where
  "x_stopping x = Stopping (s_log (x_sys x))"

text \<open>
  The run of the library's action: the results it reports reach \<^verbatim>\<open>action_callback\<close>, in order, if a
  callback was set.
\<close>

definition run_action ::
  "('w, 'act, action_result_t) solib \<Rightarrow> 'act \<Rightarrow> ('w, 'act, 'cb) exec \<Rightarrow> int \<times> ('w, 'act, 'cb) exec" where
  "run_action lib act x =
     (let x = (if app_callback x \<noteq> None then snd (x_do (if1_callback_set lib act) x) else x);
          ((sts, results), x) = x_do (if1_run lib act) x;
          x = (if app_callback x \<noteq> None then fold (\<lambda>r x. exec_action_callback (Some r) True x) results x else x)
      in (sts, x))"

definition action_body ::
  "('w, 'act) exec_env \<Rightarrow> yaction \<Rightarrow> string \<Rightarrow> string \<Rightarrow> ('w, 'act, action_result_t) action_t \<Rightarrow> 'act
     \<Rightarrow> ('w, 'act, 'cb, step) cmd" where
  "action_body env a name rvsmodule pa act x =
     (let lib = a_lib pa; quiet_run = has_option (x_options env) ''-q'' in
      and_then (do_yaml_properties env lib act rvsmodule (ya_props a) x) (\<lambda>sts x.
        if sts \<noteq> 0 then (Ret (Leave sts), x_destroy env pa x)
        else
          let x = set_cli_options env lib act x;
              (sts, x) = run_action lib act x;
              info = \<lparr>ea_name = name, ea_module = map toupper rvsmodule, ea_result = (sts = 0)\<rparr>;
              x = (if quiet_run then x_print (summary_row cr info) x else x);
              x = x_destroy env pa x;
              x = (if sts \<noteq> 0 then
                     (let x = notify_failed (''action '' @ squoted name @ '' failed with error !'') x
                      in if \<not> quiet_run
                         then x\<lparr>x_sys := (x_sys x)\<lparr>s_log := snd (Err (Some ''Action failed to run successfully.'')
                                 (Some rvsmodule) (Some name) (s_log (x_sys x)))\<rparr>\<rparr>
                         else x)
                   else x)
          in (Ret Next, x\<lparr>action_details := action_details x @ [info]\<rparr>)))"

definition yaml_action :: "('w, 'act) exec_env \<Rightarrow> yaction \<Rightarrow> ('w, 'act, 'cb, step) cmd" where
  "yaml_action env a x =
     and_then (convert (ya_name a) x) (\<lambda>name x.
       let x = x_log env (''Action name :'' @ name) logresults x in
       if x_stopping x then
         (Ret (Leave (-1)), notify_failed (''action '' @ squoted name @ '' was requested to stop'') x)
       else
         let rvsmodule = (case ya_module a of Inr m \<Rightarrow> m | Inl _ \<Rightarrow> []) in
         if rvsmodule = [] then
           (let t = ''action '' @ squoted name @ '' does not specify module.''
            in (Ret (Leave (-1)), notify_failed t (x_err (buff1024 t) x)))
         else (case x_do (action_create (x_env env) rvsmodule) x of
             (None, x) \<Rightarrow>
               (let t = ''action '' @ squoted name @ '' could not create action object in module '' @ squoted rvsmodule
                in (Ret (Leave (-1)), notify_failed t (x_err (buff1024 t) x)))
           | (Some pa, x) \<Rightarrow>
               (case get_interface pa 1 of
                  Some (IF1, act) \<Rightarrow> action_body env a name rvsmodule pa act x
                | _ \<Rightarrow> (Ret (Leave (-1)),
                    notify_failed (''action '' @ squoted name @ '' could not obtain interface if1'')
                      (x_destroy env pa x)))))"

section \<open>The loops\<close>

fun actions_loop ::
  "('w, 'act) exec_env \<Rightarrow> string list \<times> int list \<Rightarrow> yaction list \<Rightarrow> int \<Rightarrow> ('w, 'act, 'cb, step) cmd" where
  "actions_loop env sel [] action_idx x = (Ret Next, x)"
| "actions_loop env sel (a # as) action_idx x =
     and_then
       (if has_selection sel
        then and_then (convert (ya_name a) x) (\<lambda>name x. (Ret (selected sel name action_idx), x))
        else (Ret True, x))
       (\<lambda>chosen x.
          if \<not> chosen then actions_loop env sel as (action_idx + 1) x
          else and_then (yaml_action env a x) (\<lambda>r x.
                 case r of Leave n \<Rightarrow> (Ret (Leave n), x)
                 | Next \<Rightarrow> actions_loop env sel as (action_idx + 1) x))"

text \<open>\<^verbatim>\<open>for (int i = 0; i < num_times; i++)\<close>.\<close>

fun times_loop ::
  "('w, 'act) exec_env \<Rightarrow> string list \<times> int list \<Rightarrow> yaction list \<Rightarrow> nat \<Rightarrow> ('w, 'act, 'cb, step) cmd" where
  "times_loop env sel as 0 x = (Ret Next, x)"
| "times_loop env sel as (Suc n) x =
     and_then (actions_loop env sel as 0 x) (\<lambda>r x.
       case r of Leave m \<Rightarrow> (Ret (Leave m), x) | Next \<Rightarrow> times_loop env sel as n x)"

section \<open>The whole run\<close>

definition table_title :: "string list" where
  "table_title = [table_line (CHR ''=''), title_line ''ROCm Validation Suite (RVS) Summary'', table_line (CHR ''='')]"

definition table_header :: "string list" where
  "table_header = [''|'' @ '' '' @ setw_left 32 ''Action Name'' @ '' | '' @ setw_left 14 ''Module'' @ '' | ''
       @ setw_left 14 ''Result'' @ ''  '' @ ''|'', table_line (CHR ''='')]"

definition x_print_lines :: "string list \<Rightarrow> ('w, 'act, 'cb) exec \<Rightarrow> ('w, 'act, 'cb) exec" where
  "x_print_lines ls x = x_print (concat (map (\<lambda>l. l @ nl) ls)) x"

text \<open>The overview fills the GPU tables again, reads the devices and prints its lines.\<close>

definition print_overview :: "('w, 'act) exec_env \<Rightarrow> ('w, 'act, 'cb, unit) cmd" where
  "print_overview env x =
     (let x = x\<lparr>x_gpus := gpulist_Initialize (x_garbage env) (x_smi_ids env) (x_nodes env) (x_gpus x)\<rparr> in
      case get_gpu_info (x_gpus x) (x_hip env) of
        None \<Rightarrow> (Undefined, x)
      | Some infos \<Rightarrow>
          (case systemOverview (x_versions env) infos of
             None \<Rightarrow> (Undefined, x)
           | Some (ls, ok) \<Rightarrow>
               (if ok then Ret () else Throw ''basic_string::_M_create'', x_print_lines ls x)))"

definition print_head :: "('w, 'act) exec_env \<Rightarrow> ('w, 'act, 'cb, unit) cmd" where
  "print_head env x =
     and_then (print_overview env (x_print_lines table_title x)) (\<lambda>_ x. (Ret (), x_print_lines table_header x))"

definition success_result :: rvs_results_t where
  "success_result = \<lparr>res_status = RVS_STATUS_SUCCESS, res_state = RVS_SESSION_STATE_COMPLETED,
     res_output_log = ''RVS session successfully completed.''\<rparr>"

text \<open>The last part, after the loops.\<close>

definition finish_yaml :: "('w, 'act) exec_env \<Rightarrow> ('w, 'act, 'cb, int) cmd" where
  "finish_yaml env x =
     and_then
       (if \<not> has_option (x_options env) ''-q'' then
          and_then (print_head env x) (\<lambda>_ x.
            (Ret (), x_print_lines [table_line (CHR ''-'')] (x_print (concat (map (summary_row []) (action_details x))) x)))
        else (Ret (), x_print_lines [table_line (CHR ''-'')] x))
       (\<lambda>_ x.
          if tojson_m (s_log (x_sys x)) \<and> \<not> s_lp_set (x_sys x) then (Undefined, x)
          else
            let x = (if tojson_m (s_log (x_sys x))
                     then x\<lparr>x_sys := (x_sys x)\<lparr>s_log := snd (JsonEndNodeCreate (e_os (x_env env)) (s_log (x_sys x)))\<rparr>\<rparr>
                     else x)
            in (Ret 0, callback_results success_result x))"

datatype yaml_data_type_t = YAML_FILE | YAML_STRING

definition do_yaml :: "('w, 'act) exec_env \<Rightarrow> yaml_data_type_t \<Rightarrow> string \<Rightarrow> ('w, 'act, 'cb, int) cmd" where
  "do_yaml env data_type data x =
     and_then (convert (case data_type of YAML_FILE \<Rightarrow> x_load_file env data | YAML_STRING \<Rightarrow> x_load_string env data) x)
       (\<lambda>config x.
          case config of
            None \<Rightarrow> (Ret (-1), x_err ''Invalid configuration file !'' x)
          | Some actions \<Rightarrow>
              and_then (if has_option (x_options env) ''-q'' then print_head env x else (Ret (), x)) (\<lambda>_ x.
                and_then (times_loop env (select_actions (x_options env)) actions (nat (num_times x)) x) (\<lambda>r x.
                  case r of Leave n \<Rightarrow> (Ret n, x) | Next \<Rightarrow> finish_yaml env x)))"

end
