(* ===== verification/Exec_Run.thy ===== *)
theory Exec_Run
  imports Exec_Yaml Rvs_Cli
begin

text \<open>
  The two executors of \<^verbatim>\<open>rvs/src/rvsexec.cpp\<close>: \<^verbatim>\<open>run()\<close>, which reads the command line options, and
  \<^verbatim>\<open>run(opt)\<close>, which the session interface calls, with the older \<^verbatim>\<open>do_yaml(config_file)\<close>,
  \<^verbatim>\<open>do_gpu_list\<close> and the \<^verbatim>\<open>main\<close> function of \<^verbatim>\<open>rvs/src/rvs.cpp\<close>.
\<close>

section \<open>The older loop\<close>

definition yaml_action_plain :: "('w, 'act) exec_env \<Rightarrow> yaction \<Rightarrow> ('w, 'act, 'cb, step) cmd" where
  "yaml_action_plain env a x =
     and_then (convert (ya_name a) x) (\<lambda>name x.
       let x = x_log env (''Action name :'' @ name) logresults x in
       if x_stopping x then (Ret (Leave (-1)), x)
       else
         let rvsmodule = (case ya_module a of Inr m \<Rightarrow> m | Inl _ \<Rightarrow> []) in
         if rvsmodule = [] then
           (Ret (Leave (-1)), x_err (buff1024 (''action '' @ squoted name @ '' does not specify module.'')) x)
         else (case x_do (action_create (x_env env) rvsmodule) x of
             (None, x) \<Rightarrow>
               (Ret (Leave (-1)), x_err (buff1024 (''action '' @ squoted name
                  @ '' could not create action object in module '' @ squoted rvsmodule)) x)
           | (Some pa, x) \<Rightarrow>
               (case get_interface pa 1 of
                  Some (IF1, act) \<Rightarrow>
                    and_then (do_yaml_properties env (a_lib pa) act rvsmodule (ya_props a) x) (\<lambda>sts x.
                      if sts \<noteq> 0 then (Ret (Leave sts), x_destroy env pa x)
                      else
                        let x = set_cli_options env (a_lib pa) act x;
                            (sts, x) = run_action (a_lib pa) act x;
                            x = x_destroy env pa x
                        in (Ret Next,
                            if sts \<noteq> 0
                            then x\<lparr>x_sys := (x_sys x)\<lparr>s_log := snd (Err (Some ''Action failed to run successfully.'')
                                   (Some rvsmodule) (Some name) (s_log (x_sys x)))\<rparr>\<rparr>
                            else x))
                | _ \<Rightarrow> (Ret (Leave (-1)), x_destroy env pa x))))"

fun actions_loop_plain ::
  "('w, 'act) exec_env \<Rightarrow> string list \<times> int list \<Rightarrow> yaction list \<Rightarrow> int \<Rightarrow> ('w, 'act, 'cb, step) cmd" where
  "actions_loop_plain env sel [] action_idx x = (Ret Next, x)"
| "actions_loop_plain env sel (a # as) action_idx x =
     and_then
       (if has_selection sel
        then and_then (convert (ya_name a) x) (\<lambda>name x. (Ret (selected sel name action_idx), x))
        else (Ret True, x))
       (\<lambda>chosen x.
          if \<not> chosen then actions_loop_plain env sel as (action_idx + 1) x
          else and_then (yaml_action_plain env a x) (\<lambda>r x.
                 case r of Leave n \<Rightarrow> (Ret (Leave n), x)
                 | Next \<Rightarrow> actions_loop_plain env sel as (action_idx + 1) x))"

fun times_loop_plain ::
  "('w, 'act) exec_env \<Rightarrow> string list \<times> int list \<Rightarrow> yaction list \<Rightarrow> nat \<Rightarrow> ('w, 'act, 'cb, int) cmd" where
  "times_loop_plain env sel as 0 x = (Ret 0, x)"
| "times_loop_plain env sel as (Suc n) x =
     and_then (actions_loop_plain env sel as 0 x) (\<lambda>r x.
       case r of Leave m \<Rightarrow> (Ret m, x) | Next \<Rightarrow> times_loop_plain env sel as n x)"

definition do_yaml_file :: "('w, 'act) exec_env \<Rightarrow> string \<Rightarrow> ('w, 'act, 'cb, int) cmd" where
  "do_yaml_file env config_file x =
     and_then (convert (x_load_file env config_file) x) (\<lambda>config x.
       case config of
         None \<Rightarrow> (Ret (-1), x_err ''Invalid configuration file !'' x)
       | Some actions \<Rightarrow>
           times_loop_plain env (select_actions (x_options env)) actions (nat (num_times x)) x)"

section \<open>Running with an option map\<close>

definition x_log_upd :: "(logger \<Rightarrow> logger) \<Rightarrow> ('w, 'act, 'cb) exec \<Rightarrow> ('w, 'act, 'cb) exec" where
  "x_log_upd f x = x\<lparr>x_sys := (x_sys x)\<lparr>s_log := f (s_log (x_sys x))\<rparr>\<rparr>"

definition x_terminate :: "('w, 'act) exec_env \<Rightarrow> ('w, 'act, 'cb) exec \<Rightarrow> ('w, 'act, 'cb) exec" where
  "x_terminate env x =
     x_log_upd (\<lambda>g. snd (terminate (e_os (x_env env)) g)) (snd (x_do module_terminate x))"

text \<open>\<^verbatim>\<open>try { sts = do_yaml(...) } catch (std::exception&)\<close> and what follows in both functions.\<close>

definition guarded_yaml :: "('w, 'act) exec_env \<Rightarrow> yaml_data_type_t \<Rightarrow> string \<Rightarrow> ('w, 'act, 'cb, int) cmd" where
  "guarded_yaml env data_type config x =
     (let (sts, x) =
        (case do_yaml env data_type config x of
           (Throw w, x) \<Rightarrow>
             (Ret (-999), x_err (buff1024 (''exception: '' @ w))
                            (x_err (buff1024 (''error processing configuration file: '' @ config)) x))
         | r \<Rightarrow> r)
      in and_then (sts, x) (\<lambda>sts x.
           let x = x_terminate env x in
           if sts \<noteq> 0 then (Ret sts, x)
           else if x_stopping x then (Ret (-1), x)
           else (Ret 0, x)))"

definition module_config_file :: "string list" where
  "module_config_file = [''babel.conf'', ''gpup_single.conf'', ''gst_single.conf'', ''iet_single.conf'', ''mem.conf'',
     ''pebb_single.conf'', ''peqt_single.conf'', ''pesm_1.conf'', ''pbqt_single.conf'', ''rcqt_single.conf'',
     ''smqt_single.conf'']"

definition module_map :: "(string \<times> nat) list" where
  "module_map = [(''babel'', 0), (''gpup'', 1), (''gst'', 2), (''iet'', 3), (''mem'', 4), (''pebb'', 5), (''peqt'', 6),
     (''pesm'', 7), (''pbqt'', 8), (''rcqt'', 9), (''smqt'', 10)]"

text \<open>
  The configuration the options name: its kind, its text, and the path later searches start from.
  \<open>Undefined\<close>: a module outside the table, or none of the three options.
\<close>

definition config_of_options ::
  "('w, 'act) exec_env \<Rightarrow> options \<Rightarrow> string \<Rightarrow> (int + yaml_data_type_t \<times> string \<times> string) outcome" where
  "config_of_options env opt path =
     (case om_find opt ''conf'' of
        Some config \<Rightarrow> Ret (Inr (YAML_FILE, config, path))
      | None \<Rightarrow>
          (case om_find opt ''module'' of
             Some module \<Rightarrow>
               (case map_of module_map module of
                  None \<Rightarrow> Undefined
                | Some module_index \<Rightarrow>
                    if 11 \<le> module_index then Ret (Inl (-1))
                    else
                      let conf = module_config_file ! module_index;
                          config = ''../share/rocm-validation-suite/conf/'' @ conf;
                          (path, config) =
                            (if x_file_good env (path @ config) then (path, config)
                             else if x_file_good env (path @ ''conf/'' @ conf) then (path, ''conf/'' @ conf)
                             else (x_data_root env, ''/conf/'' @ conf))
                      in Ret (Inr (YAML_FILE, path @ config, path)))
           | None \<Rightarrow>
               (case om_find opt ''yaml'' of
                  Some config \<Rightarrow> Ret (Inr (YAML_STRING, config, path))
                | None \<Rightarrow> Undefined)))"

definition modules_config_path :: "('w, 'act) exec_env \<Rightarrow> string \<Rightarrow> string" where
  "modules_config_path env path =
     (let val = path @ ''../share/rocm-validation-suite/conf/.rvsmodules.config'' in
      if x_file_good env val then val
      else let val = path @ ''.rvsmodules.config'' in
           if x_file_good env val then val else x_data_root env @ ''/conf/.rvsmodules.config'')"

definition exec_run_opt :: "('w, 'act) exec_env \<Rightarrow> options \<Rightarrow> ('w, 'act, 'cb, int) cmd" where
  "exec_run_opt env opt x =
     (let path = snd (has_option_val (x_options env) ''pwd'' []);
          x = x_log_upd (log_level logerror) x
      in case config_of_options env opt path of
           Undefined \<Rightarrow> (Undefined, x)
         | Throw w \<Rightarrow> (Throw w, x)
         | Ret (Inl r) \<Rightarrow> (Ret r, x)
         | Ret (Inr (data_type, config, path)) \<Rightarrow>
             if data_type = YAML_FILE \<and> \<not> x_file_good env config then
               (Ret (-1), x_err (buff1024 (config @ '' file is missing.'')) x)
             else
               and_then (x_do (module_initialize (x_modules_file env) (modules_config_path env path)) x) (\<lambda>r x.
                 if r \<noteq> 0 then (Ret 1, x) else guarded_yaml env data_type config x))"

section \<open>Running with the command line\<close>

definition do_version :: "('w, 'act) exec_env \<Rightarrow> ('w, 'act, 'cb) exec \<Rightarrow> ('w, 'act, 'cb) exec" where
  "do_version env x = x_print (v_rvs (x_versions env) @ nl) x"

definition do_gpu_list :: "('w, 'act) exec_env \<Rightarrow> ('w, 'act, 'cb) exec \<Rightarrow> int \<times> ('w, 'act, 'cb) exec" where
  "do_gpu_list env x =
     (let x = x_print (nl @ ''ROCm Validation Suite (version '' @ v_rvs (x_versions env) @ '')'' @ nl @ nl) x in
      case x_do (action_create (x_env env) ''pesm'') x of
        (None, x) \<Rightarrow> (1, x_err ''could not list GPUs.'' x)
      | (Some pa, x) \<Rightarrow>
          (case get_interface pa 1 of
             None \<Rightarrow> (1, x_destroy env pa (x_err ''could not obtain interface if1.'' x))
           | Some (_, act) \<Rightarrow>
               (let x = snd (set_prop env (a_lib pa) act ''name'' ''(launcher)'' x);
                    x = snd (set_prop env (a_lib pa) act ''do_gpu_list'' [] x);
                    x = set_cli_options env (a_lib pa) act x;
                    ((sts, _), x) = x_do (if1_run (a_lib pa) act) x
                in (sts, x_destroy env pa x))))"

text \<open>\<^verbatim>\<open>get_gpu_name\<close> of \<^verbatim>\<open>src/rvs_util.cpp\<close>.\<close>

definition get_gpu_name :: "('w, 'act) exec_env \<Rightarrow> ('w, 'act, 'cb) exec \<Rightarrow> string \<times> ('w, 'act, 'cb) exec" where
  "get_gpu_name env x =
     (let x = x\<lparr>x_gpus := gpulist_Initialize (x_garbage env) (x_smi_ids env) (x_nodes env) (x_gpus x)\<rparr>
      in (gpu_get_platform_name (x_power env) (x_gpus x), x))"

text \<open>The level of the options \<^verbatim>\<open>-d\<close> and \<^verbatim>\<open>-v\<close>.\<close>

definition option_d :: "('w, 'act) exec_env \<Rightarrow> ('w, 'act, 'cb) exec \<Rightarrow> bool \<times> ('w, 'act, 'cb) exec" where
  "option_d env x =
     (case has_option_val (x_options env) ''-d'' [] of (given, val) \<Rightarrow>
        if \<not> given then (True, x)
        else (case stoi val of
                Inl _ \<Rightarrow> (False, x_err (buff1024 (''logging level not integer: '' @ val)) x)
              | Inr (level, _) \<Rightarrow>
                  if level < 0 \<or> level > 5
                  then (False, x_err (buff1024 (''logging level not in range [0..5]: '' @ val)) x)
                  else (True, x_log_upd (log_level level) x)))"

text \<open>The file options \<^verbatim>\<open>-a\<close>, \<^verbatim>\<open>-l\<close>, \<^verbatim>\<open>-j\<close>; \<open>None\<close> is the overlong file name.\<close>

definition option_files :: "('w, 'act) exec_env \<Rightarrow> ('w, 'act, 'cb) exec \<Rightarrow> ('w, 'act, 'cb) exec option" where
  "option_files env x =
     (let opt = x_options env; os = e_os (x_env env);
          x = (if has_option opt ''-a'' then x_log_upd (set_append True) x else x);
          g = (case om_find opt ''-l'' of
                 None \<Rightarrow> Some (s_log (x_sys x))
               | Some f \<Rightarrow> set_log_file os f (s_log (x_sys x)))
      in map_option (\<lambda>g.
           let x = x_log_upd (\<lambda>_. g) x in
           case om_find opt ''-j'' of
             None \<Rightarrow> x
           | Some f \<Rightarrow> x_log_upd (set_json_log_file os f) (x_log_upd (to_json True) x)) g)"

text \<open>The option \<^verbatim>\<open>-r\<close>: a test level of the platform. \<open>Inl\<close> is the early return.\<close>

definition option_r ::
  "('w, 'act) exec_env \<Rightarrow> string \<Rightarrow> string \<Rightarrow> ('w, 'act, 'cb) exec \<Rightarrow> (int + string) \<times> ('w, 'act, 'cb) exec" where
  "option_r env path config_file x =
     (case has_option_val (x_options env) ''-r'' [] of (given, val) \<Rightarrow>
        if \<not> given then (Inr config_file, x)
        else
          let (name, x) = get_gpu_name env x in
          if \<not> list_ex (\<lambda>l. l = val) [''1'', ''2'', ''3'', ''4'', ''5''] then
            (Inl (-1), x_err ''Test level must be between 1 and 5 !'' x)
          else if name = [] then
            (Inl (-1), x_err ''No test levels support for the detected GPU or no GPU detected !'' x)
          else
            let file = name @ ''/levels/rvs_level_'' @ val @ ''.conf'';
                config = ''../share/rocm-validation-suite/conf/'' @ file;
                config = path @ (if x_file_good env (path @ config) then config else ''conf/'' @ file)
            in if \<not> x_file_good env config then (Inl (-1), x_err (buff1024 (config @ '' file is missing.'')) x)
               else (Inr config, x))"

definition module_config_map :: "(string \<times> string) list" where
  "module_config_map = [(''babel'', ''babel.conf''), (''gpup'', ''gpup_single.conf''), (''gst'', ''gst_single.conf''),
     (''iet'', ''iet_stress.conf''), (''mem'', ''mem.conf''), (''pebb'', ''pebb_single.conf''),
     (''peqt'', ''peqt_single.conf''), (''pbqt'', ''pbqt_single.conf''), (''rcqt'', ''rcqt_single.conf''),
     (''tst'', ''tst_single.conf'')]"

text \<open>The search over the candidate files: whether one was found, and the last name tried.\<close>

fun find_conf :: "('w, 'act) exec_env \<Rightarrow> string \<Rightarrow> string \<Rightarrow> string list \<Rightarrow> string \<Rightarrow> bool \<times> string" where
  "find_conf env path platform [] config_file = (False, config_file)"
| "find_conf env path platform (conf # confs) config_file =
     (let shared = ''../share/rocm-validation-suite/conf/'' @ platform @ ''/'' @ conf;
          config = path @ (if x_file_good env (path @ shared) then shared else ''conf/'' @ platform @ ''/'' @ conf)
      in if x_file_good env config then (True, config)
         else let config = path @ ''conf/'' @ conf in
              if x_file_good env config then (True, config) else find_conf env path platform confs config)"

definition option_m ::
  "('w, 'act) exec_env \<Rightarrow> string \<Rightarrow> string \<Rightarrow> ('w, 'act, 'cb) exec \<Rightarrow> (int + string) \<times> ('w, 'act, 'cb) exec" where
  "option_m env path config_file x =
     (case has_option_val (x_options env) ''-m'' [] of (given, module) \<Rightarrow>
        if \<not> given then (Inr config_file, x)
        else (case map_of module_config_map module of
                None \<Rightarrow> (Inl (-1), x_err (buff1024 (''Invalid module name: '' @ module)) x)
              | Some conf \<Rightarrow>
                  let (platform, x) = get_gpu_name env x in
                  if platform = [] then
                    (Inl (-1), x_err ''No platform support for the detected GPU or no GPU detected !'' x)
                  else
                    let confs = [conf] @ (if module = ''iet'' then [''iet_single.conf''] else []);
                        (found, config) = find_conf env path platform confs config_file
                    in if \<not> found then (Inl (-1), x_err (buff1024 (config @ '' file is missing.'')) x)
                       else (Inr config, x)))"

definition option_c ::
  "('w, 'act) exec_env \<Rightarrow> string \<Rightarrow> string \<Rightarrow> ('w, 'act, 'cb) exec \<Rightarrow> (int + string) \<times> ('w, 'act, 'cb) exec" where
  "option_c env path config_file x =
     (if has_option (x_options env) ''-r'' \<or> has_option (x_options env) ''-m'' then (Inr config_file, x)
      else
        let config = (case om_find (x_options env) ''-c'' of
                        Some v \<Rightarrow> v
                      | None \<Rightarrow>
                          path @ (if x_file_good env (path @ ''../share/rocm-validation-suite/conf/rvs.conf'')
                                  then ''../share/rocm-validation-suite/conf/rvs.conf'' else ''conf/rvs.conf''))
        in if \<not> x_file_good env config then (Inl (-1), x_err (buff1024 (config @ '' file is missing.'')) x)
           else (Inr config, x))"

definition option_n :: "('w, 'act) exec_env \<Rightarrow> ('w, 'act, 'cb) exec \<Rightarrow> bool \<times> ('w, 'act, 'cb) exec" where
  "option_n env x =
     (case has_option_val (x_options env) ''-n'' [] of (given, val) \<Rightarrow>
        if \<not> given then (True, x)
        else (case stoi val of
                Inl _ \<Rightarrow> (False, x_err (buff1024 (''number of times test repeat value not an integer: '' @ val)) x)
              | Inr (n, _) \<Rightarrow> (True, x\<lparr>num_times := n\<rparr>)))"

definition option_t :: "('w, 'act) exec_env \<Rightarrow> ('w, 'act, 'cb) exec \<Rightarrow> bool \<times> ('w, 'act, 'cb) exec" where
  "option_t env x =
     (case has_option_val (x_options env) ''-t'' [] of (given, val) \<Rightarrow>
        if \<not> given then (True, x)
        else (case stoll val of
                Inl _ \<Rightarrow> (False, x_err (buff1024 (''duration value not a valid integer: '' @ val)) x)
              | Inr (dur, _) \<Rightarrow>
                  if dur \<le> 0 then (False, x_err ''duration must be greater than 0'' x) else (True, x)))"

text \<open>The end of \<^verbatim>\<open>run()\<close>, with the configuration found and the options checked.\<close>

definition run_config :: "('w, 'act) exec_env \<Rightarrow> string \<Rightarrow> string \<Rightarrow> ('w, 'act, 'cb, int) cmd" where
  "run_config env path config_file x =
     (let opt = x_options env;
          shared = path @ ''../share/rocm-validation-suite/conf/.rvsmodules.config'';
          val = (if x_file_good env shared then shared else path @ ''.rvsmodules.config'')
      in and_then (x_do (module_initialize (x_modules_file env) val) x) (\<lambda>r x.
           if r \<noteq> 0 then (Ret 1, x)
           else if has_option opt ''--listTests'' then
             (let x = x_print (nl @ ''ROCm Validation Suite (version '' @ v_rvs (x_versions env) @ '')'' @ nl @ nl) x;
                  x = x_print (''Modules available:'' @ nl) x
              in (Ret 0, snd (x_do (\<lambda>s. ((), do_list_modules (x_env env) s)) x)))
           else
             let x = (if has_option opt ''-q'' then x_log_upd quiet x else x);
                 (bad, g) = init_log_file (e_os (x_env env)) (s_log (x_sys x));
                 x = x_log_upd (\<lambda>_. g) x
             in if bad \<noteq> 0 then
                  (Ret (-1), x_err (buff1024 (''could not access log file: '' @ snd (has_option_val opt ''-l'' []))) x)
                else if has_option opt ''-g'' then
                  (let (sts, x) = do_gpu_list env x in (Ret sts, x_terminate env x))
                else guarded_yaml env YAML_FILE config_file x))"

definition exec_run_cli :: "('w, 'act) exec_env \<Rightarrow> string \<Rightarrow> ('w, 'act, 'cb, int) cmd" where
  "exec_run_cli env help x =
     (let opt = x_options env; path = snd (has_option_val opt ''pwd'' []) in
      if has_option opt ''-h'' then (Ret 0, x_print help x)
      else
        let x = x_log_upd (log_level logerror) x in
        if has_option opt ''-ver'' then (Ret 0, do_version env x)
        else
          let (ok, x) = option_d env x in
          if \<not> ok then (Ret (-1), x)
          else
            let x = (if has_option opt ''-v'' then x_log_upd (log_level 5) x else x) in
            case option_files env x of
              None \<Rightarrow> (Undefined, x)
            | Some x \<Rightarrow>
                (case option_r env path [] x of
                   (Inl r, x) \<Rightarrow> (Ret r, x)
                 | (Inr config_file, x) \<Rightarrow>
                     (case option_m env path config_file x of
                        (Inl r, x) \<Rightarrow> (Ret r, x)
                      | (Inr config_file, x) \<Rightarrow>
                          (case option_c env path config_file x of
                             (Inl r, x) \<Rightarrow> (Ret r, x)
                           | (Inr config_file, x) \<Rightarrow>
                               let (ok, x) = option_n env x in
                               if \<not> ok then (Ret (-1), x)
                               else let (ok, x) = option_t env x in
                                    if \<not> ok then (Ret (-1), x) else run_config env path config_file x))))"

end
