(* ===== verification/Exec_Props.thy ===== *)
theory Exec_Props
  imports Exec_Run
begin

text \<open>
  Lemmas about the executors.  \<open>grows\<close> is the frame of every command: the callback is fixed, the
  calls of the callback are only extended, with results that say "in progress" or "completed", and
  the invariant of the module manager is kept.  On it rest the contract of the session interface
  and the facts about return codes, selection and the summary.
\<close>

section \<open>The frame of every command\<close>

definition sent :: "('w, 'act, 'cb) exec \<Rightarrow> 'cb \<times> nat \<times> rvs_results_t \<Rightarrow> bool" where
  "sent x c \<longleftrightarrow> app_callback x = Some (fst c) \<and> fst (snd c) = user_param x \<and> live_result (snd (snd c))"

definition grows :: "('w, 'act, 'cb) exec \<Rightarrow> ('w, 'act, 'cb) exec \<Rightarrow> bool" where
  "grows x y \<longleftrightarrow> app_callback y = app_callback x \<and> user_param y = user_param x \<and>
     (manager_ok (x_sys x) \<longrightarrow> manager_ok (x_sys y)) \<and>
     (\<exists>cs. x_calls y = x_calls x @ cs \<and> list_all (sent x) cs)"

named_theorems frame

lemma grows_refl [frame]: "grows x x"
  by (simp add: grows_def)

lemma grows_trans [trans]: "grows x y \<Longrightarrow> grows y z \<Longrightarrow> grows x z"
  by (auto simp: grows_def sent_def list_all_iff)

lemma grows_and_then:
  assumes "grows x (snd m)" and "\<And>a s. m = (Ret a, s) \<Longrightarrow> grows s (snd (k a s))"
  shows "grows x (snd (and_then m k))"
proof (cases m)
  case (Pair r s)
  then show ?thesis using assms grows_trans by (cases r) auto
qed

lemma manager_ok_log [simp]: "manager_ok (s\<lparr>s_log := g\<rparr>) = manager_ok s"
  by (simp add: manager_ok_def)

lemma manager_ok_world [simp]: "manager_ok (s\<lparr>s_world := w\<rparr>) = manager_ok s"
  by (simp add: manager_ok_def)

lemma grows_sys: "(manager_ok (x_sys x) \<Longrightarrow> manager_ok s) \<Longrightarrow> grows x (x\<lparr>x_sys := s\<rparr>)"
  by (simp add: grows_def)

lemma grows_do: "(manager_ok (x_sys x) \<Longrightarrow> manager_ok (snd (f (x_sys x)))) \<Longrightarrow> grows x (snd (x_do f x))"
  by (auto simp: x_do_def case_prod_beta intro: grows_sys)

lemma call_lib_ok: "manager_ok s \<Longrightarrow> manager_ok (snd (call_lib f s))"
  by (simp add: manager_ok_def)

lemma grows_simple [frame]:
  "grows x (x_err t x)" "grows x (x_log env t l x)" "grows x (x_print t x)" "grows x (x_print_lines ls x)"
  "grows x (x_log_upd f x)" "grows x (x\<lparr>x_gpus := g\<rparr>)" "grows x (x\<lparr>action_details := d\<rparr>)"
  "grows x (x\<lparr>num_times := n\<rparr>)"
  "grows x (x\<lparr>x_sys := (x_sys x)\<lparr>s_log := lg\<rparr>\<rparr>)"
  by (simp_all add: grows_def x_err_def err_def x_log_def x_print_def sys_print_def x_print_lines_def x_log_upd_def)

lemma grows_set_prop [frame]: "grows x (snd (set_prop env lib act k v x))"
  unfolding set_prop_def
  by (rule grows_do) (simp add: if1_property_set_def Let_def call_lib_ok)

lemma grows_lib_calls [frame]:
  "grows x (snd (x_do (if1_run lib act) x))" "grows x (snd (x_do (if1_callback_set lib act) x))"
  by (rule grows_do; simp add: if1_run_def if1_callback_set_def call_lib_ok)+

lemma grows_destroy [frame]: "grows x (x_destroy env pa x)"
  unfolding x_destroy_def by (rule grows_do) (rule action_destroy_ok)

lemma grows_create [frame]: "grows x (snd (x_do (action_create e n) x))"
  by (rule grows_do) (metis action_create_result(1) prod.collapse)

lemma grows_callback [frame]:
  "res_state r = RVS_SESSION_STATE_COMPLETED \<Longrightarrow> grows x (callback_results r x)"
  "grows x (notify_failed t x)"
  by (auto simp: grows_def callback_results_def notify_failed_def failed_result_def sent_def live_result_def
      split: option.splits)

lemma grows_action_callback [frame]: "grows x (exec_action_callback r b x)"
  by (auto simp: grows_def exec_action_callback_def callback_action_def sent_def live_result_def Let_def
      split: option.splits actionstatus.splits)

lemma grows_fold: "(\<And>a x. grows x (f a x)) \<Longrightarrow> grows x (fold f as x)"
  by (induction as arbitrary: x) (auto intro: frame grows_trans)

lemma grows_run_action [frame]:
  fixes x :: "('w, 'act, 'cb) exec"
  shows "grows x (snd (run_action lib act x))"
proof -
  let ?x1 = "if app_callback x \<noteq> None then snd (x_do (if1_callback_set lib act) x) else x"
  let ?x2 = "snd (x_do (if1_run lib act) ?x1)"
  let ?x3 = "if app_callback ?x2 \<noteq> None
    then fold (\<lambda>r x. exec_action_callback (Some r) True x) (snd (fst (x_do (if1_run lib act) ?x1))) ?x2 else ?x2"
  have g: "grows y (fold (\<lambda>r x. exec_action_callback (Some r) True x) rs y)"
    for y :: "('w, 'act, 'cb) exec" and rs
    by (rule grows_fold) (rule grows_action_callback)
  have "grows x ?x1" by (simp add: frame)
  also have "grows ?x1 ?x2" by (rule frame)
  also have "grows ?x2 ?x3" using g by (simp add: frame)
  finally show ?thesis by (simp only: run_action_def case_prod_beta Let_def snd_conv)
qed

lemma grows_cli_options [frame]: "grows x (set_cli_options env lib act x)"
  unfolding set_cli_options_def by (rule grows_fold) (auto intro: frame)

lemma snd_convert [simp]: "snd (convert v x) = x"
  by (simp add: convert_def split: sum.splits)

lemma grows_collection [frame]: "grows x (snd (do_yaml_properties_collection env lib act p kvs sts x))"
proof (induction env lib act p kvs sts x rule: do_yaml_properties_collection.induct)
  case (2 env lib act p k v kvs sts x)
  show ?case
    unfolding do_yaml_properties_collection.simps
    by (intro grows_and_then; simp add: frame case_prod_beta Let_def)
       (rule grows_trans [OF grows_set_prop "2.IH"]; (simp add: convert_def split: sum.splits | simp))
qed (simp add: frame)

lemma grows_convert [frame]: "grows x (snd (convert v x))"
  by (simp add: frame)

lemma convert_Ret: "convert v x = (Ret a, s) \<longleftrightarrow> v = Inr a \<and> s = x"
  by (auto simp: convert_def split: sum.splits)

lemma grows_set_device [frame]:
  fixes x :: "('w, 'act, 'cb) exec"
  shows "grows x (snd (set_device env lib act idx v x))"
proof (cases "str_split idx '' ''")
  case None
  then show ?thesis by (simp add: set_device_def frame)
next
  case (Some strs)
  let ?y = "snd (set_prop env lib act ''device_index'' idx x)"
  have two: "grows x (snd (and_then (convert w ?y) k))" if "\<And>val s. grows s (snd (k val s))"
    for w :: "string may_throw" and k :: "string \<Rightarrow> ('w, 'act, 'cb, int) cmd"
    by (rule grows_trans [OF grows_set_prop]) (rule grows_and_then [OF grows_convert that])
  show ?thesis
    by (simp add: set_device_def Some case_prod_beta Let_def two frame)
qed

lemma grows_props_loop [frame]:
  fixes x :: "('w, 'act, 'cb) exec"
  shows "grows x (snd (yaml_props_loop env lib act m idx ps sts x))"
proof (induction ps arbitrary: sts x)
  case (Cons p ps)
  show ?case
    unfolding yaml_props_loop.simps
  proof (intro grows_and_then grows_convert)
    fix key and s :: "('w, 'act, 'cb) exec"
    show "grows s (snd (if is_yaml_properties_collection m key
        then do_yaml_properties_collection env lib act key (p_children p) 0 s
        else if idx \<noteq> None \<and> key = ''device''
        then set_device env lib act (replace_char (CHR '','') (CHR '' '') (the idx)) (p_value p) s
        else and_then (convert (y_string (p_value p)) s) (\<lambda>val x.
               let (r, x) = set_prop env lib act key val x in (Ret r, x))))"
      using grows_and_then [of s "convert (y_string (p_value p)) s"
          "\<lambda>val x. let (r, x) = set_prop env lib act key val x in (Ret r, x)"]
      by (simp add: frame case_prod_beta)
    fix r and t :: "('w, 'act, 'cb) exec"
    show "grows t (snd (yaml_props_loop env lib act m idx ps (sts + r) t))" by (rule Cons.IH)
  qed
qed (simp add: frame)

lemma grows_if [frame]:
  "grows x a \<Longrightarrow> grows x b \<Longrightarrow> grows x (if c then a else b)"
  "grows x (snd p) \<Longrightarrow> grows x (snd q) \<Longrightarrow> grows x (snd (if c then p else q))"
  by simp_all

lemma grows_properties [frame]:
  fixes x :: "('w, 'act, 'cb) exec"
  shows "grows x (snd (do_yaml_properties env lib act m props x))"
  unfolding do_yaml_properties_def Let_def
proof (rule grows_trans [OF grows_simple(2) [of x env "''Module name :'' @ m" logresults]],
    rule grows_and_then, goal_cases)
  case 1
  then show ?case by (rule frame)
next
  case (2 sts s)
  show ?case (is "grows s (snd (case ?p of (sts, x) \<Rightarrow> ?k sts x))")
  proof (rule grows_trans [of s "snd ?p"])
    show "grows s (snd ?p)"
      by (cases "has_option_val (x_options env) ''-p'' []") (simp add: case_prod_beta frame)
    show "grows (snd ?p) (snd (case ?p of (sts, x) \<Rightarrow> ?k sts x))"
      by (cases ?p; cases "has_option_val (x_options env) ''-t'' []")
         (simp add: case_prod_beta frame split: sum.splits)
  qed
qed

lemma grows_body [frame]:
  fixes x :: "('w, 'act, 'cb) exec"
  shows "grows x (snd (action_body env a name m pa act x))"
  unfolding action_body_def Let_def
proof (rule grows_and_then, goal_cases)
  case 1
  then show ?case by (rule frame)
next
  case (2 sts s)
  let ?o = "set_cli_options env (a_lib pa) act s"
  let ?r = "snd (run_action (a_lib pa) act ?o)"
  have r: "grows s ?r" by (rule grows_trans [OF grows_cli_options grows_run_action])
  have p: "grows s (x_destroy env pa (if q then x_print t ?r else ?r))" for q t
    by (rule grows_trans [OF r], rule grows_trans [OF _ grows_destroy]) (simp add: frame)
  have f: "grows s ((notify_failed t y)\<lparr>x_sys := (x_sys (notify_failed t y))\<lparr>s_log := lg\<rparr>\<rparr>)" if "grows s y" for t y lg
    by (rule grows_trans [OF that], rule grows_trans [OF grows_callback(2)]) (rule frame)
  have f': "grows s (notify_failed t y)" if "grows s y" for t y
    by (rule grows_trans [OF that grows_callback(2)])
  have d: "grows s (y\<lparr>action_details := ds\<rparr>)" if "grows s y" for y ds
    by (rule grows_trans [OF that]) (rule frame)
  show ?case
    by (simp only: case_prod_beta snd_conv if_distrib [of snd] grows_if(1) frame d f f' p)
qed

lemma grows_after: "grows x y \<Longrightarrow> (\<And>z. grows z (f z)) \<Longrightarrow> grows x (f y)"
  by (blast intro: grows_trans)

lemma grows_action [frame]:
  fixes x :: "('w, 'act, 'cb) exec"
  shows "grows x (snd (yaml_action env a x))"
  unfolding yaml_action_def Let_def
proof (rule grows_and_then [OF grows_convert])
  fix name and s :: "('w, 'act, 'cb) exec"
  let ?l = "x_log env (''Action name :'' @ name) logresults s"
  let ?m = "case ya_module a of Inl x \<Rightarrow> [] | Inr m \<Rightarrow> m"
  let ?c = "x_do (action_create (x_env env) ?m) ?l"
  have l: "grows s ?l" by (rule frame)
  have c: "grows s (snd ?c)" by (rule grows_trans [OF l grows_create])
  have n: "grows s (notify_failed t y)" if "grows s y" for t y by (rule grows_trans [OF that grows_callback(2)])
  have e: "grows s (x_err t y)" if "grows s y" for t y by (rule grows_trans [OF that grows_simple(1)])
  have d: "grows s (x_destroy env pa y)" if "grows s y" for pa y by (rule grows_trans [OF that grows_destroy])
  have b: "grows s (snd (action_body env a name m pa act y))" if "grows s y" for m pa act y
    by (rule grows_trans [OF that grows_body])
  show "grows s (snd (if x_stopping ?l
      then (Ret (Leave (- 1)), notify_failed (''action '' @ squoted name @ '' was requested to stop'') ?l)
      else if ?m = []
        then (Ret (Leave (- 1)), notify_failed (''action '' @ squoted name @ '' does not specify module.'')
                (x_err (buff1024 (''action '' @ squoted name @ '' does not specify module.'')) ?l))
        else case ?c of
            (None, x) \<Rightarrow> (Ret (Leave (- 1)), notify_failed
              (''action '' @ squoted name @ '' could not create action object in module '' @ squoted ?m)
              (x_err (buff1024 (''action '' @ squoted name @ '' could not create action object in module '' @ squoted ?m)) x))
          | (Some pa, x) \<Rightarrow>
              (case get_interface pa 1 of
                 Some (IF1, act) \<Rightarrow> action_body env a name ?m pa act x
               | _ \<Rightarrow> (Ret (Leave (- 1)),
                   notify_failed (''action '' @ squoted name @ '' could not obtain interface if1'') (x_destroy env pa x)))))"
    using l c by (cases ?c) (auto split: option.splits ifkind.splits intro!: n e d b)
qed

lemma grows_actions_loop [frame]:
  fixes x :: "('w, 'act, 'cb) exec"
  shows "grows x (snd (actions_loop env sel as i x))"
proof (induction as arbitrary: i x)
  case (Cons a as)
  show ?case
    unfolding actions_loop.simps
  proof (intro grows_and_then grows_if grows_convert grows_action)
    fix n and s :: "('w, 'act, 'cb) exec"
    show "grows s (snd (Ret (selected sel n i), s))" by (simp add: frame)
  next
    fix c and s :: "('w, 'act, 'cb) exec"
    show "grows s (snd (actions_loop env sel as (i + 1) s))" by (rule Cons.IH)
  next
    fix r and s :: "('w, 'act, 'cb) exec"
    show "grows s (snd (case r of Next \<Rightarrow> actions_loop env sel as (i + 1) s | Leave n \<Rightarrow> (Ret (Leave n), s)))"
      by (cases r) (simp_all add: Cons.IH frame)
  qed (simp add: frame)
qed (simp add: frame)

lemma grows_times_loop [frame]:
  fixes x :: "('w, 'act, 'cb) exec"
  shows "grows x (snd (times_loop env sel as n x))"
proof (induction n arbitrary: x)
  case (Suc n)
  show ?case
    unfolding times_loop.simps
  proof (rule grows_and_then [OF grows_actions_loop])
    fix r and s :: "('w, 'act, 'cb) exec"
    show "grows s (snd (case r of Next \<Rightarrow> times_loop env sel as n s | Leave m \<Rightarrow> (Ret (Leave m), s)))"
      by (cases r) (simp_all add: Suc.IH frame)
  qed
qed (simp add: frame)

lemma grows_head [frame]:
  fixes x :: "('w, 'act, 'cb) exec"
  shows "grows x (snd (print_head env x))"
proof -
  have o: "grows y (snd (print_overview env y))" for y :: "('w, 'act, 'cb) exec"
    unfolding print_overview_def Let_def
    by (auto simp: frame split: option.splits intro: grows_trans [OF grows_simple(6) grows_simple(4)])
  show ?thesis
    unfolding print_head_def
    by (rule grows_and_then) (use o in \<open>auto intro: frame grows_trans\<close>)
qed

lemma grows_finish [frame]:
  fixes x :: "('w, 'act, 'cb) exec"
  shows "grows x (snd (finish_yaml env x))"
  unfolding finish_yaml_def
proof (rule grows_and_then)
  show "grows x (snd (if \<not> has_option (x_options env) ''-q''
      then and_then (print_head env x) (\<lambda>_ x. (Ret (), x_print_lines [table_line CHR ''-'']
             (x_print (concat (map (summary_row []) (action_details x))) x)))
      else (Ret (), x_print_lines [table_line CHR ''-''] x)))"
    by (intro grows_if grows_and_then grows_head) (auto intro: frame grows_trans)
next
  fix u and s :: "('w, 'act, 'cb) exec"
  have "grows s (callback_results success_result y)" if "grows s y" for y
    by (rule grows_trans [OF that grows_callback(1)]) (simp add: success_result_def)
  then show "grows s (snd (if tojson_m (s_log (x_sys s)) \<and> \<not> s_lp_set (x_sys s) then (Undefined, s)
      else let x = if tojson_m (s_log (x_sys s))
                   then s\<lparr>x_sys := (x_sys s)\<lparr>s_log := snd (JsonEndNodeCreate (e_os (x_env env)) (s_log (x_sys s)))\<rparr>\<rparr>
                   else s
           in (Ret 0, callback_results success_result x)))"
    by (simp add: Let_def frame)
qed

lemma grows_yaml [frame]:
  fixes x :: "('w, 'act, 'cb) exec"
  shows "grows x (snd (do_yaml env t data x))"
  unfolding do_yaml_def
proof (rule grows_and_then [OF grows_convert])
  fix config and s :: "('w, 'act, 'cb) exec"
  have loops: "grows y (snd (and_then (times_loop env (select_actions (x_options env)) as (nat (num_times y)) y)
      (\<lambda>r x. case r of Leave n \<Rightarrow> (Ret n, x) | Next \<Rightarrow> finish_yaml env x)))" for as and y :: "('w, 'act, 'cb) exec"
    by (rule grows_and_then [OF grows_times_loop]) (auto simp: frame split: step.splits)
  show "grows s (snd (case config of None \<Rightarrow> (Ret (- 1), x_err ''Invalid configuration file !'' s)
      | Some actions \<Rightarrow> and_then (if has_option (x_options env) ''-q'' then print_head env s else (Ret (), s)) (\<lambda>_ x.
          and_then (times_loop env (select_actions (x_options env)) actions (nat (num_times x)) x) (\<lambda>r x.
            case r of Leave n \<Rightarrow> (Ret n, x) | Next \<Rightarrow> finish_yaml env x))))"
    by (cases config) (auto simp: frame intro!: grows_and_then grows_if loops)
qed

lemma grows_terminate [frame]: "grows x (x_terminate env x)"
  unfolding x_terminate_def
  by (rule grows_trans [OF grows_do grows_simple(5)]) (simp add: module_terminate_ok)

lemma grows_guarded [frame]:
  fixes x :: "('w, 'act, 'cb) exec"
  shows "grows x (snd (guarded_yaml env t config x))"
proof -
  obtain r y where d: "do_yaml env t config x = (r, y)" by fastforce
  have y: "grows x y" using grows_yaml [of x env t config] d by simp
  have e: "grows x (x_err u (x_err v y))" for u v by (rule grows_after, rule grows_after [OF y]) (rule frame)+
  have t: "grows x (x_terminate env z)" if "grows x z" for z :: "('w, 'act, 'cb) exec"
    by (rule grows_after [OF that]) (rule frame)
  show ?thesis
    by (cases r) (simp_all add: guarded_yaml_def d Let_def t e y)
qed

lemma grows_module_initialize [frame]: "grows x (snd (x_do (module_initialize fs f) x))"
  by (rule grows_do) (rule module_initialize_ok)

lemma grows_run_opt [frame]:
  fixes x :: "('w, 'act, 'cb) exec"
  shows "grows x (snd (exec_run_opt env opt x))"
proof -
  let ?path = "snd (has_option_val (x_options env) ''pwd'' [])"
  let ?x = "x_log_upd (log_level logerror) x"
  have x: "grows x ?x" by (rule frame)
  have k: "grows x (snd (and_then (x_do (module_initialize (x_modules_file env) f) ?x)
      (\<lambda>r x. if r \<noteq> 0 then (Ret 1, x) else guarded_yaml env t config x)))" for f t config
    by (rule grows_trans [OF x], rule grows_and_then [OF grows_module_initialize]) (simp add: frame)
  have e: "grows x (x_err u ?x)" for u by (rule grows_trans [OF x]) (rule frame)
  show ?thesis
    unfolding exec_run_opt_def Let_def
    by (auto split: outcome.splits sum.splits simp: x e k)
qed

section \<open>Successful runs\<close>

text \<open>The body of the loop never leaves the function with code 0.\<close>

lemma and_then_eq: "and_then m k = (Ret b, y) \<longleftrightarrow> (\<exists>a s. m = (Ret a, s) \<and> k a s = (Ret b, y))"
  by (cases "(m, k)" rule: and_then.cases) auto

definition leaves_bad :: "step outcome \<times> 's \<Rightarrow> bool" where
  "leaves_bad m \<longleftrightarrow> fst m \<noteq> Ret (Leave 0)"

lemma leaves_and_then: "(\<And>a s. m = (Ret a, s) \<Longrightarrow> leaves_bad (k a s)) \<Longrightarrow> leaves_bad (and_then m k)"
  by (cases "(m, k)" rule: and_then.cases) (auto simp: leaves_bad_def)

lemma leaves_simps [simp]: "leaves_bad (Ret Next, s)" "leaves_bad (Ret (Leave c), s) \<longleftrightarrow> c \<noteq> 0"
  by (simp_all add: leaves_bad_def)

lemma body_leaves: "leaves_bad (action_body env a n m pa act x)"
  unfolding action_body_def Let_def by (rule leaves_and_then) (simp add: case_prod_beta)

lemma action_leaves: "leaves_bad (yaml_action env a x)"
  unfolding yaml_action_def Let_def
  by (rule leaves_and_then) (auto simp: body_leaves split: prod.splits option.splits ifkind.splits)

lemma actions_leave:
  fixes x :: "('w, 'act, 'cb) exec"
  shows "leaves_bad (actions_loop env sel as i x)"
proof (induction as arbitrary: i x)
  case (Cons a as)
  have k: "leaves_bad (and_then (yaml_action env a s) (\<lambda>r x.
      case r of Leave n \<Rightarrow> (Ret (Leave n), x) | Next \<Rightarrow> actions_loop env sel as (i + 1) x))"
    for s :: "('w, 'act, 'cb) exec"
    using action_leaves [of env a s]
    by (intro leaves_and_then) (auto simp: Cons.IH Cons.IH [unfolded leaves_bad_def] leaves_bad_def split: step.splits)
  show ?case unfolding actions_loop.simps by (rule leaves_and_then) (simp add: k Cons.IH)
qed simp

lemma times_leave: "leaves_bad (times_loop env sel as n x)"
proof (induction n arbitrary: x)
  case (Suc n)
  show ?case
    unfolding times_loop.simps using actions_leave [of env sel as 0 x]
    by (intro leaves_and_then) (auto simp: Suc.IH Suc.IH [unfolded leaves_bad_def] leaves_bad_def split: step.splits)
qed simp

text \<open>So the code 0 comes from the end of the function, whose last act is the closing result.\<close>

lemma yaml_zero:
  assumes "do_yaml env t data x = (Ret 0, y)"
  shows "\<exists>z. app_callback z = app_callback x \<and> user_param z = user_param x \<and>
    (\<exists>cs. x_calls z = x_calls x @ cs) \<and> y = callback_results success_result z"
proof -
  obtain config where c: "
      (case config of
         None \<Rightarrow> (Ret (-1), x_err ''Invalid configuration file !'' x)
       | Some actions \<Rightarrow>
           and_then (if has_option (x_options env) ''-q'' then print_head env x else (Ret (), x)) (\<lambda>_ x.
             and_then (times_loop env (select_actions (x_options env)) actions (nat (num_times x)) x) (\<lambda>r x.
               case r of Leave n \<Rightarrow> (Ret n, x) | Next \<Rightarrow> finish_yaml env x))) = (Ret 0, y)"
    using assms unfolding do_yaml_def and_then_eq convert_Ret by blast
  obtain actions where "config = Some actions" using c by (cases config) auto
  with c have "and_then (if has_option (x_options env) ''-q'' then print_head env x else (Ret (), x)) (\<lambda>_ x.
      and_then (times_loop env (select_actions (x_options env)) actions (nat (num_times x)) x) (\<lambda>r x.
        case r of Leave n \<Rightarrow> (Ret n, x) | Next \<Rightarrow> finish_yaml env x)) = (Ret 0, y)" by simp
  then obtain x1 r x2 where
    h: "(if has_option (x_options env) ''-q'' then print_head env x else (Ret (), x)) = (Ret (), x1)"
    and l: "times_loop env (select_actions (x_options env)) actions (nat (num_times x1)) x1 = (Ret r, x2)"
    and r: "(case r of Leave n \<Rightarrow> (Ret n, x2) | Next \<Rightarrow> finish_yaml env x2) = (Ret 0, y)"
    unfolding and_then_eq by auto
  have "r \<noteq> Leave 0" using times_leave [of env "select_actions (x_options env)" actions "nat (num_times x1)" x1] l
    by (simp add: leaves_bad_def)
  with r have f: "finish_yaml env x2 = (Ret 0, y)" by (cases r) auto
  have g1: "grows x x1" using h grows_head [of x env] by (metis grows_refl prod.inject snd_conv)
  have g2: "grows x1 x2" using l grows_times_loop [of x1 env] by (metis snd_conv)
  let ?p = "if \<not> has_option (x_options env) ''-q'' then
          and_then (print_head env x2) (\<lambda>_ x.
            (Ret (), x_print_lines [table_line (CHR ''-'')] (x_print (concat (map (summary_row []) (action_details x))) x)))
        else (Ret (), x_print_lines [table_line (CHR ''-'')] x2)"
  obtain x3 where p: "?p = (Ret (), x3)" and k: "\<exists>z. grows x3 z \<and> y = callback_results success_result z"
    using f unfolding finish_yaml_def and_then_eq Let_def by (auto split: if_splits intro: frame)
  have "grows x2 (snd ?p)"
    by (intro grows_if grows_and_then grows_head) (auto intro: frame grows_trans)
  then have g3: "grows x2 x3" by (simp only: p snd_conv)
  obtain z where z: "grows x3 z" "y = callback_results success_result z" using k by auto
  have "grows x z" using g1 g2 g3 z(1) by (blast intro: grows_trans)
  then show ?thesis using z(2) by (auto simp: grows_def)
qed

lemma terminate_calls [simp]: "x_calls (x_terminate env x) = x_calls x"
  by (simp add: x_terminate_def x_log_upd_def x_do_def case_prod_beta)

lemma guarded_zero:
  assumes "guarded_yaml env t config x = (Ret 0, y)" and "app_callback x = Some cb"
  shows "\<exists>cs. x_calls y = x_calls x @ cs @ [(cb, user_param x, success_result)]"
proof -
  obtain r z where d: "do_yaml env t config x = (r, z)" by fastforce
  have "r = Ret 0 \<and> y = x_terminate env z"
    using assms(1) by (cases r) (auto simp: guarded_yaml_def d Let_def split: if_splits)
  then obtain w where w: "app_callback w = app_callback x" "user_param w = user_param x"
      "\<exists>cs. x_calls w = x_calls x @ cs" "z = callback_results success_result w" and y: "y = x_terminate env z"
    using yaml_zero d by blast
  then show ?thesis using assms(2) by (auto simp: callback_results_def)
qed

lemma run_opt_zero:
  assumes "exec_run_opt env opt x = (Ret 0, y)" and "app_callback x = Some cb"
  shows "\<exists>cs. x_calls y = x_calls x @ cs @ [(cb, user_param x, success_result)]"
proof -
  let ?path = "snd (has_option_val (x_options env) ''pwd'' [])"
  let ?x = "x_log_upd (log_level logerror) x"
  have x: "app_callback ?x = Some cb" "user_param ?x = user_param x" "x_calls ?x = x_calls x"
    using assms(2) by (simp_all add: x_log_upd_def)
  have neg: "config_of_options env opt ?path \<noteq> Ret (Inl 0)"
    by (auto simp: config_of_options_def Let_def split: option.splits if_splits)
  obtain t config path where c: "config_of_options env opt ?path = Ret (Inr (t, config, path))"
    and k: "and_then (x_do (module_initialize (x_modules_file env) (modules_config_path env path)) ?x)
      (\<lambda>r x. if r \<noteq> 0 then (Ret 1, x) else guarded_yaml env t config x) = (Ret 0, y)"
    using assms(1) neg
    by (auto simp: exec_run_opt_def Let_def split: outcome.splits sum.splits if_splits)
  then obtain r z where m: "x_do (module_initialize (x_modules_file env) (modules_config_path env path)) ?x = (Ret r, z)"
    and g: "guarded_yaml env t config z = (Ret 0, y)"
    by (auto simp: and_then_eq split: if_splits)
  have "app_callback z = app_callback ?x \<and> user_param z = user_param ?x \<and> x_calls z = x_calls ?x"
    using m by (auto simp: x_do_def split: prod.splits)
  then show ?thesis using guarded_zero [OF g] x by simp
qed

section \<open>The executor behind the session interface\<close>

text \<open>
  What \<^verbatim>\<open>rvs_session_execute\<close> does with its executor: it registers its own callback with the id of
  the session, and runs.  The results are the calls made meanwhile.
\<close>

definition session_run :: "('w, 'act) exec_env \<Rightarrow> 'cb \<Rightarrow> nat \<Rightarrow> ('w, 'act, 'cb) exec exec_run" where
  "session_run env cb sid x opt =
     (let x = snd (set_callback (Some cb) sid x);
          (r, y) = exec_run_opt env opt x
      in (case r of Ret rc \<Rightarrow> Some rc | _ \<Rightarrow> None,
          map (\<lambda>(_, _, res). res) (drop (length (x_calls x)) (x_calls y)), y))"

lemma session_run_results:
  assumes "session_run env cb sid x opt = (rc, rs, y)"
  shows "list_all live_result rs" and "rc = Some 0 \<Longrightarrow> rs \<noteq> [] \<and> last rs = success_result"
proof -
  let ?x = "snd (set_callback (Some cb) sid x)"
  obtain r z where d: "exec_run_opt env opt ?x = (r, z)" by fastforce
  have cb: "app_callback ?x = Some cb" by (simp add: set_callback_def)
  from assms d have rs: "rc = (case r of Ret rc \<Rightarrow> Some rc | _ \<Rightarrow> None)"
      "rs = map (\<lambda>(_, _, res). res) (drop (length (x_calls ?x)) (x_calls z))"
    by (auto simp: session_run_def Let_def)
  have "grows ?x z" using grows_run_opt [of ?x env opt] d by simp
  then show "list_all live_result rs"
    by (auto simp: grows_def rs(2) list_all_iff sent_def case_prod_beta)
  show "rs \<noteq> [] \<and> last rs = success_result" if "rc = Some 0"
  proof -
    have "r = Ret 0" using rs(1) that by (auto split: outcome.splits)
    with run_opt_zero [of env opt ?x z cb] d cb
    obtain cs where "x_calls z = x_calls ?x @ cs @ [(cb, user_param ?x, success_result)]" by auto
    then show ?thesis by (simp add: rs(2))
  qed
qed

interpretation rvs_exec: executor "exec_new s g" "session_run env cb sid" for s g env cb sid
proof unfold_locales
  show "list_all live_result rs" if "session_run env cb sid e opt = (rc, rs, e')" for e opt rc rs e'
    by (rule session_run_results(1) [OF that])
  show "rs \<noteq> [] \<and> res_state (last rs) = RVS_SESSION_STATE_COMPLETED"
    if "session_run env cb sid e opt = (Some 0, rs, e')" for e opt rs e'
    using session_run_results(2) [OF that] by (simp add: success_result_def)
qed

end
