(* ===== verification/Module_Lib.thy ===== *)
theory Module_Lib
  imports Module_Manager Action_Base Gpu_List
begin

text \<open>
  The exported functions of a module library, as \<^verbatim>\<open>gst.so/src/rvs_module.cpp\<close> has them (the other
  modules have the same file with other texts): actions are objects of a heap, reached by address,
  and every call is forwarded to \<^verbatim>\<open>rvs::actionbase\<close>.  What an action's \<^verbatim>\<open>run\<close> does is an argument.
  The locale \<open>property_module\<close> states what the launcher relies on when it sets properties, with
  the lemma about a sequence of settings; the module's functions interpret it.
\<close>

record ('cb, 'up) module_world =
  mw_next :: nat
  mw_actions :: "nat \<Rightarrow> ('cb, 'up) actionbase option"
  mw_gpus :: gpulist

type_synonym ('cb, 'up) module_op = "('cb, 'up) module_world \<times> logger"

definition rvs_module_has_interface :: "int \<Rightarrow> bool" where
  "rvs_module_has_interface iid \<longleftrightarrow> iid = 0 \<or> iid = 1"

definition rvs_module_init ::
  "(gpulist \<Rightarrow> gpulist) \<Rightarrow> ('cb, 'up) module_op \<Rightarrow> int \<times> ('cb, 'up) module_op" where
  "rvs_module_init fill st = (case st of (w, g) \<Rightarrow> (0, w\<lparr>mw_gpus := fill (mw_gpus w)\<rparr>, g))"

definition rvs_module_terminate :: "('cb, 'up) module_op \<Rightarrow> int \<times> ('cb, 'up) module_op" where
  "rvs_module_terminate st = (0, st)"

definition rvs_module_action_create ::
  "('cb, 'up) actionbase \<Rightarrow> ('cb, 'up) module_op \<Rightarrow> nat option \<times> ('cb, 'up) module_op" where
  "rvs_module_action_create raw st =
     (case st of (w, g) \<Rightarrow>
        (Some (mw_next w),
         w\<lparr>mw_next := Suc (mw_next w), mw_actions := (mw_actions w)(mw_next w \<mapsto> actionbase_new raw)\<rparr>, g))"

definition rvs_module_action_destroy :: "nat \<Rightarrow> ('cb, 'up) module_op \<Rightarrow> int \<times> ('cb, 'up) module_op" where
  "rvs_module_action_destroy act st =
     (case st of (w, g) \<Rightarrow> (0, w\<lparr>mw_actions := (mw_actions w)(act := None)\<rparr>, g))"

text \<open>A call on a destroyed action is undefined; here it changes nothing.\<close>

definition rvs_module_action_property_set ::
  "nat \<Rightarrow> string \<Rightarrow> string \<Rightarrow> ('cb, 'up) module_op \<Rightarrow> int \<times> ('cb, 'up) module_op" where
  "rvs_module_action_property_set act Key Val st =
     (case st of (w, g) \<Rightarrow>
        (case mw_actions w act of
           None \<Rightarrow> (0, w, g)
         | Some a \<Rightarrow> (let (r, a) = property_set a Key Val in (r, w\<lparr>mw_actions := (mw_actions w)(act \<mapsto> a)\<rparr>, g))))"

definition rvs_module_action_callback_set ::
  "'cb \<Rightarrow> 'up \<Rightarrow> nat \<Rightarrow> ('cb, 'up) module_op \<Rightarrow> int \<times> ('cb, 'up) module_op" where
  "rvs_module_action_callback_set cb up act st =
     (case st of (w, g) \<Rightarrow>
        (case mw_actions w act of
           None \<Rightarrow> (0, w, g)
         | Some a \<Rightarrow>
             (let (r, a) = callback_set a (Some cb) (Some up) in (r, w\<lparr>mw_actions := (mw_actions w)(act \<mapsto> a)\<rparr>, g))))"

definition exported :: "string list" where
  "exported = global_methods @ if0_methods @ if1_methods"

definition gst_module ::
  "(gpulist \<Rightarrow> gpulist) \<Rightarrow> ('cb, 'up) actionbase \<Rightarrow> 'cb \<Rightarrow> 'up
     \<Rightarrow> (nat \<Rightarrow> (('cb, 'up) module_world, int \<times> action_result_t list) lib_op)
     \<Rightarrow> (('cb, 'up) module_world, nat, action_result_t) solib" where
  "gst_module fill raw cb up run =
     \<lparr>so_sym = (\<lambda>n. n \<in> set exported), so_has_interface = rvs_module_has_interface,
      so_init = rvs_module_init fill, so_terminate = rvs_module_terminate,
      so_action_create = rvs_module_action_create raw, so_action_destroy = rvs_module_action_destroy,
      so_description = ''The GPU Stress Test runs various GEMM operations as workloads to stress the GPU FLOPS performance.'',
      so_config = ''target_stress (float), copy_matrix (bool), ramp_interval (int), tolerance (float), max_violations (int), ''
        @ nl @ [CHR 0x09] @ ''log_interval (int), matrix_size (int)'',
      so_output = ''pass (bool)'',
      so_property_set = rvs_module_action_property_set,
      so_callback_set = rvs_module_action_callback_set cb up,
      so_run = run\<rparr>"

section \<open>The contract of the property functions\<close>

locale property_module =
  fixes lib :: "('w, 'act, action_result_t) solib" and act :: 'act
    and alive :: "'w \<Rightarrow> bool" and look :: "'w \<Rightarrow> string \<Rightarrow> string option"
  assumes set_code: "alive w \<Longrightarrow> fst (so_property_set lib act k v (w, g)) = 0"
    and set_look: "alive w \<Longrightarrow> look (fst (snd (so_property_set lib act k v (w, g)))) = (look w)(k \<mapsto> v)"
    and set_alive: "alive w \<Longrightarrow> alive (fst (snd (so_property_set lib act k v (w, g))))"
begin

lemma call_property_set:
  assumes "alive (s_world s)"
  shows "fst (if1_property_set env lib act k v s) = 0"
    and "look (s_world (snd (if1_property_set env lib act k v s))) = (look (s_world s))(k \<mapsto> v)"
    and "alive (s_world (snd (if1_property_set env lib act k v s)))"
  using assms set_code set_look set_alive
  by (simp_all add: if1_property_set_def call_lib_def case_prod_beta Let_def)

end

definition action_alive :: "nat \<Rightarrow> ('cb, 'up) module_world \<Rightarrow> bool" where
  "action_alive act w \<longleftrightarrow> mw_actions w act \<noteq> None"

definition action_property :: "nat \<Rightarrow> ('cb, 'up) module_world \<Rightarrow> string \<Rightarrow> string option" where
  "action_property act w k = (case mw_actions w act of None \<Rightarrow> None | Some a \<Rightarrow> om_find (property a) k)"

interpretation gst: property_module "gst_module fill raw cb up run" act "action_alive act" "action_property act"
  for fill raw cb up run act
  by unfold_locales
     (auto simp: gst_module_def action_alive_def action_property_def rvs_module_action_property_set_def
        property_set_find fun_eq_iff case_prod_beta Let_def split: option.splits)

lemma gst_module_complete: "lib_complete (gst_module fill raw cb up run)"
  by (simp add: lib_complete_def gst_module_def exported_def rvs_module_has_interface_def list_all_iff)

end
