(* ===== verification/Exec_Facts.thy ===== *)
theory Exec_Facts
  imports Exec_Props Module_Lib
begin

text \<open>
  What a run does, stated without its loops: the actions it executes (selection and repetition),
  the rows of its summary, the properties an action receives, the configuration files it looks for,
  and when it stops early.
\<close>

section \<open>The actions of a run\<close>

fun run_list :: "('w, 'act) exec_env \<Rightarrow> yaction list \<Rightarrow> ('w, 'act, 'cb, step) cmd" where
  "run_list env [] x = (Ret Next, x)"
| "run_list env (a # as) x =
     and_then (yaml_action env a x) (\<lambda>r x. case r of Leave n \<Rightarrow> (Ret (Leave n), x) | Next \<Rightarrow> run_list env as x)"

definition named :: "yaction \<Rightarrow> bool" where
  "named a \<longleftrightarrow> (case ya_name a of Inl _ \<Rightarrow> False | Inr _ \<Rightarrow> True)"

definition the_name :: "yaction \<Rightarrow> string" where
  "the_name a = (case ya_name a of Inl _ \<Rightarrow> [] | Inr n \<Rightarrow> n)"

text \<open>The actions a selection keeps: by name, or by position.\<close>

fun chosen_from :: "string list \<times> int list \<Rightarrow> int \<Rightarrow> yaction list \<Rightarrow> yaction list" where
  "chosen_from sel i [] = []"
| "chosen_from sel i (a # as) =
     (if \<not> has_selection sel \<or> selected sel (the_name a) i then [a] else []) @ chosen_from sel (i + 1) as"

lemma and_then_assoc: "and_then (and_then m k) h = and_then m (\<lambda>a s. and_then (k a s) h)"
  by (cases "(m, k)" rule: and_then.cases) auto

lemma run_list_append:
  fixes x :: "('w, 'act, 'cb) exec"
  shows "run_list env (as @ bs) x =
     and_then (run_list env as x) (\<lambda>r x. case r of Leave n \<Rightarrow> (Ret (Leave n), x) | Next \<Rightarrow> run_list env bs x)"
proof (induction as arbitrary: x)
  case (Cons a as)
  show ?case
    by (simp add: and_then_assoc, rule arg_cong [where f = "and_then (yaml_action env a x)"])
       (auto simp: fun_eq_iff Cons.IH split: step.splits)
qed simp

lemma actions_loop_chosen:
  fixes x :: "('w, 'act, 'cb) exec"
  assumes "list_all named as"
  shows "actions_loop env sel as i x = run_list env (chosen_from sel i as) x"
  using assms
proof (induction as arbitrary: i x)
  case (Cons a as)
  then have n: "ya_name a = Inr (the_name a)" by (auto simp: named_def the_name_def split: sum.splits)
  have ih: "actions_loop env sel as (i + 1) y = run_list env (chosen_from sel (i + 1) as) y" for y :: "('w, 'act, 'cb) exec"
    using Cons by simp
  show ?case by (simp add: ih convert_def n cong: step.case_cong)
qed simp

lemma times_loop_chosen:
  fixes x :: "('w, 'act, 'cb) exec"
  assumes "list_all named as"
  shows "times_loop env sel as n x = run_list env (concat (replicate n (chosen_from sel 0 as))) x"
proof (induction n arbitrary: x)
  case (Suc n)
  show ?case by (simp add: actions_loop_chosen [OF assms] run_list_append Suc.IH cong: step.case_cong)
qed simp

text \<open>The selection by position and by name.\<close>

lemma chosen_all: "\<not> has_selection sel \<Longrightarrow> chosen_from sel i as = as"
  by (induction as arbitrary: i) simp_all

lemma chosen_names: "has_selection (ns, []) \<Longrightarrow> chosen_from (ns, []) i as = filter (\<lambda>a. the_name a \<in> set ns) as"
  by (induction as arbitrary: i) (auto simp: selected_def list_ex_iff)

lemma chosen_indices:
  "has_selection ([], is) \<Longrightarrow> chosen_from ([], is) (int k) as = nths as {j. int (j + k) \<in> set is}"
proof (induction as arbitrary: k)
  case (Cons a as)
  have "chosen_from ([], is) (int (Suc k)) as = nths as {j. int (j + Suc k) \<in> set is}"
    using Cons by blast
  then show ?case
    using Cons.prems by (auto simp: nths_Cons selected_def list_ex_iff ac_simps)
qed simp

section \<open>The option that selects actions\<close>

text \<open>
  What the value of \<^verbatim>\<open>-s\<close> means, without the code's reading of it: words between commas and white
  space, and the words that are the number of a position.
\<close>

definition word_end :: "char \<Rightarrow> bool" where
  "word_end c \<longleftrightarrow> c = CHR '','' \<or> isspace c"

inductive word_list :: "string \<Rightarrow> string list \<Rightarrow> bool" where
  word_list_end: "word_list [] []"
| word_list_skip: "word_end c \<Longrightarrow> word_list s ws \<Longrightarrow> word_list (c # s) ws"
| word_list_word: "w \<noteq> [] \<Longrightarrow> list_all (\<lambda>c. \<not> word_end c) w \<Longrightarrow> s = [] \<or> word_end (hd s) \<Longrightarrow> word_list s ws \<Longrightarrow>
     word_list (w @ s) (w # ws)"

definition position_number :: "string \<Rightarrow> nat \<Rightarrow> bool" where
  "position_number w k \<longleftrightarrow> (\<exists>d. d \<noteq> [] \<and> list_all isdigit d \<and> dec_val d = k \<and> k < 2 ^ 31 \<and>
     (w = d \<or> w = CHR ''+'' # d \<or> w = CHR ''-'' # d \<and> k = 0))"

lemma words_from_word:
  "list_all (\<lambda>c. \<not> isspace c) w \<Longrightarrow> s = [] \<or> isspace (hd s) \<Longrightarrow> acc @ w \<noteq> [] \<Longrightarrow>
   words_from acc (w @ s) = (acc @ w) # words_from [] s"
proof (induction w arbitrary: acc)
  case Nil
  then show ?case by (cases s) auto
qed auto

lemma comma_to_space: "replace_char (CHR '','') (CHR '' '') (a @ b) =
    replace_char (CHR '','') (CHR '' '') a @ replace_char (CHR '','') (CHR '' '') b"
  by (simp add: replace_char_def)

lemma replace_word: "list_all (\<lambda>c. \<not> word_end c) w \<Longrightarrow> replace_char (CHR '','') (CHR '' '') w = w"
  by (induction w) (auto simp: replace_char_def word_end_def)

lemma isspace_blank: "isspace (CHR '' '')" by (simp add: isspace_def)

lemma word_list_words: "word_list v ws \<Longrightarrow> words_from [] (replace_char (CHR '','') (CHR '' '') v) = ws"
proof (induction rule: word_list.induct)
  case word_list_end
  then show ?case by (simp add: replace_char_def)
next
  case (word_list_skip c s ws)
  then have "isspace (if c = CHR '','' then CHR '' '' else c)" using isspace_blank by (auto simp: word_end_def)
  with word_list_skip show ?case by (simp add: replace_char_def)
next
  case (word_list_word w s ws)
  have "s = [] \<or> isspace (hd (replace_char (CHR '','') (CHR '' '') s)) "
    using word_list_word(3) isspace_blank by (cases s) (auto simp: replace_char_def word_end_def)
  then have "replace_char (CHR '','') (CHR '' '') s = [] \<or> isspace (hd (replace_char (CHR '','') (CHR '' '') s))"
    by (auto simp: replace_char_def)
  moreover have "list_all (\<lambda>c. \<not> isspace c) w" using word_list_word(2) by (auto simp: list_all_iff word_end_def)
  ultimately show ?case
    using words_from_word [of w "replace_char (CHR '','') (CHR '' '') s" "[]"] word_list_word
    by (simp add: comma_to_space replace_word)
qed

lemma take_digits: "list_all isdigit d \<Longrightarrow> takeWhile isdigit d = d"
  by (simp add: list_all_iff takeWhile_eq_all_conv)

lemma strto_dec_shape:
  assumes "strto_dec w = Some (neg, m, length w)" and "list_all (\<lambda>c. \<not> isspace c) w"
  shows "\<exists>d. d \<noteq> [] \<and> list_all isdigit d \<and> dec_val d = m \<and>
    (w = d \<and> \<not> neg \<or> w = CHR ''+'' # d \<and> \<not> neg \<or> w = CHR ''-'' # d \<and> neg)"
proof -
  have sp: "dropWhile isspace w = w" using assms(2) by (cases w) auto
  define t where "t = (if w \<noteq> [] \<and> (hd w = CHR ''-'' \<or> hd w = CHR ''+'') then tl w else w)"
  have d: "takeWhile isdigit t \<noteq> []" "m = dec_val (takeWhile isdigit t)" "neg \<longleftrightarrow> w \<noteq> [] \<and> hd w = CHR ''-''"
    "length w = length w - length t + length (takeWhile isdigit t)"
    using assms(1) by (auto simp: strto_dec_def sp Let_def t_def [symmetric] split: if_splits)
  have le: "length t \<le> length w" by (simp add: t_def)
  with d(4) have "length (takeWhile isdigit t) = length t" by simp
  then have full: "takeWhile isdigit t = t" by (metis takeWhile_eq_take take_all le_refl)
  then have t: "list_all isdigit t" "t \<noteq> []" "dec_val t = m" using d(1,2) by (metis set_takeWhileD list_all_iff)+
  then have "\<not> hd t = CHR ''-'' \<and> \<not> hd t = CHR ''+''"
    using isdigit_not_sign [of "hd t"] by (cases t) auto
  then have "w = t \<and> \<not> neg \<or> w = CHR ''+'' # t \<and> \<not> neg \<or> w = CHR ''-'' # t \<and> neg"
    using d(3) t(2) by (cases w) (auto simp: t_def split: if_splits)
  with t show ?thesis by blast
qed

lemma strto_dec_sign:
  assumes "d \<noteq> []" and "list_all isdigit d" and "c = CHR ''+'' \<or> c = CHR ''-''"
  shows "strto_dec (c # d) = Some (c = CHR ''-'', dec_val d, length (c # d))"
proof -
  have "\<not> isspace c" using assms(3) by (auto simp: isspace_def)
  then show ?thesis using assms(1,3) by (auto simp: strto_dec_def Let_def take_digits [OF assms(2)])
qed

lemma stoi_position:
  assumes "list_all (\<lambda>c. \<not> isspace c) w"
  shows "(stoi w = Inr (int k, length w)) \<longleftrightarrow> position_number w k"
proof
  assume "stoi w = Inr (int k, length w)"
  then obtain neg m where s: "strto_dec w = Some (neg, m, length w)"
    and k: "int k = (if neg then - int m else int m)" "k < 2 ^ 31"
    by (auto simp: stoi_def sto_signed_def Let_def split: option.splits if_splits)
  from k have "m = k" "neg \<Longrightarrow> k = 0" by (auto split: if_splits)
  with strto_dec_shape [OF s assms] k(2) show "position_number w k" unfolding position_number_def by metis
next
  assume "position_number w k"
  then obtain d where d: "d \<noteq> []" "list_all isdigit d" "dec_val d = k" "k < 2 ^ 31"
    "w = d \<or> w = CHR ''+'' # d \<or> w = CHR ''-'' # d \<and> k = 0"
    by (auto simp: position_number_def)
  from d(5) have "\<exists>neg. strto_dec w = Some (neg, k, length w) \<and> (neg \<longrightarrow> k = 0)"
    using strto_dec_digits [OF d(1,2)] strto_dec_sign [OF d(1,2), of "CHR ''+''"]
      strto_dec_sign [OF d(1,2), of "CHR ''-''"] d(3) by auto
  then show "stoi w = Inr (int k, length w)" using d(4) by (auto simp: stoi_def sto_signed_def)
qed

lemma token_position:
  assumes "list_all (\<lambda>c. \<not> isspace c) w"
  shows "token_numeric w \<longleftrightarrow> (\<exists>k. position_number w k)"
proof
  assume "token_numeric w"
  then obtain v where "stoi w = Inr (v, length w)" "0 \<le> v" by (auto simp: token_numeric_def split: sum.splits)
  then have "stoi w = Inr (int (nat v), length w)" by simp
  then show "\<exists>k. position_number w k" using stoi_position [OF assms] by blast
next
  assume "\<exists>k. position_number w k"
  then obtain k where "stoi w = Inr (int k, length w)" using stoi_position [OF assms] by blast
  then show "token_numeric w" by (simp add: token_numeric_def)
qed

lemma word_list_spaceless: "word_list v ws \<Longrightarrow> list_all (\<lambda>w. list_all (\<lambda>c. \<not> isspace c) w \<and> w \<noteq> []) ws"
  by (induction rule: word_list.induct) (auto simp: list_all_iff word_end_def)

text \<open>The actions the value of the option names.\<close>

definition picked :: "string list \<Rightarrow> yaction list \<Rightarrow> yaction list" where
  "picked ws as =
     (if ws = [] then as
      else if \<forall>w \<in> set ws. \<exists>k. position_number w k then nths as {k. \<exists>w \<in> set ws. position_number w k}
      else filter (\<lambda>a. the_name a \<in> set ws) as)"

lemma chosen_picked:
  assumes "word_list (case om_find opt ''-s'' of None \<Rightarrow> [] | Some v \<Rightarrow> v) ws"
  shows "chosen_from (select_actions opt) 0 as = picked ws as"
proof -
  let ?v = "case om_find opt ''-s'' of None \<Rightarrow> [] | Some v \<Rightarrow> v"
  have ws: "words_from [] (replace_char (CHR '','') (CHR '' '') ?v) = ws" by (rule word_list_words [OF assms])
  note sp = word_list_spaceless [OF assms]
  have num: "list_all token_numeric ws \<longleftrightarrow> (\<forall>w \<in> set ws. \<exists>k. position_number w k)"
    using sp token_position by (auto simp: list_all_iff)
  let ?ix = "map (\<lambda>t. case stoi t of Inr (v, _) \<Rightarrow> v | Inl _ \<Rightarrow> 0) ws"
  show ?thesis
  proof (cases "ws = []")
    case True
    then have "select_actions opt = ([], [])"
      using ws by (auto simp: select_actions_def has_option_val_def Let_def split: option.splits)
    with True show ?thesis by (simp add: chosen_all has_selection_def picked_def)
  next
    case False
    then have v: "?v \<noteq> []" using assms by (auto elim: word_list.cases)
    then obtain v where v': "om_find opt ''-s'' = Some v" "v \<noteq> []" by (auto split: option.splits)
    then have sel: "select_actions opt = (if list_all token_numeric ws then ([], ?ix) else (ws, []))"
      using ws by (simp add: select_actions_def has_option_val_def Let_def)
    show ?thesis
    proof (cases "list_all token_numeric ws")
      case True
      have one: "(case stoi w of Inr (v, _) \<Rightarrow> v | Inl _ \<Rightarrow> 0) = int j \<longleftrightarrow> position_number w j" if w: "w \<in> set ws" for w j
      proof -
        have "list_all (\<lambda>c. \<not> isspace c) w" using sp w by (simp add: list_all_iff)
        note st = stoi_position [OF this]
        from True num w obtain k where "position_number w k" by blast
        with st [of k] have k: "stoi w = Inr (int k, length w)" by blast
        from st [of j] have "position_number w j \<longleftrightarrow> k = j" unfolding k by simp
        then show ?thesis unfolding k by simp
      qed
      have "int (j + 0) \<in> set ?ix \<longleftrightarrow> (\<exists>w \<in> set ws. position_number w j)" for j
        unfolding set_map image_iff add_0_right using one [of _ j] by metis
      then have "{j. int (j + 0) \<in> set ?ix} = {k. \<exists>w \<in> set ws. position_number w k}" by blast
      then have "chosen_from ([], ?ix) 0 as = nths as {k. \<exists>w \<in> set ws. position_number w k}"
        using chosen_indices [of ?ix 0 as] False by (simp add: has_selection_def)
      with True False num show ?thesis by (simp add: sel picked_def)
    next
      case no: False
      then have "chosen_from (ws, []) 0 as = filter (\<lambda>a. the_name a \<in> set ws) as"
        using chosen_names [of ws 0 as] False by (simp add: has_selection_def)
      moreover have "\<not> (\<forall>w \<in> set ws. \<exists>k. position_number w k)" using no num by blast
      ultimately show ?thesis unfolding sel picked_def if_not_P [OF no] if_not_P [OF False] by (simp only: if_False)
    qed
  qed
qed

section \<open>The summary\<close>

lemma action_details_simple [simp]:
  "action_details (x_err t x) = action_details x" "action_details (x_log env t l x) = action_details x"
  "action_details (x_print t x) = action_details x" "action_details (x_destroy env pa x) = action_details x"
  "action_details (snd (set_prop env lib act k v x)) = action_details x"
  "action_details (callback_results r x) = action_details x"
  "action_details (notify_failed t x) = action_details x"
  "action_details (exec_action_callback q b x) = action_details x"
  "action_details (snd (x_do f x)) = action_details x"
  by (simp_all add: x_err_def x_log_def x_print_def x_destroy_def set_prop_def x_do_def callback_results_def
      notify_failed_def exec_action_callback_def callback_action_def case_prod_beta Let_def
      split: option.splits actionstatus.splits)

lemma details_fold: "(\<And>a x. action_details (f a x) = action_details x) \<Longrightarrow> action_details (fold f as x) = action_details x"
  by (induction as arbitrary: x) simp_all

lemma details_run_action [simp]: "action_details (snd (run_action lib act x)) = action_details x"
  by (simp add: run_action_def case_prod_beta Let_def details_fold)

lemma details_cli [simp]: "action_details (set_cli_options env lib act x) = action_details x"
  unfolding set_cli_options_def by (rule details_fold) (simp add: case_prod_beta)

lemma details_and_then:
  assumes "action_details (snd m) = d" and "\<And>a s. action_details s = d \<Longrightarrow> action_details (snd (k a s)) = d"
  shows "action_details (snd (and_then m k)) = d"
  using assms by (cases "(m, k)" rule: and_then.cases) auto

lemma details_collection:
  "action_details x = d \<Longrightarrow> action_details (snd (do_yaml_properties_collection env lib act p kvs sts x)) = d"
proof (induction kvs arbitrary: sts x)
  case (Cons kv kvs)
  obtain k v where kv: "kv = (k, v)" by (cases kv)
  show ?case
    unfolding kv do_yaml_properties_collection.simps
    by (intro details_and_then) (simp_all add: Cons case_prod_beta Let_def)
qed simp

lemma details_device: "action_details x = d \<Longrightarrow> action_details (snd (set_device env lib act idx v x)) = d"
  by (auto simp: set_device_def case_prod_beta Let_def split: option.splits intro!: details_and_then)

lemma details_props:
  "action_details x = d \<Longrightarrow> action_details (snd (yaml_props_loop env lib act m idx ps sts x)) = d"
proof (induction ps arbitrary: sts x)
  case (Cons p ps)
  show ?case
    unfolding yaml_props_loop.simps
    by (intro details_and_then)
      (auto simp: Cons details_collection details_device case_prod_beta Let_def intro!: details_and_then)
qed simp

lemma details_properties [simp]: "action_details (snd (do_yaml_properties env lib act m ps x)) = action_details x"
proof -
  have "action_details (snd (do_yaml_properties env lib act m ps x)) = action_details x"
    unfolding do_yaml_properties_def Let_def
    by (intro details_and_then)
      (auto simp: details_props case_prod_beta split: sum.splits if_splits)
  then show ?thesis .
qed

text \<open>An action that lets the loop go on leaves exactly one row, with its name and module.\<close>

definition row_of :: "yaction \<Rightarrow> exec_action \<Rightarrow> bool" where
  "row_of a r \<longleftrightarrow> ya_name a = Inr (ea_name r) \<and> (\<exists>m. ya_module a = Inr m \<and> m \<noteq> [] \<and> ea_module r = map toupper m)"

lemma body_details:
  assumes "action_body env a n m pa act x = (Ret r, y)"
  shows "r = Next \<Longrightarrow> \<exists>i. action_details y = action_details x @ [i] \<and> ea_name i = n \<and> ea_module i = map toupper m"
proof -
  assume "r = Next"
  with assms obtain sts s where p: "do_yaml_properties env (a_lib pa) act m (ya_props a) x = (Ret sts, s)"
    and k: "(if sts \<noteq> 0 then (Ret (Leave sts), x_destroy env pa s)
        else let x = set_cli_options env (a_lib pa) act s;
              (sts, x) = run_action (a_lib pa) act x;
              info = \<lparr>ea_name = n, ea_module = map toupper m, ea_result = (sts = 0)\<rparr>;
              x = (if has_option (x_options env) ''-q'' then x_print (summary_row cr info) x else x);
              x = x_destroy env pa x;
              x = (if sts \<noteq> 0 then
                     (let x = notify_failed (''action '' @ squoted n @ '' failed with error !'') x
                      in if \<not> has_option (x_options env) ''-q''
                         then x\<lparr>x_sys := (x_sys x)\<lparr>s_log := snd (Err (Some ''Action failed to run successfully.'')
                                 (Some m) (Some n) (s_log (x_sys x)))\<rparr>\<rparr>
                         else x)
                   else x)
          in (Ret Next, x\<lparr>action_details := action_details x @ [info]\<rparr>)) = (Ret Next, y)"
    unfolding action_body_def and_then_eq Let_def by blast
  have s: "action_details s = action_details x"
    using details_properties [of env "a_lib pa" act m "ya_props a" x] p by simp
  show ?thesis
    using k s by (auto simp: Let_def case_prod_beta split: if_splits)
qed

lemma action_row:
  assumes "yaml_action env a x = (Ret Next, y)"
  shows "\<exists>i. action_details y = action_details x @ [i] \<and> row_of a i"
proof -
  obtain name where n: "ya_name a = Inr name"
    using assms by (cases "ya_name a") (auto simp: yaml_action_def convert_def)
  let ?l = "x_log env (''Action name :'' @ name) logresults x"
  let ?m = "case ya_module a of Inl x \<Rightarrow> [] | Inr m \<Rightarrow> m"
  obtain q z where c: "x_do (action_create (x_env env) ?m) ?l = (q, z)" by fastforce
  have "action_details (snd (x_do (action_create (x_env env) ?m) ?l)) = action_details x"
    by (simp only: action_details_simple)
  then have z: "action_details z = action_details x" by (simp only: c snd_conv)
  have "?m \<noteq> [] \<and> (\<exists>pa act. action_body env a name ?m pa act z = (Ret Next, y))"
    using assms n c
    by (auto simp: yaml_action_def convert_def Let_def split: if_splits option.splits prod.splits ifkind.splits sum.splits)
  then obtain pa act where m: "?m \<noteq> []" and b: "action_body env a name ?m pa act z = (Ret Next, y)" by blast
  from m have "ya_module a = Inr ?m" by (cases "ya_module a") auto
  then show ?thesis using body_details [OF b refl] n m z by (auto simp: row_of_def)
qed

lemma run_list_rows:
  assumes "run_list env as x = (Ret Next, y)"
  shows "\<exists>rs. action_details y = action_details x @ rs \<and> list_all2 row_of as rs"
  using assms
proof (induction as arbitrary: x)
  case (Cons a as)
  from Cons.prems obtain r s where a: "yaml_action env a x = (Ret r, s)"
    and k: "(case r of Leave n \<Rightarrow> (Ret (Leave n), s) | Next \<Rightarrow> run_list env as s) = (Ret Next, y)"
    unfolding run_list.simps and_then_eq by blast
  then have "r = Next" "run_list env as s = (Ret Next, y)" by (cases r; auto)+
  with a Cons.IH [of s] action_row [of env a x s]
  obtain i rs where "action_details y = action_details s @ rs" "list_all2 row_of as rs"
    "action_details s = action_details x @ [i]" "row_of a i" by auto
  then show ?case by (intro exI [of _ "i # rs"]) simp
qed simp

section \<open>An action's failure does not end the run\<close>

lemma body_continues:
  "fst (action_body env a n m pa act x) = Ret Next \<longleftrightarrow>
   fst (do_yaml_properties env (a_lib pa) act m (ya_props a) x) = Ret 0"
proof -
  obtain r s where p: "do_yaml_properties env (a_lib pa) act m (ya_props a) x = (r, s)" by fastforce
  show ?thesis by (cases r) (simp_all add: action_body_def p Let_def case_prod_beta)
qed

section \<open>The properties an action receives\<close>

text \<open>The list of settings the configuration and the options ask for, and the exception that ends it.\<close>

type_synonym plan = "(string \<times> string) list \<times> string option"

fun collection_plan :: "string \<Rightarrow> (string may_throw \<times> yscalar) list \<Rightarrow> plan" where
  "collection_plan parent [] = ([], None)"
| "collection_plan parent ((k, v) # kvs) =
     (case (k, if y_null v then Inr [] else y_string v) of
        (Inr key, Inr val) \<Rightarrow> (let (ps, e) = collection_plan parent kvs in ((parent @ ''.'' @ key, val) # ps, e))
      | (Inr key, Inl w) \<Rightarrow> ([], Some w)
      | (Inl w, _) \<Rightarrow> ([], Some w))"

definition device_plan :: "nat \<Rightarrow> string \<Rightarrow> yscalar \<Rightarrow> plan" where
  "device_plan devices indexes v =
     (if gpu_check_if_gpu_indexes devices (snd (rvs_util_strarr_to_uintarr (split_fields (CHR '' '') indexes)))
      then (case y_string v of
              Inl w \<Rightarrow> ([(''device_index'', indexes)], Some w)
            | Inr val \<Rightarrow> ([(''device_index'', indexes), (''device'', val)], None))
      else ([(''device'', indexes)], None))"

definition prop_plan :: "nat \<Rightarrow> string \<Rightarrow> string option \<Rightarrow> yprop \<Rightarrow> plan" where
  "prop_plan devices m indexes p =
     (case p_key p of
        Inl w \<Rightarrow> ([], Some w)
      | Inr key \<Rightarrow>
          if is_yaml_properties_collection m key then collection_plan key (p_children p)
          else if indexes \<noteq> None \<and> key = ''device''
          then device_plan devices (replace_char (CHR '','') (CHR '' '') (the indexes)) (p_value p)
          else (case y_string (p_value p) of Inl w \<Rightarrow> ([], Some w) | Inr val \<Rightarrow> ([(key, val)], None)))"

fun props_plan :: "nat \<Rightarrow> string \<Rightarrow> string option \<Rightarrow> yprop list \<Rightarrow> plan" where
  "props_plan devices m indexes [] = ([], None)"
| "props_plan devices m indexes (p # ps) =
     (case prop_plan devices m indexes p of
        (kvs, Some w) \<Rightarrow> (kvs, Some w)
      | (kvs, None) \<Rightarrow> (let (kvs', e) = props_plan devices m indexes ps in (kvs @ kvs', e)))"

text \<open>Making the settings, one after the other; the codes are added up.\<close>

fun set_all ::
  "('w, 'act) exec_env \<Rightarrow> ('w, 'act, action_result_t) solib \<Rightarrow> 'act \<Rightarrow> (string \<times> string) list \<Rightarrow> int
     \<Rightarrow> ('w, 'act, 'cb) exec \<Rightarrow> int \<times> ('w, 'act, 'cb) exec" where
  "set_all env lib act [] sts x = (sts, x)"
| "set_all env lib act ((k, v) # kvs) sts x =
     (let (r, x) = set_prop env lib act k v x in set_all env lib act kvs (sts + r) x)"

definition follow ::
  "('w, 'act) exec_env \<Rightarrow> ('w, 'act, action_result_t) solib \<Rightarrow> 'act \<Rightarrow> plan \<Rightarrow> int \<Rightarrow> ('w, 'act, 'cb, int) cmd" where
  "follow env lib act pl sts x =
     (let (r, y) = set_all env lib act (fst pl) sts x
      in case snd pl of None \<Rightarrow> (Ret r, y) | Some w \<Rightarrow> (Throw w, y))"

lemma set_all_append:
  "set_all env lib act (as @ bs) sts x = (case set_all env lib act as sts x of (r, y) \<Rightarrow> set_all env lib act bs r y)"
  by (induction env lib act as sts x rule: set_all.induct) (simp_all add: case_prod_beta Let_def)

lemma set_all_offset:
  "set_all env lib act kvs (a + b) x = (case set_all env lib act kvs b x of (r, y) \<Rightarrow> (a + r, y))"
  by (induction kvs arbitrary: b x) (auto simp: case_prod_beta Let_def add.assoc)

lemma collection_follow:
  "do_yaml_properties_collection env lib act p kvs sts x = follow env lib act (collection_plan p kvs) sts x"
proof (induction kvs arbitrary: sts x)
  case (Cons kv kvs)
  obtain k v where kv: "kv = (k, v)" by (cases kv)
  show ?case
    by (auto simp: kv Cons.IH follow_def convert_def case_prod_beta Let_def split: sum.splits option.splits)
qed (simp add: follow_def)

lemma device_follow: "set_device env lib act idx v x = follow env lib act (device_plan (x_smi_devices env) idx v) 0 x"
  by (auto simp: set_device_def device_plan_def str_split_char follow_def convert_def case_prod_beta Let_def
      split: sum.splits)

lemma prop_follow:
  "(if is_yaml_properties_collection m key
    then do_yaml_properties_collection env lib act key (p_children p) 0 x
    else if indexes \<noteq> None \<and> key = ''device''
    then set_device env lib act (replace_char (CHR '','') (CHR '' '') (the indexes)) (p_value p) x
    else and_then (convert (y_string (p_value p)) x) (\<lambda>val x.
           let (r, x) = set_prop env lib act key val x in (Ret r, x))) =
   follow env lib act (prop_plan (x_smi_devices env) m indexes p) 0 x" if "p_key p = Inr key"
  using that
  by (auto simp: prop_plan_def collection_follow device_follow follow_def convert_def case_prod_beta Let_def
      split: sum.splits)

lemma props_follow:
  fixes x :: "('w, 'act, 'cb) exec"
  shows "yaml_props_loop env lib act m indexes ps sts x = follow env lib act (props_plan (x_smi_devices env) m indexes ps) sts x"
proof (induction ps arbitrary: sts x)
  case (Cons p ps)
  show ?case
  proof (cases "p_key p")
    case (Inl w)
    then show ?thesis by (simp add: convert_def follow_def prop_plan_def)
  next
    case (Inr key)
    obtain kvs e where pl: "prop_plan (x_smi_devices env) m indexes p = (kvs, e)" by fastforce
    obtain kvs' e' where pl': "props_plan (x_smi_devices env) m indexes ps = (kvs', e')" by fastforce
    obtain r y where s: "set_all env lib act kvs 0 x = (r, y)" by fastforce
    have s': "set_all env lib act kvs sts x = (sts + r, y)"
      using set_all_offset [of env lib act kvs sts 0 x] s by simp
    have cv: "convert (p_key p) x = (Ret key, x)" by (simp add: convert_def Inr)
    show ?thesis
      unfolding yaml_props_loop.simps cv and_then.simps prop_follow [OF Inr]
      by (cases e) (simp_all add: pl pl' Cons.IH follow_def s s' set_all_append)
  qed
qed (simp add: follow_def)

text \<open>The settings the options \<^verbatim>\<open>-p\<close> and \<^verbatim>\<open>-t\<close> add.\<close>

definition parallel_valid :: "options \<Rightarrow> bool" where
  "parallel_valid opt \<longleftrightarrow>
     (case om_find opt ''-p'' of None \<Rightarrow> True | Some v \<Rightarrow> v = ''false'' \<or> v = ''true'' \<or> v = [])"

definition parallel_plan :: "options \<Rightarrow> (string \<times> string) list" where
  "parallel_plan opt =
     (case om_find opt ''-p'' of
        None \<Rightarrow> [] | Some v \<Rightarrow> [(''parallel'', if v = ''false'' then ''false'' else ''true'')])"

definition duration_plan :: "options \<Rightarrow> plan" where
  "duration_plan opt =
     (case om_find opt ''-t'' of
        None \<Rightarrow> ([], None)
      | Some d \<Rightarrow> (case stoull d of
                    Inl _ \<Rightarrow> ([], Some ''stoull'')
                  | Inr (v, _) \<Rightarrow> ([(''duration'', to_string (unat (v * 1000)))], None)))"

definition option_indexes :: "options \<Rightarrow> string option" where
  "option_indexes opt = (case om_find opt ''-i'' of None \<Rightarrow> None | Some v \<Rightarrow> if v \<noteq> [] then Some v else None)"

definition properties_plan :: "options \<Rightarrow> nat \<Rightarrow> string \<Rightarrow> yprop list \<Rightarrow> plan" where
  "properties_plan opt devices m props =
     (case props_plan devices m (option_indexes opt) props of
        (kvs, Some w) \<Rightarrow> (kvs, Some w)
      | (kvs, None) \<Rightarrow> (kvs @ parallel_plan opt @ fst (duration_plan opt), snd (duration_plan opt)))"

lemma properties_follow:
  assumes "parallel_valid (x_options env)"
  shows "do_yaml_properties env lib act m props x =
    follow env lib act (properties_plan (x_options env) (x_smi_devices env) m props) 0
      (x_log env (''Module name :'' @ m) logresults x)"
proof -
  let ?opt = "x_options env"
  define x1 where "x1 = x_log env (''Module name :'' @ m) logresults x"
  have idx: "(case has_option_val ?opt ''-i'' [] of (given, v) \<Rightarrow> if given \<and> v \<noteq> [] then Some v else None)
      = option_indexes ?opt"
    by (simp add: has_option_val_def option_indexes_def split: option.splits)
  obtain kvs e where pl: "props_plan (x_smi_devices env) m (option_indexes ?opt) props = (kvs, e)" by fastforce
  obtain r y where s: "set_all env lib act kvs 0 x1 = (r, y)" by fastforce
  have "do_yaml_properties env lib act m props x =
      follow env lib act (properties_plan ?opt (x_smi_devices env) m props) 0 x1"
    unfolding do_yaml_properties_def Let_def idx props_follow x1_def [symmetric]
    using assms
    by (cases e; cases "om_find ?opt ''-p''"; cases "om_find ?opt ''-t''")
       (auto simp: pl s follow_def properties_plan_def set_all_append parallel_plan_def duration_plan_def
          parallel_valid_def has_option_val_def case_prod_beta Let_def split: sum.splits)
  then show ?thesis by (simp only: x1_def)
qed

text \<open>A module that keeps the contract holds, in the end, the last setting of every key.\<close>

context property_module
begin

lemma set_all_look:
  "alive (s_world (x_sys x)) \<Longrightarrow>
   fst (set_all env lib act kvs sts x) = sts \<and>
   look (s_world (x_sys (snd (set_all env lib act kvs sts x)))) = look (s_world (x_sys x)) ++ map_of (rev kvs) \<and>
   alive (s_world (x_sys (snd (set_all env lib act kvs sts x))))"
proof (induction kvs arbitrary: sts x)
  case (Cons kv kvs)
  obtain k v where kv: "kv = (k, v)" by (cases kv)
  obtain r y where p: "set_prop env lib act k v x = (r, y)" by fastforce
  obtain r' s' where c: "if1_property_set (x_env env) lib act k v (x_sys x) = (r', s')" by fastforce
  have y: "r = r'" "x_sys y = s'" using p c by (auto simp: set_prop_def x_do_def)
  note cp = call_property_set [OF Cons.prems, of "x_env env" k v]
  have ry: "r = 0" "look (s_world (x_sys y)) = (look (s_world (x_sys x)))(k \<mapsto> v)" "alive (s_world (x_sys y))"
    using cp y c by auto
  have "(look (s_world (x_sys x)))(k \<mapsto> v) ++ map_of (rev kvs) = look (s_world (x_sys x)) ++ map_of (rev kvs @ [(k, v)])"
    by (auto simp: fun_eq_iff map_add_def split: option.splits)
  then show ?case using Cons.IH [OF ry(3), of sts] ry by (simp add: kv p fun_upd_def)
qed (simp add: map_add_def)

end

section \<open>Searching for the configuration\<close>

definition conf_candidates :: "string \<Rightarrow> string \<Rightarrow> string \<Rightarrow> string list" where
  "conf_candidates path platform conf =
     [path @ ''../share/rocm-validation-suite/conf/'' @ platform @ ''/'' @ conf,
      path @ ''conf/'' @ platform @ ''/'' @ conf, path @ ''conf/'' @ conf]"

lemma find_conf_first:
  "find_conf env path platform confs c =
     (case find (x_file_good env) (concat (map (conf_candidates path platform) confs)) of
        Some f \<Rightarrow> (True, f)
      | None \<Rightarrow> (False, if confs = [] then c else path @ ''conf/'' @ last confs))"
  by (induction confs arbitrary: c) (simp_all add: conf_candidates_def Let_def split: option.splits)

section \<open>After a run\<close>

lemma terminate_unloads: "s_modulemap (x_sys (x_terminate env x)) = []"
  by (simp add: x_terminate_def x_log_upd_def x_do_def module_terminate_def)

lemma guarded_unloads: "guarded_yaml env t config x = (Ret r, y) \<Longrightarrow> s_modulemap (x_sys y) = []"
  using terminate_unloads
  by (auto simp: guarded_yaml_def and_then_eq Let_def split: prod.splits outcome.splits if_splits)

lemma run_opt_unloads:
  assumes "exec_run_opt env opt x = (Ret 0, y)"
  shows "s_modulemap (x_sys y) = []"
proof -
  have neg: "config_of_options env opt p \<noteq> Ret (Inl 0)" for p
    by (auto simp: config_of_options_def Let_def split: option.splits if_splits)
  show ?thesis
    using assms neg guarded_unloads
    by (auto simp: exec_run_opt_def and_then_eq Let_def split: outcome.splits sum.splits if_splits)
qed

end
