(* ===== verification/Exec_Sample.thy ===== *)
theory Exec_Sample
  imports Exec_Facts
begin

text \<open>
  A small system on which the properties of the executor are instantiated: an empty configuration
  file, no GPU, and a library whose actions accept every property and fail when they run.
\<close>

definition failing_lib :: "(nat, nat, action_result_t) solib" where
  "failing_lib = \<lparr>so_sym = (\<lambda>_. True), so_has_interface = (\<lambda>_. True),
     so_init = (\<lambda>(w, g). (0, w, g)), so_terminate = (\<lambda>(w, g). (0, 0, g)),
     so_action_create = (\<lambda>(w, g). (Some w, Suc w, g)), so_action_destroy = (\<lambda>a (w, g). (0, w, g)),
     so_description = [], so_config = [], so_output = [],
     so_property_set = (\<lambda>a k v (w, g). (0, w, g)), so_callback_set = (\<lambda>a (w, g). (0, w, g)),
     so_run = (\<lambda>a (w, g). ((1, []), w, g))\<rparr>"

definition sample_x_env :: "(nat, nat) exec_env" where
  "sample_x_env = \<lparr>x_env = \<lparr>e_os = sample_os, e_options = [], e_dlopen = (\<lambda>_. Some failing_lib),
       e_dlerror = [], e_modules_lib_dir = []\<rparr>,
     x_modules_file = (\<lambda>_. Pairs [(''version'', ''1'')]), x_file_good = (\<lambda>_. True),
     x_load_file = (\<lambda>_. Inr (Some [])), x_load_string = (\<lambda>_. Inr None), x_data_root = [],
     x_versions = \<lparr>v_os = [], v_rvs = [], v_rocm = [], v_amdgpu = []\<rparr>, x_smi_devices = 0, x_smi_ids = [],
     x_power = None, x_garbage = (0, 0), x_nodes = [], x_hip = []\<rparr>"

definition sample_exec :: "(nat, nat, unit) exec" where
  "sample_exec = exec_new (sys_start 0 (sample_logger False)) gpulist_empty"

definition sample_action :: "string \<Rightarrow> yaction" where
  "sample_action n = \<lparr>ya_name = Inr n, ya_module = Inr ''gst'',
     ya_props = [\<lparr>p_key = Inr ''device'', p_value = \<lparr>y_null = False, y_string = Inr ''all''\<rparr>, p_children = []\<rparr>]\<rparr>"

lemma sample_x_env_sel [simp]:
  "x_options sample_x_env = []" "x_load_file sample_x_env c = Inr (Some [])" "x_hip sample_x_env = []"
  "x_file_good sample_x_env f" "x_modules_file sample_x_env f = Pairs [(''version'', ''1'')]"
  by (simp_all add: sample_x_env_def)

section \<open>A run of the empty configuration\<close>

lemma times_loop_empty: "times_loop env sel [] n x = (Ret Next, x)"
  by (induction n) simp_all

lemma sample_overview: "\<exists>ls. systemOverview (x_versions sample_x_env) [] = Some (ls, True)"
  using systemOverview_fits [of "x_versions sample_x_env" "[]"]
  by (auto simp: versions_fit_def sample_x_env_def)

lemma sample_do_yaml:
  assumes "\<not> tojson_m (s_log (x_sys x))" and "\<not> bStop (s_log (x_sys x))" and "s_modulemap (x_sys x) = []"
  shows "\<exists>y. do_yaml sample_x_env YAML_FILE c x = (Ret 0, y) \<and> \<not> bStop (s_log (x_sys y)) \<and>
    s_modulemap (x_sys y) = []"
proof -
  obtain ls where ov: "systemOverview (x_versions sample_x_env) [] = Some (ls, True)"
    using sample_overview by blast
  show ?thesis using assms
    by (simp add: do_yaml_def convert_def has_option_def select_actions_def has_option_val_def times_loop_empty
      finish_yaml_def print_head_def print_overview_def get_gpu_info_def ov x_print_lines_def x_print_def
      sys_print_def print_def callback_results_def Let_def split: option.splits)
qed

lemma sample_run_opt:
  "\<exists>y. exec_run_opt sample_x_env [(''conf'', c)] (snd (set_callback (Some ()) sid sample_exec)) = (Ret 0, y)"
proof -
  define x where "x = x_log_upd (log_level logerror) (snd (set_callback (Some ()) sid sample_exec))"
  have x: "\<not> tojson_m (s_log (x_sys x))" "\<not> bStop (s_log (x_sys x))" "s_modulemap (x_sys x) = []"
    by (simp_all add: x_def x_log_upd_def set_callback_def sample_exec_def exec_new_def sys_start_def
      sample_logger_def logger_start_def log_level_def)
  obtain y where y: "do_yaml sample_x_env YAML_FILE c x = (Ret 0, y)" "\<not> bStop (s_log (x_sys y))"
      "s_modulemap (x_sys y) = []"
    using sample_do_yaml [OF x] by blast
  have m: "x_do (module_initialize (x_modules_file sample_x_env) f) x = (Ret 0, x)" for f
    by (simp add: x_do_def module_initialize_def)
  have st: "x_stopping (x_terminate sample_x_env y) = False"
    using y(2,3) by (simp add: x_stopping_def Stopping_def x_terminate_def x_log_upd_def x_do_def module_terminate_def
       terminate_def ToFile_def Let_def)
  have "exec_run_opt sample_x_env [(''conf'', c)] (snd (set_callback (Some ()) sid sample_exec)) =
      (Ret 0, x_terminate sample_x_env y)"
    by (simp add: exec_run_opt_def config_of_options_def Let_def x_def [symmetric] m guarded_yaml_def y(1) st)
  then show ?thesis by blast
qed

lemma sample_run: "\<exists>rs y. session_run sample_x_env () sid sample_exec [(''conf'', c)] = (Some 0, rs, y)"
  using sample_run_opt [of c sid] by (auto simp: session_run_def Let_def)

section \<open>A failing action\<close>

definition sample_loaded :: "(nat, nat, unit) exec" where
  "sample_loaded = sample_exec\<lparr>x_sys := (x_sys sample_exec)\<lparr>s_filemap := [(''gst'', ''libgst.so'')]\<rparr>\<rparr>"

lemma log_keeps_bStop: "bStop (snd (log os t l g)) = bStop g"
  by (auto simp: log_def LogExt_def unknown_level_def Err_def print_def ToFile_def Let_def case_prod_beta)

lemma failing_create:
  assumes "s_filemap s = [(''gst'', ''libgst.so'')]" and "s_modulemap s = []"
  shows "\<exists>pa s'. action_create (x_env sample_x_env) ''gst'' s = (Some pa, s') \<and> a_lib pa = failing_lib \<and>
    get_interface pa 1 = Some (IF1, a_plibaction pa)"
  using assms
  by (simp add: sample_x_env_def failing_lib_def action_create_def find_create_module_def open_library_def
      has_option_val_def init_interfaces_def init_interface_0_def init_interface_1_def global_methods_def
      if0_methods_def if1_methods_def init_interface_method_def module_instance_initialize_def call_lib_def
      om_insert_def clone_interfaces_def get_interface_def case_prod_beta Let_def)

lemma failing_set_all: "fst (set_all env failing_lib act kvs sts x) = sts"
  by (induction kvs arbitrary: sts x)
    (auto simp: set_prop_def x_do_def if1_property_set_def call_lib_def failing_lib_def case_prod_beta Let_def)

lemma sample_plan: "snd (properties_plan [] d ''gst'' (ya_props (sample_action n))) = None"
  by (simp add: properties_plan_def sample_action_def prop_plan_def option_indexes_def parallel_plan_def
      duration_plan_def is_yaml_properties_collection_def)

lemma failing_properties:
  "fst (do_yaml_properties sample_x_env failing_lib act ''gst'' (ya_props (sample_action n)) x) = Ret 0"
proof -
  have "parallel_valid (x_options sample_x_env)" by (simp add: parallel_valid_def)
  then show ?thesis
    unfolding properties_follow [OF \<open>parallel_valid (x_options sample_x_env)\<close>] sample_x_env_sel
    by (simp add: follow_def failing_set_all sample_plan case_prod_beta Let_def)
qed

lemma sample_action_runs: "\<exists>y. yaml_action sample_x_env (sample_action n) sample_loaded = (Ret Next, y)"
proof -
  define x where "x = x_log sample_x_env (''Action name :'' @ n) logresults sample_loaded"
  have x: "s_filemap (x_sys x) = [(''gst'', ''libgst.so'')]" "s_modulemap (x_sys x) = []" "\<not> x_stopping x"
    by (simp_all add: x_def x_log_def sample_loaded_def sample_exec_def exec_new_def sys_start_def x_stopping_def
        Stopping_def log_keeps_bStop sample_logger_def logger_start_def)
  obtain pa s' where c: "action_create (x_env sample_x_env) ''gst'' (x_sys x) = (Some pa, s')"
    "a_lib pa = failing_lib" "get_interface pa 1 = Some (IF1, a_plibaction pa)"
    using failing_create [OF x(1,2)] by blast
  have nm: "ya_name (sample_action n) = Inr n" "ya_module (sample_action n) = Inr ''gst''"
    by (simp_all add: sample_action_def)
  have "fst (action_body sample_x_env (sample_action n) n ''gst'' pa (a_plibaction pa) (x\<lparr>x_sys := s'\<rparr>)) = Ret Next"
    by (simp only: body_continues c(2) failing_properties)
  then obtain y where y: "action_body sample_x_env (sample_action n) n ''gst'' pa (a_plibaction pa)
      (x\<lparr>x_sys := s'\<rparr>) = (Ret Next, y)" by (metis prod.collapse)
  have ne: "(''gst'' = ([] :: string)) = False" by simp
  have "yaml_action sample_x_env (sample_action n) sample_loaded = (Ret Next, y)"
    unfolding yaml_action_def convert_def nm sum.case and_then.simps Let_def x_def [symmetric]
    by (simp only: x(3) ne if_False x_do_def c(1) c(3) prod.case option.case ifkind.case y)
  then show ?thesis by blast
qed

section \<open>A run that an exception ends\<close>

text \<open>
  A library whose actions succeed and report so, and a configuration of two actions, the second of
  which has a name that cannot be converted.
\<close>

definition reporting_lib :: "(nat, nat, action_result_t) solib" where
  "reporting_lib = failing_lib\<lparr>so_run := (\<lambda>a (w, g).
     ((0, [\<lparr>ar_state = ACTION_COMPLETED, ar_status = ACTION_SUCCESS, ar_output = ''done''\<rparr>]), w, g))\<rparr>"

definition throwing_env :: "(nat, nat) exec_env" where
  "throwing_env = sample_x_env\<lparr>x_env := (x_env sample_x_env)\<lparr>e_dlopen := (\<lambda>_. Some reporting_lib)\<rparr>,
     x_modules_file := (\<lambda>_. Pairs [(''version'', ''1''), (''gst'', ''libgst.so'')]),
     x_load_file := (\<lambda>_. Inr (Some [sample_action ''a'', (sample_action ''b'')\<lparr>ya_name := Inl ''bad conversion''\<rparr>]))\<rparr>"

lemma throwing_env_sel [simp]:
  "x_options throwing_env = []" "x_file_good throwing_env f" "x_modules_file throwing_env f = Pairs [(''version'', ''1''), (''gst'', ''libgst.so'')]"
  by (simp_all add: throwing_env_def sample_x_env_def)

lemma calls_simple [simp]:
  "x_calls (x_err t x) = x_calls x" "x_calls (x_log env t l x) = x_calls x" "x_calls (x_print t x) = x_calls x"
  "x_calls (x_destroy env pa x) = x_calls x" "x_calls (snd (set_prop env lib act k v x)) = x_calls x"
  "app_callback (x_log env t l x) = app_callback x" "app_callback (snd (set_prop env lib act k v x)) = app_callback x"
  by (simp_all add: x_err_def x_log_def x_print_def x_destroy_def x_do_def set_prop_def case_prod_beta)

lemma calls_set_all [simp]:
  "x_calls (snd (set_all env lib act kvs sts x)) = x_calls x"
  "app_callback (snd (set_all env lib act kvs sts x)) = app_callback x"
  by (induction kvs arbitrary: sts x) (auto simp: case_prod_beta Let_def)

lemma reporting_create:
  assumes "s_filemap s = [(''gst'', ''libgst.so'')]" and "s_modulemap s = []"
  shows "\<exists>pa s'. action_create (x_env throwing_env) ''gst'' s = (Some pa, s') \<and> a_lib pa = reporting_lib \<and>
    get_interface pa 1 = Some (IF1, a_plibaction pa)"
  using assms
  by (simp add: throwing_env_def sample_x_env_def reporting_lib_def failing_lib_def action_create_def find_create_module_def open_library_def
      has_option_val_def init_interfaces_def init_interface_0_def init_interface_1_def global_methods_def
      if0_methods_def if1_methods_def init_interface_method_def module_instance_initialize_def call_lib_def
      om_insert_def clone_interfaces_def get_interface_def case_prod_beta Let_def)

lemma reporting_set_all: "fst (set_all env reporting_lib act kvs sts x) = sts"
  by (induction kvs arbitrary: sts x)
    (auto simp: set_prop_def x_do_def if1_property_set_def call_lib_def reporting_lib_def failing_lib_def case_prod_beta Let_def)

lemma reporting_properties:
  "\<exists>y. do_yaml_properties throwing_env reporting_lib act ''gst'' (ya_props (sample_action n)) x = (Ret 0, y) \<and>
     x_calls y = x_calls x \<and> app_callback y = app_callback x"
proof -
  let ?pl = "properties_plan [] (x_smi_devices throwing_env) ''gst'' (ya_props (sample_action n))"
  let ?x = "x_log throwing_env (''Module name :'' @ ''gst'') logresults x"
  obtain r y where s: "set_all throwing_env reporting_lib act (fst ?pl) 0 ?x = (r, y)" by fastforce
  have "r = 0" using reporting_set_all [of throwing_env act "fst ?pl" 0 ?x] s by simp
  moreover have "x_calls y = x_calls x \<and> app_callback y = app_callback x"
    using calls_set_all [of throwing_env reporting_lib act "fst ?pl" 0 ?x] unfolding s by simp
  moreover have "parallel_valid (x_options throwing_env)" by (simp add: parallel_valid_def)
  ultimately show ?thesis
    unfolding properties_follow [OF \<open>parallel_valid (x_options throwing_env)\<close>] throwing_env_sel
    by (simp only: follow_def s sample_plan Let_def case_prod_conv option.case) simp
qed

lemma reporting_body:
  assumes "app_callback x = Some cb" and "a_lib pa = reporting_lib"
  shows "\<exists>y c. action_body throwing_env (sample_action n) n ''gst'' pa act x = (Ret Next, y) \<and>
     x_calls y = x_calls x @ [c] \<and> res_state (snd (snd c)) = RVS_SESSION_STATE_INPROGRESS"
proof -
  obtain y where y: "do_yaml_properties throwing_env reporting_lib act ''gst'' (ya_props (sample_action n)) x = (Ret 0, y)"
    "x_calls y = x_calls x" "app_callback y = Some cb"
    using reporting_properties [of act n x] assms(1) by auto
  show ?thesis
    by (simp add: action_body_def assms(2) y has_option_def run_action_def x_do_def if1_callback_set_def if1_run_def
        call_lib_def exec_action_callback_def callback_action_def set_cli_options_def case_prod_beta Let_def)
       (simp add: reporting_lib_def failing_lib_def exec_action_callback_def callback_action_def case_prod_beta y)
qed

lemma reporting_action:
  assumes "s_filemap (x_sys x) = [(''gst'', ''libgst.so'')]" and "s_modulemap (x_sys x) = []" and "\<not> x_stopping x"
    and "app_callback x = Some cb"
  shows "\<exists>y c. yaml_action throwing_env (sample_action n) x = (Ret Next, y) \<and> x_calls y = x_calls x @ [c] \<and>
    res_state (snd (snd c)) = RVS_SESSION_STATE_INPROGRESS"
proof -
  define x1 where "x1 = x_log throwing_env (''Action name :'' @ n) logresults x"
  have x1: "s_filemap (x_sys x1) = [(''gst'', ''libgst.so'')]" "s_modulemap (x_sys x1) = []" "\<not> x_stopping x1"
    "app_callback x1 = Some cb" "x_calls x1 = x_calls x"
    using assms by (simp_all add: x1_def x_log_def x_stopping_def Stopping_def log_keeps_bStop)
  obtain pa s' where c: "action_create (x_env throwing_env) ''gst'' (x_sys x1) = (Some pa, s')"
    "a_lib pa = reporting_lib" "get_interface pa 1 = Some (IF1, a_plibaction pa)"
    using reporting_create [OF x1(1,2)] by blast
  have nm: "ya_name (sample_action n) = Inr n" "ya_module (sample_action n) = Inr ''gst''"
    by (simp_all add: sample_action_def)
  obtain y e where y: "action_body throwing_env (sample_action n) n ''gst'' pa (a_plibaction pa)
      (x1\<lparr>x_sys := s'\<rparr>) = (Ret Next, y)" "x_calls y = x_calls x @ [e]"
      "res_state (snd (snd e)) = RVS_SESSION_STATE_INPROGRESS"
    using reporting_body [of "x1\<lparr>x_sys := s'\<rparr>" cb pa n "a_plibaction pa"] c(2) x1(4,5) by auto
  have ne: "(''gst'' = ([] :: string)) = False" by simp
  have "yaml_action throwing_env (sample_action n) x = (Ret Next, y)"
    unfolding yaml_action_def convert_def nm sum.case and_then.simps Let_def x1_def [symmetric]
    by (simp only: x1(3) ne if_False x_do_def c(1) c(3) prod.case option.case ifkind.case y)
  with y show ?thesis by blast
qed

lemma throwing_run:
  "\<exists>rs y. session_run throwing_env () sid sample_exec [(''conf'', c)] = (Some (-999), rs, y) \<and> rs \<noteq> [] \<and>
     res_state (last rs) = RVS_SESSION_STATE_INPROGRESS"
proof -
  define x where "x = x_log_upd (log_level logerror) (snd (set_callback (Some ()) sid sample_exec))"
  define x2 where "x2 = x\<lparr>x_sys := (x_sys x)\<lparr>s_filemap := [(''gst'', ''libgst.so'')]\<rparr>\<rparr>"
  let ?bad = "(sample_action ''b'')\<lparr>ya_name := Inl ''bad conversion''\<rparr>"
  have m: "x_do (module_initialize (x_modules_file throwing_env) f) x = (Ret 0, x2)" for f
    by (simp add: x_do_def module_initialize_def x2_def x_def x_log_upd_def set_callback_def sample_exec_def exec_new_def
        sys_start_def om_insert_def)
  have x2: "s_filemap (x_sys x2) = [(''gst'', ''libgst.so'')]" "s_modulemap (x_sys x2) = []" "\<not> x_stopping x2"
    "app_callback x2 = Some ()" "x_calls x2 = []" "num_times x2 = 1"
    by (simp_all add: x2_def x_def x_log_upd_def set_callback_def sample_exec_def exec_new_def sys_start_def
      sample_logger_def logger_start_def log_level_def x_stopping_def Stopping_def)
  obtain y e where y: "yaml_action throwing_env (sample_action ''a'') x2 = (Ret Next, y)" "x_calls y = [e]"
      "res_state (snd (snd e)) = RVS_SESSION_STATE_INPROGRESS"
    using reporting_action [OF x2(1-4), of "''a''"] x2(5) by auto
  have bad: "yaml_action throwing_env ?bad y = (Throw ''bad conversion'', y)"
    by (simp add: yaml_action_def convert_def)
  have load: "x_load_file throwing_env c = Inr (Some [sample_action ''a'', ?bad])" by (simp add: throwing_env_def)
  have one: "nat 1 = Suc 0" by simp
  have "do_yaml throwing_env YAML_FILE c x2 = (Throw ''bad conversion'', y)"
    by (simp add: do_yaml_def convert_def load has_option_def select_actions_def has_option_val_def has_selection_def
      x2(6) one y(1) bad)
  then obtain z where z: "guarded_yaml throwing_env YAML_FILE c x2 = (Ret (-999), z)" "x_calls z = [e]"
    by (simp add: guarded_yaml_def y(2))
  have "exec_run_opt throwing_env [(''conf'', c)] (snd (set_callback (Some ()) sid sample_exec)) = (Ret (-999), z)"
    by (simp add: exec_run_opt_def config_of_options_def Let_def x_def [symmetric] m z(1))
  moreover have "x_calls (snd (set_callback (Some ()) sid sample_exec)) = []"
    by (simp add: set_callback_def sample_exec_def exec_new_def)
  ultimately show ?thesis using z(2) y(3) by (cases e) (simp add: session_run_def Let_def)
qed

end
