(* ===== verification/Mem_Kernel.thy ===== *)
theory Mem_Kernel
  imports Prelude
begin

text \<open>
  The kernels of the memory test, \<^verbatim>\<open>mem.so/src/rvs_memtest.cpp\<close>.  The memory of the device is a
  function from byte addresses to the 32-bit cell that starts there; every access of the kernels
  is to a multiple of four.  A thread is the list of its steps, one per access or loop body, with
  one local variable that outlives a step: how far its copy of the pointer \<^verbatim>\<open>ptErrCount\<close> has moved.
  The threads of a launch interleave step by step under an arbitrary list of events, and the
  memory may change by itself between two steps, which is what the test is there to find.
\<close>

unbundle bit_operations_syntax

section \<open>The device\<close>

record gpu =
  g_mem :: "u64 \<Rightarrow> u32"
  g_cnt :: "nat \<Rightarrow> u32"   \<comment> \<open>the words from \<^verbatim>\<open>ptCntOfError\<close> on; the first is the counter\<close>
  g_failed :: "nat \<Rightarrow> u64"
  g_expected :: "nat \<Rightarrow> u64"
  g_current :: "nat \<Rightarrow> u64"

type_synonym step = "nat \<times> gpu \<Rightarrow> nat \<times> gpu"

definition BLOCKSIZE :: u64 where "BLOCKSIZE = 1024 * 1024"
definition GRIDSIZE :: nat where "GRIDSIZE = 128"
definition MOD_SZ :: nat where "MOD_SZ = 20"
definition MAX_ERR_RECORD_COUNT :: u32 where "MAX_ERR_RECORD_COUNT = 10"

text \<open>\<^verbatim>\<open>BLOCKSIZE/sizeof(unsigned int)\<close> and \<^verbatim>\<open>BLOCKSIZE/sizeof(unsigned long)\<close>.\<close>

definition words32 :: nat where "words32 = unat BLOCKSIZE div 4"
definition words64 :: nat where "words64 = unat BLOCKSIZE div 8"

definition block_ptr :: "u64 \<Rightarrow> nat \<Rightarrow> u64" where
  "block_ptr p b = p + of_nat b * BLOCKSIZE"

definition cell :: "u64 \<Rightarrow> nat \<Rightarrow> u64" where
  "cell p i = p + of_nat (4 * i)"

definition load64 :: "gpu \<Rightarrow> u64 \<Rightarrow> u64" where
  "load64 g a = push_bit 32 (ucast (g_mem g (a + 4))) OR ucast (g_mem g a)"

section \<open>Steps\<close>

definition store :: "u64 \<Rightarrow> u32 \<Rightarrow> step" where
  "store a v = (\<lambda>(l, g). (l, g\<lparr>g_mem := (g_mem g)(a := v)\<rparr>))"

definition store64 :: "u64 \<Rightarrow> u64 \<Rightarrow> step" where
  "store64 a v = (\<lambda>(l, g). (l, g\<lparr>g_mem := (g_mem g)(a := ucast v, a + 4 := ucast (drop_bit 32 v))\<rparr>))"

definition copy :: "u64 \<Rightarrow> u64 \<Rightarrow> step" where
  "copy dst src = (\<lambda>(l, g). store dst (g_mem g src) (l, g))"

text \<open>
  The report of a mismatch, with \<^verbatim>\<open>ptCurrentValue[*ptErrCount++]\<close> last: the postfix operator binds
  to the pointer, so the word it points to is read and the pointer of this thread moves on.
\<close>

definition report :: "u64 \<Rightarrow> u64 \<Rightarrow> u64 \<Rightarrow> step" where
  "report addr expd cur = (\<lambda>(l, g).
     let c = g_cnt g l in
     if c < MAX_ERR_RECORD_COUNT
     then (Suc l, g\<lparr>g_failed := (g_failed g)(unat c := addr), g_expected := (g_expected g)(unat c := expd),
                    g_current := (g_current g)(unat c := cur)\<rparr>)
     else (l, g))"

definition check :: "u64 \<Rightarrow> u32 \<Rightarrow> step" where
  "check a p = (\<lambda>(l, g).
     if g_mem g a \<noteq> p then report a (ucast p) (ucast (g_mem g a)) (l, g) else (l, g))"

definition check64 :: "u64 \<Rightarrow> u64 \<Rightarrow> step" where
  "check64 a p = (\<lambda>(l, g). if load64 g a \<noteq> p then report a p (load64 g a) (l, g) else (l, g))"

definition checked_store :: "u64 \<Rightarrow> u32 \<Rightarrow> u32 \<Rightarrow> step" where
  "checked_store a p1 p2 = (\<lambda>x. store a p2 (check a p1 x))"

section \<open>Test 0: walking one bit of the address\<close>

text \<open>
  The loop of all four kernels: the addresses it visits after the first and their patterns.  It
  does not end when no bit above the block is clear in the address, where the mask becomes 0.
\<close>

partial_function (option) walk ::
  "u64 \<Rightarrow> u64 \<Rightarrow> u64 \<Rightarrow> u64 \<Rightarrow> u32 \<Rightarrow> (u64 \<times> u32) list option" where
  "walk orig_ptr end_ptr ptr msk pattern =
     (if \<not> ptr < end_ptr then Some []
      else
        let ptr = orig_ptr OR msk in
        if ptr = orig_ptr then walk orig_ptr end_ptr ptr (push_bit 1 msk) pattern
        else if end_ptr \<le> ptr then Some []
        else Option.bind (walk orig_ptr end_ptr ptr (push_bit 1 msk) (push_bit 1 pattern))
               (\<lambda>w. Some ((ptr, pattern) # w)))"

definition kernel_test0_global_write :: "u64 \<Rightarrow> u64 \<Rightarrow> step list option" where
  "kernel_test0_global_write p end_ptr =
     map_option (\<lambda>w. store p 1 # map (\<lambda>(a, v). store a v) w) (walk p end_ptr p 4 1)"

definition kernel_test0_write :: "u64 \<Rightarrow> u64 \<Rightarrow> nat \<Rightarrow> step list option" where
  "kernel_test0_write p end_ptr b =
     (let orig_ptr = block_ptr p b in
      if end_ptr \<le> orig_ptr then Some []
      else map_option (\<lambda>w. store orig_ptr 1 # map (\<lambda>(a, v). store a v) w)
             (walk orig_ptr (orig_ptr + BLOCKSIZE) orig_ptr 4 1))"

text \<open>The global read compares 64 bits at the first address and reports all others unconditionally.\<close>

definition report64 :: "u64 \<Rightarrow> u32 \<Rightarrow> step" where
  "report64 a v = (\<lambda>(l, g). report a (ucast v) (load64 g a) (l, g))"

definition kernel_test0_global_read :: "u64 \<Rightarrow> u64 \<Rightarrow> step list option" where
  "kernel_test0_global_read p end_ptr =
     map_option (\<lambda>w. check64 p 1 # map (\<lambda>(a, v). report64 a v) w) (walk p end_ptr p 4 1)"

definition kernel_test0_read :: "u64 \<Rightarrow> u64 \<Rightarrow> nat \<Rightarrow> step list option" where
  "kernel_test0_read p end_ptr b =
     (let orig_ptr = block_ptr p b in
      if end_ptr \<le> orig_ptr then Some []
      else map_option (\<lambda>w. check orig_ptr 1 # map (\<lambda>(a, v). check a v) w)
             (walk orig_ptr (orig_ptr + BLOCKSIZE) orig_ptr 4 1))"

section \<open>Test 1: own address\<close>

definition kernel_test1_write :: "u64 \<Rightarrow> u64 \<Rightarrow> nat \<Rightarrow> step list" where
  "kernel_test1_write p end_ptr b =
     (let ptr = block_ptr p b in
      if end_ptr \<le> ptr then []
      else map (\<lambda>i. store64 (ptr + of_nat (8 * i)) (ptr + of_nat (8 * i))) [0..<words64])"

definition kernel_test1_read :: "u64 \<Rightarrow> u64 \<Rightarrow> nat \<Rightarrow> step list" where
  "kernel_test1_read p end_ptr b =
     (let ptr = block_ptr p b in
      if end_ptr \<le> ptr then []
      else map (\<lambda>i. check64 (ptr + of_nat (8 * i)) (ptr + of_nat (8 * i))) [0..<words64])"

section \<open>Tests 2, 3, 4 and 9: moving inversions\<close>

definition kernel_move_inv_write :: "u64 \<Rightarrow> u64 \<Rightarrow> u32 \<Rightarrow> nat \<Rightarrow> step list" where
  "kernel_move_inv_write p end_ptr pattern b =
     (let ptr = block_ptr p b in
      if end_ptr \<le> ptr then [] else map (\<lambda>i. store (cell ptr i) pattern) [0..<words32])"

definition kernel_move_inv_readwrite :: "u64 \<Rightarrow> u64 \<Rightarrow> u32 \<Rightarrow> u32 \<Rightarrow> nat \<Rightarrow> step list" where
  "kernel_move_inv_readwrite p end_ptr p1 p2 b =
     (let ptr = block_ptr p b in
      if end_ptr \<le> ptr then [] else map (\<lambda>i. checked_store (cell ptr i) p1 p2) [0..<words32])"

definition kernel_move_inv_read :: "u64 \<Rightarrow> u64 \<Rightarrow> u32 \<Rightarrow> nat \<Rightarrow> step list" where
  "kernel_move_inv_read p end_ptr pattern b =
     (let ptr = block_ptr p b in
      if end_ptr \<le> ptr then [] else map (\<lambda>i. check (cell ptr i) pattern) [0..<words32])"

section \<open>Test 5: block move\<close>

text \<open>The values of \<^verbatim>\<open>p1\<close> in the groups of sixteen words.\<close>

fun test5_patterns :: "nat \<Rightarrow> u32 \<Rightarrow> u32 list" where
  "test5_patterns 0 p1 = []"
| "test5_patterns (Suc n) p1 =
     p1 # test5_patterns n (let q = push_bit 1 p1 in if q = 0 then 1 else q)"

definition test5_group :: "u32 \<Rightarrow> u32 list" where
  "test5_group p1 = (let p2 = NOT p1 in
     [p1, p1, p2, p2, p1, p1, p2, p2, p1, p1, p2, p2, p1, p1, p2, p2])"

definition kernel_test5_init :: "u64 \<Rightarrow> u64 \<Rightarrow> nat \<Rightarrow> step list" where
  "kernel_test5_init p end_ptr b =
     (let ptr = block_ptr p b in
      if end_ptr \<le> ptr then []
      else map (\<lambda>(i, v). store (cell ptr i) v)
             (enumerate 0 (concat (map test5_group (test5_patterns (words32 div 16) 1)))))"

definition kernel_test5_move :: "u64 \<Rightarrow> u64 \<Rightarrow> nat \<Rightarrow> step list" where
  "kernel_test5_move p end_ptr b =
     (let ptr = block_ptr p b in
      if end_ptr \<le> ptr then []
      else
        let half_count = words32 div 2; ptr_mid = cell ptr half_count in
        map (\<lambda>i. copy (cell ptr_mid i) (cell ptr i)) [0..<half_count] @
        map (\<lambda>i. copy (cell ptr (i + 8)) (cell ptr_mid i)) [0..<half_count - 8] @
        map (\<lambda>i. copy (cell ptr i) (cell ptr_mid (half_count - 8 + i))) [0..<8])"

definition check_pair :: "u64 \<Rightarrow> u64 \<Rightarrow> step" where
  "check_pair a a1 = (\<lambda>(l, g).
     if g_mem g a \<noteq> g_mem g a1 then report a (ucast (g_mem g a1)) (ucast (g_mem g a)) (l, g) else (l, g))"

definition kernel_test5_check :: "u64 \<Rightarrow> u64 \<Rightarrow> nat \<Rightarrow> step list" where
  "kernel_test5_check p end_ptr b =
     (let ptr = block_ptr p b in
      if end_ptr \<le> ptr then []
      else map (\<lambda>j. check_pair (cell ptr (2 * j)) (cell ptr (2 * j + 1))) [0..<words32 div 2])"

section \<open>Test 6: moving inversions with a 32-bit pattern\<close>

text \<open>The values of \<^verbatim>\<open>pat\<close> in the first \<open>n\<close> rounds of the loop.\<close>

fun movinv32_pats :: "nat \<Rightarrow> nat \<Rightarrow> u32 \<Rightarrow> u32 \<Rightarrow> u32 \<Rightarrow> u32 list" where
  "movinv32_pats 0 k pat lb sval = []"
| "movinv32_pats (Suc n) k pat lb sval =
     pat # (if 32 \<le> k + 1 then movinv32_pats n 0 lb lb sval
            else movinv32_pats n (k + 1) (push_bit 1 pat OR sval) lb sval)"

definition kernel_movinv32_write :: "u64 \<Rightarrow> u64 \<Rightarrow> u32 \<Rightarrow> u32 \<Rightarrow> u32 \<Rightarrow> nat \<Rightarrow> nat \<Rightarrow> step list" where
  "kernel_movinv32_write p end_ptr pattern lb sval offset b =
     (let ptr = block_ptr p b in
      if end_ptr \<le> ptr then []
      else map (\<lambda>(i, pat). store (cell ptr i) pat) (enumerate 0 (movinv32_pats words32 offset pattern lb sval)))"

definition kernel_movinv32_readwrite :: "u64 \<Rightarrow> u64 \<Rightarrow> u32 \<Rightarrow> u32 \<Rightarrow> u32 \<Rightarrow> nat \<Rightarrow> nat \<Rightarrow> step list" where
  "kernel_movinv32_readwrite p end_ptr pattern lb sval offset b =
     (let ptr = block_ptr p b in
      if end_ptr \<le> ptr then []
      else map (\<lambda>(i, pat). checked_store (cell ptr i) pat (NOT pat))
             (enumerate 0 (movinv32_pats words32 offset pattern lb sval)))"

text \<open>This kernel takes its block from the dimension of the launch, not from the block's index.\<close>

definition kernel_movinv32_read ::
  "u64 \<Rightarrow> u64 \<Rightarrow> u32 \<Rightarrow> u32 \<Rightarrow> u32 \<Rightarrow> nat \<Rightarrow> nat \<Rightarrow> step list" where
  "kernel_movinv32_read p end_ptr pattern lb sval offset hipBlockDim_x =
     (let ptr = block_ptr p hipBlockDim_x in
      if end_ptr \<le> ptr then []
      else map (\<lambda>(i, pat). check (cell ptr i) (NOT pat))
             (enumerate 0 (movinv32_pats words32 offset pattern lb sval)))"

section \<open>Test 7: random numbers\<close>

definition kernel_test7_write :: "u64 \<Rightarrow> u64 \<Rightarrow> u64 \<Rightarrow> nat \<Rightarrow> step list" where
  "kernel_test7_write p end_ptr start_ptr b =
     (let ptr = block_ptr p b in
      if end_ptr \<le> ptr then [] else map (\<lambda>i. copy (cell ptr i) (cell start_ptr i)) [0..<words32])"

definition kernel_test7_readwrite :: "u64 \<Rightarrow> u64 \<Rightarrow> u64 \<Rightarrow> nat \<Rightarrow> step list" where
  "kernel_test7_readwrite p end_ptr start_ptr b =
     (let ptr = block_ptr p b in
      if end_ptr \<le> ptr then []
      else map (\<lambda>i (l, g). checked_store (cell ptr i) (g_mem g (cell start_ptr i))
                             (NOT (g_mem g (cell start_ptr i))) (l, g)) [0..<words32])"

definition kernel_test7_read :: "u64 \<Rightarrow> u64 \<Rightarrow> u64 \<Rightarrow> nat \<Rightarrow> step list" where
  "kernel_test7_read p end_ptr start_ptr b =
     (let ptr = block_ptr p b in
      if end_ptr \<le> ptr then []
      else map (\<lambda>i (l, g). check (cell ptr i) (NOT (g_mem g (cell start_ptr i))) (l, g)) [0..<words32])"

section \<open>Test 8: modulo 20\<close>

text \<open>Both kernels take their block from the dimension of the launch.\<close>

definition kernel_modtest_write :: "u64 \<Rightarrow> u64 \<Rightarrow> nat \<Rightarrow> u32 \<Rightarrow> u32 \<Rightarrow> nat \<Rightarrow> step list" where
  "kernel_modtest_write p end_ptr offset p1 p2 hipBlockDim_x =
     (let ptr = block_ptr p hipBlockDim_x in
      if end_ptr \<le> ptr then []
      else map (\<lambda>i. store (cell ptr i) p1) (filter (\<lambda>i. offset \<le> i \<and> (i - offset) mod MOD_SZ = 0) [0..<words32]) @
           map (\<lambda>i. store (cell ptr i) p2) (filter (\<lambda>i. i mod MOD_SZ \<noteq> offset) [0..<words32]))"

definition kernel_modtest_read :: "u64 \<Rightarrow> u64 \<Rightarrow> nat \<Rightarrow> u32 \<Rightarrow> nat \<Rightarrow> step list" where
  "kernel_modtest_read p end_ptr offset p1 hipBlockDim_x =
     (let ptr = block_ptr p hipBlockDim_x in
      if end_ptr \<le> ptr then []
      else map (\<lambda>i. check (cell ptr i) p1)
             (filter (\<lambda>i. offset \<le> i \<and> (i - offset) mod MOD_SZ = 0) [0..<words32]))"

section \<open>Test 10: stress\<close>

text \<open>
  The share of a block in bytes and the indexes of a thread: the full rounds and the rest.  The
  size arrives as a 32-bit integer and is divided as an unsigned one.
\<close>

definition STRESS_GRIDSIZE :: nat where "STRESS_GRIDSIZE = 1024 * 32"
definition STRESS_BLOCKSIZE :: nat where "STRESS_BLOCKSIZE = 64"

definition avenumber :: "u32 \<Rightarrow> nat" where
  "avenumber memsize = unat memsize div STRESS_GRIDSIZE"

definition stress_indexes :: "u32 \<Rightarrow> nat \<Rightarrow> nat list" where
  "stress_indexes memsize threadIdx =
     (let n = avenumber memsize div (STRESS_BLOCKSIZE * 8);
          rest = n * STRESS_BLOCKSIZE + threadIdx
      in map (\<lambda>i. i * STRESS_BLOCKSIZE + threadIdx) [0..<n] @ (if rest * 8 < avenumber memsize then [rest] else []))"

definition stress_addr :: "u64 \<Rightarrow> u32 \<Rightarrow> nat \<Rightarrow> nat \<Rightarrow> u64" where
  "stress_addr p memsize b index = p + of_nat (b * avenumber memsize) + of_nat (8 * index)"

definition test10_kernel_write :: "u64 \<Rightarrow> u32 \<Rightarrow> u64 \<Rightarrow> nat \<Rightarrow> nat \<Rightarrow> step list" where
  "test10_kernel_write p memsize p1 b threadIdx =
     map (\<lambda>index. store64 (stress_addr p memsize b index) p1) (stress_indexes memsize threadIdx)"

definition test10_kernel_readwrite :: "u64 \<Rightarrow> u32 \<Rightarrow> u64 \<Rightarrow> u64 \<Rightarrow> nat \<Rightarrow> nat \<Rightarrow> step list" where
  "test10_kernel_readwrite p memsize p1 p2 b threadIdx =
     map (\<lambda>index x. store64 (stress_addr p memsize b index) p2 (check64 (stress_addr p memsize b index) p1 x))
       (stress_indexes memsize threadIdx)"

section \<open>A launch\<close>

text \<open>
  An event lets one thread take its next step, or changes the memory.  When the events are used
  up, the threads that are left finish one after the other.
\<close>

datatype event = Thread nat | Upset "(u64 \<Rightarrow> u32) \<Rightarrow> u64 \<Rightarrow> u32"

type_synonym threads = "(nat \<times> step list) list"

definition run_thread :: "nat \<times> step list \<Rightarrow> gpu \<Rightarrow> gpu" where
  "run_thread t g = snd (fold (\<lambda>s x. s x) (snd t) (fst t, g))"

fun run_events :: "event list \<Rightarrow> threads \<Rightarrow> gpu \<Rightarrow> gpu" where
  "run_events [] ts g = fold run_thread ts g"
| "run_events (Upset f # es) ts g = run_events es ts (g\<lparr>g_mem := f (g_mem g)\<rparr>)"
| "run_events (Thread n # es) ts g =
     (if n < length ts
      then (case ts ! n of
              (l, []) \<Rightarrow> run_events es ts g
            | (l, s # ss) \<Rightarrow> (case s (l, g) of (l', g') \<Rightarrow> run_events es (ts[n := (l', ss)]) g'))
      else run_events es ts g)"

definition launch_threads :: "(nat \<Rightarrow> nat \<Rightarrow> step list) \<Rightarrow> nat \<Rightarrow> nat \<Rightarrow> threads" where
  "launch_threads kern blocks threadsPerBlock =
     map (\<lambda>(b, t). (0, kern b t)) (List.product [0..<blocks] [0..<threadsPerBlock])"

end
