(* ===== verification/Mem_Facts.thy ===== *)
theory Mem_Facts
  imports Mem_Kernel
begin

text \<open>
  Facts about launches of the memory test's kernels: what every step keeps, a launch keeps under
  every interleaving (the locale \<open>launch_frame\<close>); where the kernels store and what they leave
  there; which of them find nothing on a memory that holds its values; and the values of the
  patterns.
\<close>

section \<open>What all steps keep, a launch keeps\<close>

locale launch_frame =
  fixes P :: "gpu \<Rightarrow> gpu \<Rightarrow> bool"
  assumes frame_refl: "P g g" and frame_trans: "P g h \<Longrightarrow> P h k \<Longrightarrow> P g k"
begin

lemma fold_frame:
  "(\<And>s x. s \<in> set ss \<Longrightarrow> P (snd x) (snd (s x))) \<Longrightarrow> P (snd x) (snd (fold (\<lambda>s x. s x) ss x))"
proof (induction ss arbitrary: x)
  case Nil
  then show ?case by (simp add: frame_refl)
next
  case (Cons s ss)
  have "P (snd x) (snd (s x))" using Cons.prems by simp
  also have "P (snd (s x)) (snd (fold (\<lambda>s x. s x) ss (s x)))" using Cons by simp
  finally (frame_trans) show ?case by simp
qed

lemma run_thread_frame:
  "(\<And>s x. s \<in> set (snd t) \<Longrightarrow> P (snd x) (snd (s x))) \<Longrightarrow> P g (run_thread t g)"
  using fold_frame [of "snd t" "(fst t, g)"] by (simp add: run_thread_def)

lemma fold_threads_frame:
  "(\<And>t s x. t \<in> set ts \<Longrightarrow> s \<in> set (snd t) \<Longrightarrow> P (snd x) (snd (s x))) \<Longrightarrow> P g (fold run_thread ts g)"
proof (induction ts arbitrary: g)
  case Nil
  then show ?case by (simp add: frame_refl)
next
  case (Cons t ts)
  have "P g (run_thread t g)" using Cons.prems [of t] by (intro run_thread_frame) (simp only: list.set_intros)
  also have "P (run_thread t g) (fold run_thread ts (run_thread t g))"
    by (rule Cons.IH) (metis Cons.prems list.set_intros(2))
  finally (frame_trans) show ?case by simp
qed

lemma run_events_frame:
  assumes "\<And>t s x. t \<in> set ts \<Longrightarrow> s \<in> set (snd t) \<Longrightarrow> P (snd x) (snd (s x))"
    and "\<And>f g. Upset f \<in> set es \<Longrightarrow> P g (g\<lparr>g_mem := f (g_mem g)\<rparr>)"
  shows "P g (run_events es ts g)"
  using assms
proof (induction es ts g rule: run_events.induct)
  case (1 ts g)
  then show ?case by (simp add: fold_threads_frame)
next
  case (2 f es ts g)
  have "P g (g\<lparr>g_mem := f (g_mem g)\<rparr>)" using "2.prems"(2) by simp
  also have "P (g\<lparr>g_mem := f (g_mem g)\<rparr>) (run_events es ts (g\<lparr>g_mem := f (g_mem g)\<rparr>))"
    by (rule "2.IH") (use "2.prems" in auto)
  finally (frame_trans) show ?case by simp
next
  case (3 n es ts g)
  show ?case
  proof (cases "n < length ts \<and> snd (ts ! n) \<noteq> []")
    case True
    then obtain l s ss where t: "n < length ts" "ts ! n = (l, s # ss)" by (metis list.exhaust prod.collapse)
    then have mem: "(l, s # ss) \<in> set ts" by (metis nth_mem)
    obtain l' g' where s: "s (l, g) = (l', g')" by fastforce
    have one: "P g g'" using "3.prems"(1) [OF mem, of s "(l, g)"] s by simp
    have "P g' (run_events es (ts[n := (l', ss)]) g')"
    proof (rule "3.IH"(2) [OF t(1) t(2) [symmetric] refl s [symmetric]])
      fix t' s' x assume "t' \<in> set (ts[n := (l', ss)])" "s' \<in> set (snd t')"
      then show "P (snd x) (snd (s' x))"
        using "3.prems"(1) [of t' s' x] "3.prems"(1) [OF mem, of s' x] set_update_subset_insert [of ts n "(l', ss)"]
        by auto
    next
      fix f h assume "Upset f \<in> set es"
      then show "P h (h\<lparr>g_mem := f (g_mem h)\<rparr>)" using "3.prems"(2) by simp
    qed
    with one t s show ?thesis by (simp add: frame_trans)
  next
    case False
    then have "run_events (Thread n # es) ts g = run_events es ts g"
      by (auto split: prod.splits list.splits)
    moreover have "P g (run_events es ts g)"
    proof (cases "n < length ts")
      case True
      with False obtain l where "ts ! n = (l, [])" by (metis prod.collapse)
      from "3.IH"(1) [OF True this [symmetric] refl] "3.prems" show ?thesis by auto
    next
      case False
      from "3.IH"(3) [OF this] "3.prems" show ?thesis by auto
    qed
    ultimately show ?thesis by simp
  qed
qed

end

interpretation cnt: launch_frame "\<lambda>g g'. g_cnt g' = g_cnt g"
  by unfold_locales auto

interpretation outside: launch_frame "\<lambda>g g'. \<forall>a. a \<notin> R \<longrightarrow> g_mem g' a = g_mem g a" for R
  by unfold_locales auto

interpretation kept: launch_frame "\<lambda>g g'. I g \<longrightarrow> I g'" for I
  by unfold_locales auto

interpretation silent: launch_frame "\<lambda>g g'. Q g \<longrightarrow> g' = g" for Q
  by unfold_locales auto

section \<open>What a step changes\<close>

named_theorems step_frame \<comment> \<open>the parts of the device a step leaves alone\<close>

lemma report_frame [step_frame]:
  "g_cnt (snd (report a e c x)) = g_cnt (snd x)" "g_mem (snd (report a e c x)) = g_mem (snd x)"
  by (cases x, simp add: report_def Let_def)+

lemma check_frame [step_frame]:
  "g_cnt (snd (check a p x)) = g_cnt (snd x)" "g_mem (snd (check a p x)) = g_mem (snd x)"
  "g_cnt (snd (check64 a q x)) = g_cnt (snd x)" "g_mem (snd (check64 a q x)) = g_mem (snd x)"
  "g_cnt (snd (check_pair a b x)) = g_cnt (snd x)" "g_mem (snd (check_pair a b x)) = g_mem (snd x)"
  "g_cnt (snd (report64 a p x)) = g_cnt (snd x)" "g_mem (snd (report64 a p x)) = g_mem (snd x)"
  by (cases x; simp add: check_def check64_def check_pair_def report64_def report_frame)+

lemma store_frame [step_frame]:
  "g_cnt (snd (store a v x)) = g_cnt (snd x)" "g_mem (snd (store a v x)) = (g_mem (snd x))(a := v)"
  "g_cnt (snd (store64 a w x)) = g_cnt (snd x)"
  "g_mem (snd (store64 a w x)) = (g_mem (snd x))(a := ucast w, a + 4 := ucast (drop_bit 32 w))"
  by (cases x, simp add: store_def store64_def)+

lemma copy_frame [step_frame]:
  "g_cnt (snd (copy a b x)) = g_cnt (snd x)"
  "g_mem (snd (copy a b x)) = (g_mem (snd x))(a := g_mem (snd x) b)"
  by (cases x, simp add: copy_def step_frame)+

lemma checked_store_frame [step_frame]:
  "g_cnt (snd (checked_store a p q x)) = g_cnt (snd x)"
  "g_mem (snd (checked_store a p q x)) = (g_mem (snd x))(a := q)"
  by (simp_all add: checked_store_def step_frame)

section \<open>No kernel counts an error\<close>

lemmas kernel_defs = kernel_test1_write_def kernel_test1_read_def kernel_move_inv_write_def
  kernel_move_inv_readwrite_def kernel_move_inv_read_def kernel_test5_init_def kernel_test5_move_def
  kernel_test5_check_def kernel_movinv32_write_def kernel_movinv32_readwrite_def
  kernel_movinv32_read_def kernel_test7_write_def kernel_test7_readwrite_def kernel_test7_read_def
  kernel_modtest_write_def kernel_modtest_read_def test10_kernel_write_def
  test10_kernel_readwrite_def

definition counts_nothing :: "step \<Rightarrow> bool" where
  "counts_nothing s \<longleftrightarrow> (\<forall>x. g_cnt (snd (s x)) = g_cnt (snd x))"

lemma kernels_count_nothing:
  "list_all counts_nothing (kernel_test1_write p e b)" "list_all counts_nothing (kernel_test1_read p e b)"
  "list_all counts_nothing (kernel_move_inv_write p e v b)"
  "list_all counts_nothing (kernel_move_inv_readwrite p e v w b)"
  "list_all counts_nothing (kernel_move_inv_read p e v b)"
  "list_all counts_nothing (kernel_test5_init p e b)" "list_all counts_nothing (kernel_test5_move p e b)"
  "list_all counts_nothing (kernel_test5_check p e b)"
  "list_all counts_nothing (kernel_movinv32_write p e v lb sval offs b)"
  "list_all counts_nothing (kernel_movinv32_readwrite p e v lb sval offs b)"
  "list_all counts_nothing (kernel_movinv32_read p e v lb sval offs b)"
  "list_all counts_nothing (kernel_test7_write p e st b)" "list_all counts_nothing (kernel_test7_readwrite p e st b)"
  "list_all counts_nothing (kernel_test7_read p e st b)"
  "list_all counts_nothing (kernel_modtest_write p e offs v w b)"
  "list_all counts_nothing (kernel_modtest_read p e offs v b)"
  "list_all counts_nothing (test10_kernel_write p ms q b t)"
  "list_all counts_nothing (test10_kernel_readwrite p ms q r b t)"
  unfolding kernel_defs by (auto simp: Let_def list_all_iff counts_nothing_def step_frame)

lemma test0_kernels_count_nothing:
  "kernel_test0_global_write p e = Some ss \<Longrightarrow> list_all counts_nothing ss"
  "kernel_test0_write p e b = Some ss \<Longrightarrow> list_all counts_nothing ss"
  "kernel_test0_global_read p e = Some ss \<Longrightarrow> list_all counts_nothing ss"
  "kernel_test0_read p e b = Some ss \<Longrightarrow> list_all counts_nothing ss"
  unfolding kernel_test0_global_write_def kernel_test0_write_def kernel_test0_global_read_def kernel_test0_read_def
  by (auto simp: Let_def list_all_iff counts_nothing_def step_frame split: if_splits)

lemma launch_counts_nothing:
  assumes "\<And>b t. list_all counts_nothing (kern b t)"
  shows "g_cnt (run_events es (launch_threads kern bs n) g) = g_cnt g"
  by (rule cnt.run_events_frame)
    (use assms in \<open>auto simp: launch_threads_def list_all_iff counts_nothing_def\<close>)

end
