(* ===== verification/Mem_Host.thy ===== *)
theory Mem_Host
  imports Mem_Kernel Action_Base "HOL-Library.Monad_Syntax"
begin

text \<open>
  The host side of the memory test, \<^verbatim>\<open>mem.so/src/rvs_memtest.cpp\<close>: the eleven test functions, the
  collection of the errors the kernels counted, and the messages.  The environment gives the
  events of each launch, the random numbers and the measured times.
\<close>

record memdata =
  md_action_name :: string
  md_gpu_idx :: u64
  md_blocks :: u64
  md_threadsPerBlock :: u64
  md_num_passes :: u64
  md_num_iterations :: u64
  md_global_pattern :: u64
  md_global_pattern_long :: u64

record mem_env =
  e_events :: "nat \<Rightarrow> event list"   \<comment> \<open>of the launch of this number\<close>
  e_random :: "nat \<Rightarrow> u32"          \<comment> \<open>what \<^verbatim>\<open>get_random_num\<close> returns, call by call\<close>
  e_elapsed :: "nat \<Rightarrow> string"       \<comment> \<open>the text of time and bandwidth in the stress test\<close>
  e_tdiff :: "nat \<Rightarrow> string"

datatype mem_event = Mem_log string int | Mem_err string | Mem_json "(string \<times> string) list" int
  | Mem_json_open string | Mem_json_close

record host =
  h_gpu :: gpu
  h_launches :: nat
  h_randoms :: nat
  h_events :: "mem_event list"

definition mem_log :: "string \<Rightarrow> int \<Rightarrow> host \<Rightarrow> host" where
  "mem_log msg level h = h\<lparr>h_events := h_events h @ [Mem_log msg level]\<rparr>"

definition lead :: "memdata \<Rightarrow> string" where
  "lead md = ''['' @ md_action_name md @ ''] mem ''"

text \<open>The dimensions of a launch are 32-bit; 0 blocks or threads run nothing.\<close>

definition grid_dim :: "u64 \<Rightarrow> nat" where
  "grid_dim n = unat (ucast n :: u32)"

definition launch_on :: "mem_env \<Rightarrow> nat \<Rightarrow> nat \<Rightarrow> (nat \<Rightarrow> nat \<Rightarrow> step list) \<Rightarrow> host \<Rightarrow> host" where
  "launch_on env blocks threads kern h =
     h\<lparr>h_gpu := run_events (e_events env (h_launches h)) (launch_threads kern blocks threads) (h_gpu h),
       h_launches := Suc (h_launches h)\<rparr>"

definition launch :: "mem_env \<Rightarrow> memdata \<Rightarrow> (nat \<Rightarrow> step list) \<Rightarrow> host \<Rightarrow> host" where
  "launch env md kern =
     launch_on env (grid_dim (md_blocks md)) (grid_dim (md_threadsPerBlock md)) (\<lambda>b t. kern b)"

definition get_random_num :: "mem_env \<Rightarrow> host \<Rightarrow> u32 \<times> host" where
  "get_random_num env h = (e_random env (h_randoms h), h\<lparr>h_randoms := Suc (h_randoms h)\<rparr>)"

definition get_random_num_long :: "mem_env \<Rightarrow> host \<Rightarrow> u64 \<times> host" where
  "get_random_num_long env h =
     (let (a, h) = get_random_num env h; (b, h) = get_random_num env h
      in (push_bit 32 (ucast a) OR ucast b, h))"

definition show_progress :: "memdata \<Rightarrow> string \<Rightarrow> nat \<Rightarrow> nat \<Rightarrow> host \<Rightarrow> host" where
  "show_progress md msg i tot_num_blocks h =
     (let num_checked_blocks = (if i + GRIDSIZE \<le> tot_num_blocks then i + GRIDSIZE else tot_num_blocks)
      in mem_log (lead md @ to_string (unat (md_gpu_idx md)) @ msg @ '': '' @ to_string num_checked_blocks
           @ '' out of '' @ to_string tot_num_blocks @ '' blocks finished'') loginfo h)"

definition u32_text :: "u32 \<Rightarrow> string" where "u32_text v = to_string (unat v)"
definition u64_text :: "u64 \<Rightarrow> string" where "u64_text v = to_string (unat v)"

definition clear10 :: "(nat \<Rightarrow> u64) \<Rightarrow> nat \<Rightarrow> u64" where
  "clear10 f = (\<lambda>i. if i < unat MAX_ERR_RECORD_COUNT then 0 else f i)"

definition error_checking :: "memdata \<Rightarrow> string \<Rightarrow> nat \<Rightarrow> host \<Rightarrow> u32 \<times> host" where
  "error_checking md pmsg blockidx h =
     (let g = h_gpu h; numOfErrors = g_cnt g 0 in
      if numOfErrors = 0 then (0, h)
      else
        let reported_errors = (if MAX_ERR_RECORD_COUNT < numOfErrors then MAX_ERR_RECORD_COUNT else numOfErrors);
            n = unat reported_errors;
            h = mem_log (lead md @ pmsg @ '' block id :'' @ to_string blockidx) loginfo h;
            h = mem_log (lead md @ ''Number of errors :'' @ u32_text numOfErrors) loginfo h;
            h = mem_log (lead md @ ''ERROR: the last : '' @ u32_text reported_errors
                  @ '' : error addresses are: '' @ nl) loginfo h;
            h = fold (\<lambda>i. mem_log (lead md @ u64_text (g_failed g i) @ '' '' @ nl @ '' '') loginfo) [0..<n] h;
            h = mem_log (lead md @ ''ERROR: the last :'' @ u32_text reported_errors
                  @ '' : error details are : '' @ nl) loginfo h;
            h = fold (\<lambda>i. mem_log (lead md @ '' ERROR:'' @ to_string i @ '' th error, expected value=0x''
                  @ u64_text (g_expected g i) @ ''current value=0x'' @ u64_text (g_current g i)
                  @ ''current value=0x'' @ u64_text (g_current g i) @ '' second_ read=0x '' @ to_string 0
                  @ nl @ '' '' @ nl) loginfo) [0..<n] h
        in (numOfErrors,
            h\<lparr>h_gpu := g\<lparr>g_cnt := (g_cnt g)(0 := 0), g_failed := clear10 (g_failed g),
                 g_expected := clear10 (g_expected g), g_current := clear10 (g_current g)\<rparr>\<rparr>))"

section \<open>The loops over the blocks\<close>

text \<open>
  \<^verbatim>\<open>for (i = ...; i < tot_num_blocks; i += GRIDSIZE)\<close>: the values of the 32-bit counter \<open>i\<close>.  It wraps
  around, so the loop does not end (\<open>None\<close>) when \<open>tot_num_blocks\<close> is too close to \<open>2 ^ 32\<close>.
\<close>

partial_function (option) grid_from :: "u32 \<Rightarrow> u32 \<Rightarrow> nat list option" where
  "grid_from i tot =
     (if i < tot then do { is \<leftarrow> grid_from (i + of_nat GRIDSIZE) tot; Some (unat i # is) } else Some [])"

definition write_blocks ::
  "mem_env \<Rightarrow> memdata \<Rightarrow> string \<Rightarrow> nat \<Rightarrow> (nat \<Rightarrow> nat \<Rightarrow> step list) \<Rightarrow> nat list \<Rightarrow> host \<Rightarrow> host" where
  "write_blocks env md msg tot kern = fold (\<lambda>i h. show_progress md msg i tot (launch env md (kern i) h))"

definition write_loop ::
  "mem_env \<Rightarrow> memdata \<Rightarrow> string \<Rightarrow> nat \<Rightarrow> nat \<Rightarrow> (nat \<Rightarrow> nat \<Rightarrow> step list) \<Rightarrow> host \<Rightarrow> host option" where
  "write_loop env md msg start tot kern h =
     do { is \<leftarrow> grid_from (of_nat start) (of_nat tot); Some (write_blocks env md msg tot kern is h) }"

definition read_blocks ::
  "mem_env \<Rightarrow> memdata \<Rightarrow> string \<Rightarrow> string \<Rightarrow> nat \<Rightarrow> (nat \<Rightarrow> nat \<Rightarrow> step list) \<Rightarrow> nat list \<Rightarrow> u32 \<times> host \<Rightarrow> u32 \<times> host" where
  "read_blocks env md emsg msg tot kern =
     fold (\<lambda>i (err, h). case error_checking md emsg i (launch env md (kern i) h) of
                           (n, h) \<Rightarrow> (err + n, show_progress md msg i tot h))"

definition read_loop ::
  "mem_env \<Rightarrow> memdata \<Rightarrow> string \<Rightarrow> string \<Rightarrow> nat \<Rightarrow> nat \<Rightarrow> (nat \<Rightarrow> nat \<Rightarrow> step list) \<Rightarrow> u32 \<times> host \<Rightarrow> (u32 \<times> host) option" where
  "read_loop env md emsg msg start tot kern x =
     do { is \<leftarrow> grid_from (of_nat start) (of_nat tot); Some (read_blocks env md emsg msg tot kern is x) }"

definition end_ptr_of :: "u64 \<Rightarrow> nat \<Rightarrow> u64" where
  "end_ptr_of ptr tot = ptr + of_nat tot * BLOCKSIZE"

definition pass_log :: "memdata \<Rightarrow> string \<Rightarrow> u32 \<times> host \<Rightarrow> u32 \<times> host" where
  "pass_log md t x = (case x of (err, h) \<Rightarrow> (err, if err = 0 then mem_log (lead md @ t) logresults h else h))"

section \<open>The tests\<close>

text \<open>A launch of kernels that may not end: \<open>None\<close>, when one of the threads would run for ever.\<close>

definition launch_opt :: "mem_env \<Rightarrow> memdata \<Rightarrow> (nat \<Rightarrow> step list option) \<Rightarrow> host \<Rightarrow> host option" where
  "launch_opt env md kern h =
     (if 0 < grid_dim (md_threadsPerBlock md) \<and> list_ex (\<lambda>b. kern b = None) [0..<grid_dim (md_blocks md)] then None
      else Some (launch env md (\<lambda>b. the (kern b)) h))"

fun write_loop_opt ::
  "mem_env \<Rightarrow> memdata \<Rightarrow> string \<Rightarrow> nat \<Rightarrow> (nat \<Rightarrow> nat \<Rightarrow> step list option) \<Rightarrow> nat list \<Rightarrow> host \<Rightarrow> host option" where
  "write_loop_opt env md msg tot kern [] h = Some h"
| "write_loop_opt env md msg tot kern (i # is) h =
     Option.bind (launch_opt env md (kern i) h)
       (\<lambda>h. write_loop_opt env md msg tot kern is (show_progress md msg i tot h))"

fun read_loop_opt ::
  "mem_env \<Rightarrow> memdata \<Rightarrow> string \<Rightarrow> string \<Rightarrow> nat \<Rightarrow> (nat \<Rightarrow> nat \<Rightarrow> step list option) \<Rightarrow> nat list
     \<Rightarrow> u32 \<times> host \<Rightarrow> (u32 \<times> host) option" where
  "read_loop_opt env md emsg msg tot kern [] x = Some x"
| "read_loop_opt env md emsg msg tot kern (i # is) (err, h) =
     Option.bind (launch_opt env md (kern i) h)
       (\<lambda>h. case error_checking md emsg i h of
              (n, h) \<Rightarrow> read_loop_opt env md emsg msg tot kern is (err + n, show_progress md msg i tot h))"

text \<open>One pass of test 0 over the blocks: the writes, then the reads.\<close>

definition test0_pass :: "mem_env \<Rightarrow> memdata \<Rightarrow> u64 \<Rightarrow> nat \<Rightarrow> u32 \<times> host \<Rightarrow> (u32 \<times> host) option" where
  "test0_pass env md ptr tot x =
     do {
       is \<leftarrow> grid_from 0 (of_nat tot);
       h \<leftarrow> write_loop_opt env md '' Test 1 on writing :'' tot
              (\<lambda>i. kernel_test0_write (ptr + of_nat i * BLOCKSIZE) (end_ptr_of ptr tot)) is (snd x);
       read_loop_opt env md ''Test 1'' '' Test 1 on reading :'' tot
         (\<lambda>i. kernel_test0_read (ptr + of_nat i * BLOCKSIZE) (end_ptr_of ptr tot)) is (fst x, h)
     }"

text \<open>\<^verbatim>\<open>for (unsigned int ite = 0; ite < memdata.num_passes; ite++)\<close>: a 32-bit counter and a 64-bit bound.\<close>

partial_function (option) test0_passes ::
  "(u32 \<times> host \<Rightarrow> (u32 \<times> host) option) \<Rightarrow> u64 \<Rightarrow> u32 \<Rightarrow> u32 \<Rightarrow> host \<Rightarrow> (u32 \<times> host) option" where
  "test0_passes pass num_passes ite err h =
     (if (ucast ite :: u64) < num_passes
      then Option.bind (pass (err, h)) (\<lambda>y. test0_passes pass num_passes (ite + 1) (fst y) (snd y))
      else Some (err, h))"

definition test0 :: "mem_env \<Rightarrow> memdata \<Rightarrow> u64 \<Rightarrow> nat \<Rightarrow> u32 \<times> host \<Rightarrow> (u32 \<times> host) option" where
  "test0 env md ptr tot x =
     (let h = mem_log (lead md @ ''Test 1: Change one bit memory addresss  '') logresults (snd x);
          e = end_ptr_of ptr tot
      in do {
        h \<leftarrow> launch_opt env md (\<lambda>b. kernel_test0_global_write ptr e) h;
        h \<leftarrow> launch_opt env md (\<lambda>b. kernel_test0_global_read ptr e) h;
        let (err, h) = error_checking md '' Test 1 on global address'' 0 h;
        y \<leftarrow> test0_passes (test0_pass env md ptr tot) (md_num_passes md) 0 err h;
        Some (fst y, mem_log (lead md @ ''Test 1 : PASS'') logresults (snd y))
      })"

definition test1 :: "mem_env \<Rightarrow> memdata \<Rightarrow> u64 \<Rightarrow> nat \<Rightarrow> u32 \<times> host \<Rightarrow> (u32 \<times> host) option" where
  "test1 env md ptr tot x =
     (let (err, h) = x; e = end_ptr_of ptr tot;
          h = mem_log (lead md @ ''Test 2: Each Memory location is filled with its own address'') logresults h
      in do {
        h \<leftarrow> write_loop env md ''Test1 on writing'' 0 tot (\<lambda>i. kernel_test1_write (ptr + of_nat i * BLOCKSIZE) e) h;
        y \<leftarrow> read_loop env md ''Test2 checking :: '' (nl @ ''Test2 on reading'') 0 tot
               (\<lambda>i. kernel_test1_read (ptr + of_nat i * BLOCKSIZE) e) (err, h);
        Some (pass_log md ''Test 2 : PASS'' y)
      })"

definition move_inv_test :: "mem_env \<Rightarrow> memdata \<Rightarrow> u64 \<Rightarrow> nat \<Rightarrow> u32 \<Rightarrow> u32 \<Rightarrow> host \<Rightarrow> (u32 \<times> host) option" where
  "move_inv_test env md ptr tot p1 p2 h =
     (let e = end_ptr_of ptr tot in do {
        h \<leftarrow> write_loop env md ''move_inv_write'' 0 tot
               (\<lambda>i. kernel_move_inv_write (ptr + of_nat i * BLOCKSIZE) e p1) h;
        x \<leftarrow> read_loop env md ''Move inv reading and writing to blocks'' ''move_inv_readwrite'' 0 tot
               (\<lambda>i. kernel_move_inv_readwrite (ptr + of_nat i * BLOCKSIZE) e p1 p2) (0, h);
        read_loop env md ''Move inv reading from blocks'' ''move_inv_read'' 0 tot
          (\<lambda>i. kernel_move_inv_read (ptr + of_nat i * BLOCKSIZE) e p2) x
      })"

definition test2 :: "mem_env \<Rightarrow> memdata \<Rightarrow> u64 \<Rightarrow> nat \<Rightarrow> u32 \<times> host \<Rightarrow> (u32 \<times> host) option" where
  "test2 env md ptr tot x =
     (let p1 = 0; p2 = NOT p1; h = snd x;
          h = mem_log (lead md @ ''Test 3 [Moving inversions, ones&zeros] '' @ u32_text p1 @ '' and '' @ u32_text p2 @ nl)
                logresults h;
          h = mem_log (lead md @ ''Test 3: Moving inversions test, with pattern '' @ u32_text p1 @ '' and ''
                @ u32_text p2 @ nl) loginfo h
      in do {
        (err, h) \<leftarrow> move_inv_test env md ptr tot p1 p2 h;
        let h = (if err = 0
                 then mem_log (lead md @ ''Test 3 Moving inversions test p1 p2 passed, no errors detected '' @ nl) loginfo h
                 else h);
        let h = mem_log (lead md @ ''Test 3: Moving inversions test, with pattern '' @ u32_text p2 @ '' and ''
                  @ u32_text p1 @ nl) loginfo h;
        (err2, h) \<leftarrow> move_inv_test env md ptr tot p2 p1 h;
        Some (pass_log md ''Test 3 : PASS '' (err + err2, h))
      })"

definition test3 :: "mem_env \<Rightarrow> memdata \<Rightarrow> u64 \<Rightarrow> nat \<Rightarrow> u32 \<times> host \<Rightarrow> (u32 \<times> host) option" where
  "test3 env md ptr tot x =
     (let p0 = 0x80 :: u32; p1 = ((p0 OR push_bit 8 p0) OR push_bit 16 p0) OR push_bit 24 p0; p2 = NOT p1; h = snd x;
          h = mem_log (lead md @ ''Test 4 [Moving inversions, 8 bit pat]'' @ u32_text p1 @ '' and '' @ u32_text p2 @ nl)
                logresults h
      in do {
        (err, h) \<leftarrow> move_inv_test env md ptr tot p1 p2 h;
        let h = (if err = 0 then mem_log (lead md @ ''Moving inversions successful'') loginfo h else h);
        let h = mem_log (lead md @ ''Test 4 [Moving inversions, 8 bit pat, reverse]'' @ u32_text p2 @ '' and ''
                  @ u32_text p1 @ nl) loginfo h;
        (err2, h) \<leftarrow> move_inv_test env md ptr tot p2 p1 h;
        Some (pass_log md ''Test 4 : PASS'' (err + err2, h))
      })"

text \<open>
  The label \<^verbatim>\<open>repeat\<close> of test 4: a 32-bit counter of the iterations against a 64-bit bound, so that
  a test that keeps finding errors need not end.
\<close>

partial_function (option) test4_repeat ::
  "mem_env \<Rightarrow> memdata \<Rightarrow> u64 \<Rightarrow> nat \<Rightarrow> u32 \<Rightarrow> u32 \<Rightarrow> u32 \<Rightarrow> u32 \<times> host \<Rightarrow> (u32 \<times> host) option" where
  "test4_repeat env md ptr tot p1 p2 iteration x =
     Option.bind (move_inv_test env md ptr tot p1 p2 (snd x)) (\<lambda>y.
       let loc_err = fst y; h = snd y; err = fst x + loc_err in
       if loc_err = 0 \<and> iteration = 0 then
         Some (err, mem_log (lead md @ ''Test 5 : PASS no errors detected, iterations are zero here'') logresults h)
       else if (ucast iteration :: u64) < md_num_iterations md then
         test4_repeat env md ptr tot p1 p2 (iteration + 1)
           (err, mem_log (lead md @ ''th repeating test4 because there are'' @ u32_text err
                    @ ''errors found in last run'' @ nl) loginfo h)
       else Some (pass_log md ''Test 5 : PASS'' (err, h)))"

definition random_pattern :: "mem_env \<Rightarrow> memdata \<Rightarrow> host \<Rightarrow> u32 \<times> host" where
  "random_pattern env md h =
     (if md_global_pattern md = 0 then get_random_num env h else (ucast (md_global_pattern md), h))"

definition test4 :: "mem_env \<Rightarrow> memdata \<Rightarrow> u64 \<Rightarrow> nat \<Rightarrow> u32 \<times> host \<Rightarrow> (u32 \<times> host) option" where
  "test4 env md ptr tot x =
     (let (err, h) = x;
          h = mem_log (lead md @ ''Test 5 [Moving inversions, random pattern] '' @ nl) logresults h;
          (p1, h) = random_pattern env md h; p2 = NOT p1;
          h = mem_log (lead md @ ''Random number :: p1'' @ u32_text p1 @ '' p2 :: '' @ u32_text p2) loginfo h
      in test4_repeat env md ptr tot p1 p2 0 (err, h))"

definition test5 :: "mem_env \<Rightarrow> memdata \<Rightarrow> u64 \<Rightarrow> nat \<Rightarrow> u32 \<times> host \<Rightarrow> (u32 \<times> host) option" where
  "test5 env md ptr tot x =
     (let (err, h) = x; e = end_ptr_of ptr tot;
          h = mem_log (lead md @ ''Test 6 [Block move, 64 moves]'') logresults h
      in do {
        is \<leftarrow> grid_from 0 (of_nat tot);
        let h = fold (\<lambda>i h. show_progress md ''Test 6[init]'' i tot
                      (launch env md (kernel_test5_init (ptr + of_nat i * BLOCKSIZE) e)
                        (snd (error_checking md ''Intializing Test 6 '' i h)))) is h;
        h \<leftarrow> write_loop env md ''Test 6[move]'' 0 tot (\<lambda>i. kernel_test5_move (ptr + of_nat i * BLOCKSIZE) e) h;
        y \<leftarrow> read_loop env md ''Test 6 checking complete :: '' ''Test 6 [check]'' 0 tot
               (\<lambda>i. kernel_test5_check (ptr + of_nat i * BLOCKSIZE) e) (err, h);
        Some (pass_log md ''Test 6 : PASS'' y)
      })"

definition movinv32 ::
  "mem_env \<Rightarrow> memdata \<Rightarrow> u64 \<Rightarrow> nat \<Rightarrow> u32 \<Rightarrow> u32 \<Rightarrow> u32 \<Rightarrow> nat \<Rightarrow> host \<Rightarrow> (u32 \<times> host) option" where
  "movinv32 env md ptr tot pattern lb sval offset h =
     (let e = end_ptr_of ptr tot in do {
        h \<leftarrow> write_loop env md (nl @ ''Test 7[moving inversion 32 write]'') 0 tot
               (\<lambda>i. kernel_movinv32_write (ptr + of_nat i * BLOCKSIZE) e pattern lb sval offset) h;
        x \<leftarrow> read_loop env md ''Test 7[movinv32], checking for errors :: '' (nl @ ''Test7[moving inversion 32 readwrite]'') 0 tot
               (\<lambda>i. kernel_movinv32_readwrite (ptr + of_nat i * BLOCKSIZE) e pattern lb sval offset) (0, h);
        read_loop env md ''Test 7 [movinv32]'' (nl @ ''Test 7[moving inversion 32 read]'') 0 tot
          (\<lambda>i b. kernel_movinv32_read (ptr + of_nat i * BLOCKSIZE) e pattern lb sval offset
                   (grid_dim (md_threadsPerBlock md))) x
      })"

definition test6 :: "mem_env \<Rightarrow> memdata \<Rightarrow> u64 \<Rightarrow> nat \<Rightarrow> u32 \<times> host \<Rightarrow> (u32 \<times> host) option" where
  "test6 env md ptr tot x =
     (let (err, h) = x;
          h = mem_log (lead md @ ''Test 7 [Moving inversions, 32 bit pat]'') logresults h
      in do {
        y \<leftarrow> fold_option (\<lambda>i (err, h).
               let pattern = push_bit i 1 in do {
                 (n1, h) \<leftarrow> movinv32 env md ptr tot pattern 1 0 i h;
                 (n2, h) \<leftarrow> movinv32 env md ptr tot (NOT pattern) 0xfffffffe 1 i h;
                 Some (err + n1 + n2, h)
               }) [0..<32] (err, h);
        Some (pass_log md ''Test 7 : PASS'' y)
      })"

fun fill_random :: "mem_env \<Rightarrow> u64 \<Rightarrow> nat list \<Rightarrow> host \<Rightarrow> host" where
  "fill_random env ptr [] h = h"
| "fill_random env ptr (i # is) h =
     (case get_random_num env h of
        (v, h) \<Rightarrow> fill_random env ptr is (h\<lparr>h_gpu := (h_gpu h)\<lparr>g_mem := (g_mem (h_gpu h))(cell ptr i := v)\<rparr>\<rparr>))"

text \<open>One round of test 7 over the blocks from 1 on, against the random numbers in block 0.\<close>

definition test7_round :: "mem_env \<Rightarrow> memdata \<Rightarrow> u64 \<Rightarrow> nat \<Rightarrow> u32 \<times> host \<Rightarrow> (u32 \<times> host) option" where
  "test7_round env md ptr tot x =
     (let (err, h) = x; e = end_ptr_of ptr tot in do {
        h \<leftarrow> write_loop env md ''test8_write'' 1 tot (\<lambda>i. kernel_test7_write (ptr + of_nat i * BLOCKSIZE) e ptr) h;
        x \<leftarrow> read_loop env md ''test8_readwrite'' ''test8_readwrite'' 1 tot
               (\<lambda>i. kernel_test7_readwrite (ptr + of_nat i * BLOCKSIZE) e ptr) (err, h);
        read_loop env md ''test8_read'' ''test8_read'' 1 tot
          (\<lambda>i. kernel_test7_read (ptr + of_nat i * BLOCKSIZE) e ptr) x
      })"

partial_function (option) test7_repeat ::
  "mem_env \<Rightarrow> memdata \<Rightarrow> u64 \<Rightarrow> nat \<Rightarrow> u32 \<Rightarrow> u32 \<times> host \<Rightarrow> (u32 \<times> host) option" where
  "test7_repeat env md ptr tot iteration x =
     Option.bind (test7_round env md ptr tot x) (\<lambda>y.
       let err = fst y; h = snd y in
       if err = 0 \<and> iteration = 0 then
         Some (err, mem_log (lead md @ ''Test 8 : PASS no errors detected, iterations are zero here'') logresults h)
       else if (ucast iteration :: u64) < md_num_iterations md then
         test7_repeat env md ptr tot (iteration + 1)
           (0, mem_log (lead md @ ''repeating Test 8 because there are'' @ u32_text err
                  @ '' errors found in last run'') loginfo h)
       else Some (pass_log md ''Test 8 : PASS'' (err, h)))"

definition test7 :: "mem_env \<Rightarrow> memdata \<Rightarrow> u64 \<Rightarrow> nat \<Rightarrow> u32 \<times> host \<Rightarrow> (u32 \<times> host) option" where
  "test7 env md ptr tot x =
     (let (err, h) = x;
          h = mem_log (lead md @ ''Test 8 [Random number sequence]'') logresults h;
          h = fill_random env ptr [0..<words32] h
      in test7_repeat env md ptr tot 0 (err, h))"

definition modtest :: "mem_env \<Rightarrow> memdata \<Rightarrow> u64 \<Rightarrow> nat \<Rightarrow> nat \<Rightarrow> u32 \<Rightarrow> u32 \<Rightarrow> host \<Rightarrow> (u32 \<times> host) option" where
  "modtest env md ptr tot offset p1 p2 h =
     (let e = end_ptr_of ptr tot; d = grid_dim (md_threadsPerBlock md) in do {
        h \<leftarrow> write_loop env md ''test9[mod test, write]'' 0 tot
               (\<lambda>i b. kernel_modtest_write (ptr + of_nat i * BLOCKSIZE) e offset p1 p2 d) h;
        read_loop env md ''test9[mod test, read'' ''test9[mod test, read]'' 0 tot
          (\<lambda>i b. kernel_modtest_read (ptr + of_nat i * BLOCKSIZE) e offset p1 d) (0, h)
      })"

partial_function (option) test8_repeat ::
  "mem_env \<Rightarrow> memdata \<Rightarrow> u64 \<Rightarrow> nat \<Rightarrow> u32 \<Rightarrow> u32 \<Rightarrow> u32 \<Rightarrow> u32 \<times> host \<Rightarrow> (u32 \<times> host) option" where
  "test8_repeat env md ptr tot p1 p2 iteration x =
     Option.bind (fold_option (\<lambda>i (err, h). do { (k, h) \<leftarrow> modtest env md ptr tot i p1 p2 h; Some (err + k, h) })
         [0..<MOD_SZ] x) (\<lambda>y.
       let err = fst y; h = snd y in
       if err = 0 \<and> iteration = 0 then
         Some (err, mem_log (lead md @ ''Test 9 : PASS '' @ nl @ ''no errors detected, iterations are zero here'') logresults h)
       else if (ucast iteration :: u64) < md_num_iterations md then
         test8_repeat env md ptr tot p1 p2 (iteration + 1)
           (0, mem_log (lead md @ u32_text iteration @ ''th repeating Test 9 because there are '' @ u32_text err
                  @ ''errors found in last run, p1= '' @ u32_text p1 @ '' p2= '' @ u32_text p2 @ nl) loginfo h)
       else Some (pass_log md ''Test 9 : PASS'' (err, h)))"

definition test8 :: "mem_env \<Rightarrow> memdata \<Rightarrow> u64 \<Rightarrow> nat \<Rightarrow> u32 \<times> host \<Rightarrow> (u32 \<times> host) option" where
  "test8 env md ptr tot x =
     (let (err, h) = x;
          h = mem_log (lead md @ '' Test 9 [Modulo 20, random pattern]'') logresults h;
          (p1, h) = random_pattern env md h; p2 = NOT p1;
          h = mem_log (lead md @ '' Pattern  p1 '' @ u32_text p1 @ ''pattern  p2 '' @ u32_text p2) loginfo h
      in test8_repeat env md ptr tot p1 p2 0 (err, h))"

text \<open>The two sleeps of test 9 are part of the events of the launches after them.\<close>

definition test9 :: "mem_env \<Rightarrow> memdata \<Rightarrow> u64 \<Rightarrow> nat \<Rightarrow> u32 \<times> host \<Rightarrow> (u32 \<times> host) option" where
  "test9 env md ptr tot x =
     (let (err, h) = x; e = end_ptr_of ptr tot; p1 = 0; p2 = NOT p1;
          h = mem_log (lead md @ ''Test 10 [Bit fade test, 90 min, 2 patterns]'') logresults h
      in do {
        h \<leftarrow> write_loop env md ''test 10[bit fade test, write]: '' 0 tot
               (\<lambda>i. kernel_move_inv_write (ptr + of_nat i * BLOCKSIZE) e p1) h;
        x \<leftarrow> read_loop env md ''test 10[bit fade test, readwrite] :'' ''test 10[bit fade test, readwrite] : '' 0 tot
               (\<lambda>i. kernel_move_inv_readwrite (ptr + of_nat i * BLOCKSIZE) e p1 p2) (err, h);
        y \<leftarrow> read_loop env md ''test 10[bit fade test, read] : '' ''test 10[bit fade test, read] : '' 0 tot
               (\<lambda>i. kernel_move_inv_read (ptr + of_nat i * BLOCKSIZE) e p2) x;
        Some (pass_log md ''Test 10 : PASS'' y)
      })"

text \<open>The rounds of the stress test, whose patterns swap.\<close>

fun test10_rounds :: "mem_env \<Rightarrow> u64 \<Rightarrow> u32 \<Rightarrow> nat \<Rightarrow> u64 \<Rightarrow> u64 \<Rightarrow> host \<Rightarrow> host" where
  "test10_rounds env ptr memsize 0 p1 p2 h = h"
| "test10_rounds env ptr memsize (Suc n) p1 p2 h =
     test10_rounds env ptr memsize n (NOT p1) (NOT p2)
       (launch_on env STRESS_GRIDSIZE STRESS_BLOCKSIZE (test10_kernel_readwrite ptr memsize p1 p2) h)"

text \<open>
  \<^verbatim>\<open>int n = num_iterations\<close> compared with an unsigned counter: a negative \<open>n\<close> becomes a number
  close to \<open>2 ^ 64\<close>.
\<close>

definition stress_rounds :: "u64 \<Rightarrow> nat" where
  "stress_rounds num_iterations = unat (signed_take_bit 31 num_iterations)"

definition test10 :: "mem_env \<Rightarrow> memdata \<Rightarrow> u64 \<Rightarrow> nat \<Rightarrow> u32 \<times> host \<Rightarrow> (u32 \<times> host) option" where
  "test10 env md ptr tot x =
     (let (err, h) = x; memsize = ucast (of_nat tot * BLOCKSIZE) :: u32;
          h = mem_log (lead md @ ''Test 11 [memory stress test]'') logresults h;
          (p1, h) = (if md_global_pattern_long md \<noteq> 0 then (md_global_pattern_long md, h)
                     else get_random_num_long env h);
          h = mem_log (lead md @ '' Test 11 with pattern :'' @ u64_text p1) loginfo h;
          h = mem_log (''['' @ md_action_name md @ ''] mem Total number of blocks :'' @ to_string tot
                @ '' Number of iterations :'' @ to_string_int (sint (ucast (md_num_iterations md) :: u32))) logtrace h;
          h = launch_on env STRESS_GRIDSIZE STRESS_BLOCKSIZE (test10_kernel_write ptr memsize p1) h;
          h = test10_rounds env ptr memsize (stress_rounds (md_num_iterations md)) p1 (NOT p1) h;
          (n, h) = error_checking md ''test11[Memory stress test]'' 0 h;
          h = mem_log (lead md @ ''Test 11: elapsedtime = '' @ e_elapsed env (h_launches h)) logresults h
      in Some (pass_log md ''Test 11 : PASS '' (err + n, h)))"

end
