(* ===== verification/Mem_Regions.thy ===== *)
theory Mem_Regions
  imports Mem_Facts Mem_Host
begin

text \<open>
  Where the kernels of the memory test work: the blocks of a region as ranges of cells, the guard
  of every kernel, and what launches of plain stores, of checked stores and of checks do to the
  device under every interleaving of their threads.
\<close>

section \<open>The blocks of the region\<close>

lemma sizes: "unat BLOCKSIZE = 4 * words32" "words32 = 262144" "unat BLOCKSIZE = 1048576"
  by (simp_all add: BLOCKSIZE_def words32_def)

text \<open>The address space holds \<open>n\<close> blocks from \<open>p\<close> on.\<close>

definition room :: "u64 \<Rightarrow> nat \<Rightarrow> bool" where
  "room p n \<longleftrightarrow> unat p + n * unat BLOCKSIZE < 2 ^ 64"

lemma room_mono: "room p n \<Longrightarrow> m \<le> n \<Longrightarrow> room p m"
  unfolding room_def by (metis add_le_cancel_left mult_le_mono1 order.strict_trans1)

lemma unat_of_nat64: "n < 2 ^ 64 \<Longrightarrow> unat (of_nat n :: u64) = n"
  by (simp add: unat_of_nat)

lemma block_ptr_cell: "cell (block_ptr p b) i = cell p (b * words32 + i)"
proof -
  have "(of_nat b :: u64) * BLOCKSIZE = of_nat (4 * (b * words32))"
    by (simp add: BLOCKSIZE_def sizes)
  then show ?thesis by (simp add: block_ptr_def cell_def algebra_simps)
qed

lemma block_ptr_add: "block_ptr (p + of_nat i * BLOCKSIZE) b = block_ptr p (i + b)"
  by (simp add: block_ptr_def algebra_simps)

lemma unat_cell:
  assumes "room p n" and "i < n * words32"
  shows "unat (cell p i) = unat p + 4 * i"
proof -
  have "4 * i < n * unat BLOCKSIZE" using assms(2) by (simp add: sizes)
  then have lt: "unat p + 4 * i < 2 ^ 64" using assms(1) by (simp add: room_def)
  then have "unat (of_nat (4 * i) :: u64) = 4 * i" by (intro unat_of_nat64) simp
  then show ?thesis using lt unat_add_lem [of p "of_nat (4 * i)"] by (simp add: cell_def)
qed

lemma unat_block_ptr: "room p b \<Longrightarrow> unat (block_ptr p b) = unat p + b * unat BLOCKSIZE"
proof -
  assume r: "room p b"
  then have lt: "b * unat BLOCKSIZE < 2 ^ 64" by (simp add: room_def)
  have "of_nat b * BLOCKSIZE = (of_nat (b * unat BLOCKSIZE) :: u64)" by simp
  moreover have "unat (of_nat (b * unat BLOCKSIZE) :: u64) = b * unat BLOCKSIZE"
    using lt by (rule unat_of_nat64)
  ultimately have "unat (of_nat b * BLOCKSIZE) = b * unat BLOCKSIZE" by simp
  with r show ?thesis using unat_add_lem [of p "of_nat b * BLOCKSIZE"] by (simp add: block_ptr_def room_def)
qed

lemma guard:
  assumes "room p n" and "b \<le> n" and "tot \<le> n"
  shows "p + of_nat tot * BLOCKSIZE \<le> block_ptr p b \<longleftrightarrow> tot \<le> b"
  using unat_block_ptr [OF room_mono [OF assms(1,2)]] unat_block_ptr [OF room_mono [OF assms(1,3)]]
  by (simp add: word_le_nat_alt block_ptr_def sizes)

lemma cell_inj:
  "room p n \<Longrightarrow> i < n * words32 \<Longrightarrow> j < n * words32 \<Longrightarrow> cell p i = cell p j \<longleftrightarrow> i = j"
  by (metis add_left_cancel mult_cancel1 unat_cell zero_neq_numeral)

text \<open>The rounds of a loop over the blocks whose counter does not wrap around.\<close>

function blocks_from :: "nat \<Rightarrow> nat \<Rightarrow> nat list" where
  "blocks_from i tot = (if i < tot then i # blocks_from (i + GRIDSIZE) tot else [])"
  by pat_completeness auto
termination by (relation "measure (\<lambda>(i, tot). tot - i)") (auto simp: GRIDSIZE_def)

declare blocks_from.simps [simp del]

lemma unat_ucast_32: "unat (ucast (x :: u32) :: u64) = unat x"
  by (simp add: unsigned_ucast_eq, rule take_bit_nat_eq_self, rule less_trans [OF unsigned_less], simp)

lemma of_nat_less_u32: "m < 2 ^ 32 \<Longrightarrow> n < 2 ^ 32 \<Longrightarrow> (of_nat m :: u32) < of_nat n \<longleftrightarrow> m < n"
  by (simp add: word_less_nat_alt unat_of_nat)

lemma grid_from_blocks:
  "i < 2 ^ 32 \<Longrightarrow> tot + GRIDSIZE \<le> 2 ^ 32 \<Longrightarrow> grid_from (of_nat i) (of_nat tot) = Some (blocks_from i tot)"
proof (induction i tot rule: blocks_from.induct)
  case (1 i tot)
  have tot: "tot < 2 ^ 32" using "1.prems"(2) by (simp add: GRIDSIZE_def)
  show ?case
  proof (cases "i < tot")
    case True
    then have "i + GRIDSIZE < 2 ^ 32" using "1.prems"(2) by simp
    from "1.IH" [OF True this "1.prems"(2)] True show ?thesis
      by (subst grid_from.simps, subst blocks_from.simps)
        (simp add: of_nat_less_u32 [OF "1.prems"(1) tot] unat_of_nat "1.prems"(1) [simplified])
  next
    case False
    then show ?thesis
      by (subst grid_from.simps, subst blocks_from.simps) (simp add: of_nat_less_u32 [OF "1.prems"(1) tot])
  qed
qed

lemma grid_from_below:
  assumes "grid_from s (of_nat tot) = Some is" and "i \<in> set is"
  shows "i < tot"
proof -
  have "\<forall>i\<in>set is. i < unat (of_nat tot :: u32)"
  proof (rule grid_from.raw_induct [OF _ assms(1)])
    fix grid s and n :: u32 and "is"
    assume IH: "\<And>s n is. grid s n = Some is \<Longrightarrow> \<forall>i\<in>set is. i < unat n"
      and run: "(if s < n then Option.bind (grid (s + of_nat GRIDSIZE) n) (\<lambda>is. Some (unat s # is)) else Some []) = Some is"
    then show "\<forall>i\<in>set is. i < unat n"
      by (auto simp: word_less_nat_alt bind_eq_Some_conv split: if_splits)
  qed
  then have "i < unat (of_nat tot :: u32)" using assms(2) by blast
  also have "\<dots> \<le> tot" by (simp add: unat_of_nat)
  finally show ?thesis .
qed

section \<open>Launches of stores and of checks\<close>

definition upset_free :: "event list \<Rightarrow> bool" where
  "upset_free es \<longleftrightarrow> list_all (\<lambda>e. case e of Upset _ \<Rightarrow> False | Thread _ \<Rightarrow> True) es"

definition stores :: "(u64 \<Rightarrow> u32) \<Rightarrow> u64 list \<Rightarrow> step list" where
  "stores h as = map (\<lambda>a. store a (h a)) as"

lemma run_stores:
  "run_thread (l, stores h as) g = g\<lparr>g_mem := (\<lambda>a. if a \<in> set as then h a else g_mem g a)\<rparr>"
proof (induction as arbitrary: g l)
  case Nil
  then show ?case by (simp add: run_thread_def stores_def)
next
  case (Cons a as)
  have "run_thread (l, stores h (a # as)) g = run_thread (l, stores h as) (g\<lparr>g_mem := (g_mem g)(a := h a)\<rparr>)"
    by (simp add: run_thread_def stores_def store_def)
  then show ?case by (simp add: Cons.IH) (auto simp: fun_eq_iff)
qed

lemma fold_stores:
  "fold run_thread (map (\<lambda>(l, as). (l, stores h as)) las) g =
     g\<lparr>g_mem := (\<lambda>a. if \<exists>t\<in>set las. a \<in> set (snd t) then h a else g_mem g a)\<rparr>"
proof (induction las arbitrary: g)
  case Nil
  then show ?case by simp
next
  case (Cons t las)
  obtain l as where "t = (l, as)" by fastforce
  then show ?case by (simp add: Cons.IH run_stores) (auto simp: fun_eq_iff)
qed

lemma run_events_stores:
  assumes "upset_free es"
  shows "run_events es (map (\<lambda>(l, as). (l, stores h as)) las) g =
     g\<lparr>g_mem := (\<lambda>a. if \<exists>t\<in>set las. a \<in> set (snd t) then h a else g_mem g a)\<rparr>"
  using assms
proof (induction es arbitrary: las g)
  case Nil
  then show ?case by (simp add: fold_stores)
next
  case (Cons e es)
  then obtain n where e: "e = Thread n" and free: "upset_free es"
    by (cases e) (auto simp: upset_free_def)
  show ?case
  proof (cases "n < length las \<and> snd (las ! n) \<noteq> []")
    case False
    then have "run_events (Thread n # es) (map (\<lambda>(l, as). (l, stores h as)) las) g =
      run_events es (map (\<lambda>(l, as). (l, stores h as)) las) g"
      by (auto simp: stores_def split: prod.splits list.splits)
    then show ?thesis using Cons.IH [OF free] e by simp
  next
    case True
    then obtain l a as where t: "n < length las" "las ! n = (l, a # as)" by (metis list.exhaust prod.collapse)
    let ?las = "las[n := (l, as)]"
    have "run_events (Thread n # es) (map (\<lambda>(l, as). (l, stores h as)) las) g =
      run_events es (map (\<lambda>(l, as). (l, stores h as)) ?las) (g\<lparr>g_mem := (g_mem g)(a := h a)\<rparr>)"
      using t by (simp add: stores_def store_def map_update)
    also have "\<dots> = g\<lparr>g_mem := (\<lambda>x. if \<exists>t\<in>set ?las. x \<in> set (snd t) then h x else ((g_mem g)(a := h a)) x)\<rparr>"
      by (simp add: Cons.IH [OF free] cong: if_cong)
    also have "(\<lambda>x. if \<exists>t\<in>set ?las. x \<in> set (snd t) then h x else ((g_mem g)(a := h a)) x) =
      (\<lambda>x. if \<exists>t\<in>set las. x \<in> set (snd t) then h x else g_mem g x)"
    proof
      fix x
      have "(\<exists>t\<in>set las. x \<in> set (snd t)) \<longleftrightarrow> (\<exists>t\<in>set ?las. x \<in> set (snd t)) \<or> x = a"
      proof -
        have "las = take n las @ (l, a # as) # drop (Suc n) las" using t by (metis id_take_nth_drop)
        moreover have "?las = take n las @ (l, as) # drop (Suc n) las" using t by (simp add: upd_conv_take_nth_drop)
        ultimately show ?thesis by (smt (verit) Un_iff list.set_intros(1) insert_iff list.simps(15) set_append snd_conv)
      qed
      then show "(if \<exists>t\<in>set ?las. x \<in> set (snd t) then h x else ((g_mem g)(a := h a)) x) =
        (if \<exists>t\<in>set las. x \<in> set (snd t) then h x else g_mem g x)" by auto
    qed
    finally show ?thesis using e by simp
  qed
qed

text \<open>A store that first checks for the value it finds is a plain store, as long as every cell is visited once.\<close>

definition checked_stores :: "(u64 \<Rightarrow> u32) \<Rightarrow> (u64 \<Rightarrow> u32) \<Rightarrow> u64 list \<Rightarrow> step list" where
  "checked_stores old h as = map (\<lambda>a. checked_store a (old a) (h a)) as"

definition hold :: "(u64 \<Rightarrow> u32) \<Rightarrow> u64 set \<Rightarrow> gpu \<Rightarrow> bool" where
  "hold old A g \<longleftrightarrow> (\<forall>a\<in>A. g_mem g a = old a)"

lemma checked_store_hit: "g_mem g a = p \<Longrightarrow> checked_store a p v (l, g) = store a v (l, g)"
  by (simp add: checked_store_def check_def)

lemma run_checked:
  "distinct as \<Longrightarrow> hold old (set as) g \<Longrightarrow>
   run_thread (l, checked_stores old h as) g = run_thread (l, stores h as) g"
proof (induction as arbitrary: g l)
  case Nil
  then show ?case by (simp add: checked_stores_def stores_def)
next
  case (Cons a as)
  have "hold old (set as) (g\<lparr>g_mem := (g_mem g)(a := h a)\<rparr>)" using Cons.prems by (auto simp: hold_def)
  then have "run_thread (l, checked_stores old h as) (g\<lparr>g_mem := (g_mem g)(a := h a)\<rparr>) =
    run_thread (l, stores h as) (g\<lparr>g_mem := (g_mem g)(a := h a)\<rparr>)"
    using Cons by simp
  moreover have "g_mem g a = old a" using Cons.prems by (simp add: hold_def)
  ultimately show ?case
    by (simp add: run_thread_def checked_stores_def stores_def checked_store_hit store_def)
qed

lemma fold_checked:
  "distinct (concat (map snd las)) \<Longrightarrow> hold old (set (concat (map snd las))) g \<Longrightarrow>
   fold run_thread (map (\<lambda>(l, as). (l, checked_stores old h as)) las) g =
   fold run_thread (map (\<lambda>(l, as). (l, stores h as)) las) g"
proof (induction las arbitrary: g)
  case Nil
  then show ?case by simp
next
  case (Cons t las)
  obtain l as where t: "t = (l, as)" by fastforce
  have one: "run_thread (l, checked_stores old h as) g = run_thread (l, stores h as) g"
    by (rule run_checked) (use Cons.prems t in \<open>auto simp: hold_def\<close>)
  have "hold old (set (concat (map snd las))) (run_thread (l, stores h as) g)"
    using Cons.prems t unfolding run_stores by (auto simp: hold_def)
  then show ?case using Cons t one by simp
qed

lemma run_events_checked:
  assumes "upset_free es" and "distinct (concat (map snd las))" and "hold old (set (concat (map snd las))) g"
  shows "run_events es (map (\<lambda>(l, as). (l, checked_stores old h as)) las) g =
    run_events es (map (\<lambda>(l, as). (l, stores h as)) las) g"
  using assms
proof (induction es arbitrary: las g)
  case Nil
  then show ?case by (simp add: fold_checked)
next
  case (Cons e es)
  then obtain n where e: "e = Thread n" and free: "upset_free es"
    by (cases e) (auto simp: upset_free_def)
  show ?case
  proof (cases "n < length las \<and> snd (las ! n) \<noteq> []")
    case False
    then have "run_events (Thread n # es) (map (\<lambda>(l, as). (l, f as)) las) g =
      run_events es (map (\<lambda>(l, as). (l, f as)) las) g" if "f [] = []" for f :: "u64 list \<Rightarrow> step list"
      using that by (auto split: prod.splits list.splits)
    from this [of "checked_stores old h"] this [of "stores h"] show ?thesis
      using Cons.IH [OF free Cons.prems(2,3)] e by (simp add: checked_stores_def stores_def)
  next
    case True
    then obtain l a as where t: "n < length las" "las ! n = (l, a # as)" by (metis list.exhaust prod.collapse)
    let ?las = "las[n := (l, as)]" and ?g = "g\<lparr>g_mem := (g_mem g)(a := h a)\<rparr>"
    have las: "las = take n las @ (l, a # as) # drop (Suc n) las" using t by (metis id_take_nth_drop)
    have las': "?las = take n las @ (l, as) # drop (Suc n) las" using t by (simp add: upd_conv_take_nth_drop)
    have cells: "concat (map snd las) = concat (map snd (take n las)) @ a # as @ concat (map snd (drop (Suc n) las))"
      by (subst las) simp
    have cells': "concat (map snd ?las) = concat (map snd (take n las)) @ as @ concat (map snd (drop (Suc n) las))"
      by (subst las') simp
    have d: "distinct (concat (map snd ?las))" and na: "a \<notin> set (concat (map snd ?las))"
      and sub: "set (concat (map snd ?las)) \<subseteq> set (concat (map snd las))"
      and a: "a \<in> set (concat (map snd las))"
      using Cons.prems(2) unfolding cells cells' by auto
    have hold: "hold old (set (concat (map snd ?las))) ?g"
      using Cons.prems(3) na sub unfolding hold_def by (metis (no_types, lifting) fun_upd_other gpu.select_convs(1) gpu.surjective gpu.update_convs(1) subset_iff)
    have "g_mem g a = old a" using Cons.prems(3) a unfolding hold_def by blast
    then have "run_events (Thread n # es) (map (\<lambda>(l, as). (l, checked_stores old h as)) las) g =
      run_events es (map (\<lambda>(l, as). (l, checked_stores old h as)) ?las) ?g"
      using t by (simp add: checked_stores_def checked_store_hit store_def map_update)
    moreover have "run_events (Thread n # es) (map (\<lambda>(l, as). (l, stores h as)) las) g =
      run_events es (map (\<lambda>(l, as). (l, stores h as)) ?las) ?g"
      using t by (simp add: stores_def store_def map_update)
    ultimately show ?thesis using Cons.IH [OF free d hold] e by simp
  qed
qed

lemma upset_free_no: "upset_free es \<Longrightarrow> Upset f \<notin> set es"
  by (auto simp: upset_free_def list_all_iff)

text \<open>Checks of cells that hold the expected values change nothing.\<close>

lemma check_hit: "g_mem g a = p \<Longrightarrow> check a p (l, g) = (l, g)"
  by (simp add: check_def)

lemma run_events_checks:
  assumes "upset_free es" and "\<And>t s. t \<in> set ts \<Longrightarrow> s \<in> set (snd t) \<Longrightarrow> \<exists>a\<in>A. s = check a (old a)"
    and "hold old A g"
  shows "run_events es ts g = g"
proof -
  have "hold old A g \<longrightarrow> run_events es ts g = g"
  proof (rule silent.run_events_frame)
    fix t s and x :: "nat \<times> gpu" assume "t \<in> set ts" "s \<in> set (snd t)"
    then obtain a where "a \<in> A" "s = check a (old a)" using assms(2) by blast
    then show "hold old A (snd x) \<longrightarrow> snd (s x) = snd x" by (cases x) (auto simp: hold_def check_hit)
  next
    fix f and g :: gpu assume "Upset f \<in> set es"
    then show "hold old A g \<longrightarrow> g\<lparr>g_mem := f (g_mem g)\<rparr> = g" using upset_free_no [OF assms(1)] by blast
  qed
  with assms(3) show ?thesis by blast
qed

section \<open>The loops of the host\<close>

definition block_range :: "u64 \<Rightarrow> nat \<Rightarrow> nat \<Rightarrow> u64 set" where
  "block_range p i j = cell p ` {i * words32 ..< j * words32}"

definition block_cells :: "u64 \<Rightarrow> nat \<Rightarrow> u64 list" where
  "block_cells p b = map (cell p) [b * words32 ..< Suc b * words32]"

lemma block_cells_alt: "block_cells p b = map (cell (block_ptr p b)) [0..<words32]"
proof -
  have "[b * words32 ..< Suc b * words32] = map (\<lambda>i. b * words32 + i) [0..<words32]"
    using map_add_upt [of "b * words32" words32] by (simp add: add.commute)
  then show ?thesis by (simp add: block_cells_def block_ptr_cell [symmetric] o_def)
qed

lemma set_block_cells: "set (block_cells p b) = block_range p b (Suc b)"
  by (simp add: block_cells_def block_range_def)

definition fill_cells :: "u64 set \<Rightarrow> u32 \<Rightarrow> gpu \<Rightarrow> gpu" where
  "fill_cells A v g = g\<lparr>g_mem := (\<lambda>a. if a \<in> A then v else g_mem g a)\<rparr>"

lemma fill_fill: "fill_cells A v (fill_cells B v g) = fill_cells (A \<union> B) v g"
  by (auto simp: fill_cells_def fun_eq_iff)

lemma fill_empty [simp]: "fill_cells {} v g = g"
  by (simp add: fill_cells_def)

lemma region_Un: "i \<le> j \<Longrightarrow> j \<le> k \<Longrightarrow> block_range p i j \<union> block_range p j k = block_range p i k"
  unfolding block_range_def by (simp add: image_Un [symmetric] ivl_disj_un)

lemma region_empty [simp]: "j \<le> i \<Longrightarrow> block_range p i j = {}"
  by (simp add: block_range_def)

lemma kernel_write_stores:
  assumes "room ptr n" and "i + b \<le> n" and "tot \<le> n"
  shows "kernel_move_inv_write (ptr + of_nat i * BLOCKSIZE) (end_ptr_of ptr tot) v b =
    stores (\<lambda>_. v) (if tot \<le> i + b then [] else block_cells ptr (i + b))"
  using guard [OF assms] 
  by (simp add: kernel_move_inv_write_def Let_def block_ptr_add end_ptr_of_def stores_def block_cells_alt)

lemma kernel_readwrite_stores:
  assumes "room ptr n" and "i + b \<le> n" and "tot \<le> n"
  shows "kernel_move_inv_readwrite (ptr + of_nat i * BLOCKSIZE) (end_ptr_of ptr tot) v w b =
    checked_stores (\<lambda>_. v) (\<lambda>_. w) (if tot \<le> i + b then [] else block_cells ptr (i + b))"
  using guard [OF assms] 
  by (simp add: kernel_move_inv_readwrite_def Let_def block_ptr_add end_ptr_of_def checked_stores_def block_cells_alt)

lemma kernel_read_checks:
  assumes "room ptr n" and "i + b \<le> n" and "tot \<le> n"
  shows "kernel_move_inv_read (ptr + of_nat i * BLOCKSIZE) (end_ptr_of ptr tot) v b =
    map (\<lambda>a. check a v) (if tot \<le> i + b then [] else block_cells ptr (i + b))"
  using guard [OF assms] 
  by (simp add: kernel_move_inv_read_def Let_def block_ptr_add end_ptr_of_def block_cells_alt)

text \<open>A device whose error counter is at zero: the collection of the errors finds none.\<close>

definition clean :: "gpu \<Rightarrow> bool" where
  "clean g \<longleftrightarrow> g_cnt g 0 = 0"

lemma error_checking_clean: "clean (h_gpu h) \<Longrightarrow> error_checking md t i h = (0, h)"
  by (simp add: error_checking_def clean_def Let_def)

text \<open>An environment in which the memory only changes by the stores of the kernels.\<close>

definition quiet_env :: "mem_env \<Rightarrow> bool" where
  "quiet_env env \<longleftrightarrow> (\<forall>n. upset_free (e_events env n))"

end
