(* ===== verification/Mem_Moving.thy ===== *)
theory Mem_Moving
  imports Mem_Regions
begin

text \<open>
  The moving inversions test on a memory that holds its values: what one launch of each of its
  three kernels does, what the loops over the blocks do, and the test as a whole.
\<close>

section \<open>One launch\<close>

lemma region_UNION:
  "(\<Union>b<n. set (if tot \<le> i + b then [] else block_cells ptr (i + b))) = block_range ptr i (min (i + n) tot)"
proof (induction n)
  case 0
  then show ?case by simp
next
  case (Suc n)
  have "(\<Union>b<Suc n. set (if tot \<le> i + b then [] else block_cells ptr (i + b))) =
    block_range ptr i (min (i + n) tot) \<union> set (if tot \<le> i + n then [] else block_cells ptr (i + n))"
    using Suc.IH by (auto simp: lessThan_Suc)
  also have "\<dots> = block_range ptr i (min (i + Suc n) tot)"
  proof (cases "tot \<le> i + n")
    case False
    then show ?thesis by (simp add: set_block_cells region_Un min_def)
  qed (simp add: min_def)
  finally show ?case .
qed

definition launch_cells :: "u64 \<Rightarrow> nat \<Rightarrow> nat \<Rightarrow> nat \<Rightarrow> nat \<Rightarrow> (nat \<times> u64 list) list" where
  "launch_cells ptr tot i blocks threads =
     map (\<lambda>(b, t). (0, if tot \<le> i + b then [] else block_cells ptr (i + b))) (List.product [0..<blocks] [0..<threads])"

lemma launch_cells_set:
  assumes "0 < threads"
  shows "(\<exists>t\<in>set (launch_cells ptr tot i blocks threads). a \<in> set (snd t)) \<longleftrightarrow>
    a \<in> block_range ptr i (min (i + blocks) tot)"
proof -
  have "(\<exists>t\<in>set (launch_cells ptr tot i blocks threads). a \<in> set (snd t)) \<longleftrightarrow>
    (\<exists>b<blocks. a \<in> set (if tot \<le> i + b then [] else block_cells ptr (i + b)))"
    using assms by (auto simp: launch_cells_def image_iff split: if_splits)
  also have "\<dots> \<longleftrightarrow> a \<in> (\<Union>b<blocks. set (if tot \<le> i + b then [] else block_cells ptr (i + b)))" by blast
  finally show ?thesis by (simp only: region_UNION)
qed

lemma launch_threads_cells:
  assumes "\<And>b. b < blocks \<Longrightarrow> kern b = f (if tot \<le> i + b then [] else block_cells ptr (i + b))"
  shows "launch_threads (\<lambda>b t. kern b) blocks threads =
    map (\<lambda>(l, as). (l, f as)) (launch_cells ptr tot i blocks threads)"
  using assms by (auto simp: launch_threads_def launch_cells_def)

lemma product_single: "List.product xs [y] = map (\<lambda>x. (x, y)) xs"
  by (induction xs) auto

lemma launch_write:
  assumes "quiet_env env" and "room ptr (tot + blocks)" and "i < tot" and "0 < threads"
    and "grid_dim (md_blocks md) = blocks" and "grid_dim (md_threadsPerBlock md) = threads"
  shows "h_gpu (launch env md (kernel_move_inv_write (ptr + of_nat i * BLOCKSIZE) (end_ptr_of ptr tot) v) h) =
    fill_cells (block_range ptr i (min (i + blocks) tot)) v (h_gpu h)"
proof -
  let ?as = "\<lambda>b. if tot \<le> i + b then [] else block_cells ptr (i + b)"
  have k: "kernel_move_inv_write (ptr + of_nat i * BLOCKSIZE) (end_ptr_of ptr tot) v b = stores (\<lambda>_. v) (?as b)"
    if "b < blocks" for b
    by (rule kernel_write_stores [OF assms(2)]) (use that assms(3) in auto)
  show ?thesis
    unfolding launch_def launch_on_def assms(5,6)
    by (simp add: launch_threads_cells [where f = "stores (\<lambda>_. v)", OF k] fill_cells_def
        run_events_stores assms(1) [unfolded quiet_env_def, rule_format] launch_cells_set [OF assms(4)])
qed

lemma cells_append:
  "i \<le> j \<Longrightarrow> map (cell p) [i * words32 ..< j * words32] @ block_cells p j = map (cell p) [i * words32 ..< Suc j * words32]"
  using upt_add_eq_append [of "i * words32" "j * words32" words32]
  by (simp add: block_cells_def add.commute flip: map_append)

lemma distinct_block_cells:
  assumes "room ptr n" and "tot \<le> n"
  shows "distinct (concat (map snd (launch_cells ptr tot i blocks 1)))"
proof -
  have "concat (map snd (launch_cells ptr tot i blocks 1)) =
    concat (map (\<lambda>b. if tot \<le> i + b then [] else block_cells ptr (i + b)) [0..<blocks])"
    by (simp add: launch_cells_def product_single o_def)
  also have "\<dots> = map (cell ptr) [i * words32 ..< (if i \<le> tot then min (i + blocks) tot else i) * words32]"
  proof (induction blocks)
    case (Suc n)
    show ?case
    proof (cases "tot \<le> i + n")
      case True
      with Suc show ?thesis by (auto simp: min_def)
    next
      case False
      with Suc show ?thesis using cells_append [of i "i + n" ptr] by (simp add: min_def)
    qed
  qed simp
  also have "distinct \<dots>"
    unfolding distinct_map
  proof (intro conjI inj_onI)
    fix k k' assume "k \<in> set [i * words32 ..< (if i \<le> tot then min (i + blocks) tot else i) * words32]"
      "k' \<in> set [i * words32 ..< (if i \<le> tot then min (i + blocks) tot else i) * words32]" "cell ptr k = cell ptr k'"
    moreover from this have "k < min (i + blocks) tot * words32" "k' < min (i + blocks) tot * words32"
      by (auto split: if_splits)
    moreover have "min (i + blocks) tot * words32 \<le> n * words32"
      by (rule mult_le_mono1) (use assms(2) in simp)
    ultimately show "k = k'" using cell_inj [OF assms(1), of k k'] by (meson less_le_trans)
  qed simp
  finally show ?thesis .
qed

lemma launch_readwrite:
  assumes "quiet_env env" and "room ptr (tot + blocks)" and "i < tot"
    and "grid_dim (md_blocks md) = blocks" and "grid_dim (md_threadsPerBlock md) = 1"
    and "hold (\<lambda>_. v) (block_range ptr i (min (i + blocks) tot)) (h_gpu h)"
  shows "h_gpu (launch env md (kernel_move_inv_readwrite (ptr + of_nat i * BLOCKSIZE) (end_ptr_of ptr tot) v w) h) =
    fill_cells (block_range ptr i (min (i + blocks) tot)) w (h_gpu h)"
proof -
  let ?as = "\<lambda>b. if tot \<le> i + b then [] else block_cells ptr (i + b)"
  let ?las = "launch_cells ptr tot i blocks 1"
  have k: "kernel_move_inv_readwrite (ptr + of_nat i * BLOCKSIZE) (end_ptr_of ptr tot) v w b =
      checked_stores (\<lambda>_. v) (\<lambda>_. w) (?as b)" if "b < blocks" for b
    by (rule kernel_readwrite_stores [OF assms(2)]) (use that assms(3) in auto)
  have cells: "set (concat (map snd ?las)) = block_range ptr i (min (i + blocks) tot)"
    using launch_cells_set [of 1 ptr tot i blocks] by (auto simp del: One_nat_def)
  have "run_events es (map (\<lambda>(l, as). (l, checked_stores (\<lambda>_. v) (\<lambda>_. w) as)) ?las) (h_gpu h) =
    run_events es (map (\<lambda>(l, as). (l, stores (\<lambda>_. w) as)) ?las) (h_gpu h)" if "upset_free es" for es :: "event list"
    by (rule run_events_checked [OF that distinct_block_cells [OF assms(2)]])
      (use assms(6) in \<open>simp_all only: cells le_add1\<close>)
  then show ?thesis
    unfolding launch_def launch_on_def assms(4,5)
    by (simp add: launch_threads_cells [where f = "checked_stores (\<lambda>_. v) (\<lambda>_. w)", OF k] fill_cells_def
        run_events_stores assms(1) [unfolded quiet_env_def, rule_format] launch_cells_set [of 1, simplified])
qed

lemma launch_read:
  assumes "quiet_env env" and "room ptr (tot + blocks)" and "i < tot"
    and "grid_dim (md_blocks md) = blocks"
    and "hold (\<lambda>_. v) (block_range ptr i (min (i + blocks) tot)) (h_gpu h)"
  shows "h_gpu (launch env md (kernel_move_inv_read (ptr + of_nat i * BLOCKSIZE) (end_ptr_of ptr tot) v) h) = h_gpu h"
proof -
  let ?R = "block_range ptr i (min (i + blocks) tot)"
  have "run_events (e_events env (h_launches h)) (launch_threads
      (\<lambda>b t. kernel_move_inv_read (ptr + of_nat i * BLOCKSIZE) (end_ptr_of ptr tot) v b) blocks n) (h_gpu h) = h_gpu h" for n :: nat
  proof (rule run_events_checks [where A = ?R and old = "\<lambda>_. v"])
    fix t s
    assume t: "t \<in> set (launch_threads
      (\<lambda>b t. kernel_move_inv_read (ptr + of_nat i * BLOCKSIZE) (end_ptr_of ptr tot) v b) blocks n)" and s: "s \<in> set (snd t)"
    then obtain b where b: "b < blocks"
      "s \<in> set (kernel_move_inv_read (ptr + of_nat i * BLOCKSIZE) (end_ptr_of ptr tot) v b)"
      by (auto simp: launch_threads_def)
    moreover have "kernel_move_inv_read (ptr + of_nat i * BLOCKSIZE) (end_ptr_of ptr tot) v b =
        map (\<lambda>a. check a v) (if tot \<le> i + b then [] else block_cells ptr (i + b))"
      by (rule kernel_read_checks [OF assms(2)]) (use b(1) assms(3) in auto)
    ultimately obtain a where "a \<in> set (if tot \<le> i + b then [] else block_cells ptr (i + b))" "s = check a v" by auto
    then show "\<exists>a\<in>?R. s = check a v" using b(1) by (subst region_UNION [symmetric]) blast
  qed (use assms in \<open>auto simp: quiet_env_def\<close>)
  then show ?thesis by (simp add: launch_def launch_on_def assms(4))
qed

section \<open>The loops and the test\<close>

lemma mem_log_gpu [simp]: "h_gpu (mem_log t l h) = h_gpu h" "h_gpu (show_progress md t i n h) = h_gpu h"
  by (simp_all add: mem_log_def show_progress_def Let_def)

lemma fill_again: "fill_cells A w (fill_cells A v g) = fill_cells A w g"
  by (auto simp: fill_cells_def fun_eq_iff)

lemma clean_fill [simp]: "clean (fill_cells A v g) = clean g"
  by (simp add: clean_def fill_cells_def)

lemma region_overlap:
  "i \<le> j \<Longrightarrow> j \<le> k \<Longrightarrow> k \<le> l \<Longrightarrow> block_range p j l \<union> block_range p i k = block_range p i l"
proof -
  assume le: "i \<le> j" "j \<le> k" "k \<le> l"
  have "i * words32 \<le> j * words32" "j * words32 \<le> k * words32" "k * words32 \<le> l * words32"
    using le by (simp_all add: mult_le_mono1)
  then have "{j * words32 ..< l * words32} \<union> {i * words32 ..< k * words32} = {i * words32 ..< l * words32}"
    by (simp only: set_eq_iff Un_iff atLeastLessThan_iff) arith
  then show ?thesis unfolding block_range_def image_Un [symmetric] by simp
qed

lemma next_region:
  "i < tot \<Longrightarrow> GRIDSIZE \<le> B \<Longrightarrow> block_range p (i + GRIDSIZE) tot \<union> block_range p i (min (i + B) tot) = block_range p i tot"
  using region_overlap [of i "i + GRIDSIZE" "min (i + B) tot" tot p]
  by (cases "i + GRIDSIZE \<le> tot") (auto simp: min_def)

lemma write_blocks_fill:
  assumes "GRIDSIZE \<le> B"
    and "\<And>i h. i < tot \<Longrightarrow> h_gpu (launch env md (kern i) h) = fill_cells (block_range ptr i (min (i + B) tot)) v (h_gpu h)"
  shows "h_gpu (write_blocks env md msg tot kern (blocks_from i tot) h) = fill_cells (block_range ptr i tot) v (h_gpu h)"
proof (induction "tot - i" arbitrary: i h rule: less_induct)
  case less
  show ?case
  proof (cases "i < tot")
    case True
    let ?h = "show_progress md msg i tot (launch env md (kern i) h)"
    have "write_blocks env md msg tot kern (blocks_from i tot) h = write_blocks env md msg tot kern (blocks_from (i + GRIDSIZE) tot) ?h"
      using True by (simp add: write_blocks_def blocks_from.simps [of i])
    moreover have "h_gpu (write_blocks env md msg tot kern (blocks_from (i + GRIDSIZE) tot) ?h) =
        fill_cells (block_range ptr (i + GRIDSIZE) tot) v (h_gpu ?h)"
      by (rule less) (use True in \<open>simp add: GRIDSIZE_def\<close>)
    ultimately show ?thesis
      by (simp add: assms(2) [OF True] fill_fill next_region [OF True assms(1)])
  qed (simp add: write_blocks_def blocks_from.simps)
qed

text \<open>The loop that checks and inverts visits every cell once only when a launch has exactly \<open>GRIDSIZE\<close> blocks.\<close>

lemma hold_region_mono: "hold f A g \<Longrightarrow> B \<subseteq> A \<Longrightarrow> hold f B g"
  by (auto simp: hold_def)

lemma region_mono: "i \<le> i' \<Longrightarrow> j' \<le> j \<Longrightarrow> block_range p i' j' \<subseteq> block_range p i j"
  unfolding block_range_def by (intro image_mono) (auto dest: mult_le_mono1 intro: le_trans less_le_trans)

lemma region_disjoint:
  assumes "room p n" and "l \<le> n" and "j \<le> k"
  shows "block_range p i j \<inter> block_range p k l = {}"
proof -
  have False if "x \<in> {i * words32 ..< j * words32}" "y \<in> {k * words32 ..< l * words32}" "cell p x = cell p y" for x y
  proof -
    have "y < n * words32" using that(2) mult_le_mono1 [OF assms(2), of words32] by (simp only: atLeastLessThan_iff) arith
    moreover have "x < y" using that mult_le_mono1 [OF assms(3), of words32] by (simp only: atLeastLessThan_iff) arith
    ultimately show False using cell_inj [OF assms(1), of x y] that(3) by (metis less_trans nat_neq_iff)
  qed
  then show ?thesis unfolding block_range_def by blast
qed

lemma read_blocks_fill:
  assumes "room ptr (tot + GRIDSIZE)"
    and "\<And>i h. i < tot \<Longrightarrow> hold (\<lambda>_. v) (block_range ptr i (min (i + GRIDSIZE) tot)) (h_gpu h) \<Longrightarrow>
        h_gpu (launch env md (kern i) h) = fill_cells (block_range ptr i (min (i + GRIDSIZE) tot)) w (h_gpu h)"
    and "clean (h_gpu h)" and "hold (\<lambda>_. v) (block_range ptr i tot) (h_gpu h)"
  shows "\<exists>h'. read_blocks env md emsg msg tot kern (blocks_from i tot) (err, h) = (err, h') \<and>
    h_gpu h' = fill_cells (block_range ptr i tot) w (h_gpu h)"
  using assms(3,4)
proof (induction "tot - i" arbitrary: i h rule: less_induct)
  case less
  show ?case
  proof (cases "i < tot")
    case True
    let ?h = "launch env md (kern i) h"
    let ?R = "block_range ptr i (min (i + GRIDSIZE) tot)"
    have gpu: "h_gpu ?h = fill_cells ?R w (h_gpu h)"
      by (rule assms(2) [OF True]) (rule hold_region_mono [OF less.prems(2)], rule region_mono, simp_all)
    have cl: "clean (h_gpu ?h)" using less.prems(1) gpu by simp
    have "?R \<inter> block_range ptr (i + GRIDSIZE) tot = {}"
      by (rule region_disjoint [OF assms(1)]) simp_all
    then have "hold (\<lambda>_. v) (block_range ptr (i + GRIDSIZE) tot) (fill_cells ?R w (h_gpu h))"
      using less.prems(2) region_mono [of i "i + GRIDSIZE" tot tot ptr] by (auto simp: hold_def fill_cells_def)
    then have "\<exists>h'. read_blocks env md emsg msg tot kern (blocks_from (i + GRIDSIZE) tot) (err, show_progress md msg i tot ?h) = (err, h') \<and>
        h_gpu h' = fill_cells (block_range ptr (i + GRIDSIZE) tot) w (fill_cells ?R w (h_gpu h))"
      using less.hyps [of "i + GRIDSIZE" "show_progress md msg i tot ?h"] True cl gpu by (simp add: GRIDSIZE_def)
    moreover have "read_blocks env md emsg msg tot kern (blocks_from i tot) (err, h) =
        read_blocks env md emsg msg tot kern (blocks_from (i + GRIDSIZE) tot) (err, show_progress md msg i tot ?h)"
      using True by (simp add: read_blocks_def blocks_from.simps [of i] error_checking_clean [OF cl])
    ultimately show ?thesis by (simp add: fill_fill next_region [OF True order_refl])
  qed (use less.prems in \<open>simp add: read_blocks_def blocks_from.simps\<close>)
qed

lemma read_blocks_silent:
  assumes "\<And>i h. i < tot \<Longrightarrow> Q (h_gpu h) \<Longrightarrow> h_gpu (launch env md (kern i) h) = h_gpu h"
    and "clean (h_gpu h)" and "Q (h_gpu h)"
  shows "\<exists>h'. read_blocks env md emsg msg tot kern (blocks_from i tot) (err, h) = (err, h') \<and> h_gpu h' = h_gpu h"
  using assms(2,3)
proof (induction "tot - i" arbitrary: i h rule: less_induct)
  case less
  show ?case
  proof (cases "i < tot")
    case True
    let ?h = "launch env md (kern i) h"
    have gpu: "h_gpu ?h = h_gpu h" by (rule assms(1) [OF True less.prems(2)])
    have "read_blocks env md emsg msg tot kern (blocks_from i tot) (err, h) =
        read_blocks env md emsg msg tot kern (blocks_from (i + GRIDSIZE) tot) (err, show_progress md msg i tot ?h)"
      using True less.prems gpu by (simp add: read_blocks_def blocks_from.simps [of i] error_checking_clean)
    moreover have "\<exists>h'. read_blocks env md emsg msg tot kern (blocks_from (i + GRIDSIZE) tot) (err, show_progress md msg i tot ?h) = (err, h') \<and>
        h_gpu h' = h_gpu h"
      using less.hyps [of "i + GRIDSIZE" "show_progress md msg i tot ?h"] True less.prems gpu by (simp add: GRIDSIZE_def)
    ultimately show ?thesis by simp
  qed (use less.prems in \<open>simp add: read_blocks_def blocks_from.simps\<close>)
qed

lemma loops_of_blocks:
  assumes "tot + GRIDSIZE \<le> 2 ^ 32"
  shows "write_loop env md msg 0 tot kern h = Some (write_blocks env md msg tot kern (blocks_from 0 tot) h)"
    "read_loop env md emsg msg 0 tot kern x = Some (read_blocks env md emsg msg tot kern (blocks_from 0 tot) x)"
  using grid_from_blocks [of 0 tot] assms by (simp_all add: write_loop_def read_loop_def)

text \<open>
  C26: Moving inversions on a memory that holds its values, with one thread per block, launches of
  \<open>GRIDSIZE\<close> blocks and a number of blocks whose loops do not wrap around: the test ends, the region
  holds the second pattern, nothing else changes, and no error is counted.
\<close>

theorem moving_inversions_on_good_memory:
  assumes "quiet_env env" and "room ptr (tot + GRIDSIZE)" and "clean (h_gpu h)"
    and "grid_dim (md_blocks md) = GRIDSIZE" and "grid_dim (md_threadsPerBlock md) = 1"
    and "tot + GRIDSIZE \<le> 2 ^ 32"
  shows "\<exists>h'. move_inv_test env md ptr tot p1 p2 h = Some (0, h') \<and> h_gpu h' = fill_cells (block_range ptr 0 tot) p2 (h_gpu h)"
proof -
  define h1 where "h1 = write_blocks env md ''move_inv_write'' tot
    (\<lambda>i. kernel_move_inv_write (ptr + of_nat i * BLOCKSIZE) (end_ptr_of ptr tot) p1) (blocks_from 0 tot) h"
  have g1: "h_gpu h1 = fill_cells (block_range ptr 0 tot) p1 (h_gpu h)"
    unfolding h1_def
    by (rule write_blocks_fill [OF order_refl], rule launch_write [OF assms(1,2) _ _ assms(4,5)]) simp_all
  have "\<exists>h2. read_blocks env md ''Move inv reading and writing to blocks'' ''move_inv_readwrite'' tot
      (\<lambda>i. kernel_move_inv_readwrite (ptr + of_nat i * BLOCKSIZE) (end_ptr_of ptr tot) p1 p2) (blocks_from 0 tot) (0, h1) = (0, h2) \<and>
      h_gpu h2 = fill_cells (block_range ptr 0 tot) p2 (h_gpu h1)"
    by (rule read_blocks_fill [where v = p1, OF assms(2)], rule launch_readwrite [OF assms(1,2) _ assms(4,5)])
      (use assms(3) g1 in \<open>auto simp: hold_def fill_cells_def clean_def\<close>)
  then obtain h2 where h2: "read_blocks env md ''Move inv reading and writing to blocks'' ''move_inv_readwrite'' tot
      (\<lambda>i. kernel_move_inv_readwrite (ptr + of_nat i * BLOCKSIZE) (end_ptr_of ptr tot) p1 p2) (blocks_from 0 tot) (0, h1) = (0, h2)"
    and g2: "h_gpu h2 = fill_cells (block_range ptr 0 tot) p2 (h_gpu h)"
    by (auto simp: g1 fill_again)
  have "\<exists>h3. read_blocks env md ''Move inv reading from blocks'' ''move_inv_read'' tot
      (\<lambda>i. kernel_move_inv_read (ptr + of_nat i * BLOCKSIZE) (end_ptr_of ptr tot) p2) (blocks_from 0 tot) (0, h2) = (0, h3) \<and>
      h_gpu h3 = h_gpu h2"
    by (rule read_blocks_silent [where Q = "hold (\<lambda>_. p2) (block_range ptr 0 tot)"],
        rule launch_read [OF assms(1,2) _ assms(4)])
      (use assms(3) g2 in \<open>auto simp: hold_def fill_cells_def clean_def dest!: subsetD [OF region_mono [of 0 _ "min _ tot" tot], rotated 2]\<close>)
  then show ?thesis
    by (auto simp: move_inv_test_def Let_def loops_of_blocks [OF assms(6)] h2 g2 simp flip: h1_def)
qed

definition quiet_mem_env :: mem_env where
  "quiet_mem_env = \<lparr>e_events = (\<lambda>_. [Thread 3, Thread 0]), e_random = of_nat, e_elapsed = (\<lambda>_. ''1''), e_tdiff = (\<lambda>_. ''1'')\<rparr>"

definition single_thread_md :: memdata where
  "single_thread_md = \<lparr>md_action_name = ''mem'', md_gpu_idx = 1, md_blocks = 128, md_threadsPerBlock = 1,
     md_num_passes = 1, md_num_iterations = 1, md_global_pattern = 0, md_global_pattern_long = 0\<rparr>"

definition blank_host :: host where
  "blank_host = \<lparr>h_gpu = \<lparr>g_mem = (\<lambda>_. 7), g_cnt = (\<lambda>_. 0), g_failed = (\<lambda>_. 0), g_expected = (\<lambda>_. 0),
     g_current = (\<lambda>_. 0)\<rparr>, h_launches = 0, h_randoms = 0, h_events = []\<rparr>"

theorem moving_inversions_on_good_memory_witness:
  "\<exists>h'. move_inv_test quiet_mem_env single_thread_md 0x7f0000000000 240 0 0xffffffff blank_host = Some (0, h') \<and>
     h_gpu h' = fill_cells (block_range 0x7f0000000000 0 240) 0xffffffff (h_gpu blank_host)"
  by (rule moving_inversions_on_good_memory)
    (simp_all add: quiet_env_def quiet_mem_env_def upset_free_def room_def sizes(3) GRIDSIZE_def clean_def
      blank_host_def single_thread_md_def grid_dim_def)

end
