(* ===== verification/Gpu_Select.thy ===== *)
theory Gpu_Select
  imports Gpu_List Action_Base
begin

text \<open>The arguments every action hands to \<^verbatim>\<open>fetch_gpu_list\<close>: its device keys.\<close>

definition selection_of :: "('cb, 'up) actionbase \<Rightarrow> gpu_selection" where
  "selection_of a = \<lparr>sel_device = property_device a, sel_device_id = uint (property_device_id a),
     sel_device_all = property_device_all a, sel_index = property_device_index a,
     sel_index_all = property_device_index_all a\<rparr>"

end
