(* ===== verification/Mem_Worker.thy ===== *)
theory Mem_Worker
  imports Mem_Host Gpu_Select
begin

text \<open>
  The worker and the action of the memory test: \<^verbatim>\<open>mem.so/src/rvs_memworker.cpp\<close> and
  \<^verbatim>\<open>mem.so/src/action.cpp\<close>.  A worker sizes and allocates its region, runs the eleven tests over it
  and writes the JSON records; the action reads its keys, picks the GPUs and runs the workers.
  HIP's answers (sizes, allocations) are inputs.
\<close>

section \<open>The table of tests\<close>

definition rvs_memtests :: "(string \<times> nat) list" where
  "rvs_memtests = [('' Test1   [Walking 1 bit]'', 1), ('' Test2   [Own address test]'', 1),
     ('' Test3   [Moving inversions, ones&zeros]'', 1), ('' Test4   [Moving inversions, 8 bit pat]'', 1),
     ('' Test5   [Moving inversions, random pattern]'', 1), ('' Test6   [Block move, 64 moves]'', 1),
     ('' Test7   [Moving inversions, 32 bit pat]'', 1), ('' Test8   [Random number sequence]'', 1),
     ('' Test9   [Modulo 20, random pattern]'', 1), ('' Test10  [Bit fade test]'', 0),
     (''Test11  [Memory stress test]'', 1)]"

text \<open>\<open>None\<close>: an index past the table is written to.\<close>

fun init_tests :: "u32 list \<Rightarrow> (string \<times> nat) list \<Rightarrow> (string \<times> nat) list option" where
  "init_tests [] tests = Some tests"
| "init_tests (testidx # is) tests =
     (if unat testidx < length tests
      then init_tests is (tests[unat testidx := (fst (tests ! unat testidx), 0)]) else None)"

definition memtest_func ::
  "nat \<Rightarrow> mem_env \<Rightarrow> memdata \<Rightarrow> u64 \<Rightarrow> nat \<Rightarrow> u32 \<times> host \<Rightarrow> (u32 \<times> host) option" where
  "memtest_func i env md ptr tot x =
     ([test0, test1, test2, test3, test4, test5, test6, test7, test8, test9, test10] ! i) env md ptr tot x"

section \<open>The worker\<close>

record mem_worker =
  w_action_name :: string
  w_gpu_id :: u16
  w_max_num_blocks :: u64
  w_threadsPerBlock :: u64
  w_num_passes :: u64
  w_num_iterations :: u64
  w_mapped :: bool
  w_bjson :: bool

definition Initialization :: "mem_worker \<Rightarrow> memdata" where
  "Initialization w =
     \<lparr>md_action_name = w_action_name w, md_gpu_idx = ucast (w_gpu_id w), md_blocks = w_max_num_blocks w,
      md_threadsPerBlock = w_threadsPerBlock w, md_num_passes = w_num_passes w,
      md_num_iterations = w_num_iterations w, md_global_pattern = 0, md_global_pattern_long = 0\<rparr>"

definition u16_text :: "u16 \<Rightarrow> string" where "u16_text v = to_string (unat v)"

definition w_log :: "mem_worker \<Rightarrow> string \<Rightarrow> int \<Rightarrow> host \<Rightarrow> host" where
  "w_log w t level = mem_log (''['' @ w_action_name w @ ''] mem '' @ u16_text (w_gpu_id w) @ '' '' @ t) level"

definition gpu_index_text :: "gpulist \<Rightarrow> u16 \<Rightarrow> string" where
  "gpu_index_text gl gid = (case gpu2gpuindex gl gid of Found v \<Rightarrow> u16_text v | _ \<Rightarrow> ''0'')"

definition log_to_json :: "gpulist \<Rightarrow> mem_worker \<Rightarrow> int \<Rightarrow> (string \<times> string) list \<Rightarrow> host \<Rightarrow> host" where
  "log_to_json gl w level kvs h =
     h\<lparr>h_events := h_events h @
        [Mem_json ([(''gpu_id'', u16_text (w_gpu_id w)), (''gpu_index'', gpu_index_text gl (w_gpu_id w))] @ kvs) level]\<rparr>"

text \<open>The text between the brackets of the description.\<close>

definition bracketed :: "string \<Rightarrow> string" where
  "bracketed d =
     (case (str_find d ''['' 0, str_find d '']'' 0) of
        (Some i, Some j) \<Rightarrow> substr d (i + 1) (j - i - 1)
      | _ \<Rightarrow> d)"

fun tests_loop ::
  "mem_env \<Rightarrow> gpulist \<Rightarrow> mem_worker \<Rightarrow> u64 \<Rightarrow> nat \<Rightarrow> (nat \<times> string) list \<Rightarrow> host \<Rightarrow> host option" where
  "tests_loop env gl w ptr tot [] h = Some h"
| "tests_loop env gl w ptr tot ((i, desc) # ts) h =
     Option.bind (memtest_func i env (Initialization w) ptr tot (0, h)) (\<lambda>(err, h).
       let tdiff = e_tdiff env i;
           h = w_log w (''To run memtest time taken: '' @ tdiff @ '' seconds with '' @ to_string i @ '' passes '') loginfo h;
           h = (if w_bjson w
                then log_to_json gl w logresults
                       [(''Test'', bracketed desc), (''Time Taken'', tdiff), (''errors'', u32_text err),
                        (''pass'', if err = 0 then ''true'' else ''false'')] h
                else h)
       in tests_loop env gl w ptr tot ts h)"

text \<open>
  The tests in the order of the table, all of them.  The result goes to the callback of the
  worker's own action object, which is never set.
\<close>

definition run_tests :: "mem_env \<Rightarrow> gpulist \<Rightarrow> mem_worker \<Rightarrow> (string \<times> nat) list \<Rightarrow> u64 \<Rightarrow> nat \<Rightarrow> host \<Rightarrow> host option" where
  "run_tests env gl w tests ptr tot h =
     map_option (\<lambda>h. w_log w ('' Memory tests : '' @ to_string (length tests) @ '' tests complete '' @ nl) loginfo h)
       (tests_loop env gl w ptr tot (enumerate 0 (map fst tests)) h)"

definition MEM_NUM_SAVE_BLOCKS :: u32 where "MEM_NUM_SAVE_BLOCKS = 16"

text \<open>An allocation: its address, a later error code, or an error that ends the process.\<close>

datatype hip_alloc = Allocated u64 | Last_error | Aborted

datatype region = No_memory | Region u64 u32 u32 \<comment> \<open>address, blocks, allocated bytes\<close>
  | Process_aborted | Undecided

fun alloc_loop :: "mem_worker \<Rightarrow> hip_alloc list \<Rightarrow> u32 \<Rightarrow> host \<Rightarrow> region \<times> host" where
  "alloc_loop w allocs tot_num_blocks h =
     (let tot = tot_num_blocks - MEM_NUM_SAVE_BLOCKS in
      if tot = 0 then
        (No_memory, w_log w ('' Total Number of blocks is zero, cant allocate memory '' @ u32_text tot) logtrace h)
      else
        let alloc_size = ucast (ucast tot * BLOCKSIZE) :: u32;
            h = w_log w (''Use mapped memory   '' @ (if w_mapped w then ''1'' else ''0'') @ '' Block Size: ''
                  @ u64_text BLOCKSIZE) loginfo h;
            h = w_log w (''Memory to be allocated: '' @ u32_text alloc_size) loginfo h
        in (case allocs of
              [] \<Rightarrow> (Undecided, h)
            | Allocated ptr # as \<Rightarrow> (Region ptr tot alloc_size, h)
            | Aborted # as \<Rightarrow> (Process_aborted, h)
            | Last_error # as \<Rightarrow> alloc_loop w as tot h))"

text \<open>The number of blocks before the loop: 64-bit arithmetic stored in 32 bits.\<close>

definition first_blocks :: "mem_worker \<Rightarrow> u64 \<Rightarrow> u32" where
  "first_blocks w totmem =
     (let tot = ucast (totmem div BLOCKSIZE - 16) :: u32;
          m = w_max_num_blocks w
      in if m \<noteq> 0 then (if m + 16 < ucast tot then ucast (m + 16) else tot) else tot)"

definition region_blocks :: "mem_worker \<Rightarrow> u64 \<Rightarrow> u64 \<Rightarrow> u32" where
  "region_blocks w totmem free_mem =
     (let tot = first_blocks w totmem; f = free_mem div BLOCKSIZE - 16
      in if ucast tot < f then tot else ucast f)"

text \<open>\<^verbatim>\<open>allocate_small_mem\<close>: the counter and the four arrays start at zero.\<close>

definition allocate_small_mem :: "host \<Rightarrow> host" where
  "allocate_small_mem h = h\<lparr>h_gpu := (h_gpu h)\<lparr>g_cnt := (g_cnt (h_gpu h))(0 := 0),
     g_failed := clear10 (g_failed (h_gpu h)), g_expected := clear10 (g_expected (h_gpu h)),
     g_current := clear10 (g_current (h_gpu h))\<rparr>\<rparr>"

record hip_mem =
  hip_total_global :: u64
  hip_mem_total :: u64
  hip_mem_free :: u64
  hip_allocs :: "hip_alloc list"

text \<open>\<open>None\<close>: the worker does not come back (a walk without end, an abort, an allocation that is still retried).\<close>

definition worker_run :: "mem_env \<Rightarrow> gpulist \<Rightarrow> hip_mem \<Rightarrow> mem_worker \<Rightarrow> (string \<times> nat) list \<Rightarrow> host \<Rightarrow> host option" where
  "worker_run env gl hip w tests h =
     (let h = w_log w ('' Starting the Memory stress test '') loginfo h;
          h = w_log w (''Total Global Memory '' @ u64_text (hip_total_global hip)) logtrace h;
          h = w_log w (''Total Memory from hipMemGetInfo  '' @ u64_text (hip_mem_total hip)
                @ ''  Free Memory from hipMemGetInfo  '' @ u64_text (hip_mem_free hip)) logtrace h;
          h = allocate_small_mem h;
          tot = region_blocks w (hip_total_global hip) (hip_mem_free hip);
          h = w_log w (''Total Num of blocks  '' @ u32_text tot) logtrace h
      in case alloc_loop w (hip_allocs hip) tot h of
           (No_memory, h) \<Rightarrow> Some h
         | (Region ptr tot _, h) \<Rightarrow>
             run_tests env gl w tests ptr (unat tot)
               (w_log w (''Starting running tests  Total Num of blocks '' @ u32_text tot) logtrace h)
         | _ \<Rightarrow> None)"

section \<open>The action\<close>

record ('cb, 'up) mem_action =
  ma_base :: "('cb, 'up) actionbase"
  ma_max_num_blocks :: u64
  ma_num_passes :: u64
  ma_threadsPerBlock :: u64
  ma_stress :: bool
  ma_useMappedMemory :: bool
  ma_num_iterations :: u64
  ma_exclude_list :: "u32 list"

definition invalid_key :: "string \<Rightarrow> log_event" where
  "invalid_key k = Log_err (''invalid '' @ [CHR 0x27] @ k @ [CHR 0x27] @ '' key value'')"

definition mem_default_num_blocks :: u64 where "mem_default_num_blocks = 256"
definition mem_default_thrds_blk :: u64 where "mem_default_thrds_blk = 128"

definition get_all_mem_config_keys ::
  "('cb, 'up) mem_action \<Rightarrow> ((bool \<times> log_event list) \<times> ('cb, 'up) mem_action) option" where
  "get_all_mem_config_keys m =
     (let a = ma_base m;
          r = (True, [Log_msg (''['' @ action_name a @ ''] mem   Getting all mem properties'') logtrace]);
          (e, v) = property_get_int_def a ''mem_blocks'' (ma_max_num_blocks m) mem_default_num_blocks;
          m = m\<lparr>ma_max_num_blocks := v\<rparr>; r = step_key e [invalid_key ''mem_blocks''] r;
          (e, v) = property_get_int_def a ''num_passes'' (ma_num_passes m) 1;
          m = m\<lparr>ma_num_passes := v\<rparr>; r = step_key e [invalid_key ''num_passes''] r;
          (e, v) = property_get_int_def a ''thrds_per_blk'' (ma_threadsPerBlock m) mem_default_thrds_blk;
          m = m\<lparr>ma_threadsPerBlock := v\<rparr>; r = step_key e [invalid_key ''thrds_per_blk''] r;
          (e, b) = property_get_default (property_get_bool a ''stress'' (ma_stress m)) False;
          m = m\<lparr>ma_stress := b\<rparr>; r = step_key e [invalid_key ''stress''] r;
          (e, b) = property_get_default (property_get_bool a ''mapped_memory'' (ma_useMappedMemory m)) False;
          m = m\<lparr>ma_useMappedMemory := b\<rparr>; r = step_key e [invalid_key ''mapped_memory''] r;
          (e, v) = property_get_int_def a ''num_iter'' (ma_num_iterations m) 1;
          m = m\<lparr>ma_num_iterations := v\<rparr>; r = step_key e [invalid_key ''num_iter''] r
      in case property_get_uint_list a ''exclude'' yaml_device_prop_delimiter (ma_exclude_list m) False of
           None \<Rightarrow> None
         | Some (_, l, _) \<Rightarrow> Some (r, m\<lparr>ma_exclude_list := l\<rparr>))"

definition rvs_mem :: "string list" where
  "rvs_mem = [''Test 1  [Walking 1 bit]'', ''Test 2  [Own address test]'',
     ''Test 3  [Moving inversions, ones&zeros]'', ''Test 4  [Moving inversions, 8 bit pat]'',
     ''Test 5  [Moving inversions, random pattern]'', ''Test 6  [Block move, 64 moves]'',
     ''Test 7  [Moving inversions, 32 bit pat]'', ''Test 8  [Random number sequence]'',
     ''Test 9  [Modulo 20, random pattern]'', ''Test 10 [Bit fade test]'', ''Test 11 [Memory stress test]'']"

text \<open>
  What the workers share: the memories of the devices by HIP index, the stream of messages, and
  the table of tests.  Workers that run in parallel are taken one after the other: each has its
  own device, and what they share beside it only shows in the index of the progress messages.
\<close>

record mem_state =
  ms_gpu :: "nat \<Rightarrow> gpu"
  ms_launches :: nat
  ms_randoms :: nat
  ms_stops :: nat     \<comment> \<open>how often \<^verbatim>\<open>Stopping\<close> was asked\<close>
  ms_events :: "mem_event list"
  ms_tests :: "(string \<times> nat) list"

record mem_world =
  mw_env :: mem_env
  mw_gpus :: gpulist
  mw_hip :: "nat \<Rightarrow> hip_mem"
  mw_stopping :: "nat \<Rightarrow> bool"

definition ms_emit :: "mem_event \<Rightarrow> mem_state \<Rightarrow> mem_state" where
  "ms_emit e s = s\<lparr>ms_events := ms_events s @ [e]\<rparr>"

definition ms_log :: "string \<Rightarrow> int \<Rightarrow> mem_state \<Rightarrow> mem_state" where
  "ms_log msg level = ms_emit (Mem_log msg level)"

definition ask_stopping :: "mem_world \<Rightarrow> mem_state \<Rightarrow> bool \<times> mem_state" where
  "ask_stopping mw s = (mw_stopping mw (ms_stops s), s\<lparr>ms_stops := Suc (ms_stops s)\<rparr>)"

definition worker_of :: "('cb, 'up) mem_action \<Rightarrow> u16 \<Rightarrow> mem_worker" where
  "worker_of m gid =
     \<lparr>w_action_name = action_name (ma_base m), w_gpu_id = gid, w_max_num_blocks = ma_max_num_blocks m,
      w_threadsPerBlock = ma_threadsPerBlock m, w_num_passes = ma_num_passes m,
      w_num_iterations = ma_num_iterations m, w_mapped = ma_useMappedMemory m, w_bjson = bjson (ma_base m)\<rparr>"

definition run_worker :: "mem_world \<Rightarrow> ('cb, 'up) mem_action \<Rightarrow> nat \<times> u16 \<Rightarrow> mem_state \<Rightarrow> mem_state option" where
  "run_worker mw m = (\<lambda>(idx, gid) s.
     map_option (\<lambda>h. s\<lparr>ms_gpu := (ms_gpu s)(idx := h_gpu h), ms_launches := h_launches h,
                       ms_randoms := h_randoms h, ms_events := h_events h\<rparr>)
       (worker_run (mw_env mw) (mw_gpus mw) (mw_hip mw idx) (worker_of m gid) (ms_tests s)
          \<lparr>h_gpu = ms_gpu s idx, h_launches = ms_launches s, h_randoms = ms_randoms s, h_events = ms_events s\<rparr>))"

text \<open>The flag tells whether a stop ended the loop.\<close>

fun workers_loop ::
  "mem_world \<Rightarrow> ('cb, 'up) mem_action \<Rightarrow> bool \<Rightarrow> (nat \<times> u16) list \<Rightarrow> mem_state \<Rightarrow> (bool \<times> mem_state) option" where
  "workers_loop mw m parallel [] s = Some (False, s)"
| "workers_loop mw m parallel (d # ds) s =
     Option.bind (run_worker mw m d s) (\<lambda>s.
       if parallel then workers_loop mw m parallel ds s
       else (case ask_stopping mw s of
               (True, s) \<Rightarrow> Some (True, s)
             | (False, s) \<Rightarrow> workers_loop mw m parallel ds s))"

definition list_tests :: "('cb, 'up) mem_action \<Rightarrow> mem_state \<Rightarrow> mem_state" where
  "list_tests m s =
     fold (\<lambda>i s. if list_ex (\<lambda>x. unat x = i) (ma_exclude_list m) then s
                 else ms_log (''=============== '' @ rvs_mem ! i @ nl) logresults s) [0..<11] s"

text \<open>The endless loop with its counter; \<open>None\<close> also when it is never left.\<close>

partial_function (option) stress_loop ::
  "mem_world \<Rightarrow> ('cb, 'up) mem_action \<Rightarrow> (nat \<times> u16) list \<Rightarrow> u64 \<Rightarrow> mem_state \<Rightarrow> (bool \<times> mem_state) option" where
  "stress_loop mw m devs k s =
     (let a = ma_base m; s = ms_log (''['' @ action_name a @ ''] mem   The following memory tests will run'') logresults s in
      case (if devs = [] then None else init_tests (ma_exclude_list m) (ms_tests s)) of
        None \<Rightarrow> None
      | Some tests \<Rightarrow>
          let s = list_tests m (s\<lparr>ms_tests := tests\<rparr>);
              s = ms_log (''['' @ action_name a @ ''] mem   Starting all workers'') logtrace s
          in Option.bind (workers_loop mw m (property_parallel a) devs s) (\<lambda>(stopped, s).
               if stopped then Some (False, s)
               else (case ask_stopping mw s of (stop, s) \<Rightarrow>
                       if stop then Some (False, s)
                       else if property_count a \<noteq> 0 \<and> k + 1 = property_count a
                       then Some (case ask_stopping mw s of (stop, s) \<Rightarrow> (\<not> stop, s))
                       else stress_loop mw m devs (if property_count a \<noteq> 0 then k + 1 else k) s)))"

definition do_mem_stress_test ::
  "mem_world \<Rightarrow> ('cb, 'up) mem_action \<Rightarrow> (nat \<times> u16) list \<Rightarrow> mem_state \<Rightarrow> (bool \<times> mem_state) option" where
  "do_mem_stress_test mw m devs s = stress_loop mw m devs 0 s"

definition get_all_selected_gpus ::
  "mem_world \<Rightarrow> hip_device list \<Rightarrow> ('cb, 'up) mem_action \<Rightarrow> mem_state \<Rightarrow> (int \<times> mem_state) option" where
  "get_all_selected_gpus mw devs m s =
     (let a = ma_base m in
      if devs = [] then
        (let s = ms_log (action_name a @ '' mem No AMD compatible GPU found!'') logerror s
         in Some (-1, if bjson a then ms_emit (Mem_json [(''ERROR'', ''No AMD compatible GPU found!'')] loginfo) s else s))
      else
        let s = ms_log (''['' @ action_name a @ ''] mem  Scan for GPU IDs'') logtrace s in
        (case fetch_gpu_list (mw_gpus mw) (selection_of a) False devs [] [] of
           None \<Rightarrow> None
         | Some (gpus, _, found) \<Rightarrow>
             if \<not> found then
               Some (-1, ms_emit (Mem_err ''No devices match criteria from the test configuration.'') s)
             else map_option (\<lambda>(ok, s). (if ok then 0 else -1, s)) (do_mem_stress_test mw m gpus s)))"

text \<open>The result code, the result given to the callback, and the messages of the two key routines.\<close>

definition mem_result :: "actionstatus \<Rightarrow> string \<Rightarrow> action_result_t" where
  "mem_result st t = \<lparr>ar_state = ACTION_COMPLETED, ar_status = st, ar_output = t\<rparr>"

definition mem_action_run ::
  "mem_world \<Rightarrow> hip_device list \<Rightarrow> ('cb, 'up) mem_action \<Rightarrow> mem_state
     \<Rightarrow> (int \<times> action_result_t \<times> log_event list \<times> mem_state) option" where
  "mem_action_run mw devs m s =
     (case get_all_common_config_keys (ma_base m) of
        None \<Rightarrow> None
      | Some ((False, evs), a) \<Rightarrow> Some (-1, mem_result ACTION_FAILED ''Error in common configuration keys.'', evs, s)
      | Some ((True, evs), a) \<Rightarrow>
          (case get_all_mem_config_keys (m\<lparr>ma_base := a\<rparr>) of
             None \<Rightarrow> None
           | Some ((False, evs2), m) \<Rightarrow>
               Some (-1, mem_result ACTION_FAILED ''Error in MEM configuration keys.'', evs @ evs2, s)
           | Some ((True, evs2), m) \<Rightarrow>
               map_option (\<lambda>(res, s).
                 (res, mem_result (if res = 0 then ACTION_SUCCESS else ACTION_FAILED)
                    (''MEM Module action '' @ action_name a @ '' completed''), evs @ evs2,
                  if bjson a then ms_emit Mem_json_close s else s))
                 (get_all_selected_gpus mw devs m
                    (if bjson a then ms_emit (Mem_json_open (action_name a)) s else s))))"

end
