(* ===== verification/Mem_Tests.thy ===== *)
theory Mem_Tests
  imports Mem_Regions Mem_Worker
begin

text \<open>
  What all eleven tests keep.  The locale \<open>kernel_contract\<close> states what an invariant of the device
  must offer (a counter at zero, kept by every step of every kernel and by everything else that
  happens to the memory); inside it the tests are followed once.  Its interpretations are the
  counter alone, whatever happens to the memory, and the memory outside the region.
\<close>

section \<open>No test counts an error\<close>

text \<open>What the JSON records of a run say: the number of errors and the verdict.\<close>

definition verdicts :: "mem_event list \<Rightarrow> (string option \<times> string option) list" where
  "verdicts evs = concat (map (\<lambda>e. case e of
     Mem_json kvs _ \<Rightarrow> [(map_of kvs ''errors'', map_of kvs ''pass'')] | _ \<Rightarrow> []) evs)"

lemma verdicts_append [simp]: "verdicts (es @ fs) = verdicts es @ verdicts fs"
  by (simp add: verdicts_def)

lemma verdicts_log [simp]: "verdicts [Mem_log t l] = []"
  by (simp add: verdicts_def)

definition settled :: "(gpu \<Rightarrow> bool) \<Rightarrow> (string option \<times> string option) list \<Rightarrow> host \<Rightarrow> bool" where
  "settled I v h \<longleftrightarrow> I (h_gpu h) \<and> verdicts (h_events h) = v"

definition faultless :: "(gpu \<Rightarrow> bool) \<Rightarrow> (string option \<times> string option) list \<Rightarrow> u32 \<times> host \<Rightarrow> bool" where
  "faultless I v x \<longleftrightarrow> fst x = 0 \<and> settled I v (snd x)"

lemma faultless_pair [simp]: "faultless I v (e, h) \<longleftrightarrow> e = 0 \<and> settled I v h"
  by (simp add: faultless_def)

lemma settled_log [simp]: "settled I v (mem_log t l h) \<longleftrightarrow> settled I v h"
  "settled I v (show_progress md s i n h) \<longleftrightarrow> settled I v h"
  by (simp_all add: settled_def mem_log_def show_progress_def Let_def)

lemma faultless_pass_log [simp]: "faultless I v x \<Longrightarrow> faultless I v (pass_log md t x)"
  by (cases x) (simp add: pass_log_def)

lemma faultless_case:
  "faultless I v x \<Longrightarrow> (\<And>h. settled I v h \<Longrightarrow> faultless I w (f 0 h)) \<Longrightarrow> faultless I w (case x of (e, h) \<Rightarrow> f e h)"
  by (cases x) simp

lemma settled_case:
  "settled I v (snd x) \<Longrightarrow> (\<And>p h. settled I v h \<Longrightarrow> faultless I w (f p h)) \<Longrightarrow> faultless I w (case x of (p, h) \<Rightarrow> f p h)"
  by (cases x) simp

lemma settled_random [simp]: "settled I v (snd (get_random_num env h)) \<longleftrightarrow> settled I v h"
  "settled I v (snd (random_pattern env md h)) \<longleftrightarrow> settled I v h"
  "settled I v (snd (get_random_num_long env h)) \<longleftrightarrow> settled I v h"
  by (simp_all add: get_random_num_def random_pattern_def get_random_num_long_def settled_def Let_def)

lemma faultless_fold:
  "(\<And>i h. i \<in> set is \<Longrightarrow> settled I v h \<Longrightarrow> faultless I v (f i (0, h))) \<Longrightarrow> faultless I v x \<Longrightarrow> faultless I v (fold f is x)"
proof (induction "is" arbitrary: x)
  case (Cons i "is")
  obtain h where "x = (0, h)" "settled I v h" using Cons.prems by (cases x) auto
  then show ?case using Cons by simp
qed simp

lemma settled_fold:
  "(\<And>i h. i \<in> set is \<Longrightarrow> settled I v h \<Longrightarrow> settled I v (f i h)) \<Longrightarrow> settled I v h \<Longrightarrow> settled I v (fold f is h)"
  by (induction "is" arbitrary: h) simp_all

lemma outcome_case:
  "faultless I v x \<Longrightarrow> (\<And>h. settled I v h \<Longrightarrow> outcome tc P (f 0 h)) \<Longrightarrow> outcome tc P (case x of (e, h) \<Rightarrow> f e h)"
  by (cases x) simp

lemma outcome_settled_case:
  "settled I v (snd x) \<Longrightarrow> (\<And>p h. settled I v h \<Longrightarrow> outcome tc P (f p h)) \<Longrightarrow> outcome tc P (case x of (p, h) \<Rightarrow> f p h)"
  by (cases x) simp

text \<open>
  What the tests need of an invariant of the device: it implies a counter at zero, every step of
  every kernel keeps it, and so does whatever else happens to the memory.  The tests then keep it,
  and no test counts an error.  With \<open>tc\<close> the tests also come back: the counters do not wrap around
  and the walks of test 1 end.
\<close>

locale kernel_contract =
  fixes I :: "gpu \<Rightarrow> bool" and ok :: "step \<Rightarrow> bool" and tc :: bool and env :: mem_env and md :: memdata
    and ptr :: u64 and tot :: nat
  assumes I_clean: "I g \<Longrightarrow> clean g"
    and ok_step: "ok s \<Longrightarrow> I (snd x) \<Longrightarrow> I (snd (s x))"
    and upset: "Upset f \<in> set (e_events env n) \<Longrightarrow> I g \<Longrightarrow> I (g\<lparr>g_mem := f (g_mem g)\<rparr>)"
    and host_write: "I g \<Longrightarrow> i < words32 \<Longrightarrow> I (g\<lparr>g_mem := (g_mem g)(cell ptr i := u)\<rparr>)"
    and ok0g: "kernel_test0_global_write ptr (end_ptr_of ptr tot) = Some ss \<Longrightarrow> list_all ok ss"
      "kernel_test0_global_read ptr (end_ptr_of ptr tot) = Some ss \<Longrightarrow> list_all ok ss"
    and ok0: "i < tot \<Longrightarrow> b < grid_dim (md_blocks md) \<Longrightarrow>
        kernel_test0_write (ptr + of_nat i * BLOCKSIZE) (end_ptr_of ptr tot) b = Some ss \<Longrightarrow> list_all ok ss"
      "i < tot \<Longrightarrow> b < grid_dim (md_blocks md) \<Longrightarrow>
        kernel_test0_read (ptr + of_nat i * BLOCKSIZE) (end_ptr_of ptr tot) b = Some ss \<Longrightarrow> list_all ok ss"
    and ok1: "i < tot \<Longrightarrow> b < grid_dim (md_blocks md) \<Longrightarrow> list_all ok (kernel_test1_write (ptr + of_nat i * BLOCKSIZE) (end_ptr_of ptr tot) b)"
      "i < tot \<Longrightarrow> b < grid_dim (md_blocks md) \<Longrightarrow> list_all ok (kernel_test1_read (ptr + of_nat i * BLOCKSIZE) (end_ptr_of ptr tot) b)"
    and ok2: "i < tot \<Longrightarrow> b < grid_dim (md_blocks md) \<Longrightarrow> list_all ok (kernel_move_inv_write (ptr + of_nat i * BLOCKSIZE) (end_ptr_of ptr tot) p1 b)"
      "i < tot \<Longrightarrow> b < grid_dim (md_blocks md) \<Longrightarrow> list_all ok (kernel_move_inv_readwrite (ptr + of_nat i * BLOCKSIZE) (end_ptr_of ptr tot) p1 p2 b)"
      "i < tot \<Longrightarrow> b < grid_dim (md_blocks md) \<Longrightarrow> list_all ok (kernel_move_inv_read (ptr + of_nat i * BLOCKSIZE) (end_ptr_of ptr tot) p1 b)"
    and ok5: "i < tot \<Longrightarrow> b < grid_dim (md_blocks md) \<Longrightarrow> list_all ok (kernel_test5_init (ptr + of_nat i * BLOCKSIZE) (end_ptr_of ptr tot) b)"
      "i < tot \<Longrightarrow> b < grid_dim (md_blocks md) \<Longrightarrow> list_all ok (kernel_test5_move (ptr + of_nat i * BLOCKSIZE) (end_ptr_of ptr tot) b)"
      "i < tot \<Longrightarrow> b < grid_dim (md_blocks md) \<Longrightarrow> list_all ok (kernel_test5_check (ptr + of_nat i * BLOCKSIZE) (end_ptr_of ptr tot) b)"
    and ok6: "i < tot \<Longrightarrow> b < grid_dim (md_blocks md) \<Longrightarrow> list_all ok (kernel_movinv32_write (ptr + of_nat i * BLOCKSIZE) (end_ptr_of ptr tot) p1 lb sval offs b)"
      "i < tot \<Longrightarrow> b < grid_dim (md_blocks md) \<Longrightarrow> list_all ok (kernel_movinv32_readwrite (ptr + of_nat i * BLOCKSIZE) (end_ptr_of ptr tot) p1 lb sval offs b)"
      "i < tot \<Longrightarrow> list_all ok (kernel_movinv32_read (ptr + of_nat i * BLOCKSIZE) (end_ptr_of ptr tot) p1 lb sval offs (grid_dim (md_threadsPerBlock md)))"
    and ok7: "i < tot \<Longrightarrow> b < grid_dim (md_blocks md) \<Longrightarrow> list_all ok (kernel_test7_write (ptr + of_nat i * BLOCKSIZE) (end_ptr_of ptr tot) ptr b)"
      "i < tot \<Longrightarrow> b < grid_dim (md_blocks md) \<Longrightarrow> list_all ok (kernel_test7_readwrite (ptr + of_nat i * BLOCKSIZE) (end_ptr_of ptr tot) ptr b)"
      "i < tot \<Longrightarrow> b < grid_dim (md_blocks md) \<Longrightarrow> list_all ok (kernel_test7_read (ptr + of_nat i * BLOCKSIZE) (end_ptr_of ptr tot) ptr b)"
    and ok8: "i < tot \<Longrightarrow> list_all ok (kernel_modtest_write (ptr + of_nat i * BLOCKSIZE) (end_ptr_of ptr tot) offs p1 p2 (grid_dim (md_threadsPerBlock md)))"
      "i < tot \<Longrightarrow> list_all ok (kernel_modtest_read (ptr + of_nat i * BLOCKSIZE) (end_ptr_of ptr tot) offs p1 (grid_dim (md_threadsPerBlock md)))"
    and ok10: "b < STRESS_GRIDSIZE \<Longrightarrow> t < STRESS_BLOCKSIZE \<Longrightarrow> list_all ok (test10_kernel_write ptr (ucast (of_nat tot * BLOCKSIZE)) q b t)"
      "b < STRESS_GRIDSIZE \<Longrightarrow> t < STRESS_BLOCKSIZE \<Longrightarrow> list_all ok (test10_kernel_readwrite ptr (ucast (of_nat tot * BLOCKSIZE)) q r b t)"
    and few_blocks: "tc \<Longrightarrow> tot + GRIDSIZE \<le> 2 ^ 32"
    and few_passes: "tc \<Longrightarrow> unat (md_num_passes md) < 2 ^ 32"
    and global_ends: "tc \<Longrightarrow> kernel_test0_global_write ptr (end_ptr_of ptr tot) \<noteq> None"
      "tc \<Longrightarrow> kernel_test0_global_read ptr (end_ptr_of ptr tot) \<noteq> None"
    and walk_ends: "tc \<Longrightarrow> i < tot \<Longrightarrow> b < grid_dim (md_blocks md) \<Longrightarrow>
        kernel_test0_write (ptr + of_nat i * BLOCKSIZE) (end_ptr_of ptr tot) b \<noteq> None"
      "tc \<Longrightarrow> i < tot \<Longrightarrow> b < grid_dim (md_blocks md) \<Longrightarrow>
        kernel_test0_read (ptr + of_nat i * BLOCKSIZE) (end_ptr_of ptr tot) b \<noteq> None"
begin

lemma grid_outcome: "s < 2 \<Longrightarrow> outcome tc (list_all (\<lambda>i. i < tot)) (grid_from (of_nat s) (of_nat tot))"
proof (cases "grid_from (of_nat s) (of_nat tot)")
  case None
  assume "s < 2"
  with None show ?thesis using grid_from_blocks [of s tot] few_blocks by (auto simp: GRIDSIZE_def)
next
  case (Some "is")
  then show ?thesis using grid_from_below [OF Some] by (simp add: list_all_iff)
qed

lemma grid_outcome_0: "outcome tc (list_all (\<lambda>i. i < tot)) (grid_from 0 (of_nat tot))"
  using grid_outcome [of 0] by simp

lemma settled_checking [simp]: "settled I v h \<Longrightarrow> error_checking md t i h = (0, h)"
  by (simp add: settled_def error_checking_clean I_clean)

lemma faultless_checking: "settled I v h \<Longrightarrow> faultless I v (error_checking md t i h)"
  by simp

lemma run_events_I:
  assumes "\<And>b t. b < n \<Longrightarrow> t < k \<Longrightarrow> list_all ok (kern b t)" and "I g"
  shows "I (run_events (e_events env j) (launch_threads kern n k) g)"
proof -
  have "I g \<longrightarrow> I (run_events (e_events env j) (launch_threads kern n k) g)"
    by (rule kept.run_events_frame)
      (use assms(1) ok_step upset in \<open>fastforce simp: launch_threads_def list_all_iff\<close>)+
  with assms(2) show ?thesis by simp
qed

lemma settled_launch_on:
  "(\<And>b t. b < n \<Longrightarrow> t < k \<Longrightarrow> list_all ok (kern b t)) \<Longrightarrow> settled I v h \<Longrightarrow> settled I v (launch_on env n k kern h)"
  using run_events_I [of n k kern] by (simp add: settled_def launch_on_def)

lemma settled_launch:
  "(\<And>b. b < grid_dim (md_blocks md) \<Longrightarrow> list_all ok (kern b)) \<Longrightarrow> settled I v h \<Longrightarrow> settled I v (launch env md kern h)"
  unfolding launch_def by (rule settled_launch_on) simp_all

lemma settled_write_loop:
  assumes "\<And>i b. i < tot \<Longrightarrow> b < grid_dim (md_blocks md) \<Longrightarrow> list_all ok (kern i b)" and "settled I v h" and "s < 2"
  shows "outcome tc (settled I v) (write_loop env md msg s tot kern h)"
  unfolding write_loop_def
proof (rule outcome_bind [OF grid_outcome [OF assms(3)]])
  fix "is" assume "list_all (\<lambda>i. i < tot) is"
  then have "settled I v (write_blocks env md msg tot kern is h)"
    unfolding write_blocks_def by (intro settled_fold [OF _ assms(2)]) (auto simp: list_all_iff intro!: settled_launch assms(1))
  then show "outcome tc (settled I v) (Some (write_blocks env md msg tot kern is h))" by simp
qed

lemma faultless_read_loop:
  assumes "\<And>i b. i < tot \<Longrightarrow> b < grid_dim (md_blocks md) \<Longrightarrow> list_all ok (kern i b)" and "faultless I v x" and "s < 2"
  shows "outcome tc (faultless I v) (read_loop env md emsg msg s tot kern x)"
proof -
  have step: "error_checking md emsg k (launch env md (kern k) h) = (0, launch env md (kern k) h) \<and>
      settled I v (launch env md (kern k) h)" if "k < tot" "settled I v h" for k h
  proof -
    have "settled I v (launch env md (kern k) h)" by (rule settled_launch [OF _ that(2)]) (rule assms(1) [OF that(1)])
    then show ?thesis by simp
  qed
  have "faultless I v (read_blocks env md emsg msg tot kern is x)" if "list_all (\<lambda>i. i < tot) is" for "is"
    unfolding read_blocks_def
    by (rule faultless_fold [OF _ assms(2)]) (use step that in \<open>auto simp: list_all_iff split: prod.splits\<close>)
  then show ?thesis unfolding read_loop_def by (intro outcome_bind [OF grid_outcome [OF assms(3)]]) simp
qed

lemmas loops = outcome_bind [OF settled_write_loop] outcome_bind [OF faultless_read_loop] faultless_read_loop

lemma faultless_move_inv: "settled I v h \<Longrightarrow> outcome tc (faultless I v) (move_inv_test env md ptr tot p1 p2 h)"
  unfolding move_inv_test_def Let_def by (intro loops ok2) simp_all

lemma faultless_test1: "faultless I v x \<Longrightarrow> outcome tc (faultless I v) (test1 env md ptr tot x)"
  unfolding test1_def Let_def by (elim outcome_case) (intro loops ok1; auto intro: faultless_pass_log)

lemma faultless_test2: "faultless I v x \<Longrightarrow> outcome tc (faultless I v) (test2 env md ptr tot x)"
  unfolding test2_def Let_def
  by (rule outcome_bind [OF faultless_move_inv [where v = v]], simp add: faultless_def, elim outcome_case,
      rule outcome_bind [OF faultless_move_inv [where v = v]], simp, elim outcome_case, simp)

lemma faultless_test3: "faultless I v x \<Longrightarrow> outcome tc (faultless I v) (test3 env md ptr tot x)"
  unfolding test3_def Let_def
  by (rule outcome_bind [OF faultless_move_inv [where v = v]], simp add: faultless_def, elim outcome_case,
      rule outcome_bind [OF faultless_move_inv [where v = v]], simp, elim outcome_case, simp)

text \<open>Tests 4, 7 and 8 end in their first round, because it finds no error.\<close>

lemma faultless_test4_repeat:
  assumes "faultless I v x"
  shows "outcome tc (faultless I v) (test4_repeat env md ptr tot p1 p2 0 x)"
  by (subst test4_repeat.simps, rule outcome_bind [OF faultless_move_inv [where v = v]])
    (use assms in \<open>auto simp: faultless_def\<close>)

lemma faultless_test4: "faultless I v x \<Longrightarrow> outcome tc (faultless I v) (test4 env md ptr tot x)"
  unfolding test4_def Let_def
  by (elim outcome_case, rule outcome_settled_case) (auto intro!: faultless_test4_repeat)

lemma faultless_test5: "faultless I v x \<Longrightarrow> outcome tc (faultless I v) (test5 env md ptr tot x)"
proof -
  have init: "settled I v (fold (\<lambda>i h. show_progress md ''Test 6[init]'' i tot
      (launch env md (kernel_test5_init (ptr + of_nat i * BLOCKSIZE) (end_ptr_of ptr tot))
        (snd (error_checking md ''Intializing Test 6 '' i h)))) is h)"
    if "settled I v h" "list_all (\<lambda>i. i < tot) is" for h "is"
    by (rule settled_fold [OF _ that(1)]) (use that(2) in \<open>auto simp: list_all_iff intro!: settled_launch ok5\<close>)
  assume "faultless I v x"
  then show ?thesis
    unfolding test5_def Let_def
    by (elim outcome_case) (rule outcome_bind [OF grid_outcome_0], intro loops ok5; auto intro: faultless_pass_log init)
qed

lemma faultless_movinv32: "settled I v h \<Longrightarrow> outcome tc (faultless I v) (movinv32 env md ptr tot pat lb sval offs h)"
  unfolding movinv32_def Let_def by (intro loops ok6) simp_all

lemma faultless_test6: "faultless I v x \<Longrightarrow> outcome tc (faultless I v) (test6 env md ptr tot x)"
proof -
  have round: "outcome tc (faultless I v) (case y of (err, h) \<Rightarrow>
      Option.bind (movinv32 env md ptr tot p 1 0 i h) (\<lambda>(n1, h).
        Option.bind (movinv32 env md ptr tot (NOT p) 0xfffffffe 1 i h) (\<lambda>(n2, h). Some (err + n1 + n2, h))))"
    if "faultless I v y" for y p i
    using that
    by (elim outcome_case, intro outcome_bind [OF faultless_movinv32]; (simp; fail)?; elim outcome_case)
      (intro outcome_bind [OF faultless_movinv32]; (simp; fail)?; elim outcome_case; simp)
  assume "faultless I v x"
  then show ?thesis
    unfolding test6_def Let_def
    by (elim outcome_case) (rule outcome_bind [OF outcome_fold [where P = "faultless I v"]]; simp add: round)
qed

lemma settled_fill: "list_all (\<lambda>i. i < words32) is \<Longrightarrow> settled I v h \<Longrightarrow> settled I v (fill_random env ptr is h)"
proof (induction "is" arbitrary: h)
  case (Cons i "is")
  then show ?case by (simp add: get_random_num_def settled_def host_write)
qed simp

lemma faultless_test7_round: "faultless I v x \<Longrightarrow> outcome tc (faultless I v) (test7_round env md ptr tot x)"
  unfolding test7_round_def Let_def by (elim outcome_case) (intro loops ok7; simp)

lemma faultless_test7_repeat:
  assumes "faultless I v x"
  shows "outcome tc (faultless I v) (test7_repeat env md ptr tot 0 x)"
  by (subst test7_repeat.simps, rule outcome_bind [OF faultless_test7_round [OF assms]])
    (auto simp: faultless_def)

lemma faultless_test7: "faultless I v x \<Longrightarrow> outcome tc (faultless I v) (test7 env md ptr tot x)"
  unfolding test7_def Let_def
  by (elim outcome_case, rule faultless_test7_repeat) (auto intro!: settled_fill simp: list_all_iff)

lemma faultless_modtest: "settled I v h \<Longrightarrow> outcome tc (faultless I v) (modtest env md ptr tot offs p1 p2 h)"
  unfolding modtest_def Let_def by (intro loops ok8) simp_all

lemma faultless_test8_repeat:
  assumes "faultless I v x"
  shows "outcome tc (faultless I v) (test8_repeat env md ptr tot p1 p2 0 x)"
proof -
  have round: "outcome tc (faultless I v) (case y of (err, h) \<Rightarrow>
      Option.bind (modtest env md ptr tot i p1 p2 h) (\<lambda>(k, h). Some (err + k, h)))" if "faultless I v y" for y i
    using that by (elim outcome_case, intro outcome_bind [OF faultless_modtest]; (simp; fail)?; elim outcome_case; simp)
  show ?thesis
    by (subst test8_repeat.simps, rule outcome_bind [OF outcome_fold [where P = "faultless I v"]])
      (use assms round in \<open>auto simp: faultless_def\<close>)
qed

lemma faultless_test8: "faultless I v x \<Longrightarrow> outcome tc (faultless I v) (test8 env md ptr tot x)"
  unfolding test8_def Let_def
  by (elim outcome_case, rule outcome_settled_case) (auto intro!: faultless_test8_repeat)

lemma faultless_test9: "faultless I v x \<Longrightarrow> outcome tc (faultless I v) (test9 env md ptr tot x)"
  unfolding test9_def Let_def by (elim outcome_case) (intro loops ok2; auto intro: faultless_pass_log)

lemma settled_test10_rounds:
  "settled I v h \<Longrightarrow> settled I v (test10_rounds env ptr (ucast (of_nat tot * BLOCKSIZE)) n p1 p2 h)"
  by (induction n arbitrary: p1 p2 h) (simp_all add: settled_launch_on ok10)

lemma faultless_test10: "faultless I v x \<Longrightarrow> outcome tc (faultless I v) (test10 env md ptr tot x)"
  unfolding test10_def Let_def
  apply (elim outcome_case, rule outcome_settled_case [where I = I and v = v])
   apply simp
  apply (rule outcome_case [OF faultless_checking])
   apply (intro settled_test10_rounds settled_launch_on ok10; simp)
  apply simp
  done

lemma settled_launch_opt:
  assumes "\<And>b ss. b < grid_dim (md_blocks md) \<Longrightarrow> kern b = Some ss \<Longrightarrow> list_all ok ss" and "settled I v h"
    and "launch_opt env md kern h = Some k"
  shows "settled I v k"
proof -
  have k: "k = launch env md (\<lambda>b. the (kern b)) h"
    and some: "0 < grid_dim (md_threadsPerBlock md) \<Longrightarrow> b < grid_dim (md_blocks md) \<Longrightarrow> kern b \<noteq> None" for b
    using assms(3) by (auto simp: launch_opt_def list_ex_iff split: if_splits)
  show ?thesis unfolding k launch_def
    by (rule settled_launch_on [OF _ assms(2)]) (use assms(1) some in fastforce)
qed

lemma launch_opt_outcome:
  assumes "\<And>b ss. b < grid_dim (md_blocks md) \<Longrightarrow> kern b = Some ss \<Longrightarrow> list_all ok ss" and "settled I v h"
    and "\<And>b. tc \<Longrightarrow> b < grid_dim (md_blocks md) \<Longrightarrow> kern b \<noteq> None"
  shows "outcome tc (settled I v) (launch_opt env md kern h)"
proof (cases "launch_opt env md kern h")
  case None
  then show ?thesis using assms(3) by (fastforce simp: launch_opt_def list_ex_iff split: if_splits)
next
  case (Some k)
  then show ?thesis using settled_launch_opt [OF assms(1,2) Some] by simp
qed

lemma write_loop_opt_outcome:
  assumes "\<And>i b ss. i < tot \<Longrightarrow> b < grid_dim (md_blocks md) \<Longrightarrow> kern i b = Some ss \<Longrightarrow> list_all ok ss"
    and "\<And>i b. tc \<Longrightarrow> i < tot \<Longrightarrow> b < grid_dim (md_blocks md) \<Longrightarrow> kern i b \<noteq> None"
  shows "list_all (\<lambda>i. i < tot) is \<Longrightarrow> settled I v h \<Longrightarrow> outcome tc (settled I v) (write_loop_opt env md msg tot kern is h)"
proof (induction "is" arbitrary: h)
  case (Cons i "is")
  show ?case unfolding write_loop_opt.simps
    by (rule outcome_bind [OF launch_opt_outcome [OF _ Cons.prems(2)]]) (use assms Cons in auto)
qed simp

lemma read_loop_opt_outcome:
  assumes "\<And>i b ss. i < tot \<Longrightarrow> b < grid_dim (md_blocks md) \<Longrightarrow> kern i b = Some ss \<Longrightarrow> list_all ok ss"
    and "\<And>i b. tc \<Longrightarrow> i < tot \<Longrightarrow> b < grid_dim (md_blocks md) \<Longrightarrow> kern i b \<noteq> None"
  shows "list_all (\<lambda>i. i < tot) is \<Longrightarrow> faultless I v x \<Longrightarrow>
    outcome tc (faultless I v) (read_loop_opt env md emsg msg tot kern is x)"
proof (induction "is" arbitrary: x)
  case (Cons i "is")
  obtain h where x: "x = (0, h)" "settled I v h" using Cons.prems(2) by (cases x) auto
  show ?case unfolding x(1) read_loop_opt.simps
    by (rule outcome_bind [OF launch_opt_outcome [OF _ x(2)]]) (use assms Cons in auto)
qed simp

lemma test0_pass_outcome:
  assumes "faultless I v x"
  shows "outcome tc (faultless I v) (test0_pass env md ptr tot x)"
  unfolding test0_pass_def
proof (rule outcome_bind [OF grid_outcome_0])
  fix "is" assume below: "list_all (\<lambda>i. i < tot) is"
  have x: "settled I v (snd x)" "fst x = 0" using assms by (simp_all add: faultless_def)
  show "outcome tc (faultless I v) (Option.bind (write_loop_opt env md '' Test 1 on writing :'' tot
      (\<lambda>i. kernel_test0_write (ptr + of_nat i * BLOCKSIZE) (end_ptr_of ptr tot)) is (snd x)) (\<lambda>h.
      read_loop_opt env md ''Test 1'' '' Test 1 on reading :'' tot
      (\<lambda>i. kernel_test0_read (ptr + of_nat i * BLOCKSIZE) (end_ptr_of ptr tot)) is (fst x, h)))"
    by (rule outcome_bind [OF write_loop_opt_outcome [OF ok0(1) walk_ends(1) below x(1)]]; assumption?)
      (rule read_loop_opt_outcome [OF ok0(2) walk_ends(2) below]; (assumption | simp add: x(2)))
qed

lemma faultless_test0_passes:
  assumes "test0_passes pass n ite err h = Some y"
  shows "(\<forall>x. faultless I v x \<longrightarrow> outcome tc (faultless I v) (pass x)) \<longrightarrow> faultless I v (err, h) \<longrightarrow> faultless I v y"
proof (rule test0_passes.raw_induct [OF _ assms], intro impI)
  fix passes pass n ite err h y
  assume IH: "\<And>pass n ite err h y. passes pass n ite err h = Some y \<Longrightarrow>
      (\<forall>x. faultless I v x \<longrightarrow> outcome tc (faultless I v) (pass x)) \<longrightarrow> faultless I v (err, h) \<longrightarrow> faultless I v y"
    and run: "(if (ucast ite :: u64) < n then Option.bind (pass (err, h)) (\<lambda>y. passes pass n (ite + 1) (fst y) (snd y))
        else Some (err, h)) = Some y"
    and one: "\<forall>x. faultless I v x \<longrightarrow> outcome tc (faultless I v) (pass x)" and x: "faultless I v (err, h)"
  show "faultless I v y"
  proof (cases "(ucast ite :: u64) < n")
    case True
    with run obtain z where "pass (err, h) = Some z" "passes pass n (ite + 1) (fst z) (snd z) = Some y"
      by (auto simp: bind_eq_Some_conv)
    moreover from this one x have "faultless I v z" by fastforce
    ultimately show ?thesis using IH [of pass n "ite + 1" "fst z" "snd z" y] one by simp
  qed (use run x in auto)
qed

lemma test0_passes_returns:
  assumes "\<And>x. faultless I v x \<Longrightarrow> outcome True (faultless I v) (pass x)" and "unat n < 2 ^ 32"
  shows "faultless I v (err, h) \<Longrightarrow> test0_passes pass n ite err h \<noteq> None"
proof (induction "unat n - unat ite" arbitrary: ite err h rule: less_induct)
  case less
  show ?case
  proof (cases "(ucast ite :: u64) < n")
    case True
    moreover have "unat (ucast ite :: u64) = unat ite" by (rule unat_ucast_32)
    ultimately have lt: "unat ite < unat n" by (simp add: word_less_nat_alt)
    then have "Suc (unat ite) < 2 ^ 32" using assms(2) by simp
    then have up: "unat (ite + 1) = Suc (unat ite)" using unat_add_lem [of ite 1] by simp
    obtain z where z: "pass (err, h) = Some z" "faultless I v z" using outcome_total [OF assms(1) [OF less.prems]] by blast
    have "test0_passes pass n (ite + 1) (fst z) (snd z) \<noteq> None" by (rule less.hyps) (use lt up z in simp_all)
    then show ?thesis using True z by (subst test0_passes.simps) simp
  qed (subst test0_passes.simps, simp)
qed

lemma faultless_test0:
  assumes "faultless I v x"
  shows "outcome tc (faultless I v) (test0 env md ptr tot x)"
proof -
  have h: "settled I v (mem_log (lead md @ ''Test 1: Change one bit memory addresss  '') logresults (snd x))"
    using assms by (simp add: faultless_def)
  let ?passes = "test0_passes (test0_pass env md ptr tot) (md_num_passes md)"
  have passes: "outcome tc (faultless I v) (?passes 0 err h)" if y: "faultless I v (err, h)" for err h
  proof (cases "?passes 0 err h")
    case None
    moreover have "?passes 0 err h \<noteq> None" if tc
      by (rule test0_passes_returns [OF _ few_passes [OF that] y]) (use that test0_pass_outcome in simp)
    ultimately show ?thesis by auto
  next
    case (Some z)
    then show ?thesis using faultless_test0_passes [OF Some, of v] test0_pass_outcome y by simp
  qed
  show ?thesis
    unfolding test0_def Let_def
    by (rule outcome_bind [OF launch_opt_outcome [OF ok0g(1) h global_ends(1)]], assumption, assumption,
        rule outcome_bind [OF launch_opt_outcome [OF ok0g(2) _ global_ends(2)]], assumption, assumption, assumption,
        simp add: settled_checking, rule outcome_bind [OF passes])
      (simp_all add: faultless_def)
qed

lemma faultless_memtest:
  assumes "faultless I v x" and "i < 11"
  shows "outcome tc (faultless I v) (memtest_func i env md ptr tot x)"
proof -
  have "i \<in> {0, 1, 2, 3, 4, 5, 6, 7, 8, 9, 10}" using assms(2) by (simp add: insert_iff) arith
  then show ?thesis
    using assms(1) unfolding memtest_func_def
    by (elim insertE emptyE; simp only: nth_Cons_0 nth_Cons_numeral nth_Cons_Suc One_nat_def)
      (simp_all add: numeral_nat faultless_test0 faultless_test1 faultless_test2 faultless_test3 faultless_test4
        faultless_test5 faultless_test6 faultless_test7 faultless_test8 faultless_test9 faultless_test10)
qed

end

lemma u32_text_0: "u32_text 0 = ''0''"
  by code_simp

lemma tests_loop_verdicts:
  assumes C: "kernel_contract I ok tc env (Initialization w) ptr tot" and "settled I v h" and "list_all (\<lambda>(i, d). i < 11) ts"
  shows "outcome tc (settled I (v @ (if w_bjson w then replicate (length ts) (Some ''0'', Some ''true'') else [])))
    (tests_loop env gl w ptr tot ts h)"
  using assms(2-)
proof (induction ts arbitrary: v h)
  case Nil
  then show ?case by simp
next
  case (Cons d ts)
  obtain i d' where d: "d = (i, d')" by fastforce
  have one: "outcome tc (faultless I v) (memtest_func i env (Initialization w) ptr tot (0, h))"
    by (rule kernel_contract.faultless_memtest [OF C]) (use Cons.prems d in auto)
  show ?case
    unfolding d tests_loop.simps
  proof (rule outcome_bind [OF one], elim outcome_case, unfold Let_def)
    fix k assume k: "settled I v k"
    define h2 where "h2 = w_log w (''To run memtest time taken: '' @ e_tdiff env i @ '' seconds with '' @ to_string i @ '' passes '') loginfo k"
    define h3 where "h3 = (if w_bjson w then log_to_json gl w logresults
       [(''Test'', bracketed d'), (''Time Taken'', e_tdiff env i), (''errors'', u32_text 0),
        (''pass'', if (0 :: u32) = 0 then ''true'' else ''false'')] h2 else h2)"
    have "settled I (v @ (if w_bjson w then [(Some ''0'', Some ''true'')] else [])) h3"
      using k by (simp add: h3_def h2_def w_log_def log_to_json_def settled_def mem_log_def verdicts_def u32_text_0)
    from Cons.IH [OF this] Cons.prems(2)
    have "outcome tc (settled I (v @ (if w_bjson w then replicate (length ((i, d') # ts)) (Some ''0'', Some ''true'') else [])))
      (tests_loop env gl w ptr tot ts h3)" by (simp split: if_splits)
    then show "outcome tc (settled I (v @ (if w_bjson w then replicate (length ((i, d') # ts)) (Some ''0'', Some ''true'') else [])))
      (tests_loop env gl w ptr tot ts (if w_bjson w then log_to_json gl w logresults
       [(''Test'', bracketed d'), (''Time Taken'', e_tdiff env i), (''errors'', u32_text 0),
        (''pass'', if (0 :: u32) = 0 then ''true'' else ''false'')]
       (w_log w (''To run memtest time taken: '' @ e_tdiff env i @ '' seconds with '' @ to_string i @ '' passes '') loginfo k)
       else w_log w (''To run memtest time taken: '' @ e_tdiff env i @ '' seconds with '' @ to_string i @ '' passes '') loginfo k))"
      unfolding h3_def h2_def .
  qed
qed

lemma run_tests_outcome:
  assumes C: "kernel_contract I ok tc env (Initialization w) ptr tot" and "settled I v h" and "length tests = 11"
  shows "outcome tc (settled I (v @ (if w_bjson w then replicate 11 (Some ''0'', Some ''true'') else [])))
    (run_tests env gl w tests ptr tot h)"
proof -
  have "list_all (\<lambda>(i, d). i < 11) (enumerate 0 (map fst tests))"
    using assms(3) by (auto simp: list_all_iff enumerate_eq_zip in_set_zip)
  from tests_loop_verdicts [OF C assms(2) this, of gl]
  have "outcome tc (settled I (v @ (if w_bjson w then replicate 11 (Some ''0'', Some ''true'') else [])))
      (tests_loop env gl w ptr tot (enumerate 0 (map fst tests)) h)" unfolding length_enumerate length_map assms(3) .
  then show ?thesis
    by (cases "tests_loop env gl w ptr tot (enumerate 0 (map fst tests)) h") (simp_all add: run_tests_def w_log_def)
qed

lemma run_tests_verdicts:
  assumes "kernel_contract I ok tc env (Initialization w) ptr tot" and "settled I v h" and "length tests = 11" and "run_tests env gl w tests ptr tot h = Some h'"
  shows "settled I (v @ (if w_bjson w then replicate 11 (Some ''0'', Some ''true'') else [])) h'"
  using run_tests_outcome [OF assms(1-3), of gl] assms(4) by simp

end
