(* ===== verification/Mem_Safety.thy ===== *)
theory Mem_Safety
  imports Mem_Tests
begin

text \<open>
  The kernels stay inside the region they are given: the addresses they store to, and the
  interpretation of \<open>kernel_contract\<close> with an invariant that freezes the memory outside.
\<close>

section \<open>The addresses of the region\<close>

definition span :: "u64 \<Rightarrow> nat \<Rightarrow> u64 set" where
  "span p tot = {p ..< end_ptr_of p tot}"

lemma end_ptr_block_ptr: "end_ptr_of p tot = block_ptr p tot"
  by (simp add: end_ptr_of_def block_ptr_def)

lemma cell_in_span: "room p tot \<Longrightarrow> j < tot * words32 \<Longrightarrow> cell p j \<in> span p tot"
  using unat_cell [of p tot j] unat_block_ptr [of p tot]
  by (simp add: span_def end_ptr_block_ptr word_le_nat_alt word_less_nat_alt sizes)

lemma cell_cell: "cell (cell p i) j = cell p (i + j)"
  by (simp add: cell_def algebra_simps)

lemma cell_words: "p + of_nat (8 * i) = cell p (2 * i)" "cell p k + 4 = cell p (Suc k)"
  by (simp_all add: cell_def algebra_simps)

text \<open>A kernel that passes its guard works in a block of the region.\<close>

lemma guarded_cell:
  assumes "room p n" and "i + b \<le> n" and "tot \<le> n" and "\<not> end_ptr_of p tot \<le> block_ptr (p + of_nat i * BLOCKSIZE) b"
    and "j < words32"
  shows "cell (block_ptr (p + of_nat i * BLOCKSIZE) b) j \<in> span p tot"
proof -
  have lt: "i + b < tot" using guard [OF assms(1-3)] assms(4) by (simp add: block_ptr_add end_ptr_of_def)
  have "(i + b) * words32 + j < Suc (i + b) * words32" using assms(5) by simp
  also have "\<dots> \<le> tot * words32" using lt by (intro mult_le_mono1) simp
  finally show ?thesis
    by (simp add: block_ptr_add block_ptr_cell cell_in_span room_mono [OF assms(1,3)])
qed

section \<open>Steps that stay inside\<close>

definition inside :: "u64 set \<Rightarrow> step \<Rightarrow> bool" where
  "inside A s \<longleftrightarrow> (\<forall>x a. a \<notin> A \<longrightarrow> g_mem (snd (s x)) a = g_mem (snd x) a)"

lemma inside_steps:
  "inside A (check a p)" "inside A (check64 a w)" "inside A (check_pair a b)" "inside A (report64 a p)"
  "a \<in> A \<Longrightarrow> inside A (store a v)" "a \<in> A \<Longrightarrow> inside A (copy a b)" "a \<in> A \<Longrightarrow> inside A (checked_store a p q)"
  "a \<in> A \<Longrightarrow> a + 4 \<in> A \<Longrightarrow> inside A (store64 a w)"
  by (auto simp: inside_def step_frame)

lemma inside_dependent:
  "(\<And>g. inside A (f g)) \<Longrightarrow> inside A (\<lambda>(l, g). f g (l, g))"
  unfolding inside_def by (simp split: prod.split)

lemma inside_both: "inside A s \<Longrightarrow> inside A t \<Longrightarrow> inside A (\<lambda>x. s (t x))"
  unfolding inside_def by metis

lemma length_movinv32_pats [simp]: "length (movinv32_pats n k pat lb sval) = n"
  by (induction n arbitrary: k pat) simp_all

lemma length_test5_patterns [simp]: "length (test5_patterns n p) = n"
  by (induction n arbitrary: p) (simp_all add: Let_def)

lemma length_test5_groups: "length (concat (map test5_group ps)) = 16 * length ps"
  by (induction ps) (simp_all add: test5_group_def Let_def)

lemma enumerate_cells:
  "list_all P (map (\<lambda>(i, v). f i v) (enumerate 0 vs)) \<longleftrightarrow> (\<forall>i < length vs. P (f i (vs ! i)))"
  by (simp add: list_all_length nth_enumerate_eq)

lemma block_kernels_inside:
  assumes "\<And>j. \<not> e \<le> block_ptr p b \<Longrightarrow> j < words32 \<Longrightarrow> cell (block_ptr p b) j \<in> A"
  shows "list_all (inside A) (kernel_test1_write p e b)" "list_all (inside A) (kernel_test1_read p e b)"
    "list_all (inside A) (kernel_move_inv_write p e v b)"
    "list_all (inside A) (kernel_move_inv_readwrite p e v w b)"
    "list_all (inside A) (kernel_move_inv_read p e v b)"
    "list_all (inside A) (kernel_test5_init p e b)" "list_all (inside A) (kernel_test5_move p e b)"
    "list_all (inside A) (kernel_test5_check p e b)"
    "list_all (inside A) (kernel_movinv32_write p e v lb sval offs b)"
    "list_all (inside A) (kernel_movinv32_readwrite p e v lb sval offs b)"
    "list_all (inside A) (kernel_movinv32_read p e v lb sval offs b)"
    "list_all (inside A) (kernel_test7_write p e st b)" "list_all (inside A) (kernel_test7_readwrite p e st b)"
    "list_all (inside A) (kernel_test7_read p e st b)"
    "list_all (inside A) (kernel_modtest_write p e k v w b)"
    "list_all (inside A) (kernel_modtest_read p e k v b)"
proof -
  note simple = Let_def list_all_iff inside_steps assms
  show "list_all (inside A) (kernel_test1_read p e b)" "list_all (inside A) (kernel_move_inv_write p e v b)"
    "list_all (inside A) (kernel_move_inv_readwrite p e v w b)" "list_all (inside A) (kernel_move_inv_read p e v b)"
    "list_all (inside A) (kernel_test5_check p e b)" "list_all (inside A) (kernel_movinv32_read p e v lb sval offs b)"
    "list_all (inside A) (kernel_test7_write p e st b)" "list_all (inside A) (kernel_test7_readwrite p e st b)"
    "list_all (inside A) (kernel_test7_read p e st b)" "list_all (inside A) (kernel_modtest_write p e k v w b)"
    "list_all (inside A) (kernel_modtest_read p e k v b)"
    unfolding kernel_defs by (auto simp: simple intro!: inside_dependent)
  have own: "inside A (store64 (block_ptr p b + of_nat (8 * i)) v)" if "\<not> e \<le> block_ptr p b" "i < words64" for i v
    unfolding cell_words
  proof (rule inside_steps(8))
    have "2 * i < words32 \<and> Suc (2 * i) < words32" using that(2) by (simp add: words64_def sizes(2,3))
    then show "cell (block_ptr p b) (2 * i) \<in> A" "cell (block_ptr p b) (2 * i) + 4 \<in> A"
      using assms [OF that(1)] unfolding cell_words by blast+
  qed
  show "list_all (inside A) (kernel_test1_write p e b)"
  proof (cases "e \<le> block_ptr p b")
    case False
    show ?thesis
      unfolding kernel_test1_write_def Let_def if_not_P [OF False] list_all_iff set_map set_upt
      by (intro ballI, elim imageE, simp only:, rule own [OF False], simp)
  qed (simp add: kernel_test1_write_def)
  show "list_all (inside A) (kernel_movinv32_write p e v lb sval offs b)"
    "list_all (inside A) (kernel_movinv32_readwrite p e v lb sval offs b)"
    by (simp_all add: kernel_movinv32_write_def kernel_movinv32_readwrite_def Let_def enumerate_cells inside_steps assms)
  show "list_all (inside A) (kernel_test5_init p e b)"
    by (simp add: kernel_test5_init_def Let_def enumerate_cells length_test5_groups inside_steps assms words32_def)
  show "list_all (inside A) (kernel_test5_move p e b)"
    using assms by (auto simp: kernel_test5_move_def Let_def list_all_iff cell_cell sizes(2) intro!: inside_steps(6))
qed

section \<open>The walk\<close>

lemma walk_between:
  assumes "walk p e q m v = Some w"
  shows "list_all (\<lambda>(a, u). p \<le> a \<and> a < e) w"
proof (rule walk.raw_induct [OF _ assms])
  fix walk' and p e q m :: u64 and v :: u32 and w
  assume "\<And>p e q m v w. walk' p e q m v = Some w \<Longrightarrow> list_all (\<lambda>(a, u). p \<le> a \<and> a < e) w"
    and "(if \<not> q < e then Some [] else let ptr = p OR m in if ptr = p then walk' p e ptr (push_bit 1 m) v
        else if e \<le> ptr then Some []
        else Option.bind (walk' p e ptr (push_bit 1 m) (push_bit 1 v)) (\<lambda>w. Some ((ptr, v) # w))) = Some w"
  then show "list_all (\<lambda>(a, u). p \<le> a \<and> a < e) w"
    by (fastforce simp: Let_def le_word_or2 bind_eq_Some_conv not_le split: if_splits)
qed

lemma walk_steps_inside:
  assumes "walk p e q m v = Some w" and "{p..<e} \<subseteq> A" and "p \<in> A"
  shows "list_all (inside A) (store p u # map (\<lambda>(a, v). store a v) w)"
proof -
  have "a \<in> A" if "(a, u) \<in> set w" for a u
  proof -
    have "a \<in> {p..<e}" using walk_between [OF assms(1)] that by (auto simp: list_all_iff)
    with assms(2) show ?thesis by blast
  qed
  with assms(3) show ?thesis by (auto simp: list_all_iff inside_steps)
qed

lemma checks_inside:
  "list_all (inside A) (check p u # map (\<lambda>(a, v). check a v) w)"
  "list_all (inside A) (check64 p u' # map (\<lambda>(a, v). report64 a v) w)"
  by (auto simp: list_all_iff inside_steps)

lemma test0_kernels_inside:
  assumes "\<not> e \<le> block_ptr p b \<Longrightarrow> {block_ptr p b ..< block_ptr p b + BLOCKSIZE} \<subseteq> A"
    and "\<not> e \<le> block_ptr p b \<Longrightarrow> block_ptr p b \<in> A"
  shows "kernel_test0_write p e b = Some ss \<Longrightarrow> list_all (inside A) ss"
    "kernel_test0_read p e b = Some ss \<Longrightarrow> list_all (inside A) ss"
  unfolding kernel_test0_write_def kernel_test0_read_def Let_def
  using walk_steps_inside assms checks_inside(1) by (force split: if_splits)+

lemma test0_global_kernels_inside:
  assumes "{p..<e} \<subseteq> A" and "p \<in> A"
  shows "kernel_test0_global_write p e = Some ss \<Longrightarrow> list_all (inside A) ss"
    "kernel_test0_global_read p e = Some ss \<Longrightarrow> list_all (inside A) ss"
  unfolding kernel_test0_global_write_def kernel_test0_global_read_def
  using walk_steps_inside [OF _ assms] checks_inside(2) by force+

section \<open>The stress test\<close>

lemma stress_index_bound:
  assumes "index \<in> set (stress_indexes memsize t)" and "t < STRESS_BLOCKSIZE" and "8 dvd avenumber memsize"
  shows "8 * index + 8 \<le> avenumber memsize"
proof -
  let ?n = "avenumber memsize div (STRESS_BLOCKSIZE * 8)"
  consider i where "i < ?n" "index = i * STRESS_BLOCKSIZE + t" | "8 * index < avenumber memsize"
    using assms(1) by (auto simp: stress_indexes_def Let_def split: if_splits)
  then show ?thesis
  proof cases
    case 1
    have "8 * index + 8 \<le> Suc i * (STRESS_BLOCKSIZE * 8)" using 1 assms(2) by (simp add: STRESS_BLOCKSIZE_def)
    also have "\<dots> \<le> ?n * (STRESS_BLOCKSIZE * 8)" using 1(1) by (intro mult_le_mono1) simp
    also have "\<dots> \<le> avenumber memsize" by simp
    finally show ?thesis .
  next
    case 2
    obtain k where k: "avenumber memsize = 8 * k" using assms(3) by (elim dvdE)
    show ?thesis using 2 unfolding k by simp
  qed
qed

lemma span_offset: "room p tot \<Longrightarrow> k < tot * unat BLOCKSIZE \<Longrightarrow> p + of_nat k \<in> span p tot"
proof -
  assume r: "room p tot" and k: "k < tot * unat BLOCKSIZE"
  then have lt: "unat p + k < 2 ^ 64" by (simp add: room_def)
  then have "unat (of_nat k :: u64) = k" by (intro unat_of_nat64) simp
  then have "unat (p + of_nat k) = unat p + k" using lt unat_add_lem [of p "of_nat k"] by simp
  with k show ?thesis
    by (simp add: span_def end_ptr_block_ptr word_le_nat_alt word_less_nat_alt unat_block_ptr [OF r])
qed

lemma stress_size:
  assumes "room p tot"
  shows "unat (ucast (of_nat tot * BLOCKSIZE) :: u32) = (tot * unat BLOCKSIZE) mod 2 ^ 32"
proof -
  have "tot * unat BLOCKSIZE < 2 ^ 64" using assms by (simp add: room_def)
  then have "unat (of_nat (tot * unat BLOCKSIZE) :: u64) = tot * unat BLOCKSIZE" by (rule unat_of_nat64)
  then show ?thesis by (simp add: unsigned_ucast_eq take_bit_eq_mod)
qed

lemma stress_shares:
  assumes "room p tot"
  shows "8 dvd avenumber (ucast (of_nat tot * BLOCKSIZE))"
    "STRESS_GRIDSIZE * avenumber (ucast (of_nat tot * BLOCKSIZE)) \<le> tot * unat BLOCKSIZE"
proof -
  let ?m = "(tot * unat BLOCKSIZE) mod 2 ^ 32"
  have "(2::nat) ^ 20 dvd ?m" unfolding sizes(3) by (intro dvd_mod) simp_all
  then obtain k where k: "?m = 2 ^ 20 * k" by (elim dvdE)
  then have "avenumber (ucast (of_nat tot * BLOCKSIZE)) = 2 ^ 5 * k"
    by (simp add: avenumber_def stress_size [OF assms] STRESS_GRIDSIZE_def)
  then show "8 dvd avenumber (ucast (of_nat tot * BLOCKSIZE))" by simp
  have "STRESS_GRIDSIZE * avenumber (ucast (of_nat tot * BLOCKSIZE)) \<le> ?m"
    unfolding avenumber_def stress_size [OF assms] by (rule times_div_less_eq_dividend)
  also have "\<dots> \<le> tot * unat BLOCKSIZE" by simp
  finally show "STRESS_GRIDSIZE * avenumber (ucast (of_nat tot * BLOCKSIZE)) \<le> tot * unat BLOCKSIZE" .
qed

lemma stress_addr_in_span:
  assumes "room p tot" and "b < STRESS_GRIDSIZE" and "t < STRESS_BLOCKSIZE"
    and "index \<in> set (stress_indexes (ucast (of_nat tot * BLOCKSIZE)) t)"
  shows "stress_addr p (ucast (of_nat tot * BLOCKSIZE)) b index \<in> span p tot"
    "stress_addr p (ucast (of_nat tot * BLOCKSIZE)) b index + 4 \<in> span p tot"
proof -
  let ?n = "avenumber (ucast (of_nat tot * BLOCKSIZE))"
  have "b * ?n + (8 * index + 8) \<le> Suc b * ?n"
    using stress_index_bound [OF assms(4,3) stress_shares(1) [OF assms(1)]] by simp
  also have "\<dots> \<le> STRESS_GRIDSIZE * ?n" using assms(2) by (intro mult_le_mono1) simp
  also have "\<dots> \<le> tot * unat BLOCKSIZE" by (rule stress_shares(2) [OF assms(1)])
  finally have k: "b * ?n + 8 * index < tot * unat BLOCKSIZE" "b * ?n + 8 * index + 4 < tot * unat BLOCKSIZE"
    by simp_all
  have "stress_addr p (ucast (of_nat tot * BLOCKSIZE)) b index = p + of_nat (b * ?n + 8 * index)"
    by (simp add: stress_addr_def)
  moreover have "p + of_nat (b * ?n + 8 * index) + 4 = p + of_nat (b * ?n + 8 * index + 4)" by simp
  ultimately show "stress_addr p (ucast (of_nat tot * BLOCKSIZE)) b index \<in> span p tot"
    "stress_addr p (ucast (of_nat tot * BLOCKSIZE)) b index + 4 \<in> span p tot"
    using span_offset [OF assms(1)] k by presburger+
qed

lemma stress_kernels_inside:
  assumes "room p tot" and "b < STRESS_GRIDSIZE" and "t < STRESS_BLOCKSIZE"
  shows "list_all (inside (span p tot)) (test10_kernel_write p (ucast (of_nat tot * BLOCKSIZE)) q b t)"
    "list_all (inside (span p tot)) (test10_kernel_readwrite p (ucast (of_nat tot * BLOCKSIZE)) q r b t)"
  using stress_addr_in_span [OF assms]
  by (auto simp: test10_kernel_write_def test10_kernel_readwrite_def list_all_iff inside_steps inside_both)

section \<open>The walks of test 1 end\<close>

lemma walk_stops:
  assumes "e \<le> 2 ^ 63" and "j \<le> 63"
  shows "\<exists>w. walk p e q (push_bit j 1) v = Some w"
  using assms(2)
proof (induction "63 - j" arbitrary: j q v)
  case 0
  then have j: "j = 63" by simp
  have "push_bit 63 1 \<le> p OR push_bit 63 1" using le_word_or2 [of "push_bit 63 1" p] by (simp add: or.commute)
  then have top: "e \<le> p OR push_bit j 1" using assms(1) by (simp add: j)
  then have "walk p e p m v = Some []" if "p = p OR push_bit j 1" for m
    using that top by (subst walk.simps) (simp add: not_less del: push_bit_of_1)
  with top show ?case by (subst walk.simps) (simp add: Let_def del: push_bit_of_1)
next
  case (Suc n)
  have eq: "push_bit 1 (push_bit j 1) = (push_bit (Suc j) 1 :: u64)" by (simp add: mult.commute)
  have "\<exists>w. walk p e q' (push_bit 1 (push_bit j 1)) v' = Some w" for q' v'
    unfolding eq by (rule Suc.hyps(1)) (use Suc.hyps(2) in simp_all)
  then obtain f where f: "walk p e q' (push_bit 1 (push_bit j 1)) v' = Some (f q' v')" for q' v' by metis
  show ?case by (subst walk.simps) (simp only: Let_def f Option.bind.simps, simp split: if_splits)
qed

lemmas walk_stops_4 = walk_stops [of _ 2, simplified]

lemma test0_kernels_stop:
  "e \<le> 2 ^ 63 \<Longrightarrow> kernel_test0_global_write p e \<noteq> None"
  "e \<le> 2 ^ 63 \<Longrightarrow> kernel_test0_global_read p e \<noteq> None"
  "(\<not> e \<le> block_ptr p b \<Longrightarrow> block_ptr p b + BLOCKSIZE \<le> 2 ^ 63) \<Longrightarrow> kernel_test0_write p e b \<noteq> None"
  "(\<not> e \<le> block_ptr p b \<Longrightarrow> block_ptr p b + BLOCKSIZE \<le> 2 ^ 63) \<Longrightarrow> kernel_test0_read p e b \<noteq> None"
  using walk_stops_4
  by (fastforce simp: kernel_test0_global_write_def kernel_test0_global_read_def kernel_test0_write_def
      kernel_test0_read_def Let_def)+

lemma grid_dim_le: "grid_dim n \<le> 2 ^ 32"
proof -
  have "unat (ucast n :: u32) < 2 ^ LENGTH(32)" by (rule unsigned_less)
  then show ?thesis by (simp add: grid_dim_def)
qed

lemma grid_dim_bound: "b < grid_dim n \<Longrightarrow> b \<le> 2 ^ 32"
  using grid_dim_le [of n] by simp

text \<open>The region lies in the lower half of the address space.\<close>

definition low :: "u64 \<Rightarrow> nat \<Rightarrow> bool" where
  "low ptr tot \<longleftrightarrow> room ptr (tot + 2 ^ 32) \<and> end_ptr_of ptr tot \<le> 2 ^ 63"

lemma low_block:
  assumes "low ptr tot" and "i < tot" and "b < grid_dim n"
    and "\<not> end_ptr_of ptr tot \<le> block_ptr (ptr + of_nat i * BLOCKSIZE) b"
  shows "block_ptr (ptr + of_nat i * BLOCKSIZE) b + BLOCKSIZE \<le> 2 ^ 63"
proof -
  have r: "room ptr (tot + 2 ^ 32)" using assms(1) by (simp add: low_def)
  have lt: "i + b < tot"
    using guard [OF r, of "i + b" tot] assms(2,4) grid_dim_bound [OF assms(3)] by (simp add: block_ptr_add end_ptr_of_def)
  have "block_ptr ptr (i + b) + BLOCKSIZE = block_ptr ptr (Suc (i + b))" by (simp add: block_ptr_def algebra_simps)
  also have "\<dots> \<le> block_ptr ptr tot"
    using unat_block_ptr [OF room_mono [OF r], of "Suc (i + b)"] unat_block_ptr [OF room_mono [OF r], of tot] lt
    by (simp add: word_le_nat_alt sizes(3))
  also have "\<dots> \<le> 2 ^ 63" using assms(1) by (simp add: low_def end_ptr_block_ptr)
  finally show ?thesis by (simp add: block_ptr_add)
qed

text \<open>
  What lets all tests end: the region lies in the lower half of the address space, the counter of
  the blocks does not wrap around, and neither does the counter of the passes.
\<close>

definition ends :: "memdata \<Rightarrow> u64 \<Rightarrow> nat \<Rightarrow> bool" where
  "ends md ptr tot \<longleftrightarrow> low ptr tot \<and> tot + GRIDSIZE \<le> 2 ^ 32 \<and> unat (md_num_passes md) < 2 ^ 32"

lemma ends_few: "ends md ptr tot \<Longrightarrow> tot + GRIDSIZE \<le> 4294967296" "ends md ptr tot \<Longrightarrow> unat (md_num_passes md) < 4294967296"
  by (simp_all add: ends_def)

lemma ends_walks:
  assumes "ends md ptr tot"
  shows "kernel_test0_global_write ptr (end_ptr_of ptr tot) \<noteq> None"
    "kernel_test0_global_read ptr (end_ptr_of ptr tot) \<noteq> None"
    "i < tot \<Longrightarrow> b < grid_dim n \<Longrightarrow> kernel_test0_write (ptr + of_nat i * BLOCKSIZE) (end_ptr_of ptr tot) b \<noteq> None"
    "i < tot \<Longrightarrow> b < grid_dim n \<Longrightarrow> kernel_test0_read (ptr + of_nat i * BLOCKSIZE) (end_ptr_of ptr tot) b \<noteq> None"
proof -
  have l: "low ptr tot" using assms by (simp add: ends_def)
  show "kernel_test0_global_write ptr (end_ptr_of ptr tot) \<noteq> None"
    "kernel_test0_global_read ptr (end_ptr_of ptr tot) \<noteq> None"
    using l test0_kernels_stop(1,2) by (simp_all add: low_def)
  show "i < tot \<Longrightarrow> b < grid_dim n \<Longrightarrow> kernel_test0_write (ptr + of_nat i * BLOCKSIZE) (end_ptr_of ptr tot) b \<noteq> None"
    "i < tot \<Longrightarrow> b < grid_dim n \<Longrightarrow> kernel_test0_read (ptr + of_nat i * BLOCKSIZE) (end_ptr_of ptr tot) b \<noteq> None"
    using test0_kernels_stop(3,4) low_block [OF l] by blast+
qed

section \<open>The interpretations\<close>

text \<open>The counter stays at zero, whatever happens to the memory.\<close>

lemma counts_nothing_clean: "counts_nothing s \<Longrightarrow> clean (snd x) \<Longrightarrow> clean (snd (s x))"
  unfolding counts_nothing_def clean_def by metis

interpretation counter: kernel_contract clean counts_nothing "ends md ptr tot" env md ptr tot for env md ptr tot
  by unfold_locales
    (simp_all add: ends_walks [simplified] ends_few counts_nothing_clean clean_def [of "_\<lparr>g_mem := _\<rparr>"] clean_def [symmetric]
      kernels_count_nothing test0_kernels_count_nothing)

text \<open>
  The memory outside the region stays what it was, when nothing but the kernels changes it and
  the address space has room for the largest grid after the region.
\<close>

definition confined :: "mem_env \<Rightarrow> u64 \<Rightarrow> nat \<Rightarrow> bool" where
  "confined env ptr tot \<longleftrightarrow> quiet_env env \<and> room ptr (tot + 2 ^ 32) \<and> 0 < tot"

definition frozen :: "mem_env \<Rightarrow> u64 \<Rightarrow> nat \<Rightarrow> (u64 \<Rightarrow> u32) \<Rightarrow> gpu \<Rightarrow> bool" where
  "frozen env ptr tot m g \<longleftrightarrow> clean g \<and>
     (confined env ptr tot \<longrightarrow> (\<forall>a. a \<notin> span ptr tot \<longrightarrow> g_mem g a = m a))"

definition stays :: "mem_env \<Rightarrow> u64 \<Rightarrow> nat \<Rightarrow> step \<Rightarrow> bool" where
  "stays env ptr tot s \<longleftrightarrow> counts_nothing s \<and> (confined env ptr tot \<longrightarrow> inside (span ptr tot) s)"

lemma list_all_stays:
  "list_all counts_nothing ss \<Longrightarrow> (confined env ptr tot \<Longrightarrow> list_all (inside (span ptr tot)) ss) \<Longrightarrow>
   list_all (stays env ptr tot) ss"
  by (auto simp: list_all_iff stays_def)

lemma confined_cell:
  assumes "confined env ptr tot" and "i < tot" and "b \<le> 2 ^ 32"
    and "\<not> end_ptr_of ptr tot \<le> block_ptr (ptr + of_nat i * BLOCKSIZE) b" and "j < words32"
  shows "cell (block_ptr (ptr + of_nat i * BLOCKSIZE) b) j \<in> span ptr tot"
  by (rule guarded_cell [of _ "tot + 2 ^ 32"]) (use assms in \<open>auto simp: confined_def\<close>)

lemma confined_block:
  assumes "confined env ptr tot" and "i < tot" and "b \<le> 2 ^ 32"
    and "\<not> end_ptr_of ptr tot \<le> block_ptr (ptr + of_nat i * BLOCKSIZE) b"
  shows "block_ptr (ptr + of_nat i * BLOCKSIZE) b \<in> span ptr tot"
    "{block_ptr (ptr + of_nat i * BLOCKSIZE) b ..< block_ptr (ptr + of_nat i * BLOCKSIZE) b + BLOCKSIZE} \<subseteq> span ptr tot"
proof -
  have r: "room ptr (tot + 2 ^ 32)" using assms(1) by (simp add: confined_def)
  have lt: "i + b < tot"
    using guard [OF r, of "i + b" tot] assms(2-4) by (simp add: block_ptr_add end_ptr_of_def)
  have "block_ptr ptr (i + b) + BLOCKSIZE = block_ptr ptr (Suc (i + b))" by (simp add: block_ptr_def algebra_simps)
  moreover have "ptr \<le> block_ptr ptr (i + b)" "block_ptr ptr (i + b) < block_ptr ptr tot"
      "block_ptr ptr (Suc (i + b)) \<le> block_ptr ptr tot"
    using unat_block_ptr [OF room_mono [OF r], of "i + b"] unat_block_ptr [OF room_mono [OF r], of "Suc (i + b)"]
      unat_block_ptr [OF room_mono [OF r], of tot] lt
    by (simp_all add: word_le_nat_alt word_less_nat_alt sizes(3))
  ultimately show "block_ptr (ptr + of_nat i * BLOCKSIZE) b \<in> span ptr tot"
    "{block_ptr (ptr + of_nat i * BLOCKSIZE) b ..< block_ptr (ptr + of_nat i * BLOCKSIZE) b + BLOCKSIZE} \<subseteq> span ptr tot"
    by (auto simp: block_ptr_add span_def end_ptr_block_ptr)
qed

lemma confined_base: "confined env ptr tot \<Longrightarrow> ptr \<in> span ptr tot"
  using span_offset [of ptr tot 0] room_mono [of ptr "tot + 2 ^ 32" tot] by (simp add: confined_def sizes(3))

lemma stays_kernels:
  assumes "i < tot" and "b \<le> 2 ^ 32"
  shows "list_all (stays env ptr tot) (kernel_test1_write (ptr + of_nat i * BLOCKSIZE) (end_ptr_of ptr tot) b)"
    "list_all (stays env ptr tot) (kernel_test1_read (ptr + of_nat i * BLOCKSIZE) (end_ptr_of ptr tot) b)"
    "list_all (stays env ptr tot) (kernel_move_inv_write (ptr + of_nat i * BLOCKSIZE) (end_ptr_of ptr tot) v b)"
    "list_all (stays env ptr tot) (kernel_move_inv_readwrite (ptr + of_nat i * BLOCKSIZE) (end_ptr_of ptr tot) v w b)"
    "list_all (stays env ptr tot) (kernel_move_inv_read (ptr + of_nat i * BLOCKSIZE) (end_ptr_of ptr tot) v b)"
    "list_all (stays env ptr tot) (kernel_test5_init (ptr + of_nat i * BLOCKSIZE) (end_ptr_of ptr tot) b)"
    "list_all (stays env ptr tot) (kernel_test5_move (ptr + of_nat i * BLOCKSIZE) (end_ptr_of ptr tot) b)"
    "list_all (stays env ptr tot) (kernel_test5_check (ptr + of_nat i * BLOCKSIZE) (end_ptr_of ptr tot) b)"
    "list_all (stays env ptr tot) (kernel_movinv32_write (ptr + of_nat i * BLOCKSIZE) (end_ptr_of ptr tot) v lb sval offs b)"
    "list_all (stays env ptr tot) (kernel_movinv32_readwrite (ptr + of_nat i * BLOCKSIZE) (end_ptr_of ptr tot) v lb sval offs b)"
    "list_all (stays env ptr tot) (kernel_movinv32_read (ptr + of_nat i * BLOCKSIZE) (end_ptr_of ptr tot) v lb sval offs b)"
    "list_all (stays env ptr tot) (kernel_test7_write (ptr + of_nat i * BLOCKSIZE) (end_ptr_of ptr tot) st b)"
    "list_all (stays env ptr tot) (kernel_test7_readwrite (ptr + of_nat i * BLOCKSIZE) (end_ptr_of ptr tot) st b)"
    "list_all (stays env ptr tot) (kernel_test7_read (ptr + of_nat i * BLOCKSIZE) (end_ptr_of ptr tot) st b)"
    "list_all (stays env ptr tot) (kernel_modtest_write (ptr + of_nat i * BLOCKSIZE) (end_ptr_of ptr tot) k v w b)"
    "list_all (stays env ptr tot) (kernel_modtest_read (ptr + of_nat i * BLOCKSIZE) (end_ptr_of ptr tot) k v b)"
  by (intro list_all_stays kernels_count_nothing block_kernels_inside confined_cell assms; assumption)+

lemma stays_test0:
  assumes "i < tot" and "b \<le> 2 ^ 32"
  shows "kernel_test0_write (ptr + of_nat i * BLOCKSIZE) (end_ptr_of ptr tot) b = Some ss \<Longrightarrow>
      list_all (stays env ptr tot) ss"
    "kernel_test0_read (ptr + of_nat i * BLOCKSIZE) (end_ptr_of ptr tot) b = Some ss \<Longrightarrow>
      list_all (stays env ptr tot) ss"
  by (rule list_all_stays, erule test0_kernels_count_nothing,
      erule test0_kernels_inside [rotated 2], erule (1) confined_block(2) [OF _ assms],
      erule (1) confined_block(1) [OF _ assms])+

lemma stays_test0_global:
  "kernel_test0_global_write ptr (end_ptr_of ptr tot) = Some ss \<Longrightarrow> list_all (stays env ptr tot) ss"
  "kernel_test0_global_read ptr (end_ptr_of ptr tot) = Some ss \<Longrightarrow> list_all (stays env ptr tot) ss"
  by (rule list_all_stays, erule test0_kernels_count_nothing,
      erule test0_global_kernels_inside [rotated 2], simp add: span_def, erule confined_base)+

lemma stays_stress:
  assumes "b < STRESS_GRIDSIZE" and "t < STRESS_BLOCKSIZE"
  shows "list_all (stays env ptr tot) (test10_kernel_write ptr (ucast (of_nat tot * BLOCKSIZE)) q b t)"
    "list_all (stays env ptr tot) (test10_kernel_readwrite ptr (ucast (of_nat tot * BLOCKSIZE)) q r b t)"
  by (intro list_all_stays kernels_count_nothing stress_kernels_inside assms;
      auto simp: confined_def elim: room_mono)+

lemma frozen_host_write: "frozen env ptr tot m g \<Longrightarrow> j < words32 \<Longrightarrow>
    frozen env ptr tot m (g\<lparr>g_mem := (g_mem g)(cell ptr j := u)\<rparr>)"
proof -
  assume "frozen env ptr tot m g" "j < words32"
  moreover have "cell ptr j \<in> span ptr tot" if "confined env ptr tot"
  proof (rule cell_in_span)
    show "room ptr tot" using that room_mono [of ptr "tot + 2 ^ 32" tot] by (simp add: confined_def)
    have "1 * words32 \<le> tot * words32" by (rule mult_le_mono1) (use that in \<open>simp add: confined_def\<close>)
    with \<open>j < words32\<close> show "j < tot * words32" unfolding mult_1 by (rule less_le_trans)
  qed
  ultimately show ?thesis by (auto simp: frozen_def clean_def)
qed

interpretation outer: kernel_contract "frozen env ptr tot m" "stays env ptr tot" "ends md ptr tot" env md ptr tot
  for env md ptr tot m
proof unfold_locales
  show "stays env ptr tot s \<Longrightarrow> frozen env ptr tot m (snd x) \<Longrightarrow> frozen env ptr tot m (snd (s x))" for s x
    unfolding stays_def frozen_def inside_def using counts_nothing_clean by metis
  show "Upset f \<in> set (e_events env n) \<Longrightarrow> frozen env ptr tot m g \<Longrightarrow> frozen env ptr tot m (g\<lparr>g_mem := f (g_mem g)\<rparr>)" for f n g
    using upset_free_no [of "e_events env n" f] by (auto simp: frozen_def clean_def confined_def quiet_env_def)
  show "frozen env ptr tot m g \<Longrightarrow> clean g" for g by (simp add: frozen_def)
  show "ends md ptr tot \<Longrightarrow> tot + GRIDSIZE \<le> 2 ^ 32" "ends md ptr tot \<Longrightarrow> unat (md_num_passes md) < 2 ^ 32"
    by (simp_all add: ends_def)
qed (blast intro: frozen_host_write stays_kernels stays_test0 stays_test0_global stays_stress grid_dim_bound grid_dim_le
      dest: ends_walks)+

end
