(* ===== verification/Mem_Props.thy ===== *)
theory Mem_Props
  imports Mem_Moving Mem_Safety
begin

text \<open>
  The properties of the memory test: a worker comes back, its tests stay inside the region, they
  never count an error, and what single tests do on a memory that holds its values.
\<close>

section \<open>A worker comes back\<close>

lemma w_log_silent [simp]:
  "h_gpu (w_log w t l h) = h_gpu h" "verdicts (h_events (w_log w t l h)) = verdicts (h_events h)"
  by (simp_all add: w_log_def mem_log_def)

declare alloc_loop.simps [simp del]

lemma alloc_loop_stops:
  "n - MEM_NUM_SAVE_BLOCKS = 0 \<Longrightarrow> \<exists>k. alloc_loop w allocs n h = (No_memory, k) \<and>
     h_gpu k = h_gpu h \<and> verdicts (h_events k) = verdicts (h_events h)"
  by (subst alloc_loop.simps) (simp add: Let_def)

lemma alloc_loop_goes:
  assumes "n - MEM_NUM_SAVE_BLOCKS \<noteq> 0"
  shows "\<exists>k. alloc_loop w [] n h = (Undecided, k)"
    "\<exists>k. alloc_loop w (Aborted # as) n h = (Process_aborted, k)"
    "\<exists>k. alloc_loop w (Allocated p # as) n h =
       (Region p (n - MEM_NUM_SAVE_BLOCKS) (ucast (ucast (n - MEM_NUM_SAVE_BLOCKS) * BLOCKSIZE :: u64)), k) \<and>
       h_gpu k = h_gpu h \<and> verdicts (h_events k) = verdicts (h_events h)"
    "\<exists>k. alloc_loop w (Last_error # as) n h = alloc_loop w as (n - MEM_NUM_SAVE_BLOCKS) k \<and>
       h_gpu k = h_gpu h \<and> verdicts (h_events k) = verdicts (h_events h)"
  unfolding alloc_loop.simps [of w _ n h] Let_def if_not_P [OF assms] list.case hip_alloc.case
  by (rule exI, rule refl | rule exI, rule conjI [OF refl], simp only: w_log_silent simp_thms)+

lemma alloc_loop_region:
  "alloc_loop w allocs n h = (Region ptr tot sz, h') \<Longrightarrow>
   tot \<noteq> 0 \<and> sz = ucast (ucast tot * BLOCKSIZE :: u64) \<and> Allocated ptr \<in> set allocs \<and>
   h_gpu h' = h_gpu h \<and> verdicts (h_events h') = verdicts (h_events h)"
proof (induction allocs arbitrary: n h)
  case (Nil n h)
  then show ?case using alloc_loop_stops [of n w "[]" h] alloc_loop_goes(1) [of n w h] by fastforce
next
  case (Cons a allocs n h)
  have go: "n - MEM_NUM_SAVE_BLOCKS \<noteq> 0" using alloc_loop_stops [of n w "a # allocs" h] Cons.prems by fastforce
  show ?case
  proof (cases a)
    case (Allocated p)
    with go Cons.prems alloc_loop_goes(3) [OF go, of w p allocs h] show ?thesis by auto
  next
    case Last_error
    then obtain k where "alloc_loop w allocs (n - MEM_NUM_SAVE_BLOCKS) k = (Region ptr tot sz, h')"
      "h_gpu k = h_gpu h" "verdicts (h_events k) = verdicts (h_events h)"
      using Cons.prems alloc_loop_goes(4) [OF go, of w allocs h] by auto
    with Cons.IH show ?thesis by fastforce
  next
    case Aborted
    with Cons.prems alloc_loop_goes(2) [OF go, of w allocs h] show ?thesis by auto
  qed
qed

lemma alloc_loop_no_memory:
  "alloc_loop w allocs n h = (No_memory, h') \<Longrightarrow> h_gpu h' = h_gpu h \<and> verdicts (h_events h') = verdicts (h_events h)"
proof (induction allocs arbitrary: n h)
  case (Nil n h)
  then show ?case using alloc_loop_stops [of n w "[]" h] alloc_loop_goes(1) [of n w h] by fastforce
next
  case (Cons a allocs n h)
  show ?case
  proof (cases "n - MEM_NUM_SAVE_BLOCKS = 0")
    case True
    then show ?thesis using alloc_loop_stops [OF True, of w "a # allocs" h] Cons.prems by auto
  next
    case go: False
    show ?thesis
    proof (cases a)
      case Last_error
      with go show ?thesis using alloc_loop_goes(4) [OF go, of w allocs h] Cons by fastforce
    next
      case (Allocated p)
      with Cons.prems alloc_loop_goes(3) [OF go, of w p allocs h] show ?thesis by auto
    next
      case Aborted
      with Cons.prems alloc_loop_goes(2) [OF go, of w allocs h] show ?thesis by auto
    qed
  qed
qed

lemma alloc_loop_retries:
  "\<exists>h'. h_gpu h' = h_gpu h \<and> verdicts (h_events h') = verdicts (h_events h) \<and>
     (alloc_loop w (replicate k Last_error @ [Allocated ptr]) n h = (No_memory, h') \<or>
      (\<exists>tot sz. tot \<noteq> 0 \<and> tot = n - of_nat (Suc k) * MEM_NUM_SAVE_BLOCKS \<and>
         alloc_loop w (replicate k Last_error @ [Allocated ptr]) n h = (Region ptr tot sz, h')))"
proof (induction k arbitrary: n h)
  case 0
  then show ?case
  proof (cases "n - MEM_NUM_SAVE_BLOCKS = 0")
    case True
    then show ?thesis using alloc_loop_stops [OF True, of w "[Allocated ptr]" h] by auto
  next
    case False
    then show ?thesis using alloc_loop_goes(3) [OF False, of w ptr "[]" h] by auto
  qed
next
  case (Suc k)
  let ?as = "replicate k Last_error @ [Allocated ptr]"
  show ?case
  proof (cases "n - MEM_NUM_SAVE_BLOCKS = 0")
    case True
    then show ?thesis using alloc_loop_stops [OF True, of w "Last_error # ?as" h] by auto
  next
    case False
    then obtain h1 where "alloc_loop w (Last_error # ?as) n h = alloc_loop w ?as (n - MEM_NUM_SAVE_BLOCKS) h1"
      "h_gpu h1 = h_gpu h" "verdicts (h_events h1) = verdicts (h_events h)"
      using alloc_loop_goes(4) [OF False, of w ?as h] by blast
    with Suc [of h1 "n - MEM_NUM_SAVE_BLOCKS"] show ?thesis by (simp add: algebra_simps)
  qed
qed

definition worker_start :: "hip_mem \<Rightarrow> mem_worker \<Rightarrow> host \<Rightarrow> host" where
  "worker_start hip w h =
     w_log w (''Total Num of blocks  '' @ u32_text (region_blocks w (hip_total_global hip) (hip_mem_free hip))) logtrace
       (allocate_small_mem
         (w_log w (''Total Memory from hipMemGetInfo  '' @ u64_text (hip_mem_total hip)
            @ ''  Free Memory from hipMemGetInfo  '' @ u64_text (hip_mem_free hip)) logtrace
           (w_log w (''Total Global Memory '' @ u64_text (hip_total_global hip)) logtrace
             (w_log w ('' Starting the Memory stress test '') loginfo h))))"

lemma worker_start_silent [simp]:
  "g_mem (h_gpu (worker_start hip w h)) = g_mem (h_gpu h)" "clean (h_gpu (worker_start hip w h))"
  "verdicts (h_events (worker_start hip w h)) = verdicts (h_events h)"
proof -
  have small: "g_mem (h_gpu (allocate_small_mem h)) = g_mem (h_gpu h)" "clean (h_gpu (allocate_small_mem h))"
    "h_events (allocate_small_mem h) = h_events h" for h
    by (simp_all add: allocate_small_mem_def clean_def)
  show "g_mem (h_gpu (worker_start hip w h)) = g_mem (h_gpu h)" "clean (h_gpu (worker_start hip w h))"
    "verdicts (h_events (worker_start hip w h)) = verdicts (h_events h)"
    unfolding worker_start_def by (simp_all only: w_log_silent small)
qed

lemma worker_run_start:
  "worker_run env gl hip w tests h =
     (case alloc_loop w (hip_allocs hip) (region_blocks w (hip_total_global hip) (hip_mem_free hip)) (worker_start hip w h) of
           (No_memory, h) \<Rightarrow> Some h
         | (Region ptr tot _, h) \<Rightarrow>
             run_tests env gl w tests ptr (unat tot)
               (w_log w (''Starting running tests  Total Num of blocks '' @ u32_text tot) logtrace h)
         | _ \<Rightarrow> None)"
  unfolding worker_run_def worker_start_def Let_def by (rule refl)

text \<open>Every worker that comes back either found no memory or ran the tests on its region.\<close>

lemma worker_run_cases:
  assumes "worker_run env gl hip w tests h = Some h'"
  obtains "g_mem (h_gpu h') = g_mem (h_gpu h)" "verdicts (h_events h') = verdicts (h_events h)"
  | ptr tot sz k where "Allocated ptr \<in> set (hip_allocs hip)" "tot \<noteq> 0"
      "alloc_loop w (hip_allocs hip) (region_blocks w (hip_total_global hip) (hip_mem_free hip)) (worker_start hip w h) =
         (Region ptr tot sz, k)"
      "run_tests env gl w tests ptr (unat tot)
         (w_log w (''Starting running tests  Total Num of blocks '' @ u32_text tot) logtrace k) = Some h'"
      "g_mem (h_gpu k) = g_mem (h_gpu h)" "clean (h_gpu k)" "verdicts (h_events k) = verdicts (h_events h)"
proof -
  obtain r k where run: "alloc_loop w (hip_allocs hip) (region_blocks w (hip_total_global hip) (hip_mem_free hip))
      (worker_start hip w h) = (r, k)" by fastforce
  show thesis
  proof (cases r)
    case No_memory
    then have "h' = k" using assms by (simp add: worker_run_start run)
    moreover have "h_gpu k = h_gpu (worker_start hip w h) \<and>
        verdicts (h_events k) = verdicts (h_events (worker_start hip w h))"
      using run unfolding No_memory by (rule alloc_loop_no_memory)
    ultimately show thesis by (intro that(1)) simp_all
  next
    case (Region ptr tot sz)
    note reg = alloc_loop_region [OF run [unfolded Region]]
    show thesis
      by (rule that(2) [OF _ _ run [unfolded Region]])
        (use reg assms in \<open>simp_all add: worker_run_start run Region\<close>)
  qed (use assms in \<open>simp_all add: worker_run_start run\<close>)
qed

section \<open>The worker as a whole\<close>

lemma region_low:
  assumes "unat ptr \<le> 2 ^ 62"
  shows "low ptr (unat (tot :: u32))"
proof -
  have tot: "unat tot < 2 ^ 32" using unsigned_less [of tot] by simp
  then have r: "room ptr (unat tot + 2 ^ 32)" using assms by (simp add: room_def sizes(3))
  then have "unat (end_ptr_of ptr (unat tot)) = unat ptr + unat tot * unat BLOCKSIZE"
    using unat_block_ptr [OF room_mono [OF r], of "unat tot"] by (simp add: end_ptr_block_ptr)
  then have "unat (end_ptr_of ptr (unat tot)) \<le> 2 ^ 63" using tot assms by (simp add: sizes(3))
  then show ?thesis using r by (simp add: low_def word_le_nat_alt)
qed

text \<open>The region of a worker whose last attempt to allocate memory succeeds.\<close>

definition region_left :: "hip_mem \<Rightarrow> mem_worker \<Rightarrow> nat \<Rightarrow> u32" where
  "region_left hip w attempts =
     region_blocks w (hip_total_global hip) (hip_mem_free hip) - of_nat attempts * MEM_NUM_SAVE_BLOCKS"





lemma run_tests_return:
  assumes "unat ptr \<le> 2 ^ 62" and "unat (tot :: u32) + GRIDSIZE \<le> 2 ^ 32" and "unat (w_num_passes w) < 2 ^ 32"
    and "length tests = 11" and "clean (h_gpu h)"
  shows "\<exists>h'. run_tests env gl w tests ptr (unat tot) h = Some h'"
proof -
  have "ends (Initialization w) ptr (unat tot)"
    using region_low [OF assms(1)] assms(2,3) by (simp add: ends_def Initialization_def)
  moreover have "settled clean (verdicts (h_events h)) h" using assms(5) by (simp add: settled_def)
  ultimately show ?thesis
    using run_tests_outcome [OF counter.kernel_contract_axioms _ assms(4), where env = env and w = w and ptr = ptr and tot = "unat tot" and h = h and gl = gl]
      outcome_total by fastforce
qed

lemma worker_returns:
  assumes "hip_allocs hip = replicate k Last_error @ [Allocated ptr]" and "unat ptr \<le> 2 ^ 62" and "length tests = 11"
    and "unat (region_left hip w (Suc k)) + GRIDSIZE \<le> 2 ^ 32" and "unat (w_num_passes w) < 2 ^ 32"
  shows "\<exists>h'. worker_run env gl hip w tests h = Some h'"
proof -
  let ?n = "region_blocks w (hip_total_global hip) (hip_mem_free hip)"
  obtain k1 where k1: "clean (h_gpu k1)" and "alloc_loop w (hip_allocs hip) ?n (worker_start hip w h) = (No_memory, k1) \<or>
      (\<exists>sz. alloc_loop w (hip_allocs hip) ?n (worker_start hip w h) = (Region ptr (region_left hip w (Suc k)) sz, k1))"
    using alloc_loop_retries [of "worker_start hip w h" w k ptr ?n] worker_start_silent(2) [of hip w h]
    unfolding assms(1) region_left_def by metis
  then show ?thesis
    using run_tests_return [OF assms(2,4,5,3)] by (auto simp: worker_run_start clean_def w_log_def mem_log_def)
qed


definition sample_worker :: mem_worker where
  "sample_worker = \<lparr>w_action_name = ''mem'', w_gpu_id = 1, w_max_num_blocks = 256, w_threadsPerBlock = 128,
     w_num_passes = 1, w_num_iterations = 1, w_mapped = False, w_bjson = True\<rparr>"

definition sample_vram :: hip_mem where
  "sample_vram = \<lparr>hip_total_global = 0x200000000, hip_mem_total = 0x200000000, hip_mem_free = 0x1F0000000,
     hip_allocs = [Last_error, Allocated 0x7f0000000000]\<rparr>"

definition sample_host :: host where
  "sample_host = \<lparr>h_gpu = \<lparr>g_mem = (\<lambda>_. 0), g_cnt = (\<lambda>_. 0), g_failed = (\<lambda>_. 0), g_expected = (\<lambda>_. 0),
     g_current = (\<lambda>_. 0)\<rparr>, h_launches = 0, h_randoms = 0, h_events = []\<rparr>"

definition sample_mem_env :: "event list \<Rightarrow> mem_env" where
  "sample_mem_env es = \<lparr>e_events = (\<lambda>_. es), e_random = of_nat, e_elapsed = (\<lambda>_. ''1''), e_tdiff = (\<lambda>_. ''1'')\<rparr>"

lemma sample_allocs: "hip_allocs sample_vram = replicate 1 Last_error @ [Allocated 0x7f0000000000]"
  by (simp add: sample_vram_def)

lemma sample_region: "region_blocks sample_worker (hip_total_global sample_vram) (hip_mem_free sample_vram) = 272"
  "region_left sample_vram sample_worker 2 = 240"
  by (simp_all add: region_left_def region_blocks_def first_blocks_def sample_worker_def sample_vram_def
      BLOCKSIZE_def MEM_NUM_SAVE_BLOCKS_def Let_def)

lemma sample_passes: "w_num_passes sample_worker = 1"
  by (simp add: sample_worker_def)

lemma sample_returns: "\<exists>h'. worker_run env gl sample_vram sample_worker rvs_memtests h = Some h'"
  by (rule worker_returns [OF sample_allocs])
    (simp_all add: rvs_memtests_def sample_region GRIDSIZE_def numeral_2_eq_2 [symmetric] sample_passes)


text \<open>
  C23: No memory fault is ever reported: whatever happens to the memory during the tests, the JSON
  records of a worker say that no test found an error and that all of them passed, because the
  kernels move their pointer to the counter instead of counting.
\<close>

theorem memory_faults_never_reported:
  assumes "worker_run env gl hip w tests h = Some h'" and "length tests = 11"
  shows "verdicts (h_events h') = verdicts (h_events h) \<or>
    verdicts (h_events h') = verdicts (h_events h) @ replicate 11 (Some ''0'', Some ''true'')"
proof (rule worker_run_cases [OF assms(1)])
  fix ptr tot sz k
  assume run: "run_tests env gl w tests ptr (unat tot)
      (w_log w (''Starting running tests  Total Num of blocks '' @ u32_text tot) logtrace k) = Some h'"
    and k: "clean (h_gpu k)" "verdicts (h_events k) = verdicts (h_events h)"
  show ?thesis
    using run_tests_verdicts [OF counter.kernel_contract_axioms _ assms(2) run, of "verdicts (h_events h)"] k
    by (cases "w_bjson w") (simp_all add: settled_def)
qed simp

theorem memory_faults_never_reported_witness:
  "\<exists>h'. worker_run (sample_mem_env [Thread 3, Upset (\<lambda>m a. m a + 1)]) gpulist_empty sample_vram sample_worker
       rvs_memtests sample_host = Some h' \<and>
     (verdicts (h_events h') = [] \<or> verdicts (h_events h') = replicate 11 (Some ''0'', Some ''true''))"
proof -
  obtain h' where run: "worker_run (sample_mem_env [Thread 3, Upset (\<lambda>m a. m a + 1)]) gpulist_empty sample_vram sample_worker
      rvs_memtests sample_host = Some h'"
    using sample_returns by fastforce
  from memory_faults_never_reported [OF this] have
    "verdicts (h_events h') = [] \<or> verdicts (h_events h') = replicate 11 (Some ''0'', Some ''true'')"
    by (simp add: rvs_memtests_def sample_host_def verdicts_def)
  with run show ?thesis by blast
qed





text \<open>
  The size given to the allocation is the size of the region modulo 4 GiB: the region the tests
  work on is covered only when it has less than 4096 blocks.
\<close>

theorem memory_allocation_size:
  assumes "alloc_loop w allocs n h = (Region ptr tot sz, h')"
  shows "unat sz = unat tot * 1048576 mod 2 ^ 32 \<and> (unat tot * 1048576 \<le> unat sz \<longleftrightarrow> unat tot < 4096)"
proof -
  have tot: "unat tot < 2 ^ 32" using unsigned_less [of tot] by simp
  have "(ucast tot :: u64) * BLOCKSIZE = of_nat (unat tot * 1048576)" by (simp add: BLOCKSIZE_def)
  moreover have "unat (of_nat (unat tot * 1048576) :: u64) = unat tot * 1048576"
    using tot by (intro unat_of_nat64) simp
  ultimately have size: "unat sz = unat tot * 1048576 mod 2 ^ 32"
    using alloc_loop_region [OF assms] by (simp add: unsigned_ucast_eq take_bit_eq_mod del: of_nat_mult)
  moreover have "unat tot * 1048576 \<le> unat sz \<longleftrightarrow> unat tot < 4096"
  proof
    assume "unat tot * 1048576 \<le> unat sz"
    also have "unat sz < 2 ^ 32" unfolding size by (rule mod_less_divisor) simp
    finally show "unat tot < 4096" by simp
  next
    assume "unat tot < 4096"
    then have "unat tot * 1048576 mod 2 ^ 32 = unat tot * 1048576" by (intro mod_less) simp
    then show "unat tot * 1048576 \<le> unat sz" by (simp add: size)
  qed
  ultimately show ?thesis by blast
qed

theorem memory_allocation_size_witness:
  "unat (0 :: u32) = 4096 * 1048576 mod 2 ^ 32 \<and> \<not> 4096 * 1048576 \<le> unat (0 :: u32)"
proof -
  obtain k where "alloc_loop sample_worker [Allocated 0] (4096 + 16) sample_host = (Region 0 4096 0, k)"
    using alloc_loop_goes(3) [of "4096 + 16" sample_worker 0 "[]" sample_host] by (auto simp: MEM_NUM_SAVE_BLOCKS_def BLOCKSIZE_def)
  from memory_allocation_size [OF this] show ?thesis by simp
qed

lemma init_tests_names: "init_tests is tests = Some tests' \<Longrightarrow> map fst tests' = map fst tests"
proof (induction "is" arbitrary: tests)
  case (Cons i "is")
  then have "map fst tests' = map fst (tests[unat i := (fst (tests ! unat i), 0)])"
    by (simp split: if_splits)
  also have "\<dots> = map fst tests"
    by (cases "unat i < length tests") (simp_all add: map_update list_update_beyond list_update_same_conv)
  finally show ?case .
qed simp

text \<open>
  The list of excluded tests changes nothing: it clears a flag of the table which the worker
  never reads.
\<close>

theorem excluded_tests_still_run:
  assumes "init_tests is tests = Some tests'"
  shows "run_tests env gl w tests' ptr tot h = run_tests env gl w tests ptr tot h"
proof -
  have names: "map fst tests' = map fst tests" by (rule init_tests_names [OF assms])
  then have "length tests' = length tests" by (metis length_map)
  with names show ?thesis by (simp add: run_tests_def)
qed

theorem excluded_tests_still_run_witness:
  "run_tests (sample_mem_env []) gpulist_empty sample_worker (rvs_memtests[0 := ('' Test1   [Walking 1 bit]'', 0)]) 0 1 sample_host =
   run_tests (sample_mem_env []) gpulist_empty sample_worker rvs_memtests 0 1 sample_host"
  by (rule excluded_tests_still_run [of "[0]"]) (simp add: rvs_memtests_def)

section \<open>The action\<close>

lemma never_asked [simp]: "(\<And>n. \<not> mw_stopping mw n) \<Longrightarrow> fst (ask_stopping mw s) = False"
  by (simp add: ask_stopping_def)

lemma workers_loop_unstopped:
  assumes "\<And>n. \<not> mw_stopping mw n"
  shows "workers_loop mw m parallel ds s = Some r \<Longrightarrow> \<not> fst r"
  by (induction ds arbitrary: s)
    (auto simp: bind_eq_Some_conv ask_stopping_def assms split: if_splits prod.splits)

lemma stress_loop_unstopped:
  assumes "stress_loop mw m devs k s = Some r"
  shows "(\<forall>n. \<not> mw_stopping mw n) \<longrightarrow> fst r"
proof (rule stress_loop.raw_induct [OF _ assms], intro impI)
  fix loop mw m devs k s r
  assume IH: "\<And>mw m devs k s r. loop mw m devs k s = Some r \<Longrightarrow> (\<forall>n. \<not> mw_stopping mw n) \<longrightarrow> fst r"
    and stop: "\<forall>n. \<not> mw_stopping mw n"
    and run: "(let a = ma_base m; s = ms_log (''['' @ action_name a @ ''] mem   The following memory tests will run'') logresults s in
      case (if devs = [] then None else init_tests (ma_exclude_list m) (ms_tests s)) of
        None \<Rightarrow> None
      | Some tests \<Rightarrow>
          let s = list_tests m (s\<lparr>ms_tests := tests\<rparr>);
              s = ms_log (''['' @ action_name a @ ''] mem   Starting all workers'') logtrace s
          in Option.bind (workers_loop mw m (property_parallel a) devs s) (\<lambda>(stopped, s).
               if stopped then Some (False, s)
               else (case ask_stopping mw s of (stop, s) \<Rightarrow>
                       if stop then Some (False, s)
                       else if property_count a \<noteq> 0 \<and> k + 1 = property_count a
                       then Some (case ask_stopping mw s of (stop, s) \<Rightarrow> (\<not> stop, s))
                       else loop mw m devs (if property_count a \<noteq> 0 then k + 1 else k) s))) = Some r"
  from run obtain s1 stopped s2 where w: "workers_loop mw m (property_parallel (ma_base m)) devs s1 = Some (stopped, s2)"
    and rest: "(if stopped then Some (False, s2)
       else (case ask_stopping mw s2 of (stop, s) \<Rightarrow>
               if stop then Some (False, s)
               else if property_count (ma_base m) \<noteq> 0 \<and> k + 1 = property_count (ma_base m)
               then Some (case ask_stopping mw s of (stop, s) \<Rightarrow> (\<not> stop, s))
               else loop mw m devs (if property_count (ma_base m) \<noteq> 0 then k + 1 else k) s)) = Some r"
    by (auto simp: Let_def bind_eq_Some_conv simp del: init_tests.simps split: option.splits if_splits)
  have "\<not> stopped" using workers_loop_unstopped [OF _ w] stop by simp
  with rest show "fst r" using IH stop by (auto simp: ask_stopping_def split: if_splits)
qed

text \<open>
  The action of the memory test fails only when it is asked to stop: whatever its workers do and
  find, it reports success when it returns.
\<close>

theorem memory_action_ignores_its_workers:
  assumes "do_mem_stress_test mw m devs s = Some (ok, s')" and "\<And>n. \<not> mw_stopping mw n"
  shows "ok"
  using stress_loop_unstopped [OF assms(1) [unfolded do_mem_stress_test_def]] assms(2) by simp

end
