(* ===== verification/Mem_Algorithms.thy ===== *)
theory Mem_Algorithms
  imports Mem_Moving Mem_Safety
begin

text \<open>
  What single tests of the memory test do on a memory that holds its values: the patterns of the
  walking bit, the rotation of the block move, and the two kernels that skip small regions.
\<close>

section \<open>Test 7: the walking bit\<close>

lemma movinv32_pats_Suc:
  "k < 32 \<Longrightarrow> movinv32_pats (Suc n) k (push_bit k 1) 1 0 = push_bit k 1 # movinv32_pats n (Suc k mod 32) (push_bit (Suc k mod 32) 1) 1 0"
  "k < 32 \<Longrightarrow> movinv32_pats (Suc n) k (NOT (push_bit k 1)) 0xfffffffe 1 =
     NOT (push_bit k 1) # movinv32_pats n (Suc k mod 32) (NOT (push_bit (Suc k mod 32) 1)) 0xfffffffe 1"
proof -
  have shift: "push_bit 1 (NOT (push_bit k 1)) OR 1 = NOT (push_bit (Suc k) (1 :: u32))"
    by (rule bit_word_eqI) (simp only: bit_or_iff bit_push_bit_iff bit_not_iff bit_1_iff possible_bit_word; arith)
  assume "k < 32"
  have double: "push_bit 1 (push_bit k 1) OR 0 = push_bit (Suc k) (1 :: u32)"
    by (simp only: push_bit_push_bit or.right_neutral plus_1_eq_Suc)
  show "movinv32_pats (Suc n) k (push_bit k 1) 1 0 = push_bit k 1 # movinv32_pats n (Suc k mod 32) (push_bit (Suc k mod 32) 1) 1 0"
  proof (cases "Suc k < 32")
    case True
    with double show ?thesis by (simp only: movinv32_pats.simps) (simp del: push_bit_of_1)
  next
    case False
    with \<open>k < 32\<close> have "k = 31" by simp
    then show ?thesis by (simp only: movinv32_pats.simps) simp
  qed
  show "movinv32_pats (Suc n) k (NOT (push_bit k 1)) 0xfffffffe 1 =
     NOT (push_bit k 1) # movinv32_pats n (Suc k mod 32) (NOT (push_bit (Suc k mod 32) 1)) 0xfffffffe 1"
  proof (cases "Suc k < 32")
    case True
    with shift show ?thesis by (simp only: movinv32_pats.simps) (simp del: push_bit_of_1)
  next
    case False
    with \<open>k < 32\<close> have "k = 31" by simp
    moreover have "movinv32_pats n 0 0xfffffffe 0xfffffffe 1 = movinv32_pats n 0 (- 2) 0xfffffffe 1"
      by (rule arg_cong [where f = "\<lambda>v. movinv32_pats n 0 v 0xfffffffe 1"]) simp
    ultimately show ?thesis by (simp only: movinv32_pats.simps) simp
  qed
qed

text \<open>
  The two calls of test 7 with offset \<open>k\<close> fill_cells the memory with a single bit that walks through the
  words of a block, and with its complement: word \<open>i\<close> has bit \<open>(k + i) mod 32\<close>.
\<close>

theorem walking_bit_patterns:
  assumes "k < 32" and "i < n"
  shows "movinv32_pats n k (push_bit k 1) 1 0 ! i = push_bit ((k + i) mod 32) 1 \<and>
    movinv32_pats n k (NOT (push_bit k 1)) 0xfffffffe 1 ! i = NOT (push_bit ((k + i) mod 32) 1)"
  using assms
proof (induction n arbitrary: k i)
  case (Suc n)
  have "(Suc k mod 32 + j) mod 32 = (k + Suc j) mod 32" for j by (simp add: mod_simps)
  with Suc.IH [of "Suc k mod 32" "i - 1"] Suc.prems show ?case
    by (cases i) (simp_all only: movinv32_pats_Suc, simp_all)
qed simp

theorem walking_bit_patterns_witness: "movinv32_pats 40 30 (push_bit 30 1) 1 0 ! 3 = 2"
  using walking_bit_patterns [of 30 3 40] by simp

section \<open>Test 9: nothing to do on small regions\<close>

lemma launch_nothing:
  assumes "quiet_env env" and "\<And>b. b < grid_dim (md_blocks md) \<Longrightarrow> kern b = []"
  shows "h_gpu (launch env md kern h) = h_gpu h"
proof -
  have "run_events (e_events env (h_launches h)) (launch_threads (\<lambda>b t. kern b) (grid_dim (md_blocks md))
      (grid_dim (md_threadsPerBlock md))) (h_gpu h) = h_gpu h"
    by (rule run_events_checks [where A = "{}" and old = "\<lambda>_. 0"])
      (use assms in \<open>auto simp: quiet_env_def launch_threads_def hold_def\<close>)
  then show ?thesis by (simp add: launch_def launch_on_def)
qed

lemma write_blocks_nothing:
  assumes "\<And>i h. i < tot \<Longrightarrow> h_gpu (launch env md (kern i) h) = h_gpu h"
  shows "list_all (\<lambda>i. i < tot) is \<Longrightarrow> h_gpu (write_blocks env md msg tot kern is h) = h_gpu h"
  by (induction "is" arbitrary: h) (simp_all add: assms write_blocks_def)

lemma blocks_from_below: "i \<in> set (blocks_from k tot) \<Longrightarrow> i < tot"
proof (induction k tot rule: blocks_from.induct)
  case (1 k tot)
  then show ?case by (subst (asm) (2) blocks_from.simps) (auto split: if_splits)
qed

text \<open>
  Both kernels of test 9 take the number of threads for the index of their block, so a region of
  no more blocks than that is neither written nor read, whatever the offset and the patterns are.
\<close>

theorem modulo_test_skips_small_regions:
  assumes "quiet_env env" and "clean (h_gpu h)" and "room ptr (tot + 2 ^ 32)"
    and "tot \<le> grid_dim (md_threadsPerBlock md)" and "tot + GRIDSIZE \<le> 2 ^ 32"
  shows "\<exists>h'. modtest env md ptr tot offset p1 p2 h = Some (0, h') \<and> h_gpu h' = h_gpu h"
proof -
  let ?d = "grid_dim (md_threadsPerBlock md)"
  have skip: "end_ptr_of ptr tot \<le> block_ptr (ptr + of_nat i * BLOCKSIZE) ?d" if "i < tot" for i
    using guard [OF assms(3), of "i + ?d" tot] that assms(4) grid_dim_le [of "md_threadsPerBlock md"]
    by (simp add: block_ptr_add end_ptr_of_def)
  then have w: "h_gpu (launch env md (\<lambda>b. kernel_modtest_write (ptr + of_nat i * BLOCKSIZE) (end_ptr_of ptr tot) offset p1 p2 ?d) h) = h_gpu h"
    and r: "h_gpu (launch env md (\<lambda>b. kernel_modtest_read (ptr + of_nat i * BLOCKSIZE) (end_ptr_of ptr tot) offset p1 ?d) h) = h_gpu h"
    if "i < tot" for i h
    using that by (simp_all add: launch_nothing [OF assms(1)] kernel_modtest_write_def kernel_modtest_read_def Let_def)
  define h1 where "h1 = write_blocks env md ''test9[mod test, write]'' tot
    (\<lambda>i b. kernel_modtest_write (ptr + of_nat i * BLOCKSIZE) (end_ptr_of ptr tot) offset p1 p2 ?d) (blocks_from 0 tot) h"
  have "h_gpu h1 = h_gpu h" unfolding h1_def
    by (rule write_blocks_nothing [OF w]) (simp_all add: list_all_iff blocks_from_below)
  then show ?thesis
    using read_blocks_silent [of tot "\<lambda>_. True" env md "\<lambda>i b. kernel_modtest_read (ptr + of_nat i * BLOCKSIZE)
        (end_ptr_of ptr tot) offset p1 ?d" h1 "''test9[mod test, read''" "''test9[mod test, read]''" 0 0] assms(2) r
    by (simp add: modtest_def Let_def loops_of_blocks [OF assms(5)] flip: h1_def)
qed

theorem modulo_test_skips_small_regions_witness:
  "\<exists>h'. modtest quiet_mem_env (single_thread_md\<lparr>md_threadsPerBlock := 256\<rparr>) 0x7f0000000000 240 3 1 2 blank_host = Some (0, h') \<and>
     h_gpu h' = h_gpu blank_host"
  by (rule modulo_test_skips_small_regions)
    (simp_all add: quiet_env_def quiet_mem_env_def upset_free_def room_def sizes(3) GRIDSIZE_def clean_def
      blank_host_def single_thread_md_def grid_dim_def)

section \<open>Test 6: the block move\<close>

text \<open>
  One thread assigns to pairwise different cells, from values that do not depend on them.
\<close>

lemma run_thread_append:
  assumes "\<And>s x. s \<in> set ss \<Longrightarrow> fst (s x) = fst x"
  shows "run_thread (l, ss @ ts) g = run_thread (l, ts) (run_thread (l, ss) g)"
proof -
  have "fst (fold (\<lambda>s x. s x) ss x) = fst x" for x
    using assms by (induction ss arbitrary: x) simp_all
  then have "fold (\<lambda>s x. s x) ss (l, g) = (l, run_thread (l, ss) g)"
    by (simp add: run_thread_def prod_eq_iff)
  then show ?thesis by (simp add: run_thread_def)
qed

lemma run_assigns:
  assumes "inj_on d (set is)"
    and "\<And>i x. i \<in> set is \<Longrightarrow> g_mem (snd (s i x)) = (g_mem (snd x))(d i := f i (g_mem (snd x)))"
    and "\<And>i m m'. i \<in> set is \<Longrightarrow> \<forall>a. a \<notin> d ` set is \<longrightarrow> m a = m' a \<Longrightarrow> f i m = f i m'"
    and "distinct is"
  shows "g_mem (run_thread (l, map s is) g) =
    (\<lambda>a. if a \<in> d ` set is then f (the_inv_into (set is) d a) (g_mem g) else g_mem g a)"
proof -
  have "g_mem (snd (fold (\<lambda>s x. s x) (map s js) x)) =
      (\<lambda>a. if a \<in> d ` set js then f (the_inv_into (set is) d a) (g_mem g) else g_mem (snd x) a)"
    if "set js \<subseteq> set is" "distinct js" "\<forall>a. a \<notin> d ` set is \<longrightarrow> g_mem (snd x) a = g_mem g a" for js x
    using that
  proof (induction js arbitrary: x)
    case (Cons j js)
    have j: "j \<in> set is" using Cons.prems(1) by simp
    have m: "g_mem (snd (s j x)) = (g_mem (snd x))(d j := f j (g_mem g))"
      using assms(2) [OF j, of x] assms(3) [OF j, of "g_mem (snd x)" "g_mem g"] Cons.prems(3) by simp
    have out: "d j \<notin> d ` set js"
    proof
      assume "d j \<in> d ` set js"
      then obtain k where "k \<in> set js" "d j = d k" by blast
      then show False using inj_onD [OF assms(1), of j k] j Cons.prems(1,2) by auto
    qed
    have "the_inv_into (set is) d (d j) = j" by (rule the_inv_into_f_f [OF assms(1) j])
    moreover have "g_mem (snd (fold (\<lambda>s x. s x) (map s js) (s j x))) =
        (\<lambda>a. if a \<in> d ` set js then f (the_inv_into (set is) d a) (g_mem g) else g_mem (snd (s j x)) a)"
      by (rule Cons.IH) (use Cons.prems j m in auto)
    ultimately show ?case using m out by (auto simp: fun_eq_iff)
  qed simp
  from this [of "is" "(l, g)"] assms(4) show ?thesis by (simp add: run_thread_def cong: if_cong)
qed

lemma run_assigns_at:
  assumes "inj_on d (set is)"
    and "\<And>i x. i \<in> set is \<Longrightarrow> g_mem (snd (s i x)) = (g_mem (snd x))(d i := f i (g_mem (snd x)))"
    and "\<And>i m m'. i \<in> set is \<Longrightarrow> \<forall>a. a \<notin> d ` set is \<longrightarrow> m a = m' a \<Longrightarrow> f i m = f i m'"
    and "distinct is"
  shows "i \<in> set is \<Longrightarrow> g_mem (run_thread (l, map s is) g) (d i) = f i (g_mem g)"
    and "a \<notin> d ` set is \<Longrightarrow> g_mem (run_thread (l, map s is) g) a = g_mem g a"
  by (simp_all add: run_assigns [OF assms] the_inv_into_f_f [OF assms(1)])

lemma cells_neq: "room p 1 \<Longrightarrow> i < words32 \<Longrightarrow> j < words32 \<Longrightarrow> cell p i = cell p j \<longleftrightarrow> i = j"
  using cell_inj [of p 1 i j] by simp

lemma run_copies:
  assumes "room p 1" and "inj_on D (set is)" and "distinct is"
    and "\<And>i. i \<in> set is \<Longrightarrow> D i < words32 \<and> S i < words32"
    and "\<And>i j. i \<in> set is \<Longrightarrow> j \<in> set is \<Longrightarrow> D i \<noteq> S j"
  shows "i \<in> set is \<Longrightarrow> g_mem (run_thread (l, map (\<lambda>i. copy (cell p (D i)) (cell p (S i))) is) g) (cell p (D i)) =
      g_mem g (cell p (S i))"
    and "k < words32 \<Longrightarrow> k \<notin> D ` set is \<Longrightarrow>
      g_mem (run_thread (l, map (\<lambda>i. copy (cell p (D i)) (cell p (S i))) is) g) (cell p k) = g_mem g (cell p k)"
proof -
  let ?d = "\<lambda>i. cell p (D i)"
  have inj: "inj_on ?d (set is)"
    using assms(2) by (auto simp: inj_on_def cells_neq [OF assms(1)] assms(4))
  have out: "cell p (S i) \<notin> ?d ` set is" if "i \<in> set is" for i
  proof
    assume "cell p (S i) \<in> ?d ` set is"
    then obtain j where "j \<in> set is" "cell p (S i) = cell p (D j)" by blast
    then show False using cells_neq [OF assms(1), of "S i" "D j"] assms(4,5) that by metis
  qed
  note at = run_assigns_at [of ?d "is" "\<lambda>i. copy (cell p (D i)) (cell p (S i))" "\<lambda>i m. m (cell p (S i))",
      OF inj copy_frame(2) _ assms(3)]
  show "i \<in> set is \<Longrightarrow> g_mem (run_thread (l, map (\<lambda>i. copy (cell p (D i)) (cell p (S i))) is) g) (cell p (D i)) =
      g_mem g (cell p (S i))"
    using at(1) out by blast
  assume k: "k < words32" "k \<notin> D ` set is"
  then have "cell p k \<notin> ?d ` set is" using assms(4) by (auto simp: cells_neq [OF assms(1)])
  then show "g_mem (run_thread (l, map (\<lambda>i. copy (cell p (D i)) (cell p (S i))) is) g) (cell p k) = g_mem g (cell p k)"
    using at(2) out by blast
qed

lemma test5_group_pairs: "j < 8 \<Longrightarrow> test5_group v ! (2 * j) = test5_group v ! Suc (2 * j)"
proof -
  assume "j < 8"
  then have "j \<in> {0, 1, 2, 3, 4, 5, 6, 7}" by auto
  then show ?thesis by (elim insertE emptyE) (simp_all add: test5_group_def Let_def)
qed

lemma test5_pairs:
  "j < 8 * length ps \<Longrightarrow> concat (map test5_group ps) ! (2 * j) = concat (map test5_group ps) ! Suc (2 * j)"
proof (induction ps arbitrary: j)
  case (Cons v ps)
  have len: "length (test5_group v) = 16" by (simp add: test5_group_def Let_def)
  show ?case
  proof (cases "j < 8")
    case True
    then show ?thesis by (simp add: nth_append len test5_group_pairs)
  next
    case False
    then obtain k where j: "j = 8 + k" by (metis le_add_diff_inverse not_less)
    then show ?thesis using Cons by (simp add: nth_append len)
  qed
qed simp

lemma run_enumerate:
  assumes "room p 1" and "length vs \<le> words32" and "i < length vs"
  shows "g_mem (run_thread (l, map (\<lambda>(i, v). store (cell p i) v) (enumerate 0 vs)) g) (cell p i) = vs ! i"
proof -
  have eq: "map (\<lambda>(i, v). store (cell p i) v) (enumerate 0 vs) = map (\<lambda>i. store (cell p i) (vs ! i)) [0..<length vs]"
    by (rule nth_equalityI) (simp_all add: nth_enumerate_eq)
  have "inj_on (cell p) (set [0..<length vs])"
    using assms(2) by (auto simp: inj_on_def cells_neq [OF assms(1)])
  from run_assigns_at(1) [OF this, of "\<lambda>i. store (cell p i) (vs ! i)" "\<lambda>i m. vs ! i" i l g] assms(3)
  show ?thesis by (simp add: eq step_frame)
qed

lemma copies_keep_local: "s \<in> set (map (\<lambda>i. copy (f i) (h i)) is) \<Longrightarrow> fst (s x) = fst x"
  by (cases x) (auto simp: copy_def store_def)

lemma run_copies_append:
  "run_thread (l, map (\<lambda>i. copy (f i) (h i)) is @ ts) g = run_thread (l, ts) (run_thread (l, map (\<lambda>i. copy (f i) (h i)) is) g)"
  by (rule run_thread_append) (erule copies_keep_local)

text \<open>The three loops of the move: the first half goes to the second, and comes back rotated by eight words.\<close>

lemma block_move_rotates:
  fixes q e b g
  defines "p \<equiv> block_ptr q b" and "m \<equiv> run_thread (0, kernel_test5_move q e b) g" and "half \<equiv> words32 div 2"
  assumes "room p 1" and "\<not> e \<le> p" and "j < half"
  shows "g_mem m (cell p (half + j)) = g_mem g (cell p j)"
    and "g_mem m (cell p ((j + 8) mod half)) = g_mem g (cell p j)"
proof -
  have half: "half = 131072" "words32 = 262144" by (simp_all add: half_def sizes(2))
  let ?l1 = "map (\<lambda>i. copy (cell p (half + i)) (cell p i)) [0..<half]"
  let ?l2 = "map (\<lambda>i. copy (cell p (i + 8)) (cell p (half + i))) [0..<half - 8]"
  let ?l3 = "map (\<lambda>i. copy (cell p i) (cell p (half + (half - 8 + i)))) [0..<8]"
  define g1 where "g1 = run_thread (0, ?l1) g"
  define g2 where "g2 = run_thread (0, ?l2) g1"
  have "kernel_test5_move q e b = ?l1 @ ?l2 @ ?l3"
    using assms(5) by (simp add: kernel_test5_move_def Let_def p_def half_def cell_cell)
  then have m: "m = run_thread (0, ?l3) g2"
    using run_copies_append unfolding m_def g1_def g2_def by metis
  note at = run_copies [OF assms(4) _ distinct_upt]
  have one: "g_mem g1 (cell p (half + i)) = g_mem g (cell p i)" if "i < half" for i
    unfolding g1_def using that half
    by (intro at(1) [of "\<lambda>i. half + i" 0 half "\<lambda>i. i"]) (auto simp: inj_on_def)
  have two: "g_mem g2 (cell p (i + 8)) = g_mem g1 (cell p (half + i))" if "i < half - 8" for i
    unfolding g2_def using that half
    by (intro at(1) [of "\<lambda>i. i + 8" 0 "half - 8" "\<lambda>i. half + i"]) (auto simp: inj_on_def)
  have two': "g_mem g2 (cell p (half + i)) = g_mem g1 (cell p (half + i))" if "i < half" for i
    unfolding g2_def using that half
    by (intro at(2) [of "\<lambda>i. i + 8" 0 "half - 8" "\<lambda>i. half + i"]) (auto simp: inj_on_def)
  have three: "g_mem m (cell p i) = g_mem g2 (cell p (half + (half - 8 + i)))" if "i < 8" for i
    unfolding m using that half
    by (intro at(1) [of "\<lambda>i. i" 0 8 "\<lambda>i. half + (half - 8 + i)"]) (auto simp: inj_on_def)
  have three': "g_mem m (cell p k) = g_mem g2 (cell p k)" if "8 \<le> k" "k < words32" for k
    unfolding m using that half
    by (intro at(2) [of "\<lambda>i. i" 0 8 "\<lambda>i. half + (half - 8 + i)"]) (auto simp: inj_on_def)
  show "g_mem m (cell p (half + j)) = g_mem g (cell p j)"
    using three' [of "half + j"] two' [OF assms(6)] one [OF assms(6)] assms(6) half by simp
  show "g_mem m (cell p ((j + 8) mod half)) = g_mem g (cell p j)"
  proof (cases "j < half - 8")
    case True
    then have "(j + 8) mod half = j + 8" by simp
    then show ?thesis using three' [of "j + 8"] two [OF True] one [OF assms(6)] True half by simp
  next
    case False
    then have k: "j = half - 8 + (j - (half - 8))" "j - (half - 8) < 8" using assms(6) half by simp_all
    have "(j + 8) mod half = j - (half - 8)" using False assms(6) half by (simp add: mod_if)
    then show ?thesis
      using three [OF k(2)] two' [OF assms(6)] one [OF assms(6)] k(1) by simp
  qed
qed

text \<open>
  C27: A thread that fills its block with the patterns of test 6, moves it and checks it finds every
  pair of words equal: it reports nothing and changes nothing in the check.
\<close>

theorem block_move_check_finds_nothing:
  assumes "room (block_ptr q b) 1"
  shows "run_thread (0, kernel_test5_check q e b)
      (run_thread (0, kernel_test5_move q e b) (run_thread (0, kernel_test5_init q e b) g)) =
    run_thread (0, kernel_test5_move q e b) (run_thread (0, kernel_test5_init q e b) g)"
proof (cases "e \<le> block_ptr q b")
  case True
  then show ?thesis by (simp add: kernel_test5_check_def run_thread_def)
next
  case go: False
  let ?p = "block_ptr q b" and ?half = "words32 div 2"
  define vs where "vs = concat (map test5_group (test5_patterns (words32 div 16) 1))"
  define g1 where "g1 = run_thread (0, kernel_test5_init q e b) g"
  define m where "m = run_thread (0, kernel_test5_move q e b) g1"
  have len: "length vs = words32" by (simp add: vs_def length_test5_groups sizes(2))
  have init: "g_mem g1 (cell ?p (2 * j)) = g_mem g1 (cell ?p (Suc (2 * j)))" if "j < ?half" for j
  proof -
    have "g_mem g1 (cell ?p i) = vs ! i" if "i < words32" for i
      using run_enumerate [OF assms, of vs i 0 g] go that len by (simp add: g1_def kernel_test5_init_def Let_def vs_def)
    moreover have "vs ! (2 * j) = vs ! Suc (2 * j)"
      unfolding vs_def by (rule test5_pairs) (use that in \<open>simp add: sizes(2)\<close>)
    ultimately show ?thesis using that by (simp add: sizes(2))
  qed
  note move = block_move_rotates [OF assms go, of _ g1, folded m_def]
  have pair: "g_mem m (cell ?p (2 * j)) = g_mem m (cell ?p (Suc (2 * j)))" if "j < ?half" for j
  proof (cases "2 * j < ?half")
    case False
    define k where "k = j - ?half div 2"
    have k: "2 * j = ?half + 2 * k" "2 * k < ?half" "Suc (2 * k) < ?half"
      using that False by (simp_all add: k_def sizes(2))
    have "k < ?half" using k by simp
    then show ?thesis
      using move(1) [OF k(2)] move(1) [OF k(3)] init [of k] by (simp add: k(1))
  next
    case True
    define k where "k = (if 8 \<le> 2 * j then j - 4 else j + ?half div 2 - 4)"
    have k: "2 * k < ?half" "Suc (2 * k) < ?half" "(2 * k + 8) mod ?half = 2 * j" "(Suc (2 * k) + 8) mod ?half = Suc (2 * j)"
      using True by (auto simp: k_def sizes(2) mod_if)
    have "k < ?half" using k(1) by simp
    then show ?thesis
      using move(2) [OF k(1)] move(2) [OF k(2)] init [of k] by (simp only: k(3,4))
  qed
  have "run_thread (0, map (\<lambda>j. check_pair (cell ?p (2 * j)) (cell ?p (2 * j + 1))) js) m = m"
    if "\<forall>j \<in> set js. j < ?half" for js
    using that by (induction js) (simp_all add: run_thread_def check_pair_def pair)
  from this [of "[0..<?half]"] show ?thesis
    using go by (simp add: kernel_test5_check_def Let_def flip: g1_def m_def)
qed

theorem block_move_check_finds_nothing_witness:
  "run_thread (0, kernel_test5_check 0 0x100000 0)
      (run_thread (0, kernel_test5_move 0 0x100000 0) (run_thread (0, kernel_test5_init 0 0x100000 0) (h_gpu blank_host))) =
    run_thread (0, kernel_test5_move 0 0x100000 0) (run_thread (0, kernel_test5_init 0 0x100000 0) (h_gpu blank_host))"
  by (rule block_move_check_finds_nothing) (simp add: room_def block_ptr_def sizes(3))

end
