(* ===== verification/Pci_Caps.thy ===== *)
theory Pci_Caps
  imports Gpu_List
begin

unbundle bit_operations_syntax

text \<open>
  \<^verbatim>\<open>src/pci_caps.cpp\<close>: the texts the PCIe qualification reads from the configuration space of a
  device.  The register layout (\<^verbatim>\<open>linux/pci_regs.h\<close>, \<^verbatim>\<open>pci/header.h\<close>) is not part of the repository: it
  is the record \<open>pci_layout\<close>, an argument of every function, with the names of the headers; the two
  link speeds the code tests for with \<^verbatim>\<open>#ifdef\<close> are optional.  The answers of the PCI library are
  functions of the position that is read.
\<close>

section \<open>The register layout and the device\<close>

type_synonym u8 = "8 word"

record pci_layout =
  cap_id_exp :: u8
  cap_id_pm :: u8
  ext_cap_id_dsn :: u8
  ext_cap_id_pwr :: u8
  cap_normal :: u8
  cap_extended :: u8
  exp_lnkcap :: u32
  exp_lnksta :: u32
  exp_sltcap :: u32
  exp_devcap2 :: u32
  exp_devctl2 :: u32
  pm_ctrl :: u32
  pwr_dsr :: u32
  pwr_data :: u32
  lnkcap_sls :: u32
  lnkcap_mlw :: u32
  lnksta_cls :: u32
  lnksta_cls_2_5gb :: u32
  lnksta_cls_5_0gb :: u32
  lnksta_cls_8_0gb :: u32
  lnksta_cls_16_0gb :: "u32 option"
  lnksta_cls_32_0gb :: "u32 option"
  lnksta_nlw :: u32
  lnksta_nlw_shift :: nat
  sltcap_splv :: u32
  sltcap_spls :: u32
  sltcap_psn :: u32
  exp_flags_vers :: u32
  pm_ctrl_state_mask :: u32
  base_address_space_io :: u64
  pwr_data_base :: "u32 \<Rightarrow> u32"
  pwr_data_scale :: "u32 \<Rightarrow> u32"
  pwr_data_pm_state :: "u32 \<Rightarrow> u32"
  pwr_data_type :: "u32 \<Rightarrow> u32"
  pwr_data_rail :: "u32 \<Rightarrow> u32"

record pci_cap =
  pc_id :: u16
  pc_type :: u16
  pc_addr :: u32

text \<open>
  \<open>pd_sysfs\<close> is \<open>None\<close> when there is no access structure or its method is not the sysfs one;
  inside, the parameter \<^verbatim>\<open>sysfs.path\<close>.  \<open>pd_write_byte\<close> tells whether a write succeeds, and
  \<open>pd_word_selected p v q\<close> is the word at \<open>q\<close> after the byte \<open>v\<close> was written at \<open>p\<close>.
\<close>

record pci_dev =
  pd_caps :: "pci_cap list"
  pd_domain :: u32
  pd_bus :: u8
  pd_dev :: u8
  pd_func :: u8
  pd_vendor_id :: u16
  pd_device_id :: u16
  pd_bars :: "(u64 \<times> u64) list"  \<comment> \<open>base address and size\<close>
  pd_rom_size :: u64
  pd_sysfs :: "string option option"
  pd_readlink :: "string \<Rightarrow> string option"
  pd_read_long :: "u32 \<Rightarrow> u32"
  pd_read_word :: "u32 \<Rightarrow> u16"
  pd_write_byte :: "u32 \<Rightarrow> u8 \<Rightarrow> bool"
  pd_word_selected :: "u32 \<Rightarrow> u8 \<Rightarrow> u32 \<Rightarrow> u16"

definition PCI_CAP_NOT_SUPPORTED :: string where
  "PCI_CAP_NOT_SUPPORTED = ''NOT SUPPORTED''"

definition PCI_CAP_DATA_MAX_BUF_SIZE :: nat where
  "PCI_CAP_DATA_MAX_BUF_SIZE = 1024"

section \<open>Formats\<close>

text \<open>\<^verbatim>\<open>%0<k>x\<close> pads with zeros on the left; \<^verbatim>\<open>%X\<close> uses capitals.\<close>

definition pad_hex :: "nat \<Rightarrow> nat \<Rightarrow> string" where
  "pad_hex k n = (let s = hex_digits n in replicate (k - length s) (CHR ''0'') @ s)"

definition upper_char :: "char \<Rightarrow> char" where
  "upper_char c = (if (97 :: nat) \<le> of_char c \<and> of_char c \<le> (122 :: nat) then char_of (of_char c - (32 :: nat)) else c)"

definition hex_upper :: "nat \<Rightarrow> string" where
  "hex_upper n = map upper_char (hex_digits n)"

text \<open>\<^verbatim>\<open>%.3f\<close> of a number of thousandths.\<close>

definition milli_text :: "nat \<Rightarrow> string" where
  "milli_text n = to_string (n div 1000) @ ''.'' @
     (let s = to_string (n mod 1000) in replicate (3 - length s) (CHR ''0'') @ s)"

text \<open>
  The product of a value below 256 and \<^verbatim>\<open>pow(10, -scale)\<close>, printed with three decimals.  Both scale
  fields have two bits, so the product is a whole number of thousandths and the division is exact.
\<close>

definition power_text :: "nat \<Rightarrow> nat \<Rightarrow> string" where
  "power_text v scale = milli_text (v * 1000 div 10 ^ scale) @ ''W''"

section \<open>The functions\<close>

fun cap_offset_loop :: "pci_cap list \<Rightarrow> u8 \<Rightarrow> u8 \<Rightarrow> u32" where
  "cap_offset_loop [] cap type = 0"
| "cap_offset_loop (pcap # rest) cap type =
     (if pc_id pcap = ucast cap \<and> pc_type pcap = ucast type then pc_addr pcap
      else cap_offset_loop rest cap type)"

definition pci_dev_find_cap_offset :: "pci_dev \<Rightarrow> u8 \<Rightarrow> u8 \<Rightarrow> u32" where
  "pci_dev_find_cap_offset dev cap type = cap_offset_loop (pd_caps dev) cap type"

definition get_link_cap_max_speed :: "pci_layout \<Rightarrow> pci_dev \<Rightarrow> string" where
  "get_link_cap_max_speed L dev =
     (let cap_offset = pci_dev_find_cap_offset dev (cap_id_exp L) (cap_normal L) in
      if cap_offset \<noteq> 0 then
        (let s = pd_read_long dev (cap_offset + exp_lnkcap L) AND lnkcap_sls L in
         if s = 1 then ''2.5 GT/s'' else if s = 2 then ''5 GT/s'' else if s = 3 then ''8 GT/s''
         else if s = 4 then ''16 GT/s'' else if s = 5 then ''32 GT/s'' else ''Unknown speed'')
      else PCI_CAP_NOT_SUPPORTED)"

text \<open>\<^verbatim>\<open>%d\<close> prints the unsigned value as a signed one.\<close>

definition get_link_cap_max_width :: "pci_layout \<Rightarrow> pci_dev \<Rightarrow> string" where
  "get_link_cap_max_width L dev =
     (let cap_offset = pci_dev_find_cap_offset dev (cap_id_exp L) (cap_normal L) in
      if cap_offset \<noteq> 0 then
        ''x'' @ to_string_int (sint (drop_bit 4 (pd_read_long dev (cap_offset + exp_lnkcap L) AND lnkcap_mlw L)))
      else PCI_CAP_NOT_SUPPORTED)"

definition get_link_stat_cur_speed :: "pci_layout \<Rightarrow> pci_dev \<Rightarrow> string" where
  "get_link_stat_cur_speed L dev =
     (let cap_offset = pci_dev_find_cap_offset dev (cap_id_exp L) (cap_normal L) in
      if cap_offset \<noteq> 0 then
        (let s = ucast (pd_read_word dev (cap_offset + exp_lnksta L)) AND lnksta_cls L in
         if s = lnksta_cls_2_5gb L then ''2.5 GT/s'' else if s = lnksta_cls_5_0gb L then ''5 GT/s''
         else if s = lnksta_cls_8_0gb L then ''8 GT/s''
         else if Some s = lnksta_cls_16_0gb L then ''16 GT/s''
         else if Some s = lnksta_cls_32_0gb L then ''32 GT/s''
         else ''Unknown speed'')
      else PCI_CAP_NOT_SUPPORTED)"

definition get_link_stat_neg_width :: "pci_layout \<Rightarrow> pci_dev \<Rightarrow> string" where
  "get_link_stat_neg_width L dev =
     (let cap_offset = pci_dev_find_cap_offset dev (cap_id_exp L) (cap_normal L) in
      if cap_offset \<noteq> 0 then
        ''x'' @ to_string_int (sint (drop_bit (lnksta_nlw_shift L)
                  (ucast (pd_read_word dev (cap_offset + exp_lnksta L)) AND lnksta_nlw L)))
      else PCI_CAP_NOT_SUPPORTED)"

definition get_slot_pwr_limit_value :: "pci_layout \<Rightarrow> pci_dev \<Rightarrow> string" where
  "get_slot_pwr_limit_value L dev =
     (let cap_offset = pci_dev_find_cap_offset dev (cap_id_exp L) (cap_normal L) in
      if cap_offset \<noteq> 0 then
        (let slot_cap = pd_read_long dev (cap_offset + exp_sltcap L);
             slot_pwr_limit_scale = (ucast (drop_bit 15 (slot_cap AND sltcap_spls L)) :: u8);
             slot_pwr_limit_value = (ucast (drop_bit 7 (slot_cap AND sltcap_splv L)) :: u16)
         in if 0xEF < slot_pwr_limit_value then
              (if slot_pwr_limit_value = 0xF0 then milli_text 250000 @ ''W''
               else if slot_pwr_limit_value = 0xF1 then milli_text 270000 @ ''W''
               else if slot_pwr_limit_value = 0xF2 then milli_text 300000 @ ''W''
               else ''-'' @ milli_text 1000 @ ''W'')
            else power_text (unat slot_pwr_limit_value) (unat slot_pwr_limit_scale))
      else PCI_CAP_NOT_SUPPORTED)"

definition get_slot_physical_num :: "pci_layout \<Rightarrow> pci_dev \<Rightarrow> string" where
  "get_slot_physical_num L dev =
     (let cap_offset = pci_dev_find_cap_offset dev (cap_id_exp L) (cap_normal L) in
      if cap_offset \<noteq> 0 then
        ''#'' @ to_string (unat (drop_bit 19 (pd_read_long dev (cap_offset + exp_sltcap L) AND sltcap_psn L)))
      else PCI_CAP_NOT_SUPPORTED)"

definition get_pci_bus_id :: "pci_dev \<Rightarrow> string" where
  "get_pci_bus_id dev = hex_upper (unat (pd_bus dev))"

definition get_device_id :: "pci_dev \<Rightarrow> string" where
  "get_device_id dev = to_string (unat (pd_device_id dev))"

definition get_vendor_id :: "pci_dev \<Rightarrow> string" where
  "get_vendor_id dev = to_string (unat (pd_vendor_id dev))"

definition driver_link :: "string \<Rightarrow> pci_dev \<Rightarrow> string" where
  "driver_link base dev = base @ ''/devices/'' @ pad_hex 4 (unat (pd_domain dev)) @ '':'' @
     pad_hex 2 (unat (pd_bus dev)) @ '':'' @ pad_hex 2 (unat (pd_dev dev)) @ ''.'' @
     to_string (unat (pd_func dev)) @ ''/driver''"

definition base_name :: "string \<Rightarrow> string" where
  "base_name s = (case rfind_below s (CHR ''/'') (length s) of None \<Rightarrow> s | Some i \<Rightarrow> drop (i + 1) s)"

text \<open>
  \<open>None\<close>: the link fills the buffer, which the function then leaves without a terminating zero.
\<close>

definition get_kernel_driver :: "pci_dev \<Rightarrow> string option" where
  "get_kernel_driver dev =
     (case pd_sysfs dev of
        Some (Some base) \<Rightarrow>
          if base = [] then Some PCI_CAP_NOT_SUPPORTED
          else if PCI_CAP_DATA_MAX_BUF_SIZE \<le> length (driver_link base dev) then Some PCI_CAP_NOT_SUPPORTED
          else (case pd_readlink dev (driver_link base dev) of
                  None \<Rightarrow> Some PCI_CAP_NOT_SUPPORTED
                | Some t \<Rightarrow> if PCI_CAP_DATA_MAX_BUF_SIZE \<le> length t then None else Some (base_name t))
      | _ \<Rightarrow> Some PCI_CAP_NOT_SUPPORTED)"

text \<open>The bytes of a double word from the most significant one.\<close>

definition dword_bytes :: "u32 \<Rightarrow> nat list" where
  "dword_bytes t = map (\<lambda>k. unat (drop_bit k t AND 0xff)) [24, 16, 8, 0]"

fun join_dash :: "string list \<Rightarrow> string" where
  "join_dash [] = []"
| "join_dash [s] = s"
| "join_dash (s # ss) = s @ ''-'' @ join_dash ss"

definition serial_text :: "u32 \<Rightarrow> u32 \<Rightarrow> string" where
  "serial_text t1 t2 = join_dash (map (pad_hex 2) (dword_bytes t2 @ dword_bytes t1))"

definition get_dev_serial_num :: "pci_layout \<Rightarrow> pci_dev \<Rightarrow> string" where
  "get_dev_serial_num L dev =
     (let off = pci_dev_find_cap_offset dev (ext_cap_id_dsn L) (cap_extended L) in
      if off \<noteq> 0 then serial_text (pd_read_long dev (off + 4)) (pd_read_long dev (off + 8))
      else PCI_CAP_NOT_SUPPORTED)"

text \<open>
  The loop over the entries of the power budgeting table.  The register is read as a word, so the
  macros for type and rail see only its lower 16 bits.  The fields are compared as bytes.
\<close>

fun pwr_loop :: "pci_layout \<Rightarrow> pci_dev \<Rightarrow> u32 \<Rightarrow> u8 \<Rightarrow> u8 \<Rightarrow> u8 \<Rightarrow> nat list \<Rightarrow> string" where
  "pwr_loop L dev off pm_state type rail [] = PCI_CAP_NOT_SUPPORTED"
| "pwr_loop L dev off pm_state type rail (i # is) =
     (if \<not> pd_write_byte dev (off + pwr_dsr L) (of_nat i) then pwr_loop L dev off pm_state type rail is
      else
        let w = pd_word_selected dev (off + pwr_dsr L) (of_nat i) (off + pwr_data L) in
        if w = 0 then PCI_CAP_NOT_SUPPORTED
        else if ucast (pwr_data_pm_state L (ucast w)) = pm_state \<and> ucast (pwr_data_type L (ucast w)) = type
                \<and> ucast (pwr_data_rail L (ucast w)) = rail
        then power_text (unat (pwr_data_base L (ucast w))) (unat (pwr_data_scale L (ucast w)))
        else pwr_loop L dev off pm_state type rail is)"

definition get_pwr_budgeting :: "pci_layout \<Rightarrow> pci_dev \<Rightarrow> u8 \<Rightarrow> u8 \<Rightarrow> u8 \<Rightarrow> string" where
  "get_pwr_budgeting L dev pb_pm_state pb_type pb_power_rail =
     (let off = pci_dev_find_cap_offset dev (ext_cap_id_pwr L) (cap_extended L) in
      if off \<noteq> 0 then pwr_loop L dev off pb_pm_state pb_type pb_power_rail [0..<256]
      else PCI_CAP_NOT_SUPPORTED)"

text \<open>\<open>None\<close>: no case of the switch applies and the text is indeterminate.\<close>

definition get_pwr_curr_state :: "pci_layout \<Rightarrow> pci_dev \<Rightarrow> string option" where
  "get_pwr_curr_state L dev =
     (let off = pci_dev_find_cap_offset dev (cap_id_pm L) (cap_normal L) in
      if off = 0 then Some PCI_CAP_NOT_SUPPORTED
      else
        (let s = ucast (pd_read_word dev (off + pm_ctrl L)) AND pm_ctrl_state_mask L in
         if s = 0 then Some ''D0'' else if s = 1 then Some ''D1'' else if s = 2 then Some ''D2''
         else if s = 3 then Some ''D3'' else None))"

definition truth_text :: "bool \<Rightarrow> string" where
  "truth_text b = (if b then ''TRUE'' else ''FALSE'')"

definition cap_version_2 :: "pci_layout \<Rightarrow> pci_dev \<Rightarrow> u32 \<Rightarrow> bool" where
  "cap_version_2 L dev off \<longleftrightarrow> \<not> (ucast (pd_read_word dev (off + 2)) AND exp_flags_vers L) < 2"

definition get_atomic_op_routing :: "pci_layout \<Rightarrow> pci_dev \<Rightarrow> string" where
  "get_atomic_op_routing L dev =
     (let off = pci_dev_find_cap_offset dev (cap_id_exp L) (cap_normal L) in
      if off \<noteq> 0 then
        (if cap_version_2 L dev off
         then truth_text (pd_read_word dev (off + exp_devctl2 L) AND 0x0040 \<noteq> 0)
         else PCI_CAP_NOT_SUPPORTED)
      else PCI_CAP_NOT_SUPPORTED)"

definition has_memory_bar :: "pci_layout \<Rightarrow> pci_dev \<Rightarrow> bool" where
  "has_memory_bar L dev \<longleftrightarrow>
     list_ex (\<lambda>(base, size). base \<noteq> 0 \<and> size \<noteq> 0 \<and> base AND base_address_space_io L = 0) (take 6 (pd_bars dev))"

definition get_atomic_op_register_value :: "pci_layout \<Rightarrow> pci_dev \<Rightarrow> int" where
  "get_atomic_op_register_value L dev =
     (let off = pci_dev_find_cap_offset dev (cap_id_exp L) (cap_normal L) in
      if off \<noteq> 0 \<and> cap_version_2 L dev off \<and> has_memory_bar L dev
      then uint (pd_read_long dev (off + exp_devcap2 L)) else -1)"

definition completer_text :: "pci_layout \<Rightarrow> pci_dev \<Rightarrow> u32 \<Rightarrow> string" where
  "completer_text L dev bit_mask =
     (let v = get_atomic_op_register_value L dev in
      if v \<noteq> -1 then truth_text (word_of_int v AND bit_mask \<noteq> 0) else PCI_CAP_NOT_SUPPORTED)"

definition get_atomic_op_32_completer :: "pci_layout \<Rightarrow> pci_dev \<Rightarrow> string" where
  "get_atomic_op_32_completer L dev = completer_text L dev 0x0080"

definition get_atomic_op_64_completer :: "pci_layout \<Rightarrow> pci_dev \<Rightarrow> string" where
  "get_atomic_op_64_completer L dev = completer_text L dev 0x0100"

definition get_atomic_op_128_CAS_completer :: "pci_layout \<Rightarrow> pci_dev \<Rightarrow> string" where
  "get_atomic_op_128_CAS_completer L dev = completer_text L dev 0x0200"

section \<open>The documented layout\<close>

text \<open>
  The values of the Linux headers (\<^verbatim>\<open>linux/pci_regs.h\<close>), an instance of the layout for examples.
\<close>

definition linux_layout :: pci_layout where
  "linux_layout = \<lparr>cap_id_exp = 0x10, cap_id_pm = 1, ext_cap_id_dsn = 3, ext_cap_id_pwr = 4,
     cap_normal = 1, cap_extended = 2, exp_lnkcap = 12, exp_lnksta = 18, exp_sltcap = 20, exp_devcap2 = 36,
     exp_devctl2 = 40, pm_ctrl = 4, pwr_dsr = 4, pwr_data = 8, lnkcap_sls = 0xf, lnkcap_mlw = 0x3f0,
     lnksta_cls = 0xf, lnksta_cls_2_5gb = 1, lnksta_cls_5_0gb = 2, lnksta_cls_8_0gb = 3,
     lnksta_cls_16_0gb = Some 4, lnksta_cls_32_0gb = Some 5, lnksta_nlw = 0x3f0, lnksta_nlw_shift = 4,
     sltcap_splv = 0x7f80, sltcap_spls = 0x18000, sltcap_psn = 0xfff80000, exp_flags_vers = 0xf,
     pm_ctrl_state_mask = 3, base_address_space_io = 1,
     pwr_data_base = \<lambda>w. w AND 0xff, pwr_data_scale = \<lambda>w. drop_bit 8 w AND 3,
     pwr_data_pm_state = \<lambda>w. drop_bit 13 w AND 3, pwr_data_type = \<lambda>w. drop_bit 15 w AND 7,
     pwr_data_rail = \<lambda>w. drop_bit 18 w AND 7\<rparr>"

end
