(* ===== verification/Peqt.thy ===== *)
theory Peqt
  imports Pci_Caps Action_Base
begin

text \<open>
  \<^verbatim>\<open>peqt.so/src/action.cpp\<close>: the PCIe qualification.  The action checks the capability texts of
  every selected GPU against the regular expressions of its properties.  The engine of
  \<^verbatim>\<open>std::regex\<close> is an argument: \<open>rx text pattern\<close> tells whether the whole text matches, \<open>None\<close> is the
  exception for a pattern that does not compile.  The fixed expression of the power budgeting
  names is modelled by the texts it stands for.
\<close>

type_synonym regex_engine = "string \<Rightarrow> string \<Rightarrow> bool option"

section \<open>The capabilities\<close>

definition pcie_caps :: "(string \<times> (pci_layout \<Rightarrow> pci_dev \<Rightarrow> string option)) list" where
  "pcie_caps =
     [(''link_cap_max_speed'', \<lambda>L d. Some (get_link_cap_max_speed L d)),
      (''link_cap_max_width'', \<lambda>L d. Some (get_link_cap_max_width L d)),
      (''link_stat_cur_speed'', \<lambda>L d. Some (get_link_stat_cur_speed L d)),
      (''link_stat_neg_width'', \<lambda>L d. Some (get_link_stat_neg_width L d)),
      (''slot_pwr_limit_value'', \<lambda>L d. Some (get_slot_pwr_limit_value L d)),
      (''slot_physical_num'', \<lambda>L d. Some (get_slot_physical_num L d)),
      (''bus_id'', \<lambda>L d. Some (get_pci_bus_id d)),
      (''device_id'', \<lambda>L d. Some (get_device_id d)),
      (''vendor_id'', \<lambda>L d. Some (get_vendor_id d)),
      (''kernel_driver'', \<lambda>L d. get_kernel_driver d),
      (''dev_serial_num'', \<lambda>L d. Some (get_dev_serial_num L d)),
      (''atomic_op_routing'', \<lambda>L d. Some (get_atomic_op_routing L d)),
      (''atomic_op_32_completer'', \<lambda>L d. Some (get_atomic_op_32_completer L d)),
      (''atomic_op_64_completer'', \<lambda>L d. Some (get_atomic_op_64_completer L d)),
      (''atomic_op_128_CAS_completer'', \<lambda>L d. Some (get_atomic_op_128_CAS_completer L d))]"

definition PCI_DEV_NUM_CAPABILITIES :: nat where
  "PCI_DEV_NUM_CAPABILITIES = 14"

definition pb_op_pm_states :: "(string \<times> u8) list" where
  "pb_op_pm_states = [(''D0'', 0), (''D1'', 1), (''D2'', 2), (''D3'', 3)]"

definition pb_op_types :: "(string \<times> u8) list" where
  "pb_op_types = [(''PMEAux'', 0), (''Auxiliary'', 1), (''Idle'', 2), (''Sustained'', 3), (''Maximum'', 7)]"

definition pb_op_power_rails :: "(string \<times> u8) list" where
  "pb_op_power_rails = [(''Power_12V'', 0), (''Power_3_3V'', 1), (''Power_1_5V_1_8V'', 2), (''Thermal'', 7)]"

definition encodings_map :: "(string \<times> u8) list \<Rightarrow> (string, u8) omap" where
  "encodings_map ps = fold (\<lambda>(k, v). om_insert k v) ps []"

text \<open>The texts \<^verbatim>\<open>^(state|..)_(type|..)_(rail|..)$\<close> matches.\<close>

definition pb_dynamic_regex :: "string \<Rightarrow> bool" where
  "pb_dynamic_regex nm =
     list_ex (\<lambda>(s, _). list_ex (\<lambda>(t, _). list_ex (\<lambda>(r, _). nm = s @ ''_'' @ t @ ''_'' @ r)
       pb_op_power_rails) pb_op_types) pb_op_pm_states"

text \<open>The three encodings of such a name; \<open>None\<close>: a look-up that fails and is dereferenced.\<close>

definition pb_encodings :: "string \<Rightarrow> (u8 \<times> u8 \<times> u8) option" where
  "pb_encodings nm =
     (case str_find nm ''_'' 0 of
        None \<Rightarrow> None
      | Some p \<Rightarrow>
          (case str_find nm ''_'' (p + 1) of
             None \<Rightarrow> None
           | Some q \<Rightarrow>
               (case (om_find (encodings_map pb_op_pm_states) (substr nm 0 p),
                      om_find (encodings_map pb_op_types) (substr nm (p + 1) (q - p - 1)),
                      om_find (encodings_map pb_op_power_rails) (drop (q + 1) nm)) of
                  (Some a, Some b, Some c) \<Rightarrow> Some (a, b, c)
                | _ \<Rightarrow> None)))"

section \<open>The check of one device\<close>

datatype peqt_event =
    Pq_note log_event
  | Pq_json "(string \<times> string) list" int
  | Pq_json_open string
  | Pq_json_close

abbreviation Pq_log :: "string \<Rightarrow> int \<Rightarrow> peqt_event" where
  "Pq_log t level \<equiv> Pq_note (Log_msg t level)"

abbreviation Pq_err :: "string \<Rightarrow> peqt_event" where
  "Pq_err t \<equiv> Pq_note (Log_err t)"

definition after_last_dot :: "string \<Rightarrow> string" where
  "after_last_dot k = (case rfind_below k (CHR ''.'') (length k) of None \<Rightarrow> k | Some i \<Rightarrow> drop (i + 1) k)"

text \<open>The state of the loop: the verdict, the fields of the JSON record, the events.\<close>

type_synonym qual_state = "bool \<times> (string \<times> string) list \<times> peqt_event list"

definition record_value :: "string \<Rightarrow> string \<Rightarrow> string \<Rightarrow> qual_state \<Rightarrow> qual_state" where
  "record_value act nm buff = (\<lambda>(ok, fs, evs).
     (ok, fs @ [(nm, buff)], evs @ [Pq_log (''['' @ act @ ''] peqt '' @ nm @ '' '' @ buff) loginfo]))"

definition squote :: string where "squote = [CHR 0x27]"

definition check_fixed :: "regex_engine \<Rightarrow> string \<Rightarrow> string \<Rightarrow> qual_state \<Rightarrow> qual_state" where
  "check_fixed rx pat buff = (\<lambda>(ok, fs, evs).
     if pat = [] then (ok, fs, evs)
     else (case rx buff pat of
             Some b \<Rightarrow> (ok \<and> b, fs, evs)
           | None \<Rightarrow> (ok, fs, evs @ [Pq_err (''Regular expression error at '' @ squote @ pat @ squote)])))"

definition check_dynamic :: "regex_engine \<Rightarrow> string \<Rightarrow> string \<Rightarrow> string \<Rightarrow> qual_state \<Rightarrow> qual_state" where
  "check_dynamic rx act pat buff = (\<lambda>(ok, fs, evs).
     if pat = [] then (ok, fs, evs)
     else (case rx buff pat of
             Some b \<Rightarrow> (ok \<and> b, fs, evs)
           | None \<Rightarrow> (False, fs, evs @ [Pq_err (act @ '' peqt Regular expression error at '' @ squote @ pat @ squote)])))"

definition find_capability :: "string \<Rightarrow> (pci_layout \<Rightarrow> pci_dev \<Rightarrow> string option) option" where
  "find_capability nm = map_of (take PCI_DEV_NUM_CAPABILITIES pcie_caps) nm"

definition check_property ::
  "pci_layout \<Rightarrow> regex_engine \<Rightarrow> string \<Rightarrow> pci_dev \<Rightarrow> string \<times> string \<Rightarrow> qual_state \<Rightarrow> qual_state option" where
  "check_property L rx act dev = (\<lambda>(key, pat) st.
     let prop_name = after_last_dot key in
     case find_capability prop_name of
       Some get \<Rightarrow>
         (case get L dev of
            None \<Rightarrow> None
          | Some buff \<Rightarrow> Some (check_fixed rx pat buff (record_value act prop_name buff st)))
     | None \<Rightarrow>
         if str_find key ''capability'' 0 \<noteq> None \<and> pb_dynamic_regex prop_name then
           (case pb_encodings prop_name of
              None \<Rightarrow> None
            | Some (a, b, c) \<Rightarrow>
                let buff = get_pwr_budgeting L dev a b c
                in Some (check_dynamic rx act pat buff (record_value act prop_name buff st)))
         else Some st)"

fun property_loop ::
  "pci_layout \<Rightarrow> regex_engine \<Rightarrow> string \<Rightarrow> pci_dev \<Rightarrow> (string \<times> string) list \<Rightarrow> qual_state \<Rightarrow> qual_state option" where
  "property_loop L rx act dev [] st = Some st"
| "property_loop L rx act dev (p # ps) st =
     Option.bind (check_property L rx act dev p st) (property_loop L rx act dev ps)"

definition gpu_fields :: "gpulist \<Rightarrow> u16 \<Rightarrow> (string \<times> string) list" where
  "gpu_fields gl gid = [(''gpu_id'', to_string (unat gid)),
     (''gpu_index'', case gpu2gpuindex gl gid of Found v \<Rightarrow> to_string (unat v) | _ \<Rightarrow> ''0'')]"

text \<open>The node of the record exists whenever the action writes JSON.\<close>

definition get_gpu_all_pcie_capabilities ::
  "pci_layout \<Rightarrow> regex_engine \<Rightarrow> gpulist \<Rightarrow> ('cb, 'up) actionbase \<Rightarrow> pci_dev \<Rightarrow> u16
     \<Rightarrow> (bool \<times> peqt_event list) option" where
  "get_gpu_all_pcie_capabilities L rx gl a dev gid =
     map_option (\<lambda>(ok, fs, evs).
         (ok, if bjson a then evs @ [Pq_json (fs @ [(''pass'', if ok then ''true'' else ''false'')]) logresults] else evs))
       (property_loop L rx (action_name a) dev (property a) (True, gpu_fields gl gid, []))"

section \<open>The action\<close>

definition peqt_common_config_keys ::
  "('cb, 'up) actionbase \<Rightarrow> ((bool \<times> log_event list) \<times> ('cb, 'up) actionbase) option" where
  "peqt_common_config_keys a =
     (case property_get_string a ''name'' (action_name a) of
        (sts, nm) \<Rightarrow>
          common_device_keys (a\<lparr>action_name := nm\<rparr>) (step_key sts [Log_err ''Action name missing''] (True, [])))"

definition pci_location_id :: "pci_dev \<Rightarrow> u16" where
  "pci_location_id dev = (push_bit 8 (ucast (pd_bus dev)) OR push_bit 3 (ucast (pd_dev dev))) OR ucast (pd_func dev)"

text \<open>
  The GPU a device of the bus stands for, when the action is to check it; an index read past the
  end of a table is the outer \<open>None\<close>.
\<close>

definition selected_gpu :: "gpulist \<Rightarrow> ('cb, 'up) actionbase \<Rightarrow> pci_dev \<Rightarrow> u16 option option" where
  "selected_gpu gl a dev =
     (case location2gpu gl (pci_location_id dev) of
        Out_of_bounds \<Rightarrow> None
      | Not_found \<Rightarrow> Some None
      | Found gid \<Rightarrow>
          (case gpu2gpuindex gl gid of
             Out_of_bounds \<Rightarrow> None
           | Not_found \<Rightarrow> Some None
           | Found gpu_ix \<Rightarrow>
               if 0 < property_device_id a \<and> pd_device_id dev \<noteq> property_device_id a then Some None
               else if \<not> property_device_all a \<and> property_device a \<noteq> [] \<and>
                       \<not> list_ex (\<lambda>x. x = gid) (property_device a) then Some None
               else if \<not> property_device_index_all a \<and> property_device_index a \<noteq> [] \<and>
                       \<not> list_ex (\<lambda>x. x = gpu_ix) (property_device_index a) then Some None
               else Some (Some gid)))"

fun pci_devices_loop ::
  "pci_layout \<Rightarrow> regex_engine \<Rightarrow> gpulist \<Rightarrow> ('cb, 'up) actionbase \<Rightarrow> pci_dev list
     \<Rightarrow> bool \<times> bool \<times> peqt_event list \<Rightarrow> (bool \<times> bool \<times> peqt_event list) option" where
  "pci_devices_loop L rx gl a [] st = Some st"
| "pci_devices_loop L rx gl a (dev # devs) (gpus_found, result, evs) =
     (case selected_gpu gl a dev of
        None \<Rightarrow> None
      | Some None \<Rightarrow> pci_devices_loop L rx gl a devs (gpus_found, result, evs)
      | Some (Some gid) \<Rightarrow>
          (case get_gpu_all_pcie_capabilities L rx gl a dev gid of
             None \<Rightarrow> None
           | Some (ok, evs') \<Rightarrow> pci_devices_loop L rx gl a devs (True, result \<and> ok, evs @ evs')))"

definition peqt_result :: "actionstatus \<Rightarrow> string \<Rightarrow> action_result_t" where
  "peqt_result st t = \<lparr>ar_state = ACTION_COMPLETED, ar_status = st, ar_output = t\<rparr>"

text \<open>
  \<open>pci\<close> is the list of devices after the scan, \<open>None\<close> when the access structure cannot be
  allocated.  The last component is everything that is logged.
\<close>

definition peqt_action_run ::
  "pci_layout \<Rightarrow> regex_engine \<Rightarrow> gpulist \<Rightarrow> pci_dev list option \<Rightarrow> ('cb, 'up) actionbase
     \<Rightarrow> (int \<times> action_result_t \<times> peqt_event list) option" where
  "peqt_action_run L rx gl pci a0 =
     (case peqt_common_config_keys (a0\<lparr>bjson := has_property a0 ''cli.-j''\<rparr>) of
        None \<Rightarrow> None
      | Some ((False, evs), a) \<Rightarrow>
          Some (-1, peqt_result ACTION_FAILED ''Error in common configuration keys.'',
                map Pq_note evs @ [Pq_err ''Error in get_all_common_config_keys()''])
      | Some ((True, evs), a) \<Rightarrow>
          let evs = map Pq_note evs @ (if bjson a then [Pq_json_open (action_name a)] else []) in
          (case pci of
             None \<Rightarrow> Some (1, peqt_result ACTION_FAILED ''pci_alloc() error'', evs @ [Pq_err ''pci_alloc() error''])
           | Some devs \<Rightarrow>
               (case pci_devices_loop L rx gl a devs (False, True, evs) of
                  None \<Rightarrow> None
                | Some (gpus_found, result, evs) \<Rightarrow>
                    if \<not> gpus_found then
                      Some (-1, peqt_result ACTION_FAILED ''No matching GPUs found'',
                            evs @ [Pq_err ''No matching GPUs found''])
                    else
                      Some (0, peqt_result ACTION_SUCCESS (''PEQT Module action '' @ action_name a @ '' completed''),
                            evs @ [Pq_log (''['' @ action_name a @ ''] peqt '' @
                                     (if result then ''true'' else ''false'')) logresults] @
                            (if bjson a then [Pq_json_close] else [])))))"

end
