(* ===== verification/Peqt_Props.thy ===== *)
theory Peqt_Props
  imports Peqt
begin

unbundle bit_operations_syntax

text \<open>
  The properties of the PCIe qualification: what its verdict means, what its result says, which
  power budgeting texts the code can produce, and the text of a serial number.
\<close>

section \<open>The names of the power budgeting texts\<close>






section \<open>The verdict on one device\<close>















section \<open>The verdict of the action\<close>








section \<open>The result and the expressions\<close>

lemma check_property_defined:
  "check_property L rx act dev p st = None \<longleftrightarrow> check_property L rx' act dev p st' = None"
  by (cases p) (auto simp: check_property_def Let_def split: option.splits)

lemma property_loop_defined:
  "property_loop L rx act dev ps st = None \<longleftrightarrow> property_loop L rx' act dev ps st' = None"
proof (induction ps arbitrary: st st')
  case Nil
  then show ?case by simp
next
  case (Cons p ps)
  show ?case
  proof (cases "check_property L rx act dev p st")
    case None
    then show ?thesis using check_property_defined [of L rx act dev p st rx' st'] by simp
  next
    case (Some s)
    then obtain s' where "check_property L rx' act dev p st' = Some s'"
      using check_property_defined [of L rx act dev p st rx' st'] by fastforce
    with Some Cons.IH show ?thesis by simp
  qed
qed

lemma device_check_defined:
  "get_gpu_all_pcie_capabilities L rx gl a dev gid = None \<longleftrightarrow>
     get_gpu_all_pcie_capabilities L rx' gl a dev gid = None"
  using property_loop_defined [of L rx "action_name a" dev "property a" _ rx']
  by (simp add: get_gpu_all_pcie_capabilities_def)

lemma pci_devices_loop_found:
  "map_option fst (pci_devices_loop L rx gl a devs (f, ok, evs)) =
     map_option fst (pci_devices_loop L rx' gl a devs (f, ok', evs'))"
proof (induction devs arbitrary: f ok evs ok' evs')
  case Nil
  then show ?case by simp
next
  case (Cons d devs)
  show ?case
  proof (cases "selected_gpu gl a d")
    case None
    then show ?thesis by simp
  next
    case (Some g)
    show ?thesis
    proof (cases g)
      case None
      with Some Cons.IH [of f ok evs ok' evs'] show ?thesis by simp
    next
      case (Some gid)
      with \<open>selected_gpu gl a d = Some g\<close> Cons.IH show ?thesis
        using device_check_defined [of L rx gl a d gid rx']
        by (cases "get_gpu_all_pcie_capabilities L rx gl a d gid";
            cases "get_gpu_all_pcie_capabilities L rx' gl a d gid") (auto split: prod.splits)
    qed
  qed
qed

section \<open>Bytes and their texts\<close>

lemma hex_char_inj: "a < 16 \<Longrightarrow> b < 16 \<Longrightarrow> hex_char a = hex_char b \<Longrightarrow> a = b"
  by (auto simp: hex_char_def split: if_splits)

lemma digit_chars:
  "char_of (48 :: nat) = CHR ''0''" "char_of (49 :: nat) = CHR ''1''" "char_of (50 :: nat) = CHR ''2''"
  "char_of (51 :: nat) = CHR ''3''" "char_of (52 :: nat) = CHR ''4''" "char_of (53 :: nat) = CHR ''5''"
  "char_of (54 :: nat) = CHR ''6''" "char_of (55 :: nat) = CHR ''7''" "char_of (56 :: nat) = CHR ''8''"
  "char_of (57 :: nat) = CHR ''9''"
  by code_simp+

lemma pad_hex_byte:
  assumes "n < 256" shows "pad_hex 2 n = [hex_char (n div 16), hex_char (n mod 16)]"
proof (cases "n < 16")
  case True
  then show ?thesis by (simp add: pad_hex_def hex_digits.simps [of n] hex_char_def digit_chars)
next
  case False
  have "hex_digits (n div 16) = [hex_char (n div 16)]"
    using assms by (simp add: hex_digits.simps [of "n div 16"] less_mult_imp_div_less)
  with False show ?thesis by (simp add: pad_hex_def hex_digits.simps [of n])
qed

lemma pad_hex_byte_inj:
  assumes "m < 256" and "n < 256" and "pad_hex 2 m = pad_hex 2 n"
  shows "m = n"
proof -
  have "m div 16 = n div 16" and "m mod 16 = n mod 16"
    using assms by (auto simp: pad_hex_byte intro!: hex_char_inj)
  then show ?thesis by (metis div_mult_mod_eq)
qed

lemma byte_bits:
  fixes t u :: u32
  assumes "unat (drop_bit k t AND 0xff) = unat (drop_bit k u AND 0xff)" and "k \<le> n" and "n < k + 8"
  shows "bit t n = bit u n"
proof -
  have ff: "(0xff :: u32) = mask 8" by (simp add: mask_eq_exp_minus_1)
  have "bit (drop_bit k t AND mask 8) (n - k) = bit (drop_bit k u AND mask 8) (n - k)"
    using assms(1) unfolding ff by (simp only: word_unat_eq_iff [symmetric])
  with assms(2,3) show ?thesis
    by (auto simp: bit_simps dest: bit_imp_le_length)
qed

lemma byte_below: "unat ((w :: u32) AND 0xff) < 256"
proof -
  have "w AND 0xff \<le> 0xff" by (rule word_and_le1)
  then show ?thesis by (simp add: word_le_nat_alt)
qed

lemma dword_bytes_inj: "dword_bytes t = dword_bytes u \<Longrightarrow> t = u"
proof (rule bit_word_eqI)
  fix n assume eq: "dword_bytes t = dword_bytes u" and n: "n < LENGTH(32)"
  from n have "n < 8 \<or> 8 \<le> n \<and> n < 16 \<or> 16 \<le> n \<and> n < 24 \<or> 24 \<le> n \<and> n < 32" by auto
  with eq show "bit t n = bit u n"
    using byte_bits [of 0 t u n] byte_bits [of 8 t u n] byte_bits [of 16 t u n] byte_bits [of 24 t u n]
    unfolding dword_bytes_def by (simp only: list.map list.inject) auto
qed

lemma join_dash_inj:
  assumes "length xs = length ys" and "list_all (\<lambda>s. length s = 2) xs" and "list_all (\<lambda>s. length s = 2) ys"
    and "join_dash xs = join_dash ys"
  shows "xs = ys"
  using assms
proof (induction xs arbitrary: ys rule: join_dash.induct)
  case 1
  then show ?case by simp
next
  case (2 s)
  then show ?case by (cases ys rule: join_dash.cases) auto
next
  case (3 s s' ss)
  then obtain t t' ts where ys: "ys = t # t' # ts"
    by (metis Suc_length_conv length_Cons)
  from 3 ys have "s = t" and "join_dash (s' # ss) = join_dash (t' # ts)" by auto
  moreover from this(2) 3 ys have "s' # ss = t' # ts" by (intro "3.IH") auto
  ultimately show ?case using ys by simp
qed

lemma serial_text_inj:
  assumes "serial_text t1 t2 = serial_text u1 u2"
  shows "t1 = u1 \<and> t2 = u2"
proof -
  let ?b = "\<lambda>t1 t2. dword_bytes t2 @ dword_bytes t1"
  have below: "list_all (\<lambda>n. n < 256) (?b v w)" for v w
    by (simp add: dword_bytes_def byte_below)
  have two: "list_all (\<lambda>s. length s = 2) (map (pad_hex 2) (?b v w))" for v w
    using below [of v w] by (auto simp: list_all_iff pad_hex_byte)
  have len: "length (?b v w) = 8" for v w by (simp add: dword_bytes_def)
  have "map (pad_hex 2) (?b t1 t2) = map (pad_hex 2) (?b u1 u2)"
    by (rule join_dash_inj) (use assms two len in \<open>simp_all add: serial_text_def\<close>)
  moreover have "inj_on (pad_hex 2) {n. n < 256}"
    by (rule inj_onI) (auto intro: pad_hex_byte_inj)
  then have "inj_on (pad_hex 2) (set (?b t1 t2) \<union> set (?b u1 u2))"
    by (rule inj_on_subset) (use below [of t1 t2] below [of u1 u2] in \<open>auto simp: list_all_iff\<close>)
  ultimately have "?b t1 t2 = ?b u1 u2" by (simp only: inj_on_map_eq_map)
  then have "dword_bytes t2 = dword_bytes u2" "dword_bytes t1 = dword_bytes u1"
    by (auto simp: dword_bytes_def)
  then show ?thesis by (simp add: dword_bytes_inj)
qed

section \<open>The power budgeting texts\<close>

text \<open>The documented layout of a double word of the table: the type in bits 15 to 17, the rail in 18 to 20.\<close>

definition standard_power_data :: "pci_layout \<Rightarrow> bool" where
  "standard_power_data L \<longleftrightarrow>
     (\<forall>w. pwr_data_type L w = drop_bit 15 w AND 7 \<and> pwr_data_rail L w = drop_bit 18 w AND 7)"

lemma word_read_type: "drop_bit 15 (ucast (w :: u16) :: u32) AND 7 < 2"
proof -
  have "drop_bit 15 (ucast w :: u32) = of_bool (bit w 15)"
  proof (rule bit_word_eqI)
    fix n
    show "bit (drop_bit 15 (ucast w :: u32)) n = bit (of_bool (bit w 15) :: u32) n"
      by (cases n) (auto simp: bit_simps dest: bit_imp_le_length)
  qed
  then show ?thesis by simp
qed

lemma word_read_rail: "drop_bit 18 (ucast (w :: u16) :: u32) AND 7 = 0"
proof -
  have "drop_bit 18 (ucast w :: u32) = 0"
    by (rule bit_word_eqI) (auto simp: bit_simps dest: bit_imp_le_length)
  then show ?thesis by simp
qed

lemma small_byte_inj: "(ucast (x :: u32) :: u8) = c \<Longrightarrow> x < 2 \<Longrightarrow> c < 2"
  by (auto simp: word_less_nat_alt unsigned_ucast_eq take_bit_eq_mod)

lemma pwr_loop_not_supported:
  assumes "standard_power_data L" and "2 \<le> type \<or> rail \<noteq> 0"
  shows "pwr_loop L dev off pm type rail is = PCI_CAP_NOT_SUPPORTED"
proof (induction "is")
  case Nil
  then show ?case by simp
next
  case (Cons i "is")
  have no: "\<not> (ucast (pwr_data_type L (ucast w)) = type \<and> ucast (pwr_data_rail L (ucast w)) = rail)" for w :: u16
    using assms small_byte_inj [OF _ word_read_type [of w], of type] word_read_rail [of w]
    by (auto simp: standard_power_data_def not_less [symmetric])
  show ?case using Cons no by (simp add: Let_def) blast
qed

section \<open>A sample\<close>

text \<open>One GPU with a power budgeting table, and an action on it.\<close>

definition sample_pci_dev :: pci_dev where
  "sample_pci_dev = \<lparr>pd_caps = [\<lparr>pc_id = 4, pc_type = 2, pc_addr = 0x100\<rparr>], pd_domain = 0, pd_bus = 3,
     pd_dev = 0, pd_func = 0, pd_vendor_id = 0x1002, pd_device_id = 0x74a1, pd_bars = [], pd_rom_size = 0,
     pd_sysfs = None, pd_readlink = \<lambda>_. None, pd_read_long = \<lambda>_. 0, pd_read_word = \<lambda>_. 0,
     pd_write_byte = \<lambda>_ _. True, pd_word_selected = \<lambda>_ _ _. 0x64\<rparr>"






section \<open>Properties\<close>



text \<open>
  The result code and the result given to the callback do not depend on the regular expressions:
  an action whose qualification fails ends exactly like one whose qualification succeeds.
\<close>

theorem peqt_result_ignores_verdict:
  "map_option (\<lambda>(code, res, evs). (code, res)) (peqt_action_run L rx gl pci a) =
     map_option (\<lambda>(code, res, evs). (code, res)) (peqt_action_run L rx' gl pci a)"
proof -
  have "map_option (\<lambda>(code, res, evs). (code, res)) (run_end rx) =
      map_option (\<lambda>(code, res, evs). (code, res)) (run_end rx')"
    if "run_end = (\<lambda>rx. case pci_devices_loop L rx gl b devs (False, True, evs) of
          None \<Rightarrow> None
        | Some (gpus_found, result, evs) \<Rightarrow>
            if \<not> gpus_found then Some (-1, r1, evs @ e1) else Some (0 :: int, r2 :: action_result_t, evs @ e2 result))"
    for run_end b devs evs r1 e1 r2 e2
    using pci_devices_loop_found [of L rx gl b devs False True evs rx' True evs] unfolding that
    by (cases "pci_devices_loop L rx gl b devs (False, True, evs)";
        cases "pci_devices_loop L rx' gl b devs (False, True, evs)") (auto split: prod.splits)
  note ends = this [OF refl]
  obtain k where k: "peqt_common_config_keys (a\<lparr>bjson := has_property a ''cli.-j''\<rparr>) = k" by blast
  show ?thesis
  proof (cases k)
    case None
    with k show ?thesis by (simp add: peqt_action_run_def)
  next
    case (Some x)
    obtain ok evs b where x: "x = ((ok, evs), b)" by (metis surj_pair)
    show ?thesis
    proof (cases "ok \<and> pci \<noteq> None")
      case True
      then obtain devs where "ok" "pci = Some devs" by auto
      with k Some x show ?thesis
        unfolding peqt_action_run_def by (simp only: option.case prod.case bool.case Let_def) (rule ends)
    next
      case False
      with k Some x show ?thesis by (cases ok; cases pci) (simp_all add: peqt_action_run_def)
    qed
  qed
qed

text \<open>
  With the documented layout of the power budgeting data, a query for the type Idle, Sustained or
  Maximum or for a rail other than 12 V is always answered with "NOT SUPPORTED": the code reads
  the lower half of a double word whose upper half holds these fields.
\<close>

theorem power_budget_half_read:
  assumes "standard_power_data L" and "pb_encodings nm = Some (pm, type, rail)" and "2 \<le> type \<or> rail \<noteq> 0"
  shows "get_pwr_budgeting L dev pm type rail = PCI_CAP_NOT_SUPPORTED"
  by (simp add: get_pwr_budgeting_def Let_def pwr_loop_not_supported [OF assms(1,3)])

theorem power_budget_half_read_witness:
  "get_pwr_budgeting linux_layout sample_pci_dev 0 7 0 = ''NOT SUPPORTED'' \<and>
     get_pwr_budgeting linux_layout sample_pci_dev 0 0 0 = ''100.000W''"
proof -
  have "pb_encodings ''D0_Maximum_Power_12V'' = Some (0, 7, 0)" by code_simp
  from power_budget_half_read [OF _ this, of linux_layout sample_pci_dev]
  have "get_pwr_budgeting linux_layout sample_pci_dev 0 7 0 = ''NOT SUPPORTED''"
    by (simp add: standard_power_data_def linux_layout_def PCI_CAP_NOT_SUPPORTED_def)
  moreover have "get_pwr_budgeting linux_layout sample_pci_dev 0 0 0 = power_text 100 0"
    by (simp add: get_pwr_budgeting_def pci_dev_find_cap_offset_def linux_layout_def sample_pci_dev_def
        upt_conv_Cons Let_def)
  moreover have "power_text 100 0 = ''100.000W''"
    by (simp add: power_text_def milli_text_def to_string_def dec_digits.simps digit_chars) (simp add: numeral_eq_Suc)
  ultimately show ?thesis by simp
qed

text \<open>
  Two serial numbers have the same text exactly when both halves agree.
\<close>

theorem serial_number_text:
  "serial_text t1 t2 = serial_text u1 u2 \<longleftrightarrow> t1 = u1 \<and> t2 = u2"
  using serial_text_inj by blast

end
