(* ===== verification/Float_Model.thy ===== *)
theory Float_Model
  imports Complex_Main "HOL-Library.Log_Nat" Prelude
begin

text \<open>
  The floating-point arithmetic of the sources: a finite number is a rational, an operation is the
  exact one followed by rounding to the nearest number of \<open>p\<close> significant bits, ties to even
  (24 bits for \<^verbatim>\<open>float\<close>, 53 for \<^verbatim>\<open>double\<close>).  The exponents of the quantities here (watts, seconds,
  megahertz, bytes) are far from the limits of the formats, which the model leaves out; division by
  zero is excluded where it is used or an explicit case.
\<close>

section \<open>Rounding\<close>

definition round_half_even :: "rat \<Rightarrow> int" where
  "round_half_even x =
     (let f = \<lfloor>x\<rfloor>; r = x - of_int f in
      if r < 1 / 2 then f else if 1 / 2 < r then f + 1 else if even f then f else f + 1)"

text \<open>Two to an integer power.\<close>

definition two_pow :: "int \<Rightarrow> rat" where
  "two_pow k = (if 0 \<le> k then 2 ^ nat k else 1 / 2 ^ nat (- k))"

text \<open>The exponent of a positive number: the greatest \<open>k\<close> with \<open>two_pow k \<le> x\<close>.\<close>

definition binary_exponent :: "rat \<Rightarrow> int" where
  "binary_exponent x =
     (case quotient_of x of (n, d) \<Rightarrow>
        let k = int (floorlog 2 (nat n)) - int (floorlog 2 (nat d))
        in if two_pow k \<le> x then k else k - 1)"

definition round_positive :: "nat \<Rightarrow> rat \<Rightarrow> rat" where
  "round_positive p x =
     (let u = two_pow (binary_exponent x - int p + 1) in of_int (round_half_even (x / u)) * u)"

definition round_bits :: "nat \<Rightarrow> rat \<Rightarrow> rat" where
  "round_bits p x = (if x = 0 then 0 else if x < 0 then - round_positive p (- x) else round_positive p x)"

definition float32 :: "rat \<Rightarrow> rat" where "float32 = round_bits 24"

definition float64 :: "rat \<Rightarrow> rat" where "float64 = round_bits 53"

text \<open>The conversion to an integer type drops the fraction.\<close>

definition trunc_int :: "rat \<Rightarrow> int" where
  "trunc_int x = (if x < 0 then - \<lfloor>- x\<rfloor> else \<lfloor>x\<rfloor>)"

text \<open>A number with \<open>k\<close> decimals; \<^verbatim>\<open>std::to_string\<close> of a floating-point number has six.\<close>

definition fixed_text :: "nat \<Rightarrow> rat \<Rightarrow> string" where
  "fixed_text k x =
     (let m = nat (round_half_even (\<bar>x\<bar> * 10 ^ k)); frac = to_string (m mod 10 ^ k)
      in (if x < 0 then ''-'' else []) @ to_string (m div 10 ^ k) @
         (if k = 0 then [] else ''.'' @ replicate (k - length frac) (CHR ''0'') @ frac))"

definition fixed6_text :: "rat \<Rightarrow> string" where
  "fixed6_text x = fixed_text 6 x"

section \<open>Values\<close>

text \<open>
  A value of a floating-point variable.  The flag of an infinity is its sign (true: negative); the
  sign of zero is not modelled, a quotient by zero takes the sign of the dividend.
\<close>

datatype fval = Fin rat | Infinite bool | NaN

definition negative :: "fval \<Rightarrow> bool" where
  "negative v = (case v of Fin x \<Rightarrow> x < 0 | Infinite s \<Rightarrow> s | NaN \<Rightarrow> False)"

definition is_zero :: "fval \<Rightarrow> bool" where
  "is_zero v \<longleftrightarrow> v = Fin 0"

text \<open>The double operations.\<close>

fun f_add :: "fval \<Rightarrow> fval \<Rightarrow> fval" where
  "f_add (Fin x) (Fin y) = Fin (float64 (x + y))"
| "f_add (Infinite s) (Infinite t) = (if s = t then Infinite s else NaN)"
| "f_add (Infinite s) (Fin y) = Infinite s"
| "f_add (Fin x) (Infinite t) = Infinite t"
| "f_add _ _ = NaN"

fun f_neg :: "fval \<Rightarrow> fval" where
  "f_neg (Fin x) = Fin (- x)"
| "f_neg (Infinite s) = Infinite (\<not> s)"
| "f_neg NaN = NaN"

definition f_sub :: "fval \<Rightarrow> fval \<Rightarrow> fval" where
  "f_sub a b = f_add a (f_neg b)"

fun f_mul :: "fval \<Rightarrow> fval \<Rightarrow> fval" where
  "f_mul (Fin x) (Fin y) = Fin (float64 (x * y))"
| "f_mul NaN _ = NaN"
| "f_mul _ NaN = NaN"
| "f_mul a b = (if is_zero a \<or> is_zero b then NaN else Infinite (negative a \<noteq> negative b))"

fun f_div :: "fval \<Rightarrow> fval \<Rightarrow> fval" where
  "f_div (Fin x) (Fin y) =
     (if y \<noteq> 0 then Fin (float64 (x / y)) else if x = 0 then NaN else Infinite (x < 0))"
| "f_div (Infinite s) (Fin y) = Infinite (s \<noteq> (y < 0))"
| "f_div (Fin x) (Infinite t) = Fin 0"
| "f_div _ _ = NaN"

text \<open>Comparisons are false on a NaN.\<close>

fun f_less :: "fval \<Rightarrow> fval \<Rightarrow> bool" where
  "f_less (Fin x) (Fin y) = (x < y)"
| "f_less (Infinite s) (Fin y) = s"
| "f_less (Fin x) (Infinite t) = (\<not> t)"
| "f_less (Infinite s) (Infinite t) = (s \<and> \<not> t)"
| "f_less _ _ = False"

definition f_le :: "fval \<Rightarrow> fval \<Rightarrow> bool" where
  "f_le a b \<longleftrightarrow> f_less a b \<or> (a = b \<and> a \<noteq> NaN)"

text \<open>The single operations, of a product and of a difference.\<close>

fun to_single :: "fval \<Rightarrow> fval" where
  "to_single (Fin x) = Fin (float32 x)"
| "to_single v = v"

definition f_nat :: "nat \<Rightarrow> fval" where
  "f_nat n = Fin (float64 (of_nat n))"

section \<open>Facts\<close>

lemma round_half_even_int [simp]: "round_half_even (of_int n) = n"
  by (simp add: round_half_even_def)

lemma round_half_even_mono: "x \<le> y \<Longrightarrow> round_half_even x \<le> round_half_even y"
proof -
  assume le: "x \<le> y"
  then have fl: "\<lfloor>x\<rfloor> \<le> \<lfloor>y\<rfloor>" by (rule floor_mono)
  show ?thesis
  proof (cases "\<lfloor>x\<rfloor> = \<lfloor>y\<rfloor>")
    case True
    with le show ?thesis by (auto simp: round_half_even_def Let_def)
  next
    case False
    with fl have "\<lfloor>x\<rfloor> + 1 \<le> \<lfloor>y\<rfloor>" by simp
    then show ?thesis by (auto simp: round_half_even_def Let_def)
  qed
qed

lemma two_pow_pos [simp]: "0 < two_pow k"
  by (simp add: two_pow_def)

lemma round_bits_0 [simp]: "round_bits p 0 = 0"
  by (simp add: round_bits_def)

lemma round_positive_nonneg: "0 \<le> x \<Longrightarrow> 0 \<le> round_positive p x"
proof -
  assume "0 \<le> x"
  then have "round_half_even 0 \<le> round_half_even (x / two_pow (binary_exponent x - int p + 1))"
    by (intro round_half_even_mono) (simp add: order_less_imp_le)
  then show ?thesis
    using round_half_even_int [of 0] by (simp add: round_positive_def Let_def order_less_imp_le)
qed

lemma round_bits_nonneg: "0 \<le> x \<Longrightarrow> 0 \<le> round_bits p x"
  by (auto simp: round_bits_def intro: round_positive_nonneg)

text \<open>The order of the values that are not NaN.\<close>

lemma f_less_irrefl [simp]: "\<not> f_less v v"
  by (cases v) auto

lemma f_less_trans: "f_less a b \<Longrightarrow> f_less b c \<Longrightarrow> f_less a c"
  by (cases a; cases b; cases c) auto

lemma f_less_le_trans: "f_less a b \<Longrightarrow> f_le b c \<Longrightarrow> f_less a c"
  unfolding f_le_def using f_less_trans by blast

lemma f_le_trans: "f_le a b \<Longrightarrow> f_le b c \<Longrightarrow> f_le a c"
  unfolding f_le_def using f_less_trans by blast

lemma f_not_less: "a \<noteq> NaN \<Longrightarrow> b \<noteq> NaN \<Longrightarrow> \<not> f_less a b \<longleftrightarrow> f_le b a"
  by (cases a; cases b) (auto simp: f_le_def)

lemma f_less_NaN [simp]: "\<not> f_less NaN v" "\<not> f_less v NaN"
  by (cases v; simp)+

lemma f_le_NaN [simp]: "\<not> f_le NaN v" "\<not> f_le v NaN"
  by (simp_all add: f_le_def)

text \<open>Integers of at most \<open>p\<close> bits are not rounded.\<close>

lemma round_positive_int:
  assumes "0 < n" and "n < 2 ^ p"
  shows "round_positive p (of_int n) = of_int n"
proof -
  let ?e = "binary_exponent (of_int n)"
  have "floorlog 2 (nat n) \<le> p"
    using assms by (subst floorlog_le_iff) (auto simp: nat_less_iff)
  then have e: "?e - int p + 1 \<le> 0"
    by (auto simp: binary_exponent_def quotient_of_int floorlog_def Let_def)
  define k where "k = nat (int p - 1 - ?e)"
  have u: "two_pow (?e - int p + 1) = 1 / 2 ^ k"
    using e by (auto simp: two_pow_def k_def algebra_simps)
  have "of_int n / (1 / 2 ^ k) = (of_int (n * 2 ^ k) :: rat)" by simp
  then have "round_half_even (of_int n / (1 / 2 ^ k)) = n * 2 ^ k" by (simp only: round_half_even_int)
  then show ?thesis by (simp add: round_positive_def Let_def u)
qed

lemma float64_int: "0 \<le> n \<Longrightarrow> n < 2 ^ 53 \<Longrightarrow> float64 (of_int n) = of_int n"
  by (cases "n = 0") (simp_all add: float64_def round_bits_def round_positive_int)

lemma float32_int: "0 \<le> n \<Longrightarrow> n < 2 ^ 24 \<Longrightarrow> float32 (of_int n) = of_int n"
  by (cases "n = 0") (simp_all add: float32_def round_bits_def round_positive_int)

lemma float_numeral [simp]:
  "(numeral k :: int) < 2 ^ 53 \<Longrightarrow> float64 (numeral k) = numeral k"
  "(numeral k :: int) < 2 ^ 24 \<Longrightarrow> float32 (numeral k) = numeral k"
  "float64 0 = 0" "float32 0 = 0" "float64 1 = 1" "float32 1 = 1"
  using float64_int [of "numeral k"] float32_int [of "numeral k"] float64_int [of 0] float64_int [of 1]
    float32_int [of 0] float32_int [of 1] by simp_all

end
