(* ===== verification/Rsmi_Util.thy ===== *)
theory Rsmi_Util
  imports Gpu_List
begin

text \<open>
  \<^verbatim>\<open>src/rsmi_util.cpp\<close>: the map from PCI addresses to processor handles of the SMI library, and the
  look-up in it.  The library's answers are arguments: the sockets, each with its processors, each
  processor with the address the library reports for it (\<open>None\<close> on failure).
\<close>

type_synonym 'h smi_sockets = "('h \<times> u64 option) list list"

fun map_processors :: "('h \<times> u64 option) list \<Rightarrow> (u64, 'h) omap \<Rightarrow> (u64, 'h) omap" where
  "map_processors [] m = m"
| "map_processors ((dev, bdf) # ps) m =
     map_processors ps (case bdf of Some b \<Rightarrow> om_insert b dev m | None \<Rightarrow> m)"

definition smi_pci_hdl_mapping :: "'h smi_sockets \<Rightarrow> (u64, 'h) omap \<Rightarrow> (u64, 'h) omap" where
  "smi_pci_hdl_mapping socks m = fold map_processors socks m"

definition get_smi_pci_map :: "'h smi_sockets \<Rightarrow> (u64, 'h) omap \<Rightarrow> (u64, 'h) omap" where
  "get_smi_pci_map socks m = (if m = [] then smi_pci_hdl_mapping socks m else m)"

text \<open>
  The look-up as it is written: the \<^verbatim>\<open>return\<close> after the comparison is not under it, so the loop ends
  in its first round.  The handle is \<open>None\<close> (the null pointer) unless the first entry has the
  address; the flag tells success.  The last component is the static map after the call.
\<close>

definition smi_dev_ind_get ::
  "'h smi_sockets \<Rightarrow> (u64, 'h) omap \<Rightarrow> u64 \<Rightarrow> bool \<times> 'h option \<times> (u64, 'h) omap" where
  "smi_dev_ind_get socks m bdfid =
     (let m = get_smi_pci_map socks m in
      case m of
        [] \<Rightarrow> (False, None, m)
      | (k, h) # _ \<Rightarrow> (True, if k = bdfid then Some h else None, m))"

lemma smi_dev_ind_get_later:
  assumes "get_smi_pci_map socks m = (k, h) # rest" and "bdfid \<noteq> k"
  shows "fst (smi_dev_ind_get socks m bdfid)" and "fst (snd (smi_dev_ind_get socks m bdfid)) = None"
  using assms by (auto simp: smi_dev_ind_get_def Let_def)

text \<open>
  Whatever the SMI library reports, the look-up of any address but the lowest one succeeds and
  yields the null handle, also for an address that is in the map.
\<close>

theorem smi_lookup_only_first:
  assumes "get_smi_pci_map socks m = (k, h) # rest" and "om_find rest bdfid = Some h'" and "bdfid \<noteq> k"
  shows "smi_dev_ind_get socks m bdfid = (True, None, (k, h) # rest)"
  using assms by (simp add: smi_dev_ind_get_def Let_def)

theorem smi_lookup_only_first_witness:
  "smi_dev_ind_get [[(''a'', Some 0x300), (''b'', Some 0x400)]] [] 0x400 =
     (True, None, [(0x300, ''a''), (0x400, ''b'')])"
proof -
  have "get_smi_pci_map [[(''a'', Some 0x300), (''b'', Some 0x400)]] [] =
      [(0x300 :: u64, ''a''), (0x400, ''b'')]"
    by (simp add: get_smi_pci_map_def smi_pci_hdl_mapping_def om_insert_def)
  from smi_lookup_only_first [OF this] show ?thesis by simp
qed

end
