(* ===== verification/Gm_Worker.thy ===== *)
theory Gm_Worker
  imports Float_Model Rsmi_Util Action_Base
begin

text \<open>
  \<^verbatim>\<open>gm.so/src/worker.cpp\<close>: the thread that samples the metrics of the monitored GPUs, compares them
  with their bounds and reports violations, current values and averages.  What a sweep reads from
  the SMI library is an argument (one \<open>gm_sample\<close> per GPU); the timer that prints the current values
  runs between the sweeps.
\<close>

section \<open>Data\<close>

record metric_bound =
  mon_metric :: bool
  check_bounds :: bool
  max_val :: u32
  min_val :: u32

definition no_bound :: metric_bound where
  "no_bound = \<lparr>mon_metric = False, check_bounds = False, max_val = 0, min_val = 0\<rparr>"

text \<open>The four structures per GPU: the current values, the violations and the sums.\<close>

record gm_device =
  gd_gpu_id :: u32
  gd_temp :: int
  gd_clock :: u64
  gd_mem_clock :: u64
  gd_fan :: u32
  gd_power :: u32
  gd_temp_violation :: nat
  gd_clock_violation :: nat
  gd_mem_clock_violation :: nat
  gd_fan_violation :: nat
  gd_power_violation :: nat
  gd_av_temp :: int
  gd_av_clock :: u64
  gd_av_mem_clock :: u64
  gd_av_fan :: u64
  gd_av_power :: rat

definition gm_device_new :: "u32 \<Rightarrow> gm_device" where
  "gm_device_new gid = \<lparr>gd_gpu_id = gid, gd_temp = 0, gd_clock = 0, gd_mem_clock = 0, gd_fan = 0,
     gd_power = 0, gd_temp_violation = 0, gd_clock_violation = 0, gd_mem_clock_violation = 0,
     gd_fan_violation = 0, gd_power_violation = 0, gd_av_temp = 0, gd_av_clock = 0,
     gd_av_mem_clock = 0, gd_av_fan = 0, gd_av_power = 0\<rparr>"

text \<open>
  What one GPU answers in a sweep: the two frequencies in hertz and the socket power (their status
  is not looked at), the temperature in millidegrees, and the two queries of the fan; \<open>None\<close> is a
  failed query.
\<close>

record gm_sample =
  gs_mem_freq :: u64
  gs_sys_freq :: u64
  gs_temperature :: "int option"
  gs_fan_speed :: "int option"
  gs_fan_max :: "u64 option"
  gs_socket_power :: u64

record gm_worker =
  gw_action_name :: string
  gw_stop_action_name :: string
  gw_log_interval :: "32 word"
  gw_term :: bool
  gw_force :: bool
  gw_bounds :: "(string, metric_bound) omap"
  gw_devices :: "u32 list"  \<comment> \<open>the keys of the handle map\<close>

datatype gm_event =
    Gm_log string int
  | Gm_err string
  | Gm_running string  \<comment> \<open>the callback, with state running and status success\<close>
  | Gm_stop bool
  | Gm_json "(string \<times> string) list" int

text \<open>
  \<open>gm_fan_percentage\<close> and \<open>gm_power\<close> are local variables of the thread function without an initial
  value; the second one is never assigned.  \<open>gm_left\<close> is a \<^verbatim>\<open>break\<close> out of the loop over the GPUs,
  \<open>gm_exited\<close> the end of the process.
\<close>

record gm_state =
  gm_devices :: "gm_device list"
  gm_brun :: bool
  gm_count :: nat
  gm_fan_percentage :: u32
  gm_power :: u64
  gm_left :: bool
  gm_exited :: bool
  gm_events :: "gm_event list"

definition bound_of :: "gm_worker \<Rightarrow> string \<Rightarrow> metric_bound" where
  "bound_of w k = (case om_find (gw_bounds w) k of Some b \<Rightarrow> b | None \<Rightarrow> no_bound)"

definition gm_emit :: "gm_event \<Rightarrow> gm_state \<Rightarrow> gm_state" where
  "gm_emit e s = s\<lparr>gm_events := gm_events s @ [e]\<rparr>"

definition gm_update :: "nat \<Rightarrow> (gm_device \<Rightarrow> gm_device) \<Rightarrow> gm_state \<Rightarrow> gm_state" where
  "gm_update i f s = s\<lparr>gm_devices := (gm_devices s)[i := f (gm_devices s ! i)]\<rparr>"

definition u32_str :: "u32 \<Rightarrow> string" where "u32_str v = to_string (unat v)"

definition u64_str :: "u64 \<Rightarrow> string" where "u64_str v = to_string (unat v)"

text \<open>\<^verbatim>\<open>f.frequency[f.current]/1e6\<close>, converted to an unsigned integer.\<close>

definition to_mhz :: "u64 \<Rightarrow> 'a::len word" where
  "to_mhz f = of_int (trunc_int (float64 (float64 (of_nat (unat f)) / 10 ^ 6)))"

definition out_of_bounds :: "metric_bound \<Rightarrow> int \<Rightarrow> bool" where
  "out_of_bounds b v \<longleftrightarrow> \<not> (uint (min_val b) \<le> v \<and> v \<le> uint (max_val b)) \<and> check_bounds b"

definition gm_line :: "gm_worker \<Rightarrow> u32 \<Rightarrow> string \<Rightarrow> string" where
  "gm_line w gid t = ''['' @ gw_action_name w @ ''] gm '' @ u32_str gid @ '' '' @ t"

section \<open>One sweep\<close>

text \<open>What every violation does; with the key \<^verbatim>\<open>force\<close> the process ends here.\<close>

definition violate :: "gm_worker \<Rightarrow> nat \<Rightarrow> string \<Rightarrow> (gm_device \<Rightarrow> gm_device) \<Rightarrow> gm_state \<Rightarrow> gm_state" where
  "violate w i msg inc s =
     (let s = gm_emit (Gm_log msg loginfo) s;
          s = gm_emit (Gm_running msg) s;
          s = gm_update i inc s
      in if gw_term w then
           (if gw_force w then (gm_emit (Gm_stop True) s)\<lparr>gm_exited := True\<rparr>
            else (gm_emit (Gm_stop False) s)\<lparr>gm_brun := False\<rparr>)
         else s)"

definition sample_mem_clock :: "gm_worker \<Rightarrow> nat \<Rightarrow> gm_sample \<Rightarrow> gm_state \<Rightarrow> gm_state" where
  "sample_mem_clock w i x s =
     (let b = bound_of w ''mem_clock''; mhz = (to_mhz (gs_mem_freq x) :: u64);
          gid = gd_gpu_id (gm_devices s ! i) in
      if \<not> mon_metric b then s
      else
        let s = gm_update i (\<lambda>d. d\<lparr>gd_mem_clock := mhz\<rparr>) s;
            s = (if out_of_bounds b (uint mhz)
                 then violate w i (gm_line w gid (''mem_clock bounds violation '' @ u64_str mhz @ ''MHz''))
                        (\<lambda>d. d\<lparr>gd_mem_clock_violation := gd_mem_clock_violation d + 1\<rparr>) s
                 else s)
        in if gm_exited s then s
           else gm_update i (\<lambda>d. d\<lparr>gd_av_mem_clock := gd_av_mem_clock d + mhz\<rparr>) s)"

definition sample_clock :: "gm_worker \<Rightarrow> nat \<Rightarrow> gm_sample \<Rightarrow> gm_state \<Rightarrow> gm_state" where
  "sample_clock w i x s =
     (let b = bound_of w ''clock''; mhz = (to_mhz (gs_sys_freq x) :: u32);
          gid = gd_gpu_id (gm_devices s ! i) in
      if \<not> mon_metric b then s
      else
        let s = gm_update i (\<lambda>d. d\<lparr>gd_clock := ucast mhz\<rparr>) s;
            s = (if out_of_bounds b (uint mhz)
                 then violate w i (gm_line w gid (''clock bounds violation '' @ u32_str mhz @ ''MHz''))
                        (\<lambda>d. d\<lparr>gd_clock_violation := gd_clock_violation d + 1\<rparr>) s
                 else s)
        in if gm_exited s then s
           else gm_update i (\<lambda>d. d\<lparr>gd_av_clock := gd_av_clock d + ucast mhz\<rparr>) s)"

text \<open>Integer division drops the fraction.\<close>

definition degrees :: "int \<Rightarrow> int" where
  "degrees milli = (if milli < 0 then - (- milli div 1000) else milli div 1000)"

definition sample_temp :: "gm_worker \<Rightarrow> nat \<Rightarrow> gm_sample \<Rightarrow> gm_state \<Rightarrow> gm_state" where
  "sample_temp w i x s =
     (let b = bound_of w ''temp''; gid = gd_gpu_id (gm_devices s ! i) in
      if \<not> mon_metric b then s
      else (case gs_temperature x of
              None \<Rightarrow> gm_emit (Gm_log (gm_line w gid ''temp Not available'') loginfo) s
            | Some milli \<Rightarrow>
                let temper = degrees milli;
                    s = gm_update i (\<lambda>d. d\<lparr>gd_temp := temper, gd_av_temp := gd_av_temp d + temper\<rparr>) s
                in if out_of_bounds b temper
                   then violate w i (gm_line w gid (''temp bounds violation '' @ to_string_int temper @ ''C''))
                          (\<lambda>d. d\<lparr>gd_temp_violation := gd_temp_violation d + 1\<rparr>) s
                   else s))"

text \<open>
  The speed in percent; the maximum is only asked for after the speed.  The product is an
  \<^verbatim>\<open>int64_t\<close>, the quotient a \<^verbatim>\<open>uint64_t\<close>.  The local variable keeps its value when a speed is 0.
\<close>

definition fan_percent :: "gm_sample \<Rightarrow> u32 \<Rightarrow> u32" where
  "fan_percent x old =
     (let speed = (case gs_fan_speed x of Some v \<Rightarrow> v | None \<Rightarrow> 0);
          max_speed = (case gs_fan_speed x of
                         Some _ \<Rightarrow> (case gs_fan_max x of Some v \<Rightarrow> v | None \<Rightarrow> 0) | None \<Rightarrow> 0)
      in if speed \<noteq> 0 \<and> max_speed \<noteq> 0 then ucast ((of_int (speed * 100) :: u64) div max_speed) else old)"

definition fan_available :: "gm_sample \<Rightarrow> bool" where
  "fan_available x \<longleftrightarrow> gs_fan_speed x \<noteq> None \<and> gs_fan_max x \<noteq> None"

definition sample_fan :: "gm_worker \<Rightarrow> nat \<Rightarrow> gm_sample \<Rightarrow> gm_state \<Rightarrow> gm_state" where
  "sample_fan w i x s =
     (let b = bound_of w ''fan''; gid = gd_gpu_id (gm_devices s ! i) in
      if \<not> mon_metric b then s
      else
        let pct = fan_percent x (gm_fan_percentage s); s = s\<lparr>gm_fan_percentage := pct\<rparr> in
        if \<not> fan_available x then gm_emit (Gm_log (gm_line w gid ''fan Not available'') loginfo) s
        else
          let s = gm_update i (\<lambda>d. d\<lparr>gd_fan := pct, gd_av_fan := gd_av_fan d + ucast pct\<rparr>) s
          in if out_of_bounds b (uint pct)
             then (let s = violate w i (gm_line w gid (''fan bounds violation '' @ u32_str pct @ ''%''))
                             (\<lambda>d. d\<lparr>gd_fan_violation := gd_fan_violation d + 1\<rparr>) s
                   in if gw_term w \<and> \<not> gw_force w then s\<lparr>gm_left := True\<rparr> else s)
             else s)"

text \<open>The comparison uses the variable \<^verbatim>\<open>power\<close>; the products with 1000000 are 32 bits wide.\<close>

definition sample_power :: "gm_worker \<Rightarrow> nat \<Rightarrow> gm_sample \<Rightarrow> gm_state \<Rightarrow> gm_state" where
  "sample_power w i x s =
     (let b = bound_of w ''power''; gid = gd_gpu_id (gm_devices s ! i) in
      if \<not> mon_metric b then s
      else
        let s = gm_update i (\<lambda>d. d\<lparr>gd_power := ucast (gs_socket_power x),
                   gd_av_power := float32 (gd_av_power d + float32 (of_nat (unat (gs_socket_power x))))\<rparr>) s
        in if check_bounds b \<and>
              (gm_power s < ucast (min_val b * 1000000) \<or> ucast (max_val b * 1000000) < gm_power s)
           then violate w i (gm_line w gid (''power bounds violation '' @
                    u32_str (to_mhz (gm_power s)) @ ''Watts''))
                  (\<lambda>d. d\<lparr>gd_power_violation := gd_power_violation d + 1\<rparr>) s
           else s)"

text \<open>The five metrics of one GPU in the order of the code; a step is skipped once the loop is left.\<close>

definition unless_over :: "(gm_state \<Rightarrow> gm_state) \<Rightarrow> gm_state \<Rightarrow> gm_state" where
  "unless_over f s = (if gm_exited s \<or> gm_left s then s else f s)"

definition sample_device :: "gm_worker \<Rightarrow> nat \<Rightarrow> gm_sample \<Rightarrow> gm_state \<Rightarrow> gm_state" where
  "sample_device w i x s =
     fold unless_over
       [sample_mem_clock w i x, sample_clock w i x, sample_temp w i x, sample_fan w i x, sample_power w i x] s"

fun sample_devices :: "gm_worker \<Rightarrow> nat \<Rightarrow> gm_sample list \<Rightarrow> gm_state \<Rightarrow> gm_state" where
  "sample_devices w i [] s = s"
| "sample_devices w i (x # xs) s = sample_devices w (Suc i) xs (unless_over (sample_device w i x) s)"

definition gm_sweep :: "gm_worker \<Rightarrow> gm_sample list \<Rightarrow> gm_state \<Rightarrow> gm_state" where
  "gm_sweep w xs s =
     (let s = sample_devices w 0 xs (s\<lparr>gm_left := False\<rparr>)
      in if gm_exited s then s else s\<lparr>gm_count := gm_count s + 1\<rparr>)"

section \<open>The current values\<close>

definition power_watts :: "u32 \<Rightarrow> string" where
  "power_watts p = fixed6_text (float64 (float32 (of_nat (unat p)) / 10 ^ 6))"

definition device_values :: "gm_worker \<Rightarrow> gm_device \<Rightarrow> string list" where
  "device_values w d =
     map (\<lambda>(k, t). gm_line w (gd_gpu_id d) (k @ '' '' @ t))
       (filter (\<lambda>(k, t). mon_metric (bound_of w k))
          [(''temp'', to_string_int (gd_temp d) @ ''C''), (''clock'', u64_str (gd_clock d) @ ''MHz''),
           (''mem_clock'', u64_str (gd_mem_clock d) @ ''MHz''), (''fan'', u32_str (gd_fan d) @ ''%''),
           (''power'', power_watts (gd_power d) @ ''Watts'')])"

definition do_metric_values :: "gm_worker \<Rightarrow> gm_state \<Rightarrow> gm_state" where
  "do_metric_values w s =
     (let lines = concat (map (device_values w) (gm_devices s));
          s = fold (\<lambda>t. gm_emit (Gm_log t loginfo)) lines s
      in gm_emit (Gm_json (map (\<lambda>t. (''info '', t)) lines) loginfo) s)"

section \<open>The thread\<close>

definition monitoring_line :: "gm_worker \<Rightarrow> u32 \<Rightarrow> string \<times> metric_bound \<Rightarrow> (string \<times> string) list" where
  "monitoring_line w gid = (\<lambda>(k, b).
     if \<not> mon_metric b then []
     else [(k, gm_line w gid (''monitoring '' @ k @
             (if check_bounds b then '' bounds min: '' @ u32_str (min_val b) @ ''  max: '' @ u32_str (max_val b)
              else [])))])"

definition gm_announce :: "gm_worker \<Rightarrow> gm_state \<Rightarrow> gm_state" where
  "gm_announce w s =
     (let recs = map (\<lambda>(i, gid). (gid, (''device'', to_string i), concat (map (monitoring_line w gid) (gw_bounds w))))
                   (enumerate 0 (gw_devices w));
          s = fold (\<lambda>(gid, dv, ms) s.
                 fold (\<lambda>(k, t). gm_emit (Gm_log t loginfo)) ms (gm_emit (Gm_log (gm_line w gid ''started'') logresults) s))
               recs s
      in gm_emit (Gm_json (concat (map (\<lambda>(gid, dv, ms). dv # ms) recs)) loginfo) s)"

text \<open>
  A step is a sweep with its samples, or the timer.  The list is what happens until \<^verbatim>\<open>stop\<close> resets
  the run flag; the thread may leave its loop before.
\<close>

datatype gm_step = Sweep "gm_sample list" | Timer

fun gm_loop :: "gm_worker \<Rightarrow> gm_step list \<Rightarrow> gm_state \<Rightarrow> gm_state" where
  "gm_loop w [] s = s"
| "gm_loop w (x # xs) s =
     (if \<not> gm_brun s \<or> gm_exited s then s
      else gm_loop w xs
        (case x of Sweep samples \<Rightarrow> gm_sweep w samples s
                 | Timer \<Rightarrow> if gw_log_interval w \<noteq> 0 then do_metric_values w s else s))"

text \<open>
  \<open>garbage\<close>: the initial values of the two local variables.  The last lines of the thread come while
  \<^verbatim>\<open>stop\<close> waits; here they are in front of those of \<^verbatim>\<open>stop\<close>.
\<close>

definition gm_worker_run :: "u32 \<times> u64 \<Rightarrow> gm_worker \<Rightarrow> gm_step list \<Rightarrow> gm_event list \<Rightarrow> gm_state" where
  "gm_worker_run garbage w steps evs =
     (let s = \<lparr>gm_devices = map gm_device_new (gw_devices w), gm_brun = True, gm_count = 0,
               gm_fan_percentage = fst garbage, gm_power = snd garbage, gm_left = False, gm_exited = False,
               gm_events = evs\<rparr>;
          s = gm_loop w steps (gm_announce w s)
      in if gm_exited s then s
         else fold (\<lambda>d. gm_emit (Gm_log (gm_line w (gd_gpu_id d) ''stopped'') logresults)) (gm_devices s) s)"

section \<open>The results\<close>

text \<open>The lines of one metric: the violations and the average; the second list goes to the record.\<close>

definition int_quot :: "int \<Rightarrow> nat \<Rightarrow> int" where
  "int_quot a n = (if a < 0 then - (- a div int n) else a div int n)"

definition average_power :: "rat \<Rightarrow> nat \<Rightarrow> u32" where
  "average_power watts n = of_int (trunc_int (float64 (float32 (watts / float32 (of_nat n)) / 10 ^ 6)))"

definition result_lines :: "gm_worker \<Rightarrow> nat \<Rightarrow> gm_device \<Rightarrow> (bool \<times> string) list" where
  "result_lines w n d =
     concat (map (\<lambda>(k, json, viol, avg).
         if \<not> mon_metric (bound_of w k) then []
         else [(json, gm_line w (gd_gpu_id d) (k @ '' violations '' @ to_string viol)),
               (json, gm_line w (gd_gpu_id d) (k @ '' average '' @ avg))])
       [(''temp'', True, gd_temp_violation d, to_string_int (int_quot (gd_av_temp d) n) @ ''C''),
        (''clock'', True, gd_clock_violation d, u64_str (gd_av_clock d div of_nat n) @ ''MHz''),
        (''mem_clock'', True, gd_mem_clock_violation d, u64_str (gd_av_mem_clock d div of_nat n) @ ''MHz''),
        (''fan'', False, gd_fan_violation d, u32_str (ucast (gd_av_fan d div of_nat n)) @ ''%''),
        (''power'', True, gd_power_violation d, u32_str (average_power (gd_av_power d) n) @ ''Watts'')])"

definition gm_worker_stop :: "gm_worker \<Rightarrow> gm_state \<Rightarrow> gm_state" where
  "gm_worker_stop w s =
     (let s = gm_emit (Gm_log (''['' @ gw_stop_action_name w @ ''] gm in Worker::stop()'') logtrace) s;
          s = s\<lparr>gm_brun := False\<rparr>;
          lines = (if gm_count s \<noteq> 0 then concat (map (result_lines w (gm_count s)) (gm_devices s)) else []);
          s = fold (\<lambda>(_, t). gm_emit (Gm_log t logresults)) lines s
      in gm_emit (Gm_json (map (\<lambda>(_, t). (''result'', t)) (filter fst lines)) logresults) s)"

end
