(* ===== verification/Gm_Action.thy ===== *)
theory Gm_Action
  imports Gm_Worker
begin

text \<open>
  \<^verbatim>\<open>gm.so/src/action.cpp\<close> and \<^verbatim>\<open>gm.so/src/rvs_module.cpp\<close>: an action that starts or stops the
  monitoring.  The module holds at most one worker; a new action stops the worker of an earlier
  one, and so does the end of the module.  A running worker is its configuration together with the
  steps it still does before it is stopped, which are an argument.
\<close>

section \<open>Configuration\<close>

record ('cb, 'up) gm_action =
  ga_base :: "('cb, 'up) actionbase"
  prop_terminate :: bool
  prop_force :: bool
  ga_sample_interval :: u64
  property_bounds :: "(string, metric_bound) omap"

definition gm_metrics :: "string list" where
  "gm_metrics = [''temp'', ''clock'', ''mem_clock'', ''fan'', ''power'']"

text \<open>The constructor on top of the one of the base class.\<close>

definition gm_action_new :: "('cb, 'up) gm_action \<Rightarrow> ('cb, 'up) gm_action" where
  "gm_action_new raw =
     raw\<lparr>ga_base := (actionbase_new (ga_base raw))\<lparr>bjson := False, ab_module_name := ''gm''\<rparr>,
         property_bounds := fold (\<lambda>k. om_insert k no_bound) gm_metrics []\<rparr>"

text \<open>The code, and the action with the new bound; \<open>None\<close> when the split does not return.\<close>

definition get_bounds :: "('cb, 'up) gm_action \<Rightarrow> string \<Rightarrow> (int \<times> ('cb, 'up) gm_action) option" where
  "get_bounds m pMetric =
     (case has_property_val (ga_base m) (''metrics.'' @ pMetric) [] of
        (False, _) \<Rightarrow> Some (2, m)
      | (True, sval) \<Rightarrow>
          (case str_split sval yaml_device_prop_delimiter of
             None \<Rightarrow> None
           | Some values \<Rightarrow>
               if length values = 3 then
                 (case rvs_util_parse (values ! 1) (0 :: u32) of
                    (e1, mx) \<Rightarrow>
                      if e1 \<noteq> 0 then Some (1, m)
                      else (case rvs_util_parse (values ! 2) (0 :: u32) of
                              (e2, mn) \<Rightarrow>
                                if e2 \<noteq> 0 then Some (1, m)
                                else Some (0, m\<lparr>property_bounds := om_assign pMetric
                                   \<lparr>mon_metric = True, check_bounds = (values ! 0 = ''true''),
                                    max_val = mx, min_val = mn\<rparr> (property_bounds m)\<rparr>)))
               else Some (1, m)))"

definition gm_squote :: string where "gm_squote = [CHR 0x27]"

fun bounds_loop ::
  "string list \<Rightarrow> ('cb, 'up) gm_action \<Rightarrow> bool \<times> log_event list
     \<Rightarrow> ((bool \<times> log_event list) \<times> ('cb, 'up) gm_action) option" where
  "bounds_loop [] m r = Some (r, m)"
| "bounds_loop (k # ks) m r =
     (case get_bounds m k of
        None \<Rightarrow> None
      | Some (code, m) \<Rightarrow>
          bounds_loop ks m
            (if code = 1 then step_key 1 [Log_err (''Invalid '' @ gm_squote @ ''metrics.'' @ k @ gm_squote @ '' key.'')] r
             else r))"

definition get_all_gm_config_keys ::
  "('cb, 'up) gm_action \<Rightarrow> ((bool \<times> log_event list) \<times> ('cb, 'up) gm_action) option" where
  "get_all_gm_config_keys m =
     (case bounds_loop gm_metrics m (True, []) of
        None \<Rightarrow> None
      | Some (r, m) \<Rightarrow>
          let a = ga_base m;
              (e1, force) = property_get_default (property_get_bool a ''force'' (prop_force m)) False;
              r = step_key e1 [Log_err (''Invalid '' @ gm_squote @ ''force'' @ gm_squote @ '' key.'')] r;
              (e2, term) = property_get_default (property_get_bool a ''terminate'' (prop_terminate m)) False;
              r = step_key e2 [Log_err (''Invalid '' @ gm_squote @ ''terminate'' @ gm_squote @ '' key.'')] r;
              (e3, si) = property_get_int_def a ''sample_interval'' (ga_sample_interval m) 500;
              r = step_key e3 [Log_err (''Invalid '' @ gm_squote @ ''sample_interval'' @ gm_squote @ '' key.'')] r;
              r = step_key (if property_log_interval a < si then 1 else 0)
                    [Log_err ''Log interval has the lower value than the sample interval.''] r
          in Some (r, m\<lparr>prop_force := force, prop_terminate := term, ga_sample_interval := si\<rparr>))"

section \<open>The devices\<close>

text \<open>
  The ids of the selected GPUs that have the wanted device id; the look-up past the end of a table
  is \<open>None\<close>.
\<close>

fun filter_device_id :: "gpulist \<Rightarrow> u16 \<Rightarrow> u16 list \<Rightarrow> u16 list option" where
  "filter_device_id gl did [] = Some []"
| "filter_device_id gl did (g # gs) =
     (case gpu2device gl g of
        Out_of_bounds \<Rightarrow> None
      | Not_found \<Rightarrow> filter_device_id gl did gs
      | Found d \<Rightarrow> map_option (\<lambda>r. if d = did then g # r else r) (filter_device_id gl did gs))"

definition gm_devices_of :: "kfd_node list \<Rightarrow> gpulist \<Rightarrow> ('cb, 'up) actionbase \<Rightarrow> u16 list option" where
  "gm_devices_of nodes gl a =
     (let ds = (if property_device_all a then gpu_get_all_gpu_id nodes (property_device a) else property_device a)
      in if 0 < property_device_id a then filter_device_id gl (property_device_id a) ds else Some ds)"

text \<open>\<open>Inl\<close>: the GPU without a location.  The SMI look-up takes the location for an address.\<close>

fun gm_handles ::
  "'h smi_sockets \<Rightarrow> gpulist \<Rightarrow> u16 list \<Rightarrow> (u64, 'h) omap \<times> (u32, 'h option) omap
     \<Rightarrow> (u16 + (u64, 'h) omap \<times> (u32, 'h option) omap) option" where
  "gm_handles socks gl [] st = Some (Inr st)"
| "gm_handles socks gl (g # gs) (smi, hdl) =
     (case gpu2location gl g of
        Out_of_bounds \<Rightarrow> None
      | Not_found \<Rightarrow> Some (Inl g)
      | Found loc \<Rightarrow>
          (case smi_dev_ind_get socks smi (ucast loc) of
             (ok, ix, smi) \<Rightarrow> gm_handles socks gl gs (smi, if ok then om_insert (ucast g) ix hdl else hdl)))"

section \<open>The run\<close>

text \<open>The global variables: the worker with its state at the start, and the map of the SMI look-up.\<close>

record 'h gm_module =
  gm_pworker :: "(gm_worker \<times> (u32, 'h option) omap) option"
  gm_smi_map :: "(u64, 'h) omap"

record 'h gm_world =
  gmw_nodes :: "kfd_node list"
  gmw_gpus :: gpulist
  gmw_sockets :: "'h smi_sockets"
  gmw_garbage :: "u32 \<times> u64"

datatype 'a gm_outcome =
    Gm_done 'a
  | Gm_exit "gm_event list"  \<comment> \<open>the process ended in the worker\<close>
  | Gm_undefined  \<comment> \<open>a table is read past its end, or the split does not return\<close>

text \<open>Stop the worker under a name after it has done its steps.\<close>

definition stop_pworker ::
  "'h gm_world \<Rightarrow> string \<Rightarrow> gm_step list \<Rightarrow> 'h gm_module \<Rightarrow> ('h gm_module \<times> gm_event list) gm_outcome" where
  "stop_pworker wd nm steps pw =
     (case gm_pworker pw of
        None \<Rightarrow> Gm_done (pw, [])
      | Some (w, _) \<Rightarrow>
          let w = w\<lparr>gw_stop_action_name := nm\<rparr>;
              s = gm_worker_run (gmw_garbage wd) w steps []
          in if gm_exited s then Gm_exit (gm_events s)
             else Gm_done (pw\<lparr>gm_pworker := None\<rparr>, gm_events (gm_worker_stop w s)))"

definition gm_result :: "actionstatus \<Rightarrow> string \<Rightarrow> action_result_t" where
  "gm_result st t = \<lparr>ar_state = ACTION_COMPLETED, ar_status = st, ar_output = t\<rparr>"

definition note_event :: "log_event \<Rightarrow> gm_event" where
  "note_event e = (case e of Log_err t \<Rightarrow> Gm_err t | Log_msg t l \<Rightarrow> Gm_log t l)"

text \<open>A property that is missing reads as the empty text.\<close>

definition gm_property :: "('cb, 'up) gm_action \<Rightarrow> string \<Rightarrow> string" where
  "gm_property m k = (case om_find (property (ga_base m)) k of Some v \<Rightarrow> v | None \<Rightarrow> [])"

definition worker_for :: "('cb, 'up) gm_action \<Rightarrow> (u32, 'h option) omap \<Rightarrow> gm_worker" where
  "worker_for m hdl =
     \<lparr>gw_action_name = action_name (ga_base m), gw_stop_action_name = action_name (ga_base m),
      gw_log_interval = ucast (property_log_interval (ga_base m)), gw_term = prop_terminate m,
      gw_force = prop_force m, gw_bounds = property_bounds m, gw_devices = map fst hdl\<rparr>"

definition start_monitoring ::
  "'h gm_world \<Rightarrow> ('cb, 'up) gm_action \<Rightarrow> 'h gm_module \<Rightarrow> gm_event list
     \<Rightarrow> (int \<times> action_result_t \<times> gm_event list \<times> 'h gm_module) gm_outcome" where
  "start_monitoring wd m pw evs =
     (case gm_devices_of (gmw_nodes wd) (gmw_gpus wd) (ga_base m) of
        None \<Rightarrow> Gm_undefined
      | Some [] \<Rightarrow>
          Gm_done (-1, gm_result ACTION_FAILED ''No devices match filtering criteria.'',
                   evs @ [Gm_err ''No devices match filtering criteria.''], pw)
      | Some (g # gs) \<Rightarrow>
          (case gm_handles (gmw_sockets wd) (gmw_gpus wd) (g # gs) (gm_smi_map pw, []) of
             None \<Rightarrow> Gm_undefined
           | Some (Inl x) \<Rightarrow>
               (let msg = ''Could not obtain BDF for GPU ID: '' @ to_string (unat x)
                in Gm_done (-1, gm_result ACTION_FAILED msg, evs @ [Gm_err msg], pw))
           | Some (Inr (smi, hdl)) \<Rightarrow>
               Gm_done (0, gm_result ACTION_SUCCESS (''GM Module action '' @ action_name (ga_base m) @ '' completed''),
                        evs, pw\<lparr>gm_pworker := Some (worker_for m hdl, hdl), gm_smi_map := smi\<rparr>)))"

text \<open>
  \<open>steps\<close> is what the worker of an earlier action does before this action stops it.
\<close>

definition gm_action_run ::
  "'h gm_world \<Rightarrow> gm_step list \<Rightarrow> ('cb, 'up) gm_action \<Rightarrow> 'h gm_module
     \<Rightarrow> (int \<times> action_result_t \<times> gm_event list \<times> 'h gm_module) gm_outcome" where
  "gm_action_run wd steps m pw =
     (case stop_pworker wd (gm_property m ''name'') steps pw of
        Gm_undefined \<Rightarrow> Gm_undefined
      | Gm_exit evs \<Rightarrow> Gm_exit evs
      | Gm_done (pw, evs) \<Rightarrow>
          if gm_property m ''monitor'' \<noteq> ''true'' then
            Gm_done (0, gm_result ACTION_FAILED (''GM Module action '' @ action_name (ga_base m) @ '' completed''), evs, pw)
          else
            (case get_all_common_config_keys (ga_base m) of
               None \<Rightarrow> Gm_undefined
             | Some ((ok, evs1), a) \<Rightarrow>
                 if \<not> ok then
                   Gm_done (-1, gm_result ACTION_FAILED ''Error in common configuration keys.'', evs @ map note_event evs1, pw)
                 else
                   (case get_all_gm_config_keys (m\<lparr>ga_base := a\<rparr>) of
                      None \<Rightarrow> Gm_undefined
                    | Some ((ok, evs2), m) \<Rightarrow>
                        let evs = evs @ map note_event (evs1 @ evs2) in
                        if \<not> ok then
                          Gm_done (-1, gm_result ACTION_FAILED ''Error in GM configuration keys.'', evs, pw)
                        else start_monitoring wd m pw evs)))"

definition gm_module_terminate ::
  "'h gm_world \<Rightarrow> gm_step list \<Rightarrow> 'h gm_module \<Rightarrow> ('h gm_module \<times> gm_event list) gm_outcome" where
  "gm_module_terminate wd steps pw = stop_pworker wd ''module_terminate'' steps pw"

end
