(* ===== verification/Gm_Props.thy ===== *)
theory Gm_Props
  imports Gm_Action
begin

text \<open>
  The properties of the GPU monitor: what its counters and sums hold after a run, when a run ends by
  itself, what the check of the power compares, and the life of the one worker of the module.
\<close>

section \<open>Without the key terminate\<close>

text \<open>The part of a device's record that depends on its own samples only.\<close>

definition tracked :: "gm_device \<Rightarrow> (nat \<times> nat \<times> nat \<times> nat) \<times> (u64 \<times> u64 \<times> int \<times> rat)" where
  "tracked d = ((gd_mem_clock_violation d, gd_clock_violation d, gd_temp_violation d, gd_power_violation d),
     (gd_av_mem_clock d, gd_av_clock d, gd_av_temp d, gd_av_power d))"

definition mem_mhz :: "gm_sample \<Rightarrow> u64" where "mem_mhz x = to_mhz (gs_mem_freq x)"

definition sys_mhz :: "gm_sample \<Rightarrow> u32" where "sys_mhz x = to_mhz (gs_sys_freq x)"

definition violates :: "metric_bound \<Rightarrow> int \<Rightarrow> bool" where
  "violates b v \<longleftrightarrow> mon_metric b \<and> out_of_bounds b v"

definition temp_violates :: "metric_bound \<Rightarrow> gm_sample \<Rightarrow> bool" where
  "temp_violates b x = (case gs_temperature x of Some m \<Rightarrow> violates b (degrees m) | None \<Rightarrow> False)"

definition temp_part :: "metric_bound \<Rightarrow> gm_sample \<Rightarrow> int" where
  "temp_part b x = (case gs_temperature x of Some m \<Rightarrow> if mon_metric b then degrees m else 0 | None \<Rightarrow> 0)"

definition power_alarm :: "metric_bound \<Rightarrow> u64 \<Rightarrow> bool" where
  "power_alarm b p \<longleftrightarrow> mon_metric b \<and> check_bounds b \<and>
     (p < ucast (min_val b * 1000000) \<or> ucast (max_val b * 1000000) < p)"

text \<open>The sum of the powers, a single-precision number.\<close>

definition power_sum :: "metric_bound \<Rightarrow> gm_sample \<Rightarrow> rat \<Rightarrow> rat" where
  "power_sum b x pa = (if mon_metric b then float32 (pa + float32 (of_nat (unat (gs_socket_power x)))) else pa)"

definition track_step ::
  "gm_worker \<Rightarrow> u64 \<Rightarrow> gm_sample \<Rightarrow> (nat \<times> nat \<times> nat \<times> nat) \<times> (u64 \<times> u64 \<times> int \<times> rat)
     \<Rightarrow> (nat \<times> nat \<times> nat \<times> nat) \<times> (u64 \<times> u64 \<times> int \<times> rat)" where
  "track_step w p x = (\<lambda>((vm, vc, vt, vp), (am, ac, tt, pa)).
     let bm = bound_of w ''mem_clock''; bc = bound_of w ''clock''; bt = bound_of w ''temp'' in
     ((vm + of_bool (violates bm (uint (mem_mhz x))), vc + of_bool (violates bc (uint (sys_mhz x))),
       vt + of_bool (temp_violates bt x), vp + of_bool (power_alarm (bound_of w ''power'') p)),
      (if mon_metric bm then am + mem_mhz x else am, if mon_metric bc then ac + ucast (sys_mhz x) else ac,
       tt + temp_part bt x, power_sum (bound_of w ''power'') x pa)))"

text \<open>What no step of a worker without the key changes.\<close>

definition calm :: "gm_state \<Rightarrow> bool" where
  "calm s \<longleftrightarrow> gm_brun s \<and> \<not> gm_left s \<and> \<not> gm_exited s"

lemma gm_emit_fields [simp]:
  "gm_devices (gm_emit e s) = gm_devices s" "gm_brun (gm_emit e s) = gm_brun s" "gm_count (gm_emit e s) = gm_count s"
  "gm_fan_percentage (gm_emit e s) = gm_fan_percentage s" "gm_power (gm_emit e s) = gm_power s"
  "gm_left (gm_emit e s) = gm_left s" "gm_exited (gm_emit e s) = gm_exited s"
  "gm_events (gm_emit e s) = gm_events s @ [e]"
  by (simp_all add: gm_emit_def)

lemma gm_update_fields [simp]:
  "gm_devices (gm_update i f s) = (gm_devices s)[i := f (gm_devices s ! i)]" "gm_brun (gm_update i f s) = gm_brun s"
  "gm_count (gm_update i f s) = gm_count s" "gm_fan_percentage (gm_update i f s) = gm_fan_percentage s"
  "gm_power (gm_update i f s) = gm_power s" "gm_left (gm_update i f s) = gm_left s"
  "gm_exited (gm_update i f s) = gm_exited s" "gm_events (gm_update i f s) = gm_events s"
  by (simp_all add: gm_update_def)

lemma violate_fields [simp]:
  "gm_devices (violate w i msg inc s) = (gm_devices s)[i := inc (gm_devices s ! i)]"
  "gm_brun (violate w i msg inc s) = (gm_brun s \<and> (gw_term w \<longrightarrow> gw_force w))"
  "gm_count (violate w i msg inc s) = gm_count s"
  "gm_fan_percentage (violate w i msg inc s) = gm_fan_percentage s"
  "gm_power (violate w i msg inc s) = gm_power s" "gm_left (violate w i msg inc s) = gm_left s"
  "gm_exited (violate w i msg inc s) = (gm_exited s \<or> gw_term w \<and> gw_force w)"
  by (simp_all add: violate_def Let_def)

lemmas sample_defs = sample_mem_clock_def sample_clock_def sample_temp_def sample_fan_def sample_power_def Let_def

text \<open>Every sampling step keeps the number of GPUs and the variable power.\<close>

lemma sample_frame [simp]:
  "length (gm_devices (sample_mem_clock w i x s)) = length (gm_devices s)"
  "length (gm_devices (sample_clock w i x s)) = length (gm_devices s)"
  "length (gm_devices (sample_temp w i x s)) = length (gm_devices s)"
  "length (gm_devices (sample_fan w i x s)) = length (gm_devices s)"
  "length (gm_devices (sample_power w i x s)) = length (gm_devices s)"
  "gm_power (sample_mem_clock w i x s) = gm_power s" "gm_power (sample_clock w i x s) = gm_power s"
  "gm_power (sample_temp w i x s) = gm_power s" "gm_power (sample_fan w i x s) = gm_power s"
  "gm_power (sample_power w i x s) = gm_power s"
  "gm_count (sample_mem_clock w i x s) = gm_count s" "gm_count (sample_clock w i x s) = gm_count s"
  "gm_count (sample_temp w i x s) = gm_count s" "gm_count (sample_fan w i x s) = gm_count s"
  "gm_count (sample_power w i x s) = gm_count s"
  by (simp_all add: sample_defs split: option.split)

lemma sample_calm:
  assumes "\<not> gw_term w" and "calm s"
  shows "calm (sample_mem_clock w i x s)" "calm (sample_clock w i x s)" "calm (sample_temp w i x s)"
    "calm (sample_fan w i x s)" "calm (sample_power w i x s)"
  using assms by (simp_all add: sample_defs calm_def split: option.split)

text \<open>The effect of the five steps on the tracked part of a GPU.\<close>

lemma sample_other:
  "j \<noteq> i \<Longrightarrow> gm_devices (sample_mem_clock w i x s) ! j = gm_devices s ! j"
  "j \<noteq> i \<Longrightarrow> gm_devices (sample_clock w i x s) ! j = gm_devices s ! j"
  "j \<noteq> i \<Longrightarrow> gm_devices (sample_temp w i x s) ! j = gm_devices s ! j"
  "j \<noteq> i \<Longrightarrow> gm_devices (sample_fan w i x s) ! j = gm_devices s ! j"
  "j \<noteq> i \<Longrightarrow> gm_devices (sample_power w i x s) ! j = gm_devices s ! j"
  by (simp_all add: sample_defs split: option.split)

lemma sample_tracked:
  assumes "\<not> gw_term w" and "calm s" and "i < length (gm_devices s)"
    and "tracked (gm_devices s ! i) = ((vm, vc, vt, vp), (am, ac, tt, pa))"
  shows "tracked (gm_devices (sample_mem_clock w i x s) ! i) =
      ((vm + of_bool (violates (bound_of w ''mem_clock'') (uint (mem_mhz x))), vc, vt, vp),
       (if mon_metric (bound_of w ''mem_clock'') then am + mem_mhz x else am, ac, tt, pa))"
    and "tracked (gm_devices (sample_clock w i x s) ! i) =
      ((vm, vc + of_bool (violates (bound_of w ''clock'') (uint (sys_mhz x))), vt, vp),
       (am, if mon_metric (bound_of w ''clock'') then ac + ucast (sys_mhz x) else ac, tt, pa))"
    and "tracked (gm_devices (sample_temp w i x s) ! i) =
      ((vm, vc, vt + of_bool (temp_violates (bound_of w ''temp'') x), vp), (am, ac, tt + temp_part (bound_of w ''temp'') x, pa))"
    and "tracked (gm_devices (sample_fan w i x s) ! i) = ((vm, vc, vt, vp), (am, ac, tt, pa))"
    and "tracked (gm_devices (sample_power w i x s) ! i) =
      ((vm, vc, vt, vp + of_bool (power_alarm (bound_of w ''power'') (gm_power s))),
       (am, ac, tt, power_sum (bound_of w ''power'') x pa))"
  using assms
  by (simp_all add: sample_defs calm_def tracked_def violates_def temp_violates_def temp_part_def
      power_alarm_def power_sum_def mem_mhz_def sys_mhz_def split: option.split)

lemma sample_device_effect:
  assumes "\<not> gw_term w" and "calm s" and "i < length (gm_devices s)"
  shows "calm (sample_device w i x s)" and "gm_power (sample_device w i x s) = gm_power s"
    and "length (gm_devices (sample_device w i x s)) = length (gm_devices s)"
    and "gm_count (sample_device w i x s) = gm_count s"
    and "j \<noteq> i \<Longrightarrow> gm_devices (sample_device w i x s) ! j = gm_devices s ! j"
    and "tracked (gm_devices (sample_device w i x s) ! i) = track_step w (gm_power s) x (tracked (gm_devices s ! i))"
proof -
  define s1 where "s1 = sample_mem_clock w i x s"
  define s2 where "s2 = sample_clock w i x s1"
  define s3 where "s3 = sample_temp w i x s2"
  define s4 where "s4 = sample_fan w i x s3"
  define s5 where "s5 = sample_power w i x s4"
  note d = s1_def s2_def s3_def s4_def s5_def
  have c: "calm s1" "calm s2" "calm s3" "calm s4" "calm s5"
    using assms(1,2) by (simp_all add: d sample_calm)
  have step: "unless_over f t = f t" if "calm t" for f t
    using that by (simp add: unless_over_def calm_def)
  have run: "sample_device w i x s = s5"
    using assms(2) c by (simp add: sample_device_def step d)
  show "calm (sample_device w i x s)" "gm_power (sample_device w i x s) = gm_power s"
    "length (gm_devices (sample_device w i x s)) = length (gm_devices s)"
    "gm_count (sample_device w i x s) = gm_count s"
    using c(5) by (simp_all add: run) (simp_all add: d)
  show "j \<noteq> i \<Longrightarrow> gm_devices (sample_device w i x s) ! j = gm_devices s ! j"
    by (simp add: run) (simp add: d sample_other)
  obtain vm vc vt vp am ac tt pa where t: "tracked (gm_devices s ! i) = ((vm, vc, vt, vp), (am, ac, tt, pa))"
    by (metis surj_pair)
  have len: "i < length (gm_devices s1)" "i < length (gm_devices s2)" "i < length (gm_devices s3)"
    "i < length (gm_devices s4)" using assms(3) by (simp_all add: d)
  have pw: "gm_power s4 = gm_power s" by (simp add: d)
  note t1 = sample_tracked(1) [OF assms t, of x, folded s1_def]
  note t2 = sample_tracked(2) [OF assms(1) c(1) len(1) t1, of x, folded s2_def]
  note t3 = sample_tracked(3) [OF assms(1) c(2) len(2) t2, of x, folded s3_def]
  note t4 = sample_tracked(4) [OF assms(1) c(3) len(3) t3, of x, folded s4_def]
  note t5 = sample_tracked(5) [OF assms(1) c(4) len(4) t4, of x, folded s5_def]
  show "tracked (gm_devices (sample_device w i x s) ! i) = track_step w (gm_power s) x (tracked (gm_devices s ! i))"
    unfolding run t5 t track_step_def by (simp add: Let_def pw)
qed

lemma sample_devices_effect:
  assumes "\<not> gw_term w" and "calm s" and "i + length xs \<le> length (gm_devices s)"
  shows "calm (sample_devices w i xs s) \<and> gm_power (sample_devices w i xs s) = gm_power s \<and>
    length (gm_devices (sample_devices w i xs s)) = length (gm_devices s) \<and>
    gm_count (sample_devices w i xs s) = gm_count s \<and>
    (\<forall>j. tracked (gm_devices (sample_devices w i xs s) ! j) =
       (if i \<le> j \<and> j < i + length xs then track_step w (gm_power s) (xs ! (j - i)) (tracked (gm_devices s ! j))
        else tracked (gm_devices s ! j)))"
  using assms(2,3)
proof (induction xs arbitrary: i s)
  case Nil
  then show ?case by auto
next
  case (Cons x xs)
  let ?s = "sample_device w i x s"
  from Cons.prems have i: "i < length (gm_devices s)" by simp
  note eff = sample_device_effect [OF assms(1) Cons.prems(1) i, where x = x]
  have run: "sample_devices w i (x # xs) s = sample_devices w (Suc i) xs ?s"
    using Cons.prems(1) by (simp add: unless_over_def calm_def)
  have "Suc i + length xs \<le> length (gm_devices ?s)" using Cons.prems(2) eff by simp
  note ih = Cons.IH [OF eff(1) this]
  have tr: "tracked (gm_devices ?s ! j) =
      (if j = i then track_step w (gm_power s) x (tracked (gm_devices s ! i)) else tracked (gm_devices s ! j))" for j
    using eff(5,6) by simp
  show ?case
    unfolding run using ih eff(2-4) by (auto simp: tr nth_Cons' not_less_eq_eq Suc_le_eq)
qed

fun sweeps :: "gm_step list \<Rightarrow> gm_sample list list" where
  "sweeps [] = []"
| "sweeps (Sweep xs # ss) = xs # sweeps ss"
| "sweeps (Timer # ss) = sweeps ss"

lemma fold_emit_fields [simp]:
  "gm_devices (fold (\<lambda>t. gm_emit (f t)) ts s) = gm_devices s" "gm_brun (fold (\<lambda>t. gm_emit (f t)) ts s) = gm_brun s"
  "gm_count (fold (\<lambda>t. gm_emit (f t)) ts s) = gm_count s" "gm_power (fold (\<lambda>t. gm_emit (f t)) ts s) = gm_power s"
  "gm_left (fold (\<lambda>t. gm_emit (f t)) ts s) = gm_left s" "gm_exited (fold (\<lambda>t. gm_emit (f t)) ts s) = gm_exited s"
  by (induction ts arbitrary: s) simp_all

lemma do_metric_values_fields [simp]:
  "gm_devices (do_metric_values w s) = gm_devices s" "gm_brun (do_metric_values w s) = gm_brun s"
  "gm_count (do_metric_values w s) = gm_count s" "gm_power (do_metric_values w s) = gm_power s"
  "gm_left (do_metric_values w s) = gm_left s" "gm_exited (do_metric_values w s) = gm_exited s"
  by (simp_all add: do_metric_values_def Let_def)

lemma gm_loop_effect:
  assumes "\<not> gw_term w" and "gm_brun s" "\<not> gm_exited s"
    and "list_all (\<lambda>xs. length xs = length (gm_devices s)) (sweeps steps)"
  shows "gm_count (gm_loop w steps s) = gm_count s + length (sweeps steps) \<and>
    length (gm_devices (gm_loop w steps s)) = length (gm_devices s) \<and> \<not> gm_exited (gm_loop w steps s) \<and>
    (\<forall>j < length (gm_devices s). tracked (gm_devices (gm_loop w steps s) ! j) =
       fold (track_step w (gm_power s)) (map (\<lambda>xs. xs ! j) (sweeps steps)) (tracked (gm_devices s ! j)))"
  using assms(2-)
proof (induction steps arbitrary: s rule: sweeps.induct)
  case 1
  then show ?case by simp
next
  case (2 xs ss)
  let ?t = "s\<lparr>gm_left := False\<rparr>" let ?s = "gm_sweep w xs s"
  have c: "calm ?t" using 2(2,3) by (simp add: calm_def)
  have l: "length xs = length (gm_devices s)" using 2(4) by simp
  have "0 + length xs \<le> length (gm_devices ?t)" using l by simp
  note eff = sample_devices_effect [OF assms(1) c this]
  have s: "gm_brun ?s" "\<not> gm_exited ?s" "gm_power ?s = gm_power s" "length (gm_devices ?s) = length (gm_devices s)"
    "gm_count ?s = gm_count s + 1"
    using eff l by (auto simp: gm_sweep_def Let_def calm_def)
  have tr: "tracked (gm_devices ?s ! j) = track_step w (gm_power s) (xs ! j) (tracked (gm_devices s ! j))"
    if "j < length (gm_devices s)" for j
    using eff l that by (auto simp: gm_sweep_def Let_def calm_def)
  have run: "gm_loop w (Sweep xs # ss) s = gm_loop w ss ?s" using 2(2,3) by simp
  have "list_all (\<lambda>xs. length xs = length (gm_devices ?s)) (sweeps ss)" using 2(4) s(4) by simp
  note ih = 2(1) [OF s(1,2) this]
  show ?case unfolding run using ih s tr by simp
next
  case (3 ss)
  let ?s = "if gw_log_interval w \<noteq> 0 then do_metric_values w s else s"
  have run: "gm_loop w (Timer # ss) s = gm_loop w ss ?s" using 3(2,3) by simp
  show ?case unfolding run using 3(1) [of ?s] 3(2-) by simp
qed

text \<open>The state of a run before its last lines.\<close>

lemma fold_keeps: "(\<And>x s. P (f x s) = P s) \<Longrightarrow> P (fold f xs s) = P s"
  by (induction xs arbitrary: s) simp_all

lemma gm_announce_keeps:
  assumes "\<And>t l s. P (gm_emit (Gm_log t l) s) = P s" and "\<And>f l s. P (gm_emit (Gm_json f l) s) = P s"
  shows "P (gm_announce w s) = P s"
  by (simp add: gm_announce_def Let_def assms case_prod_beta fold_keeps [where P = P])

lemma gm_announce_fields [simp]:
  "gm_devices (gm_announce w s) = gm_devices s" "gm_brun (gm_announce w s) = gm_brun s"
  "gm_count (gm_announce w s) = gm_count s" "gm_power (gm_announce w s) = gm_power s"
  "gm_left (gm_announce w s) = gm_left s" "gm_exited (gm_announce w s) = gm_exited s"
  by (simp_all add: gm_announce_keeps [where P = gm_devices] gm_announce_keeps [where P = gm_brun]
      gm_announce_keeps [where P = gm_count] gm_announce_keeps [where P = gm_power]
      gm_announce_keeps [where P = gm_left] gm_announce_keeps [where P = gm_exited])

definition gm_start :: "u32 \<times> u64 \<Rightarrow> gm_worker \<Rightarrow> gm_event list \<Rightarrow> gm_state" where
  "gm_start g w evs = \<lparr>gm_devices = map gm_device_new (gw_devices w), gm_brun = True, gm_count = 0,
     gm_fan_percentage = fst g, gm_power = snd g, gm_left = False, gm_exited = False, gm_events = evs\<rparr>"

lemma gm_start_fields [simp]:
  "gm_devices (gm_start g w evs) = map gm_device_new (gw_devices w)" "gm_brun (gm_start g w evs)"
  "gm_count (gm_start g w evs) = 0" "gm_power (gm_start g w evs) = snd g" "\<not> gm_left (gm_start g w evs)"
  "\<not> gm_exited (gm_start g w evs)"
  by (simp_all add: gm_start_def)

lemma gm_worker_run_fields:
  shows "gm_devices (gm_worker_run g w steps evs) = gm_devices (gm_loop w steps (gm_announce w (gm_start g w evs)))"
    and "gm_count (gm_worker_run g w steps evs) = gm_count (gm_loop w steps (gm_announce w (gm_start g w evs)))"
    and "gm_exited (gm_worker_run g w steps evs) = gm_exited (gm_loop w steps (gm_announce w (gm_start g w evs)))"
    and "gm_brun (gm_worker_run g w steps evs) = gm_brun (gm_loop w steps (gm_announce w (gm_start g w evs)))"
  by (simp_all add: gm_worker_run_def gm_start_def [symmetric] Let_def)

lemma fold_track:
  "fold (track_step w p) xs ((vm, vc, vt, vp), (am, ac, tt, pa)) =
     ((vm + length (filter (\<lambda>x. violates (bound_of w ''mem_clock'') (uint (mem_mhz x))) xs),
       vc + length (filter (\<lambda>x. violates (bound_of w ''clock'') (uint (sys_mhz x))) xs),
       vt + length (filter (temp_violates (bound_of w ''temp'')) xs),
       vp + (if power_alarm (bound_of w ''power'') p then length xs else 0)),
      (if mon_metric (bound_of w ''mem_clock'') then am + sum_list (map mem_mhz xs) else am,
       if mon_metric (bound_of w ''clock'') then ac + sum_list (map (\<lambda>x. ucast (sys_mhz x)) xs) else ac,
       tt + sum_list (map (temp_part (bound_of w ''temp'')) xs), fold (power_sum (bound_of w ''power'')) xs pa))"
  by (induction xs arbitrary: vm vc vt vp am ac tt pa) (simp_all add: track_step_def Let_def)


lemma run_tracked:
  assumes "\<not> gw_term w" and "list_all (\<lambda>xs. length xs = length (gw_devices w)) (sweeps steps)"
    and "j < length (gw_devices w)"
  shows "tracked (gm_devices (gm_worker_run g w steps evs) ! j) =
      fold (track_step w (snd g)) (map (\<lambda>xs. xs ! j) (sweeps steps)) ((0, 0, 0, 0), (0, 0, 0, 0))"
    and "gm_count (gm_worker_run g w steps evs) = length (sweeps steps)"
proof -
  let ?s = "gm_announce w (gm_start g w evs)"
  have "tracked (gm_device_new gid) = ((0, 0, 0, 0), (0, 0, 0, 0))" for gid
    by (simp add: tracked_def gm_device_new_def)
  with gm_loop_effect [OF assms(1), of ?s steps] assms(2,3)
  show "tracked (gm_devices (gm_worker_run g w steps evs) ! j) =
      fold (track_step w (snd g)) (map (\<lambda>xs. xs ! j) (sweeps steps)) ((0, 0, 0, 0), (0, 0, 0, 0))"
    "gm_count (gm_worker_run g w steps evs) = length (sweeps steps)"
    by (simp_all add: gm_worker_run_fields)
qed

section \<open>With the key terminate\<close>

definition viols :: "gm_device \<Rightarrow> nat" where
  "viols d = gd_mem_clock_violation d + gd_clock_violation d + gd_temp_violation d +
     gd_fan_violation d + gd_power_violation d"

definition no_violation :: "gm_state \<Rightarrow> bool" where
  "no_violation s \<longleftrightarrow> list_all (\<lambda>d. viols d = 0) (gm_devices s)"

text \<open>The run goes on exactly as long as nothing is violated, and a stop is requested otherwise.\<close>

definition stops_on_violation :: "gm_worker \<Rightarrow> gm_state \<Rightarrow> bool" where
  "stops_on_violation w s \<longleftrightarrow>
     (no_violation s \<longleftrightarrow> gm_brun s \<and> \<not> gm_exited s) \<and>
     (no_violation s \<longleftrightarrow> Gm_stop (gw_force w) \<notin> set (gm_events s)) \<and> (gm_exited s \<longleftrightarrow> gw_force w \<and> \<not> no_violation s)"

lemma no_violation_update:
  assumes "\<And>d. viols (f d) = viols d"
  shows "no_violation (gm_update i f s) = no_violation s"
proof (cases "i < length (gm_devices s)")
  case True
  then show ?thesis
    by (auto simp: no_violation_def list_all_length assms nth_list_update)
qed (simp add: no_violation_def list_update_beyond)

lemma no_violation_emit [simp]: "no_violation (gm_emit e s) = no_violation s"
  by (simp add: no_violation_def)

lemma stops_emit:
  "e \<noteq> Gm_stop (gw_force w) \<Longrightarrow> stops_on_violation w (gm_emit e s) = stops_on_violation w s"
  by (auto simp: stops_on_violation_def)

lemma stops_update:
  "(\<And>d. viols (f d) = viols d) \<Longrightarrow> stops_on_violation w (gm_update i f s) = stops_on_violation w s"
  by (simp add: stops_on_violation_def no_violation_update)

lemma stops_violate:
  assumes "gw_term w" and "i < length (gm_devices s)" and "\<And>d. 0 < viols (inc d)"
    and "stops_on_violation w s"
  shows "stops_on_violation w (violate w i msg inc s)"
proof -
  have exited: "gm_exited s \<longrightarrow> gw_force w" using assms(4) unfolding stops_on_violation_def by blast
  have viol: "\<not> no_violation (violate w i msg inc s)"
    using assms(2) assms(3) [of "gm_devices s ! i"]
    by (auto simp: no_violation_def list_all_length intro!: exI [of _ i])
  have stop: "Gm_stop (gw_force w) \<in> set (gm_events (violate w i msg inc s))"
    using assms(1) by (simp add: violate_def Let_def)
  show ?thesis
    unfolding stops_on_violation_def using viol stop exited assms(1) by simp blast
qed

lemma stops_fields:
  "stops_on_violation w (s\<lparr>gm_fan_percentage := v\<rparr>) = stops_on_violation w s"
  "stops_on_violation w (s\<lparr>gm_left := l\<rparr>) = stops_on_violation w s"
  "stops_on_violation w (s\<lparr>gm_count := n\<rparr>) = stops_on_violation w s"
  by (simp_all add: stops_on_violation_def no_violation_def)

lemma stops_sample:
  assumes "gw_term w" and "i < length (gm_devices s)" and "stops_on_violation w s"
  shows "stops_on_violation w (sample_mem_clock w i x s)" "stops_on_violation w (sample_clock w i x s)"
    "stops_on_violation w (sample_temp w i x s)" "stops_on_violation w (sample_fan w i x s)"
    "stops_on_violation w (sample_power w i x s)"
  using assms
  by (simp_all add: sample_defs stops_update stops_violate stops_emit stops_fields viols_def split: option.split)

lemma stops_sample_device:
  assumes "gw_term w" and "i < length (gm_devices s)" and "stops_on_violation w s"
  shows "stops_on_violation w (sample_device w i x s) \<and> length (gm_devices (sample_device w i x s)) = length (gm_devices s)"
  using assms by (simp add: sample_device_def unless_over_def stops_sample)

lemma stops_sample_devices:
  assumes "gw_term w" and "i + length xs \<le> length (gm_devices s)" and "stops_on_violation w s"
  shows "stops_on_violation w (sample_devices w i xs s) \<and>
    length (gm_devices (sample_devices w i xs s)) = length (gm_devices s) \<and>
    gm_count (sample_devices w i xs s) = gm_count s"
  using assms(2,3)
proof (induction xs arbitrary: i s)
  case Nil
  then show ?case by simp
next
  case (Cons x xs)
  let ?s = "unless_over (sample_device w i x) s"
  have s: "stops_on_violation w ?s" "length (gm_devices ?s) = length (gm_devices s)"
    using stops_sample_device [OF assms(1) _ Cons.prems(2), of i x] Cons.prems by (simp_all add: unless_over_def)
  have "gm_count ?s = gm_count s" by (simp add: unless_over_def sample_device_def)
  with Cons.IH [OF _ s(1), of "Suc i"] Cons.prems(1) s(2) show ?case by simp
qed

lemma stops_sweep:
  assumes "gw_term w" and "length xs = length (gm_devices s)" and "stops_on_violation w s"
  shows "stops_on_violation w (gm_sweep w xs s)" and "length (gm_devices (gm_sweep w xs s)) = length (gm_devices s)"
    and "\<not> gm_exited (gm_sweep w xs s) \<Longrightarrow> gm_count (gm_sweep w xs s) = gm_count s + 1"
proof -
  have "0 + length xs \<le> length (gm_devices (s\<lparr>gm_left := False\<rparr>))" using assms(2) by simp
  from stops_sample_devices [OF assms(1) this] assms(3)
  show "stops_on_violation w (gm_sweep w xs s)" "length (gm_devices (gm_sweep w xs s)) = length (gm_devices s)"
    "\<not> gm_exited (gm_sweep w xs s) \<Longrightarrow> gm_count (gm_sweep w xs s) = gm_count s + 1"
    by (auto simp: gm_sweep_def Let_def stops_fields)
qed

lemma stops_do_metric_values:
  "stops_on_violation w (do_metric_values w s) = stops_on_violation w s"
proof -
  have "stops_on_violation w (fold (\<lambda>t. gm_emit (Gm_log t loginfo)) ls s) = stops_on_violation w s" for ls
    by (rule fold_keeps) (simp add: stops_emit)
  then show ?thesis by (simp add: do_metric_values_def Let_def stops_emit)
qed

lemma gm_loop_stops:
  assumes "gw_term w" and "list_all (\<lambda>xs. length xs = length (gm_devices s)) (sweeps steps)"
    and "stops_on_violation w s"
  shows "stops_on_violation w (gm_loop w steps s) \<and>
    (gm_brun (gm_loop w steps s) \<longrightarrow> \<not> gm_exited (gm_loop w steps s) \<longrightarrow>
       gm_count (gm_loop w steps s) = gm_count s + length (sweeps steps))"
  using assms(2,3)
proof (induction steps arbitrary: s rule: sweeps.induct)
  case 1
  then show ?case by simp
next
  case (2 xs ss)
  show ?case
  proof (cases "gm_brun s \<and> \<not> gm_exited s")
    case True
    have len: "length xs = length (gm_devices s)" using "2.prems"(1) by simp
    note sw = stops_sweep [OF assms(1) len "2.prems"(2)]
    have "list_all (\<lambda>ys. length ys = length (gm_devices (gm_sweep w xs s))) (sweeps ss)"
      using "2.prems"(1) by (simp add: sw(2))
    note ih = "2.IH" [OF this sw(1)]
    have run: "gm_loop w (Sweep xs # ss) s = gm_loop w ss (gm_sweep w xs s)" using True by simp
    have halt: "gm_loop w ss t = t" if "gm_exited t" for t using that by (cases ss) auto
    show ?thesis
    proof (cases "gm_exited (gm_sweep w xs s)")
      case True
      with run halt [OF True] sw(1) show ?thesis by simp
    next
      case False
      with run ih sw(3) show ?thesis by simp
    qed
  qed (use "2.prems" in auto)
next
  case (3 ss)
  show ?case
  proof (cases "gm_brun s \<and> \<not> gm_exited s")
    case True
    with "3.IH" [of "if gw_log_interval w \<noteq> 0 then do_metric_values w s else s"] "3.prems" show ?thesis
      by (simp add: stops_do_metric_values)
  qed (use "3.prems" in auto)
qed

lemma stops_start:
  assumes "Gm_stop (gw_force w) \<notin> set evs"
  shows "stops_on_violation w (gm_announce w (gm_start g w evs))"
proof -
  have "stops_on_violation w (gm_start g w evs)"
    using assms by (auto simp: stops_on_violation_def no_violation_def list_all_iff viols_def
        gm_device_new_def gm_start_def)
  moreover have "stops_on_violation w (gm_announce w s) = stops_on_violation w s" for s
    by (rule gm_announce_keeps) (simp_all add: stops_emit)
  ultimately show ?thesis by simp
qed

section \<open>Sums\<close>

lemma sum_list_u64:
  assumes "length xs * 2 ^ 32 \<le> (2 :: nat) ^ 64"
  shows "unat (sum_list (map (\<lambda>x. ucast (f x) :: u64) xs)) = sum_list (map (\<lambda>x. unat (f x :: u32)) xs)"
    and "sum_list (map (\<lambda>x. unat (f x)) xs) \<le> length xs * (2 ^ 32 - 1)"
proof -
  have below: "sum_list (map (\<lambda>x. unat (f x)) ys) \<le> length ys * (2 ^ 32 - 1)" for ys
  proof (induction ys)
    case (Cons y ys)
    have "unat (f y) \<le> 2 ^ 32 - 1" using unsigned_less [of "f y", where 'a = nat] by simp
    with Cons show ?case by simp
  qed simp
  show "sum_list (map (\<lambda>x. unat (f x)) xs) \<le> length xs * (2 ^ 32 - 1)" by (rule below)
  have cast: "unat (ucast (v :: u32) :: u64) = unat v" for v
    using unsigned_less [of v, where 'a = nat] by (simp add: unsigned_ucast_eq take_bit_eq_mod)
  show "unat (sum_list (map (\<lambda>x. ucast (f x) :: u64) xs)) = sum_list (map (\<lambda>x. unat (f x)) xs)"
    using assms
  proof (induction xs)
    case (Cons x xs)
    then have ih: "unat (sum_list (map (\<lambda>x. ucast (f x) :: u64) xs)) = sum_list (map (\<lambda>x. unat (f x)) xs)" by simp
    have "sum_list (map (\<lambda>x. unat (f x)) (x # xs)) < 2 ^ 64"
      using below [of "x # xs"] Cons.prems by simp
    then show ?case by (simp add: unat_word_ariths ih cast)
  qed simp
qed

lemma sum_list_between:
  fixes f :: "'a \<Rightarrow> nat"
  assumes "list_all (\<lambda>x. lo \<le> f x \<and> f x \<le> hi) xs"
  shows "lo * length xs \<le> sum_list (map f xs) \<and> sum_list (map f xs) \<le> hi * length xs"
  using assms by (induction xs) auto

section \<open>A sample\<close>

text \<open>Two GPUs at rest, two sweeps; the clock is bounded below by \<open>lo\<close>.\<close>

definition sample_gm_worker :: "bool \<Rightarrow> u32 \<Rightarrow> gm_worker" where
  "sample_gm_worker trm lo = \<lparr>gw_action_name = ''m'', gw_stop_action_name = ''m'', gw_log_interval = 0,
     gw_term = trm, gw_force = False,
     gw_bounds = [(''clock'', \<lparr>mon_metric = True, check_bounds = True, max_val = 10, min_val = lo\<rparr>)],
     gw_devices = [7, 9]\<rparr>"

definition idle_gm_sample :: gm_sample where
  "idle_gm_sample = \<lparr>gs_mem_freq = 0, gs_sys_freq = 0, gs_temperature = None, gs_fan_speed = None,
     gs_fan_max = None, gs_socket_power = 0\<rparr>"

definition sample_gm_steps :: "gm_step list" where
  "sample_gm_steps = [Sweep [idle_gm_sample, idle_gm_sample], Timer, Sweep [idle_gm_sample, idle_gm_sample]]"

lemma sample_gm_fields [simp]:
  "gw_term (sample_gm_worker trm lo) = trm" "gw_force (sample_gm_worker trm lo) = False"
  "gw_devices (sample_gm_worker trm lo) = [7, 9]" "gw_log_interval (sample_gm_worker trm lo) = 0"
  "sweeps sample_gm_steps = [[idle_gm_sample, idle_gm_sample], [idle_gm_sample, idle_gm_sample]]"
  "sys_mhz idle_gm_sample = 0"
  "bound_of (sample_gm_worker trm lo) ''clock'' = \<lparr>mon_metric = True, check_bounds = True, max_val = 10, min_val = lo\<rparr>"
  "bound_of (sample_gm_worker trm lo) ''temp'' = no_bound"
  "bound_of (sample_gm_worker trm lo) ''mem_clock'' = no_bound"
  "bound_of (sample_gm_worker trm lo) ''power'' = no_bound" "bound_of (sample_gm_worker trm lo) ''fan'' = no_bound"
  by (simp_all add: sample_gm_worker_def sample_gm_steps_def sys_mhz_def to_mhz_def idle_gm_sample_def
      float64_def trunc_int_def bound_of_def)

section \<open>Properties\<close>



text \<open>
  The check of the power does not look at the power: without the key terminate, the counter of a
  monitored GPU is either 0 or the number of sweeps, and which of the two is decided by the value
  an uninitialised variable happens to have, not by any sample.
\<close>

theorem gm_power_check_ignores_samples:
  assumes "\<not> gw_term w" and "list_all (\<lambda>xs. length xs = length (gw_devices w)) (sweeps steps)"
    and "j < length (gw_devices w)"
  shows "gd_power_violation (gm_devices (gm_worker_run (fan, pw) w steps evs) ! j) =
    (if power_alarm (bound_of w ''power'') pw then length (sweeps steps) else 0)"
  using run_tracked [OF assms, of "(fan, pw)" evs] by (simp add: fold_track tracked_def)

theorem gm_power_check_ignores_samples_witness:
  "gd_power_violation (gm_devices (gm_worker_run (0, 5) (sample_gm_worker False 1) sample_gm_steps []) ! 1) = 0"
  using gm_power_check_ignores_samples [of "sample_gm_worker False 1" sample_gm_steps 1 0 5 "[]"]
  by (simp add: power_alarm_def no_bound_def)

text \<open>
  If the clock of a GPU is monitored, checked and never violated, the average that is reported lies
  between the bounds (for runs of at most \<open>2 ^ 32\<close> sweeps).
\<close>

theorem gm_average_within_bounds:
  assumes "\<not> gw_term w" and "list_all (\<lambda>xs. length xs = length (gw_devices w)) (sweeps steps)"
    and "j < length (gw_devices w)" and "d = gm_devices (gm_worker_run g w steps evs) ! j"
    and "mon_metric (bound_of w ''clock'')" and "check_bounds (bound_of w ''clock'')"
    and "gd_clock_violation d = 0" and "0 < length (sweeps steps)" and "length (sweeps steps) \<le> 2 ^ 32"
  shows "unat (min_val (bound_of w ''clock'')) \<le> unat (gd_av_clock d) div length (sweeps steps) \<and>
    unat (gd_av_clock d) div length (sweeps steps) \<le> unat (max_val (bound_of w ''clock''))"
proof -
  let ?b = "bound_of w ''clock''" let ?xs = "map (\<lambda>ys. ys ! j) (sweeps steps)" let ?n = "length (sweeps steps)"
  have v: "filter (\<lambda>x. violates ?b (uint (sys_mhz x))) ?xs = []"
    and av: "gd_av_clock d = sum_list (map (\<lambda>x. ucast (sys_mhz x)) ?xs)"
    using run_tracked(1) [OF assms(1-3), of g evs] assms(4,5,7)
    by (simp_all add: fold_track tracked_def filter_map)
  have "list_all (\<lambda>x. unat (min_val ?b) \<le> unat (sys_mhz x) \<and> unat (sys_mhz x) \<le> unat (max_val ?b)) ?xs"
    using v assms(5,6)
    by (auto simp: filter_empty_conv list_all_iff violates_def out_of_bounds_def word_le_nat_alt [symmetric]
        word_le_def)
  then have "unat (min_val ?b) * ?n \<le> sum_list (map (\<lambda>x. unat (sys_mhz x)) ?xs)"
    "sum_list (map (\<lambda>x. unat (sys_mhz x)) ?xs) \<le> unat (max_val ?b) * ?n"
    using sum_list_between [of "unat (min_val ?b)" "\<lambda>x. unat (sys_mhz x)" "unat (max_val ?b)" ?xs] by simp_all
  moreover have "unat (gd_av_clock d) = sum_list (map (\<lambda>x. unat (sys_mhz x)) ?xs)"
    unfolding av by (rule sum_list_u64) (use assms(9) in simp)
  ultimately show ?thesis
    using assms(8) by (simp only:) (metis div_le_mono nonzero_mult_div_cancel_right not_gr_zero)
qed

theorem gm_average_within_bounds_witness:
  "unat (gd_av_clock (gm_devices (gm_worker_run (0, 0) (sample_gm_worker False 0) sample_gm_steps []) ! 1)) div
     length (sweeps sample_gm_steps) \<le> 10"
proof -
  have "gd_clock_violation (gm_devices (gm_worker_run (0, 0) (sample_gm_worker False 0) sample_gm_steps []) ! 1) = 0"
    using run_tracked(1) [of "sample_gm_worker False 0" sample_gm_steps 1 "(0, 0)" "[]"]
    by (simp add: track_step_def Let_def tracked_def violates_def out_of_bounds_def)
  from gm_average_within_bounds [OF _ _ _ refl _ _ this] show ?thesis by simp
qed

text \<open>
  C30: With the key terminate, the loop of a run is left before its end exactly when a violation was
  counted: as long as every counter is 0 all sweeps are made and no stop is requested; otherwise
  a stop is requested, and the process ends if the key force is set and only then.
\<close>

theorem gm_terminates_on_violation:
  assumes "gw_term w" and "list_all (\<lambda>xs. length xs = length (gw_devices w)) (sweeps steps)"
    and "s = gm_loop w steps (gm_announce w (gm_start g w []))"
  shows "(no_violation s \<longleftrightarrow> gm_brun s \<and> \<not> gm_exited s) \<and>
    (no_violation s \<longleftrightarrow> Gm_stop (gw_force w) \<notin> set (gm_events s)) \<and>
    (gm_exited s \<longleftrightarrow> gw_force w \<and> \<not> no_violation s) \<and> (no_violation s \<longrightarrow> gm_count s = length (sweeps steps))"
proof -
  have "Gm_stop (gw_force w) \<notin> set []" by simp
  note start = stops_start [OF this, where g = g]
  have "list_all (\<lambda>xs. length xs = length (gm_devices (gm_announce w (gm_start g w [])))) (sweeps steps)"
    using assms(2) by simp
  from gm_loop_stops [OF assms(1) this start] have s: "stops_on_violation w s"
    "gm_brun s \<longrightarrow> \<not> gm_exited s \<longrightarrow> gm_count s = length (sweeps steps)"
    by (simp_all add: assms(3))
  then show ?thesis unfolding stops_on_violation_def by blast
qed

theorem gm_terminates_on_violation_witness:
  "\<not> no_violation (gm_loop (sample_gm_worker True 1) sample_gm_steps
      (gm_announce (sample_gm_worker True 1) (gm_start (0, 0) (sample_gm_worker True 1) [])))"
proof -
  let ?w = "sample_gm_worker True 1" let ?s = "gm_loop ?w sample_gm_steps (gm_announce ?w (gm_start (0, 0) ?w []))"
  have only: "sample_device ?w i idle_gm_sample t = unless_over (sample_clock ?w i idle_gm_sample) t" for i t
    by (simp add: sample_device_def unless_over_def sample_mem_clock_def sample_temp_def sample_fan_def
        sample_power_def no_bound_def Let_def)
  have off: "\<not> gm_brun (sample_clock ?w i idle_gm_sample t)" "\<not> gm_exited t \<Longrightarrow> \<not> gm_exited (sample_clock ?w i idle_gm_sample t)"
    for i t by (simp_all add: sample_clock_def sys_mhz_def [symmetric] out_of_bounds_def Let_def)
  have sweep: "\<not> gm_brun (gm_sweep ?w [idle_gm_sample, idle_gm_sample] t)" if "\<not> gm_exited t" for t
    using that by (simp add: gm_sweep_def Let_def unless_over_def only off)
  have "\<not> gm_brun ?s"
    using sweep [of "gm_announce ?w (gm_start (0, 0) ?w [])"] by (simp add: sample_gm_steps_def)
  moreover have "no_violation ?s \<longleftrightarrow> gm_brun ?s \<and> \<not> gm_exited ?s"
    using gm_terminates_on_violation [of ?w sample_gm_steps ?s "(0, 0)"] by simp
  ultimately show ?thesis by simp
qed

text \<open>
  After an action, the module has a worker exactly when the action succeeded; the worker of an
  earlier action never survives it.
\<close>

theorem gm_action_one_worker:
  assumes "gm_action_run wd steps m pw = Gm_done (code, res, evs, pw')"
  shows "(gm_pworker pw' = None \<longleftrightarrow> ar_status res = ACTION_FAILED) \<and>
    (ar_status res = ACTION_FAILED \<and> code = 0 \<longleftrightarrow> gm_property m ''monitor'' \<noteq> ''true'')"
proof -
  obtain pw1 evs1 where stop: "stop_pworker wd (gm_property m ''name'') steps pw = Gm_done (pw1, evs1)"
    using assms by (auto simp: gm_action_run_def split: gm_outcome.splits)
  then have none: "gm_pworker pw1 = None"
    by (auto simp: stop_pworker_def Let_def split: option.splits prod.splits if_splits)
  show ?thesis
    using assms none unfolding gm_action_run_def start_monitoring_def
    by (auto simp: stop gm_result_def Let_def split: option.splits prod.splits if_splits list.splits sum.splits)
qed

theorem gm_action_one_worker_witness:
  "gm_action_run \<lparr>gmw_nodes = [], gmw_gpus = gpulist_empty, gmw_sockets = [], gmw_garbage = (0, 0)\<rparr> []
       \<lparr>ga_base = sample_raw, prop_terminate = False, prop_force = False, ga_sample_interval = 0, property_bounds = []\<rparr>
       \<lparr>gm_pworker = None, gm_smi_map = [] :: (u64, unit) omap\<rparr> =
     Gm_done (0, gm_result ACTION_FAILED ''GM Module action  completed'', [], \<lparr>gm_pworker = None, gm_smi_map = []\<rparr>)"
  (is "?run = Gm_done (0, ?res, [], ?pw)")
proof -
  have run: "?run = Gm_done (0, ?res, [], ?pw)"
    by (simp add: gm_action_run_def stop_pworker_def gm_property_def sample_raw_def)
  from gm_action_one_worker [OF this] run show ?thesis by simp
qed

end
