(* ===== verification/Smqt.thy ===== *)
theory Smqt
  imports Float_Model Pci_Caps Action_Base
begin

text \<open>
  \<^verbatim>\<open>smqt.so/src/action.cpp\<close>: the check of the address windows (BARs) the SBIOS gave to a GPU against
  the configured limits.  The limits and the flag of the common keys are global variables of the
  module, so they survive from one action to the next; they are the record \<open>smqt_globals\<close>.
\<close>

section \<open>Configuration\<close>

record smqt_globals =
  bar1_req_size :: u64
  bar2_req_size :: u64
  bar4_req_size :: u64
  bar5_req_size :: u64
  bar1_base_addr_min :: u64
  bar2_base_addr_min :: u64
  bar4_base_addr_min :: u64
  bar1_base_addr_max :: u64
  bar2_base_addr_max :: u64
  bar4_base_addr_max :: u64
  keysts :: bool

definition smqt_globals_init :: smqt_globals where
  "smqt_globals_init = \<lparr>bar1_req_size = 0, bar2_req_size = 0, bar4_req_size = 0, bar5_req_size = 0,
     bar1_base_addr_min = 0, bar2_base_addr_min = 0, bar4_base_addr_min = 0,
     bar1_base_addr_max = 0, bar2_base_addr_max = 0, bar4_base_addr_max = 0, keysts = True\<rparr>"

text \<open>The routine of this module: nothing ever sets the flag back to true.\<close>

definition smqt_common_config_keys ::
  "('cb, 'up) actionbase \<Rightarrow> smqt_globals \<Rightarrow> (log_event list \<times> ('cb, 'up) actionbase \<times> smqt_globals) option" where
  "smqt_common_config_keys a g =
     (case property_get_string a ''name'' (action_name a) of
        (s0, nm) \<Rightarrow>
          let a = a\<lparr>action_name := nm\<rparr>;
              r = step_key s0 [Log_err ''Action name missing''] (keysts g, [])
          in (case property_get_device a of
                None \<Rightarrow> None
              | Some (s1, a) \<Rightarrow>
                  let r = step_key s1 [Log_err (if s1 = 1 then ''Invalid 'device' key value.''
                                                else ''Missing 'device' key.'')] r;
                      (e2, did) = property_get_int_def a ''deviceid'' (property_device_id a) 0;
                      a = a\<lparr>property_device_id := did\<rparr>;
                      r = step_key e2 [Log_err ''Invalid 'deviceid' key value.''] r
                  in (case property_get_device_index a of
                        None \<Rightarrow> None
                      | Some (s3, a) \<Rightarrow>
                          let a = (if s3 \<noteq> 0 then a\<lparr>property_device_index_all := True\<rparr> else a);
                              evs = (if s3 \<noteq> 0
                                     then snd r @ [Log_msg (if s3 = 1 then ''Invalid 'device_index' key value.''
                                                            else ''Missing 'device_index' key.'') loginfo]
                                     else snd r)
                          in Some (evs, a, g\<lparr>keysts := fst r\<rparr>))))"

text \<open>The keys in the order of the macro calls, each with the assignment of its variable.\<close>

definition bar_keys :: "(string \<times> (u64 \<Rightarrow> smqt_globals \<Rightarrow> smqt_globals)) list" where
  "bar_keys =
     [(''bar1_req_size'', \<lambda>v g. g\<lparr>bar1_req_size := v\<rparr>), (''bar2_req_size'', \<lambda>v g. g\<lparr>bar2_req_size := v\<rparr>),
      (''bar4_req_size'', \<lambda>v g. g\<lparr>bar4_req_size := v\<rparr>), (''bar5_req_size'', \<lambda>v g. g\<lparr>bar5_req_size := v\<rparr>),
      (''bar1_base_addr_min'', \<lambda>v g. g\<lparr>bar1_base_addr_min := v\<rparr>),
      (''bar2_base_addr_min'', \<lambda>v g. g\<lparr>bar2_base_addr_min := v\<rparr>),
      (''bar4_base_addr_min'', \<lambda>v g. g\<lparr>bar4_base_addr_min := v\<rparr>),
      (''bar1_base_addr_max'', \<lambda>v g. g\<lparr>bar1_base_addr_max := v\<rparr>),
      (''bar2_base_addr_max'', \<lambda>v g. g\<lparr>bar2_base_addr_max := v\<rparr>),
      (''bar4_base_addr_max'', \<lambda>v g. g\<lparr>bar4_base_addr_max := v\<rparr>)]"

text \<open>The macro writes \<^verbatim>\<open>#bar\<close> inside a string, so the message does not name the key.\<close>

fun fetch_bar_keys ::
  "('cb, 'up) actionbase \<Rightarrow> (string \<times> (u64 \<Rightarrow> smqt_globals \<Rightarrow> smqt_globals)) list \<Rightarrow> smqt_globals
     \<Rightarrow> (bool \<times> log_event list) \<times> smqt_globals" where
  "fetch_bar_keys a [] g = ((True, []), g)"
| "fetch_bar_keys a ((k, set_var) # ks) g =
     (case property_get_int a k (0 :: u64) of
        (err, v) \<Rightarrow>
          if err = 1 then ((False, [Log_err ''Invalid #bar key'']), g)
          else if err = 2 then ((False, [Log_err ''Missing #bar key'']), g)
          else fetch_bar_keys a ks (set_var v g))"

definition get_all_smqt_config_keys ::
  "('cb, 'up) actionbase \<Rightarrow> smqt_globals \<Rightarrow> (bool \<times> log_event list) \<times> smqt_globals" where
  "get_all_smqt_config_keys a g = fetch_bar_keys a bar_keys g"

section \<open>One device\<close>

text \<open>
  The divisions by 1024 are exact.  \<open>None\<close>: the text needs a sixth suffix, which the array does
  not have.
\<close>

fun unit_loop :: "nat \<Rightarrow> rat \<Rightarrow> nat \<Rightarrow> rat \<times> nat" where
  "unit_loop 0 v s = (v, s)"
| "unit_loop (Suc n) v s = (if 1024 \<le> v then unit_loop n (v / 1024) (Suc s) else (v, s))"

definition pretty_print :: "u64 \<Rightarrow> u16 \<Rightarrow> string \<Rightarrow> string \<Rightarrow> string option" where
  "pretty_print bytes gid act bar_name =
     (case unit_loop 5 (float64 (of_nat (unat bytes))) 0 of
        (v, s) \<Rightarrow>
          if s < 5 then
            Some (''['' @ act @ '']  smqt '' @ to_string (unat gid) @ '' '' @ bar_name @ ''      '' @
                  to_string (unat bytes) @ '' ('' @ fixed_text 2 v @
                  (['' B'', '' KB'', '' MB'', '' GB'', '' TB''] ! s) @ '')'')
          else None)"

record bar_values =
  bv1_addr :: u64
  bv1_size :: u64
  bv2_addr :: u64
  bv2_size :: u64
  bv4_addr :: u64
  bv4_size :: u64
  bv5_size :: u64

definition bar_at :: "pci_dev \<Rightarrow> nat \<Rightarrow> u64 \<times> u64" where
  "bar_at dev i = (if i < length (pd_bars dev) then pd_bars dev ! i else (0, 0))"

definition read_bars :: "pci_dev \<Rightarrow> bar_values" where
  "read_bars dev =
     \<lparr>bv1_addr = fst (bar_at dev 0), bv1_size = snd (bar_at dev 0),
      bv2_addr = fst (bar_at dev 2), bv2_size = snd (bar_at dev 2),
      bv4_addr = fst (bar_at dev 5), bv4_size = snd (bar_at dev 5), bv5_size = pd_rom_size dev\<rparr>"

definition bars_pass :: "smqt_globals \<Rightarrow> bar_values \<Rightarrow> bool" where
  "bars_pass g v =
     (let pass = True;
          pass = (if bv1_addr v < bar1_base_addr_min g \<or> bar1_base_addr_max g < bv1_addr v then False else pass);
          pass = (if bv2_addr v < bar2_base_addr_min g \<or> bar2_base_addr_max g < bv2_addr v then False else pass);
          pass = (if bv4_addr v < bar4_base_addr_min g \<or> bar4_base_addr_max g < bv4_addr v then False else pass)
      in if bv1_size v < bar1_req_size g \<or> bar2_req_size g < bv2_size v \<or>
            bar4_req_size g < bv4_size v \<or> bar5_req_size g < bv5_size v
         then False else pass)"

datatype smqt_event =
    Sq_note log_event
  | Sq_running string
  | Sq_json "(string \<times> string) list" int

text \<open>The lines and records of one device; the callback is called with the text \<open>msg\<close> of the run.\<close>

definition address_line :: "string \<Rightarrow> u16 \<Rightarrow> string \<Rightarrow> u64 \<Rightarrow> string" where
  "address_line act gid nm addr =
     ''['' @ act @ '']  smqt '' @ to_string (unat gid) @ '' '' @ nm @ '' '' @ hex_upper (unat addr)"

definition report_bars :: "string \<Rightarrow> u16 \<Rightarrow> bar_values \<Rightarrow> bool \<Rightarrow> string \<Rightarrow> smqt_event list option" where
  "report_bars act gid v pass msg =
     (case (pretty_print (bv1_size v) gid act ''bar1_size'', pretty_print (bv2_size v) gid act ''bar2_size'',
            pretty_print (bv4_size v) gid act ''bar4_size'', pretty_print (bv5_size v) gid act ''bar5_size'') of
        (Some s1, Some s2, Some s4, Some s5) \<Rightarrow>
          Some (map (\<lambda>t. Sq_note (Log_msg t loginfo))
                  [s1, address_line act gid ''bar1_base_addr'' (bv1_addr v),
                   s2, address_line act gid ''bar2_base_addr'' (bv2_addr v),
                   s4, address_line act gid ''bar4_base_addr'' (bv4_addr v), s5] @
                [Sq_note (Log_msg (''['' @ act @ '']  smqt '' @ to_string (unat gid) @ '' '' @
                     (if pass then ''true'' else ''false'')) logresults),
                 Sq_running msg,
                 Sq_json [(''gpu'', to_string (unat gid)),
                    (''bar1_size'', to_string (unat (bv1_size v))), (''bar1_base_addr'', to_string (unat (bv1_addr v))),
                    (''bar2_size'', to_string (unat (bv2_size v))), (''bar2_base_addr'', to_string (unat (bv2_addr v))),
                    (''bar4_size'', to_string (unat (bv4_size v))), (''bar4_base_addr'', to_string (unat (bv4_addr v))),
                    (''bar5_size'', to_string (unat (bv4_size v)))] loginfo,
                 Sq_json [(''pass'', if pass then ''1'' else ''0'')] logresults])
      | _ \<Rightarrow> None)"

section \<open>The run\<close>

text \<open>
  The state of the loop: a device was found, all devices passed, the member \<^verbatim>\<open>dev_id\<close> (which keeps
  its value when a look-up finds nothing), the events.  \<open>None\<close>: a table or the array of suffixes is
  read past its end.
\<close>

definition bar_location :: "pci_dev \<Rightarrow> u16" where
  "bar_location dev = (push_bit 8 (ucast (pd_bus dev)) OR push_bit 3 (ucast (pd_dev dev))) OR ucast (pd_func dev)"

fun bars_loop ::
  "gpulist \<Rightarrow> ('cb, 'up) actionbase \<Rightarrow> smqt_globals \<Rightarrow> pci_dev list \<Rightarrow> bool \<times> bool \<times> u16 \<times> smqt_event list
     \<Rightarrow> (bool \<times> bool \<times> u16 \<times> smqt_event list) option" where
  "bars_loop gl a g [] st = Some st"
| "bars_loop gl a g (dev # devs) (found, ok, did, evs) =
     (case location2gpu gl (bar_location dev) of
        Out_of_bounds \<Rightarrow> None
      | Not_found \<Rightarrow> bars_loop gl a g devs (found, ok, did, evs)
      | Found gid \<Rightarrow>
          (case (if 0 < property_device_id a
                 then (case gpu2device gl gid of
                         Out_of_bounds \<Rightarrow> None | Not_found \<Rightarrow> Some did | Found d \<Rightarrow> Some d)
                 else Some did) of
             None \<Rightarrow> None
           | Some did \<Rightarrow>
               if 0 < property_device_id a \<and> property_device_id a \<noteq> did
               then bars_loop gl a g devs (found, ok, did, evs)
               else if \<not> property_device_all a \<and> \<not> list_ex (\<lambda>x. x = gid) (property_device a)
               then bars_loop gl a g devs (True, ok, did, evs)
               else
                 (let v = read_bars dev; pass = bars_pass g v in
                  case report_bars (action_name a) gid v pass [] of
                    None \<Rightarrow> None
                  | Some new \<Rightarrow> bars_loop gl a g devs (True, ok \<and> pass, did, evs @ new))))"

definition smqt_result :: "actionstatus \<Rightarrow> string \<Rightarrow> action_result_t" where
  "smqt_result st t = \<lparr>ar_state = ACTION_COMPLETED, ar_status = st, ar_output = t\<rparr>"

text \<open>\<open>did\<close> is the initial value of the member \<^verbatim>\<open>dev_id\<close>.\<close>

definition smqt_action_run ::
  "gpulist \<Rightarrow> pci_dev list \<Rightarrow> u16 \<Rightarrow> ('cb, 'up) actionbase \<Rightarrow> smqt_globals
     \<Rightarrow> (int \<times> action_result_t \<times> smqt_event list \<times> smqt_globals) option" where
  "smqt_action_run gl devs did a0 g0 =
     (case smqt_common_config_keys a0 g0 of
        None \<Rightarrow> None
      | Some (evs1, a, g) \<Rightarrow>
          if \<not> keysts g then
            (let msg = ''Couldn't fetch common config keys from the configuration file!''
             in Some (-1, smqt_result ACTION_FAILED msg, map Sq_note (evs1 @ [Log_err msg]), g))
          else
            (case get_all_smqt_config_keys a g of
               ((False, evs2), g) \<Rightarrow>
                 (let msg = ''Couldn't fetch smqt config keys from the configuration file!''
                  in Some (-1, smqt_result ACTION_FAILED msg, map Sq_note (evs1 @ evs2 @ [Log_err msg]), g))
             | ((True, evs2), g) \<Rightarrow>
                 (case bars_loop gl a g devs (False, True, did, map Sq_note (evs1 @ evs2)) of
                    None \<Rightarrow> None
                  | Some (found, ok, _, evs) \<Rightarrow>
                      if \<not> found then
                        (let msg = ''No devices match criteria from the test configuration.''
                         in Some (-1, smqt_result ACTION_FAILED msg, evs @ [Sq_note (Log_err msg)], g))
                      else
                        Some (if ok then 0 else -1,
                              smqt_result (if ok then ACTION_SUCCESS else ACTION_FAILED)
                                (''SMQT Module action '' @ action_name a @ '' completed''), evs, g))))"

end
