(* ===== verification/Smqt_Props.thy ===== *)
theory Smqt_Props
  imports Smqt
begin

text \<open>
  The properties of the SBIOS mapping test: when an action passes, and how the flag of the common
  keys carries a failure over to later actions.
\<close>

section \<open>The check of the devices\<close>

text \<open>The limits of one device, stated per window.\<close>

definition bars_within :: "smqt_globals \<Rightarrow> pci_dev \<Rightarrow> bool" where
  "bars_within g dev \<longleftrightarrow>
     (let v = read_bars dev in
      bv1_addr v \<in> {bar1_base_addr_min g..bar1_base_addr_max g} \<and> bar1_req_size g \<le> bv1_size v \<and>
      bv2_addr v \<in> {bar2_base_addr_min g..bar2_base_addr_max g} \<and> bv2_size v \<le> bar2_req_size g \<and>
      bv4_addr v \<in> {bar4_base_addr_min g..bar4_base_addr_max g} \<and> bv4_size v \<le> bar4_req_size g \<and>
      bv5_size v \<le> bar5_req_size g)"

lemma bars_pass_iff: "bars_pass g (read_bars dev) \<longleftrightarrow> bars_within g dev"
  by (auto simp: bars_pass_def bars_within_def Let_def)

text \<open>A GPU whose device id is the wanted one; a device that the action looks at.\<close>

definition matches_device_id :: "gpulist \<Rightarrow> ('cb, 'up) actionbase \<Rightarrow> pci_dev \<Rightarrow> bool" where
  "matches_device_id gl a dev \<longleftrightarrow>
     (\<exists>gid. location2gpu gl (bar_location dev) = Found gid \<and>
        (property_device_id a = 0 \<or> gpu2device gl gid = Found (property_device_id a)))"

definition looked_at :: "gpulist \<Rightarrow> ('cb, 'up) actionbase \<Rightarrow> pci_dev \<Rightarrow> bool" where
  "looked_at gl a dev \<longleftrightarrow> matches_device_id gl a dev \<and>
     (property_device_all a \<or> (\<exists>gid \<in> set (property_device a). location2gpu gl (bar_location dev) = Found gid))"

text \<open>The tables answer for the device, and its sizes can be printed.\<close>

definition printable :: "u64 \<Rightarrow> bool" where
  "printable v \<longleftrightarrow> snd (unit_loop 5 (float64 (of_nat (unat v))) 0) < 5"

definition bars_readable :: "gpulist \<Rightarrow> pci_dev \<Rightarrow> bool" where
  "bars_readable gl dev \<longleftrightarrow>
     (case location2gpu gl (bar_location dev) of
        Out_of_bounds \<Rightarrow> False
      | Not_found \<Rightarrow> True
      | Found gid \<Rightarrow> (case gpu2device gl gid of Found d \<Rightarrow> True | _ \<Rightarrow> False)) \<and>
     (let v = read_bars dev in
      printable (bv1_size v) \<and> printable (bv2_size v) \<and> printable (bv4_size v) \<and> printable (bv5_size v))"

lemma pretty_print_defined: "printable v \<Longrightarrow> \<exists>t. pretty_print v gid act nm = Some t"
  by (auto simp: printable_def pretty_print_def split: prod.splits)

lemma report_bars_defined:
  assumes "bars_readable gl dev"
  shows "\<exists>new. report_bars act gid (read_bars dev) pass msg = Some new"
proof -
  let ?v = "read_bars dev"
  obtain t1 t2 t4 t5 where "pretty_print (bv1_size ?v) gid act ''bar1_size'' = Some t1"
    "pretty_print (bv2_size ?v) gid act ''bar2_size'' = Some t2"
    "pretty_print (bv4_size ?v) gid act ''bar4_size'' = Some t4"
    "pretty_print (bv5_size ?v) gid act ''bar5_size'' = Some t5"
    using assms by (metis bars_readable_def pretty_print_defined)
  then show ?thesis by (simp add: report_bars_def)
qed

lemma bars_loop_verdict:
  assumes "list_all (bars_readable gl) devs"
  shows "\<exists>did' evs'. bars_loop gl a g devs (found, ok, did, evs) =
    Some (found \<or> list_ex (matches_device_id gl a) devs,
          ok \<and> list_all (\<lambda>d. looked_at gl a d \<longrightarrow> bars_within g d) devs, did', evs')"
  using assms
proof (induction devs arbitrary: found ok did evs)
  case Nil
  then show ?case by simp
next
  case (Cons d devs)
  then have d: "bars_readable gl d" and ds: "list_all (bars_readable gl) devs" by simp_all
  note ih = Cons.IH [OF ds]
  show ?case
  proof (cases "location2gpu gl (bar_location d)")
    case (Found gid)
    with d obtain x where x: "gpu2device gl gid = Found x" by (auto simp: bars_readable_def split: lookup.splits)
    define did1 where "did1 = (if 0 < property_device_id a then x else did)"
    have known: "matches_device_id gl a d \<longleftrightarrow> \<not> (0 < property_device_id a \<and> property_device_id a \<noteq> did1)"
      using Found x by (auto simp: matches_device_id_def did1_def word_gt_0)
    have look: "looked_at gl a d \<longleftrightarrow> matches_device_id gl a d \<and>
        (property_device_all a \<or> list_ex (\<lambda>y. y = gid) (property_device a))"
      using Found by (auto simp: looked_at_def list_ex_iff)
    obtain new where new: "report_bars (action_name a) gid (read_bars d) (bars_pass g (read_bars d)) [] = Some new"
      using report_bars_defined [OF d] by blast
    have run: "bars_loop gl a g (d # devs) (found, ok, did, evs) =
        (if \<not> matches_device_id gl a d then bars_loop gl a g devs (found, ok, did1, evs)
         else if \<not> looked_at gl a d then bars_loop gl a g devs (True, ok, did1, evs)
         else bars_loop gl a g devs (True, ok \<and> bars_within g d, did1, evs @ new))"
      using Found x new by (auto simp: known look did1_def bars_pass_iff Let_def)
    show ?thesis
      unfolding run using look
        ih [of found ok did1 evs] ih [of True ok did1 evs] ih [of True "ok \<and> bars_within g d" did1 "evs @ new"]
      by (auto simp: conj_assoc)
  qed (use d ih [of found ok did evs] in \<open>auto simp: bars_readable_def matches_device_id_def looked_at_def\<close>)
qed

section \<open>A sample\<close>

definition sample_bar_dev :: pci_dev where
  "sample_bar_dev = \<lparr>pd_caps = [], pd_domain = 0, pd_bus = 3, pd_dev = 0, pd_func = 0, pd_vendor_id = 0x1002,
     pd_device_id = 0x74a1, pd_bars = [], pd_rom_size = 0, pd_sysfs = None, pd_readlink = \<lambda>_. None,
     pd_read_long = \<lambda>_. 0, pd_read_word = \<lambda>_. 0, pd_write_byte = \<lambda>_ _. True, pd_word_selected = \<lambda>_ _ _. 0\<rparr>"

definition sample_bar_gpus :: gpulist where
  "sample_bar_gpus = gpulist_empty\<lparr>location_id := [0x300], gpu_id := [5], device_id := [0x74a1]\<rparr>"

text \<open>Limits no device can meet, and an action for a GPU that is not there.\<close>

definition sample_smqt :: "(unit, unit) actionbase" where
  "sample_smqt = (actionbase_new sample_raw)\<lparr>property := [(''bar1_base_addr_max'', ''0''), (''bar1_base_addr_min'', ''1''),
     (''bar1_req_size'', ''0''), (''bar2_base_addr_max'', ''0''), (''bar2_base_addr_min'', ''1''), (''bar2_req_size'', ''0''),
     (''bar4_base_addr_max'', ''0''), (''bar4_base_addr_min'', ''1''), (''bar4_req_size'', ''0''),
     (''bar5_req_size'', ''0''), (''device'', ''6''), (''name'', ''s'')]\<rparr>"

section \<open>Properties\<close>

text \<open>
  C31: Once its keys are read, an action fails when no GPU has the wanted device id; otherwise it
  succeeds exactly when every device it looks at is within the limits.  A device list that names
  none of the GPUs makes it succeed without a check.
\<close>

theorem smqt_passes_iff:
  assumes "smqt_common_config_keys a0 g0 = Some (evs1, a, g1)" and "keysts g1"
    and "get_all_smqt_config_keys a g1 = ((True, evs2), g)"
    and "list_all (bars_readable gl) devs"
  shows "\<exists>code res evs. smqt_action_run gl devs did a0 g0 = Some (code, res, evs, g) \<and>
    (code = 0 \<longleftrightarrow> list_ex (matches_device_id gl a) devs \<and>
       list_all (\<lambda>d. looked_at gl a d \<longrightarrow> bars_within g d) devs) \<and>
    (ar_status res = ACTION_SUCCESS \<longleftrightarrow> code = 0)"
proof -
  obtain did' evs' where "bars_loop gl a g devs (False, True, did, map Sq_note (evs1 @ evs2)) =
    Some (list_ex (matches_device_id gl a) devs, list_all (\<lambda>d. looked_at gl a d \<longrightarrow> bars_within g d) devs, did', evs')"
    using bars_loop_verdict [OF assms(4), of a g False True did] by simp blast
  with assms(1-3) show ?thesis by (auto simp: smqt_action_run_def Let_def smqt_result_def)
qed

theorem smqt_passes_iff_witness:
  "\<exists>res evs g. smqt_action_run sample_bar_gpus [sample_bar_dev] 0 sample_smqt smqt_globals_init = Some (0, res, evs, g) \<and>
     ar_status res = ACTION_SUCCESS"
proof -
  obtain evs1 a where keys: "smqt_common_config_keys sample_smqt smqt_globals_init = Some (evs1, a, smqt_globals_init)"
    and a: "property a = property sample_smqt" "property_device a = [6]" "\<not> property_device_all a" "property_device_id a = 0"
    by (simp add: smqt_common_config_keys_def sample_smqt_def actionbase_new_def property_get_string_def
        has_property_val_def step_key_def property_get_device_def property_get_device_index_def
        property_get_uint_list_cases uint_list_ok_def uint_list_of_def split_fields_def uint_text_def isdigit_def
        dec_val_def digit_val_def property_get_int_def_def Let_def smqt_globals_init_def sample_raw_def)
  obtain evs2 g where bars: "get_all_smqt_config_keys a smqt_globals_init = ((True, evs2), g)"
    by (simp add: get_all_smqt_config_keys_def bar_keys_def property_get_int_def has_property_val_def a sample_smqt_def
        rvs_util_parse_cases converts_def is_positive_integer_def isdigit_def dec_val_def digit_val_def)
  have loc: "location2gpu sample_bar_gpus (bar_location sample_bar_dev) = Found 5"
    and did: "gpu2device sample_bar_gpus 5 = Found 0x74a1"
    by (simp_all add: sample_bar_gpus_def sample_bar_dev_def location2gpu_def gpu2device_def lookup_by_def bar_location_def)
  have dev: "bars_readable sample_bar_gpus sample_bar_dev"
    unfolding bars_readable_def loc
    by (simp add: did read_bars_def bar_at_def sample_bar_dev_def printable_def float64_def numeral_eq_Suc)
  have "matches_device_id sample_bar_gpus a sample_bar_dev" "\<not> looked_at sample_bar_gpus a sample_bar_dev"
    by (auto simp: matches_device_id_def looked_at_def loc a)
  with smqt_passes_iff [OF keys _ bars, of sample_bar_gpus "[sample_bar_dev]" 0] dev show ?thesis
    by (auto simp: smqt_globals_init_def)
qed

text \<open>
  After an action failed on its common keys, every later action of the module fails with -1,
  whatever its own keys and devices are.
\<close>

theorem smqt_failure_sticks:
  assumes "\<not> keysts g0" and "smqt_action_run gl devs did a g0 = Some (code, res, evs, g)"
  shows "code = -1 \<and> ar_status res = ACTION_FAILED \<and> \<not> keysts g"
proof -
  have "\<not> keysts g1" if "smqt_common_config_keys a g0 = Some (evs1, b, g1)" for evs1 b g1
    using that assms(1)
    by (auto simp: smqt_common_config_keys_def step_key_def Let_def split: option.splits prod.splits if_splits)
  with assms(2) show ?thesis
    by (auto simp: smqt_action_run_def Let_def smqt_result_def split: option.splits prod.splits if_splits)
qed

theorem smqt_failure_sticks_witness:
  "\<exists>res evs g. smqt_action_run gpulist_empty [] 0 sample_smqt (smqt_globals_init\<lparr>keysts := False\<rparr>) = Some (-1, res, evs, g) \<and>
     \<not> keysts g"
proof -
  let ?g = "smqt_globals_init\<lparr>keysts := False\<rparr>"
  obtain code res evs g where run: "smqt_action_run gpulist_empty [] 0 sample_smqt ?g = Some (code, res, evs, g)"
    by (simp add: smqt_action_run_def smqt_common_config_keys_def sample_smqt_def actionbase_new_def property_get_string_def
        has_property_val_def step_key_def property_get_device_def property_get_device_index_def
        property_get_uint_list_cases uint_list_ok_def uint_list_of_def split_fields_def uint_text_def isdigit_def
        dec_val_def digit_val_def property_get_int_def_def Let_def smqt_globals_init_def sample_raw_def)
  have "\<not> keysts ?g" by simp
  from smqt_failure_sticks [OF this run] run show ?thesis by auto
qed

end
