(* ===== verification/Pesm.thy ===== *)
theory Pesm
  imports Pci_Caps Action_Base
begin

text \<open>
  \<^verbatim>\<open>pesm.so/src/worker.cpp\<close>, \<^verbatim>\<open>pesm.so/src/action.cpp\<close> and \<^verbatim>\<open>pesm.so/src/rvs_module.cpp\<close>: the monitor
  of the PCIe link speed and of the power state.  A round of the thread is the list of devices a
  scan of the bus yields; the rounds made until \<^verbatim>\<open>stop\<close> are an argument.
\<close>

section \<open>The worker\<close>

record pesm_worker =
  pw_action_name :: string
  pw_stop_action_name :: string
  pw_bjson :: bool
  pw_device_id :: u16
  pw_gpuids :: "u16 list"
  pw_gpuidx :: "u16 list"

datatype pesm_event =
    Ps_log string int
  | Ps_err string
  | Ps_running string
  | Ps_completed string
  | Ps_json "(string \<times> string) list" int
  | Ps_json_open string
  | Ps_json_close

record pesm_state =
  ps_old_speed :: "(u16, string) omap"
  ps_old_pwr :: "(u16, string) omap"
  ps_speed_change :: "(u16, string) omap"
  ps_power_change :: "(u16, string) omap"
  ps_events :: "pesm_event list"

definition ps_emit :: "pesm_event \<Rightarrow> pesm_state \<Rightarrow> pesm_state" where
  "ps_emit e s = s\<lparr>ps_events := ps_events s @ [e]\<rparr>"

text \<open>\<^verbatim>\<open>operator[]\<close>: a missing entry is the empty text.\<close>

definition text_at :: "(u16, string) omap \<Rightarrow> u16 \<Rightarrow> string" where
  "text_at m k = (case om_find m k of Some v \<Rightarrow> v | None \<Rightarrow> [])"

definition pesm_location :: "pci_dev \<Rightarrow> u16" where
  "pesm_location dev = (push_bit 8 (ucast (pd_bus dev)) OR push_bit 3 (ucast (pd_dev dev))) OR ucast (pd_func dev)"

text \<open>The GPU to sample; the outer \<open>None\<close> is a read past the end of a table.\<close>

definition pesm_gpu :: "gpulist \<Rightarrow> pesm_worker \<Rightarrow> pci_dev \<Rightarrow> u16 option option" where
  "pesm_gpu gl w dev =
     (case location2gpu gl (pesm_location dev) of
        Out_of_bounds \<Rightarrow> None
      | Not_found \<Rightarrow> Some None
      | Found gid \<Rightarrow>
          (case gpu2gpuindex gl gid of
             Out_of_bounds \<Rightarrow> None
           | Not_found \<Rightarrow> Some None
           | Found gpu_ix \<Rightarrow>
               if pw_device_id w \<noteq> 0 \<and> pd_device_id dev \<noteq> pw_device_id w then Some None
               else if pw_gpuids w \<noteq> [] \<and> \<not> list_ex (\<lambda>x. x = gid) (pw_gpuids w) then Some None
               else if pw_gpuidx w \<noteq> [] \<and> \<not> list_ex (\<lambda>x. x = gpu_ix) (pw_gpuidx w) then Some None
               else Some (Some gid)))"

definition speed_part :: "pesm_worker \<Rightarrow> u16 \<Rightarrow> string \<Rightarrow> pesm_state \<Rightarrow> pesm_state" where
  "speed_part w gid speed s =
     (if text_at (ps_old_speed s) gid \<noteq> speed then
        (let msg = ''['' @ pw_action_name w @ ''] '' @ to_string (unat gid) @ '' PCIe link speed changed '' @ speed;
             s = s\<lparr>ps_old_speed := om_assign gid speed (ps_old_speed s)\<rparr>;
             s = ps_emit (Ps_running msg) (ps_emit (Ps_log msg loginfo) s)
         in s\<lparr>ps_speed_change := om_assign gid ''true'' (ps_speed_change s)\<rparr>)
      else
        (let msg = ''['' @ pw_action_name w @ ''] pesm '' @ to_string (unat gid) @ '' PCIe link speed unchanged '' @ speed;
             s = ps_emit (Ps_log msg loginfo) s
         in if text_at (ps_speed_change s) gid = []
            then s\<lparr>ps_speed_change := om_assign gid ''false'' (ps_speed_change s)\<rparr> else s))"

definition power_part :: "pesm_worker \<Rightarrow> u16 \<Rightarrow> string \<Rightarrow> pesm_state \<Rightarrow> pesm_state" where
  "power_part w gid pwr s =
     (if text_at (ps_old_pwr s) gid \<noteq> pwr then
        (let msg = ''['' @ pw_action_name w @ ''] '' @ to_string (unat gid) @ '' PCIe power state changed '' @ pwr;
             s = s\<lparr>ps_old_pwr := om_assign gid pwr (ps_old_pwr s)\<rparr>;
             s = ps_emit (Ps_running msg) (ps_emit (Ps_log msg loginfo) s)
         in s\<lparr>ps_power_change := om_assign gid ''true'' (ps_power_change s)\<rparr>)
      else
        (let msg = ''['' @ pw_action_name w @ ''] '' @ to_string (unat gid) @ '' PCIe power state unchanged '' @ pwr;
             s = ps_emit (Ps_log msg loginfo) s
         in if text_at (ps_power_change s) gid = []
            then s\<lparr>ps_power_change := om_assign gid ''false'' (ps_power_change s)\<rparr> else s))"

definition pesm_sample :: "pesm_worker \<Rightarrow> u16 \<Rightarrow> string \<Rightarrow> string \<Rightarrow> pesm_state \<Rightarrow> pesm_state" where
  "pesm_sample w gid speed pwr s =
     (let s = (if text_at (ps_old_speed s) gid = []
               then s\<lparr>ps_old_speed := om_assign gid speed (ps_old_speed s)\<rparr> else s)
      in if text_at (ps_old_pwr s) gid = [] then s\<lparr>ps_old_pwr := om_assign gid pwr (ps_old_pwr s)\<rparr>
         else power_part w gid pwr (speed_part w gid speed s))"

fun pesm_round ::
  "pci_layout \<Rightarrow> gpulist \<Rightarrow> pesm_worker \<Rightarrow> pci_dev list \<Rightarrow> pesm_state \<Rightarrow> pesm_state option" where
  "pesm_round L gl w [] s = Some s"
| "pesm_round L gl w (dev # devs) s =
     (case pesm_gpu gl w dev of
        None \<Rightarrow> None
      | Some None \<Rightarrow> pesm_round L gl w devs s
      | Some (Some gid) \<Rightarrow>
          (case get_pwr_curr_state L dev of
             None \<Rightarrow> None
           | Some pwr \<Rightarrow> pesm_round L gl w devs (pesm_sample w gid (get_link_stat_cur_speed L dev) pwr s)))"

fun pesm_rounds ::
  "pci_layout \<Rightarrow> gpulist \<Rightarrow> pesm_worker \<Rightarrow> pci_dev list list \<Rightarrow> pesm_state \<Rightarrow> pesm_state option" where
  "pesm_rounds L gl w [] s = Some s"
| "pesm_rounds L gl w (devs # rest) s =
     Option.bind (pesm_round L gl w devs
         (ps_emit (Ps_log (''['' @ pw_action_name w @ ''] pesm worker thread is running...'') logtrace) s))
       (pesm_rounds L gl w rest)"

definition pesm_gpu_fields :: "gpulist \<Rightarrow> u16 \<Rightarrow> (string \<times> string) list" where
  "pesm_gpu_fields gl gid = [(''gpu_id'', to_string (unat gid)),
     (''gpu_index'', case gpu2gpuindex gl gid of Found v \<Rightarrow> to_string (unat v) | _ \<Rightarrow> ''0'')]"

definition report_changes ::
  "gpulist \<Rightarrow> pesm_worker \<Rightarrow> string \<Rightarrow> (string \<Rightarrow> (string \<times> string) list) \<Rightarrow> (u16, string) omap
     \<Rightarrow> pesm_state \<Rightarrow> pesm_state" where
  "report_changes gl w what extra m s =
     fold (\<lambda>(gid, v) s.
         let s = ps_emit (Ps_log (''['' @ pw_stop_action_name w @ ''] GPU '' @ to_string (unat gid) @ what @ v) logresults) s
         in if pw_bjson w then ps_emit (Ps_json (pesm_gpu_fields gl gid @ extra v) logresults) s else s) m s"

text \<open>After the rounds, \<^verbatim>\<open>Worker::stop\<close> logs its line and resets the run flag, which ends the loop.\<close>

definition pesm_worker_run ::
  "pci_layout \<Rightarrow> gpulist \<Rightarrow> pesm_worker \<Rightarrow> pci_dev list list \<Rightarrow> pesm_state option" where
  "pesm_worker_run L gl w rounds =
     (let s = \<lparr>ps_old_speed = [], ps_old_pwr = [], ps_speed_change = [], ps_power_change = [], ps_events = []\<rparr>;
          s = ps_emit (Ps_log (''['' @ pw_action_name w @ ''] PCIe link speed and power monitoring started ...'') logresults) s;
          s = (if pw_bjson w then ps_emit (Ps_json [(''msg'', ''started'')] logresults) s else s)
      in map_option (\<lambda>s.
           let s = ps_emit (Ps_log (''['' @ pw_stop_action_name w @ ''] pesm in Worker::stop()'') logtrace) s;
               s = report_changes gl w '' PCIe speed change '' (\<lambda>v. [(''pcie speed change'', v)]) (ps_speed_change s) s;
               s = report_changes gl w '' PCIe power change ''
                     (\<lambda>v. [(''power_change'', v), (''msg'', ''stopped'')]) (ps_power_change s) s;
               msg = ''['' @ pw_stop_action_name w @ ''] PCIe monitoring ended after wait duration.'';
               s = ps_emit (Ps_completed msg) (ps_emit (Ps_log msg logresults) s)
           in ps_emit (Ps_log (''['' @ pw_stop_action_name w @ ''] pesm worker thread has finished'') logdebug) s)
         (pesm_rounds L gl w rounds s))"

section \<open>The action\<close>

record ('cb, 'up) pesm_action =
  pa_base :: "('cb, 'up) actionbase"
  prop_monitor :: bool
  prop_debugwait :: u32

definition pesm_common_config_keys ::
  "('cb, 'up) actionbase \<Rightarrow> ((bool \<times> log_event list) \<times> ('cb, 'up) actionbase) option" where
  "pesm_common_config_keys a =
     (case property_get_string a ''name'' (action_name a) of
        (sts, nm) \<Rightarrow>
          let a = a\<lparr>action_name := nm\<rparr> in
          if sts \<noteq> 0 then Some ((False, [Log_err ''Action name missing'']), a)
          else
            (case property_get_device (if has_property a ''cli.-j'' then a\<lparr>bjson := True\<rparr> else a) of
               None \<Rightarrow> None
             | Some (s1, a) \<Rightarrow>
                 let r = step_key s1 [Log_err (if s1 = 1 then ''Invalid 'device' key value.''
                                               else ''Missing 'device' key.'')] (True, []);
                     (e2, did) = property_get_int_def a ''deviceid'' (property_device_id a) 0;
                     a = a\<lparr>property_device_id := did\<rparr>;
                     r = step_key e2 [Log_err ''Invalid 'deviceid' key value.''] r
                 in (case property_get_device_index a of
                       None \<Rightarrow> None
                     | Some (s3, a) \<Rightarrow>
                         Some ((fst r, if s3 \<noteq> 0
                                       then snd r @ [Log_msg (if s3 = 1 then ''Invalid 'device_index' key value.''
                                                              else ''Missing 'device_index' key.'') loginfo]
                                       else snd r),
                               if s3 \<noteq> 0 then a\<lparr>property_device_index_all := True\<rparr> else a))))"

definition get_all_pesm_config_keys ::
  "('cb, 'up) pesm_action \<Rightarrow> (bool \<times> log_event list) \<times> ('cb, 'up) pesm_action" where
  "get_all_pesm_config_keys m =
     (let a = pa_base m;
          (e1, mon) = property_get_default (property_get_bool a ''monitor'' (prop_monitor m)) True;
          r = step_key e1 [Log_err ''Invalid 'monitor' key value.''] (True, []);
          (e2, dw) = property_get_int_def a ''debugwait'' (prop_debugwait m) 0;
          r = step_key e2 [Log_err ''Invalid 'debugwait' key value.''] r
      in (r, m\<lparr>prop_monitor := mon, prop_debugwait := dw\<rparr>))"

text \<open>The global variable of the module and the operation that stops its worker.\<close>

definition stop_pesm_worker ::
  "pci_layout \<Rightarrow> gpulist \<Rightarrow> string \<Rightarrow> pci_dev list list \<Rightarrow> pesm_worker \<Rightarrow> pesm_event list option" where
  "stop_pesm_worker L gl nm rounds w =
     map_option ps_events (pesm_worker_run L gl (w\<lparr>pw_stop_action_name := nm\<rparr>) rounds)"

definition pesm_note :: "log_event \<Rightarrow> pesm_event" where
  "pesm_note e = (case e of Log_err t \<Rightarrow> Ps_err t | Log_msg t l \<Rightarrow> Ps_log t l)"

definition pesm_worker_of :: "('cb, 'up) actionbase \<Rightarrow> pesm_worker" where
  "pesm_worker_of a = \<lparr>pw_action_name = action_name a, pw_stop_action_name = [], pw_bjson = bjson a,
     pw_device_id = property_device_id a, pw_gpuids = property_device a, pw_gpuidx = property_device_index a\<rparr>"

text \<open>
  \<open>gpu_listing\<close> is the result of printing the table of the GPUs; \<open>rounds\<close> what a running worker
  does before this action.
\<close>

definition pesm_action_run ::
  "pci_layout \<Rightarrow> gpulist \<Rightarrow> int \<Rightarrow> pci_dev list list \<Rightarrow> ('cb, 'up) pesm_action \<Rightarrow> pesm_worker option
     \<Rightarrow> (int \<times> pesm_event list \<times> pesm_worker option) option" where
  "pesm_action_run L gl gpu_listing rounds m pworker =
     (if has_property (pa_base m) ''do_gpu_list'' then Some (gpu_listing, [], pworker)
      else
        (case pesm_common_config_keys (pa_base m) of
           None \<Rightarrow> None
         | Some ((False, evs), a) \<Rightarrow> Some (1, map pesm_note evs, pworker)
         | Some ((True, evs), a) \<Rightarrow>
             (case get_all_pesm_config_keys (m\<lparr>pa_base := a\<rparr>) of
                ((False, evs2), m) \<Rightarrow> Some (1, map pesm_note (evs @ evs2), pworker)
              | ((True, evs2), m) \<Rightarrow>
                  let evs = map pesm_note (evs @ evs2) @ (if bjson a then [Ps_json_open (action_name a)] else []);
                      close = (if bjson a then [Ps_json_close] else [])
                  in if \<not> prop_monitor m then
                       (case pworker of
                          None \<Rightarrow> Some (0, evs @ close, None)
                        | Some w \<Rightarrow>
                            map_option (\<lambda>es. (0, evs @ es @ close, None))
                              (stop_pesm_worker L gl (action_name a) rounds w))
                     else
                       (case pworker of
                          Some w \<Rightarrow>
                            Some (0, evs @ [Ps_log (''['' @ action_name a @ ''] pesm monitoring already started'') logdebug]
                                     @ close, Some w)
                        | None \<Rightarrow> Some (0, evs @ close, Some (pesm_worker_of a))))))"

definition pesm_module_terminate ::
  "pci_layout \<Rightarrow> gpulist \<Rightarrow> pci_dev list list \<Rightarrow> pesm_worker option \<Rightarrow> (pesm_event list \<times> pesm_worker option) option" where
  "pesm_module_terminate L gl rounds pworker =
     (let t = ''[module_terminate] pesm rvs_module_terminate() - '' in
      case pworker of
        None \<Rightarrow> Some ([Ps_log (t @ ''entered'') logtrace], None)
      | Some w \<Rightarrow>
          map_option (\<lambda>es. ([Ps_log (t @ ''entered'') logtrace, Ps_log (t @ ''pworker exists'') logtrace] @ es @
                            [Ps_log (t @ ''monitoring stopped'') logtrace], None))
            (stop_pesm_worker L gl ''module_terminate'' rounds w))"

end
