(* ===== verification/Pesm_Props.thy ===== *)
theory Pesm_Props
  imports Pesm
begin

text \<open>
  The properties of the power state monitor: what its report says of the samples it took, and the
  life of its worker.
\<close>

section \<open>What the monitor keeps of one GPU\<close>

text \<open>The last texts and the two change flags of a GPU.\<close>

type_synonym gpu_view = "string \<times> string \<times> string option \<times> string option"

definition gpu_view :: "u16 \<Rightarrow> pesm_state \<Rightarrow> gpu_view" where
  "gpu_view g s = (text_at (ps_old_speed s) g, text_at (ps_old_pwr s) g,
     om_find (ps_speed_change s) g, om_find (ps_power_change s) g)"

definition flag_step :: "bool \<Rightarrow> string option \<Rightarrow> string option" where
  "flag_step chg f = (if chg then Some ''true'' else if f = None \<or> f = Some [] then Some ''false'' else f)"

definition view_step :: "string \<times> string \<Rightarrow> gpu_view \<Rightarrow> gpu_view" where
  "view_step = (\<lambda>(speed, pwr) (old_speed, old_pwr, sc, pc).
     let old_speed = (if old_speed = [] then speed else old_speed) in
     if old_pwr = [] then (old_speed, pwr, sc, pc)
     else (speed, pwr, flag_step (old_speed \<noteq> speed) sc, flag_step (old_pwr \<noteq> pwr) pc))"

lemma text_at_assign: "text_at (om_assign k v m) k' = (if k' = k then v else text_at m k')"
  by (simp add: text_at_def om_find_assign)

lemma text_at_empty: "text_at m k = [] \<longleftrightarrow> om_find m k = None \<or> om_find m k = Some []"
  by (auto simp: text_at_def split: option.splits)

lemma ps_emit_fields [simp]:
  "ps_old_speed (ps_emit e s) = ps_old_speed s" "ps_old_pwr (ps_emit e s) = ps_old_pwr s"
  "ps_speed_change (ps_emit e s) = ps_speed_change s" "ps_power_change (ps_emit e s) = ps_power_change s"
  by (simp_all add: ps_emit_def)

lemma speed_part_view:
  assumes "gpu_view g s = (a, b, c, d)"
  shows "gpu_view g (speed_part w gid speed s) = (if g = gid then (speed, b, flag_step (a \<noteq> speed) c, d) else (a, b, c, d))"
  using assms by (auto simp: speed_part_def gpu_view_def Let_def text_at_assign om_find_assign flag_step_def text_at_empty)

lemma power_part_view:
  assumes "gpu_view g s = (a, b, c, d)"
  shows "gpu_view g (power_part w gid pwr s) = (if g = gid then (a, pwr, c, flag_step (b \<noteq> pwr) d) else (a, b, c, d))"
  using assms by (auto simp: power_part_def gpu_view_def Let_def text_at_assign om_find_assign flag_step_def text_at_empty)

lemma pesm_sample_view:
  "gpu_view g (pesm_sample w gid speed pwr s) =
     (if g = gid then view_step (speed, pwr) (gpu_view g s) else gpu_view g s)"
proof -
  let ?s = "if text_at (ps_old_speed s) gid = [] then s\<lparr>ps_old_speed := om_assign gid speed (ps_old_speed s)\<rparr> else s"
  obtain a b c d where v: "gpu_view g s = (a, b, c, d)" by (metis surj_pair)
  have vs: "gpu_view g ?s = (if g = gid \<and> a = [] then speed else a, b, c, d)"
    using v by (auto simp: gpu_view_def text_at_assign)
  show ?thesis
  proof (cases "text_at (ps_old_pwr s) gid = []")
    case True
    with v show ?thesis
      by (auto simp: pesm_sample_def Let_def gpu_view_def view_step_def text_at_assign)
  next
    case False
    have run: "pesm_sample w gid speed pwr s = power_part w gid pwr (speed_part w gid speed ?s)"
      using False by (simp add: pesm_sample_def Let_def)
    show ?thesis
    proof (cases "g = gid")
      case True
      with v False have "b \<noteq> []" by (auto simp: gpu_view_def)
      have "gpu_view g (speed_part w gid speed ?s) = (speed, b, flag_step ((if a = [] then speed else a) \<noteq> speed) c, d)"
        using speed_part_view [OF vs, of w gid speed] True by simp
      from power_part_view [OF this, of w gid pwr] True v \<open>b \<noteq> []\<close> show ?thesis
        unfolding run by (simp add: view_step_def Let_def)
    next
      case False
      have "gpu_view g (speed_part w gid speed ?s) = (a, b, c, d)"
        using speed_part_view [OF vs, of w gid speed] False by simp
      from power_part_view [OF this, of w gid pwr] False v show ?thesis unfolding run by simp
    qed
  qed
qed

section \<open>The samples of one GPU\<close>

text \<open>What the devices of a round tell about a GPU, in order.\<close>

definition pwr_text :: "pci_layout \<Rightarrow> pci_dev \<Rightarrow> string" where
  "pwr_text L dev = (case get_pwr_curr_state L dev of Some t \<Rightarrow> t | None \<Rightarrow> [])"

definition gpu_samples ::
  "pci_layout \<Rightarrow> gpulist \<Rightarrow> pesm_worker \<Rightarrow> u16 \<Rightarrow> pci_dev list \<Rightarrow> (string \<times> string) list" where
  "gpu_samples L gl w g devs =
     map (\<lambda>d. (get_link_stat_cur_speed L d, pwr_text L d)) (filter (\<lambda>d. pesm_gpu gl w d = Some (Some g)) devs)"

text \<open>The tables answer for every device, and the mask of the power state has two bits.\<close>

definition rounds_ok :: "pci_layout \<Rightarrow> gpulist \<Rightarrow> pesm_worker \<Rightarrow> pci_dev list list \<Rightarrow> bool" where
  "rounds_ok L gl w rounds \<longleftrightarrow>
     list_all (\<lambda>d. pesm_gpu gl w d \<noteq> None \<and> get_pwr_curr_state L d \<noteq> None) (concat rounds)"

lemma pesm_round_view:
  assumes "rounds_ok L gl w [devs]"
  shows "\<exists>s'. pesm_round L gl w devs s = Some s' \<and>
    gpu_view g s' = fold view_step (gpu_samples L gl w g devs) (gpu_view g s)"
  using assms
proof (induction devs arbitrary: s)
  case Nil
  then show ?case by (simp add: gpu_samples_def)
next
  case (Cons d devs)
  then have ds: "rounds_ok L gl w [devs]" by (simp add: rounds_ok_def)
  obtain x p where x: "pesm_gpu gl w d = Some x" and p: "get_pwr_curr_state L d = Some p"
    using Cons.prems by (auto simp: rounds_ok_def)
  show ?case
  proof (cases x)
    case None
    with x Cons.IH [OF ds, of s] show ?thesis by (simp add: gpu_samples_def)
  next
    case (Some gid)
    let ?s = "pesm_sample w gid (get_link_stat_cur_speed L d) p s"
    have "pesm_round L gl w (d # devs) s = pesm_round L gl w devs ?s" using x Some p by simp
    moreover have "fold view_step (gpu_samples L gl w g (d # devs)) (gpu_view g s) =
        fold view_step (gpu_samples L gl w g devs) (gpu_view g ?s)"
      using x Some p by (auto simp: gpu_samples_def pwr_text_def pesm_sample_view)
    ultimately show ?thesis using Cons.IH [OF ds, of ?s] by simp
  qed
qed

lemma pesm_rounds_view:
  assumes "rounds_ok L gl w rounds"
  shows "\<exists>s'. pesm_rounds L gl w rounds s = Some s' \<and>
    gpu_view g s' = fold view_step (concat (map (gpu_samples L gl w g) rounds)) (gpu_view g s)"
  using assms
proof (induction rounds arbitrary: s)
  case Nil
  then show ?case by simp
next
  case (Cons devs rounds)
  then have d: "rounds_ok L gl w [devs]" and ds: "rounds_ok L gl w rounds" by (simp_all add: rounds_ok_def)
  let ?s = "ps_emit (Ps_log (''['' @ pw_action_name w @ ''] pesm worker thread is running...'') logtrace) s"
  have "gpu_view g ?s = gpu_view g s" by (simp add: gpu_view_def)
  moreover obtain s1 where "pesm_round L gl w devs ?s = Some s1"
    "gpu_view g s1 = fold view_step (gpu_samples L gl w g devs) (gpu_view g ?s)"
    using pesm_round_view [OF d] by blast
  ultimately show ?case using Cons.IH [OF ds, of s1] by auto
qed

section \<open>The flags\<close>

text \<open>Two neighbours differ.\<close>

fun changes :: "string list \<Rightarrow> bool" where
  "changes (x # y # zs) = (x \<noteq> y \<or> changes (y # zs))"
| "changes _ = False"

definition flag_of :: "string list \<Rightarrow> string option" where
  "flag_of xs = (if length xs \<le> 1 then None else Some (if changes xs then ''true'' else ''false''))"

lemma fold_view_step:
  assumes "x \<noteq> []" "p \<noteq> []" and "list_all (\<lambda>(a, b). a \<noteq> [] \<and> b \<noteq> []) xs"
    and "f \<in> {None, Some ''true'', Some ''false''}" "h \<in> {None, Some ''true'', Some ''false''}"
  shows "fold view_step xs (x, p, f, h) =
    (last (x # map fst xs), last (p # map snd xs),
     if xs = [] then f else Some (if changes (x # map fst xs) \<or> f = Some ''true'' then ''true'' else ''false''),
     if xs = [] then h else Some (if changes (p # map snd xs) \<or> h = Some ''true'' then ''true'' else ''false''))"
  using assms
proof (induction xs arbitrary: x p f h)
  case Nil
  then show ?case by simp
next
  case (Cons s xs)
  obtain a b where s: "s = (a, b)" by (cases s)
  have step: "view_step s (x, p, f, h) = (a, b, flag_step (x \<noteq> a) f, flag_step (p \<noteq> b) h)"
    using Cons.prems by (simp add: view_step_def s Let_def)
  have fl: "flag_step (x \<noteq> a) f \<in> {None, Some ''true'', Some ''false''}"
    "flag_step (p \<noteq> b) h \<in> {None, Some ''true'', Some ''false''}"
    using Cons.prems by (auto simp: flag_step_def)
  have "fold view_step (s # xs) (x, p, f, h) = fold view_step xs (a, b, flag_step (x \<noteq> a) f, flag_step (p \<noteq> b) h)"
    by (simp add: step)
  also have "\<dots> = (last (a # map fst xs), last (b # map snd xs),
     if xs = [] then flag_step (x \<noteq> a) f
     else Some (if changes (a # map fst xs) \<or> flag_step (x \<noteq> a) f = Some ''true'' then ''true'' else ''false''),
     if xs = [] then flag_step (p \<noteq> b) h
     else Some (if changes (b # map snd xs) \<or> flag_step (p \<noteq> b) h = Some ''true'' then ''true'' else ''false''))"
    by (rule Cons.IH) (use Cons.prems s fl in auto)
  finally show ?case using Cons.prems(4,5) by (auto simp: s flag_step_def)
qed

lemma view_of_samples:
  assumes "list_all (\<lambda>(a, b). a \<noteq> [] \<and> b \<noteq> []) xs"
  shows "snd (snd (fold view_step xs ([], [], None, None))) = (flag_of (map fst xs), flag_of (map snd xs))"
proof (cases xs)
  case Nil
  then show ?thesis by (simp add: flag_of_def)
next
  case (Cons s ys)
  obtain a b where s: "s = (a, b)" by (cases s)
  have "fold view_step xs ([], [], None, None) = fold view_step ys (a, b, None, None)"
    by (simp add: Cons s view_step_def)
  also have "snd (snd \<dots>) = (flag_of (map fst xs), flag_of (map snd xs))"
    using assms by (subst fold_view_step) (auto simp: Cons s flag_of_def)
  finally show ?thesis .
qed

lemma speed_text_nonempty: "get_link_stat_cur_speed L d \<noteq> []"
  by (simp add: get_link_stat_cur_speed_def PCI_CAP_NOT_SUPPORTED_def Let_def)

lemma pwr_text_nonempty: "get_pwr_curr_state L d \<noteq> None \<Longrightarrow> pwr_text L d \<noteq> []"
  by (auto simp: pwr_text_def get_pwr_curr_state_def PCI_CAP_NOT_SUPPORTED_def Let_def split: if_splits)

lemma samples_nonempty:
  assumes "rounds_ok L gl w rounds"
  shows "list_all (\<lambda>(a, b). a \<noteq> [] \<and> b \<noteq> []) (concat (map (gpu_samples L gl w g) rounds))"
  using assms speed_text_nonempty pwr_text_nonempty
  by (fastforce simp: list_all_iff rounds_ok_def gpu_samples_def)

lemma report_changes_fields [simp]:
  "ps_speed_change (report_changes gl w what extra m s) = ps_speed_change s"
  "ps_power_change (report_changes gl w what extra m s) = ps_power_change s"
  unfolding report_changes_def by (induction m arbitrary: s) (auto simp: Let_def)

section \<open>A sample\<close>

text \<open>A device that answers \<open>w\<close> to every read of a word, on a link that is not a PCI Express one.\<close>

definition sample_pesm_dev :: pci_dev where
  "sample_pesm_dev = \<lparr>pd_caps = [], pd_domain = 0, pd_bus = 3, pd_dev = 0, pd_func = 0, pd_vendor_id = 0x1002,
     pd_device_id = 0x74a1, pd_bars = [], pd_rom_size = 0, pd_sysfs = None, pd_readlink = \<lambda>_. None,
     pd_read_long = \<lambda>_. 0, pd_read_word = \<lambda>_. 0, pd_write_byte = \<lambda>_ _. True, pd_word_selected = \<lambda>_ _ _. 0\<rparr>"

definition sample_pesm_gpus :: gpulist where
  "sample_pesm_gpus = gpulist_empty\<lparr>location_id := [0x300], gpu_id := [5], gpu_idx := [0]\<rparr>"

definition sample_pesm_worker :: pesm_worker where
  "sample_pesm_worker = \<lparr>pw_action_name = ''m'', pw_stop_action_name = ''m'', pw_bjson = False,
     pw_device_id = 0, pw_gpuids = [], pw_gpuidx = []\<rparr>"

lemma sample_pesm_answers:
  "pesm_gpu sample_pesm_gpus sample_pesm_worker sample_pesm_dev = Some (Some 5)"
  "get_pwr_curr_state L sample_pesm_dev = Some PCI_CAP_NOT_SUPPORTED"
  "get_link_stat_cur_speed L sample_pesm_dev = PCI_CAP_NOT_SUPPORTED"
  by (simp_all add: pesm_gpu_def location2gpu_def gpu2gpuindex_def lookup_by_def sample_pesm_gpus_def pesm_location_def
      sample_pesm_dev_def sample_pesm_worker_def get_pwr_curr_state_def get_link_stat_cur_speed_def
      pci_dev_find_cap_offset_def Let_def)

section \<open>Properties\<close>

text \<open>
  C32: The two change maps behind the final report hold for a GPU exactly what its samples say: nothing
  when it was sampled less than twice, otherwise "true" when two consecutive samples of the link
  speed (of the power state) differ and "false" when none do.
\<close>

theorem pesm_reports_changes:
  assumes "rounds_ok L gl w rounds"
  shows "\<exists>s. pesm_worker_run L gl w rounds = Some s \<and>
    (let xs = concat (map (gpu_samples L gl w g) rounds) in
     om_find (ps_speed_change s) g = flag_of (map fst xs) \<and>
     om_find (ps_power_change s) g = flag_of (map snd xs))"
proof -
  define s0 where "s0 = (let s = ps_emit (Ps_log (''['' @ pw_action_name w @
        ''] PCIe link speed and power monitoring started ...'') logresults)
      \<lparr>ps_old_speed = [], ps_old_pwr = [], ps_speed_change = [], ps_power_change = [], ps_events = []\<rparr>
    in if pw_bjson w then ps_emit (Ps_json [(''msg'', ''started'')] logresults) s else s)"
  let ?xs = "concat (map (gpu_samples L gl w g) rounds)"
  have "gpu_view g s0 = ([], [], None, None)" by (simp add: s0_def gpu_view_def text_at_def Let_def)
  then obtain s where s: "pesm_rounds L gl w rounds s0 = Some s"
    "gpu_view g s = fold view_step ?xs ([], [], None, None)"
    using pesm_rounds_view [OF assms, of s0 g] by auto
  have "snd (snd (gpu_view g s)) = (flag_of (map fst ?xs), flag_of (map snd ?xs))"
    unfolding s(2) by (rule view_of_samples [OF samples_nonempty [OF assms]])
  then show ?thesis
    using s(1) unfolding pesm_worker_run_def s0_def Let_def
    by (simp add: gpu_view_def)
qed

theorem pesm_reports_changes_witness:
  "\<exists>s. pesm_worker_run linux_layout sample_pesm_gpus sample_pesm_worker [[sample_pesm_dev], [], [sample_pesm_dev]] = Some s \<and>
     om_find (ps_speed_change s) 5 = Some ''false''"
proof -
  have "rounds_ok linux_layout sample_pesm_gpus sample_pesm_worker [[sample_pesm_dev], [], [sample_pesm_dev]]"
    by (simp add: rounds_ok_def sample_pesm_answers)
  from pesm_reports_changes [OF this, of 5] show ?thesis
    by (auto simp: gpu_samples_def sample_pesm_answers flag_of_def Let_def)
qed

text \<open>
  The module has at most one worker: an accepted action with monitoring off leaves none, one with
  monitoring on keeps the worker that is there, with the configuration of the action that
  started it, or starts its own.
\<close>

lemma pesm_one_worker:
  assumes "\<not> has_property (pa_base m) ''do_gpu_list''"
    and "pesm_common_config_keys (pa_base m) = Some ((True, evs1), a)"
    and "get_all_pesm_config_keys (m\<lparr>pa_base := a\<rparr>) = ((True, evs2), m')"
    and "pesm_action_run L gl listing rounds m pworker = Some (code, evs, pworker')"
  shows "code = 0 \<and> pworker' = (if \<not> prop_monitor m' then None
    else case pworker of Some w \<Rightarrow> Some w | None \<Rightarrow> Some (pesm_worker_of a))"
  using assms by (auto simp: pesm_action_run_def Let_def split: option.splits if_splits)

end
