(* ===== verification/Stof.thy ===== *)
theory Stof
  imports Float_Model Action_Base
begin

text \<open>
  \<^verbatim>\<open>std::stof\<close>, that is \<^verbatim>\<open>strtof\<close> with its two exceptions, and the getter of the float properties in
  \<^verbatim>\<open>src/rvsactionbase.cpp\<close>.  The decimal and the hexadecimal form are exact rationals rounded once
  to 24 bits; a value too large for the format, or below its normal range, is out of range.
\<close>

section \<open>The conversion\<close>

definition lower_char :: "char \<Rightarrow> char" where
  "lower_char c = (if (65 :: nat) \<le> of_char c \<and> of_char c \<le> (90 :: nat) then char_of (of_char c + (32 :: nat)) else c)"

definition is_hex_digit :: "char \<Rightarrow> bool" where
  "is_hex_digit c \<longleftrightarrow> isdigit c \<or>
     (97 \<le> (of_char (lower_char c) :: nat) \<and> (of_char (lower_char c) :: nat) \<le> 102)"

definition hex_digit_val :: "char \<Rightarrow> nat" where
  "hex_digit_val c = (if isdigit c then digit_val c else of_char (lower_char c) - 87)"

definition base_val :: "nat \<Rightarrow> (char \<Rightarrow> nat) \<Rightarrow> string \<Rightarrow> nat" where
  "base_val b dv s = foldl (\<lambda>a c. b * a + dv c) 0 s"

text \<open>
  Digits, a point, digits, and an exponent introduced by the letter \<open>e\<close>; the exponent counts only
  with digits of its own.  \<open>None\<close> without a digit of the mantissa.
\<close>

definition exponent_part :: "char \<Rightarrow> string \<Rightarrow> int" where
  "exponent_part e s =
     (case s of
        [] \<Rightarrow> 0
      | c # r \<Rightarrow>
          if lower_char c \<noteq> e then 0
          else
            (let neg = (r \<noteq> [] \<and> hd r = CHR ''-'');
                 ds = takeWhile isdigit (if r \<noteq> [] \<and> (hd r = CHR ''-'' \<or> hd r = CHR ''+'') then tl r else r)
             in if neg then - int (dec_val ds) else int (dec_val ds)))"

definition pow_of :: "nat \<Rightarrow> int \<Rightarrow> rat" where
  "pow_of b k = (if 0 \<le> k then of_nat b ^ nat k else 1 / of_nat b ^ nat (- k))"

definition mantissa_val ::
  "nat \<Rightarrow> (char \<Rightarrow> bool) \<Rightarrow> (char \<Rightarrow> nat) \<Rightarrow> nat \<Rightarrow> char \<Rightarrow> string \<Rightarrow> rat option" where
  "mantissa_val b isd dv eb e s =
     (let whole = takeWhile isd s; r = dropWhile isd s;
          frac = (if r \<noteq> [] \<and> hd r = CHR ''.'' then takeWhile isd (tl r) else []);
          rest = (if r \<noteq> [] \<and> hd r = CHR ''.'' then dropWhile isd (tl r) else r)
      in if whole = [] \<and> frac = [] then None
         else Some (of_nat (base_val b dv (whole @ frac)) / of_nat b ^ length frac * pow_of eb (exponent_part e rest)))"

definition float_max :: rat where
  "float_max = (2 ^ 24 - 1) * 2 ^ 104"

definition float_min :: rat where
  "float_min = 1 / 2 ^ 126"

definition stof :: "string \<Rightarrow> conv_error + fval" where
  "stof s =
     (let t = dropWhile isspace s;
          neg = (t \<noteq> [] \<and> hd t = CHR ''-'');
          u = (if t \<noteq> [] \<and> (hd t = CHR ''-'' \<or> hd t = CHR ''+'') then tl t else t);
          low = map lower_char u
      in if starts_with ''inf'' low then Inr (Infinite neg)
         else if starts_with ''nan'' low then Inr NaN
         else
           (case (if starts_with ''0x'' low
                  then (case mantissa_val 16 is_hex_digit hex_digit_val 2 (CHR ''p'') (drop 2 u) of
                          Some v \<Rightarrow> Some v | None \<Rightarrow> Some 0)
                  else mantissa_val 10 isdigit digit_val 10 (CHR ''e'') u) of
              None \<Rightarrow> Inl Invalid_argument
            | Some v \<Rightarrow>
                let w = float32 v in
                if v = 0 then Inr (Fin 0)
                else if float_max < w \<or> w < float_min then Inl Out_of_range
                else Inr (Fin (if neg then - w else w))))"

section \<open>The getter\<close>

definition property_get_float :: "('cb, 'up) actionbase \<Rightarrow> string \<Rightarrow> fval \<Rightarrow> int \<times> fval" where
  "property_get_float a prop_name pVal =
     (case has_property_val a prop_name [] of
        (False, _) \<Rightarrow> (2, pVal)
      | (True, sval) \<Rightarrow> (case stof sval of Inl _ \<Rightarrow> (1, pVal) | Inr v \<Rightarrow> (0, v)))"

lemma property_get_float_cases:
  "property_get_float a k old =
     (case entry a k of None \<Rightarrow> (2, old) | Some s \<Rightarrow> (case stof s of Inl _ \<Rightarrow> (1, old) | Inr v \<Rightarrow> (0, v)))"
  by (simp add: property_get_float_def has_property_val_def split: option.split)

end
