(* ===== verification/Gst_Worker.thy ===== *)
theory Gst_Worker
  imports Stof Gpu_Select
begin

text \<open>
  \<^verbatim>\<open>gst.so/src/gst_worker.cpp\<close>: the stress test of one GPU.  A run is the loop bodies of the code over
  a list of rounds; a round is what the outside answers in it: the stop flag of the library, the
  readings of the system clock (nanoseconds) and of the steady clock (microseconds), and the
  results of the BLAS object.  \<open>None\<close>: the rounds are used up, the loop still runs.
\<close>

section \<open>Clocks, numbers, output\<close>

definition time_diff :: "int \<Rightarrow> int \<Rightarrow> u64" where
  "time_diff t_end t_start = of_int (trunc_int (of_int (t_end - t_start) / 1000))"

definition get_time_us :: "int \<Rightarrow> rat" where
  "get_time_us duration = float64 (of_int duration)"

text \<open>
  The conversion of a double to \<^verbatim>\<open>uint64_t\<close>; outside of the range of the type the language does
  not say what it yields, which is the argument \<open>ub\<close>.
\<close>

definition to_u64 :: "(fval \<Rightarrow> u64) \<Rightarrow> fval \<Rightarrow> u64" where
  "to_u64 ub v = (case v of Fin x \<Rightarrow> if -1 < x \<and> x < 2 ^ 64 then of_int (trunc_int x) else ub v | _ \<Rightarrow> ub v)"

definition f_u64 :: "u64 \<Rightarrow> fval" where "f_u64 v = f_nat (unat v)"

text \<open>The 32-bit sizes of the matrices; the product is built from the left in double precision.\<close>

record blas_size =
  bs_m :: int
  bs_n :: int
  bs_k :: int
  bs_gemm_mode :: string
  bs_batch_size :: int

definition gemm_gflop_count :: "blas_size \<Rightarrow> fval" where
  "gemm_gflop_count b =
     (let p = f_mul (f_mul (f_mul (Fin 2) (Fin (of_int (bs_m b)))) (Fin (of_int (bs_n b)))) (Fin (of_int (bs_k b)));
          p = (if bs_gemm_mode b = ''strided_batched'' then f_mul p (Fin (of_int (bs_batch_size b))) else p)
      in f_div p (Fin (10 ^ 9)))"

datatype gst_event =
    Gst_log string int
  | Gst_result actionstate actionstatus string  \<comment> \<open>a call of the callback\<close>
  | Gst_json "(string \<times> string) list" int
  | Gst_inject u64 u64
  | Gst_sleep nat
  | Gst_json_open string
  | Gst_json_close

section \<open>The worker\<close>

record gst_worker =
  sw_action_name :: string
  sw_gpu_id :: u16
  sw_gpu_index :: u16
  sw_run_duration_ms :: u64
  sw_ramp_interval :: u64
  sw_log_interval :: u64
  sw_max_violations :: u64
  sw_copy_matrix :: bool
  target_stress :: fval
  tolerance :: fval
  sw_hot_calls :: u64
  sw_warm_calls :: u64
  sw_ops_type :: string
  sw_data_type :: string
  sw_self_check :: bool
  sw_accu_check :: bool
  sw_error_inject :: bool
  sw_error_freq :: u64
  sw_error_count :: u64
  sw_size :: blas_size
  sw_bjson :: bool
  sw_cast :: "fval \<Rightarrow> u64"
  ramp_actual_time :: u64
  delay_target_stress :: fval
  max_gflops :: fval
  sw_passed :: bool  \<comment> \<open>the member \<^verbatim>\<open>result\<close>, which no constructor sets\<close>
  sw_events :: "gst_event list"

definition sw_emit :: "gst_event \<Rightarrow> gst_worker \<Rightarrow> gst_worker" where
  "sw_emit e w = w\<lparr>sw_events := sw_events w @ [e]\<rparr>"

definition gpuid_buff :: "gst_worker \<Rightarrow> string" where
  "gpuid_buff w = (let t = to_string (unat (sw_gpu_id w)) in replicate (5 - length t) (CHR '' '') @ t)"

definition gst_head :: "gst_worker \<Rightarrow> string" where
  "gst_head w = ''['' @ sw_action_name w @ ''] [GPU:: '' @ gpuid_buff w @ ''] ''"

definition gst_name :: "gst_worker \<Rightarrow> string" where
  "gst_name w = ''['' @ sw_action_name w @ ''] gst '' @ to_string (unat (sw_gpu_id w)) @ '' ''"

definition u64_of :: "gst_worker \<Rightarrow> fval \<Rightarrow> string" where
  "u64_of w v = to_string (unat (to_u64 (sw_cast w) v))"

definition ms_to_us :: "u64 \<Rightarrow> u64" where "ms_to_us ms = ms * 1000"

text \<open>The record \<^verbatim>\<open>log_to_json\<close> writes has the GPU in front.\<close>

definition gst_fields :: "gst_worker \<Rightarrow> (string \<times> string) list" where
  "gst_fields w = [(''gpu_id'', to_string (unat (sw_gpu_id w))), (''gpu_index'', to_string (unat (sw_gpu_index w)))]"

definition log_interval_gflops :: "fval \<Rightarrow> gst_worker \<Rightarrow> gst_worker" where
  "log_interval_gflops g w =
     (let msg = gst_head w @ ''GFLOPS '' @ u64_of w g
      in sw_emit (Gst_result ACTION_RUNNING ACTION_SUCCESS msg) (sw_emit (Gst_log msg logresults) w))"

text \<open>The products and sums of \<^verbatim>\<open>float\<close> members are rounded to single precision.\<close>

definition lower_target :: "gst_worker \<Rightarrow> fval" where
  "lower_target w = to_single (f_sub (target_stress w) (to_single (f_mul (target_stress w) (tolerance w))))"

definition upper_target :: "gst_worker \<Rightarrow> fval" where
  "upper_target w = to_single (f_add (target_stress w) (to_single (f_mul (target_stress w) (tolerance w))))"

definition check_target_stress :: "fval \<Rightarrow> gst_worker \<Rightarrow> gst_worker" where
  "check_target_stress g w =
     (let w = w\<lparr>sw_passed := f_le (lower_target w) g\<rparr>;
          msg = gst_head w @ ''GFLOPS '' @ u64_of w g @ '' Target GFLOPS: '' @ u64_of w (target_stress w) @
                '' met: '' @ (if sw_passed w then ''TRUE'' else ''FALSE'');
          w = sw_emit (Gst_log msg logresults) w;
          w = sw_emit (Gst_result ACTION_RUNNING (if sw_passed w then ACTION_SUCCESS else ACTION_FAILED) msg) w
      in if sw_bjson w then
           sw_emit (Gst_json (gst_fields w @
             [(''target'', u64_of w (target_stress w)),
              (''dtype'', if sw_data_type w \<noteq> [] then sw_data_type w else sw_ops_type w),
              (''gflops'', u64_of w g), (''pass'', if sw_passed w then ''true'' else ''false'')]) logresults) w
         else w)"

definition check_gflops_violation :: "fval \<Rightarrow> gst_worker \<Rightarrow> bool" where
  "check_gflops_violation g w \<longleftrightarrow> \<not> (f_less (lower_target w) g \<and> f_less g (upper_target w))"

text \<open>The naps of \<^verbatim>\<open>usleep_ex\<close>.\<close>

function usleep_ex :: "nat \<Rightarrow> nat list" where
  "usleep_ex total_us = (if 999999 < total_us then 999999 # usleep_ex (total_us - 999999) else [total_us])"
  by pat_completeness auto
termination by (relation "measure id") auto

declare usleep_ex.simps [simp del]

section \<open>The peak performance loop\<close>

record hit_round =
  hr_stopping :: bool
  hr_now :: int
  hr_copied :: bool
  hr_ran :: bool
  hr_completed :: bool
  hr_end :: int
  hr_restart :: int

text \<open>A failed multiplication only starts the next round.  The result is the error flag.\<close>

fun hit_loop :: "hit_round list \<Rightarrow> int \<Rightarrow> int \<Rightarrow> u16 \<Rightarrow> gst_worker \<Rightarrow> (bool \<times> gst_worker) option" where
  "hit_loop [] start_t log_t num_ops w = None"
| "hit_loop (x # xs) start_t log_t num_ops w =
     (if hr_stopping x then Some (False, w)
      else if ms_to_us 1000 \<le> time_diff (hr_now x) start_t then Some (False, w)
      else if sw_copy_matrix w \<and> \<not> hr_copied x then Some (True, w)
      else if \<not> hr_ran x \<or> \<not> hr_completed x then hit_loop xs start_t log_t num_ops w
      else
        (let num_ops = num_ops + 1; us = time_diff (hr_end x) log_t in
         if ms_to_us (sw_log_interval w) \<le> us then
           (let secs = f_div (f_u64 us) (Fin 1000000);
                w = (if secs \<noteq> Fin 0 then
                       log_interval_gflops
                         (f_div (f_mul (gemm_gflop_count (sw_size w)) (Fin (of_nat (unat num_ops)))) secs) w
                     else w)
            in hit_loop xs start_t (hr_restart x) 0 w)
         else hit_loop xs start_t log_t num_ops w))"

definition hit_max_gflops :: "int \<Rightarrow> int \<Rightarrow> hit_round list \<Rightarrow> gst_worker \<Rightarrow> (bool \<times> gst_worker) option" where
  "hit_max_gflops start_t log_t xs w = hit_loop xs start_t log_t 0 w"

section \<open>The ramp\<close>

text \<open>
  What one round of the ramp reads: the end time at the top, the start of the multiplication, the
  steady clock around it, its end, the end time after the counters, the new starts of the two
  intervals.
\<close>

record ramp_round =
  rr_stopping :: bool
  rr_now :: int
  rr_gemm_start :: int
  rr_copied :: bool
  rr_us_start :: int
  rr_ran :: bool
  rr_completed :: bool
  rr_us_end :: int
  rr_gemm_end :: int
  rr_end :: int
  rr_restart_gflops :: int
  rr_restart_log :: int

record ramp_vars =
  rv_num_sgemm_ops :: u16
  rv_num_log_interval :: u16
  rv_proc_delay :: u16
  rv_start_gflops :: int
  rv_log_interval :: int
  rv_timed_out :: bool  \<comment> \<open>\<^verbatim>\<open>dyn_delay_target_stress\<close> was set to 1\<close>

datatype blas_error = Mem_alloc | Blas_failed | Blas_memcpy

definition err_description :: "blas_error \<Rightarrow> string" where
  "err_description e = (case e of Mem_alloc \<Rightarrow> ''memory allocation error!'' | Blas_failed \<Rightarrow> ''blas error !!!''
                                | Blas_memcpy \<Rightarrow> ''HostToDevice mem copy error!'')"

definition single_shot :: "gst_worker \<Rightarrow> bool" where "single_shot w \<longleftrightarrow> sw_ramp_interval w = 0"

definition us_double :: "u64 \<Rightarrow> fval" where "us_double us = f_div (f_u64 us) (Fin 1000000)"

text \<open>The readings of the steady clock become \<^verbatim>\<open>uint64_t\<close> again before the subtraction.\<close>

definition ramp_gflops :: "gst_worker \<Rightarrow> ramp_round \<Rightarrow> fval" where
  "ramp_gflops w x =
     (let t0 = to_u64 (sw_cast w) (Fin (get_time_us (rr_us_start x)));
          t1 = to_u64 (sw_cast w) (Fin (get_time_us (rr_us_end x)))
      in f_div (f_mul (gemm_gflop_count (sw_size w)) (f_u64 (sw_warm_calls w))) (us_double (t1 - t0)))"

definition ramp_timed_out :: "gst_worker \<Rightarrow> ramp_round \<Rightarrow> bool" where
  "ramp_timed_out w x \<longleftrightarrow>
     f_less (f_div (f_mul (Fin 1000000) (gemm_gflop_count (sw_size w))) (target_stress w))
       (f_u64 (time_diff (rr_gemm_end x) (rr_gemm_start x)))"

text \<open>The sum of an integer and a double goes back to \<^verbatim>\<open>uint16_t\<close>.\<close>

definition add_delay :: "gst_worker \<Rightarrow> u16 \<Rightarrow> u16" where
  "add_delay w d =
     ucast (to_u64 (sw_cast w) (f_add (Fin (of_nat (unat d)))
       (f_div (f_mul (delay_target_stress w) (Fin 10)) (Fin 100))))"

text \<open>The end of a sub-interval; \<open>Inl\<close>: the target was met and the ramp ends.\<close>

definition ramp_sub_interval ::
  "ramp_round \<Rightarrow> int \<Rightarrow> ramp_vars \<Rightarrow> gst_worker \<Rightarrow> gst_worker + ramp_vars \<times> gst_worker" where
  "ramp_sub_interval x start_t v w =
     (let us = time_diff (rr_end x) (rv_start_gflops v) in
      if ms_to_us 1000 \<le> us then
        (let secs = us_double us;
             g = f_div (f_mul (gemm_gflop_count (sw_size w)) (Fin (of_nat (unat (rv_num_sgemm_ops v))))) secs;
             half = to_single (f_add (target_stress w)
                      (to_single (f_div (to_single (f_mul (target_stress w) (tolerance w))) (Fin 2))))
         in if f_less (Fin 0) secs \<and> f_le (target_stress w) g \<and> f_less g half then
              Inl (w\<lparr>ramp_actual_time := time_diff (rr_end x) start_t + ms_to_us 1000,
                     delay_target_stress :=
                       f_div (delay_target_stress w) (Fin (of_nat (unat (rv_num_sgemm_ops v))))\<rparr>)
            else
              Inr (v\<lparr>rv_proc_delay := add_delay w (rv_proc_delay v), rv_num_sgemm_ops := 0,
                     rv_start_gflops := rr_restart_gflops x\<rparr>, w\<lparr>delay_target_stress := Fin 0\<rparr>))
      else Inr (v, w))"

definition ramp_log ::
  "ramp_round \<Rightarrow> fval \<Rightarrow> ramp_vars \<times> gst_worker \<Rightarrow> ramp_vars \<times> gst_worker" where
  "ramp_log x g = (\<lambda>(v, w).
     let us = time_diff (rr_end x) (rv_log_interval v) in
     if ms_to_us (sw_log_interval w) \<le> us then
       (v\<lparr>rv_num_log_interval := 0, rv_log_interval := rr_restart_log x\<rparr>,
        if f_less (Fin 0) (us_double us) then log_interval_gflops g w else w)
     else (v, w))"

text \<open>The comparison at the end of a single shot is in double precision.\<close>

definition shot_target :: "gst_worker \<Rightarrow> fval" where
  "shot_target w = f_mul (target_stress w) (f_sub (Fin 1) (tolerance w))"

fun ramp_loop ::
  "ramp_round list \<Rightarrow> int \<Rightarrow> ramp_vars \<Rightarrow> gst_worker \<Rightarrow> (blas_error option \<times> bool \<times> gst_worker) option" where
  "ramp_loop [] start_t v w = None"
| "ramp_loop (x # xs) start_t v w =
     (if rr_stopping x then Some (None, False, w)
      else if \<not> single_shot w \<and>
              (sw_ramp_interval w - 1000) * 1000 < time_diff (rr_now x) start_t then Some (None, False, w)
      else if sw_copy_matrix w \<and> \<not> rr_copied x then Some (Some Blas_memcpy, False, w)
      else if \<not> rr_ran x \<or> \<not> rr_completed x then Some (Some Blas_failed, False, w)
      else
        (let g = ramp_gflops w x;
             v = v\<lparr>rv_timed_out := rv_timed_out v \<or> ramp_timed_out w x,
                   rv_num_sgemm_ops := rv_num_sgemm_ops v + ucast (sw_warm_calls w),
                   rv_num_log_interval := rv_num_log_interval v + ucast (sw_warm_calls w)\<rparr>
         in case ramp_sub_interval x start_t v w of
              Inl w \<Rightarrow> Some (None, True, w)
            | Inr vw \<Rightarrow>
                (case ramp_log x g vw of
                   (v, w) \<Rightarrow>
                     if single_shot w then Some (None, f_le (shot_target w) g, w)
                     else ramp_loop xs start_t v w)))"

text \<open>Intervals below one second are raised, then the BLAS object is set up.\<close>

definition at_least_a_second :: "u64 \<Rightarrow> u64" where
  "at_least_a_second ms = (if 0 < ms \<and> ms < 1000 then ms + 1000 else ms)"

record gst_input =
  gi_blas_error :: bool
  gi_setup_copied :: bool
  gi_stop_setup :: bool
  gi_ramp_start :: int
  gi_ramp_log :: int
  gi_ramp_gflops :: int
  gi_ramp :: "ramp_round list"

definition setup_blas :: "gst_input \<Rightarrow> gst_worker \<Rightarrow> blas_error option" where
  "setup_blas i w =
     (if gi_blas_error i then Some Mem_alloc
      else if \<not> sw_copy_matrix w \<and> \<not> gi_setup_copied i then Some Blas_memcpy
      else None)"

definition do_gst_ramp :: "gst_input \<Rightarrow> gst_worker \<Rightarrow> (blas_error option \<times> bool \<times> gst_worker) option" where
  "do_gst_ramp i w =
     (let w = w\<lparr>sw_run_duration_ms := at_least_a_second (sw_run_duration_ms w),
                sw_ramp_interval := at_least_a_second (sw_ramp_interval w)\<rparr>
      in case setup_blas i w of
           Some e \<Rightarrow> Some (Some e, False, w)
         | None \<Rightarrow>
             if gi_stop_setup i then Some (None, False, w)
             else
               ramp_loop (gi_ramp i) (gi_ramp_start i)
                 \<lparr>rv_num_sgemm_ops = 0, rv_num_log_interval = 0, rv_proc_delay = 0,
                  rv_start_gflops = gi_ramp_gflops i, rv_log_interval = gi_ramp_log i, rv_timed_out = False\<rparr>
                 (w\<lparr>delay_target_stress := Fin 0\<rparr>))"

section \<open>The stress test\<close>

text \<open>The last two are what \<^verbatim>\<open>validate_gemm\<close> leaves in the variables that start at 0.\<close>

record stress_round =
  tr_stopping :: bool
  tr_copied :: bool
  tr_us_start :: int
  tr_ran :: bool
  tr_completed :: bool
  tr_us_end :: int
  tr_end :: int
  tr_restart :: int
  tr_self_error :: fval
  tr_accu_error :: fval

record stress_vars =
  sv_num_gemm_ops :: u32
  sv_time_taken :: fval
  sv_interval :: int

definition text10 :: "fval \<Rightarrow> string" where
  "text10 v = (case v of Fin x \<Rightarrow> fixed_text 10 x | Infinite s \<Rightarrow> (if s then ''-inf'' else ''inf'') | NaN \<Rightarrow> ''nan'')"

definition stress_interval ::
  "stress_round \<Rightarrow> stress_vars \<times> gst_worker \<Rightarrow> stress_vars \<times> gst_worker" where
  "stress_interval x = (\<lambda>(v, w).
     let us = time_diff (tr_end x) (sv_interval v) in
     if (ms_to_us (sw_log_interval w) \<le> us \<or> sw_run_duration_ms w = 0) \<and> 0 < sv_num_gemm_ops v
        \<and> us_double us \<noteq> Fin 0 then
       (let one = f_div (sv_time_taken v) (Fin (of_nat (unat (sv_num_gemm_ops v))));
            g = f_mul (f_div (gemm_gflop_count (sw_size w)) one) (Fin (10 ^ 6));
            w = (if f_less (max_gflops w) g then w\<lparr>max_gflops := g\<rparr> else w)
        in (\<lparr>sv_num_gemm_ops = 0, sv_time_taken = Fin 0, sv_interval = tr_restart x\<rparr>, log_interval_gflops g w))
     else (v, w))"

definition check_line :: "gst_worker \<Rightarrow> string \<Rightarrow> fval \<Rightarrow> string" where
  "check_line w kind v =
     ''['' @ sw_action_name w @ ''] [GPU:: '' @ to_string (unat (sw_gpu_id w)) @ ''] '' @ kind @ '' '' @ text10 v"

definition stress_checks :: "stress_round \<Rightarrow> gst_worker \<Rightarrow> gst_worker" where
  "stress_checks x w =
     (if sw_self_check w \<or> sw_accu_check w then
        (let w = (if sw_error_inject w then sw_emit (Gst_inject (sw_error_freq w) (sw_error_count w)) w else w);
             w = (if f_less (Fin 0) (tr_self_error x)
                  then sw_emit (Gst_log (check_line w ''self-check error'' (tr_self_error x)) logresults) w else w)
         in if f_less (Fin 0) (tr_accu_error x)
            then sw_emit (Gst_log (check_line w ''accu-check error'' (tr_accu_error x)) logresults) w else w)
      else w)"

definition trace_round :: "u64 \<Rightarrow> gst_worker \<Rightarrow> gst_worker" where
  "trace_round total_us w =
     sw_emit (Gst_log (gst_name w @ ''start  Execution time in microseconds :'' @ to_string (unat total_us) @
       '' run_duration_ms :'' @ to_string (unat (sw_run_duration_ms w))) logtrace) w"

fun gst_stress_loop ::
  "stress_round list \<Rightarrow> int \<Rightarrow> stress_vars \<Rightarrow> gst_worker \<Rightarrow> (blas_error option \<times> bool \<times> gst_worker) option" where
  "gst_stress_loop [] start_t v w = None"
| "gst_stress_loop (x # xs) start_t v w =
     (if tr_stopping x then Some (None, False, w)
      else if sw_copy_matrix w \<and> \<not> tr_copied x then Some (Some Blas_memcpy, False, w)
      else if \<not> tr_ran x \<or> \<not> tr_completed x then Some (Some Blas_failed, False, w)
      else
        (let v = v\<lparr>sv_time_taken := f_add (sv_time_taken v)
                     (f_sub (Fin (get_time_us (tr_us_end x))) (Fin (get_time_us (tr_us_start x)))),
                   sv_num_gemm_ops := sv_num_gemm_ops v + ucast (sw_hot_calls w)\<rparr>;
             total_us = time_diff (tr_end x) start_t;
             (v, w) = stress_interval x (v, w);
             w = trace_round total_us (stress_checks x w)
         in if sw_run_duration_ms w = 0 \<or> ms_to_us (sw_run_duration_ms w) \<le> total_us
            then Some (None, True, w)
            else gst_stress_loop xs start_t v w))"

definition do_gst_stress_test ::
  "int \<Rightarrow> int \<Rightarrow> stress_round list \<Rightarrow> gst_worker \<Rightarrow> (blas_error option \<times> bool \<times> gst_worker) option" where
  "do_gst_stress_test start_t log_t xs w =
     gst_stress_loop xs start_t \<lparr>sv_num_gemm_ops = 0, sv_time_taken = Fin 0, sv_interval = log_t\<rparr>
       (w\<lparr>max_gflops := Fin 0\<rparr>)"

section \<open>The thread\<close>

text \<open>Everything the outside answers during one run.\<close>

record gst_run_input = gst_input +
  gi_stress_start :: int
  gi_stress_log :: int
  gi_stress :: "stress_round list"
  gi_stop_end :: bool

definition gst_failed :: "blas_error \<Rightarrow> gst_worker \<Rightarrow> gst_worker" where
  "gst_failed e w =
     (let msg = gst_name w @ err_description e;
          w = sw_emit (Gst_log msg logerror) w;
          w = (if sw_bjson w then sw_emit (Gst_json (gst_fields w @ [(''err'', err_description e)]) logerror) w else w)
      in sw_emit (Gst_result ACTION_COMPLETED ACTION_FAILED msg) w)"

definition gst_announced :: "gst_worker \<Rightarrow> gst_worker" where
  "gst_announced w =
     sw_emit (Gst_log (gst_head w @ ''Start of GPU ramp up'') logresults)
       (sw_emit (Gst_log (''['' @ sw_action_name w @ ''] gst [GPU:: '' @ gpuid_buff w @
          ''] '' @ '' start  Starting the GST stress test '') logtrace) (w\<lparr>max_gflops := Fin 0\<rparr>))"

text \<open>The result of the ramp is only stored.\<close>

definition gst_worker_run :: "gst_run_input \<Rightarrow> gst_worker \<Rightarrow> gst_worker option" where
  "gst_worker_run i w =
     (case do_gst_ramp (gst_input.truncate i) (gst_announced w) of
        None \<Rightarrow> None
      | Some (err, _, w) \<Rightarrow>
          let w = sw_emit (Gst_log (gst_head w @ ''End of GPU ramp up'') logresults) w in
          (case err of
             Some e \<Rightarrow> Some (gst_failed e w)
           | None \<Rightarrow>
               let w = sw_emit (Gst_log (gst_name w @ '' GST ramp completed for interval : '' @
                     to_string (unat (sw_ramp_interval w))) loginfo) w in
               (case do_gst_stress_test (gi_stress_start i) (gi_stress_log i) (gi_stress i) w of
                  None \<Rightarrow> None
                | Some (err, _, w) \<Rightarrow>
                    if gi_stop_end i then Some w
                    else (case err of
                            Some e \<Rightarrow> Some (gst_failed e w)
                          | None \<Rightarrow> Some (check_target_stress (max_gflops w) w)))))"

end
