(* ===== verification/Key_Table.thy ===== *)
theory Key_Table
  imports Stof
begin

text \<open>
  The routines that read the keys of an action one after the other, as a table.  A row is the
  message of a failure, whether any non-zero code fails or only code 1, and the getter together
  with the member it writes.
\<close>

type_synonym 'm key_row = "string \<times> bool \<times> ('m \<Rightarrow> int \<times> 'm)"

definition int_key ::
  "('m \<Rightarrow> ('cb, 'up) actionbase) \<Rightarrow> string \<Rightarrow> 'a::len word \<Rightarrow> ('m \<Rightarrow> 'a word)
     \<Rightarrow> (('a word \<Rightarrow> 'a word) \<Rightarrow> 'm \<Rightarrow> 'm) \<Rightarrow> 'm \<Rightarrow> int \<times> 'm" where
  "int_key ab k d get upd m = (case property_get_int_def (ab m) k (get m) d of (e, v) \<Rightarrow> (e, upd (\<lambda>_. v) m))"

definition string_key ::
  "('m \<Rightarrow> ('cb, 'up) actionbase) \<Rightarrow> string \<Rightarrow> string \<Rightarrow> ('m \<Rightarrow> string)
     \<Rightarrow> ((string \<Rightarrow> string) \<Rightarrow> 'm \<Rightarrow> 'm) \<Rightarrow> 'm \<Rightarrow> int \<times> 'm" where
  "string_key ab k d get upd m =
     (case property_get_default (property_get_string (ab m) k (get m)) d of (e, v) \<Rightarrow> (e, upd (\<lambda>_. v) m))"

definition bool_key ::
  "('m \<Rightarrow> ('cb, 'up) actionbase) \<Rightarrow> string \<Rightarrow> bool \<Rightarrow> ('m \<Rightarrow> bool)
     \<Rightarrow> ((bool \<Rightarrow> bool) \<Rightarrow> 'm \<Rightarrow> 'm) \<Rightarrow> 'm \<Rightarrow> int \<times> 'm" where
  "bool_key ab k d get upd m =
     (case property_get_default (property_get_bool (ab m) k (get m)) d of (e, v) \<Rightarrow> (e, upd (\<lambda>_. v) m))"

definition float_key ::
  "('m \<Rightarrow> ('cb, 'up) actionbase) \<Rightarrow> string \<Rightarrow> rat \<Rightarrow> ('m \<Rightarrow> fval)
     \<Rightarrow> ((fval \<Rightarrow> fval) \<Rightarrow> 'm \<Rightarrow> 'm) \<Rightarrow> 'm \<Rightarrow> int \<times> 'm" where
  "float_key ab k d get upd m =
     (case property_get_default (property_get_float (ab m) k (get m)) (Fin (float32 d)) of
        (e, v) \<Rightarrow> (e, upd (\<lambda>_. v) m))"

definition key_quote :: string where "key_quote = [CHR 0x27]"

definition bad_key :: "string \<Rightarrow> string" where
  "bad_key k = ''invalid '' @ key_quote @ k @ key_quote @ '' key value''"

fun read_keys ::
  "'m key_row list \<Rightarrow> (bool \<times> log_event list) \<times> 'm \<Rightarrow> (bool \<times> log_event list) \<times> 'm" where
  "read_keys [] rm = rm"
| "read_keys ((msg, strict, rd) # ks) (r, m) =
     (case rd m of (e, m) \<Rightarrow> read_keys ks (step_key (if strict \<or> e = 1 then e else 0) [Log_err msg] r, m))"

text \<open>A mandatory key of type \<^verbatim>\<open>float\<close>; the text of the value in its message is an empty variable.\<close>

definition mandatory_float ::
  "('m \<Rightarrow> ('cb, 'up) actionbase) \<Rightarrow> string \<Rightarrow> ('m \<Rightarrow> fval) \<Rightarrow> ((fval \<Rightarrow> fval) \<Rightarrow> 'm \<Rightarrow> 'm) \<Rightarrow> 'm
     \<Rightarrow> (bool \<times> log_event list) \<times> 'm" where
  "mandatory_float ab k get upd m =
     (case property_get_float (ab m) k (get m) of
        (e, v) \<Rightarrow>
          (if e = 0 then (True, [])
           else (False, if e = 1 then [Log_err (bad_key k @ '' '')]
                        else if e = 2 then [Log_err (''key '' @ key_quote @ k @ key_quote @ '' was not found'')]
                        else []),
           upd (\<lambda>_. v) m))"

section \<open>Facts\<close>

lemma read_keys_failed: "\<not> fst r \<Longrightarrow> \<not> fst (fst (read_keys ks (r, m)))"
proof (induction ks arbitrary: r m)
  case Nil
  then show ?case by simp
next
  case (Cons k ks)
  obtain msg strict rd where k: "k = (msg, strict, rd)" by (cases k)
  obtain e m' where rd: "rd m = (e, m')" by (cases "rd m")
  have "\<not> fst (step_key (if strict \<or> e = 1 then e else 0) [Log_err msg] r)"
    using Cons.prems by (simp add: step_key_def)
  from Cons.IH [OF this, of m'] show ?case by (simp add: k rd)
qed

text \<open>The code of a getter depends on the text of its key only.\<close>

definition number_code :: "string option \<Rightarrow> int" where
  "number_code t = (case t of None \<Rightarrow> 0 | Some s \<Rightarrow> if uint_text s then 0 else if s = [] then 2 else 1)"

definition float_code :: "string option \<Rightarrow> int" where
  "float_code t = (case t of None \<Rightarrow> 0 | Some s \<Rightarrow> (case stof s of Inl _ \<Rightarrow> 1 | Inr _ \<Rightarrow> 0))"

definition flag_code :: "string option \<Rightarrow> int" where
  "flag_code t = (if bool_entry_ok t then 0 else 1)"

definition text_code :: "string option \<Rightarrow> int" where
  "text_code t = 0"

text \<open>What a row reads: its key and code, and it leaves the texts of the keys as they are.\<close>

definition reads :: "('m \<Rightarrow> ('cb, 'up) actionbase) \<Rightarrow> 'm key_row \<Rightarrow> string \<times> (string option \<Rightarrow> int) \<Rightarrow> bool" where
  "reads ab row spec \<longleftrightarrow>
     (\<forall>m. fst (snd (snd row) m) = snd spec (entry (ab m) (fst spec)) \<and>
          property (ab (snd (snd (snd row) m))) = property (ab m))"

lemma reads_int:
  assumes "\<And>f m. property (ab (upd f m)) = property (ab m)"
  shows "reads ab (msg, strict, int_key ab k d get upd) (k, number_code)"
  using assms by (auto simp: reads_def int_key_def property_get_int_def_cases number_code_def split: option.split prod.split)

lemma reads_string:
  assumes "\<And>f m. property (ab (upd f m)) = property (ab m)"
  shows "reads ab (msg, strict, string_key ab k d get upd) (k, text_code)"
  using assms
  by (auto simp: reads_def string_key_def property_get_default_def property_get_string_def has_property_val_def
      text_code_def split: option.split prod.split bool.split)

lemma reads_bool:
  assumes "\<And>f m. property (ab (upd f m)) = property (ab m)"
  shows "reads ab (msg, strict, bool_key ab k d get upd) (k, flag_code)"
  using assms
  by (auto simp: reads_def bool_key_def property_get_bool_default_cases flag_code_def bool_entry_ok_def
      split: option.split prod.split)

lemma reads_float:
  assumes "\<And>f m. property (ab (upd f m)) = property (ab m)"
  shows "reads ab (msg, strict, float_key ab k d get upd) (k, float_code)"
  using assms
  by (auto simp: reads_def float_key_def property_get_default_def property_get_float_cases float_code_def
      split: option.split prod.split sum.split)

definition row_accepts :: "('m \<Rightarrow> ('cb, 'up) actionbase) \<Rightarrow> 'm \<Rightarrow> 'm key_row \<Rightarrow> string \<times> (string option \<Rightarrow> int) \<Rightarrow> bool" where
  "row_accepts ab m row spec \<longleftrightarrow>
     (let c = snd spec (entry (ab m) (fst spec)) in if fst (snd row) then c = 0 else c \<noteq> 1)"

lemma row_accepts_cong: "property (ab m) = property (ab m') \<Longrightarrow> row_accepts ab m = row_accepts ab m'"
  by (rule ext)+ (simp add: row_accepts_def)

lemma read_keys_accepted:
  assumes "list_all2 (reads ab) ks specs"
  shows "(fst (fst (read_keys ks (r, m))) \<longleftrightarrow> fst r \<and> list_all2 (row_accepts ab m) ks specs) \<and>
    property (ab (snd (read_keys ks (r, m)))) = property (ab m)"
  using assms
proof (induction ks specs arbitrary: r m rule: list_all2_induct)
  case Nil
  then show ?case by simp
next
  case (Cons k ks spec specs)
  obtain msg strict rd where k: "k = (msg, strict, rd)" by (cases k)
  obtain e m' where rd: "rd m = (e, m')" by (cases "rd m")
  from Cons(1) have e: "e = snd spec (entry (ab m) (fst spec))" "property (ab m') = property (ab m)"
    by (auto simp: reads_def k dest: spec [where x = m] simp: rd)
  let ?r = "step_key (if strict \<or> e = 1 then e else 0) [Log_err msg] r"
  have "fst ?r \<longleftrightarrow> fst r \<and> row_accepts ab m k spec"
    by (auto simp: step_key_def row_accepts_def k e(1) Let_def)
  with Cons.IH [of ?r m'] show ?case
    by (simp add: k rd e(2) row_accepts_cong [of ab m' m, OF e(2)])
qed

end
