(* ===== verification/Gst_Action.thy ===== *)
theory Gst_Action
  imports Gst_Worker Key_Table
begin

text \<open>
  \<^verbatim>\<open>gst.so/src/action.cpp\<close>: the keys of the GPU stress test, the workers, the run of the action.
\<close>

section \<open>Configuration\<close>

record ('cb, 'up) gst_action =
  sa_base :: "('cb, 'up) actionbase"
  gst_target_stress :: fval
  gst_ramp_interval :: u64
  gst_max_violations :: u32
  gst_copy_matrix :: bool
  gst_tolerance :: fval
  gst_ops_type :: string
  gst_data_type :: string
  gst_out_data_type :: string
  gst_hot_calls :: u64
  gst_warm_calls :: u64
  gst_matrix_size_a :: u64
  gst_matrix_size_b :: u64
  gst_matrix_size_c :: u64
  gst_matrix_init :: string
  gst_trans_a :: u32
  gst_trans_b :: u32
  gst_alpha_val :: fval
  gst_beta_val :: fval
  gst_lda_offset :: u32
  gst_ldb_offset :: u32
  gst_ldc_offset :: u32
  gst_ldd_offset :: u32
  gst_self_check :: bool
  gst_accu_check :: bool
  gst_error_inject :: bool
  gst_error_freq :: u64
  gst_error_count :: u64
  gst_gemm_mode :: string
  gst_batch_size :: u32
  gst_stride_a :: u64
  gst_stride_b :: u64
  gst_stride_c :: u64
  gst_stride_d :: u64
  gst_blas_source :: string
  gst_compute_type :: string
  gst_scale_a :: string
  gst_scale_b :: string
  gst_rotating :: u32

definition log_interval_key :: "('cb, 'up) gst_action \<Rightarrow> int \<times> ('cb, 'up) gst_action" where
  "log_interval_key m =
     (case property_get_int_def (sa_base m) ''log_interval'' (property_log_interval (sa_base m)) 1000 of
        (e, v) \<Rightarrow> (e, m\<lparr>sa_base := (sa_base m)\<lparr>property_log_interval := v\<rparr>\<rparr>))"

definition duration_key :: "('cb, 'up) gst_action \<Rightarrow> int \<times> ('cb, 'up) gst_action" where
  "duration_key m =
     (case property_get_int_def (sa_base m) ''duration'' (property_duration (sa_base m)) 0 of
        (e, v) \<Rightarrow> (e, m\<lparr>sa_base := (sa_base m)\<lparr>property_duration := v\<rparr>\<rparr>))"

text \<open>The order is that of the code; the message of the batch size names another key.\<close>

definition gst_keys_sizes :: "('cb, 'up) gst_action key_row list" where
  "gst_keys_sizes =
     [(bad_key ''ramp_interval'', True, int_key sa_base ''ramp_interval'' 0 gst_ramp_interval gst_ramp_interval_update),
      (bad_key ''log_interval'', True, log_interval_key),
      (bad_key ''max_violations'', True, int_key sa_base ''max_violations'' 0 gst_max_violations gst_max_violations_update),
      (bad_key ''copy_matrix'', True, bool_key sa_base ''copy_matrix'' True gst_copy_matrix gst_copy_matrix_update),
      (bad_key ''tolerance'', True, float_key sa_base ''tolerance'' (5 / 100) gst_tolerance gst_tolerance_update),
      (bad_key ''ops_type'', True, string_key sa_base ''ops_type'' [] gst_ops_type gst_ops_type_update),
      (bad_key ''data_type'', True, string_key sa_base ''data_type'' [] gst_data_type gst_data_type_update),
      (bad_key ''hot_calls'', False, int_key sa_base ''hot_calls'' 1 gst_hot_calls gst_hot_calls_update),
      (bad_key ''warm_calls'', False, int_key sa_base ''warm_calls'' 1 gst_warm_calls gst_warm_calls_update),
      (bad_key ''matrix_size_a'', False, int_key sa_base ''matrix_size_a'' 5760 gst_matrix_size_a gst_matrix_size_a_update),
      (bad_key ''matrix_size_b'', False, int_key sa_base ''matrix_size_b'' 5760 gst_matrix_size_b gst_matrix_size_b_update),
      (bad_key ''matrix_size_c'', False, int_key sa_base ''matrix_size_c'' 5760 gst_matrix_size_c gst_matrix_size_c_update),
      (bad_key ''matrix_init'', False, string_key sa_base ''matrix_init'' ''default'' gst_matrix_init gst_matrix_init_update),
      (bad_key ''transa'', False, int_key sa_base ''transa'' 0 gst_trans_a gst_trans_a_update),
      (bad_key ''transb'', False, int_key sa_base ''transb'' 1 gst_trans_b gst_trans_b_update),
      (bad_key ''alpha'', False, float_key sa_base ''alpha'' 1 gst_alpha_val gst_alpha_val_update),
      (bad_key ''beta'', False, float_key sa_base ''beta'' 1 gst_beta_val gst_beta_val_update),
      (bad_key ''lda'', False, int_key sa_base ''lda'' 0 gst_lda_offset gst_lda_offset_update),
      (bad_key ''ldb'', False, int_key sa_base ''ldb'' 0 gst_ldb_offset gst_ldb_offset_update),
      (bad_key ''ldc'', False, int_key sa_base ''ldc'' 0 gst_ldc_offset gst_ldc_offset_update),
      (bad_key ''ldd'', False, int_key sa_base ''ldd'' 0 gst_ldd_offset gst_ldd_offset_update)]"

definition gst_keys_modes :: "('cb, 'up) gst_action key_row list" where
  "gst_keys_modes =
     [(bad_key ''self_check'', True, bool_key sa_base ''self_check'' False gst_self_check gst_self_check_update),
      (bad_key ''accuracy_check'', True, bool_key sa_base ''accuracy_check'' False gst_accu_check gst_accu_check_update),
      (bad_key ''error_inject'', True, bool_key sa_base ''error_inject'' False gst_error_inject gst_error_inject_update),
      (bad_key ''error_freq'', False, int_key sa_base ''error_freq'' 0 gst_error_freq gst_error_freq_update),
      (bad_key ''error_count'', False, int_key sa_base ''error_count'' 0 gst_error_count gst_error_count_update),
      (bad_key ''gemm_mode'', False, string_key sa_base ''gemm_mode'' [] gst_gemm_mode gst_gemm_mode_update),
      (bad_key ''stride_a'', False, int_key sa_base ''batch_size'' 0 gst_batch_size gst_batch_size_update),
      (bad_key ''stride_a'', False, int_key sa_base ''stride_a'' 0 gst_stride_a gst_stride_a_update),
      (bad_key ''stride_b'', False, int_key sa_base ''stride_b'' 0 gst_stride_b gst_stride_b_update),
      (bad_key ''stride_c'', False, int_key sa_base ''stride_c'' 0 gst_stride_c gst_stride_c_update),
      (bad_key ''stride_d'', False, int_key sa_base ''stride_d'' 0 gst_stride_d gst_stride_d_update),
      (bad_key ''blas_source'', False, string_key sa_base ''blas_source'' ''rocblas'' gst_blas_source gst_blas_source_update),
      (bad_key ''compute_type'', False, string_key sa_base ''compute_type'' ''fp32_r'' gst_compute_type gst_compute_type_update),
      (bad_key ''out_data_type'', True, string_key sa_base ''out_data_type'' [] gst_out_data_type gst_out_data_type_update),
      (bad_key ''scale_a'', False, string_key sa_base ''scale_a'' [] gst_scale_a gst_scale_a_update),
      (bad_key ''scale_b'', False, string_key sa_base ''scale_b'' [] gst_scale_b gst_scale_b_update),
      (bad_key ''rotating'', False, int_key sa_base ''rotating'' 0 gst_rotating gst_rotating_update)]"

definition gst_keys :: "('cb, 'up) gst_action key_row list" where
  "gst_keys = gst_keys_sizes @ gst_keys_modes"

definition target_stress_key ::
  "('cb, 'up) gst_action \<Rightarrow> (bool \<times> log_event list) \<times> ('cb, 'up) gst_action" where
  "target_stress_key = mandatory_float sa_base ''target_stress'' gst_target_stress gst_target_stress_update"

text \<open>\<open>has_f8\<close> is the flag of the build that tells the version of the BLAS library.\<close>

definition get_all_gst_config_keys ::
  "bool \<Rightarrow> ('cb, 'up) gst_action \<Rightarrow> (bool \<times> log_event list) \<times> ('cb, 'up) gst_action" where
  "get_all_gst_config_keys has_f8 m =
     (let (r, m) = read_keys gst_keys (target_stress_key m);
          (e, m) = duration_key m;
          r = step_key e [Log_err (''Invalid '' @ key_quote @ ''duration'' @ key_quote @ '' key'')] r;
          m = (if gst_ops_type m = [] \<and> gst_data_type m = [] then m\<lparr>gst_ops_type := ''sgemm''\<rparr> else m);
          dur = property_duration (sa_base m);
          r = step_key (if 0 < dur \<and> dur < gst_ramp_interval m then 1 else 0)
                [Log_err (key_quote @ ''duration'' @ key_quote @ '' cannot be less than '' @ key_quote @ ''ramp_interval'' @ key_quote)] r;
          r = step_key (if \<not> has_f8 \<and> gst_blas_source m = ''rocblas'' \<and> gst_data_type m = ''fp8_r'' then 1 else 0)
                [Log_err ''The version of rocBLAS currently in use no longer supports FP8.''] r
      in (r, m))"

section \<open>The workers\<close>

text \<open>The settings of one worker; \<open>gl\<close> is the GPU table, \<open>ub\<close> the conversion of large doubles.\<close>

definition configure ::
  "gpulist \<Rightarrow> (fval \<Rightarrow> u64) \<Rightarrow> ('cb, 'up) gst_action \<Rightarrow> nat \<times> u16 \<Rightarrow> gst_worker \<Rightarrow> gst_worker" where
  "configure gl ub m d w =
     (let a = sa_base m in
      w\<lparr>sw_action_name := action_name a, sw_gpu_id := snd d,
        sw_gpu_index := (case gpu2gpuindex gl (snd d) of Found v \<Rightarrow> v | _ \<Rightarrow> 0),
        sw_run_duration_ms := property_duration a, sw_ramp_interval := gst_ramp_interval m,
        sw_log_interval := property_log_interval a, sw_max_violations := scast (gst_max_violations m),
        sw_copy_matrix := gst_copy_matrix m, target_stress := gst_target_stress m,
        tolerance := gst_tolerance m, sw_hot_calls := gst_hot_calls m, sw_warm_calls := gst_warm_calls m,
        sw_ops_type := gst_ops_type m, sw_data_type := gst_data_type m,
        sw_self_check := gst_self_check m, sw_accu_check := gst_accu_check m,
        sw_error_inject := gst_error_inject m, sw_error_freq := gst_error_freq m,
        sw_error_count := gst_error_count m,
        sw_size := \<lparr>bs_m = sint (ucast (gst_matrix_size_a m) :: u32), bs_n = sint (ucast (gst_matrix_size_b m) :: u32),
                    bs_k = sint (ucast (gst_matrix_size_c m) :: u32), bs_gemm_mode = gst_gemm_mode m,
                    bs_batch_size = sint (gst_batch_size m)\<rparr>,
        sw_bjson := bjson a, sw_cast := ub\<rparr>)"

text \<open>
  One pass over the workers, each with the answers it gets and the stop flag after it.  Parallel
  workers share nothing, their events stand one worker after the other.  The flag tells whether a
  stop ended the pass.
\<close>

fun gst_workers_loop ::
  "bool \<Rightarrow> (gst_run_input \<times> bool) list \<Rightarrow> gst_worker list \<Rightarrow> gst_worker list \<Rightarrow> gst_event list
     \<Rightarrow> (bool \<times> gst_worker list \<times> gst_event list) option" where
  "gst_workers_loop parallel is [] finished evs = Some (False, finished, evs)"
| "gst_workers_loop parallel [] (w # ws) finished evs = None"
| "gst_workers_loop parallel ((i, stop) # is) (w # ws) finished evs =
     (case gst_worker_run i (w\<lparr>sw_events := []\<rparr>) of
        None \<Rightarrow> None
      | Some w' \<Rightarrow>
          if \<not> parallel \<and> stop then Some (True, finished @ w' # ws, evs @ sw_events w')
          else gst_workers_loop parallel is ws (finished @ [w']) (evs @ sw_events w'))"

record gst_pass =
  gp_inputs :: "(gst_run_input \<times> bool) list"
  gp_stop :: bool
  gp_stop_end :: bool

fun gst_passes ::
  "gpulist \<Rightarrow> (fval \<Rightarrow> u64) \<Rightarrow> ('cb, 'up) gst_action \<Rightarrow> (nat \<times> u16) list \<Rightarrow> gst_pass list \<Rightarrow> u64
     \<Rightarrow> gst_worker list \<Rightarrow> gst_event list \<Rightarrow> (bool \<times> gst_event list) option" where
  "gst_passes gl ub m devs [] k ws evs = None"
| "gst_passes gl ub m devs (p # ps) k ws evs =
     (let a = sa_base m;
          evs = (if property_wait a \<noteq> 0 then evs @ [Gst_sleep (unat (ucast (property_wait a) :: u32))] else evs);
          ws = map2 (configure gl ub m) devs ws
      in case gst_workers_loop (property_parallel a) (gp_inputs p) ws [] evs of
           None \<Rightarrow> None
         | Some (stopped, ws, evs) \<Rightarrow>
             if stopped \<or> gp_stop p then Some (False, evs)
             else if property_count a \<noteq> 0 \<and> k + 1 = property_count a
             then Some (\<not> gp_stop_end p \<and> list_all sw_passed ws, evs)
             else gst_passes gl ub m devs ps (if property_count a \<noteq> 0 then k + 1 else k) ws evs)"

text \<open>\<open>raw\<close> are the workers as the vector creates them: no member has a value.\<close>

definition do_gpu_stress_test ::
  "gpulist \<Rightarrow> (fval \<Rightarrow> u64) \<Rightarrow> ('cb, 'up) gst_action \<Rightarrow> (nat \<times> u16) list \<Rightarrow> gst_pass list \<Rightarrow> gst_worker list
     \<Rightarrow> (bool \<times> gst_event list) option" where
  "do_gpu_stress_test gl ub m devs ps raw = gst_passes gl ub m devs ps 0 raw []"

section \<open>The run\<close>

datatype gst_note = Note log_event | Worker_event gst_event

definition get_num_amd_gpu_devices :: "hip_device list \<Rightarrow> ('cb, 'up) actionbase \<Rightarrow> int \<times> gst_note list" where
  "get_num_amd_gpu_devices hip a =
     (if hip = [] then
        (-1, [Note (Log_msg (action_name a @ '' gst No AMD compatible GPU found!'') logerror)] @
             (if bjson a then [Worker_event (Gst_json [(''ERROR'', ''No AMD compatible GPU found!'')] logerror)] else []))
      else (int (length hip), []))"

definition gst_selected_gpus ::
  "gpulist \<Rightarrow> hip_device list \<Rightarrow> (fval \<Rightarrow> u64) \<Rightarrow> ('cb, 'up) gst_action \<Rightarrow> gst_pass list
     \<Rightarrow> (nat \<Rightarrow> gst_worker list) \<Rightarrow> (int \<times> gst_note list) option" where
  "gst_selected_gpus gl hip ub m ps raw =
     (case get_num_amd_gpu_devices hip (sa_base m) of
        (n, evs) \<Rightarrow>
          if n < 1 then Some (n, evs)
          else (case fetch_gpu_list gl (selection_of (sa_base m)) False hip [] [] of
                  None \<Rightarrow> None
                | Some (devs, _, found) \<Rightarrow>
                    if found then
                      map_option (\<lambda>(ok, es). (if ok then 0 else -1, evs @ map Worker_event es))
                        (do_gpu_stress_test gl ub m devs ps (raw (length devs)))
                    else Some (-1, evs @ [Note (Log_err ''No devices match criteria from the test configuration.'')])))"

text \<open>A bad key ends the action without a call of the callback.\<close>

definition gst_action_run ::
  "gpulist \<Rightarrow> hip_device list \<Rightarrow> (fval \<Rightarrow> u64) \<Rightarrow> bool \<Rightarrow> ('cb, 'up) gst_action \<Rightarrow> gst_pass list
     \<Rightarrow> (nat \<Rightarrow> gst_worker list) \<Rightarrow> (int \<times> action_result_t option \<times> gst_note list) option" where
  "gst_action_run gl hip ub has_f8 m ps raw =
     (case get_all_common_config_keys (sa_base m) of
        None \<Rightarrow> None
      | Some ((False, evs), a) \<Rightarrow> Some (-1, None, map Note evs)
      | Some ((True, evs), a) \<Rightarrow>
          (case get_all_gst_config_keys has_f8 (m\<lparr>sa_base := a\<rparr>) of
             ((False, evs2), m) \<Rightarrow> Some (-1, None, map Note (evs @ evs2))
           | ((True, evs2), m) \<Rightarrow>
               let a = sa_base m in
               map_option (\<lambda>(res, es).
                 (res, Some \<lparr>ar_state = ACTION_COMPLETED,
                             ar_status = (if res = 0 then ACTION_SUCCESS else ACTION_FAILED),
                             ar_output = ''GST Module action '' @ action_name a @ '' completed''\<rparr>,
                  map Note (evs @ evs2) @ (if bjson a then [Worker_event (Gst_json_open (action_name a))] else []) @
                  es @ (if bjson a then [Worker_event Gst_json_close] else [])))
                 (gst_selected_gpus gl hip ub m ps raw)))"

end
