(* ===== verification/Gst_Keys.thy ===== *)
theory Gst_Keys
  imports Gst_Action
begin




















end
