(* ===== verification/Tst.thy ===== *)
theory Tst
  imports Gst_Worker Key_Table Rsmi_Util
begin

text \<open>
  The thermal stress test, \<^verbatim>\<open>tst.so/src/tst_worker.cpp\<close> and \<^verbatim>\<open>tst.so/src/action.cpp\<close>.  A worker has two
  threads: one loads the GPU, the other reads its temperature.  A run is a list of rounds of each,
  with the answers of the clocks, of the SMI and BLAS libraries and the stop flags.
\<close>

section \<open>The worker\<close>

datatype tst_event =
    Tst_log string int
  | Tst_result actionstate actionstatus string
  | Tst_json "(string \<times> string) list" int
  | Tst_sleep nat
  | Tst_gemm
  | Tst_err string
  | Tst_json_open string
  | Tst_json_close

record tst_worker =
  tw_action_name :: string
  tw_gpu_id :: u16
  tw_gpu_index :: u16
  tw_run_duration_ms :: u64
  target_temp :: fval
  throttle_temp :: fval
  tw_ops_type :: string
  tw_size :: blas_size
  tw_bjson :: bool
  tw_handle :: bool  \<comment> \<open>the handle of the SMI library is not null\<close>
  endtest :: bool
  tw_events :: "tst_event list"

definition tw_emit :: "tst_event \<Rightarrow> tst_worker \<Rightarrow> tst_worker" where
  "tw_emit e w = w\<lparr>tw_events := tw_events w @ [e]\<rparr>"

text \<open>This \<^verbatim>\<open>time_diff\<close> counts milliseconds.\<close>

definition time_diff_ms :: "int \<Rightarrow> int \<Rightarrow> u64" where
  "time_diff_ms t_end t_start = of_int (trunc_int (of_int (t_end - t_start) / 1000000))"

definition f_text :: "fval \<Rightarrow> string" where
  "f_text v = (case v of Fin x \<Rightarrow> fixed6_text x | Infinite s \<Rightarrow> (if s then ''-inf'' else ''inf'') | NaN \<Rightarrow> ''nan'')"

definition tst_name :: "tst_worker \<Rightarrow> string" where
  "tst_name w = ''['' @ tw_action_name w @ ''] tst ''"

section \<open>The thread that loads the GPU\<close>

text \<open>
  A round of the load: whether the flag that ends the test is seen at the top and at the bottom,
  the status the callback reported, the clock.  The size of all three matrices is the first one.
\<close>

record blas_round =
  br_end_top :: bool
  br_status :: bool
  br_now :: int
  br_end_bottom :: bool

fun blas_loop :: "tst_worker \<Rightarrow> blas_round list \<Rightarrow> int \<Rightarrow> fval \<Rightarrow> u64 \<Rightarrow> tst_event list \<Rightarrow> tst_event list option" where
  "blas_loop w [] start_t duration gem_ops evs = None"
| "blas_loop w (x # xs) start_t duration gem_ops evs =
     (if f_less duration (f_u64 (tw_run_duration_ms w)) \<and> \<not> (endtest w \<or> br_end_top x) then
        (let evs = evs @ [Tst_gemm] @
               (if br_status x then [] else [Tst_log (tst_name w @ to_string (unat (tw_gpu_id w)) @
                  ''  BLAS gemm operations failed !!! '') logtrace]);
             duration = f_u64 (time_diff_ms (br_now x) start_t);
             gem_ops = gem_ops + 1;
             g = f_div (gemm_gflop_count (tw_size w)) (f_div duration (Fin 1000000));
             evs = evs @ [Tst_log ('' GPU flops :'' @ f_text g) logtrace]
         in if br_end_bottom x then Some evs
            else if 10000 < gem_ops then blas_loop w xs start_t duration 0 (evs @ [Tst_sleep 1])
            else blas_loop w xs start_t duration gem_ops evs)
      else Some evs)"

definition blasThread :: "tst_worker \<Rightarrow> blas_round list \<Rightarrow> int \<Rightarrow> tst_event list option" where
  "blasThread w xs start_t = blas_loop w xs start_t (Fin 0) 0 []"

section \<open>The thread that reads the temperature\<close>

text \<open>The two answers of the SMI library (\<open>None\<close> on failure), the clock, the stop flag before and after.\<close>

record temp_round =
  pr_stopping :: bool
  pr_edge :: "int option"
  pr_junction :: "int option"
  pr_now :: int
  pr_stop_after :: bool

record temp_vars =
  cur_edge :: fval
  max_edge :: fval
  cur_junction :: fval
  max_junction :: fval

definition f_max :: "fval \<Rightarrow> fval \<Rightarrow> fval" where
  "f_max a b = (if f_less a b then b else a)"

definition read_temp :: "int option \<Rightarrow> fval \<Rightarrow> fval" where
  "read_temp t old = (case t of Some n \<Rightarrow> Fin (float32 (of_int n)) | None \<Rightarrow> old)"

definition temp_sample :: "temp_round \<Rightarrow> temp_vars \<Rightarrow> temp_vars" where
  "temp_sample x v =
     (let e = read_temp (pr_edge x) (cur_edge v); j = read_temp (pr_junction x) (cur_junction v)
      in \<lparr>cur_edge = e, max_edge = (if f_less (Fin 0) e then f_max (max_edge v) e else max_edge v),
          cur_junction = j,
          max_junction = (if f_less (Fin 0) j then f_max (max_junction v) j else max_junction v)\<rparr>)"

definition temp_lines :: "tst_worker \<Rightarrow> temp_vars \<Rightarrow> u64 \<Rightarrow> tst_event list" where
  "temp_lines w v total_ms =
     (let gpu = tst_name w @ ''GPU '' @ to_string (unat (tw_gpu_id w)) @ '' ''
      in [Tst_log (gpu @ ''Current edge temperature is :  '' @ f_text (cur_edge v)) loginfo,
          Tst_log (gpu @ ''Current junction temperature is :  '' @ f_text (cur_junction v)) loginfo,
          Tst_log (tst_name w @ to_string (unat (tw_gpu_id w)) @ ''  Total time in ms  '' @ to_string (unat total_ms) @
            '' Run duration in ms  '' @ to_string (unat (tw_run_duration_ms w))) logtrace])"

text \<open>The result of the loop: the variables, and whether a stop sent it past the verdict.\<close>

fun temp_loop ::
  "tst_worker \<Rightarrow> temp_round list \<Rightarrow> int \<Rightarrow> temp_vars \<Rightarrow> tst_event list
     \<Rightarrow> (bool \<times> temp_vars \<times> tst_event list) option" where
  "temp_loop w [] start_t v evs = None"
| "temp_loop w (x # xs) start_t v evs =
     (if pr_stopping x then Some (False, v, evs)
      else
        (let v = temp_sample x v; total_ms = time_diff_ms (pr_now x) start_t; evs = evs @ temp_lines w v total_ms
         in if tw_run_duration_ms w < total_ms then Some (False, v, evs)
            else if pr_stop_after x then Some (True, v, evs @ [Tst_sleep 1000])
            else temp_loop w xs start_t v (evs @ [Tst_sleep 1000])))"

definition temp_verdict :: "tst_worker \<Rightarrow> temp_vars \<Rightarrow> bool \<times> tst_event list" where
  "temp_verdict w v =
     (let gpu = tst_name w @ ''GPU '' @ to_string (unat (tw_gpu_id w)) @ '' '';
          t = f_text (max_junction v);
          result = f_le (target_temp w) (max_junction v);
          msg = gpu @ (if f_le (throttle_temp w) (max_junction v)
                       then '' Thermal throttling condition met : '' @ t
                       else '' Thermal throttling condition could not be met : '' @ t)
      in (result,
          [Tst_log (gpu @ ''max. edge temperature : '' @ f_text (max_edge v)) loginfo,
           Tst_log (gpu @ ''max. junction temperature : '' @ t) loginfo,
           Tst_log (gpu @ (if result then '' Target temperature met : '' @ t
                           else '' Target temperature could not be met : '' @ t)) loginfo,
           Tst_log msg loginfo] @
          (if tw_bjson w then
             [Tst_json [(''gpu_id'', to_string (unat (tw_gpu_id w))), (''gpu_index'', to_string (unat (tw_gpu_index w))),
                (''throttle_temp'', f_text (throttle_temp w)), (''target_temp'', f_text (target_temp w)),
                (''dtype'', tw_ops_type w), (''average edge temperature'', f_text (max_edge v)),
                (''average junction temperature'', t), (''pass'', if result then ''true'' else ''false'')] logresults]
           else []) @
          [Tst_result ACTION_RUNNING (if result then ACTION_SUCCESS else ACTION_FAILED) msg,
           Tst_log (tst_name w @ to_string (unat (tw_gpu_id w)) @ ''  End of worker thread '') loginfo]))"

record tst_input =
  ti_load :: "blas_round list"
  ti_load_start :: int
  ti_start :: int
  ti_temps :: "temp_round list"
  ti_stop_end :: bool

text \<open>The load runs beside the loop; its events stand first.  It is joined, so its rounds must end.\<close>

definition do_thermal_stress :: "tst_input \<Rightarrow> tst_worker \<Rightarrow> (bool \<times> tst_worker) option" where
  "do_thermal_stress i w =
     (case blasThread w (ti_load i) (ti_load_start i) of
        None \<Rightarrow> None
      | Some load \<Rightarrow>
          (case temp_loop w (ti_temps i) (ti_start i)
                  \<lparr>cur_edge = Fin 0, max_edge = Fin 0, cur_junction = Fin 0, max_junction = Fin 0\<rparr> [] of
             None \<Rightarrow> None
           | Some (stopped, v, evs) \<Rightarrow>
               let (result, es) = (if stopped then (True, []) else temp_verdict w v)
               in Some (result, w\<lparr>tw_events := tw_events w @ load @ evs @ es, endtest := True\<rparr>)))"

definition tst_worker_run :: "tst_input \<Rightarrow> tst_worker \<Rightarrow> tst_worker option" where
  "tst_worker_run i w =
     (let w = tw_emit (Tst_log (tst_name w @ to_string (unat (tw_gpu_id w)) @ '' start '' @ f_text (throttle_temp w)) loginfo) w;
          w = (if tw_run_duration_ms w < 1000 then w\<lparr>tw_run_duration_ms := tw_run_duration_ms w + 1000\<rparr> else w)
      in case do_thermal_stress i w of
           None \<Rightarrow> None
         | Some (pass, w) \<Rightarrow>
             if ti_stop_end i then Some w
             else Some (tw_emit (Tst_sleep 5)
                    (tw_emit (Tst_log (''['' @ tw_action_name w @ ''] [GPU:: '' @ to_string (unat (tw_gpu_id w)) @ ''] pass: '' @
                       (if pass then ''TRUE'' else ''FALSE'')) logresults) w)))"

section \<open>The action\<close>

record ('cb, 'up) tst_action =
  ta_base :: "('cb, 'up) actionbase"
  tst_ops_type :: string
  tst_target_temp :: fval
  tst_throttle_temp :: fval
  tst_ramp_interval :: u64
  tst_tolerance :: fval
  tst_max_violations :: u32
  tst_sample_interval :: u64
  tst_matrix_size :: u64
  tst_tt_flag :: bool
  tst_alpha_val :: fval
  tst_beta_val :: fval
  tst_matrix_size_a :: u64
  tst_matrix_size_b :: u64
  tst_matrix_size_c :: u64
  tst_trans_a :: u32
  tst_trans_b :: u32
  tst_lda_offset :: u32
  tst_ldb_offset :: u32
  tst_ldc_offset :: u32
  tst_ldd_offset :: u32

definition tst_log_interval_key :: "('cb, 'up) tst_action \<Rightarrow> int \<times> ('cb, 'up) tst_action" where
  "tst_log_interval_key m =
     (case property_get_int_def (ta_base m) ''log_interval'' (property_log_interval (ta_base m)) 1000 of
        (e, v) \<Rightarrow> (e, m\<lparr>ta_base := (ta_base m)\<lparr>property_log_interval := v\<rparr>\<rparr>))"

definition tst_keys_strict :: "('cb, 'up) tst_action key_row list" where
  "tst_keys_strict =
     [(bad_key ''ramp_interval'', True, int_key ta_base ''ramp_interval'' 5000 tst_ramp_interval tst_ramp_interval_update),
      (bad_key ''log_interval'', True, tst_log_interval_key),
      (bad_key ''sample_interval'', True, int_key ta_base ''sample_interval'' 100 tst_sample_interval tst_sample_interval_update),
      (bad_key ''max_violations'', True, int_key ta_base ''max_violations'' 0 tst_max_violations tst_max_violations_update),
      (bad_key ''tolerance'', True, float_key ta_base ''tolerance'' (1 / 10) tst_tolerance tst_tolerance_update),
      (bad_key ''matrix_size'', True, int_key ta_base ''matrix_size'' 5760 tst_matrix_size tst_matrix_size_update),
      (bad_key ''ops_type'', True, string_key ta_base ''ops_type'' ''sgemm'' tst_ops_type tst_ops_type_update)]"

definition tst_keys_lenient :: "('cb, 'up) tst_action key_row list" where
  "tst_keys_lenient =
     [(bad_key ''matrix_size_a'', False, int_key ta_base ''matrix_size_a'' 5760 tst_matrix_size_a tst_matrix_size_a_update),
      (bad_key ''matrix_size_b'', False, int_key ta_base ''matrix_size_b'' 5760 tst_matrix_size_b tst_matrix_size_b_update),
      (bad_key ''matrix_size_c'', False, int_key ta_base ''matrix_size_c'' 5760 tst_matrix_size_c tst_matrix_size_c_update),
      (bad_key ''transa'', False, int_key ta_base ''transa'' 0 tst_trans_a tst_trans_a_update),
      (bad_key ''transb'', False, int_key ta_base ''transb'' 1 tst_trans_b tst_trans_b_update),
      (bad_key ''alpha'', False, float_key ta_base ''alpha'' 1 tst_alpha_val tst_alpha_val_update),
      (bad_key ''beta'', False, float_key ta_base ''beta'' 1 tst_beta_val tst_beta_val_update),
      (bad_key ''lda'', False, int_key ta_base ''lda'' 0 tst_lda_offset tst_lda_offset_update),
      (bad_key ''ldb'', False, int_key ta_base ''ldb'' 0 tst_ldb_offset tst_ldb_offset_update),
      (bad_key ''ldc'', False, int_key ta_base ''ldc'' 0 tst_ldc_offset tst_ldc_offset_update),
      (bad_key ''ldd'', False, int_key ta_base ''ldd'' 0 tst_ldd_offset tst_ldd_offset_update),
      (bad_key ''targettemp_met'', False, bool_key ta_base ''targettemp_met'' False tst_tt_flag tst_tt_flag_update)]"

definition get_all_tst_config_keys ::
  "('cb, 'up) tst_action \<Rightarrow> (bool \<times> log_event list) \<times> ('cb, 'up) tst_action" where
  "get_all_tst_config_keys m =
     (let (r1, m) = mandatory_float ta_base ''target_temp'' tst_target_temp tst_target_temp_update m;
          (r2, m) = mandatory_float ta_base ''throttle_temp'' tst_throttle_temp tst_throttle_temp_update m
      in read_keys (tst_keys_strict @ tst_keys_lenient) ((fst r1 \<and> fst r2, snd r1 @ snd r2), m))"

text \<open>The handles, by HIP index.  The look-up is in the map of the SMI wrapper.\<close>

definition hip_address :: "hip_device \<Rightarrow> u64" where
  "hip_address d =
     ((push_bit 32 (ucast (hip_dom d) AND 0xffff) OR push_bit 8 (ucast (hip_bus d) AND 0xff))
        OR push_bit 3 (ucast (hip_dev d) AND 0x1f)) OR ucast (hip_fun d)"

fun hip_to_smi_indices :: "(u64, 'h) omap \<Rightarrow> hip_device list \<Rightarrow> nat \<Rightarrow> (nat, 'h) omap \<Rightarrow> (nat, 'h) omap" where
  "hip_to_smi_indices smi [] i idxs = idxs"
| "hip_to_smi_indices smi (d # ds) i idxs =
     hip_to_smi_indices smi ds (Suc i)
       (case om_find smi (hip_address d) of Some h \<Rightarrow> om_insert i h idxs | None \<Rightarrow> idxs)"

definition tst_configure :: "gpulist \<Rightarrow> ('cb, 'up) tst_action \<Rightarrow> bool \<Rightarrow> nat \<times> u16 \<Rightarrow> tst_worker \<Rightarrow> tst_worker" where
  "tst_configure gl m handle d w =
     (let a = ta_base m; size = sint (ucast (tst_matrix_size_a m) :: u32) in
      w\<lparr>tw_action_name := action_name a, tw_gpu_id := snd d,
        tw_gpu_index := (case gpu2gpuindex gl (snd d) of Found v \<Rightarrow> v | _ \<Rightarrow> 0),
        tw_run_duration_ms := property_duration a, target_temp := tst_target_temp m,
        throttle_temp := tst_throttle_temp m, tw_ops_type := tst_ops_type m,
        tw_size := \<lparr>bs_m = size, bs_n = size, bs_k = size, bs_gemm_mode = [], bs_batch_size = 0\<rparr>,
        tw_bjson := bjson a, tw_handle := handle\<rparr>)"

fun tst_workers_loop ::
  "bool \<Rightarrow> (tst_input \<times> bool) list \<Rightarrow> tst_worker list \<Rightarrow> tst_worker list \<Rightarrow> tst_event list
     \<Rightarrow> (bool \<times> tst_worker list \<times> tst_event list) option" where
  "tst_workers_loop parallel is [] finished evs = Some (False, finished, evs)"
| "tst_workers_loop parallel [] (w # ws) finished evs = None"
| "tst_workers_loop parallel ((i, stop) # is) (w # ws) finished evs =
     (case tst_worker_run i (w\<lparr>tw_events := []\<rparr>) of
        None \<Rightarrow> None
      | Some w' \<Rightarrow>
          if \<not> parallel \<and> stop then Some (True, finished @ w' # ws, evs @ tw_events w')
          else tst_workers_loop parallel is ws (finished @ [w']) (evs @ tw_events w'))"

record tst_pass =
  tp_inputs :: "(tst_input \<times> bool) list"
  tp_stop :: bool

definition no_handle_lines :: "('cb, 'up) actionbase \<Rightarrow> bool list \<Rightarrow> tst_event list" where
  "no_handle_lines a hs =
     map (\<lambda>(i, h). Tst_log (''['' @ action_name a @ ''] tst '' @ to_string i @ '' has no handle'') logerror)
       (filter (\<lambda>(i, h). \<not> h) (enumerate 0 hs))"

text \<open>\<open>last\<close> is the id of the last GPU, which the messages name.\<close>

fun tst_passes ::
  "gpulist \<Rightarrow> (u64, 'h) omap \<Rightarrow> hip_device list \<Rightarrow> ('cb, 'up) tst_action \<Rightarrow> (nat \<times> u16) list \<Rightarrow> tst_pass list \<Rightarrow> u64
     \<Rightarrow> (nat, 'h) omap \<Rightarrow> tst_worker list \<Rightarrow> tst_event list \<Rightarrow> (bool \<times> tst_event list) option" where
  "tst_passes gl smi hip m devs [] k idxs ws evs = None"
| "tst_passes gl smi hip m devs (p # ps) k idxs ws evs =
     (let a = ta_base m;
          evs = (if property_wait a \<noteq> 0 then evs @ [Tst_sleep (unat (ucast (property_wait a) :: u32))] else evs);
          idxs = hip_to_smi_indices smi hip 0 idxs;
          hs = map (\<lambda>d. om_find idxs (fst d) \<noteq> None) devs;
          evs = evs @ no_handle_lines a hs;
          ws = map2 (\<lambda>(h, d) w. tst_configure gl m h d w) (zip hs devs) ws;
          name = ''['' @ action_name a @ ''] tst '' @ to_string (unat (snd (last devs)))
      in case tst_workers_loop (property_parallel a) (tp_inputs p) ws [] evs of
           None \<Rightarrow> None
         | Some (True, ws, evs) \<Rightarrow> Some (False, evs)
         | Some (False, ws, evs) \<Rightarrow>
             let evs = evs @ [Tst_log (name @ '' Shutting down smi  '') loginfo]
             in if tp_stop p then Some (False, evs)
                else if property_count a = k + 1
                then Some (True, evs @ [Tst_log (name @ '' Done with tst test '') loginfo, Tst_sleep 1000])
                else tst_passes gl smi hip m devs ps (k + 1) idxs ws evs)"

definition do_thermal_test ::
  "gpulist \<Rightarrow> (u64, 'h) omap \<Rightarrow> hip_device list \<Rightarrow> ('cb, 'up) tst_action \<Rightarrow> (nat \<times> u16) list \<Rightarrow> tst_pass list
     \<Rightarrow> tst_worker list \<Rightarrow> (bool \<times> tst_event list) option" where
  "do_thermal_test gl smi hip m devs ps raw =
     tst_passes gl smi hip m devs ps 0 [] (map (\<lambda>w. w\<lparr>endtest := False\<rparr>) raw) []"

definition tst_selected_gpus ::
  "gpulist \<Rightarrow> (u64, 'h) omap \<Rightarrow> hip_device list \<Rightarrow> ('cb, 'up) tst_action \<Rightarrow> tst_pass list
     \<Rightarrow> (nat \<Rightarrow> tst_worker list) \<Rightarrow> (int \<times> tst_event list) option" where
  "tst_selected_gpus gl smi hip m ps raw =
     (if hip = [] then Some (0, [])
      else
        (case fetch_gpu_list gl (selection_of (ta_base m)) True hip [] [] of
           None \<Rightarrow> None
         | Some (devs, _, found) \<Rightarrow>
             if \<not> found then
               Some (0, [Tst_err ''No devices match criteria from the test configuation.''] @
                 (if bjson (ta_base m) then [Tst_json [(''ERROR'', ''No AMD compatible GPU found!'')] logerror] else []))
             else map_option (\<lambda>(ok, evs). (if ok then 0 else -1, evs))
                    (do_thermal_test gl smi hip m devs ps (raw (length devs)))))"

definition tst_action_run ::
  "gpulist \<Rightarrow> (u64, 'h) omap \<Rightarrow> hip_device list \<Rightarrow> ('cb, 'up) tst_action \<Rightarrow> tst_pass list
     \<Rightarrow> (nat \<Rightarrow> tst_worker list) \<Rightarrow> (int \<times> action_result_t option \<times> log_event list \<times> tst_event list) option" where
  "tst_action_run gl smi hip m ps raw =
     (case get_all_common_config_keys (ta_base m) of
        None \<Rightarrow> None
      | Some ((False, evs), a) \<Rightarrow> Some (-1, None, evs, [])
      | Some ((True, evs), a) \<Rightarrow>
          (case get_all_tst_config_keys (m\<lparr>ta_base := a\<rparr>) of
             ((False, evs2), m) \<Rightarrow> Some (-1, None, evs @ evs2, [])
           | ((True, evs2), m) \<Rightarrow>
               let a = ta_base m in
               if 0 < property_duration a \<and> property_duration a < tst_ramp_interval m then
                 Some (-1, None, evs @ evs2 @ [Log_err (''duration'' @ key_quote @ '' cannot be less than '' @
                    key_quote @ ''ramp_interval'' @ key_quote)], [])
               else
                 map_option (\<lambda>(res, es).
                   (res, Some \<lparr>ar_state = ACTION_COMPLETED,
                               ar_status = (if res = 0 then ACTION_SUCCESS else ACTION_FAILED),
                               ar_output = ''TST Module action '' @ action_name a @ '' completed''\<rparr>,
                    evs @ evs2,
                    (if bjson a then [Tst_json_open (action_name a)] else []) @ es @ (if bjson a then [Tst_json_close] else [])))
                   (tst_selected_gpus gl smi hip m ps raw)))"

end
