(* ===== verification/Iet.thy ===== *)
theory Iet
  imports Tst
begin

text \<open>
  The input EDPp test, \<^verbatim>\<open>iet.so/src/iet_worker.cpp\<close> and \<^verbatim>\<open>iet.so/src/action.cpp\<close>: a worker loads its GPU
  with multiplications and, on request, with reads of memory, while a loop samples the power.  The
  answers of the clocks and libraries are the rounds of the loops.  The kernel of the bandwidth
  load is GPU code and is only counted.
\<close>

section \<open>The worker\<close>

record iet_worker =
  iw_action_name :: string
  iw_gpu_id :: u16
  iw_gpu_index :: u16
  iw_run_duration_ms :: u64
  iw_sample_interval :: u64
  target_power :: fval
  iw_tolerance :: fval
  iw_matrix_size :: u64
  iw_matrix_size_a :: u64
  iw_matrix_size_b :: u64
  iw_matrix_size_c :: u64
  iw_ops_type :: string
  iw_bw_workload :: bool
  iw_cp_workload :: bool
  iw_hot_calls :: u64
  iw_wg_count :: u32
  iw_nt_loads :: bool
  iw_mcm_type :: mcm_type_t
  iw_bjson :: bool
  iw_handle :: bool
  iw_endtest :: bool
  iw_passed :: bool  \<comment> \<open>the member \<^verbatim>\<open>result\<close>, which no constructor sets\<close>

datatype iet_event =
    Iet_log string int
  | Iet_result actionstate actionstatus string
  | Iet_json "(string \<times> string) list" int
  | Iet_sleep nat
  | Iet_gemm "u64 \<times> u64 \<times> u64" u64
  | Iet_kernel nat bool
  | Iet_json_open string
  | Iet_json_close

definition iet_name :: "iet_worker \<Rightarrow> string" where
  "iet_name w = ''['' @ iw_action_name w @ ''] iet '' @ to_string (unat (iw_gpu_id w)) @ '' ''"

definition iet_head :: "iet_worker \<Rightarrow> string" where
  "iet_head w = (let t = to_string (unat (iw_gpu_id w))
     in ''['' @ iw_action_name w @ ''] [GPU:: '' @ replicate (5 - length t) (CHR '' '') @ t @ ''] '')"

section \<open>The loads\<close>

definition compute_sizes :: "iet_worker \<Rightarrow> u64 \<times> u64 \<times> u64" where
  "compute_sizes w =
     (if iw_matrix_size_a w \<noteq> 0 \<and> iw_matrix_size_b w \<noteq> 0 \<and> iw_matrix_size_c w \<noteq> 0
      then (iw_matrix_size_a w, iw_matrix_size_b w, iw_matrix_size_c w)
      else (iw_matrix_size w, iw_matrix_size w, iw_matrix_size w))"

text \<open>A failure sets the flag that ends the test; the second result tells that.\<close>

record compute_round =
  cr_end_top :: bool
  cr_ran :: bool
  cr_completed :: bool
  cr_now :: int
  cr_end_bottom :: bool

fun compute_loop ::
  "iet_worker \<Rightarrow> compute_round list \<Rightarrow> int \<Rightarrow> fval \<Rightarrow> iet_event list \<Rightarrow> (iet_event list \<times> bool) option" where
  "compute_loop w [] start_t duration evs = None"
| "compute_loop w (x # xs) start_t duration evs =
     (if f_less duration (f_u64 (iw_run_duration_ms w)) \<and> \<not> (iw_endtest w \<or> cr_end_top x) then
        (let evs = evs @ [Iet_gemm (compute_sizes w) (iw_hot_calls w)]
         in if \<not> cr_ran x \<or> \<not> cr_completed x then Some (evs, True)
            else if cr_end_bottom x then Some (evs, False)
            else compute_loop w xs start_t (f_u64 (time_diff_ms (cr_now x) start_t)) evs)
      else Some (evs, False))"

definition computeThread :: "iet_worker \<Rightarrow> compute_round list \<Rightarrow> int \<Rightarrow> (iet_event list \<times> bool) option" where
  "computeThread w xs start_t = compute_loop w xs start_t (Fin 0) []"

text \<open>
  The memory of the bandwidth load: the size of one buffer, the bytes read from it, the number of
  buffers, which has to fill the last-level cache twice.  The division by the bytes is undefined
  without a work group.
\<close>

definition mem_size_per_wg :: nat where "mem_size_per_wg = 32 * 1024 * 1024"

definition mall_size :: nat where "mall_size = 256 * 1024 * 1024"

definition wg_stride :: nat where "wg_stride = mem_size_per_wg + 4352"

definition bw_alloc_size :: "u32 \<Rightarrow> u64" where
  "bw_alloc_size wg_count = of_nat (unat wg_count * wg_stride)"

definition bw_buf_count :: "u32 \<Rightarrow> nat option" where
  "bw_buf_count wg_count =
     (if wg_count = 0 then None
      else Some (max 2 (mall_size * 2 div (unat wg_count * mem_size_per_wg) + 1)))"

text \<open>The bytes of the copies that fill a buffer from a block of 65 * 1024 words.\<close>

function fill_chunks :: "nat \<Rightarrow> nat list" where
  "fill_chunks bytes = (if 0 < bytes then min (65 * 1024 * 4) bytes # fill_chunks (bytes - min (65 * 1024 * 4) bytes) else [])"
  by pat_completeness auto
termination by (relation "measure id") auto

declare fill_chunks.simps [simp del]

record bw_round =
  bw_synchronized :: bool
  bw_elapsed :: bool
  bw_end_mid :: bool
  bw_now :: int
  bw_end_bottom :: bool

fun bandwidth_loop :: "iet_worker \<Rightarrow> nat \<Rightarrow> bw_round list \<Rightarrow> int \<Rightarrow> nat \<Rightarrow> iet_event list \<Rightarrow> iet_event list option" where
  "bandwidth_loop w bufs [] start_t b evs = None"
| "bandwidth_loop w bufs (x # xs) start_t b evs =
     (let evs = evs @ [Iet_kernel b (iw_nt_loads w)]; b = (b + 1) mod bufs
      in if \<not> bw_synchronized x \<or> \<not> bw_elapsed x then Some evs
         else if iw_endtest w \<or> bw_end_mid x then Some evs
         else if f_less (f_u64 (time_diff_ms (bw_now x) start_t)) (f_u64 (iw_run_duration_ms w)) \<and> \<not> bw_end_bottom x
         then bandwidth_loop w bufs xs start_t b evs
         else Some evs)"

text \<open>Set-up: the device and stream, the allocations and fills, the events.  A failure ends the thread.\<close>

record bw_input =
  bi_device :: bool
  bi_stream :: bool
  bi_buffers :: bool
  bi_result_buffer :: bool
  bi_created :: bool
  bi_start :: int
  bi_rounds :: "bw_round list"

definition bandwidthThread :: "iet_worker \<Rightarrow> bw_input \<Rightarrow> iet_event list option" where
  "bandwidthThread w i =
     (if \<not> bi_device i \<or> \<not> bi_stream i then Some []
      else (case bw_buf_count (iw_wg_count w) of
              None \<Rightarrow> None
            | Some bufs \<Rightarrow>
                if \<not> bi_buffers i \<or> \<not> bi_result_buffer i \<or> \<not> bi_created i then Some []
                else bandwidth_loop w bufs (bi_rounds i) (bi_start i) 0
                       (map (\<lambda>b. Iet_kernel b (iw_nt_loads w)) [0..<bufs])))"

section \<open>The power loop\<close>

record power_round =
  wr_stopping :: bool
  wr_power :: "u64 option"
  wr_now :: int
  wr_stop_after :: bool

definition cur_power :: "power_round \<Rightarrow> fval" where
  "cur_power x = (case wr_power x of Some p \<Rightarrow> Fin (float32 (of_nat (unat p))) | None \<Rightarrow> Fin 0)"

definition power_lines :: "iet_worker \<Rightarrow> fval \<Rightarrow> u64 \<Rightarrow> iet_event list" where
  "power_lines w cur total_ms =
     [Iet_log (iet_name w @ '' Target power is :  '' @ f_text (target_power w)) logtrace,
      Iet_log (iet_head w @ ''Power(W) '' @ f_text cur) logresults,
      Iet_log (iet_name w @ '' Total time in ms  '' @ to_string (unat total_ms) @
        '' Run duration in ms  '' @ to_string (unat (iw_run_duration_ms w))) logtrace]"

fun power_loop ::
  "iet_worker \<Rightarrow> power_round list \<Rightarrow> int \<Rightarrow> fval \<Rightarrow> iet_event list \<Rightarrow> (bool \<times> fval \<times> iet_event list) option" where
  "power_loop w [] start_t mx evs = None"
| "power_loop w (x # xs) start_t mx evs =
     (if wr_stopping x then Some (False, mx, evs)
      else
        (let cur = cur_power x; mx = (if f_less (Fin 0) cur then f_max mx cur else mx);
             total_ms = time_diff_ms (wr_now x) start_t; evs = evs @ power_lines w cur total_ms
         in if iw_run_duration_ms w < total_ms then Some (False, mx, evs)
            else
              (let evs = evs @ [Iet_sleep (unat (ucast (iw_sample_interval w) :: u32))]
               in if wr_stop_after x then Some (True, mx, evs) else power_loop w xs start_t mx evs)))"

text \<open>The bound is computed in single precision.  A secondary die reports no power and passes.\<close>

definition power_bound :: "iet_worker \<Rightarrow> fval" where
  "power_bound w = to_single (f_sub (target_power w) (to_single (f_mul (target_power w) (iw_tolerance w))))"

definition power_verdict :: "iet_worker \<Rightarrow> fval \<Rightarrow> bool \<times> iet_event list" where
  "power_verdict w mx =
     (let (result, msg) =
        (if f_le (power_bound w) mx
         then (True, iet_name w @ '' Average power met the target power : '' @ f_text mx)
         else if iw_mcm_type w = PRIMARY
         then (False, iet_name w @ '' Average power could not meet the target power          in the given interval, increase the duration and try again,         Average power is : '' @ f_text mx)
         else (True, iet_name w @ '' No power reporting present for          secondary MCM, considering the test as pass by default''))
      in (result,
          [Iet_log msg loginfo] @
          (if iw_bjson w then
             [Iet_json [(''gpu_id'', to_string (unat (iw_gpu_id w))), (''gpu_index'', to_string (unat (iw_gpu_index w))),
                (''target_power'', f_text (target_power w)), (''dtype'', iw_ops_type w),
                (''average power'', f_text mx), (''pass'', if result then ''true'' else ''false'')] logresults]
           else []) @
          [Iet_result ACTION_RUNNING (if result then ACTION_SUCCESS else ACTION_FAILED) msg,
           Iet_log (iet_name w @ '' End of worker thread '') loginfo]))"

record iet_input =
  ii_compute :: "compute_round list"
  ii_compute_start :: int
  ii_bandwidth :: bw_input
  ii_start :: int
  ii_powers :: "power_round list"
  ii_stop_end :: bool

text \<open>The loads run beside the loop and are joined; their events stand first.\<close>

definition iet_loads :: "iet_input \<Rightarrow> iet_worker \<Rightarrow> iet_event list option" where
  "iet_loads i w =
     Option.bind (if iw_cp_workload w then map_option fst (computeThread w (ii_compute i) (ii_compute_start i)) else Some [])
       (\<lambda>cs. map_option (\<lambda>bs. cs @ bs) (if iw_bw_workload w then bandwidthThread w (ii_bandwidth i) else Some []))"

definition do_iet_power_stress :: "iet_input \<Rightarrow> iet_worker \<Rightarrow> (bool \<times> iet_worker \<times> iet_event list) option" where
  "do_iet_power_stress i w =
     (case iet_loads i w of
        None \<Rightarrow> None
      | Some load \<Rightarrow>
          (case power_loop w (ii_powers i) (ii_start i) (Fin 0) [] of
             None \<Rightarrow> None
           | Some (stopped, mx, evs) \<Rightarrow>
               let (result, es) = (if stopped then (True, []) else power_verdict w mx)
               in Some (result, w\<lparr>iw_passed := result, iw_endtest := True\<rparr>, load @ evs @ es)))"

definition iet_worker_run :: "iet_input \<Rightarrow> iet_worker \<Rightarrow> (iet_worker \<times> iet_event list) option" where
  "iet_worker_run i w =
     (let first = [Iet_log (iet_name w @ ''start '' @ f_text (target_power w)) loginfo];
          w = (if iw_run_duration_ms w < 1000 then w\<lparr>iw_run_duration_ms := iw_run_duration_ms w + 1000\<rparr> else w)
      in map_option (\<lambda>(pass, w, evs).
           (w, first @ evs @
              (if ii_stop_end i then []
               else [Iet_log (iet_head w @ ''pass: '' @ (if pass then ''TRUE'' else ''FALSE'')) logresults, Iet_sleep 5])))
           (do_iet_power_stress i w))"

end
