(* ===== verification/Iet_Action.thy ===== *)
theory Iet_Action
  imports Iet
begin

text \<open>\<^verbatim>\<open>iet.so/src/action.cpp\<close>: the keys of the input EDPp test, its workers, the run of the action.\<close>

section \<open>Configuration\<close>

record ('cb, 'up) iet_action =
  ia_base :: "('cb, 'up) actionbase"
  iet_ops_type :: string
  iet_target_power :: fval
  iet_ramp_interval :: u64
  iet_tolerance :: fval
  iet_max_violations :: u32
  iet_sample_interval :: u64
  iet_matrix_size :: u64
  iet_tp_flag :: bool
  iet_bw_workload :: bool
  iet_cp_workload :: bool
  iet_wg_count :: u32
  iet_nt_loads :: bool
  iet_out_data_type :: string
  iet_alpha_val :: fval
  iet_beta_val :: fval
  iet_matrix_size_a :: u64
  iet_matrix_size_b :: u64
  iet_matrix_size_c :: u64
  iet_hot_calls :: u64
  iet_trans_a :: u32
  iet_trans_b :: u32
  iet_lda_offset :: u32
  iet_ldb_offset :: u32
  iet_ldc_offset :: u32
  iet_ldd_offset :: u32
  iet_matrix_init :: string
  iet_gemm_mode :: string
  iet_batch_size :: u32
  iet_stride_a :: u64
  iet_stride_b :: u64
  iet_stride_c :: u64
  iet_stride_d :: u64
  iet_data_type :: string
  iet_blas_source :: string
  iet_compute_type :: string

definition iet_log_interval_key :: "('cb, 'up) iet_action \<Rightarrow> int \<times> ('cb, 'up) iet_action" where
  "iet_log_interval_key m =
     (case property_get_int_def (ia_base m) ''log_interval'' (property_log_interval (ia_base m)) 1000 of
        (e, v) \<Rightarrow> (e, m\<lparr>ia_base := (ia_base m)\<lparr>property_log_interval := v\<rparr>\<rparr>))"

definition iet_keys_sizes :: "('cb, 'up) iet_action key_row list" where
  "iet_keys_sizes =
     [(bad_key ''ramp_interval'', True, int_key ia_base ''ramp_interval'' 5000 iet_ramp_interval iet_ramp_interval_update),
      (bad_key ''log_interval'', True, iet_log_interval_key),
      (bad_key ''sample_interval'', True, int_key ia_base ''sample_interval'' 1000 iet_sample_interval iet_sample_interval_update),
      (bad_key ''max_violations'', True, int_key ia_base ''max_violations'' 0 iet_max_violations iet_max_violations_update),
      (bad_key ''tolerance'', True, float_key ia_base ''tolerance'' 0 iet_tolerance iet_tolerance_update),
      (bad_key ''matrix_size'', True, int_key ia_base ''matrix_size'' 5760 iet_matrix_size iet_matrix_size_update),
      (bad_key ''ops_type'', True, string_key ia_base ''ops_type'' [] iet_ops_type iet_ops_type_update),
      (bad_key ''data_type'', True, string_key ia_base ''data_type'' [] iet_data_type iet_data_type_update),
      (bad_key ''matrix_size_a'', False, int_key ia_base ''matrix_size_a'' 0 iet_matrix_size_a iet_matrix_size_a_update),
      (bad_key ''matrix_size_b'', False, int_key ia_base ''matrix_size_b'' 0 iet_matrix_size_b iet_matrix_size_b_update),
      (bad_key ''matrix_size_c'', False, int_key ia_base ''matrix_size_c'' 0 iet_matrix_size_c iet_matrix_size_c_update),
      (bad_key ''transa'', False, int_key ia_base ''transa'' 0 iet_trans_a iet_trans_a_update),
      (bad_key ''transb'', False, int_key ia_base ''transb'' 1 iet_trans_b iet_trans_b_update),
      (bad_key ''alpha'', False, float_key ia_base ''alpha'' 1 iet_alpha_val iet_alpha_val_update),
      (bad_key ''beta'', False, float_key ia_base ''beta'' 1 iet_beta_val iet_beta_val_update)]"

definition iet_keys_modes :: "('cb, 'up) iet_action key_row list" where
  "iet_keys_modes =
     [(bad_key ''lda'', False, int_key ia_base ''lda'' 0 iet_lda_offset iet_lda_offset_update),
      (bad_key ''ldb'', False, int_key ia_base ''ldb'' 0 iet_ldb_offset iet_ldb_offset_update),
      (bad_key ''ldc'', False, int_key ia_base ''ldc'' 0 iet_ldc_offset iet_ldc_offset_update),
      (bad_key ''ldd'', False, int_key ia_base ''ldd'' 0 iet_ldd_offset iet_ldd_offset_update),
      (bad_key ''targetpower_met'', False, bool_key ia_base ''targetpower_met'' False iet_tp_flag iet_tp_flag_update),
      (bad_key ''bw_workload'', False, bool_key ia_base ''bw_workload'' False iet_bw_workload iet_bw_workload_update),
      (bad_key ''cp_workload'', False, bool_key ia_base ''cp_workload'' True iet_cp_workload iet_cp_workload_update),
      (bad_key ''hot_calls'', False, int_key ia_base ''hot_calls'' 1 iet_hot_calls iet_hot_calls_update),
      (bad_key ''matrix_init'', False, string_key ia_base ''matrix_init'' ''default'' iet_matrix_init iet_matrix_init_update),
      (bad_key ''gemm_mode'', False, string_key ia_base ''gemm_mode'' [] iet_gemm_mode iet_gemm_mode_update),
      (bad_key ''stride_a'', False, int_key ia_base ''batch_size'' 0 iet_batch_size iet_batch_size_update),
      (bad_key ''stride_a'', False, int_key ia_base ''stride_a'' 0 iet_stride_a iet_stride_a_update),
      (bad_key ''stride_b'', False, int_key ia_base ''stride_b'' 0 iet_stride_b iet_stride_b_update),
      (bad_key ''stride_c'', False, int_key ia_base ''stride_c'' 0 iet_stride_c iet_stride_c_update),
      (bad_key ''stride_d'', False, int_key ia_base ''stride_d'' 0 iet_stride_d iet_stride_d_update),
      (bad_key ''blas_source'', False, string_key ia_base ''blas_source'' ''rocblas'' iet_blas_source iet_blas_source_update),
      (bad_key ''compute_type'', False, string_key ia_base ''compute_type'' ''fp32_r'' iet_compute_type iet_compute_type_update),
      (bad_key ''wg_count'', True, int_key ia_base ''wg_count'' 80 iet_wg_count iet_wg_count_update),
      (bad_key ''nt_loads'', False, bool_key ia_base ''nt_loads'' False iet_nt_loads iet_nt_loads_update),
      (bad_key ''out_data_type'', True, string_key ia_base ''out_data_type'' [] iet_out_data_type iet_out_data_type_update)]"

definition get_all_iet_config_keys ::
  "bool \<Rightarrow> ('cb, 'up) iet_action \<Rightarrow> (bool \<times> log_event list) \<times> ('cb, 'up) iet_action" where
  "get_all_iet_config_keys has_f8 m =
     (let (r, m) = read_keys (iet_keys_sizes @ iet_keys_modes)
                     (mandatory_float ia_base ''target_power'' iet_target_power iet_target_power_update m);
          m = (if iet_sample_interval m < 1000 then m\<lparr>iet_sample_interval := 1000\<rparr> else m);
          m = (if iet_ops_type m = [] \<and> iet_data_type m = [] then m\<lparr>iet_ops_type := ''sgemm''\<rparr> else m);
          r = step_key (if \<not> has_f8 \<and> iet_blas_source m = ''rocblas'' \<and> iet_data_type m = ''fp8_r'' then 1 else 0)
                [Log_err ''The version of rocBLAS currently in use no longer supports FP8.''] r
      in (r, m))"

section \<open>The workers\<close>

definition iet_configure ::
  "gpulist \<Rightarrow> ('cb, 'up) iet_action \<Rightarrow> bool \<Rightarrow> nat \<times> u16 \<Rightarrow> mcm_type_t \<Rightarrow> iet_worker \<Rightarrow> iet_worker" where
  "iet_configure gl m handle d mcm w =
     (let a = ia_base m in
      w\<lparr>iw_action_name := action_name a, iw_gpu_id := snd d,
        iw_gpu_index := (case gpu2gpuindex gl (snd d) of Found v \<Rightarrow> v | _ \<Rightarrow> 0),
        iw_run_duration_ms := property_duration a, iw_sample_interval := iet_sample_interval m,
        target_power := iet_target_power m, iw_tolerance := iet_tolerance m, iw_matrix_size := iet_matrix_size m,
        iw_matrix_size_a := iet_matrix_size_a m, iw_matrix_size_b := iet_matrix_size_b m,
        iw_matrix_size_c := iet_matrix_size_c m, iw_ops_type := iet_ops_type m,
        iw_bw_workload := iet_bw_workload m, iw_cp_workload := iet_cp_workload m,
        iw_hot_calls := iet_hot_calls m, iw_wg_count := iet_wg_count m, iw_nt_loads := iet_nt_loads m,
        iw_mcm_type := mcm, iw_bjson := bjson a, iw_handle := handle\<rparr>)"

text \<open>
  The settings go to the workers from index \<open>i\<close> on, and the type of the die is taken at the same
  index of the list of all probed devices; \<open>None\<close>: past the end of one of the vectors.
\<close>

fun iet_configure_loop ::
  "gpulist \<Rightarrow> ('cb, 'up) iet_action \<Rightarrow> (nat, 'h) omap \<Rightarrow> mcm_type_t list \<Rightarrow> (nat \<times> u16) list \<Rightarrow> nat
     \<Rightarrow> iet_worker list \<times> iet_event list \<Rightarrow> (nat \<times> iet_worker list \<times> iet_event list) option" where
  "iet_configure_loop gl m idxs mcm [] i st = Some (i, st)"
| "iet_configure_loop gl m idxs mcm (d # ds) i (ws, evs) =
     (let handle = (om_find idxs (fst d) \<noteq> None);
          evs = (if handle then evs
                 else evs @ [Iet_log (''['' @ action_name (ia_base m) @ ''] iet '' @ to_string i @ '' has no handle'') logerror])
      in if i < length ws \<and> i < length mcm
         then iet_configure_loop gl m idxs mcm ds (i + 1) (ws[i := iet_configure gl m handle d (mcm ! i) (ws ! i)], evs)
         else None)"

fun iet_workers_loop ::
  "bool \<Rightarrow> (iet_input \<times> bool) list \<Rightarrow> iet_worker list \<Rightarrow> iet_worker list \<Rightarrow> iet_event list
     \<Rightarrow> (bool \<times> iet_worker list \<times> iet_event list) option" where
  "iet_workers_loop parallel is [] finished evs = Some (False, finished, evs)"
| "iet_workers_loop parallel [] (w # ws) finished evs = None"
| "iet_workers_loop parallel ((i, stop) # is) (w # ws) finished evs =
     (case iet_worker_run i w of
        None \<Rightarrow> None
      | Some (w', es) \<Rightarrow>
          if \<not> parallel \<and> stop then Some (True, finished @ w' # ws, evs @ es)
          else iet_workers_loop parallel is ws (finished @ [w']) (evs @ es))"

record iet_pass =
  ip_inputs :: "(iet_input \<times> bool) list"
  ip_stop :: bool

text \<open>The index \<open>i\<close> is declared outside of the endless loop and holds its last value.\<close>

fun iet_passes ::
  "gpulist \<Rightarrow> (u64, 'h) omap \<Rightarrow> hip_device list \<Rightarrow> ('cb, 'up) iet_action \<Rightarrow> (nat \<times> u16) list \<Rightarrow> mcm_type_t list
     \<Rightarrow> iet_pass list \<Rightarrow> u64 \<Rightarrow> nat \<Rightarrow> (nat, 'h) omap \<Rightarrow> iet_worker list \<Rightarrow> iet_event list \<Rightarrow> (bool \<times> iet_event list) option" where
  "iet_passes gl smi hip m devs mcm [] k i idxs ws evs = None"
| "iet_passes gl smi hip m devs mcm (p # ps) k i idxs ws evs =
     (let a = ia_base m;
          evs = (if property_wait a \<noteq> 0 then evs @ [Iet_sleep (unat (ucast (property_wait a) :: u32))] else evs);
          idxs = hip_to_smi_indices smi hip 0 idxs;
          name = ''['' @ action_name a @ ''] iet '' @ to_string (unat (snd (last devs)))
      in case iet_configure_loop gl m idxs mcm devs i (ws, evs) of
           None \<Rightarrow> None
         | Some (_, ws, evs) \<Rightarrow>
             (case iet_workers_loop (property_parallel a) (ip_inputs p) ws [] evs of
                None \<Rightarrow> None
              | Some (True, ws, evs) \<Rightarrow> Some (False, evs)
              | Some (False, ws, evs) \<Rightarrow>
                  let evs = evs @ [Iet_log (name @ '' Shutting down smi  '') loginfo]
                  in if ip_stop p then Some (False, evs)
                     else if property_count a = k + 1
                     then Some (list_all iw_passed ws,
                                evs @ [Iet_log (name @ '' Done with iet test '') loginfo, Iet_sleep 1000])
                     else iet_passes gl smi hip m devs mcm ps (k + 1) (length ws) idxs ws evs))"

definition do_edp_test ::
  "gpulist \<Rightarrow> (u64, 'h) omap \<Rightarrow> hip_device list \<Rightarrow> ('cb, 'up) iet_action \<Rightarrow> (nat \<times> u16) list \<Rightarrow> mcm_type_t list
     \<Rightarrow> iet_pass list \<Rightarrow> iet_worker list \<Rightarrow> (bool \<times> iet_event list) option" where
  "do_edp_test gl smi hip m devs mcm ps raw =
     iet_passes gl smi hip m devs mcm ps 0 0 [] (map (\<lambda>w. w\<lparr>iw_endtest := False\<rparr>) raw) []"

section \<open>The run\<close>

definition iet_selected_gpus ::
  "gpulist \<Rightarrow> (u64, 'h) omap \<Rightarrow> hip_device list \<Rightarrow> ('cb, 'up) iet_action \<Rightarrow> iet_pass list
     \<Rightarrow> (nat \<Rightarrow> iet_worker list) \<Rightarrow> (int \<times> iet_event list) option" where
  "iet_selected_gpus gl smi hip m ps raw =
     (if hip = [] then Some (-1, [])
      else
        (case fetch_gpu_list gl (selection_of (ia_base m)) True hip [] [] of
           None \<Rightarrow> None
         | Some (devs, mcm, found) \<Rightarrow>
             if \<not> found then
               Some (-1, [Iet_log ''No devices match criteria from the test configuation.'' logerror] @
                 (if bjson (ia_base m) then [Iet_json [(''ERROR'', ''No AMD compatible GPU found!'')] logerror] else []))
             else map_option (\<lambda>(ok, evs). (if ok then 0 else -1, evs))
                    (do_edp_test gl smi hip m devs mcm ps (raw (length devs)))))"

definition iet_action_run ::
  "gpulist \<Rightarrow> (u64, 'h) omap \<Rightarrow> hip_device list \<Rightarrow> bool \<Rightarrow> ('cb, 'up) iet_action \<Rightarrow> iet_pass list
     \<Rightarrow> (nat \<Rightarrow> iet_worker list) \<Rightarrow> (int \<times> action_result_t option \<times> log_event list \<times> iet_event list) option" where
  "iet_action_run gl smi hip has_f8 m ps raw =
     (case get_all_common_config_keys (ia_base m) of
        None \<Rightarrow> None
      | Some ((False, evs), a) \<Rightarrow> Some (-1, None, evs, [])
      | Some ((True, evs), a) \<Rightarrow>
          (case get_all_iet_config_keys has_f8 (m\<lparr>ia_base := a\<rparr>) of
             ((False, evs2), m) \<Rightarrow> Some (-1, None, evs @ evs2, [])
           | ((True, evs2), m) \<Rightarrow>
               let a = ia_base m in
               if 0 < property_duration a \<and> property_duration a < iet_ramp_interval m then
                 Some (-1, None, evs @ evs2 @ [Log_err (''duration'' @ key_quote @ '' cannot be less than '' @
                    key_quote @ ''ramp_interval'' @ key_quote)], [])
               else
                 map_option (\<lambda>(res, es).
                   (res, Some \<lparr>ar_state = ACTION_COMPLETED,
                               ar_status = (if res = 0 then ACTION_SUCCESS else ACTION_FAILED),
                               ar_output = ''IET Module action '' @ action_name a @ '' completed''\<rparr>,
                    evs @ evs2,
                    (if bjson a then [Iet_json_open (action_name a)] else []) @ es @ (if bjson a then [Iet_json_close] else [])))
                   (iet_selected_gpus gl smi hip m ps raw)))"

end
