(* ===== verification/Gst_Props.thy ===== *)
theory Gst_Props
  imports Gst_Action
begin

text \<open>
  What the stress test decides: the best of the measured intervals against the target, whatever the
  ramp found; the loops end when the clock reaches their times; a BLAS failure and a stop leave the
  verdict as it was; a counted action reports the verdicts of its last pass.
\<close>

section \<open>The measured intervals\<close>

text \<open>The rounds up to the first one after which the time is over.\<close>

fun through :: "('a \<Rightarrow> bool) \<Rightarrow> 'a list \<Rightarrow> 'a list" where
  "through P [] = []"
| "through P (x # xs) = x # (if P x then [] else through P xs)"

definition round_ok :: "gst_worker \<Rightarrow> stress_round \<Rightarrow> bool" where
  "round_ok w x \<longleftrightarrow> \<not> tr_stopping x \<and> (sw_copy_matrix w \<longrightarrow> tr_copied x) \<and> tr_ran x \<and> tr_completed x"

definition round_time :: "stress_round \<Rightarrow> fval" where
  "round_time x = f_sub (Fin (get_time_us (tr_us_end x))) (Fin (get_time_us (tr_us_start x)))"

definition time_over :: "u64 \<Rightarrow> int \<Rightarrow> stress_round \<Rightarrow> bool" where
  "time_over dur start_t x \<longleftrightarrow> dur = 0 \<or> ms_to_us dur \<le> time_diff (tr_end x) start_t"

text \<open>The multiplications of a group of rounds, in 32 bits, and the time they took.\<close>

definition group_ops :: "gst_worker \<Rightarrow> stress_round list \<Rightarrow> u32" where
  "group_ops w p = of_nat (length p) * ucast (sw_hot_calls w)"

definition group_time :: "stress_round list \<Rightarrow> fval" where
  "group_time p = foldl (\<lambda>t x. f_add t (round_time x)) (Fin 0) p"

definition group_gflops :: "gst_worker \<Rightarrow> stress_round list \<Rightarrow> fval" where
  "group_gflops w p =
     f_mul (f_div (gemm_gflop_count (sw_size w)) (f_div (group_time p) (Fin (of_nat (unat (group_ops w p)))))) (Fin (10 ^ 6))"

text \<open>A group is closed by the round in which the log interval is over.\<close>

definition closes :: "gst_worker \<Rightarrow> u64 \<Rightarrow> int \<Rightarrow> stress_round list \<Rightarrow> stress_round \<Rightarrow> bool" where
  "closes w dur t p x \<longleftrightarrow>
     (ms_to_us (sw_log_interval w) \<le> time_diff (tr_end x) t \<or> dur = 0) \<and> 0 < group_ops w p
     \<and> us_double (time_diff (tr_end x) t) \<noteq> Fin 0"

fun intervals ::
  "gst_worker \<Rightarrow> u64 \<Rightarrow> int \<Rightarrow> stress_round list \<Rightarrow> stress_round list \<Rightarrow> stress_round list list" where
  "intervals w dur t p [] = []"
| "intervals w dur t p (x # xs) =
     (if closes w dur t (p @ [x]) x then (p @ [x]) # intervals w dur (tr_restart x) [] xs
      else intervals w dur t (p @ [x]) xs)"

section \<open>The settings do not change\<close>

text \<open>The worker without what a run writes.\<close>

definition settings :: "gst_worker \<Rightarrow> gst_worker" where
  "settings w = w\<lparr>sw_run_duration_ms := 0, sw_ramp_interval := 0, ramp_actual_time := 0,
     delay_target_stress := Fin 0, max_gflops := Fin 0, sw_passed := False, sw_events := []\<rparr>"

lemma settings_updates [simp]:
  "settings (sw_emit e w) = settings w" "settings (w\<lparr>max_gflops := g\<rparr>) = settings w"
  "settings (w\<lparr>delay_target_stress := g\<rparr>) = settings w" "settings (w\<lparr>ramp_actual_time := t\<rparr>) = settings w"
  "settings (w\<lparr>sw_events := es\<rparr>) = settings w" "settings (w\<lparr>sw_passed := b\<rparr>) = settings w"
  "settings (w\<lparr>sw_run_duration_ms := d\<rparr>) = settings w" "settings (w\<lparr>sw_ramp_interval := d\<rparr>) = settings w"
  by (simp_all add: settings_def sw_emit_def)

lemma settings_log [simp]: "settings (log_interval_gflops g w) = settings w"
  by (simp add: log_interval_gflops_def Let_def)

lemma settings_checks [simp]: "settings (stress_checks x w) = settings w"
  by (simp add: stress_checks_def Let_def)

lemma settings_fields:
  assumes "settings w = settings w'"
  shows "sw_size w = sw_size w'" "sw_hot_calls w = sw_hot_calls w'" "sw_log_interval w = sw_log_interval w'"
    "sw_copy_matrix w = sw_copy_matrix w'" "lower_target w = lower_target w'"
    "target_stress w = target_stress w'" "tolerance w = tolerance w'"
proof -
  have "\<exists>d r a t m p e. w = w'\<lparr>sw_run_duration_ms := d, sw_ramp_interval := r, ramp_actual_time := a,
      delay_target_stress := t, max_gflops := m, sw_passed := p, sw_events := e\<rparr>"
    using assms by (cases w; cases w') (auto simp: settings_def)
  then show "sw_size w = sw_size w'" "sw_hot_calls w = sw_hot_calls w'" "sw_log_interval w = sw_log_interval w'"
    "sw_copy_matrix w = sw_copy_matrix w'" "lower_target w = lower_target w'"
    "target_stress w = target_stress w'" "tolerance w = tolerance w'"
    by (auto simp: lower_target_def)
qed

lemma emit_fields [simp]:
  "max_gflops (sw_emit e w) = max_gflops w" "sw_passed (sw_emit e w) = sw_passed w"
  "sw_run_duration_ms (sw_emit e w) = sw_run_duration_ms w"
  by (simp_all add: sw_emit_def)

lemma log_fields [simp]:
  "max_gflops (log_interval_gflops g w) = max_gflops w" "sw_passed (log_interval_gflops g w) = sw_passed w"
  "sw_run_duration_ms (log_interval_gflops g w) = sw_run_duration_ms w"
  by (simp_all add: log_interval_gflops_def Let_def)

lemma checks_fields [simp]:
  "max_gflops (stress_checks x w) = max_gflops w" "sw_passed (stress_checks x w) = sw_passed w"
  "sw_run_duration_ms (stress_checks x w) = sw_run_duration_ms w"
  by (simp_all add: stress_checks_def Let_def)

section \<open>The stress loop measures the intervals\<close>

definition best :: "fval list \<Rightarrow> fval \<Rightarrow> fval" where
  "best gs m = foldl (\<lambda>m g. if f_less m g then g else m) m gs"

lemma best_reaches:
  "m \<noteq> NaN \<Longrightarrow> f_le L (best gs m) \<longleftrightarrow> f_le L m \<or> list_ex (f_le L) gs"
proof (induction gs arbitrary: m)
  case Nil
  then show ?case by (simp add: best_def)
next
  case (Cons g gs)
  show ?case
  proof (cases "f_less m g")
    case True
    then have "g \<noteq> NaN" by auto
    moreover have "f_le L m \<Longrightarrow> f_le L g" using True f_le_trans f_le_def by blast
    ultimately show ?thesis using Cons.IH [of g] True by (auto simp: best_def)
  next
    case False
    have "f_le L g \<Longrightarrow> f_le L m"
    proof -
      assume a: "f_le L g"
      then have "g \<noteq> NaN" by auto
      with False Cons.prems have "f_le g m" by (simp add: f_not_less)
      with a show ?thesis by (rule f_le_trans)
    qed
    then show ?thesis using Cons.IH [OF Cons.prems] False by (auto simp: best_def)
  qed
qed

definition pending :: "gst_worker \<Rightarrow> int \<Rightarrow> stress_round list \<Rightarrow> stress_vars" where
  "pending w t p = \<lparr>sv_num_gemm_ops = group_ops w p, sv_time_taken = group_time p, sv_interval = t\<rparr>"

lemma group_snoc:
  "group_ops w (p @ [x]) = group_ops w p + ucast (sw_hot_calls w)"
  "group_time (p @ [x]) = f_add (group_time p) (round_time x)"
  by (simp_all add: group_ops_def group_time_def algebra_simps)

lemma group_nil: "group_ops w [] = 0" "group_time [] = Fin 0"
  by (simp_all add: group_ops_def group_time_def)

lemma pending_fields [simp]:
  "sv_num_gemm_ops (pending w t p) = group_ops w p" "sv_time_taken (pending w t p) = group_time p"
  "sv_interval (pending w t p) = t"
  by (simp_all add: pending_def)

lemma stress_interval_pending:
  assumes "settings u = settings w"
  shows "stress_interval x (pending w t (p @ [x]), u) =
    (if closes w (sw_run_duration_ms u) t (p @ [x]) x
     then (pending w (tr_restart x) [],
           log_interval_gflops (group_gflops w (p @ [x]))
             (if f_less (max_gflops u) (group_gflops w (p @ [x]))
              then u\<lparr>max_gflops := group_gflops w (p @ [x])\<rparr> else u))
     else (pending w t (p @ [x]), u))"
  unfolding stress_interval_def closes_def group_gflops_def Let_def case_prod_conv pending_fields
    settings_fields [OF assms]
  by (simp only: pending_def group_nil)

definition after_round :: "gst_worker \<Rightarrow> int \<Rightarrow> int \<Rightarrow> stress_round list \<Rightarrow> stress_round \<Rightarrow> gst_worker \<Rightarrow> gst_worker" where
  "after_round w s t p x u =
     trace_round (time_diff (tr_end x) s) (stress_checks x
       (if closes w (sw_run_duration_ms u) t (p @ [x]) x
        then log_interval_gflops (group_gflops w (p @ [x]))
          (if f_less (max_gflops u) (group_gflops w (p @ [x])) then u\<lparr>max_gflops := group_gflops w (p @ [x])\<rparr> else u)
        else u))"

lemma trace_fields [simp]:
  "settings (trace_round n w) = settings w" "max_gflops (trace_round n w) = max_gflops w"
  "sw_passed (trace_round n w) = sw_passed w" "sw_run_duration_ms (trace_round n w) = sw_run_duration_ms w"
  by (simp_all add: trace_round_def)

lemma after_round_fields:
  "settings (after_round w s t p x u) = settings u" "sw_passed (after_round w s t p x u) = sw_passed u"
  "sw_run_duration_ms (after_round w s t p x u) = sw_run_duration_ms u"
  "max_gflops (after_round w s t p x u) =
     (if closes w (sw_run_duration_ms u) t (p @ [x]) x
      then best [group_gflops w (p @ [x])] (max_gflops u) else max_gflops u)"
  by (simp_all add: after_round_def best_def)

declare gst_stress_loop.simps [simp del]

lemma stress_round_pending:
  assumes "settings u = settings w" and "round_ok w x"
  shows "gst_stress_loop (x # xs) s (pending w t p) u =
      (let u' = after_round w s t p x u in
       if time_over (sw_run_duration_ms u) s x then Some (None, True, u')
       else if closes w (sw_run_duration_ms u) t (p @ [x]) x
            then gst_stress_loop xs s (pending w (tr_restart x) []) u'
            else gst_stress_loop xs s (pending w t (p @ [x])) u')"
proof -
  have "(pending w t p)\<lparr>sv_time_taken := f_add (sv_time_taken (pending w t p))
      (f_sub (Fin (get_time_us (tr_us_end x))) (Fin (get_time_us (tr_us_start x)))),
      sv_num_gemm_ops := sv_num_gemm_ops (pending w t p) + ucast (sw_hot_calls w)\<rparr> = pending w t (p @ [x])"
    by (simp add: pending_def group_snoc round_time_def)
  moreover have "sw_hot_calls u = sw_hot_calls w" "\<not> (sw_copy_matrix u \<and> \<not> tr_copied x)" "\<not> tr_stopping x"
    "\<not> (\<not> tr_ran x \<or> \<not> tr_completed x)"
    using settings_fields [OF assms(1)] assms(2) by (auto simp: round_ok_def)
  ultimately show ?thesis
    by (simp only: gst_stress_loop.simps if_False Let_def stress_interval_pending [OF assms(1)])
      (simp add: after_round_def time_over_def)
qed

lemma gst_stress_loop_measure:
  assumes "settings u = settings w" and "list_all (round_ok w) (through (time_over dur s) xs)"
    and "list_ex (time_over dur s) xs" and "sw_run_duration_ms u = dur"
  shows "\<exists>u'. gst_stress_loop xs s (pending w t p) u = Some (None, True, u') \<and> settings u' = settings w \<and>
    max_gflops u' = best (map (group_gflops w) (intervals w dur t p (through (time_over dur s) xs))) (max_gflops u)"
  using assms
proof (induction xs arbitrary: t p u)
  case Nil
  then show ?case by (simp add: gst_stress_loop.simps)
next
  case (Cons x xs)
  let ?u = "after_round w s t p x u"
  have u: "settings ?u = settings w" "sw_run_duration_ms ?u = dur"
    using Cons.prems by (simp_all add: after_round_fields)
  have step: "round_ok w x" using Cons.prems(2) by simp
  show ?case
  proof (cases "time_over dur s x")
    case True
    then show ?thesis using Cons.prems(1,4) u
      by (auto simp: stress_round_pending [OF Cons.prems(1) step] after_round_fields Let_def best_def)
  next
    case False
    with Cons.prems have "list_all (round_ok w) (through (time_over dur s) xs)" "list_ex (time_over dur s) xs" by auto
    note IH = Cons.IH [OF u(1) this u(2)]
    show ?thesis
      using IH [of t "p @ [x]"] IH [of "tr_restart x" "[]"] False Cons.prems(4)
      by (auto simp: stress_round_pending [OF Cons.prems(1) step] after_round_fields Let_def best_def)
  qed
qed

section \<open>What a run keeps\<close>

definition completed_event :: "gst_event \<Rightarrow> bool" where
  "completed_event e = (case e of Gst_result st _ _ \<Rightarrow> st = ACTION_COMPLETED | _ \<Rightarrow> False)"

text \<open>The settings, the verdict, the duration, and that nothing was reported as completed.\<close>

definition keeps :: "gst_worker \<Rightarrow> gst_worker \<Rightarrow> bool" where
  "keeps w w' \<longleftrightarrow> settings w' = settings w \<and> sw_passed w' = sw_passed w \<and>
     sw_run_duration_ms w' = sw_run_duration_ms w \<and>
     (list_ex completed_event (sw_events w') \<longrightarrow> list_ex completed_event (sw_events w))"

lemma keeps_refl [simp]: "keeps w w"
  by (simp add: keeps_def)

lemma keeps_trans: "keeps u v \<Longrightarrow> keeps v w \<Longrightarrow> keeps u w"
  by (auto simp: keeps_def)

lemma keeps_log: "keeps u w \<Longrightarrow> keeps u (log_interval_gflops g w)"
  by (auto simp: keeps_def log_interval_gflops_def Let_def sw_emit_def completed_event_def settings_def)

lemma keeps_checks: "keeps u w \<Longrightarrow> keeps u (stress_checks x w)"
  by (auto simp: keeps_def stress_checks_def Let_def sw_emit_def completed_event_def settings_def)

lemma keeps_trace: "keeps u w \<Longrightarrow> keeps u (trace_round n w)"
  by (auto simp: keeps_def trace_round_def sw_emit_def completed_event_def settings_def)

lemma keeps_emit_log: "keeps u w \<Longrightarrow> keeps u (sw_emit (Gst_log t l) w)"
  by (auto simp: keeps_def sw_emit_def completed_event_def settings_def)

lemma keeps_updates:
  "keeps u w \<Longrightarrow> keeps u (w\<lparr>max_gflops := g\<rparr>)" "keeps u w \<Longrightarrow> keeps u (w\<lparr>delay_target_stress := d\<rparr>)"
  "keeps u w \<Longrightarrow> keeps u (w\<lparr>ramp_actual_time := n, delay_target_stress := d\<rparr>)"
  by (simp_all add: keeps_def settings_def)

lemmas keeps_intros = keeps_log keeps_checks keeps_trace keeps_emit_log keeps_updates

lemma ramp_sub_interval_keeps:
  "ramp_sub_interval x s v w = Inl w' \<Longrightarrow> keeps w w'"
  "ramp_sub_interval x s v w = Inr (v', w') \<Longrightarrow> keeps w w'"
  by (auto simp: ramp_sub_interval_def Let_def intro!: keeps_updates split: if_splits)

lemma ramp_log_keeps: "ramp_log x g (v, w) = (v', w') \<Longrightarrow> keeps w w'"
  by (auto simp: ramp_log_def Let_def intro!: keeps_log split: if_splits)

lemma ramp_loop_keeps:
  "ramp_loop xs s v w = Some (e, b, w') \<Longrightarrow> keeps w w'"
proof (induction xs arbitrary: v w)
  case Nil
  then show ?case by simp
next
  case (Cons x xs)
  then show ?case
    by (auto simp: Let_def split: if_splits sum.splits prod.splits
        intro: keeps_trans dest: ramp_sub_interval_keeps ramp_log_keeps)
      (meson keeps_trans ramp_sub_interval_keeps ramp_log_keeps)+
qed

lemma do_gst_ramp_keeps:
  "do_gst_ramp i w = Some (e, b, w') \<Longrightarrow>
     keeps (w\<lparr>sw_run_duration_ms := at_least_a_second (sw_run_duration_ms w)\<rparr>) w'"
  by (auto simp: do_gst_ramp_def Let_def keeps_def settings_def split: option.splits if_splits
      dest!: ramp_loop_keeps)

lemma stress_interval_keeps: "stress_interval x (v, w) = (v', w') \<Longrightarrow> keeps w w'"
  by (auto simp: stress_interval_def Let_def intro!: keeps_intros split: if_splits)

lemma gst_stress_loop_keep: "gst_stress_loop xs s v w = Some (e, b, w') \<Longrightarrow> keeps w w'"
proof (induction xs arbitrary: v w)
  case Nil
  then show ?case by (simp add: gst_stress_loop.simps)
next
  case (Cons x xs)
  have step: "keeps w (trace_round n (stress_checks x w1))" if "stress_interval x (v1, w) = (v2, w1)" for n v1 v2 w1
    using stress_interval_keeps [OF that] by (intro keeps_intros)
  show ?case using Cons.prems
    by (auto simp: gst_stress_loop.simps Let_def split: if_splits prod.splits
        intro: step keeps_trans [OF step] dest!: Cons.IH)
qed

section \<open>The verdict\<close>

lemma passed_iff [simp]: "sw_passed (check_target_stress g w) \<longleftrightarrow> f_le (lower_target w) g"
  by (simp add: check_target_stress_def Let_def lower_target_def)

lemma announced_keeps: "keeps (w\<lparr>max_gflops := Fin 0\<rparr>) (gst_announced w)"
  by (simp add: gst_announced_def keeps_emit_log)

text \<open>
  C33: A run that is not stopped and whose multiplications succeed passes exactly when one of the
  measured intervals reaches the target less its tolerance (or that bound is not positive); what
  the ramp found plays no part.  The test lasts through the first round at or past the duration.
\<close>

theorem gst_passes_iff_interval_reaches:
  assumes "do_gst_ramp (gst_input.truncate i) (gst_announced w) = Some (None, met, w1)"
    and "\<not> gi_stop_end i" and "dur = at_least_a_second (sw_run_duration_ms w)"
    and "list_ex (time_over dur (gi_stress_start i)) (gi_stress i)"
    and "rounds = through (time_over dur (gi_stress_start i)) (gi_stress i)"
    and "list_all (round_ok w) rounds"
  shows "\<exists>w'. gst_worker_run i w = Some w' \<and>
    (sw_passed w' \<longleftrightarrow> f_le (lower_target w) (Fin 0) \<or>
       list_ex (\<lambda>p. f_le (lower_target w) (group_gflops w p)) (intervals w dur (gi_stress_log i) [] rounds))"
proof -
  define w2 where "w2 = sw_emit (Gst_log (gst_name w1 @ '' GST ramp completed for interval : '' @
    to_string (unat (sw_ramp_interval w1))) loginfo) (sw_emit (Gst_log (gst_head w1 @ ''End of GPU ramp up'') logresults) w1)"
  have "keeps (w\<lparr>max_gflops := Fin 0\<rparr>) (gst_announced w)" by (rule announced_keeps)
  with do_gst_ramp_keeps [OF assms(1)] have w2: "settings w2 = settings w" "sw_run_duration_ms w2 = dur"
    by (simp_all add: keeps_def w2_def assms(3))
  let ?u = "w2\<lparr>max_gflops := Fin 0\<rparr>"
  have "settings ?u = settings w" "sw_run_duration_ms ?u = dur" using w2 by simp_all
  from gst_stress_loop_measure [OF this(1) assms(6) [unfolded assms(5)] assms(4) this(2)]
  obtain u' where u': "gst_stress_loop (gi_stress i) (gi_stress_start i) (pending w (gi_stress_log i) []) ?u = Some (None, True, u')"
    "settings u' = settings w"
    "max_gflops u' = best (map (group_gflops w) (intervals w dur (gi_stress_log i) [] rounds)) (Fin 0)"
    by (auto simp: assms(5))
  have "gst_worker_run i w = Some (check_target_stress (max_gflops u') u')"
    using u'(1) assms(1,2)
    by (simp add: gst_worker_run_def Let_def do_gst_stress_test_def pending_def group_nil w2_def gst_name_def sw_emit_def)
  then show ?thesis
    using u'(2,3) settings_fields(5) [OF u'(2)] by (auto simp: best_reaches list.pred_map list_ex_iff)
qed

section \<open>An instance\<close>

definition sample_gst_worker :: gst_worker where
  "sample_gst_worker = \<lparr>sw_action_name = ''a'', sw_gpu_id = 7, sw_gpu_index = 0, sw_run_duration_ms = 0,
     sw_ramp_interval = 0, sw_log_interval = 0, sw_max_violations = 0, sw_copy_matrix = False,
     target_stress = Fin 1000, tolerance = Fin 0, sw_hot_calls = 1, sw_warm_calls = 1, sw_ops_type = ''sgemm'',
     sw_data_type = [], sw_self_check = False, sw_accu_check = False, sw_error_inject = False,
     sw_error_freq = 0, sw_error_count = 0,
     sw_size = \<lparr>bs_m = 1000, bs_n = 1000, bs_k = 1000, bs_gemm_mode = [], bs_batch_size = 0\<rparr>,
     sw_bjson = False, sw_cast = (\<lambda>_. 0), ramp_actual_time = 0, delay_target_stress = Fin 0, max_gflops = Fin 0,
     sw_passed = False, sw_events = []\<rparr>"

definition sample_ramp_round :: ramp_round where
  "sample_ramp_round = \<lparr>rr_stopping = False, rr_now = 0, rr_gemm_start = 0, rr_copied = True, rr_us_start = 0,
     rr_ran = True, rr_completed = True, rr_us_end = 1, rr_gemm_end = 0, rr_end = 0, rr_restart_gflops = 0,
     rr_restart_log = 0\<rparr>"

definition sample_stress_round :: stress_round where
  "sample_stress_round = \<lparr>tr_stopping = False, tr_copied = True, tr_us_start = 0, tr_ran = True, tr_completed = True,
     tr_us_end = 1, tr_end = 1000000000, tr_restart = 0, tr_self_error = Fin 0, tr_accu_error = Fin 0\<rparr>"

definition sample_gst_input :: gst_run_input where
  "sample_gst_input = \<lparr>gi_blas_error = False, gi_setup_copied = True, gi_stop_setup = False, gi_ramp_start = 0,
     gi_ramp_log = 0, gi_ramp_gflops = 0, gi_ramp = [sample_ramp_round], gi_stress_start = 0, gi_stress_log = 0,
     gi_stress = [sample_stress_round], gi_stop_end = False\<rparr>"

lemma sample_ramp:
  "\<exists>met w1. do_gst_ramp (gst_input.truncate sample_gst_input) (gst_announced sample_gst_worker) = Some (None, met, w1)"
  by (simp add: do_gst_ramp_def gst_announced_def sw_emit_def sample_gst_input_def sample_gst_worker_def
      gst_input.truncate_def setup_blas_def sample_ramp_round_def single_shot_def ramp_sub_interval_def
      ramp_log_def ms_to_us_def time_diff_def trunc_int_def us_double_def f_u64_def f_nat_def at_least_a_second_def Let_def)

lemma sample_measured:
  "group_gflops sample_gst_worker [sample_stress_round] = Fin 2000000"
  by (simp add: group_gflops_def gemm_gflop_count_def group_time_def group_ops_def round_time_def get_time_us_def
      f_sub_def sample_gst_worker_def sample_stress_round_def Let_def)

lemma sample_target: "lower_target sample_gst_worker = Fin 1000"
  by (simp add: lower_target_def sample_gst_worker_def f_sub_def)

lemma sample_closes: "closes sample_gst_worker 0 0 [sample_stress_round] sample_stress_round"
  by (simp add: closes_def time_diff_def sample_stress_round_def sample_gst_worker_def group_ops_def
      us_double_def f_u64_def f_nat_def trunc_int_def)

theorem gst_passes_iff_interval_reaches_witness:
  "\<exists>w'. gst_worker_run sample_gst_input sample_gst_worker = Some w' \<and> sw_passed w'"
proof -
  obtain met w1 where r: "do_gst_ramp (gst_input.truncate sample_gst_input) (gst_announced sample_gst_worker) = Some (None, met, w1)"
    using sample_ramp by blast
  have i: "\<not> gi_stop_end sample_gst_input" "gi_stress sample_gst_input = [sample_stress_round]"
    "gi_stress_log sample_gst_input = 0"
    by (simp_all add: sample_gst_input_def)
  have d: "0 = at_least_a_second (sw_run_duration_ms sample_gst_worker)"
    by (simp add: at_least_a_second_def sample_gst_worker_def)
  have o: "list_ex (time_over 0 (gi_stress_start sample_gst_input)) (gi_stress sample_gst_input)"
    "[sample_stress_round] = through (time_over 0 (gi_stress_start sample_gst_input)) (gi_stress sample_gst_input)"
    by (simp_all add: i time_over_def)
  have "list_all (round_ok sample_gst_worker) [sample_stress_round]"
    by (simp add: round_ok_def sample_stress_round_def)
  from gst_passes_iff_interval_reaches [OF r i(1) d o this]
  show ?thesis
    by (simp add: i sample_closes sample_measured sample_target f_le_def)
qed

section \<open>Failures and stops\<close>

lemma gst_failed_passed [simp]: "sw_passed (gst_failed e w) = sw_passed w"
  by (simp add: gst_failed_def Let_def)

text \<open>
  A run that reports its end through the callback (the BLAS object failed), or that a stop ended,
  leaves the verdict of the worker as it was before the run; only a run that reports nothing as
  completed writes it.
\<close>

theorem gst_failure_keeps_verdict:
  assumes "gst_worker_run i w = Some w'" and "sw_events w = []"
    and "gi_stop_end i \<or> list_ex completed_event (sw_events w')"
  shows "sw_passed w' = sw_passed w"
proof -
  have start: "keeps (w\<lparr>max_gflops := Fin 0\<rparr>) (gst_announced w)" by (rule announced_keeps)
  obtain err b w1 where ramp: "do_gst_ramp (gst_input.truncate i) (gst_announced w) = Some (err, b, w1)"
    using assms(1) by (auto simp: gst_worker_run_def split: option.splits)
  from do_gst_ramp_keeps [OF ramp] start assms(2)
  have w1: "sw_passed w1 = sw_passed w" "\<not> list_ex completed_event (sw_events w1)"
    by (auto simp: keeps_def)
  show ?thesis
  proof (cases err)
    case (Some e)
    with assms(1) ramp w1(1) show ?thesis by (auto simp: gst_worker_run_def Let_def)
  next
    case None
    let ?w2 = "sw_emit (Gst_log (gst_name w1 @ '' GST ramp completed for interval : '' @
      to_string (unat (sw_ramp_interval w1))) loginfo) (sw_emit (Gst_log (gst_head w1 @ ''End of GPU ramp up'') logresults) w1)"
    have name: "gst_name (sw_emit (Gst_log (gst_head w1 @ ''End of GPU ramp up'') logresults) w1) = gst_name w1"
      "sw_ramp_interval (sw_emit (Gst_log (gst_head w1 @ ''End of GPU ramp up'') logresults) w1) = sw_ramp_interval w1"
      by (simp_all add: gst_name_def sw_emit_def)
    obtain err2 b2 w3 where test: "do_gst_stress_test (gi_stress_start i) (gi_stress_log i) (gi_stress i) ?w2 = Some (err2, b2, w3)"
      using assms(1) ramp None by (auto simp: gst_worker_run_def Let_def name split: option.splits)
    have "keeps (?w2\<lparr>max_gflops := Fin 0\<rparr>) w3"
      using test gst_stress_loop_keep by (auto simp: do_gst_stress_test_def)
    with w1 have w3: "sw_passed w3 = sw_passed w" "\<not> list_ex completed_event (sw_events w3)"
      by (auto simp: keeps_def) (auto simp: sw_emit_def completed_event_def)
    then have "\<not> list_ex completed_event (sw_events (check_target_stress (max_gflops w3) w3))"
      by (auto simp: check_target_stress_def Let_def sw_emit_def completed_event_def)
    with assms(1,3) ramp None test w3(1) show ?thesis
      by (auto simp: gst_worker_run_def Let_def name split: if_splits option.splits)
  qed
qed

definition sample_gst_broken :: gst_run_input where
  "sample_gst_broken = sample_gst_input\<lparr>gi_blas_error := True\<rparr>"

lemma blas_error_run:
  assumes "gi_blas_error i"
  shows "\<exists>w'. gst_worker_run i w = Some w' \<and> sw_passed w' = sw_passed w \<and> list_ex completed_event (sw_events w')"
  using assms
  by (auto simp: gst_worker_run_def do_gst_ramp_def setup_blas_def gst_input.truncate_def gst_announced_def Let_def
      gst_failed_def sw_emit_def completed_event_def)

theorem gst_failure_keeps_verdict_witness:
  "\<exists>w'. gst_worker_run sample_gst_broken (sample_gst_worker\<lparr>sw_passed := True\<rparr>) = Some w' \<and> sw_passed w'"
proof -
  have "gi_blas_error sample_gst_broken" by (simp add: sample_gst_broken_def)
  from blas_error_run [OF this, of "sample_gst_worker\<lparr>sw_passed := True\<rparr>"]
  obtain w' where w': "gst_worker_run sample_gst_broken (sample_gst_worker\<lparr>sw_passed := True\<rparr>) = Some w'"
    "list_ex completed_event (sw_events w')" by blast
  have "sw_events (sample_gst_worker\<lparr>sw_passed := True\<rparr>) = []" by (simp add: sample_gst_worker_def)
  from gst_failure_keeps_verdict [OF w'(1) this] w' show ?thesis by auto
qed

section \<open>The loops end\<close>

lemma ramp_loop_ends:
  assumes "xs \<noteq> []"
    and "sw_ramp_interval w = 0 \<or> list_ex (\<lambda>x. (sw_ramp_interval w - 1000) * 1000 < time_diff (rr_now x) s) xs"
  shows "\<exists>r. ramp_loop xs s v w = Some r"
  using assms
proof (induction xs arbitrary: v w)
  case Nil
  then show ?case by simp
next
  case (Cons x xs)
  have same: "sw_ramp_interval w2 = sw_ramp_interval w"
    if "ramp_sub_interval x s v1 w = Inr (v', w1)" "ramp_log x g (v', w1) = (v2, w2)" for v1 v' w1 v2 w2 g
    using that by (auto simp: ramp_sub_interval_def ramp_log_def Let_def log_interval_gflops_def sw_emit_def split: if_splits)
  show ?case
  proof (cases "rr_stopping x \<or> single_shot w \<or> (sw_ramp_interval w - 1000) * 1000 < time_diff (rr_now x) s
      \<or> sw_copy_matrix w \<and> \<not> rr_copied x \<or> \<not> rr_ran x \<or> \<not> rr_completed x")
    case True
    then show ?thesis
      using same by (auto simp: Let_def single_shot_def split: sum.splits prod.splits)
  next
    case False
    with Cons.prems(2) have more: "list_ex (\<lambda>x. (sw_ramp_interval w - 1000) * 1000 < time_diff (rr_now x) s) xs" "xs \<noteq> []"
      by (auto simp: single_shot_def)
    have "\<exists>r. ramp_loop xs s v' w' = Some r" if "sw_ramp_interval w' = sw_ramp_interval w" for v' w'
      using Cons.IH [OF more(2), of w' v'] more(1) that by auto
    with False same show ?thesis
      by (auto simp: Let_def split: sum.splits prod.splits)
  qed
qed

lemma gst_stress_loop_end:
  assumes "list_ex (time_over (sw_run_duration_ms w) s) xs"
  shows "\<exists>r. gst_stress_loop xs s v w = Some r"
  using assms
proof (induction xs arbitrary: v w)
  case Nil
  then show ?case by simp
next
  case (Cons x xs)
  have "\<exists>r. gst_stress_loop xs s v2 (trace_round n (stress_checks x w2)) = Some r"
    if "stress_interval x (v1, w) = (v2, w2)" "\<not> time_over (sw_run_duration_ms w) s x" for n v1 v2 w2
    using Cons.IH [of "trace_round n (stress_checks x w2)" v2] Cons.prems stress_interval_keeps [OF that(1)] that(2)
    by (auto simp: keeps_def)
  moreover have "sw_run_duration_ms w2 = sw_run_duration_ms w" if "stress_interval x (v1, w) = (v2, w2)" for v1 v2 w2
    using stress_interval_keeps [OF that] by (simp add: keeps_def)
  ultimately show ?case
    by (auto simp: gst_stress_loop.simps Let_def time_over_def split: prod.splits)
qed

text \<open>
  C34: A run returns once the clock has passed the ramp interval (a ramp interval of 0 makes a single
  round) and, from the start of the test, the duration, both raised to at least a second; failures
  and stops only end it earlier.
\<close>

theorem gst_worker_returns:
  assumes "gi_ramp i \<noteq> []" and "ramp_ms = at_least_a_second (sw_ramp_interval w)"
    and "ramp_ms = 0 \<or> list_ex (\<lambda>x. (ramp_ms - 1000) * 1000 < time_diff (rr_now x) (gi_ramp_start i)) (gi_ramp i)"
    and "list_ex (time_over (at_least_a_second (sw_run_duration_ms w)) (gi_stress_start i)) (gi_stress i)"
  shows "\<exists>w'. gst_worker_run i w = Some w'"
proof -
  have ramp_ms: "ramp_ms = at_least_a_second (sw_ramp_interval (gst_announced w))"
    using assms(2) by (simp add: gst_announced_def sw_emit_def)
  have "\<exists>r. do_gst_ramp (gst_input.truncate i) (gst_announced w) = Some r"
    using ramp_loop_ends [of "gi_ramp i" _ "gi_ramp_start i"] assms(1,3) ramp_ms
    by (auto simp: do_gst_ramp_def Let_def gst_input.truncate_def split: option.split)
  then obtain err b w1 where r: "do_gst_ramp (gst_input.truncate i) (gst_announced w) = Some (err, b, w1)" by auto
  from do_gst_ramp_keeps [OF r] announced_keeps [of w]
  have "sw_run_duration_ms w1 = at_least_a_second (sw_run_duration_ms w)" by (simp add: keeps_def)
  then have "\<exists>r. do_gst_stress_test (gi_stress_start i) (gi_stress_log i) (gi_stress i) (sw_emit e1 (sw_emit e2 w1)) = Some r" for e1 e2
    unfolding do_gst_stress_test_def using assms(4) by (intro gst_stress_loop_end) simp
  then obtain f where f: "do_gst_stress_test (gi_stress_start i) (gi_stress_log i) (gi_stress i) (sw_emit e1 (sw_emit e2 w1)) = Some (f e1 e2)" for e1 e2
    by metis
  show ?thesis
    by (auto simp: gst_worker_run_def r f Let_def split: option.split prod.split)
qed

theorem gst_worker_returns_witness:
  "\<exists>w'. gst_worker_run sample_gst_input sample_gst_worker = Some w'"
proof -
  have "gi_ramp sample_gst_input \<noteq> []" "0 = at_least_a_second (sw_ramp_interval sample_gst_worker)"
    "list_ex (time_over (at_least_a_second (sw_run_duration_ms sample_gst_worker)) (gi_stress_start sample_gst_input))
       (gi_stress sample_gst_input)"
    by (simp_all add: sample_gst_input_def sample_gst_worker_def at_least_a_second_def time_over_def)
  from gst_worker_returns [OF this(1,2) _ this(3)] show ?thesis by simp
qed

section \<open>The action\<close>

lemma gst_workers_loop_runs:
  assumes "list_all2 (\<lambda>(i, stop) (w, w'). \<not> stop \<and> gst_worker_run i (w\<lparr>sw_events := []\<rparr>) = Some w') is (zip ws ws')"
    and "length ws' = length ws"
  shows "\<exists>evs'. gst_workers_loop parallel is ws finished evs = Some (False, finished @ ws', evs')"
  using assms
proof (induction ws arbitrary: "is" ws' finished evs)
  case Nil
  then show ?case by simp
next
  case (Cons w ws)
  then obtain v vs where ws': "ws' = v # vs" by (cases ws') auto
  with Cons.prems obtain i js where i: "is = (i, False) # js" "gst_worker_run i (w\<lparr>sw_events := []\<rparr>) = Some v"
    "list_all2 (\<lambda>(i, stop) (w, w'). \<not> stop \<and> gst_worker_run i (w\<lparr>sw_events := []\<rparr>) = Some w') js (zip ws vs)"
    by (auto simp: list_all2_Cons2)
  from Cons.IH [OF i(3), of "finished @ [v]"] Cons.prems(2) show ?case by (auto simp: i ws')
qed

text \<open>
  An action with a count of 1 that no stop reaches: it passes exactly when every worker ends with a
  positive verdict.
\<close>

lemma one_pass_verdict:
  assumes "property_count (sa_base m) = 1" and "\<not> gp_stop p" and "\<not> gp_stop_end p"
    and "list_all2 (\<lambda>(i, stop) (w, w'). \<not> stop \<and> gst_worker_run i (w\<lparr>sw_events := []\<rparr>) = Some w') (gp_inputs p)
      (zip (map2 (configure gl ub m) devs raw) ws')"
    and "length devs = length raw" and "length ws' = length raw"
  shows "\<exists>evs. do_gpu_stress_test gl ub m devs (p # ps) raw = Some (list_all sw_passed ws', evs)"
proof -
  define evs where "evs = (if property_wait (sa_base m) \<noteq> 0
    then [Gst_sleep (unat (ucast (property_wait (sa_base m)) :: u32))] else [])"
  have "length ws' = length (map2 (configure gl ub m) devs raw)" using assms(5,6) by simp
  from gst_workers_loop_runs [OF assms(4) this, where finished = "[]" and evs = evs and
      parallel = "property_parallel (sa_base m)"] obtain evs' where
    "gst_workers_loop (property_parallel (sa_base m)) (gp_inputs p) (map2 (configure gl ub m) devs raw) [] evs =
      Some (False, ws', evs')" by auto
  with assms(1-3) show ?thesis
    by (cases "property_wait (sa_base m) \<noteq> 0") (simp_all add: do_gpu_stress_test_def Let_def evs_def)
qed

lemma configure_passed [simp]: "sw_passed (configure gl ub m d w) = sw_passed w"
  by (simp add: configure_def Let_def)

text \<open>
  When the BLAS object of every GPU cannot be set up, the verdict of the action is whatever the
  memory of its workers held: no member function has written their results.
\<close>

theorem gst_broken_blas_verdict:
  assumes "property_count (sa_base m) = 1" and "\<not> gp_stop p" and "\<not> gp_stop_end p"
    and "list_all (\<lambda>(i, stop). gi_blas_error i \<and> \<not> stop) (gp_inputs p)"
    and "length (gp_inputs p) = length raw" and "length devs = length raw"
  shows "\<exists>evs. do_gpu_stress_test gl ub m devs (p # ps) raw = Some (list_all sw_passed raw, evs)"
proof -
  define res where "res i w = (SOME w'. gst_worker_run i w = Some w' \<and> sw_passed w' = sw_passed w)" for i w
  have res: "gst_worker_run i w = Some (res i w) \<and> sw_passed (res i w) = sw_passed w" if "gi_blas_error i" for i w
    unfolding res_def by (rule someI_ex) (use blas_error_run [OF that, of w] in blast)
  define ws where "ws = map2 (configure gl ub m) devs raw"
  define ws' where "ws' = map2 (\<lambda>(i, stop) w. res i (w\<lparr>sw_events := []\<rparr>)) (gp_inputs p) ws"
  have len: "length ws = length raw" "length ws' = length raw" using assms(5,6) by (simp_all add: ws_def ws'_def)
  have at: "\<not> stop \<and> gst_worker_run i ((ws ! k)\<lparr>sw_events := []\<rparr>) = Some (ws' ! k) \<and> sw_passed (ws' ! k) = sw_passed (raw ! k)"
    if "gp_inputs p ! k = (i, stop)" "k < length raw" for i stop k
  proof -
    from that assms(4,5) have "gi_blas_error i" "\<not> stop" by (auto simp: list_all_length)
    moreover have "ws ! k = configure gl ub m (devs ! k) (raw ! k)" "ws' ! k = res i ((ws ! k)\<lparr>sw_events := []\<rparr>)"
      using that assms(5,6) len by (simp_all add: ws_def ws'_def)
    ultimately show ?thesis using res by simp
  qed
  have "list_all2 (\<lambda>(i, stop) (w, w'). \<not> stop \<and> gst_worker_run i (w\<lparr>sw_events := []\<rparr>) = Some w') (gp_inputs p) (zip ws ws')"
    unfolding list_all2_conv_all_nth using len at assms(5) by (auto split: prod.split)
  from one_pass_verdict [OF assms(1-3) this [unfolded ws_def] assms(6) len(2)]
  have "\<exists>evs. do_gpu_stress_test gl ub m devs (p # ps) raw = Some (list_all sw_passed ws', evs)" .
  moreover have "sw_passed (ws' ! k) = sw_passed (raw ! k)" if "k < length raw" for k
    using at [OF _ that] by (cases "gp_inputs p ! k") auto
  then have "list_all sw_passed ws' \<longleftrightarrow> list_all sw_passed raw" by (simp add: list_all_length len(2))
  ultimately show ?thesis by simp
qed

definition sample_gst :: "(unit, unit) gst_action \<Rightarrow> (unit, unit) gst_action" where
  "sample_gst m = m\<lparr>sa_base := (sa_base m)\<lparr>property_count := 1\<rparr>\<rparr>"

theorem gst_broken_blas_verdict_witness:
  "\<forall>m. \<exists>evs. do_gpu_stress_test gpulist_empty (\<lambda>_. 0) (sample_gst m) [(0, 7)]
     [\<lparr>gp_inputs = [(sample_gst_broken, False)], gp_stop = False, gp_stop_end = False\<rparr>]
     [sample_gst_worker\<lparr>sw_passed := True\<rparr>] = Some (True, evs)"
proof
  fix m
  let ?p = "\<lparr>gp_inputs = [(sample_gst_broken, False)], gp_stop = False, gp_stop_end = False\<rparr>"
  have "property_count (sa_base (sample_gst m)) = 1" "\<not> gp_stop ?p" "\<not> gp_stop_end ?p"
    "list_all (\<lambda>(i, stop). gi_blas_error i \<and> \<not> stop) (gp_inputs ?p)"
    "length (gp_inputs ?p) = length [sample_gst_worker\<lparr>sw_passed := True\<rparr>]"
    "length [(0 :: nat, 7 :: u16)] = length [sample_gst_worker\<lparr>sw_passed := True\<rparr>]"
    by (simp_all add: sample_gst_def sample_gst_broken_def)
  from gst_broken_blas_verdict [OF this, where gl = gpulist_empty and ub = "\<lambda>_. 0" and ps = "[]"]
  show "\<exists>evs. do_gpu_stress_test gpulist_empty (\<lambda>_. 0) (sample_gst m) [(0, 7)] [?p]
     [sample_gst_worker\<lparr>sw_passed := True\<rparr>] = Some (True, evs)" by simp
qed

end
