(* ===== verification/Tst_Props.thy ===== *)
theory Tst_Props
  imports Tst Gst_Props
begin

text \<open>
  What the thermal stress test decides and what becomes of it: the verdict of a worker, the result
  of the action, the load of the second pass.
\<close>

section \<open>The verdict of a worker\<close>

definition temp_over :: "u64 \<Rightarrow> int \<Rightarrow> temp_round \<Rightarrow> bool" where
  "temp_over dur start_t x \<longleftrightarrow> dur < time_diff_ms (pr_now x) start_t"

definition temp_quiet :: "temp_round \<Rightarrow> bool" where
  "temp_quiet x \<longleftrightarrow> \<not> pr_stopping x \<and> \<not> pr_stop_after x"

text \<open>A junction temperature that was read, is positive and reaches the bound.\<close>

definition hot :: "fval \<Rightarrow> temp_round \<Rightarrow> bool" where
  "hot T x \<longleftrightarrow> (case pr_junction x of None \<Rightarrow> False
                | Some n \<Rightarrow> 0 < float32 (of_int n) \<and> f_le T (Fin (float32 (of_int n))))"

definition temps_known :: "temp_vars \<Rightarrow> bool" where
  "temps_known v \<longleftrightarrow> (\<exists>c m. cur_junction v = Fin c \<and> max_junction v = Fin m \<and> (0 < c \<longrightarrow> c \<le> m))"

lemma f_le_Fin: "f_le T (Fin (max a b)) \<longleftrightarrow> f_le T (Fin a) \<or> f_le T (Fin b)"
  by (cases T) (auto simp: f_le_def)

lemma temp_sample_known:
  assumes "temps_known v"
  shows "temps_known (temp_sample x v) \<and>
    (f_le T (max_junction (temp_sample x v)) \<longleftrightarrow> f_le T (max_junction v) \<or> hot T x)"
proof -
  obtain c m where v: "cur_junction v = Fin c" "max_junction v = Fin m" "0 < c \<longrightarrow> c \<le> m"
    using assms by (auto simp: temps_known_def)
  show ?thesis
  proof (cases "pr_junction x")
    case None
    with v show ?thesis
      by (auto simp: temps_known_def temp_sample_def read_temp_def hot_def f_max_def Let_def)
  next
    case (Some n)
    let ?j = "float32 (of_int n)"
    have j: "cur_junction (temp_sample x v) = Fin ?j"
      "max_junction (temp_sample x v) = Fin (if 0 < ?j then max m ?j else m)"
      using v Some by (auto simp: temp_sample_def read_temp_def f_max_def Let_def max_def)
    then show ?thesis
      using v Some f_le_Fin [of T m ?j] by (auto simp: temps_known_def hot_def)
  qed
qed

lemma temp_loop_max:
  assumes "temps_known v" and "list_ex (temp_over (tw_run_duration_ms w) s) xs"
    and "list_all temp_quiet (through (temp_over (tw_run_duration_ms w) s) xs)"
  shows "\<exists>v' evs'. temp_loop w xs s v evs = Some (False, v', evs') \<and>
    (f_le T (max_junction v') \<longleftrightarrow>
       f_le T (max_junction v) \<or> list_ex (hot T) (through (temp_over (tw_run_duration_ms w) s) xs))"
  using assms
proof (induction xs arbitrary: v evs)
  case Nil
  then show ?case by simp
next
  case (Cons x xs)
  note k = temp_sample_known [OF Cons.prems(1), of x]
  have q: "\<not> pr_stopping x" "temp_over (tw_run_duration_ms w) s x \<or> \<not> pr_stop_after x"
    using Cons.prems(3) by (auto simp: temp_quiet_def)
  show ?case
  proof (cases "temp_over (tw_run_duration_ms w) s x")
    case True
    with q k show ?thesis by (auto simp: Let_def temp_over_def)
  next
    case False
    with Cons.prems have rest: "list_ex (temp_over (tw_run_duration_ms w) s) xs"
      "list_all temp_quiet (through (temp_over (tw_run_duration_ms w) s) xs)" by auto
    from Cons.IH [of "temp_sample x v", OF _ rest] k False q show ?thesis
      by (auto simp: Let_def temp_over_def)
  qed
qed

text \<open>
  C36: A test that no stop interrupts is positive exactly when some junction temperature read in its
  rounds reaches the target (or the target is not positive).
\<close>

theorem tst_verdict_iff_hot:
  assumes "do_thermal_stress i w = Some (pass, w')"
    and "list_ex (temp_over (tw_run_duration_ms w) (ti_start i)) (ti_temps i)"
    and "rounds = through (temp_over (tw_run_duration_ms w) (ti_start i)) (ti_temps i)"
    and "list_all temp_quiet rounds"
  shows "pass \<longleftrightarrow> f_le (target_temp w) (Fin 0) \<or> list_ex (hot (target_temp w)) rounds"
proof -
  let ?v = "\<lparr>cur_edge = Fin 0, max_edge = Fin 0, cur_junction = Fin 0, max_junction = Fin 0\<rparr>"
  have "temps_known ?v" by (simp add: temps_known_def)
  from temp_loop_max [OF this assms(2) assms(4) [unfolded assms(3)], where T = "target_temp w" and evs = "[]"]
  obtain v' evs' where "temp_loop w (ti_temps i) (ti_start i) ?v [] = Some (False, v', evs')"
    "f_le (target_temp w) (max_junction v') \<longleftrightarrow> f_le (target_temp w) (Fin 0) \<or> list_ex (hot (target_temp w)) rounds"
    by (auto simp: assms(3))
  with assms(1) show ?thesis
    by (auto simp: do_thermal_stress_def temp_verdict_def Let_def split: option.splits)
qed

section \<open>The action\<close>

lemma tst_workers_loop_quiet:
  assumes "tst_workers_loop parallel is ws finished evs = Some (stopped, ws', evs')"
    and "list_all (\<lambda>(i, stop). \<not> stop) is"
  shows "\<not> stopped"
  using assms
proof (induction ws arbitrary: "is" finished evs)
  case Nil
  then show ?case by simp
next
  case (Cons w ws)
  then show ?case
    by (cases "is") (auto split: option.splits if_splits)
qed

lemma tst_passes_quiet:
  assumes "tst_passes gl smi hip m devs ps k idxs ws evs = Some (ok, evs')"
    and "list_all (\<lambda>p. \<not> tp_stop p \<and> list_all (\<lambda>(i, stop). \<not> stop) (tp_inputs p)) ps"
  shows ok
  using assms
proof (induction ps arbitrary: k idxs ws evs)
  case Nil
  then show ?case by simp
next
  case (Cons p ps)
  have "tst_workers_loop par (tp_inputs p) us [] es \<noteq> Some (True, ws', es')" for par us es ws' es'
    using tst_workers_loop_quiet [of par "tp_inputs p" us "[]" es True ws' es'] Cons.prems(2) by auto
  with Cons show ?case
    by (auto simp: Let_def split: option.splits bool.splits if_splits)
qed

text \<open>
  The action takes no notice of the verdicts of its workers: whatever the temperatures are, a test
  that no stop interrupts is reported as a success.
\<close>

theorem tst_action_ignores_temperature:
  assumes "do_thermal_test gl smi hip m devs ps raw = Some (ok, evs)"
    and "list_all (\<lambda>p. \<not> tp_stop p \<and> list_all (\<lambda>(i, stop). \<not> stop) (tp_inputs p)) ps"
  shows ok
  using assms unfolding do_thermal_test_def by (rule tst_passes_quiet)

section \<open>The second pass\<close>

lemma blasThread_ended: "endtest w \<Longrightarrow> blasThread w xs s = Some load \<Longrightarrow> load = []"
  by (cases xs) (auto simp: blasThread_def)

lemma temp_loop_no_gemm:
  "temp_loop w xs s v evs = Some (stopped, v', evs') \<Longrightarrow> Tst_gemm \<in> set evs' \<Longrightarrow> Tst_gemm \<in> set evs"
proof (induction xs arbitrary: v evs)
  case Nil
  then show ?case by simp
next
  case (Cons x xs)
  have "Tst_gemm \<notin> set (temp_lines w v ms)" for v ms by (simp add: temp_lines_def Let_def)
  with Cons show ?case by (fastforce simp: Let_def split: if_splits)
qed

text \<open>
  The flag that ends the load is set at the end of a run and never reset, so a worker that runs
  again (a count above 1) starts no multiplication: the GPU is only loaded in the first pass.
\<close>

theorem tst_second_pass_idle:
  assumes "tst_worker_run i w = Some w1"
    and "tst_worker_run j ((tst_configure gl m h d w1)\<lparr>tw_events := []\<rparr>) = Some w2"
  shows "endtest w1 \<and> Tst_gemm \<notin> set (tw_events w2)"
proof -
  have end1: "endtest w1"
    using assms(1) by (auto simp: tst_worker_run_def do_thermal_stress_def Let_def tw_emit_def split: option.splits if_splits prod.splits)
  let ?w = "(tst_configure gl m h d w1)\<lparr>tw_events := []\<rparr>"
  have e: "endtest ?w" using end1 by (simp add: tst_configure_def Let_def)
  define u where "u = (let w = tw_emit (Tst_log (tst_name ?w @ to_string (unat (tw_gpu_id ?w)) @ '' start '' @
      f_text (throttle_temp ?w)) loginfo) ?w
    in if tw_run_duration_ms w < 1000 then w\<lparr>tw_run_duration_ms := tw_run_duration_ms w + 1000\<rparr> else w)"
  have u: "endtest u" "Tst_gemm \<notin> set (tw_events u)"
    using e by (auto simp: u_def Let_def tw_emit_def)
  have "Tst_gemm \<notin> set (tw_events w3)" if run: "do_thermal_stress j u = Some (pass, w3)" for pass w3
  proof -
    have verdict: "Tst_gemm \<notin> set es" if "temp_verdict u v = (r, es)" for v r es
      using that by (auto simp: temp_verdict_def Let_def)
    obtain load stopped v evs where steps: "blasThread u (ti_load j) (ti_load_start j) = Some load"
      "temp_loop u (ti_temps j) (ti_start j)
         \<lparr>cur_edge = Fin 0, max_edge = Fin 0, cur_junction = Fin 0, max_junction = Fin 0\<rparr> [] = Some (stopped, v, evs)"
      using run by (auto simp: do_thermal_stress_def Let_def split: option.splits)
    have "load = []" "Tst_gemm \<notin> set evs"
      using blasThread_ended [OF u(1) steps(1)] temp_loop_no_gemm [OF steps(2)] by auto
    with run u steps verdict show ?thesis
      by (cases "temp_verdict u v") (auto simp: do_thermal_stress_def Let_def split: if_splits)
  qed
  moreover have "\<exists>pass w3. do_thermal_stress j u = Some (pass, w3) \<and>
      (w2 = w3 \<or> (\<exists>t. w2 = tw_emit (Tst_sleep 5) (tw_emit (Tst_log t logresults) w3)))"
    using assms(2) by (auto simp: tst_worker_run_def u_def Let_def split: option.splits if_splits)
  ultimately show ?thesis using end1 by (auto simp: tw_emit_def)
qed

section \<open>An instance\<close>

definition sample_tst_worker :: "fval \<Rightarrow> tst_worker" where
  "sample_tst_worker T = \<lparr>tw_action_name = ''a'', tw_gpu_id = 7, tw_gpu_index = 0, tw_run_duration_ms = 1000,
     target_temp = T, throttle_temp = Fin 100, tw_ops_type = ''sgemm'',
     tw_size = \<lparr>bs_m = 8, bs_n = 8, bs_k = 8, bs_gemm_mode = [], bs_batch_size = 0\<rparr>, tw_bjson = False,
     tw_handle = True, endtest = False, tw_events = []\<rparr>"

definition sample_temp_round :: temp_round where
  "sample_temp_round = \<lparr>pr_stopping = False, pr_edge = None, pr_junction = Some 70, pr_now = 2000000000,
     pr_stop_after = False\<rparr>"

definition sample_tst_input :: tst_input where
  "sample_tst_input = \<lparr>ti_load = [\<lparr>br_end_top = False, br_status = True, br_now = 2000000000, br_end_bottom = True\<rparr>],
     ti_load_start = 0, ti_start = 0, ti_temps = [sample_temp_round], ti_stop_end = False\<rparr>"

lemma sample_tst_over: "temp_over (tw_run_duration_ms (sample_tst_worker T)) 0 sample_temp_round"
  by (simp add: temp_over_def time_diff_ms_def sample_temp_round_def sample_tst_worker_def trunc_int_def)

lemma sample_tst_runs:
  assumes "tw_run_duration_ms w = 1000"
  shows "\<exists>pass w'. do_thermal_stress sample_tst_input w = Some (pass, w')"
proof -
  have "\<exists>load. blasThread w (ti_load sample_tst_input) (ti_load_start sample_tst_input) = Some load"
    by (simp add: blasThread_def sample_tst_input_def Let_def)
  then obtain load where l: "blasThread w (ti_load sample_tst_input) (ti_load_start sample_tst_input) = Some load" ..
  have "1000 < time_diff_ms 2000000000 0" by (simp add: time_diff_ms_def trunc_int_def)
  then obtain v' evs' where t: "temp_loop w (ti_temps sample_tst_input) (ti_start sample_tst_input)
      \<lparr>cur_edge = Fin 0, max_edge = Fin 0, cur_junction = Fin 0, max_junction = Fin 0\<rparr> [] = Some (False, v', evs')"
    using assms by (simp add: sample_tst_input_def sample_temp_round_def Let_def)
  show ?thesis by (simp add: do_thermal_stress_def l t Let_def split: prod.split)
qed

lemma sample_tst_worker_runs:
  assumes "tw_run_duration_ms w = 1000"
  shows "\<exists>w'. tst_worker_run sample_tst_input w = Some w'"
proof -
  define u where "u = tw_emit (Tst_log (tst_name w @ to_string (unat (tw_gpu_id w)) @ '' start '' @ f_text (throttle_temp w)) loginfo) w"
  have "tw_run_duration_ms u = 1000" using assms by (simp add: u_def tw_emit_def)
  moreover from sample_tst_runs [OF this] obtain pass w' where "do_thermal_stress sample_tst_input u = Some (pass, w')" by blast
  moreover have "\<not> ti_stop_end sample_tst_input" by (simp add: sample_tst_input_def)
  ultimately show ?thesis unfolding tst_worker_run_def u_def [symmetric] Let_def by simp
qed

theorem tst_verdict_iff_hot_witness:
  "\<exists>w'. do_thermal_stress sample_tst_input (sample_tst_worker (Fin 90)) = Some (False, w')"
proof -
  let ?w = "sample_tst_worker (Fin 90)"
  have "tw_run_duration_ms ?w = 1000" by (simp add: sample_tst_worker_def)
  from sample_tst_runs [OF this] obtain pass w' where
    run: "do_thermal_stress sample_tst_input ?w = Some (pass, w')" by blast
  have over: "list_ex (temp_over (tw_run_duration_ms ?w) (ti_start sample_tst_input)) (ti_temps sample_tst_input)"
    using sample_tst_over [of "Fin 90"] by (simp add: sample_tst_input_def)
  have rounds: "[sample_temp_round] = through (temp_over (tw_run_duration_ms ?w) (ti_start sample_tst_input)) (ti_temps sample_tst_input)"
    by (simp add: sample_tst_input_def)
  have "list_all temp_quiet [sample_temp_round]" by (simp add: temp_quiet_def sample_temp_round_def)
  from tst_verdict_iff_hot [OF run over rounds this] have "\<not> pass"
    by (simp add: hot_def sample_temp_round_def sample_tst_worker_def f_le_def)
  with run show ?thesis by auto
qed

theorem tst_second_pass_idle_witness:
  "\<forall>m. \<exists>w1. tst_worker_run sample_tst_input (sample_tst_worker (Fin 90)) = Some w1 \<and> endtest w1 \<and>
     (\<exists>w2. tst_worker_run sample_tst_input ((tst_configure gpulist_empty
         (m\<lparr>ta_base := (ta_base m)\<lparr>property_duration := 1000\<rparr>\<rparr>) True (0, 7) w1)\<lparr>tw_events := []\<rparr>) = Some w2 \<and>
       Tst_gemm \<notin> set (tw_events w2))"
proof
  fix m :: "('a, 'b) tst_action"
  let ?m = "m\<lparr>ta_base := (ta_base m)\<lparr>property_duration := 1000\<rparr>\<rparr>"
  obtain w1 where w1: "tst_worker_run sample_tst_input (sample_tst_worker (Fin 90)) = Some w1"
    using sample_tst_worker_runs [of "sample_tst_worker (Fin 90)"] by (auto simp: sample_tst_worker_def)
  obtain w2 where w2: "tst_worker_run sample_tst_input ((tst_configure gpulist_empty ?m True (0, 7) w1)\<lparr>tw_events := []\<rparr>) = Some w2"
    using sample_tst_worker_runs [of "(tst_configure gpulist_empty ?m True (0, 7) w1)\<lparr>tw_events := []\<rparr>"]
    by (auto simp: tst_configure_def Let_def)
  from tst_second_pass_idle [OF w1 w2] w1 w2
  show "\<exists>w1. tst_worker_run sample_tst_input (sample_tst_worker (Fin 90)) = Some w1 \<and> endtest w1 \<and>
     (\<exists>w2. tst_worker_run sample_tst_input ((tst_configure gpulist_empty ?m True (0, 7) w1)\<lparr>tw_events := []\<rparr>) = Some w2 \<and>
       Tst_gemm \<notin> set (tw_events w2))" by blast
qed

theorem tst_action_ignores_temperature_witness:
  "\<forall>m. \<exists>evs. do_thermal_test gpulist_empty ([] :: (u64, unit) omap) []
     (m\<lparr>ta_base := (ta_base m)\<lparr>property_count := 1, property_duration := 1000\<rparr>, tst_target_temp := Fin 90\<rparr>) [(0, 7)]
     [\<lparr>tp_inputs = [(sample_tst_input, False)], tp_stop = False\<rparr>] [sample_tst_worker (Fin 90)] = Some (True, evs)"
proof
  fix m :: "('a, 'b) tst_action"
  let ?m = "m\<lparr>ta_base := (ta_base m)\<lparr>property_count := 1, property_duration := 1000\<rparr>, tst_target_temp := Fin 90\<rparr>"
  let ?ps = "[\<lparr>tp_inputs = [(sample_tst_input, False)], tp_stop = False\<rparr>]"
  let ?w = "(tst_configure gpulist_empty ?m False (0, 7) ((sample_tst_worker (Fin 90))\<lparr>endtest := False\<rparr>))\<lparr>tw_events := []\<rparr>"
  have "tw_run_duration_ms ?w = 1000" by (simp add: tst_configure_def Let_def)
  from sample_tst_worker_runs [OF this] obtain w' where "tst_worker_run sample_tst_input ?w = Some w'" ..
  then obtain ok evs where run: "do_thermal_test gpulist_empty ([] :: (u64, unit) omap) [] ?m [(0, 7)] ?ps
      [sample_tst_worker (Fin 90)] = Some (ok, evs)"
    by (auto simp: do_thermal_test_def Let_def)
  have "list_all (\<lambda>p. \<not> tp_stop p \<and> list_all (\<lambda>(i, stop). \<not> stop) (tp_inputs p)) ?ps" by simp
  from tst_action_ignores_temperature [OF run this] run
  show "\<exists>evs. do_thermal_test gpulist_empty ([] :: (u64, unit) omap) [] ?m [(0, 7)] ?ps
      [sample_tst_worker (Fin 90)] = Some (True, evs)" by auto
qed

end
