(* ===== verification/Iet_Props.thy ===== *)
theory Iet_Props
  imports Iet_Action Tst_Props
begin

text \<open>
  The input EDPp test: what its verdict depends on, what a failed load changes, and the second pass
  of an action with a count above 1.
\<close>

section \<open>The verdict of a worker\<close>







text \<open>
  The verdict is about the power alone: two runs with the same samples have the same verdict,
  whatever the loads did, also when the first multiplication or the set-up of the memory load
  failed and nothing ran on the GPU.
\<close>

theorem iet_verdict_ignores_loads:
  assumes "do_iet_power_stress i w = Some (pass, w1, evs)"
    and "do_iet_power_stress j w = Some (pass', w2, evs')"
    and "ii_powers i = ii_powers j" and "ii_start i = ii_start j"
  shows "pass = pass' \<and> w1 = w2"
  using assms by (auto simp: do_iet_power_stress_def Let_def split: option.splits prod.splits)

section \<open>The second pass\<close>

lemma iet_configure_loop_end:
  "iet_configure_loop gl m idxs mcm ds i (ws, evs) = Some (i', ws', evs') \<Longrightarrow>
     length ws' = length ws \<and> (ds \<noteq> [] \<longrightarrow> i < length ws)"
proof (induction ds arbitrary: i ws evs)
  case Nil
  then show ?case by simp
next
  case (Cons d ds)
  show ?case
    using Cons.prems
    by (auto simp: Let_def split: if_splits dest: Cons.IH)
qed

lemma iet_configure_past_end:
  "ds \<noteq> [] \<Longrightarrow> length ws \<le> i \<Longrightarrow> iet_configure_loop gl m idxs mcm ds i (ws, evs) = None"
  by (cases ds) (auto simp: Let_def)

lemma iet_workers_loop_length:
  "iet_workers_loop par is ws finished evs = Some (False, ws', evs') \<Longrightarrow> length ws' = length finished + length ws"
proof (induction ws arbitrary: "is" finished evs)
  case Nil
  then show ?case by simp
next
  case (Cons w ws)
  show ?case
  proof (cases "is")
    case Nil
    with Cons.prems show ?thesis by simp
  next
    case (Cons a as)
    then show ?thesis
      using Cons.prems by (cases a) (auto split: option.splits if_splits dest!: Cons.IH)
  qed
qed

lemma iet_passes_past_end:
  "devs \<noteq> [] \<Longrightarrow> length ws \<le> i \<Longrightarrow> iet_passes gl smi hip m devs mcm ps k i idxs ws evs = None"
  by (cases ps) (auto simp: Let_def iet_configure_past_end)

text \<open>
  C38: An action that has to run more than once never finishes properly: the index of the workers is
  not reset, so the second pass writes past the end of their vector.  The only ways out are a stop
  and a count of 1: however many passes the environment answers, there is no result.
\<close>

theorem iet_second_pass_out_of_bounds:
  assumes "devs \<noteq> []" and "property_count (ia_base m) \<noteq> 1"
    and "list_all (\<lambda>p. \<not> ip_stop p \<and> list_all (\<lambda>(i, stop). \<not> stop) (ip_inputs p)) ps"
  shows "do_edp_test gl smi hip m devs mcm ps raw = None"
proof (cases ps)
  case Nil
  then show ?thesis by (simp add: do_edp_test_def)
next
  case (Cons p qs)
  have quiet: "\<not> ip_stop p" "list_all (\<lambda>(i, stop). \<not> stop) (ip_inputs p)" using assms(3) Cons by auto
  have nostop: "iet_workers_loop par is ws fin evs \<noteq> Some (True, ws', evs')"
    if "list_all (\<lambda>(i, stop). \<not> stop) is" for par "is" ws fin evs ws' evs'
    using that
  proof (induction ws arbitrary: "is" fin evs)
    case Nil
    then show ?case by simp
  next
    case (Cons w ws)
    then show ?case by (cases "is") (auto split: option.splits)
  qed
  show ?thesis
    using Cons quiet assms(1,2) nostop [OF quiet(2)]
    by (auto simp: do_edp_test_def Let_def iet_passes_past_end split: option.splits bool.splits)
qed

section \<open>An instance\<close>

definition sample_iet_worker :: iet_worker where
  "sample_iet_worker = \<lparr>iw_action_name = ''a'', iw_gpu_id = 7, iw_gpu_index = 0, iw_run_duration_ms = 1000,
     iw_sample_interval = 1000, target_power = Fin 1, iw_tolerance = Fin 0, iw_matrix_size = 8, iw_matrix_size_a = 0,
     iw_matrix_size_b = 0, iw_matrix_size_c = 0, iw_ops_type = ''sgemm'', iw_bw_workload = False, iw_cp_workload = True,
     iw_hot_calls = 1, iw_wg_count = 80, iw_nt_loads = False, iw_mcm_type = SECONDARY, iw_bjson = False,
     iw_handle = True, iw_endtest = False, iw_passed = False\<rparr>"

definition sample_power_round :: power_round where
  "sample_power_round = \<lparr>wr_stopping = False, wr_power = None, wr_now = 2000000000, wr_stop_after = False\<rparr>"

definition sample_iet_input :: "bool \<Rightarrow> iet_input" where
  "sample_iet_input ok = \<lparr>ii_compute = [\<lparr>cr_end_top = False, cr_ran = ok, cr_completed = True, cr_now = 0, cr_end_bottom = True\<rparr>],
     ii_compute_start = 0,
     ii_bandwidth = \<lparr>bi_device = True, bi_stream = True, bi_buffers = True, bi_result_buffer = True, bi_created = True,
        bi_start = 0, bi_rounds = []\<rparr>,
     ii_start = 0, ii_powers = [sample_power_round], ii_stop_end = False\<rparr>"

lemma sample_iet_runs: "\<exists>pass w' evs. do_iet_power_stress (sample_iet_input ok) sample_iet_worker = Some (pass, w', evs)"
proof -
  have "\<exists>cs b. computeThread sample_iet_worker (ii_compute (sample_iet_input ok)) 0 = Some (cs, b)"
    by (auto simp: computeThread_def sample_iet_input_def sample_iet_worker_def Let_def)
  then obtain cs where l: "iet_loads (sample_iet_input ok) sample_iet_worker = Some cs"
    by (auto simp: iet_loads_def sample_iet_input_def sample_iet_worker_def)
  have "1000 < time_diff_ms 2000000000 0" by (simp add: time_diff_ms_def trunc_int_def)
  then obtain v evs where
    p: "power_loop sample_iet_worker (ii_powers (sample_iet_input ok)) (ii_start (sample_iet_input ok)) (Fin 0) [] = Some (False, v, evs)"
    by (simp add: sample_iet_input_def sample_power_round_def sample_iet_worker_def Let_def)
  show ?thesis by (simp add: do_iet_power_stress_def l p split: prod.split)
qed


theorem iet_verdict_ignores_loads_witness:
  "\<exists>pass w evs evs'. do_iet_power_stress (sample_iet_input True) sample_iet_worker = Some (pass, w, evs) \<and>
     do_iet_power_stress (sample_iet_input False) sample_iet_worker = Some (pass, w, evs')"
proof -
  obtain pass w evs where a: "do_iet_power_stress (sample_iet_input True) sample_iet_worker = Some (pass, w, evs)"
    using sample_iet_runs by blast
  obtain pass' w' evs' where b: "do_iet_power_stress (sample_iet_input False) sample_iet_worker = Some (pass', w', evs')"
    using sample_iet_runs by blast
  have "pass = pass' \<and> w = w'"
    by (rule iet_verdict_ignores_loads [OF a b]) (simp_all add: sample_iet_input_def)
  with a b show ?thesis by auto
qed

theorem iet_second_pass_out_of_bounds_witness:
  "\<forall>m. do_edp_test gpulist_empty ([] :: (u64, unit) omap) []
     (m\<lparr>ia_base := (ia_base m)\<lparr>property_count := 2\<rparr>\<rparr>) [(0, 7)] [SECONDARY]
     (replicate 2 \<lparr>ip_inputs = [(sample_iet_input True, False)], ip_stop = False\<rparr>) [sample_iet_worker] = None"
proof
  fix m :: "('a, 'b) iet_action"
  show "do_edp_test gpulist_empty ([] :: (u64, unit) omap) []
     (m\<lparr>ia_base := (ia_base m)\<lparr>property_count := 2\<rparr>\<rparr>) [(0, 7)] [SECONDARY]
     (replicate 2 \<lparr>ip_inputs = [(sample_iet_input True, False)], ip_stop = False\<rparr>) [sample_iet_worker] = None"
    by (rule iet_second_pass_out_of_bounds) (simp_all add: numeral_2_eq_2)
qed

end
