(* ===== verification/Perf.thy ===== *)
theory Perf
  imports Gpu_Select Tst
begin

text \<open>
  The performance test, \<^verbatim>\<open>perf.so/src/perf_worker.cpp\<close> and \<^verbatim>\<open>perf.so/src/action.cpp\<close>: a worker measures
  one batch of multiplications and compares the rate with the target.  The answers of the BLAS
  object, of the clock and of the stop flag are the input of a run.
\<close>

section \<open>The worker\<close>

datatype perf_event =
    Perf_log string int
  | Perf_result actionstate actionstatus string
  | Perf_json "(string \<times> string) list" int
  | Perf_gemm u64
  | Perf_sleep nat

record perf_worker =
  pw_action_name :: string
  pw_gpu_id :: u16
  pw_gpu_index :: u16
  pw_run_duration_ms :: u64
  pw_copy_matrix :: bool
  pw_target_stress :: fval
  pw_size :: blas_size
  pw_hot_calls :: u64
  pw_bjson :: bool

definition perf_name :: "perf_worker \<Rightarrow> string" where
  "perf_name w = ''['' @ pw_action_name w @ ''] perf '' @ to_string (unat (pw_gpu_id w)) @ '' ''"

definition perf_json :: "perf_worker \<Rightarrow> string \<Rightarrow> string \<Rightarrow> int \<Rightarrow> perf_event list" where
  "perf_json w key val level =
     (if pw_bjson w then
        [Perf_json [(''gpu_id'', to_string (unat (pw_gpu_id w))), (''gpu_index'', to_string (unat (pw_gpu_index w))), (key, val)] level]
      else [])"

definition perf_check_target :: "perf_worker \<Rightarrow> fval \<Rightarrow> perf_event list" where
  "perf_check_target w g =
     (let met = f_le (pw_target_stress w) g;
          msg = perf_name w @ ''Gflops '' @ f_text g @ '' Target stress : '' @ f_text (pw_target_stress w) @
                '' met :'' @ (if met then ''TRUE'' else ''FALSE'')
      in [Perf_log msg logresults, Perf_result ACTION_RUNNING (if met then ACTION_SUCCESS else ACTION_FAILED) msg] @
         perf_json w ''Gflops'' (f_text g) loginfo)"

definition perf_log_interval :: "perf_worker \<Rightarrow> fval \<Rightarrow> perf_event list" where
  "perf_log_interval w g =
     (let msg = perf_name w @ ''Gflops '' @ f_text g
      in [Perf_log msg logresults, Perf_result ACTION_RUNNING ACTION_SUCCESS msg] @ perf_json w ''Gflops'' (f_text g) loginfo)"

record perf_input =
  pi_blas_error :: bool
  pi_copied :: bool
  pi_us_start :: int
  pi_us_end :: int
  pi_stop :: bool

definition perf_setup_blas :: "perf_input \<Rightarrow> perf_worker \<Rightarrow> bool" where
  "perf_setup_blas i w \<longleftrightarrow> \<not> pi_blas_error i \<and> (pw_copy_matrix w \<or> pi_copied i)"

text \<open>The status of the multiplications is not looked at, and their end is not awaited.\<close>

definition perf_gflops :: "perf_input \<Rightarrow> perf_worker \<Rightarrow> fval" where
  "perf_gflops i w =
     (let timetaken = f_div (f_sub (Fin (get_time_us (pi_us_end i))) (Fin (get_time_us (pi_us_start i)))) (Fin (10 ^ 6))
      in f_div (f_mul (gemm_gflop_count (pw_size w)) (f_u64 (pw_hot_calls w))) timetaken)"

definition do_perf_stress_test :: "perf_input \<Rightarrow> perf_worker \<Rightarrow> fval \<times> perf_event list" where
  "do_perf_stress_test i w =
     (let g = perf_gflops i w in (g, Perf_gemm (pw_hot_calls w) # perf_log_interval w g))"

definition perf_worker_run :: "perf_input \<Rightarrow> perf_worker \<Rightarrow> perf_event list" where
  "perf_worker_run i w =
     (let evs = [Perf_log (perf_name w @ ''start  Starting the PERF stress test '') logtrace] @
            perf_json w ''start'' (f_text (pw_target_stress w)) loginfo @
            perf_json w ''copy matrix'' (if pw_copy_matrix w then ''true'' else ''false'') loginfo
      in if \<not> perf_setup_blas i w then evs
         else if 0 < pw_run_duration_ms w then
           (let (g, es) = do_perf_stress_test i w
            in if pi_stop i then evs @ es else evs @ es @ perf_log_interval w g @ perf_check_target w g)
         else evs @ perf_log_interval w (Fin 0) @ perf_check_target w (Fin 0))"

section \<open>Configuration\<close>

record ('cb, 'up) perf_action =
  pa_base :: "('cb, 'up) actionbase"
  perf_ops_type :: string
  perf_ramp_interval :: u64
  perf_max_violations :: u32
  perf_copy_matrix :: bool
  perf_target_stress :: fval
  perf_tolerance :: fval
  perf_alpha_val :: fval
  perf_beta_val :: fval
  perf_matrix_size_a :: u64
  perf_matrix_size_b :: u64
  perf_matrix_size_c :: u64
  perf_hot_calls :: u64
  perf_trans_a :: u32
  perf_trans_b :: u32
  perf_lda_offset :: u32
  perf_ldb_offset :: u32
  perf_ldc_offset :: u32
  perf_ldd_offset :: u32

definition perf_log_interval_key :: "('cb, 'up) perf_action \<Rightarrow> int \<times> ('cb, 'up) perf_action" where
  "perf_log_interval_key m =
     (case property_get_int_def (pa_base m) ''log_interval'' (property_log_interval (pa_base m)) 1000 of
        (e, v) \<Rightarrow> (e, m\<lparr>pa_base := (pa_base m)\<lparr>property_log_interval := v\<rparr>\<rparr>))"

definition perf_keys_strict :: "('cb, 'up) perf_action key_row list" where
  "perf_keys_strict =
     [(bad_key ''ramp_interval'', True, int_key pa_base ''ramp_interval'' 5000 perf_ramp_interval perf_ramp_interval_update),
      (bad_key ''log_interval'', True, perf_log_interval_key),
      (bad_key ''max_violations'', True, int_key pa_base ''max_violations'' 0 perf_max_violations perf_max_violations_update),
      (bad_key ''copy_matrix'', True, bool_key pa_base ''copy_matrix'' True perf_copy_matrix perf_copy_matrix_update),
      (bad_key ''tolerance'', True, float_key pa_base ''tolerance'' (1 / 10) perf_tolerance perf_tolerance_update),
      (bad_key ''ops_type'', True, string_key pa_base ''ops_type'' ''sgemm'' perf_ops_type perf_ops_type_update)]"

definition perf_keys_lenient :: "('cb, 'up) perf_action key_row list" where
  "perf_keys_lenient =
     [(bad_key ''hot_calls'', False, int_key pa_base ''hot_calls'' 0 perf_hot_calls perf_hot_calls_update),
      (bad_key ''matrix_size_a'', False, int_key pa_base ''matrix_size_a'' 5760 perf_matrix_size_a perf_matrix_size_a_update),
      (bad_key ''matrix_size_b'', False, int_key pa_base ''matrix_size_b'' 5760 perf_matrix_size_b perf_matrix_size_b_update),
      (bad_key ''matrix_size_c'', False, int_key pa_base ''matrix_size_c'' 5760 perf_matrix_size_c perf_matrix_size_c_update),
      (bad_key ''transa'', False, int_key pa_base ''transa'' 0 perf_trans_a perf_trans_a_update),
      (bad_key ''transb'', False, int_key pa_base ''transb'' 1 perf_trans_b perf_trans_b_update),
      (bad_key ''alpha'', False, float_key pa_base ''alpha'' 1 perf_alpha_val perf_alpha_val_update),
      (bad_key ''beta'', False, float_key pa_base ''beta'' 1 perf_beta_val perf_beta_val_update),
      (bad_key ''lda'', False, int_key pa_base ''lda'' 0 perf_lda_offset perf_lda_offset_update),
      (bad_key ''ldb'', False, int_key pa_base ''ldb'' 0 perf_ldb_offset perf_ldb_offset_update),
      (bad_key ''ldc'', False, int_key pa_base ''ldc'' 0 perf_ldc_offset perf_ldc_offset_update),
      (bad_key ''ldd'', False, int_key pa_base ''ldd'' 0 perf_ldd_offset perf_ldd_offset_update)]"

definition get_all_perf_config_keys ::
  "('cb, 'up) perf_action \<Rightarrow> (bool \<times> log_event list) \<times> ('cb, 'up) perf_action" where
  "get_all_perf_config_keys m =
     read_keys (perf_keys_strict @ perf_keys_lenient)
       (mandatory_float pa_base ''target_stress'' perf_target_stress perf_target_stress_update m)"

section \<open>The workers\<close>

definition perf_configure :: "gpulist \<Rightarrow> ('cb, 'up) perf_action \<Rightarrow> nat \<times> u16 \<Rightarrow> perf_worker" where
  "perf_configure gl m d =
     (let a = pa_base m in
      \<lparr>pw_action_name = action_name a, pw_gpu_id = snd d,
       pw_gpu_index = (case gpu2gpuindex gl (snd d) of Found v \<Rightarrow> v | _ \<Rightarrow> 0),
       pw_run_duration_ms = property_duration a, pw_copy_matrix = perf_copy_matrix m,
       pw_target_stress = perf_target_stress m,
       pw_size = \<lparr>bs_m = sint (ucast (perf_matrix_size_a m) :: u32), bs_n = sint (ucast (perf_matrix_size_b m) :: u32),
                  bs_k = sint (ucast (perf_matrix_size_c m) :: u32), bs_gemm_mode = [], bs_batch_size = 0\<rparr>,
       pw_hot_calls = perf_hot_calls m, pw_bjson = bjson a\<rparr>)"

fun perf_workers_loop ::
  "bool \<Rightarrow> (perf_input \<times> bool) list \<Rightarrow> perf_worker list \<Rightarrow> perf_event list \<Rightarrow> (bool \<times> perf_event list) option" where
  "perf_workers_loop parallel is [] evs = Some (False, evs)"
| "perf_workers_loop parallel [] (w # ws) evs = None"
| "perf_workers_loop parallel ((i, stop) # is) (w # ws) evs =
     (let evs = evs @ perf_worker_run i w
      in if \<not> parallel \<and> stop then Some (True, evs) else perf_workers_loop parallel is ws evs)"

record perf_pass =
  pq_inputs :: "(perf_input \<times> bool) list"
  pq_stop :: bool
  pq_stop_end :: bool

text \<open>A count of 0 repeats the test until a stop.\<close>

fun perf_passes ::
  "gpulist \<Rightarrow> ('cb, 'up) perf_action \<Rightarrow> (nat \<times> u16) list \<Rightarrow> perf_pass list \<Rightarrow> u64 \<Rightarrow> perf_event list
     \<Rightarrow> (bool \<times> perf_event list) option" where
  "perf_passes gl m devs [] k evs = None"
| "perf_passes gl m devs (p # ps) k evs =
     (let a = pa_base m;
          evs = (if property_wait a \<noteq> 0 then evs @ [Perf_sleep (unat (ucast (property_wait a) :: u32))] else evs)
      in case perf_workers_loop (property_parallel a) (pq_inputs p) (map (perf_configure gl m) devs) evs of
           None \<Rightarrow> None
         | Some (stopped, evs) \<Rightarrow>
             if stopped \<or> pq_stop p then Some (False, evs)
             else if property_count a \<noteq> 0 \<and> k + 1 = property_count a then Some (\<not> pq_stop_end p, evs)
             else perf_passes gl m devs ps (if property_count a \<noteq> 0 then k + 1 else k) evs)"

definition do_perf_gpu_test ::
  "gpulist \<Rightarrow> ('cb, 'up) perf_action \<Rightarrow> (nat \<times> u16) list \<Rightarrow> perf_pass list \<Rightarrow> (bool \<times> perf_event list) option" where
  "do_perf_gpu_test gl m devs ps = perf_passes gl m devs ps 0 []"

section \<open>The run\<close>

datatype perf_note = Perf_note log_event | Perf_event perf_event

definition perf_num_devices :: "hip_device list \<Rightarrow> ('cb, 'up) actionbase \<Rightarrow> int \<times> perf_note list" where
  "perf_num_devices hip a =
     (if hip = [] then
        (0, [Perf_note (Log_msg (action_name a @ '' perf No AMD compatible GPU found!'') logerror)] @
            (if bjson a then [Perf_event (Perf_json [(''ERROR'', ''No AMD compatible GPU found!'')] loginfo)] else []))
      else (int (length hip), []))"

definition perf_selected_gpus ::
  "gpulist \<Rightarrow> hip_device list \<Rightarrow> ('cb, 'up) perf_action \<Rightarrow> perf_pass list \<Rightarrow> (int \<times> perf_note list) option" where
  "perf_selected_gpus gl hip m ps =
     (case perf_num_devices hip (pa_base m) of
        (n, evs) \<Rightarrow>
          if n < 1 then Some (n, evs)
          else (case fetch_gpu_list gl (selection_of (pa_base m)) False hip [] [] of
                  None \<Rightarrow> None
                | Some (devs, _, found) \<Rightarrow>
                    if found then map_option (\<lambda>(ok, es). (if ok then 0 else -1, evs @ map Perf_event es)) (do_perf_gpu_test gl m devs ps)
                    else Some (-1, evs @ [Perf_note (Log_err ''No devices match criteria from the test configuration.'')])))"

definition perf_refused :: "string \<Rightarrow> int \<times> action_result_t" where
  "perf_refused msg = (-1, \<lparr>ar_state = ACTION_COMPLETED, ar_status = ACTION_FAILED, ar_output = msg\<rparr>)"

text \<open>The last statement returns \<^verbatim>\<open>true\<close>, which is the code 1.\<close>

definition perf_action_run ::
  "gpulist \<Rightarrow> hip_device list \<Rightarrow> ('cb, 'up) perf_action \<Rightarrow> perf_pass list
     \<Rightarrow> ((int \<times> action_result_t) \<times> perf_note list) option" where
  "perf_action_run gl hip m ps =
     (case get_all_common_config_keys (pa_base m) of
        None \<Rightarrow> None
      | Some ((False, evs), a) \<Rightarrow> Some (perf_refused ''Error in common configuration keys.'', map Perf_note evs)
      | Some ((True, evs), a) \<Rightarrow>
          (case get_all_perf_config_keys (m\<lparr>pa_base := a\<rparr>) of
             ((False, evs2), m) \<Rightarrow> Some (perf_refused ''Error in PERF configuration keys.'', map Perf_note (evs @ evs2))
           | ((True, evs2), m) \<Rightarrow>
               let a = pa_base m in
               if 0 < property_duration a \<and> property_duration a < perf_ramp_interval m then
                 Some (perf_refused ''Error in common configuration keys.'',
                   map Perf_note (evs @ evs2 @ [Log_err (key_quote @ ''duration'' @ key_quote @ '' cannot be less than '' @
                     key_quote @ ''ramp_interval'' @ key_quote)]))
               else
                 map_option (\<lambda>(res, es).
                   ((1, \<lparr>ar_state = ACTION_COMPLETED, ar_status = (if res = 0 then ACTION_SUCCESS else ACTION_FAILED),
                         ar_output = ''PERF Module action '' @ action_name a @ '' completed''\<rparr>),
                    map Perf_note (evs @ evs2) @ es))
                   (perf_selected_gpus gl hip m ps)))"

end
