(* ===== verification/Perf_Props.thy ===== *)
theory Perf_Props
  imports Perf Exec_Sample
begin

text \<open>
  The performance test: the verdict of a worker, what becomes of it in the action, and what the
  executor makes of the result of the action.
\<close>

section \<open>The verdict of a worker\<close>

definition reports_failure :: "perf_event list \<Rightarrow> bool" where
  "reports_failure evs \<longleftrightarrow> list_ex (\<lambda>e. case e of Perf_result st s msg \<Rightarrow> s = ACTION_FAILED | _ \<Rightarrow> False) evs"

lemma reports_failure_simps [simp]:
  "\<not> reports_failure []"
  "reports_failure (Perf_log t l # evs) \<longleftrightarrow> reports_failure evs"
  "reports_failure (Perf_gemm n # evs) \<longleftrightarrow> reports_failure evs"
  "reports_failure (Perf_result st s msg # evs) \<longleftrightarrow> s = ACTION_FAILED \<or> reports_failure evs"
  "reports_failure (evs @ evs') \<longleftrightarrow> reports_failure evs \<or> reports_failure evs'"
  "\<not> reports_failure (perf_json w k v l)"
  "\<not> reports_failure (perf_log_interval w g)"
  "reports_failure (perf_check_target w g) \<longleftrightarrow> \<not> f_le (pw_target_stress w) g"
  by (auto simp: reports_failure_def perf_json_def perf_log_interval_def perf_check_target_def Let_def)

text \<open>
  A worker that is not stopped reports a failure exactly when its BLAS object was set up and the
  measured rate (0 when there is no duration) misses the target; a set-up that fails is not
  reported at all.
\<close>

theorem perf_failure_reported_iff:
  assumes "\<not> pi_stop i \<or> pw_run_duration_ms w = 0"
  shows "reports_failure (perf_worker_run i w) \<longleftrightarrow>
    perf_setup_blas i w \<and> \<not> f_le (pw_target_stress w) (if pw_run_duration_ms w = 0 then Fin 0 else perf_gflops i w)"
  using assms by (auto simp: perf_worker_run_def do_perf_stress_test_def Let_def word_gt_0)

lemma gflop_count_finite: "\<exists>x. gemm_gflop_count b = Fin x"
  by (simp add: gemm_gflop_count_def Let_def)

text \<open>The default number of calls is 0: nothing is multiplied and the measured rate is 0.\<close>

theorem perf_default_calls_measure_zero:
  assumes "pw_hot_calls w = 0"
    and "f_div (f_sub (Fin (get_time_us (pi_us_end i))) (Fin (get_time_us (pi_us_start i)))) (Fin (10 ^ 6)) = Fin t" "t \<noteq> 0"
  shows "perf_gflops i w = Fin 0"
proof -
  obtain x where "gemm_gflop_count (pw_size w) = Fin x" using gflop_count_finite by blast
  then show ?thesis using assms by (simp add: perf_gflops_def f_u64_def f_nat_def float64_def Let_def)
qed

section \<open>The action\<close>

lemma perf_workers_loop_unstopped:
  assumes "perf_workers_loop parallel is ws evs = Some (halt, evs')" and "list_all (\<lambda>(i, stop). \<not> stop) is"
  shows "\<not> halt"
  using assms
proof (induction ws arbitrary: "is" evs)
  case Nil
  then show ?case by simp
next
  case (Cons w ws)
  then show ?case by (cases "is") (auto simp: Let_def)
qed

text \<open>The action takes no notice of the verdicts of its workers.\<close>

theorem perf_action_ignores_target:
  assumes "do_perf_gpu_test gl m devs ps = Some (ok, evs)"
    and "list_all (\<lambda>p. \<not> pq_stop p \<and> \<not> pq_stop_end p \<and> list_all (\<lambda>(i, stop). \<not> stop) (pq_inputs p)) ps"
  shows ok
proof -
  have "perf_passes gl m devs ps k es = Some (ok, evs) \<Longrightarrow> ok" for k es
    using assms(2)
  proof (induction ps arbitrary: k es)
    case Nil
    then show ?case by simp
  next
    case (Cons p ps)
    have "perf_workers_loop par (pq_inputs p) ws es \<noteq> Some (True, es')" for par ws es es'
      using perf_workers_loop_unstopped [of par "pq_inputs p" ws es True es'] Cons.prems(2) by auto
    with Cons show ?case by (auto simp: Let_def split: option.splits if_splits)
  qed
  then show ?thesis using assms(1) unfolding do_perf_gpu_test_def by blast
qed

lemma perf_code:
  assumes "perf_action_run gl hip m ps = Some ((code, r), ns)"
  shows "code \<noteq> 0 \<and> (ar_status r = ACTION_SUCCESS \<longrightarrow> code = 1)"
  using assms
  by (auto simp: perf_action_run_def perf_refused_def Let_def split: option.splits prod.splits bool.splits if_splits)

section \<open>The result in the executor\<close>

lemma run_action_code: "\<exists>st. fst (run_action lib act x) = fst (fst (so_run lib act st))"
proof -
  have "fst (fst (x_do (if1_run lib act) y)) = fst (fst (so_run lib act (s_world (x_sys y), s_log (x_sys y))))" for y
    by (simp add: x_do_def if1_run_def call_lib_def case_prod_beta)
  then show ?thesis by (auto simp: run_action_def case_prod_beta Let_def)
qed

lemma body_result:
  assumes "action_body env a n m pa act x = (Ret Next, y)"
  shows "\<exists>i st. action_details y = action_details x @ [i] \<and> ea_result i = (fst (fst (so_run (a_lib pa) act st)) = 0)"
proof -
  from assms obtain sts s where p: "do_yaml_properties env (a_lib pa) act m (ya_props a) x = (Ret sts, s)"
    and k: "(if sts \<noteq> 0 then (Ret (Leave sts), x_destroy env pa s)
        else let x = set_cli_options env (a_lib pa) act s;
              (sts, x) = run_action (a_lib pa) act x;
              info = \<lparr>ea_name = n, ea_module = map toupper m, ea_result = (sts = 0)\<rparr>;
              x = (if has_option (x_options env) ''-q'' then x_print (summary_row cr info) x else x);
              x = x_destroy env pa x;
              x = (if sts \<noteq> 0 then
                     (let x = notify_failed (''action '' @ squoted n @ '' failed with error !'') x
                      in if \<not> has_option (x_options env) ''-q''
                         then x\<lparr>x_sys := (x_sys x)\<lparr>s_log := snd (Err (Some ''Action failed to run successfully.'')
                                 (Some m) (Some n) (s_log (x_sys x)))\<rparr>\<rparr>
                         else x)
                   else x)
          in (Ret Next, x\<lparr>action_details := action_details x @ [info]\<rparr>)) = (Ret Next, y)"
    unfolding action_body_def and_then_eq Let_def by blast
  have s: "action_details s = action_details x"
    using details_properties [of env "a_lib pa" act m "ya_props a" x] p by simp
  let ?x = "set_cli_options env (a_lib pa) act s"
  have "\<exists>i. action_details y = action_details x @ [i] \<and> ea_result i = (fst (run_action (a_lib pa) act ?x) = 0)"
    using k s by (auto simp: Let_def case_prod_beta split: if_splits)
  moreover obtain st where "fst (run_action (a_lib pa) act ?x) = fst (fst (so_run (a_lib pa) act st))"
    using run_action_code [of "a_lib pa" act ?x] by blast
  ultimately show ?thesis by metis
qed

text \<open>
  C13: The executor takes every result but 0 for a failure, and the performance test never returns 0:
  whatever a library does whose run is that of the performance test, its action has the row of a
  failed action in the summary, also when it told the callback that it succeeded.
\<close>

theorem perf_action_always_failed_in_summary:
  assumes "\<forall>st. \<exists>gl hip m ps r ns.
      perf_action_run gl hip m ps = Some ((fst (fst (so_run (a_lib pa) act st)), r), ns)"
    and "action_body env a n module_text pa act x = (Ret Next, y)"
  shows "\<exists>i. action_details y = action_details x @ [i] \<and> \<not> ea_result i"
proof -
  obtain i st where i: "action_details y = action_details x @ [i]"
    "ea_result i = (fst (fst (so_run (a_lib pa) act st)) = 0)"
    using body_result [OF assms(2)] by blast
  moreover have "fst (fst (so_run (a_lib pa) act st)) \<noteq> 0"
    using assms(1) perf_code by blast
  ultimately show ?thesis by auto
qed

section \<open>Instances\<close>

lemma perf_run_without_gpus: "\<exists>code r ns. perf_action_run gl [] m [] = Some ((code, r), ns)"
proof -
  obtain ok evs a' where "get_all_common_config_keys (pa_base m) = Some ((ok, evs), a')"
    using get_all_common_config_keys_eq [of "pa_base m"] by blast
  moreover obtain ok2 evs2 m' where "get_all_perf_config_keys (m\<lparr>pa_base := a'\<rparr>) = ((ok2, evs2), m')"
    by (cases "get_all_perf_config_keys (m\<lparr>pa_base := a'\<rparr>)") auto
  ultimately show ?thesis
    by (auto simp: perf_action_run_def perf_refused_def perf_selected_gpus_def perf_num_devices_def Let_def split: bool.split)
qed

definition perf_lib :: "('cb, 'up) perf_action \<Rightarrow> (nat, nat, action_result_t) solib" where
  "perf_lib m = failing_lib\<lparr>so_run := (\<lambda>act st. case perf_action_run gpulist_empty [] m [] of
      Some ((code, r), ns) \<Rightarrow> ((code, [r]), st) | None \<Rightarrow> ((0, []), st))\<rparr>"

lemma perf_set_all: "fst (set_all env (perf_lib m) act kvs sts x) = sts"
  by (induction kvs arbitrary: sts x)
    (auto simp: set_prop_def x_do_def if1_property_set_def call_lib_def perf_lib_def failing_lib_def case_prod_beta Let_def)

lemma perf_properties:
  "fst (do_yaml_properties sample_x_env (perf_lib m) act ''gst'' (ya_props (Exec_Sample.sample_action n)) x) = Ret 0"
proof -
  have "parallel_valid (x_options sample_x_env)" by (simp add: parallel_valid_def)
  then show ?thesis
    unfolding properties_follow [OF \<open>parallel_valid (x_options sample_x_env)\<close>] sample_x_env_sel
    by (simp add: follow_def perf_set_all sample_plan case_prod_beta Let_def)
qed

theorem perf_action_always_failed_in_summary_witness:
  "\<forall>m pa. \<exists>y i. action_body sample_x_env (Exec_Sample.sample_action ''a'') ''a'' ''gst'' (pa\<lparr>a_lib := perf_lib m\<rparr>) 0 sample_loaded =
     (Ret Next, y) \<and> action_details y = action_details sample_loaded @ [i] \<and> \<not> ea_result i"
proof (intro allI)
  fix m :: "('a, 'b) perf_action" and pa :: "(nat, nat, action_result_t) action_t"
  let ?pa = "pa\<lparr>a_lib := perf_lib m\<rparr>"
  have lib: "a_lib ?pa = perf_lib m" by simp
  have "fst (action_body sample_x_env (Exec_Sample.sample_action ''a'') ''a'' ''gst'' ?pa 0 sample_loaded) = Ret Next"
    by (simp only: body_continues lib perf_properties)
  then obtain y where y: "action_body sample_x_env (Exec_Sample.sample_action ''a'') ''a'' ''gst'' ?pa 0 sample_loaded = (Ret Next, y)"
    by (metis prod.collapse)
  obtain code r ns where "perf_action_run gpulist_empty [] m [] = Some ((code, r), ns)"
    using perf_run_without_gpus by blast
  then have "\<forall>st. \<exists>gl hip (m :: ('a, 'b) perf_action) ps r ns.
      perf_action_run gl hip m ps = Some ((fst (fst (so_run (a_lib ?pa) 0 st)), r), ns)"
    unfolding lib by (auto simp: perf_lib_def intro!: exI)
  from perf_action_always_failed_in_summary [OF this y] y
  show "\<exists>y i. action_body sample_x_env (Exec_Sample.sample_action ''a'') ''a'' ''gst'' ?pa 0 sample_loaded = (Ret Next, y) \<and>
      action_details y = action_details sample_loaded @ [i] \<and> \<not> ea_result i" by blast
qed

end
