(* ===== verification/Pulse.thy ===== *)
theory Pulse
  imports Gpu_Select Tst
begin

text \<open>
  The worker of the power pulse test, \<^verbatim>\<open>pulse.so/src/pulse_worker.cpp\<close>: it alternates phases of load
  at the highest clocks with idle phases at the lowest ones and samples power and temperature.  The
  answers of the clocks and libraries are the rounds of the loops.  The barrier all workers of a
  parallel run share is the subject of \<open>Pulse_Sync\<close>; here its outcome is an answer.
\<close>

section \<open>The worker\<close>

datatype clk = Clk_sys | Clk_mem

datatype pulse_event =
    Pulse_log string int
  | Pulse_err string
  | Pulse_result actionstate actionstatus string
  | Pulse_json "(string \<times> string) list" int
  | Pulse_clk clk u64
  | Pulse_gemm bool bool  \<comment> \<open>a call of the BLAS object: whether it ran, and whether it completed\<close>
  | Pulse_temp fval  \<comment> \<open>a temperature that was read\<close>
  | Pulse_sleep_ms nat
  | Pulse_sleep nat
  | Pulse_json_open string
  | Pulse_json_close

record pulse_worker =
  uw_action_name :: string
  uw_gpu_id :: u16
  uw_gpu_index :: u16
  uw_run_duration_ms :: u64
  uw_sample_interval :: u64
  uw_log_interval :: u64
  uw_pulse_rate :: u32
  uw_high_phase_ratio :: fval
  uw_tolerance :: fval
  uw_max_temp_c :: fval
  uw_matrix_size :: u64
  uw_ops_type :: string
  uw_data_type :: string
  uw_workload_iterations :: u32
  uw_halt_on_error :: bool
  uw_verify_mode :: string
  uw_mcm_type :: mcm_type_t
  uw_sync :: bool  \<comment> \<open>the barrier is set: a parallel run with more than one GPU\<close>
  uw_bjson :: bool
  uw_handle :: bool
  valid_gfx_levels :: "nat list"
  valid_mem_levels :: "nat list"
  uw_passed :: bool

definition pulse_name :: "pulse_worker \<Rightarrow> string" where
  "pulse_name w = ''['' @ uw_action_name w @ ''] pulse '' @ to_string (unat (uw_gpu_id w))"

definition pulse_head :: "pulse_worker \<Rightarrow> string" where
  "pulse_head w = (let t = to_string (unat (uw_gpu_id w))
     in ''['' @ uw_action_name w @ ''] [GPU:: '' @ replicate (5 - length t) (CHR '' '') @ t @ ''] '')"

definition pulse_json :: "pulse_worker \<Rightarrow> (string \<times> string) list \<Rightarrow> pulse_event list" where
  "pulse_json w kvs =
     (if uw_bjson w
      then [Pulse_json ([(''gpu_id'', to_string (unat (uw_gpu_id w))), (''gpu_index'', to_string (unat (uw_gpu_index w)))] @ kvs) logresults]
      else [])"

section \<open>Which checks are made\<close>

definition pulse_mode_normalize :: "string \<Rightarrow> string" where
  "pulse_mode_normalize s = map lower_char (filter (\<lambda>c. \<not> isspace c) s)"

text \<open>The pair is \<^verbatim>\<open>self_check\<close> and \<^verbatim>\<open>accu_check\<close>.\<close>

definition pulse_verify_flags :: "string \<Rightarrow> string \<Rightarrow> string \<Rightarrow> bool \<times> bool" where
  "pulse_verify_flags mode ops dtype =
     (let m = pulse_mode_normalize mode
      in if m = [] \<or> m = ''none'' \<or> m = ''off'' \<or> m = ''false'' then (False, False)
         else if m = ''crc'' then (True, False)
         else if m = ''diff'' then (if ops = ''sgemm'' \<or> ops = ''dgemm'' then (False, True) else (True, False))
         else if m = ''both'' \<or> m = ''full'' then (True, ops = ''sgemm'' \<or> ops = ''dgemm'')
         else (False, False))"

section \<open>Readings\<close>

definition read_power :: "u64 option \<Rightarrow> fval" where
  "read_power p = (case p of Some n \<Rightarrow> Fin (float32 (of_nat (unat n))) | None \<Rightarrow> Fin (-1))"

definition amdsmi_temperature_to_celsius :: "int \<Rightarrow> fval" where
  "amdsmi_temperature_to_celsius raw =
     (if 1000 < \<bar>raw\<bar> then to_single (f_div (Fin (float32 (of_int raw))) (Fin 1000)) else Fin (float32 (of_int raw)))"

text \<open>The junction is asked first, then the edge.\<close>

definition read_temperature :: "int option \<Rightarrow> int option \<Rightarrow> fval" where
  "read_temperature junction edge =
     (case junction of
        Some t \<Rightarrow> amdsmi_temperature_to_celsius t
      | None \<Rightarrow> (case edge of Some t \<Rightarrow> amdsmi_temperature_to_celsius t | None \<Rightarrow> Fin (-1)))"

section \<open>Clocks\<close>

definition level_mask :: "nat list \<Rightarrow> u64" where
  "level_mask ls = fold (\<lambda>l m. m OR push_bit l 1) ls 0"

text \<open>A probe: the number of levels the library names, and whether it sets each of them.\<close>

fun probe_levels :: "clk \<Rightarrow> nat \<Rightarrow> bool list \<Rightarrow> nat list \<times> pulse_event list" where
  "probe_levels c l [] = ([], [])"
| "probe_levels c l (ok # oks) =
     (if ok then (case probe_levels c (Suc l) oks of (ls, evs) \<Rightarrow> (l # ls, Pulse_clk c (push_bit l 1) # Pulse_sleep_ms 20 # evs))
      else ([], [Pulse_clk c (push_bit l 1)]))"

definition probe_clock :: "clk \<Rightarrow> bool list option \<Rightarrow> nat list \<Rightarrow> nat list \<times> pulse_event list" where
  "probe_clock c oks levels =
     (case oks of
        None \<Rightarrow> (levels, [])
      | Some oks \<Rightarrow>
          (case probe_levels c 0 oks of
             (ls, evs) \<Rightarrow>
               let levels = levels @ ls
               in (levels, evs @ (if levels = [] then [] else [Pulse_clk c (level_mask levels)]))))"

definition discover_valid_clock_levels ::
  "bool list option \<Rightarrow> bool list option \<Rightarrow> pulse_worker \<Rightarrow> bool \<times> pulse_worker \<times> pulse_event list" where
  "discover_valid_clock_levels sys mem w =
     (let (gfx, evs) = probe_clock Clk_sys sys (valid_gfx_levels w);
          (mm, evs') = probe_clock Clk_mem mem (valid_mem_levels w)
      in (gfx \<noteq> [], w\<lparr>valid_gfx_levels := gfx, valid_mem_levels := mm\<rparr>,
          evs @ evs' @ [Pulse_log (pulse_name w @ '' discovered '' @ to_string (length gfx) @ '' GFX levels, '' @
            to_string (length mm) @ '' MEM levels'') loginfo]))"

text \<open>The frequencies the library answers, and whether it sets the chosen level.\<close>

type_synonym clk_answer = "(nat \<Rightarrow> u64) option \<times> bool"

definition pick_level :: "(u64 \<Rightarrow> u64 \<Rightarrow> bool) \<Rightarrow> (nat \<Rightarrow> u64) \<Rightarrow> nat list \<Rightarrow> nat" where
  "pick_level better freq ls = fold (\<lambda>l best. if better (freq l) (freq best) then l else best) ls (hd ls)"

definition pin_clock :: "(u64 \<Rightarrow> u64 \<Rightarrow> bool) \<Rightarrow> clk \<Rightarrow> clk_answer \<Rightarrow> nat list \<Rightarrow> bool \<times> pulse_event list" where
  "pin_clock better c a ls =
     (if ls = [] then (True, [])
      else (case fst a of None \<Rightarrow> (True, []) | Some freq \<Rightarrow> (snd a, [Pulse_clk c (push_bit (pick_level better freq ls) 1)])))"

definition set_highest_clocks :: "clk_answer \<Rightarrow> clk_answer \<Rightarrow> pulse_worker \<Rightarrow> bool \<times> pulse_event list" where
  "set_highest_clocks sys mem w =
     (let (a, es) = pin_clock (\<lambda>x y. y < x) Clk_sys sys (valid_gfx_levels w);
          (b, es') = pin_clock (\<lambda>x y. y < x) Clk_mem mem (valid_mem_levels w) in (a \<and> b, es @ es'))"

definition set_lowest_clocks :: "clk_answer \<Rightarrow> clk_answer \<Rightarrow> pulse_worker \<Rightarrow> bool \<times> pulse_event list" where
  "set_lowest_clocks sys mem w =
     (let (a, es) = pin_clock (\<lambda>x y. x < y) Clk_sys sys (valid_gfx_levels w);
          (b, es') = pin_clock (\<lambda>x y. x < y) Clk_mem mem (valid_mem_levels w) in (a \<and> b, es @ es'))"

definition restore_clocks :: "pulse_worker \<Rightarrow> pulse_event list" where
  "restore_clocks w =
     (if valid_gfx_levels w = [] then [] else [Pulse_clk Clk_sys (level_mask (valid_gfx_levels w))]) @
     (if valid_mem_levels w = [] then [] else [Pulse_clk Clk_mem (level_mask (valid_mem_levels w))])"

section \<open>The phases\<close>

text \<open>A difference of clock readings (in ns) as a double in milliseconds.\<close>

definition ms_between :: "int \<Rightarrow> int \<Rightarrow> fval" where
  "ms_between t s = f_div (Fin (float64 (of_int (t - s)))) (Fin (10 ^ 6))"

definition f_min :: "fval \<Rightarrow> fval \<Rightarrow> fval" where
  "f_min a b = (if f_less b a then b else a)"

definition period_ms :: "pulse_worker \<Rightarrow> fval" where
  "period_ms w = f_div (Fin 1000) (Fin (of_int (sint (uw_pulse_rate w))))"

definition high_phase_ms :: "pulse_worker \<Rightarrow> fval" where
  "high_phase_ms w = f_max (f_mul (period_ms w) (uw_high_phase_ratio w)) (Fin 10)"

definition low_phase_ms :: "pulse_worker \<Rightarrow> fval" where
  "low_phase_ms w = f_max (f_mul (period_ms w) (f_sub (Fin 1) (uw_high_phase_ratio w))) (Fin 10)"

definition smpl_ms :: "pulse_worker \<Rightarrow> u64" where
  "smpl_ms w = max 1 (uw_sample_interval w)"

text \<open>The local variables of the test.  The last four start anew with each pulse.\<close>

record pulse_vars =
  test_passed :: bool
  max_power_high :: fval
  min_power_low :: fval
  total_power_high :: fval
  total_power_low :: fval
  high_samples :: nat
  low_samples :: nat
  pulse_count :: nat
  last_log_time :: int
  pulse_events :: "pulse_event list"
  pulse_peak_high :: fval
  pulse_trough_low :: fval
  pulse_temp :: fval
  pulse_gemm_count :: nat

definition uv_emit :: "pulse_event list \<Rightarrow> pulse_vars \<Rightarrow> pulse_vars" where
  "uv_emit es v = v\<lparr>pulse_events := pulse_events v @ es\<rparr>"

text \<open>
  The multiplications of one turn: the stop flag, the two statuses of the BLAS object, the clock.
  The first result tells that an error ends the test (\<^verbatim>\<open>goto done\<close>).
\<close>

record gemm_round =
  gr_stop :: bool
  gr_ran :: bool
  gr_completed :: bool
  gr_now :: int

fun gemm_loop ::
  "pulse_worker \<Rightarrow> int \<Rightarrow> nat \<Rightarrow> gemm_round list \<Rightarrow> pulse_vars \<Rightarrow> (bool \<times> pulse_vars) option" where
  "gemm_loop w phase_start 0 xs v = Some (False, v)"
| "gemm_loop w phase_start (Suc n) [] v = None"
| "gemm_loop w phase_start (Suc n) (x # xs) v =
     (if gr_stop x then Some (False, v)
      else
        (let v = uv_emit [Pulse_gemm (gr_ran x) (gr_completed x)] v in
         if \<not> gr_ran x \<or> \<not> gr_completed x then Some (uw_halt_on_error w, v\<lparr>test_passed := False\<rparr>)
         else
           (let v = v\<lparr>pulse_gemm_count := pulse_gemm_count v + 1\<rparr>
            in if f_le (high_phase_ms w) (ms_between (gr_now x) phase_start) then Some (False, v)
               else gemm_loop w phase_start n xs v)))"

record high_round =
  hr_top :: int
  hr_gemms :: "gemm_round list"
  hr_now :: int
  hr_power :: "u64 option"
  hr_junction :: "int option"
  hr_edge :: "int option"

definition sample_high :: "pulse_worker \<Rightarrow> high_round \<Rightarrow> pulse_vars \<Rightarrow> bool \<times> pulse_vars" where
  "sample_high w x v =
     (let p = read_power (hr_power x);
          v = (if f_less (Fin 0) p then
                 v\<lparr>total_power_high := to_single (f_add (total_power_high v) p), high_samples := high_samples v + 1,
                   max_power_high := (if f_less (max_power_high v) p then p else max_power_high v),
                   pulse_peak_high := (if f_less (pulse_peak_high v) p then p else pulse_peak_high v)\<rparr>
               else v);
          t = read_temperature (hr_junction x) (hr_edge x);
          v = uv_emit [Pulse_temp t] v;
          v = (if f_less (Fin 0) t then v\<lparr>pulse_temp := t\<rparr> else v)
      in if f_less (Fin 0) (uw_max_temp_c w) \<and> f_less (uw_max_temp_c w) t then
           (uw_halt_on_error w,
            (uv_emit [Pulse_log (pulse_name w @ '' thermal violation: '' @ f_text t @ ''C (limit '' @
               f_text (uw_max_temp_c w) @ ''C)'') logerror] v)\<lparr>test_passed := False\<rparr>)
         else (False, v))"

fun high_loop ::
  "pulse_worker \<Rightarrow> high_round list \<Rightarrow> int \<Rightarrow> int \<Rightarrow> pulse_vars \<Rightarrow> (bool \<times> pulse_vars) option" where
  "high_loop w [] phase_start last_sample v = None"
| "high_loop w (x # xs) phase_start last_sample v =
     (if f_le (high_phase_ms w) (ms_between (hr_top x) phase_start) then Some (False, v)
      else
        (case gemm_loop w phase_start (nat (sint (uw_workload_iterations w))) (hr_gemms x) v of
           None \<Rightarrow> None
         | Some (True, v) \<Rightarrow> Some (True, v)
         | Some (False, v) \<Rightarrow>
             if smpl_ms w \<le> time_diff_ms (hr_now x) last_sample then
               (case sample_high w x v of
                  (True, v) \<Rightarrow> Some (True, v)
                | (False, v) \<Rightarrow> high_loop w xs phase_start (hr_now x) v)
             else high_loop w xs phase_start last_sample v))"

record low_round =
  lr_top :: int
  lr_now :: int
  lr_power :: "u64 option"

text \<open>The double is cast to a 32-bit unsigned integer; a value that does not fit keeps its low half.\<close>

definition sleep_chunk :: "fval \<Rightarrow> nat" where
  "sleep_chunk v =
     (let chunk = (case v of Fin x \<Rightarrow> word_of_int (trunc_int x) | _ \<Rightarrow> 0) :: u32
      in if chunk < 1 then 1 else unat chunk)"

definition sample_low :: "low_round \<Rightarrow> pulse_vars \<Rightarrow> pulse_vars" where
  "sample_low x v =
     (let p = read_power (lr_power x)
      in if f_less (Fin 0) p then
           v\<lparr>total_power_low := to_single (f_add (total_power_low v) p), low_samples := low_samples v + 1,
             min_power_low := (if f_less p (min_power_low v) then p else min_power_low v),
             pulse_trough_low := (if f_less p (pulse_trough_low v) then p else pulse_trough_low v)\<rparr>
         else v)"

fun low_loop :: "pulse_worker \<Rightarrow> low_round list \<Rightarrow> int \<Rightarrow> int \<Rightarrow> pulse_vars \<Rightarrow> pulse_vars option" where
  "low_loop w [] phase_start last_sample v = None"
| "low_loop w (x # xs) phase_start last_sample v =
     (let elapsed = ms_between (lr_top x) phase_start in
      if f_le (low_phase_ms w) elapsed then Some v
      else
        (let v = uv_emit [Pulse_sleep_ms (sleep_chunk (f_min (f_sub (low_phase_ms w) elapsed) (f_u64 (smpl_ms w))))] v
         in if smpl_ms w \<le> time_diff_ms (lr_now x) last_sample
            then low_loop w xs phase_start (lr_now x) (sample_low x v)
            else low_loop w xs phase_start last_sample v))"

section \<open>The pulses\<close>

text \<open>
  A round: the stop flag and the clock, what the barrier answers (another worker is done; the
  synchronisation on the GPU succeeded), and the two phases with their clock settings.
\<close>

record pulse_round =
  pl_stop_top :: bool
  pl_now :: int
  pl_done :: bool
  pl_synced :: bool
  pl_high_clk :: "clk_answer \<times> clk_answer"
  pl_high_start :: int
  pl_high :: "high_round list"
  pl_high_end :: int
  pl_low_clk :: "clk_answer \<times> clk_answer"
  pl_low_start :: int
  pl_low :: "low_round list"
  pl_low_end :: int
  pl_stop_bottom :: bool

definition gpu_barrier_sync :: "pulse_worker \<Rightarrow> pulse_round \<Rightarrow> bool \<Rightarrow> pulse_vars \<Rightarrow> bool \<times> pulse_vars" where
  "gpu_barrier_sync w x time_up v =
     (if \<not> uw_sync w then (\<not> time_up, v)
      else if time_up \<or> pl_done x then (False, v)
      else if pl_synced x then (True, v)
      else (True, (uv_emit [Pulse_err (pulse_name w @ '' hipDeviceSynchronize failed after GPU barrier kernel'')] v)\<lparr>test_passed := False\<rparr>))"

definition average :: "fval \<Rightarrow> nat \<Rightarrow> fval" where
  "average s n = (if 0 < n then to_single (f_div s (Fin (float32 (of_nat n)))) else Fin 0)"

definition trough :: "pulse_vars \<Rightarrow> fval" where
  "trough v = (if f_less (pulse_trough_low v) (Fin 999999) then pulse_trough_low v else Fin 0)"

definition pulse_record :: "pulse_worker \<Rightarrow> pulse_round \<Rightarrow> int \<Rightarrow> pulse_vars \<Rightarrow> pulse_event list" where
  "pulse_record w x test_start v =
     pulse_json w [(''record_type'', ''pulse''), (''pulse_num'', to_string (pulse_count v)),
       (''elapsed_ms'', to_string (unat (time_diff_ms (pl_low_end x) test_start))),
       (''power_high_w'', f_text (pulse_peak_high v)), (''power_low_w'', f_text (trough v)),
       (''power_delta_w'', f_text (to_single (f_sub (pulse_peak_high v) (trough v)))),
       (''high_duration_ms'', f_text (ms_between (pl_high_end x) (pl_high_start x))),
       (''low_duration_ms'', f_text (ms_between (pl_low_end x) (pl_low_start x))),
       (''temp_c'', f_text (pulse_temp v)), (''gemm_count'', to_string (pulse_gemm_count v))]"

definition pulse_log :: "pulse_worker \<Rightarrow> pulse_round \<Rightarrow> pulse_vars \<Rightarrow> pulse_vars" where
  "pulse_log w x v =
     (if uw_log_interval w \<le> time_diff_ms (pl_low_end x) (last_log_time v) then
        (let hi = average (total_power_high v) (high_samples v); lo = average (total_power_low v) (low_samples v)
         in (uv_emit [Pulse_log (pulse_head w @ ''pulse #'' @ to_string (pulse_count v) @ '' avg_high='' @ f_text hi @
               ''W avg_low='' @ f_text lo @ ''W max_high='' @ f_text (max_power_high v) @ ''W min_low='' @
               f_text (min_power_low v) @ ''W delta='' @ f_text (to_single (f_sub hi lo)) @ ''W'') logresults] v)
            \<lparr>last_log_time := pl_low_end x\<rparr>)
      else v)"

fun pulse_loop :: "pulse_worker \<Rightarrow> pulse_round list \<Rightarrow> int \<Rightarrow> pulse_vars \<Rightarrow> pulse_vars option" where
  "pulse_loop w [] test_start v = None"
| "pulse_loop w (x # xs) test_start v =
     (if pl_stop_top x then Some v
      else
        (let time_up = (0 < uw_run_duration_ms w \<and> uw_run_duration_ms w \<le> time_diff_ms (pl_now x) test_start)
         in case gpu_barrier_sync w x time_up v of
              (False, v) \<Rightarrow> Some v
            | (True, v) \<Rightarrow>
                let v = v\<lparr>pulse_peak_high := Fin 0, pulse_trough_low := Fin 999999, pulse_temp := Fin (-1), pulse_gemm_count := 0\<rparr>;
                    v = uv_emit (snd (set_highest_clocks (fst (pl_high_clk x)) (snd (pl_high_clk x)) w)) v
                in (case high_loop w (pl_high x) (pl_high_start x) (pl_high_start x) v of
                      None \<Rightarrow> None
                    | Some (True, v) \<Rightarrow> Some v
                    | Some (False, v) \<Rightarrow>
                        let v = uv_emit (snd (set_lowest_clocks (fst (pl_low_clk x)) (snd (pl_low_clk x)) w)) v
                        in (case low_loop w (pl_low x) (pl_low_start x) (pl_low_start x) v of
                              None \<Rightarrow> None
                            | Some v \<Rightarrow>
                                let v = v\<lparr>pulse_count := pulse_count v + 1\<rparr>;
                                    v = pulse_log w x (uv_emit (pulse_record w x test_start v) v)
                                in if pl_stop_bottom x then Some v else pulse_loop w xs test_start v))))"

section \<open>The end of the test\<close>

text \<open>The answer of \<^verbatim>\<open>validate_gemm\<close>: whether it ran, and the two errors.\<close>

definition run_gemm_verify :: "pulse_worker \<Rightarrow> bool \<times> fval \<times> fval \<Rightarrow> pulse_vars \<Rightarrow> pulse_vars" where
  "run_gemm_verify w ans v =
     (let (self_check, accu_check) = pulse_verify_flags (uw_verify_mode w) (uw_ops_type w) (uw_data_type w);
          fail = (\<lambda>t. (uv_emit [Pulse_err (pulse_name w @ t)] v)\<lparr>test_passed := False\<rparr>)
      in if \<not> self_check \<and> \<not> accu_check then v
         else
           (let large = accu_check \<and> 2048 < uw_matrix_size w;
                self_check = (self_check \<or> large); accu_check = (accu_check \<and> \<not> large);
                (ran, self_error, accu_error) = ans
            in if \<not> ran then fail '' GEMM validate_gemm failed (unsupported combination for verify_mode)''
               else if self_check \<and> f_less (uw_tolerance w) self_error
               then fail ('' GEMM self-check error '' @ f_text self_error @ '' exceeds tolerance '' @ f_text (uw_tolerance w))
               else if accu_check \<and> f_less (uw_tolerance w) accu_error
               then fail ('' GEMM accuracy error '' @ f_text accu_error @ '' exceeds tolerance '' @ f_text (uw_tolerance w))
               else v))"

definition pulse_summary :: "pulse_worker \<Rightarrow> pulse_vars \<Rightarrow> bool \<times> pulse_event list" where
  "pulse_summary w v =
     (let hi = average (total_power_high v) (high_samples v); lo = average (total_power_low v) (low_samples v);
          delta = to_single (f_sub hi lo);
          msg = pulse_head w @ ''completed '' @ to_string (pulse_count v) @ '' pulses avg_high='' @ f_text hi @ ''W avg_low='' @
            f_text lo @ ''W delta='' @ f_text delta @ ''W max_high='' @ f_text (max_power_high v) @ ''W min_low='' @
            f_text (min_power_low v) @ ''W'';
          msg2 = pulse_name w @ '' secondary MCM, considering pass by default'';
          result = (uw_mcm_type w = SECONDARY \<or> (test_passed v \<and> 0 < pulse_count v))
      in (result,
          [Pulse_log msg logresults] @ (if uw_mcm_type w = SECONDARY then [Pulse_log msg2 loginfo] else []) @
          pulse_json w [(''record_type'', ''summary''), (''pulse_count'', to_string (pulse_count v)),
            (''avg_power_high_w'', f_text hi), (''avg_power_low_w'', f_text lo), (''avg_delta_w'', f_text delta),
            (''max_power_high_w'', f_text (max_power_high v)), (''min_power_low_w'', f_text (min_power_low v)),
            (''duration_ms'', to_string (unat (uw_run_duration_ms w))), (''pulse_rate_hz'', to_string_int (sint (uw_pulse_rate w))),
            (''ops_type'', uw_ops_type w), (''matrix_size'', to_string (unat (uw_matrix_size w))),
            (''pass'', if result then ''true'' else ''false'')] @
          [Pulse_result ACTION_RUNNING (if result then ACTION_SUCCESS else ACTION_FAILED)
             (if uw_mcm_type w = SECONDARY then msg2 else msg)]))"

record pulse_input =
  ui_copied :: bool
  ui_sys_probe :: "bool list option"
  ui_mem_probe :: "bool list option"
  ui_start :: int
  ui_rounds :: "pulse_round list"
  ui_verify :: "bool \<times> fval \<times> fval"
  ui_stop_end :: bool

definition pulse_start_line :: "pulse_worker \<Rightarrow> pulse_event" where
  "pulse_start_line w = Pulse_log (pulse_name w @ '' pulse_rate='' @ to_string_int (sint (uw_pulse_rate w)) @ ''Hz period='' @
     f_text (period_ms w) @ ''ms high='' @ f_text (high_phase_ms w) @ ''ms low='' @ f_text (low_phase_ms w) @ ''ms'') loginfo"

definition do_pulse_stress :: "pulse_input \<Rightarrow> pulse_worker \<Rightarrow> (bool \<times> pulse_worker \<times> pulse_event list) option" where
  "do_pulse_stress i w =
     (if \<not> ui_copied i then Some (False, w\<lparr>uw_passed := False\<rparr>, [Pulse_err (pulse_name w @ '' BLAS setup failed'')])
      else
        (let (_, w, evs) = discover_valid_clock_levels (ui_sys_probe i) (ui_mem_probe i) w;
             v = \<lparr>test_passed = True, max_power_high = Fin 0, min_power_low = Fin 999999, total_power_high = Fin 0,
                  total_power_low = Fin 0, high_samples = 0, low_samples = 0, pulse_count = 0, last_log_time = ui_start i,
                  pulse_events = evs @ [pulse_start_line w], pulse_peak_high = Fin 0, pulse_trough_low = Fin 999999,
                  pulse_temp = Fin (-1), pulse_gemm_count = 0\<rparr>
         in case pulse_loop w (ui_rounds i) (ui_start i) v of
              None \<Rightarrow> None
            | Some v \<Rightarrow>
                let v = uv_emit (restore_clocks w) (run_gemm_verify w (ui_verify i) v);
                    (result, es) = pulse_summary w v
                in Some (result, w\<lparr>uw_passed := result\<rparr>, pulse_events v @ es)))"

definition pulse_worker_run :: "pulse_input \<Rightarrow> pulse_worker \<Rightarrow> (pulse_worker \<times> pulse_event list) option" where
  "pulse_worker_run i w =
     map_option (\<lambda>(pass, w', evs).
       (w', Pulse_log (pulse_name w @ '' start pulse_rate='' @ to_string_int (sint (uw_pulse_rate w))) loginfo # evs @
            (if ui_stop_end i then []
             else [Pulse_log (pulse_head w @ ''pass: '' @ (if pass then ''TRUE'' else ''FALSE'')) logresults, Pulse_sleep 2])))
       (do_pulse_stress i w)"

end
