(* ===== verification/Pulse_Action.thy ===== *)
theory Pulse_Action
  imports Pulse
begin

text \<open>\<^verbatim>\<open>pulse.so/src/action.cpp\<close>: the keys of the power pulse test, its workers, the run of the action.\<close>

section \<open>Configuration\<close>

record ('cb, 'up) pulse_action =
  ua_base :: "('cb, 'up) actionbase"
  pulse_rate :: u32
  high_phase_ratio :: fval
  pulse_ops_type :: string
  pulse_data_type :: string
  pulse_out_data_type :: string
  pulse_matrix_size :: u64
  pulse_alpha_val :: fval
  pulse_beta_val :: fval
  pulse_trans_a :: u32
  pulse_trans_b :: u32
  pulse_lda_offset :: u32
  pulse_ldb_offset :: u32
  pulse_ldc_offset :: u32
  pulse_ldd_offset :: u32
  pulse_matrix_init :: string
  pulse_tolerance :: fval
  pulse_sample_interval :: u64
  pulse_workload_iterations :: u32
  pulse_halt_on_error :: bool
  pulse_gpu_sync_wait :: u32
  pulse_verify_mode :: string
  pulse_hot_calls :: u64
  pulse_blas_source :: string
  pulse_compute_type :: string
  pulse_max_temp_c :: fval

definition pulse_keys_load :: "('cb, 'up) pulse_action key_row list" where
  "pulse_keys_load =
     [(bad_key ''pulse_rate'', True, int_key ua_base ''pulse_rate'' 2 pulse_rate pulse_rate_update),
      (bad_key ''high_phase_ratio'', True, float_key ua_base ''high_phase_ratio'' (1 / 2) high_phase_ratio high_phase_ratio_update),
      (bad_key ''tolerance'', True, float_key ua_base ''tolerance'' 10 pulse_tolerance pulse_tolerance_update),
      (bad_key ''matrix_size'', True, int_key ua_base ''matrix_size'' 4096 pulse_matrix_size pulse_matrix_size_update),
      (bad_key ''ops_type'', True, string_key ua_base ''ops_type'' ''sgemm'' pulse_ops_type pulse_ops_type_update),
      (bad_key ''data_type'', True, string_key ua_base ''data_type'' [] pulse_data_type pulse_data_type_update),
      (bad_key ''out_data_type'', True, string_key ua_base ''out_data_type'' [] pulse_out_data_type pulse_out_data_type_update),
      (bad_key ''transa'', False, int_key ua_base ''transa'' 0 pulse_trans_a pulse_trans_a_update),
      (bad_key ''transb'', False, int_key ua_base ''transb'' 1 pulse_trans_b pulse_trans_b_update),
      (bad_key ''alpha'', False, float_key ua_base ''alpha'' 2 pulse_alpha_val pulse_alpha_val_update),
      (bad_key ''beta'', False, float_key ua_base ''beta'' (-1) pulse_beta_val pulse_beta_val_update),
      (bad_key ''lda'', False, int_key ua_base ''lda'' 0 pulse_lda_offset pulse_lda_offset_update),
      (bad_key ''ldb'', False, int_key ua_base ''ldb'' 0 pulse_ldb_offset pulse_ldb_offset_update),
      (bad_key ''ldc'', False, int_key ua_base ''ldc'' 0 pulse_ldc_offset pulse_ldc_offset_update),
      (bad_key ''ldd'', False, int_key ua_base ''ldd'' 0 pulse_ldd_offset pulse_ldd_offset_update)]"

definition pulse_keys_run :: "('cb, 'up) pulse_action key_row list" where
  "pulse_keys_run =
     [(bad_key ''workload_iterations'', True,
         int_key ua_base ''workload_iterations'' 128 pulse_workload_iterations pulse_workload_iterations_update),
      (bad_key ''halt_on_error'', False, bool_key ua_base ''halt_on_error'' False pulse_halt_on_error pulse_halt_on_error_update),
      (bad_key ''gpu_sync_wait'', True, int_key ua_base ''gpu_sync_wait'' 10000 pulse_gpu_sync_wait pulse_gpu_sync_wait_update),
      (bad_key ''verify_mode'', True, string_key ua_base ''verify_mode'' ''diff'' pulse_verify_mode pulse_verify_mode_update),
      (bad_key ''sample_interval'', True, int_key ua_base ''sample_interval'' 100 pulse_sample_interval pulse_sample_interval_update),
      (bad_key ''hot_calls'', True, int_key ua_base ''hot_calls'' 1 pulse_hot_calls pulse_hot_calls_update),
      (bad_key ''matrix_init'', True, string_key ua_base ''matrix_init'' ''default'' pulse_matrix_init pulse_matrix_init_update),
      (bad_key ''blas_source'', True, string_key ua_base ''blas_source'' ''rocblas'' pulse_blas_source pulse_blas_source_update),
      (bad_key ''compute_type'', True, string_key ua_base ''compute_type'' ''fp32_r'' pulse_compute_type pulse_compute_type_update),
      (bad_key ''max_temp_c'', True, float_key ua_base ''max_temp_c'' 105 pulse_max_temp_c pulse_max_temp_c_update)]"

definition quoted_key :: "string \<Rightarrow> string" where
  "quoted_key k = key_quote @ k @ key_quote"

text \<open>hipBLASLt needs a data type; one is derived from the operation.\<close>

definition derive_data_type ::
  "(bool \<times> log_event list) \<times> ('cb, 'up) pulse_action \<Rightarrow> (bool \<times> log_event list) \<times> ('cb, 'up) pulse_action" where
  "derive_data_type = (\<lambda>(r, m).
     if pulse_blas_source m = ''hipblaslt'' \<and> pulse_data_type m = [] then
       (if pulse_ops_type m = ''sgemm'' then (r, m\<lparr>pulse_data_type := ''fp32_r''\<rparr>)
        else if pulse_ops_type m = ''dgemm'' then (r, m\<lparr>pulse_data_type := ''fp64_r''\<rparr>)
        else if pulse_ops_type m = ''hgemm'' then (r, m\<lparr>pulse_data_type := ''fp16_r''\<rparr>)
        else (step_key 1 [Log_err (''hipblaslt requires '' @ quoted_key ''data_type'' @ '' in the action when '' @
                quoted_key ''ops_type'' @ '' is not sgemm, dgemm, or hgemm'')] r, m))
     else (r, m))"

definition pulse_limits ::
  "(bool \<times> log_event list) \<times> ('cb, 'up) pulse_action \<Rightarrow> (bool \<times> log_event list) \<times> ('cb, 'up) pulse_action" where
  "pulse_limits = (\<lambda>(r, m).
     let t = pulse_max_temp_c m;
         r = step_key (if f_less t (Fin 0) \<or> (f_less (Fin 0) t \<and> f_less (Fin 200) t) then 1 else 0)
               [Log_err (quoted_key ''max_temp_c'' @ '' must be 0 to disable the thermal check, or a limit in (0, 200] '' @
                  [CHR 0xC2, CHR 0xB0] @ ''C'')] r;
         r = step_key (if pulse_blas_source m \<noteq> ''rocblas'' \<and> pulse_blas_source m \<noteq> ''hipblaslt'' then 1 else 0)
               [Log_err (quoted_key ''blas_source'' @ '' must be '' @ quoted_key ''rocblas'' @ '' or '' @ quoted_key ''hipblaslt'')] r;
         (r, m) = derive_data_type (r, m);
         m = (if pulse_blas_source m = ''hipblaslt'' \<and> pulse_ops_type m = ''dgemm'' \<and> pulse_compute_type m = ''fp32_r''
              then m\<lparr>pulse_compute_type := ''fp64_r''\<rparr> else m);
         r = step_key (if f_less (high_phase_ratio m) (Fin 0) \<or> f_less (Fin 1) (high_phase_ratio m) then 1 else 0)
               [Log_err (quoted_key ''high_phase_ratio'' @ '' must be between 0.0 and 1.0'')] r;
         r = step_key (if sint (pulse_rate m) \<le> 0 then 1 else 0) [Log_err (quoted_key ''pulse_rate'' @ '' must be positive'')] r
     in (r, if pulse_sample_interval m < 50 then m\<lparr>pulse_sample_interval := 50\<rparr> else m))"

definition get_all_pulse_config_keys ::
  "('cb, 'up) pulse_action \<Rightarrow> (bool \<times> log_event list) \<times> ('cb, 'up) pulse_action" where
  "get_all_pulse_config_keys m = pulse_limits (read_keys (pulse_keys_load @ pulse_keys_run) ((True, []), m))"

section \<open>The workers\<close>

text \<open>The settings of a worker, which the vector creates with the defaults of its constructor.\<close>

definition pulse_configure ::
  "gpulist \<Rightarrow> ('cb, 'up) pulse_action \<Rightarrow> bool \<Rightarrow> bool \<Rightarrow> nat \<times> u16 \<Rightarrow> mcm_type_t \<Rightarrow> pulse_worker" where
  "pulse_configure gl m sync handle d mcm =
     (let a = ua_base m in
      \<lparr>uw_action_name = action_name a, uw_gpu_id = snd d,
       uw_gpu_index = (case gpu2gpuindex gl (snd d) of Found v \<Rightarrow> v | _ \<Rightarrow> 0),
       uw_run_duration_ms = property_duration a, uw_sample_interval = pulse_sample_interval m,
       uw_log_interval = property_log_interval a, uw_pulse_rate = pulse_rate m, uw_high_phase_ratio = high_phase_ratio m,
       uw_tolerance = pulse_tolerance m, uw_max_temp_c = pulse_max_temp_c m, uw_matrix_size = pulse_matrix_size m,
       uw_ops_type = pulse_ops_type m, uw_data_type = pulse_data_type m,
       uw_workload_iterations = pulse_workload_iterations m, uw_halt_on_error = pulse_halt_on_error m,
       uw_verify_mode = pulse_verify_mode m, uw_mcm_type = mcm, uw_sync = sync, uw_bjson = bjson a, uw_handle = handle,
       valid_gfx_levels = [], valid_mem_levels = [], uw_passed = False\<rparr>)"

text \<open>\<open>None\<close>: past the end of the types, which are indexed by the number of the worker.\<close>

fun pulse_configure_loop ::
  "gpulist \<Rightarrow> ('cb, 'up) pulse_action \<Rightarrow> bool \<Rightarrow> (nat, 'h) omap \<Rightarrow> mcm_type_t list \<Rightarrow> (nat \<times> u16) list \<Rightarrow> nat
     \<Rightarrow> (pulse_worker list \<times> pulse_event list) option" where
  "pulse_configure_loop gl m sync idxs mcm [] i = Some ([], [])"
| "pulse_configure_loop gl m sync idxs mcm (d # ds) i =
     (let handle = (om_find idxs (fst d) \<noteq> None);
          evs = (if handle then [] else [Pulse_log (''['' @ action_name (ua_base m) @ ''] pulse '' @ to_string i @ '' has no SMI handle'') logerror])
      in if i < length mcm
         then map_option (\<lambda>(ws, es). (pulse_configure gl m sync handle d (mcm ! i) # ws, evs @ es))
                (pulse_configure_loop gl m sync idxs mcm ds (i + 1))
         else None)"

text \<open>
  The workers, each with the answers it gets and the stop flag after it.  Parallel workers only share
  the barrier, whose outcome is among the answers; one that waits there for ever runs out of rounds.
\<close>

fun pulse_workers_loop ::
  "bool \<Rightarrow> (pulse_input \<times> bool) list \<Rightarrow> pulse_worker list \<Rightarrow> pulse_worker list \<Rightarrow> pulse_event list
     \<Rightarrow> (bool \<times> pulse_worker list \<times> pulse_event list) option" where
  "pulse_workers_loop parallel is [] finished evs = Some (False, finished, evs)"
| "pulse_workers_loop parallel [] (w # ws) finished evs = None"
| "pulse_workers_loop parallel ((i, stop) # is) (w # ws) finished evs =
     (case pulse_worker_run i w of
        None \<Rightarrow> None
      | Some (w', es) \<Rightarrow>
          if \<not> parallel \<and> stop then Some (True, finished @ w' # ws, evs @ es)
          else pulse_workers_loop parallel is ws (finished @ [w']) (evs @ es))"

record pulse_test_input =
  ut_alloc_count :: bool
  ut_alloc_flag :: bool
  ut_inputs :: "(pulse_input \<times> bool) list"
  ut_stop :: bool

definition do_pulse_test ::
  "gpulist \<Rightarrow> (u64, 'h) omap \<Rightarrow> hip_device list \<Rightarrow> ('cb, 'up) pulse_action \<Rightarrow> (nat \<times> u16) list \<Rightarrow> mcm_type_t list
     \<Rightarrow> pulse_test_input \<Rightarrow> (bool \<times> pulse_event list) option" where
  "do_pulse_test gl smi hip m devs mcm t =
     (let a = ua_base m; sync = (property_parallel a \<and> 1 < length devs)
      in if sync \<and> (\<not> ut_alloc_count t \<or> \<not> ut_alloc_flag t)
         then Some (False, [Pulse_err ''Failed to allocate fine-grained memory for GPU sync barrier''])
         else
           (let evs = (if property_wait a \<noteq> 0 then [Pulse_sleep (unat (ucast (property_wait a) :: u32))] else [])
            in case pulse_configure_loop gl m sync (hip_to_smi_indices smi hip 0 []) mcm devs 0 of
                 None \<Rightarrow> None
               | Some (ws, es) \<Rightarrow>
                   (case pulse_workers_loop (property_parallel a) (ut_inputs t) ws [] (evs @ es) of
                      None \<Rightarrow> None
                    | Some (True, ws, evs) \<Rightarrow> Some (False, evs)
                    | Some (False, ws, evs) \<Rightarrow>
                        Some (\<not> ut_stop t \<and> list_all uw_passed ws,
                          evs @ [Pulse_log (''['' @ action_name a @ ''] pulse '' @
                            to_string (if devs = [] then 0 else unat (snd (last devs))) @ '' Completed pulse cycle'') loginfo]))))"

section \<open>The run\<close>

definition pulse_selected_gpus ::
  "gpulist \<Rightarrow> (u64, 'h) omap \<Rightarrow> hip_device list \<Rightarrow> ('cb, 'up) pulse_action \<Rightarrow> pulse_test_input
     \<Rightarrow> (int \<times> pulse_event list) option" where
  "pulse_selected_gpus gl smi hip m t =
     (if hip = [] then Some (-1, [])
      else
        (case fetch_gpu_list gl (selection_of (ua_base m)) True hip [] [] of
           None \<Rightarrow> None
         | Some (devs, mcm, found) \<Rightarrow>
             if \<not> found then
               Some (-1, [Pulse_log ''No devices match criteria from the test configuration.'' logerror] @
                 (if bjson (ua_base m) then [Pulse_json [(''ERROR'', ''No AMD compatible GPU found!'')] logerror] else []))
             else map_option (\<lambda>(ok, evs). (if ok then 0 else -1, evs)) (do_pulse_test gl smi hip m devs mcm t)))"

text \<open>\<open>banner\<close> is the fixed text that names the test a beta version.\<close>

definition pulse_action_run ::
  "string \<Rightarrow> gpulist \<Rightarrow> (u64, 'h) omap \<Rightarrow> hip_device list \<Rightarrow> ('cb, 'up) pulse_action \<Rightarrow> pulse_test_input
     \<Rightarrow> (int \<times> action_result_t option \<times> log_event list \<times> pulse_event list) option" where
  "pulse_action_run banner gl smi hip m t =
     (let start = [Log_msg banner logresults]
      in case get_all_common_config_keys (ua_base m) of
           None \<Rightarrow> None
         | Some ((False, evs), a) \<Rightarrow> Some (-1, None, start @ evs, [])
         | Some ((True, evs), a) \<Rightarrow>
             (case get_all_pulse_config_keys (m\<lparr>ua_base := a\<rparr>) of
                ((False, evs2), m) \<Rightarrow> Some (-1, None, start @ evs @ evs2, [])
              | ((True, evs2), m) \<Rightarrow>
                  let a = ua_base m in
                  map_option (\<lambda>(res, es).
                    (res, Some \<lparr>ar_state = ACTION_COMPLETED,
                                ar_status = (if res = 0 then ACTION_SUCCESS else ACTION_FAILED),
                                ar_output = ''PULSE Module action '' @ action_name a @ '' completed''\<rparr>,
                     start @ evs @ evs2,
                     (if bjson a then [Pulse_json_open (action_name a)] else []) @ es @ (if bjson a then [Pulse_json_close] else [])))
                    (pulse_selected_gpus gl smi hip m t)))"

end
