(* ===== verification/Pulse_Sync.thy ===== *)
theory Pulse_Sync
  imports Main
begin

text \<open>
  The synchronisation of the workers of a parallel power pulse test, \<^verbatim>\<open>PulseWorker::gpu_barrier_sync\<close>
  and the loop around it (\<^verbatim>\<open>pulse.so/src/pulse_worker.cpp\<close>): \<open>n\<close> threads that share a barrier of the
  host, a flag that ends the test, and two counters in the memory the GPUs synchronise on.  A step
  is one access of one thread to what they share; steps of the threads interleave in any order.
\<close>

section \<open>The state\<close>

text \<open>
  Where a worker is: at the test of the loop; with the flag stored, before the barrier; in the
  first wait; at the test of the flag; in the second wait; before the kernel; spinning in it; in
  the pulse; out of the loop.
\<close>

datatype place = Top | Marked | Wait1 | Check | Wait2 | Launch | Spin | Pulsing | Out

record sync_state =
  place_of :: "nat \<Rightarrow> place"
  pulses_of :: "nat \<Rightarrow> nat"
  done_flag :: bool
  gpu_arrival_count :: nat
  gpu_release_flag :: bool

definition sync_start :: sync_state where
  "sync_start = \<lparr>place_of = (\<lambda>_. Top), pulses_of = (\<lambda>_. 0), done_flag = False, gpu_arrival_count = 0, gpu_release_flag = False\<rparr>"

definition move :: "nat \<Rightarrow> place \<Rightarrow> sync_state \<Rightarrow> sync_state" where
  "move i p s = s\<lparr>place_of := (place_of s)(i := p)\<rparr>"

definition waiting :: "place \<Rightarrow> bool" where
  "waiting p \<longleftrightarrow> p = Wait1 \<or> p = Wait2"

definition released :: "place \<Rightarrow> place" where
  "released p = (if p = Wait1 then Check else if p = Wait2 then Launch else p)"

section \<open>The steps\<close>

text \<open>
  The steps of a run in which nothing goes wrong and nobody stops it.
  The barrier lets all threads go when \<open>n\<close> of them have arrived.  The kernel of the last GPU
  releases the others.
\<close>

inductive sync_step :: "nat \<Rightarrow> sync_state \<Rightarrow> sync_state \<Rightarrow> bool" for n where
  mark: "i < n \<Longrightarrow> place_of s i = Top \<Longrightarrow> sync_step n s (move i Marked (s\<lparr>done_flag := done_flag s \<or> time_up\<rparr>))"
| arrive: "i < n \<Longrightarrow> place_of s i = Marked \<Longrightarrow> sync_step n s (move i Wait1 s)"
| barrier: "0 < n \<Longrightarrow> (\<forall>i<n. waiting (place_of s i)) \<Longrightarrow>
    sync_step n s (s\<lparr>place_of := (\<lambda>i. if i < n then released (place_of s i) else place_of s i)\<rparr>)"
| leave: "i < n \<Longrightarrow> place_of s i = Check \<Longrightarrow> done_flag s \<Longrightarrow> sync_step n s (move i Out s)"
| reset: "0 < n \<Longrightarrow> place_of s 0 = Check \<Longrightarrow> \<not> done_flag s \<Longrightarrow>
    sync_step n s (move 0 Wait2 (s\<lparr>gpu_arrival_count := 0, gpu_release_flag := False\<rparr>))"
| again: "0 < i \<Longrightarrow> i < n \<Longrightarrow> place_of s i = Check \<Longrightarrow> \<not> done_flag s \<Longrightarrow> sync_step n s (move i Wait2 s)"
| kernel: "i < n \<Longrightarrow> place_of s i = Launch \<Longrightarrow> gpu_arrival_count s + 1 \<noteq> n \<Longrightarrow>
    sync_step n s (move i Spin (s\<lparr>gpu_arrival_count := gpu_arrival_count s + 1\<rparr>))"
| release: "i < n \<Longrightarrow> place_of s i = Launch \<Longrightarrow> gpu_arrival_count s + 1 = n \<Longrightarrow>
    sync_step n s (move i Pulsing (s\<lparr>gpu_arrival_count := n, gpu_release_flag := True\<rparr>))"
| spin: "i < n \<Longrightarrow> place_of s i = Spin \<Longrightarrow> gpu_release_flag s \<Longrightarrow> sync_step n s (move i Pulsing s)"
| pulse: "i < n \<Longrightarrow> place_of s i = Pulsing \<Longrightarrow>
    sync_step n s (move i Top (s\<lparr>pulses_of := (pulses_of s)(i := pulses_of s i + 1)\<rparr>))"

text \<open>
  The exits that do not pass the barrier: a BLAS object that cannot be set up and a stop signal at
  the test of the loop, an error with \<^verbatim>\<open>halt_on_error\<close> and a stop signal during or after the pulse.
\<close>

inductive quit_step :: "nat \<Rightarrow> sync_state \<Rightarrow> sync_state \<Rightarrow> bool" for n where
  quit_top: "i < n \<Longrightarrow> place_of s i = Top \<Longrightarrow> quit_step n s (move i Out s)"
| quit_pulse: "i < n \<Longrightarrow> place_of s i = Pulsing \<Longrightarrow> quit_step n s (move i Out s)"

text \<open>
  A \<^verbatim>\<open>hipDeviceSynchronize\<close> that fails after the kernel of the barrier is reported, and the worker goes
  on to its pulse without having been released.  The kernel may have run up to its loop and counted
  the GPU (the worker was at \<open>Spin\<close>), or not at all (it was at \<open>Launch\<close>), in which case the others
  wait for a count that is not reached.
\<close>

inductive fault_step :: "nat \<Rightarrow> sync_state \<Rightarrow> sync_state \<Rightarrow> bool" for n where
  launch_fault: "i < n \<Longrightarrow> place_of s i = Launch \<Longrightarrow> fault_step n s (move i Pulsing s)"
| spin_fault: "i < n \<Longrightarrow> place_of s i = Spin \<Longrightarrow> fault_step n s (move i Pulsing s)"

definition any_step :: "nat \<Rightarrow> sync_state \<Rightarrow> sync_state \<Rightarrow> bool" where
  "any_step n s t \<longleftrightarrow> sync_step n s t \<or> quit_step n s t \<or> fault_step n s t"

section \<open>The invariant without early exits\<close>

text \<open>
  Either all workers are on the way from the second wait to the first, with the counter of the
  GPUs complete up to those that still have to start their kernel, or all are between the waits.
\<close>

definition launching :: "nat \<Rightarrow> sync_state \<Rightarrow> nat set" where
  "launching n s = {i. i < n \<and> place_of s i = Launch}"

fun in_pulse :: "place \<Rightarrow> nat" where
  "in_pulse Launch = 1" | "in_pulse Spin = 1" | "in_pulse Pulsing = 1" | "in_pulse _ = 0"

definition pulses_agree :: "nat \<Rightarrow> sync_state \<Rightarrow> nat \<Rightarrow> bool" where
  "pulses_agree n s r \<longleftrightarrow>
     (\<forall>i<n. pulses_of s i + in_pulse (place_of s i) = r)"

definition outer_phase :: "nat \<Rightarrow> sync_state \<Rightarrow> bool" where
  "outer_phase n s \<longleftrightarrow>
     (\<forall>i<n. place_of s i \<in> {Top, Marked, Wait1, Launch, Spin, Pulsing}) \<and>
     (launching n s \<noteq> {} \<longrightarrow> gpu_arrival_count s + card (launching n s) = n \<and> \<not> gpu_release_flag s \<and>
        (\<forall>i<n. place_of s i \<in> {Launch, Spin})) \<and>
     (launching n s = {} \<and> (\<exists>i<n. place_of s i = Spin) \<longrightarrow> gpu_release_flag s)"

definition inner_phase :: "nat \<Rightarrow> sync_state \<Rightarrow> bool" where
  "inner_phase n s \<longleftrightarrow>
     (\<forall>i<n. place_of s i \<in> (if done_flag s then {Check, Out} else {Check, Wait2})) \<and>
     (place_of s 0 = Wait2 \<longrightarrow> gpu_arrival_count s = 0 \<and> \<not> gpu_release_flag s)"

definition sync_ok :: "nat \<Rightarrow> sync_state \<Rightarrow> bool" where
  "sync_ok n s \<longleftrightarrow> (outer_phase n s \<or> inner_phase n s) \<and> (\<exists>r. pulses_agree n s r)"

lemma move_place [simp]: "place_of (move i p s) = (place_of s)(i := p)" "pulses_of (move i p s) = pulses_of s"
  "done_flag (move i p s) = done_flag s" "gpu_arrival_count (move i p s) = gpu_arrival_count s"
  "gpu_release_flag (move i p s) = gpu_release_flag s"
  by (simp_all add: move_def)

lemma finite_launching [simp]: "finite (launching n s)"
  by (simp add: launching_def)

lemma launching_move:
  "p \<noteq> Launch \<Longrightarrow> launching n (move i p s) = launching n s - {i}"
  "launching n (s\<lparr>done_flag := b\<rparr>) = launching n s" "launching n (s\<lparr>pulses_of := f\<rparr>) = launching n s"
  "launching n (s\<lparr>gpu_arrival_count := c\<rparr>) = launching n s" "launching n (s\<lparr>gpu_release_flag := b\<rparr>) = launching n s"
  by (auto simp: launching_def)

lemma launching_iff: "i \<in> launching n s \<longleftrightarrow> i < n \<and> place_of s i = Launch"
  by (simp add: launching_def)

lemma calm_launching: "i < n \<Longrightarrow> place_of s i \<notin> {Launch, Spin} \<Longrightarrow> outer_phase n s \<Longrightarrow> launching n s = {}"
  by (auto simp: outer_phase_def)

lemma outer_move:
  assumes "outer_phase n s" and "i < n" and "launching n s = {}" and "p \<in> {Top, Marked, Wait1, Pulsing}"
  shows "outer_phase n (move i p s)"
  using assms by (auto simp: outer_phase_def launching_move)

lemma outer_fields:
  "outer_phase n (s\<lparr>done_flag := b\<rparr>) \<longleftrightarrow> outer_phase n s"
  "outer_phase n (s\<lparr>pulses_of := f\<rparr>) \<longleftrightarrow> outer_phase n s"
  by (simp_all add: outer_phase_def launching_move)

lemma outer_kernel:
  assumes "outer_phase n s" and "i < n" and "place_of s i = Launch" and "gpu_arrival_count s + 1 \<noteq> n"
  shows "outer_phase n (move i Spin (s\<lparr>gpu_arrival_count := gpu_arrival_count s + 1\<rparr>))"
proof -
  have i: "i \<in> launching n s" using assms by (simp add: launching_iff)
  then have sum: "gpu_arrival_count s + card (launching n s) = n" "\<not> gpu_release_flag s"
    "\<forall>j<n. place_of s j \<in> {Launch, Spin}"
    using assms(1) by (auto simp: outer_phase_def)
  have "0 < card (launching n s)" using i by (auto simp: card_gt_0_iff)
  then have card: "card (launching n s - {i}) + 1 = card (launching n s)"
    using i by simp
  with sum assms(4) have "launching n s - {i} \<noteq> {}" by force
  then show ?thesis using sum card by (auto simp: outer_phase_def launching_move)
qed

lemma outer_release:
  assumes "outer_phase n s" and "i < n" and "place_of s i = Launch" and "gpu_arrival_count s + 1 = n"
  shows "outer_phase n (move i Pulsing (s\<lparr>gpu_arrival_count := n, gpu_release_flag := True\<rparr>))"
proof -
  have i: "i \<in> launching n s" using assms by (simp add: launching_iff)
  then have sum: "gpu_arrival_count s + card (launching n s) = n" "\<forall>j<n. place_of s j \<in> {Launch, Spin}"
    using assms(1) by (auto simp: outer_phase_def)
  then have "card (launching n s) = 1" using assms(4) by simp
  then have "launching n s - {i} = {}" using i by (auto simp: card_1_singleton_iff)
  then show ?thesis using sum by (auto simp: outer_phase_def launching_move)
qed

lemma barrier_phases:
  assumes "0 < n" and "\<forall>i<n. waiting (place_of s i)" and "outer_phase n s \<or> inner_phase n s"
  shows "outer_phase n (s\<lparr>place_of := (\<lambda>i. if i < n then released (place_of s i) else place_of s i)\<rparr>) \<or>
    inner_phase n (s\<lparr>place_of := (\<lambda>i. if i < n then released (place_of s i) else place_of s i)\<rparr>)"
  using assms(3)
proof
  assume "outer_phase n s"
  then have "\<forall>i<n. place_of s i = Wait1"
    using assms(2) by (fastforce simp: outer_phase_def waiting_def)
  then show ?thesis using assms(1) by (auto simp: inner_phase_def released_def)
next
  assume inner: "inner_phase n s"
  then have all: "\<forall>i<n. place_of s i = Wait2"
    using assms(2) by (fastforce simp: inner_phase_def waiting_def split: if_splits)
  let ?t = "s\<lparr>place_of := (\<lambda>i. if i < n then released (place_of s i) else place_of s i)\<rparr>"
  have "launching n ?t = {..<n}" using all by (auto simp: launching_def released_def)
  moreover have "gpu_arrival_count s = 0 \<and> \<not> gpu_release_flag s" using inner all assms(1) by (simp add: inner_phase_def)
  ultimately have "outer_phase n ?t" using all assms(1) by (auto simp: outer_phase_def released_def)
  then show ?thesis ..
qed

lemma inner_phase_outer: "inner_phase n s \<Longrightarrow> i < n \<Longrightarrow> place_of s i \<in> {Check, Wait2, Out}"
  by (auto simp: inner_phase_def split: if_splits)

lemma outer_phase_places: "outer_phase n s \<Longrightarrow> i < n \<Longrightarrow> place_of s i \<in> {Top, Marked, Wait1, Launch, Spin, Pulsing}"
  by (auto simp: outer_phase_def)

lemma step_phases:
  assumes "sync_step n s t" and "outer_phase n s \<or> inner_phase n s"
  shows "outer_phase n t \<or> inner_phase n t"
  using assms
proof (cases rule: sync_step.cases)
  case (mark i b)
  then have o: "outer_phase n s" using assms(2) inner_phase_outer by fastforce
  then have "launching n s = {}" using mark by (intro calm_launching) auto
  then show ?thesis using mark o outer_move [of n "s\<lparr>done_flag := done_flag s \<or> b\<rparr>" i Marked]
    by (simp add: outer_fields launching_move)
next
  case (arrive i)
  then have o: "outer_phase n s" using assms(2) inner_phase_outer by fastforce
  then have "launching n s = {}" using arrive by (intro calm_launching) auto
  then show ?thesis using arrive o outer_move [of n s i Wait1] by simp
next
  case barrier
  then show ?thesis using barrier_phases assms(2) by simp
next
  case (leave i)
  then have "inner_phase n s" using assms(2) outer_phase_places by fastforce
  then show ?thesis using leave by (auto simp: inner_phase_def)
next
  case reset
  then have "inner_phase n s" using assms(2) outer_phase_places by fastforce
  then show ?thesis using reset by (auto simp: inner_phase_def)
next
  case (again i)
  then have "inner_phase n s" using assms(2) outer_phase_places by fastforce
  then show ?thesis using again by (auto simp: inner_phase_def)
next
  case (kernel i)
  then have "outer_phase n s" using assms(2) inner_phase_outer by fastforce
  then show ?thesis using kernel outer_kernel by simp
next
  case (release i)
  then have "outer_phase n s" using assms(2) inner_phase_outer by fastforce
  then show ?thesis using release outer_release by simp
next
  case (spin i)
  then have o: "outer_phase n s" using assms(2) inner_phase_outer by fastforce
  then have "launching n s = {}" using spin by (auto simp: outer_phase_def)
  then show ?thesis using spin o outer_move [of n s i Pulsing] by simp
next
  case (pulse i)
  then have o: "outer_phase n s" using assms(2) inner_phase_outer by fastforce
  then have "launching n s = {}" using pulse by (intro calm_launching) auto
  then show ?thesis using pulse o outer_move [of n "s\<lparr>pulses_of := (pulses_of s)(i := pulses_of s i + 1)\<rparr>" i Top]
    by (simp add: outer_fields launching_move)
qed

lemma step_keeps_pulses:
  assumes "sync_step n s t" and "pulses_agree n s r"
  shows "(0 < n \<and> (\<forall>i<n. waiting (place_of s i)) \<and>
      t = s\<lparr>place_of := (\<lambda>i. if i < n then released (place_of s i) else place_of s i)\<rparr>) \<or> pulses_agree n t r"
  using assms by (cases rule: sync_step.cases) (auto simp: pulses_agree_def)

lemma barrier_pulses:
  assumes "\<forall>i<n. waiting (place_of s i)" and "outer_phase n s \<or> inner_phase n s" and "pulses_agree n s r"
  shows "\<exists>r. pulses_agree n (s\<lparr>place_of := (\<lambda>i. if i < n then released (place_of s i) else place_of s i)\<rparr>) r"
  using assms(2)
proof
  assume "outer_phase n s"
  then have "\<forall>i<n. place_of s i = Wait1" using assms(1) by (fastforce simp: outer_phase_def waiting_def)
  then have "pulses_agree n (s\<lparr>place_of := (\<lambda>i. if i < n then released (place_of s i) else place_of s i)\<rparr>) r"
    using assms(3) by (simp add: pulses_agree_def released_def)
  then show ?thesis ..
next
  assume "inner_phase n s"
  then have "\<forall>i<n. place_of s i = Wait2"
    using assms(1) by (fastforce simp: inner_phase_def waiting_def split: if_splits)
  then have "pulses_agree n (s\<lparr>place_of := (\<lambda>i. if i < n then released (place_of s i) else place_of s i)\<rparr>) (r + 1)"
    using assms(3) by (simp add: pulses_agree_def released_def)
  then show ?thesis ..
qed

lemma step_pulses:
  assumes "sync_step n s t" and "outer_phase n s \<or> inner_phase n s" and "pulses_agree n s r"
  shows "\<exists>r. pulses_agree n t r"
  using step_keeps_pulses [OF assms(1,3)] barrier_pulses [OF _ assms(2,3)] by blast

lemma sync_ok_step: "sync_step n s t \<Longrightarrow> sync_ok n s \<Longrightarrow> sync_ok n t"
  unfolding sync_ok_def using step_phases step_pulses by blast

lemma sync_ok_start: "sync_ok n sync_start"
  by (auto simp: sync_ok_def sync_start_def outer_phase_def launching_def pulses_agree_def)

lemma sync_ok_reachable: "(sync_step n)\<^sup>*\<^sup>* sync_start s \<Longrightarrow> sync_ok n s"
  by (induction rule: rtranclp_induct) (auto simp: sync_ok_start intro: sync_ok_step)

end
