(* ===== verification/Pulse_Props.thy ===== *)
theory Pulse_Props
  imports Pulse_Action Pulse_Sync_Props
begin

text \<open>
  The power pulse test of one worker: what a positive verdict stands for, that the clocks are
  restored, and a configuration whose first pulse never ends.
\<close>

section \<open>What a positive verdict stands for\<close>

text \<open>
  What tells of a failure in the trace of a run: an error that is reported, a multiplication that
  did not run or did not complete, a temperature above the limit, if there is one.
\<close>

definition bad_event :: "pulse_worker \<Rightarrow> pulse_event \<Rightarrow> bool" where
  "bad_event w e \<longleftrightarrow>
     (case e of
        Pulse_err _ \<Rightarrow> True
      | Pulse_log _ l \<Rightarrow> l = logerror
      | Pulse_gemm started completed \<Rightarrow> \<not> (started \<and> completed)
      | Pulse_temp t \<Rightarrow> f_less (Fin 0) (uw_max_temp_c w) \<and> f_less (uw_max_temp_c w) t
      | _ \<Rightarrow> False)"

definition clean :: "pulse_worker \<Rightarrow> pulse_vars \<Rightarrow> bool" where
  "clean w v \<longleftrightarrow> (test_passed v \<longleftrightarrow> \<not> list_ex (bad_event w) (pulse_events v))"

lemma levels_differ [simp]: "logresults \<noteq> logerror" "loginfo \<noteq> logerror"
  by (simp_all add: logresults_def loginfo_def logerror_def)

lemma bad_event_simps [simp]:
  "bad_event w (Pulse_err t)" "bad_event w (Pulse_log t l) \<longleftrightarrow> l = logerror" "\<not> bad_event w (Pulse_result s r t)"
  "\<not> bad_event w (Pulse_json kvs l)" "\<not> bad_event w (Pulse_clk c m)" "\<not> bad_event w (Pulse_sleep_ms n)"
  "bad_event w (Pulse_gemm a b) \<longleftrightarrow> \<not> (a \<and> b)"
  "bad_event w (Pulse_temp x) \<longleftrightarrow> f_less (Fin 0) (uw_max_temp_c w) \<and> f_less (uw_max_temp_c w) x"
  by (simp_all add: bad_event_def)

lemma pulse_emit_fields [simp]:
  "test_passed (uv_emit es v) = test_passed v" "pulse_events (uv_emit es v) = pulse_events v @ es"
  "pulse_count (uv_emit es v) = pulse_count v" "pulse_gemm_count (uv_emit es v) = pulse_gemm_count v"
  by (simp_all add: uv_emit_def)

lemma clean_emit: "\<not> list_ex (bad_event w) es \<Longrightarrow> clean w (uv_emit es v) \<longleftrightarrow> clean w v"
  by (auto simp: clean_def)

lemma clean_failed: "list_ex (bad_event w) es \<Longrightarrow> clean w ((uv_emit es v)\<lparr>test_passed := False\<rparr>)"
  by (simp add: clean_def)

lemma clean_updates [simp]:
  "clean w (v\<lparr>pulse_gemm_count := n\<rparr>) \<longleftrightarrow> clean w v" "clean w (v\<lparr>pulse_count := n\<rparr>) \<longleftrightarrow> clean w v"
  "clean w (v\<lparr>pulse_temp := t\<rparr>) \<longleftrightarrow> clean w v" "clean w (v\<lparr>last_log_time := k\<rparr>) \<longleftrightarrow> clean w v"
  "clean w (v\<lparr>total_power_high := a, high_samples := n, max_power_high := b, pulse_peak_high := c\<rparr>) \<longleftrightarrow> clean w v"
  "clean w (v\<lparr>total_power_low := a, low_samples := n, min_power_low := b, pulse_trough_low := c\<rparr>) \<longleftrightarrow> clean w v"
  "clean w (v\<lparr>pulse_peak_high := a, pulse_trough_low := b\<rparr>) \<longleftrightarrow> clean w v"
  by (simp_all add: clean_def)

lemma gemm_loop_clean: "gemm_loop w s n xs v = Some (h, v') \<Longrightarrow> clean w v \<Longrightarrow> clean w v'"
  by (induction w s n xs v rule: gemm_loop.induct) (auto simp: Let_def clean_emit clean_failed split: if_splits)

lemma sample_high_clean: "sample_high w x v = (h, v') \<Longrightarrow> clean w v \<Longrightarrow> clean w v'"
  by (auto simp: sample_high_def clean_def Let_def split: if_splits)

lemma high_loop_clean: "high_loop w xs s last_sample v = Some (h, v') \<Longrightarrow> clean w v \<Longrightarrow> clean w v'"
proof (induction xs arbitrary: last_sample v)
  case Nil
  then show ?case by simp
next
  case (Cons x xs)
  then show ?case
    by (auto simp: Let_def split: if_splits option.splits prod.splits bool.splits
        dest: gemm_loop_clean sample_high_clean)
qed

lemma sample_low_clean: "clean w v \<Longrightarrow> clean w (sample_low x v)"
  by (simp add: sample_low_def clean_def Let_def)

lemma low_loop_clean: "low_loop w xs s last_sample v = Some v' \<Longrightarrow> clean w v \<Longrightarrow> clean w v'"
proof (induction xs arbitrary: last_sample v)
  case Nil
  then show ?case by simp
next
  case (Cons x xs)
  then show ?case by (auto simp: Let_def clean_emit sample_low_clean split: if_splits)
qed

lemma barrier_clean: "gpu_barrier_sync w x up v = (go, v') \<Longrightarrow> clean w v \<Longrightarrow> clean w v'"
  by (auto simp: gpu_barrier_sync_def clean_failed split: if_splits)

lemma pin_clean: "pin_clock b c a ls = (ok, es) \<Longrightarrow> \<not> list_ex (bad_event u) es"
  by (auto simp: pin_clock_def split: if_splits option.splits)

lemma clocks_clean:
  "\<not> list_ex (bad_event u) (snd (set_highest_clocks a b w))" "\<not> list_ex (bad_event u) (snd (set_lowest_clocks a b w))"
  by (auto simp: set_highest_clocks_def set_lowest_clocks_def Let_def split: prod.splits dest: pin_clean)

lemma record_clean: "\<not> list_ex (bad_event u) (pulse_record w x s v)"
  by (simp add: pulse_record_def pulse_json_def)

lemma log_clean: "clean w v \<Longrightarrow> clean w (pulse_log w x v)"
  by (simp add: pulse_log_def Let_def clean_emit)

text \<open>One turn of the loop, from the barrier on.\<close>

definition time_is_up :: "pulse_worker \<Rightarrow> int \<Rightarrow> pulse_round \<Rightarrow> bool" where
  "time_is_up w s x \<longleftrightarrow> 0 < uw_run_duration_ms w \<and> uw_run_duration_ms w \<le> time_diff_ms (pl_now x) s"

definition pulse_begun :: "pulse_worker \<Rightarrow> pulse_round \<Rightarrow> pulse_vars \<Rightarrow> pulse_vars" where
  "pulse_begun w x v = uv_emit (snd (set_highest_clocks (fst (pl_high_clk x)) (snd (pl_high_clk x)) w))
     (v\<lparr>pulse_peak_high := Fin 0, pulse_trough_low := Fin 999999, pulse_temp := Fin (-1), pulse_gemm_count := 0\<rparr>)"

definition pulse_lowered :: "pulse_worker \<Rightarrow> pulse_round \<Rightarrow> pulse_vars \<Rightarrow> pulse_vars" where
  "pulse_lowered w x v = uv_emit (snd (set_lowest_clocks (fst (pl_low_clk x)) (snd (pl_low_clk x)) w)) v"

definition pulse_ended :: "pulse_worker \<Rightarrow> pulse_round \<Rightarrow> int \<Rightarrow> pulse_vars \<Rightarrow> pulse_vars" where
  "pulse_ended w x s v = (let u = v\<lparr>pulse_count := pulse_count v + 1\<rparr> in pulse_log w x (uv_emit (pulse_record w x s u) u))"

lemma pulse_turn:
  assumes "pulse_loop w (x # xs) s v = Some v'" and "\<not> pl_stop_top x"
    and "gpu_barrier_sync w x (time_is_up w s x) v = (True, v1)"
  shows "high_loop w (pl_high x) (pl_high_start x) (pl_high_start x) (pulse_begun w x v1) = Some (True, v') \<or>
    (\<exists>v2 v3. high_loop w (pl_high x) (pl_high_start x) (pl_high_start x) (pulse_begun w x v1) = Some (False, v2) \<and>
       low_loop w (pl_low x) (pl_low_start x) (pl_low_start x) (pulse_lowered w x v2) = Some v3 \<and>
       (v' = pulse_ended w x s v3 \<or> pulse_loop w xs s (pulse_ended w x s v3) = Some v'))"
  using assms
  by (auto simp: Let_def time_is_up_def pulse_begun_def pulse_lowered_def pulse_ended_def
      split: option.splits bool.splits if_splits)

lemma pulse_stage_clean [simp]:
  "clean w (pulse_begun w x v) \<longleftrightarrow> clean w v" "clean w (pulse_lowered w x v) \<longleftrightarrow> clean w v"
  by (simp_all add: pulse_begun_def pulse_lowered_def clean_emit clocks_clean)

lemma ended_clean: "clean w v \<Longrightarrow> clean w (pulse_ended w x s v)"
  by (simp add: pulse_ended_def Let_def log_clean clean_emit record_clean)

lemma pulse_loop_ends:
  assumes "pl_stop_top x \<or> gpu_barrier_sync w x (time_is_up w s x) v = (False, v1)"
  shows "pulse_loop w (x # xs) s v = Some (if pl_stop_top x then v else v1)"
  using assms by (auto simp: time_is_up_def Let_def)

lemma pulse_loop_clean: "pulse_loop w xs s v = Some v' \<Longrightarrow> clean w v \<Longrightarrow> clean w v'"
proof (induction xs arbitrary: v)
  case Nil
  then show ?case by simp
next
  case (Cons x xs)
  obtain go v1 where b: "gpu_barrier_sync w x (time_is_up w s x) v = (go, v1)" by fastforce
  then have v1: "clean w v1" using Cons.prems(2) barrier_clean by blast
  show ?case
  proof (cases "pl_stop_top x \<or> \<not> go")
    case True
    then show ?thesis using pulse_loop_ends [of x w s v v1 xs] b Cons.prems v1 by (auto split: if_splits)
  next
    case False
    with pulse_turn [OF Cons.prems(1)] b v1 Cons.IH show ?thesis
      by (metis high_loop_clean low_loop_clean pulse_stage_clean ended_clean)
  qed
qed

text \<open>A pulse that is begun is counted, or ends the test with a failure.\<close>

lemma gemm_loop_halts: "gemm_loop w s n xs v = Some (h, v') \<Longrightarrow> pulse_count v' = pulse_count v \<and> (h \<longrightarrow> \<not> test_passed v')"
  by (induction w s n xs v rule: gemm_loop.induct) (auto simp: Let_def split: if_splits)

lemma sample_high_halts: "sample_high w x v = (h, v') \<Longrightarrow> pulse_count v' = pulse_count v \<and> (h \<longrightarrow> \<not> test_passed v')"
  by (auto simp: sample_high_def Let_def split: if_splits)

lemma high_loop_halts:
  "high_loop w xs s last_sample v = Some (h, v') \<Longrightarrow> pulse_count v' = pulse_count v \<and> (h \<longrightarrow> \<not> test_passed v')"
proof (induction xs arbitrary: last_sample v)
  case Nil
  then show ?case by simp
next
  case (Cons x xs)
  then show ?case
    by (auto split: if_splits option.splits prod.splits bool.splits dest!: gemm_loop_halts sample_high_halts)
qed

lemma low_loop_count: "low_loop w xs s last_sample v = Some v' \<Longrightarrow> pulse_count v' = pulse_count v"
proof (induction xs arbitrary: last_sample v)
  case Nil
  then show ?case by simp
next
  case (Cons x xs)
  have "pulse_count (sample_low x u) = pulse_count u" for u by (simp add: sample_low_def Let_def)
  with Cons show ?case by (auto simp: Let_def split: if_splits)
qed

lemma stage_count [simp]:
  "pulse_count (pulse_begun w x v) = pulse_count v" "pulse_count (pulse_lowered w x v) = pulse_count v"
  "pulse_count (pulse_ended w x s v) = pulse_count v + 1"
  by (simp_all add: pulse_begun_def pulse_lowered_def pulse_ended_def pulse_log_def Let_def)

lemma barrier_count: "gpu_barrier_sync w x up v = (go, v1) \<Longrightarrow> pulse_count v1 = pulse_count v"
  by (auto simp: gpu_barrier_sync_def split: if_splits)

lemma pulse_loop_counts: "pulse_loop w xs s v = Some v' \<Longrightarrow> pulse_count v \<le> pulse_count v'"
proof (induction xs arbitrary: v)
  case Nil
  then show ?case by simp
next
  case (Cons x xs)
  obtain go v1 where b: "gpu_barrier_sync w x (time_is_up w s x) v = (go, v1)" by fastforce
  note c = barrier_count [OF b]
  show ?case
  proof (cases "pl_stop_top x \<or> \<not> go")
    case True
    then show ?thesis using pulse_loop_ends [of x w s v v1 xs] b Cons.prems c by (auto split: if_splits)
  next
    case False
    with pulse_turn [OF Cons.prems] b c Cons.IH show ?thesis
      by (fastforce dest: high_loop_halts low_loop_count)
  qed
qed

definition first_pulse_begins :: "pulse_worker \<Rightarrow> pulse_input \<Rightarrow> bool" where
  "first_pulse_begins w i \<longleftrightarrow>
     (case ui_rounds i of
        [] \<Rightarrow> False
      | x # _ \<Rightarrow> \<not> pl_stop_top x \<and> \<not> (uw_sync w \<and> pl_done x) \<and>
                \<not> (0 < uw_run_duration_ms w \<and> uw_run_duration_ms w \<le> time_diff_ms (pl_now x) (ui_start i)))"

lemma first_pulse_counts:
  assumes "pulse_loop w (ui_rounds i) (ui_start i) v = Some v'" and "test_passed v'" and "pulse_count v = 0"
  shows "0 < pulse_count v' \<longleftrightarrow> first_pulse_begins w i"
proof (cases "ui_rounds i")
  case Nil
  then show ?thesis using assms(1) by simp
next
  case (Cons x xs)
  obtain go v1 where b: "gpu_barrier_sync w x (time_is_up w (ui_start i) x) v = (go, v1)" by fastforce
  have go: "go \<longleftrightarrow> \<not> time_is_up w (ui_start i) x \<and> \<not> (uw_sync w \<and> pl_done x)"
    using b by (auto simp: gpu_barrier_sync_def split: if_splits)
  note run = assms(1) [unfolded Cons]
  show ?thesis
  proof (cases "pl_stop_top x \<or> \<not> go")
    case True
    then have "pulse_count v' = 0"
      using pulse_loop_ends [of x w "ui_start i" v v1 xs] b run assms(3) barrier_count [OF b] by (auto split: if_splits)
    then show ?thesis using True go by (auto simp: first_pulse_begins_def Cons time_is_up_def)
  next
    case False
    then have "0 < pulse_count v'"
      using pulse_turn [OF run, of v1] b assms(2) by (fastforce dest: high_loop_halts pulse_loop_counts)
    then show ?thesis using False go by (simp add: first_pulse_begins_def Cons time_is_up_def)
  qed
qed

lemma verify_clean: "clean w v \<Longrightarrow> clean w (run_gemm_verify w ans v)"
  by (simp add: run_gemm_verify_def Let_def clean_failed split: prod.split)

lemma probe_clean: "probe_levels c l oks = (ls, es) \<Longrightarrow> \<not> list_ex (bad_event u) es"
  by (induction c l oks arbitrary: ls es rule: probe_levels.induct) (auto split: if_splits prod.splits)

lemma probe_clock_clean: "probe_clock c oks levels = (ls, es) \<Longrightarrow> \<not> list_ex (bad_event u) es"
  by (auto simp: probe_clock_def Let_def split: option.splits prod.splits if_splits dest!: probe_clean)

lemma discover_clean: "discover_valid_clock_levels a b w = (ok, w', es) \<Longrightarrow> \<not> list_ex (bad_event u) es"
  by (auto simp: discover_valid_clock_levels_def Let_def split: prod.splits dest: probe_clock_clean)

lemma discover_settings:
  "discover_valid_clock_levels a b w = (ok, w', es) \<Longrightarrow> \<exists>g m. w' = w\<lparr>valid_gfx_levels := g, valid_mem_levels := m\<rparr>"
  by (auto simp: discover_valid_clock_levels_def Let_def split: prod.splits)

text \<open>The run of a worker whose BLAS object was set up, in one equation.\<close>

lemma do_pulse_stress_cases:
  assumes "do_pulse_stress i w = Some (pass, w', evs)" and "ui_copied i"
  shows "\<exists>ok w0 es v1 v2.
    discover_valid_clock_levels (ui_sys_probe i) (ui_mem_probe i) w = (ok, w0, es) \<and>
    pulse_loop w0 (ui_rounds i) (ui_start i) v1 = Some v2 \<and>
    pulse_events v1 = es @ [pulse_start_line w0] \<and> test_passed v1 \<and> pulse_count v1 = 0 \<and>
    pass = fst (pulse_summary w0 (uv_emit (restore_clocks w0) (run_gemm_verify w0 (ui_verify i) v2))) \<and>
    w' = w0\<lparr>uw_passed := pass\<rparr> \<and>
    evs = pulse_events (run_gemm_verify w0 (ui_verify i) v2) @ restore_clocks w0 @
      snd (pulse_summary w0 (uv_emit (restore_clocks w0) (run_gemm_verify w0 (ui_verify i) v2)))"
proof -
  obtain ok w0 es where d: "discover_valid_clock_levels (ui_sys_probe i) (ui_mem_probe i) w = (ok, w0, es)"
    by (cases "discover_valid_clock_levels (ui_sys_probe i) (ui_mem_probe i) w") auto
  define v1 where "v1 = \<lparr>test_passed = True, max_power_high = Fin 0, min_power_low = Fin 999999, total_power_high = Fin 0,
                  total_power_low = Fin 0, high_samples = 0, low_samples = 0, pulse_count = 0, last_log_time = ui_start i,
                  pulse_events = es @ [pulse_start_line w0], pulse_peak_high = Fin 0, pulse_trough_low = Fin 999999,
                  pulse_temp = Fin (-1), pulse_gemm_count = 0\<rparr>"
  note run = assms(1) [unfolded do_pulse_stress_def Let_def d prod.case, folded v1_def]
  obtain v2 where l: "pulse_loop w0 (ui_rounds i) (ui_start i) v1 = Some v2"
    using run assms(2) by (auto split: option.splits)
  have "pulse_events v1 = es @ [pulse_start_line w0]" "test_passed v1" "pulse_count v1 = 0" by (simp_all add: v1_def)
  moreover have "pass = fst (pulse_summary w0 (uv_emit (restore_clocks w0) (run_gemm_verify w0 (ui_verify i) v2)))"
    "w' = w0\<lparr>uw_passed := pass\<rparr>"
    "evs = pulse_events (run_gemm_verify w0 (ui_verify i) v2) @ restore_clocks w0 @
      snd (pulse_summary w0 (uv_emit (restore_clocks w0) (run_gemm_verify w0 (ui_verify i) v2)))"
    using run assms(2) l by (simp_all split: prod.splits)
  ultimately show ?thesis using d l by blast
qed

text \<open>What the final check of the product has to answer.\<close>

definition product_ok :: "pulse_worker \<Rightarrow> bool \<times> fval \<times> fval \<Rightarrow> bool" where
  "product_ok w ans \<longleftrightarrow>
     (case (pulse_verify_flags (uw_verify_mode w) (uw_ops_type w) (uw_data_type w), ans) of
        ((self, accu), (answered, self_error, accu_error)) \<Rightarrow>
          (self \<or> accu \<longrightarrow> answered) \<and>
          (self \<or> accu \<and> 2048 < uw_matrix_size w \<longrightarrow> \<not> f_less (uw_tolerance w) self_error) \<and>
          (accu \<and> uw_matrix_size w \<le> 2048 \<longrightarrow> \<not> f_less (uw_tolerance w) accu_error))"

lemma verify_passes: "test_passed (run_gemm_verify w ans v) \<longleftrightarrow> test_passed v \<and> product_ok w ans"
  by (auto simp: run_gemm_verify_def product_ok_def Let_def split: prod.splits)

lemma verify_count: "pulse_count (run_gemm_verify w ans v) = pulse_count v"
  by (simp add: run_gemm_verify_def Let_def split: prod.split)

text \<open>
  C39: The verdict about a primary die is positive exactly when the BLAS object was set up, the first
  pulse was begun (no stop before it, its start within the duration, with a barrier no other
  worker done) and nothing in the trace of the run tells of a failure: no error is reported, every
  multiplication ran and completed, no temperature read is above the limit (if there is one).  The
  verdict is what the worker stores, and a positive one says that the final check of the product
  ran and found its errors within the tolerance, if the mode of verification asks for it.
\<close>

theorem pulse_pass_is_clean:
  assumes "do_pulse_stress i w = Some (pass, w', evs)" and "uw_mcm_type w = PRIMARY"
  shows "(pass \<longleftrightarrow> ui_copied i \<and> first_pulse_begins w i \<and> \<not> list_ex (bad_event w) evs) \<and> uw_passed w' = pass \<and>
    (pass \<longrightarrow> product_ok w (ui_verify i))"
proof (cases "ui_copied i")
  case False
  then show ?thesis using assms(1) by (auto simp: do_pulse_stress_def)
next
  case True
  obtain ok w0 es v1 v2 where
    d: "discover_valid_clock_levels (ui_sys_probe i) (ui_mem_probe i) w = (ok, w0, es)" and
    l: "pulse_loop w0 (ui_rounds i) (ui_start i) v1 = Some v2" and
    v1: "pulse_events v1 = es @ [pulse_start_line w0]" "test_passed v1" "pulse_count v1 = 0" and
    pass: "pass = fst (pulse_summary w0 (uv_emit (restore_clocks w0) (run_gemm_verify w0 (ui_verify i) v2)))" and
    w': "w' = w0\<lparr>uw_passed := pass\<rparr>" and
    evs: "evs = pulse_events (run_gemm_verify w0 (ui_verify i) v2) @ restore_clocks w0 @
      snd (pulse_summary w0 (uv_emit (restore_clocks w0) (run_gemm_verify w0 (ui_verify i) v2)))"
    using do_pulse_stress_cases [OF assms(1) True] by blast
  obtain g m where w0: "w0 = w\<lparr>valid_gfx_levels := g, valid_mem_levels := m\<rparr>" using discover_settings [OF d] by blast
  have same: "bad_event w0 = bad_event w" "first_pulse_begins w0 i = first_pulse_begins w i"
    "product_ok w0 = product_ok w" "uw_mcm_type w0 = PRIMARY"
    using assms(2)
    by (auto simp: w0 fun_eq_iff bad_event_def first_pulse_begins_def product_ok_def split: pulse_event.split list.split)
  let ?v = "run_gemm_verify w0 (ui_verify i) v2"
  have verdict: "pass \<longleftrightarrow> test_passed ?v \<and> 0 < pulse_count v2"
    using pass same(4) by (simp add: pulse_summary_def Let_def verify_count)
  have "clean w0 v1" using discover_clean [OF d] by (simp add: clean_def v1 pulse_start_line_def)
  then have c: "clean w0 ?v" using l pulse_loop_clean verify_clean by blast
  have "\<not> list_ex (bad_event w0) (restore_clocks w0)" by (simp add: restore_clocks_def)
  moreover have "\<not> list_ex (bad_event w0) (snd (pulse_summary w0 v))" for v
    by (simp add: pulse_summary_def pulse_json_def Let_def)
  ultimately have trace: "test_passed ?v \<longleftrightarrow> \<not> list_ex (bad_event w) evs"
    using c by (simp add: clean_def evs same(1))
  have checks: "test_passed ?v \<longleftrightarrow> test_passed v2 \<and> product_ok w (ui_verify i)" by (simp add: verify_passes same(3))
  have "test_passed v2 \<Longrightarrow> 0 < pulse_count v2 \<longleftrightarrow> first_pulse_begins w i"
    using first_pulse_counts [OF l _ v1(3)] same(2) by simp
  then show ?thesis using verdict trace checks True w' by auto
qed

section \<open>The clocks are restored\<close>

definition sets_clock :: "pulse_event \<Rightarrow> bool" where
  "sets_clock e \<longleftrightarrow> (case e of Pulse_clk _ _ \<Rightarrow> True | _ \<Rightarrow> False)"

text \<open>
  Whatever ends a test, the last requests about the clocks allow again every level that was found
  to be valid.
\<close>

theorem pulse_clocks_restored:
  assumes "do_pulse_stress i w = Some (pass, w', evs)" and "ui_copied i"
  shows "\<exists>before after. evs = before @ restore_clocks w' @ after \<and> \<not> list_ex sets_clock after"
proof -
  obtain w0 v2 where w': "w' = w0\<lparr>uw_passed := pass\<rparr>" and
    evs: "evs = pulse_events (run_gemm_verify w0 (ui_verify i) v2) @ restore_clocks w0 @
      snd (pulse_summary w0 (uv_emit (restore_clocks w0) (run_gemm_verify w0 (ui_verify i) v2)))"
    using do_pulse_stress_cases [OF assms] by blast
  have "\<not> list_ex sets_clock (snd (pulse_summary w0 v))" for v
    by (simp add: pulse_summary_def pulse_json_def sets_clock_def Let_def)
  moreover have "restore_clocks w' = restore_clocks w0" by (simp add: w' restore_clocks_def)
  ultimately show ?thesis using evs by metis
qed

text \<open>The high phase pins the level with the highest frequency.\<close>

lemma pick_fold:
  fixes freq :: "nat \<Rightarrow> u64"
  defines "step \<equiv> \<lambda>l best. if freq best < freq l then l else best"
  shows "(fold step ks b = b \<or> fold step ks b \<in> set ks) \<and> freq b \<le> freq (fold step ks b) \<and>
    (\<forall>l\<in>set ks. freq l \<le> freq (fold step ks b))"
proof (induction ks arbitrary: b)
  case Nil
  then show ?case by simp
next
  case (Cons k ks)
  have "freq b \<le> freq (step k b)" "freq k \<le> freq (step k b)" "step k b = b \<or> step k b = k"
    by (auto simp: step_def)
  with Cons.IH [of "step k b"] show ?case by (auto intro: order_trans)
qed

lemma pick_level_best:
  assumes "ls \<noteq> []"
  shows "pick_level (\<lambda>x y. y < x) freq ls \<in> set ls \<and> (\<forall>l\<in>set ls. freq l \<le> freq (pick_level (\<lambda>x y. y < x) freq ls))"
  using pick_fold [where freq = freq and ks = ls and b = "hd ls"] assms by (auto simp: pick_level_def)

section \<open>A pulse that never ends\<close>


lemma f_le_NaN_left [simp]: "\<not> f_le NaN v"
  by (cases v) (simp_all add: f_le_def)






section \<open>Instances\<close>

definition sample_pulse_worker :: "fval \<Rightarrow> pulse_worker" where
  "sample_pulse_worker ratio = \<lparr>uw_action_name = ''a'', uw_gpu_id = 7, uw_gpu_index = 0, uw_run_duration_ms = 0,
     uw_sample_interval = 100, uw_log_interval = 1000, uw_pulse_rate = 2, uw_high_phase_ratio = ratio, uw_tolerance = Fin 10,
     uw_max_temp_c = Fin 105, uw_matrix_size = 8, uw_ops_type = ''sgemm'', uw_data_type = [], uw_workload_iterations = 1,
     uw_halt_on_error = False, uw_verify_mode = ''none'', uw_mcm_type = PRIMARY, uw_sync = False, uw_bjson = False,
     uw_handle = True, valid_gfx_levels = [], valid_mem_levels = [], uw_passed = False\<rparr>"

text \<open>One pulse: both phases are over when their loops look at the clock first, then a stop.\<close>

definition sample_pulse_round :: pulse_round where
  "sample_pulse_round = \<lparr>pl_stop_top = False, pl_now = 0, pl_done = False, pl_synced = True,
     pl_high_clk = ((None, True), (None, True)), pl_high_start = 0,
     pl_high = [\<lparr>hr_top = 10 ^ 9, hr_gemms = [], hr_now = 0, hr_power = None, hr_junction = None, hr_edge = None\<rparr>],
     pl_high_end = 10 ^ 9, pl_low_clk = ((None, True), (None, True)), pl_low_start = 0,
     pl_low = [\<lparr>lr_top = 10 ^ 9, lr_now = 0, lr_power = None\<rparr>], pl_low_end = 10 ^ 9, pl_stop_bottom = True\<rparr>"

definition sample_pulse_input :: pulse_input where
  "sample_pulse_input = \<lparr>ui_copied = True, ui_sys_probe = Some [True, True], ui_mem_probe = None, ui_start = 0,
     ui_rounds = [sample_pulse_round], ui_verify = (True, Fin 0, Fin 0), ui_stop_end = False\<rparr>"

lemma sample_phases:
  assumes "uw_high_phase_ratio w = Fin 1" and "uw_pulse_rate w = 2"
  shows "high_phase_ms w = Fin 500" "low_phase_ms w = Fin 10"
  using assms by (simp_all add: high_phase_ms_def low_phase_ms_def period_ms_def f_max_def f_sub_def)

lemma sample_second: "ms_between 1000000000 0 = Fin 1000"
  by (simp add: ms_between_def)

lemma sample_pulse_loop:
  assumes "uw_high_phase_ratio w = Fin 1" and "uw_pulse_rate w = 2" and "uw_run_duration_ms w = 0" and "\<not> uw_sync w"
  shows "\<exists>v'. pulse_loop w [sample_pulse_round] 0 v = Some v' \<and> pulse_count v' = pulse_count v + 1 \<and>
    test_passed v' = test_passed v"
proof -
  have h: "high_loop w (pl_high sample_pulse_round) (pl_high_start sample_pulse_round) t u = Some (False, u)" for t u
    using sample_phases [OF assms(1,2)] sample_second by (simp add: sample_pulse_round_def f_le_def)
  have l: "low_loop w (pl_low sample_pulse_round) (pl_low_start sample_pulse_round) t u = Some u" for t u
    using sample_phases [OF assms(1,2)] sample_second by (simp add: sample_pulse_round_def f_le_def)
  have s: "\<not> pl_stop_top sample_pulse_round" "pl_stop_bottom sample_pulse_round"
    by (simp_all add: sample_pulse_round_def)
  have fields: "pulse_count (pulse_log w x u) = pulse_count u" "test_passed (pulse_log w x u) = test_passed u" for x u
    by (simp_all add: pulse_log_def Let_def)
  show ?thesis using assms(3,4) by (simp add: s h l gpu_barrier_sync_def Let_def fields)
qed

lemma sample_pulse_runs:
  "\<exists>w' evs. do_pulse_stress sample_pulse_input (sample_pulse_worker (Fin 1)) = Some (True, w', evs)"
proof -
  let ?w = "sample_pulse_worker (Fin 1)"
  obtain ok w0 es where d: "discover_valid_clock_levels (ui_sys_probe sample_pulse_input) (ui_mem_probe sample_pulse_input) ?w = (ok, w0, es)"
    by (cases "discover_valid_clock_levels (ui_sys_probe sample_pulse_input) (ui_mem_probe sample_pulse_input) ?w") auto
  from discover_settings [OF d] have w0: "uw_high_phase_ratio w0 = Fin 1" "uw_pulse_rate w0 = 2" "uw_run_duration_ms w0 = 0"
    "\<not> uw_sync w0" "uw_verify_mode w0 = ''none''" "uw_mcm_type w0 = PRIMARY"
    by (auto simp: sample_pulse_worker_def)
  have i: "ui_copied sample_pulse_input" "ui_rounds sample_pulse_input = [sample_pulse_round]" "ui_start sample_pulse_input = 0"
    by (simp_all add: sample_pulse_input_def)
  have no_check: "run_gemm_verify w0 ans v = v" for ans v
    using w0(5) by (simp add: run_gemm_verify_def pulse_verify_flags_def pulse_mode_normalize_def isspace_def lower_char_def)
  define v1 where "v1 = \<lparr>test_passed = True, max_power_high = Fin 0, min_power_low = Fin 999999, total_power_high = Fin 0,
                  total_power_low = Fin 0, high_samples = 0, low_samples = 0, pulse_count = 0, last_log_time = 0,
                  pulse_events = es @ [pulse_start_line w0], pulse_peak_high = Fin 0, pulse_trough_low = Fin 999999,
                  pulse_temp = Fin (-1), pulse_gemm_count = 0\<rparr>"
  obtain v2 where l: "pulse_loop w0 [sample_pulse_round] 0 v1 = Some v2" "pulse_count v2 = 1" "test_passed v2"
    using sample_pulse_loop [OF w0(1-4), of v1] by (auto simp: v1_def)
  have "fst (pulse_summary w0 (uv_emit (restore_clocks w0) v2))"
    using l(2,3) by (simp add: pulse_summary_def Let_def)
  then obtain sum_events where sum: "pulse_summary w0 (uv_emit (restore_clocks w0) v2) = (True, sum_events)"
    by (cases "pulse_summary w0 (uv_emit (restore_clocks w0) v2)") auto
  show ?thesis
    unfolding do_pulse_stress_def Let_def d prod.case i v1_def [symmetric] no_check l(1) option.case sum by (simp add: i(1))
qed

theorem pulse_pass_is_clean_witness:
  "\<exists>w' evs. do_pulse_stress sample_pulse_input (sample_pulse_worker (Fin 1)) = Some (True, w', evs) \<and>
     first_pulse_begins (sample_pulse_worker (Fin 1)) sample_pulse_input \<and>
     \<not> list_ex (bad_event (sample_pulse_worker (Fin 1))) evs"
proof -
  obtain w' evs where run: "do_pulse_stress sample_pulse_input (sample_pulse_worker (Fin 1)) = Some (True, w', evs)"
    using sample_pulse_runs by blast
  moreover have "uw_mcm_type (sample_pulse_worker (Fin 1)) = PRIMARY" by (simp add: sample_pulse_worker_def)
  ultimately show ?thesis using pulse_pass_is_clean [OF run] by blast
qed

theorem pulse_clocks_restored_witness:
  "\<exists>w' evs before after. do_pulse_stress sample_pulse_input (sample_pulse_worker (Fin 1)) = Some (True, w', evs) \<and>
     evs = before @ restore_clocks w' @ after \<and> \<not> list_ex sets_clock after"
proof -
  obtain w' evs where run: "do_pulse_stress sample_pulse_input (sample_pulse_worker (Fin 1)) = Some (True, w', evs)"
    using sample_pulse_runs by blast
  moreover have "ui_copied sample_pulse_input" by (simp add: sample_pulse_input_def)
  ultimately show ?thesis using pulse_clocks_restored [OF run] by blast
qed


end
