(* ===== verification/Spec2Isabelle.thy ===== *)
theory Spec2Isabelle
  imports Rvs_Cli Overview Exec_Sample Mem_Props Mem_Algorithms Peqt_Props
    Gm_Props Smqt_Props Pesm_Props Gst_Keys Iet_Props Perf_Props Pulse_Props
begin

text \<open>
  The ROCm Validation Suite: a launcher that reads a command line and a YAML file, a manager that
  loads test modules as shared libraries, a library of services (logger, options, GPU tables) and
  the modules with the tests.  All paths are relative to the root of the repository.

  \<^bold>\<open>How the parts interact.\<close>  A client calls the session interface (\<open>Session\<close>) or the launcher.
  Both drive the executor (\<open>Exec_Yaml\<close>, \<open>Exec_Run\<close>), which takes its options from the command line
  parser (\<open>Rvs_Cli\<close>, \<open>Rvs_Options\<close>), walks the actions of the configuration, asks the module manager
  (\<open>Module_Manager\<close>) for an action object of the module a step names, hands it the properties as
  strings, runs it and reports through callbacks.  A module (\<open>Module_Lib\<close>) is a record of exported
  functions over its own world; its action (\<open>Action_Base\<close>) turns the strings into typed
  configuration, picks GPUs (\<open>Gpu_List\<close>) and runs its workers.  Everything logs (\<open>Logger\<close>,
  \<open>Log_Node\<close>).  The root theory proves the properties that span these parts.

  \<^bold>\<open>Theories and sources.\<close>

  \<^item> \<open>Prelude\<close>, \<open>Ordered_Map\<close>: \<^verbatim>\<open>std::string\<close> and \<^verbatim>\<open>std::map\<close> as the sources use them.
  \<^item> \<open>Rvs_Util\<close>: \<^verbatim>\<open>src/rvs_util.cpp\<close>, \<^verbatim>\<open>include/rvs_util.h\<close> (splitting, number parsing, paths).
  \<^item> \<open>Rvs_Options\<close>, \<open>Rvs_Cli\<close>: \<^verbatim>\<open>rvs/src/rvsoptions.cpp\<close>, \<^verbatim>\<open>rvs/src/rvscli.cpp\<close>; the context stack
    of the parser is a list, the option store an ordered map.
  \<^item> \<open>Log_Node\<close>, \<open>Logger\<close>: \<^verbatim>\<open>src/rvslognode*.cpp\<close>, \<^verbatim>\<open>src/rvsliblogger.cpp\<close>; the static variables of
    the logger are the record \<open>logger\<close>, files are contents.
  \<^item> \<open>Action_Base\<close>: \<^verbatim>\<open>src/rvsactionbase.cpp\<close>; the keys every action shares.
  \<^item> \<open>Gpu_List\<close>, \<open>Overview\<close>: \<^verbatim>\<open>src/gpu_util.cpp\<close> and the tables the launcher prints.
  \<^item> \<open>Session\<close>: \<^verbatim>\<open>rvs/src/rvs_interface.cpp\<close>; one call of the interface is one step, the abstract
    session machine is \<open>spec_step\<close>.
  \<^item> \<open>Module_Manager\<close>, \<open>Module_Lib\<close>: \<^verbatim>\<open>rvs/src/rvsmodule.cpp\<close>, \<^verbatim>\<open>rvsaction.cpp\<close>, \<^verbatim>\<open>rvsif*.cpp\<close> and
    \<^verbatim>\<open>gst.so/src/rvs_module.cpp\<close>; a library is a record of functions.
  \<^item> \<open>Exec_Yaml\<close>, \<open>Exec_Run\<close>: \<^verbatim>\<open>rvs/src/rvsexec_do_yaml.cpp\<close>, \<^verbatim>\<open>rvs/src/rvsexec.cpp\<close>.  A YAML document
    is the answers of the accessor calls the code makes.  \<open>Exec_Props\<close>, \<open>Exec_Facts\<close> hold the lemmas
    (what a run keeps, what it leaves, a specification without loops), \<open>Exec_Sample\<close> an instance.
  \<^item> \<open>Mem_Kernel\<close>, \<open>Mem_Host\<close>, \<open>Mem_Worker\<close>: the memory test, \<^verbatim>\<open>mem.so/src/rvs_memtest.cpp\<close>,
    \<^verbatim>\<open>rvs_memworker.cpp\<close>, \<^verbatim>\<open>action.cpp\<close>.  \<open>Mem_Facts\<close> (what every step keeps, a launch keeps under every
    interleaving), \<open>Mem_Regions\<close> (blocks as ranges of cells), \<open>Mem_Tests\<close> (the eleven tests inside
    the locale \<open>kernel_contract\<close>), \<open>Mem_Safety\<close> (its interpretations), \<open>Mem_Moving\<close>,
    \<open>Mem_Algorithms\<close> (what single tests do on a healthy memory) and \<open>Mem_Props\<close> prove its properties.
  \<^item> \<open>Pci_Caps\<close>, \<open>Peqt\<close>, \<open>Peqt_Props\<close>: the PCIe qualification, \<^verbatim>\<open>src/pci_caps.cpp\<close> and
    \<^verbatim>\<open>peqt.so/src/action.cpp\<close>; the register layout of the system headers, the answers of the PCI
    library and the regular expression engine are arguments.
  \<^item> \<open>Float_Model\<close>, \<open>Stof\<close>: IEEE single and double precision as rounding of exact rationals, and
    \<^verbatim>\<open>property_get<float>\<close> of \<^verbatim>\<open>src/rvsactionbase.cpp\<close>.
  \<^item> \<open>Rsmi_Util\<close>: \<^verbatim>\<open>src/rsmi_util.cpp\<close>; \<open>Gm_Worker\<close>, \<open>Gm_Action\<close>, \<open>Gm_Props\<close>: the GPU monitor
    \<^verbatim>\<open>gm.so\<close>, a run being a list of sweeps of samples and timer ticks.
  \<^item> \<open>Smqt\<close>, \<open>Smqt_Props\<close>: the SBIOS mapping test \<^verbatim>\<open>smqt.so\<close>.  \<open>Pesm\<close>, \<open>Pesm_Props\<close>: the power state
    monitor \<^verbatim>\<open>pesm.so\<close>, a run being a list of rounds over the devices.
  \<^item> \<open>Gpu_Select\<close>, \<open>Key_Table\<close>: the selection of devices every action makes, and the reading of its
    keys as tables of rows (key, message, reader).
  \<^item> \<open>Gst_Worker\<close>, \<open>Gst_Action\<close>, \<open>Gst_Props\<close>, \<open>Gst_Keys\<close>: the GPU stress test \<^verbatim>\<open>gst.so\<close>; a run of a
    worker is a list of rounds of its ramp and of its test, each with the answers of the clock and
    of the BLAS object.
  \<^item> \<open>Tst\<close>, \<open>Tst_Props\<close>: the thermal stress test \<^verbatim>\<open>tst.so\<close>.  \<open>Iet\<close>, \<open>Iet_Action\<close>, \<open>Iet_Props\<close>: the
    input EDPp test \<^verbatim>\<open>iet.so\<close>.  Their loads run in threads beside the sampling loop and are modelled
    beside it.
  \<^item> \<open>Perf\<close>, \<open>Perf_Props\<close>: the performance test \<^verbatim>\<open>perf.so\<close>, with what the executor makes of its result.
    \<open>Pulse\<close>, \<open>Pulse_Action\<close>, \<open>Pulse_Props\<close>: the power pulse test \<^verbatim>\<open>pulse.so\<close>.  \<open>Pulse_Sync\<close>,
    \<open>Pulse_Sync_Props\<close>: the synchronisation of its workers as a step relation, one step for one access
    of a thread to what the threads share.

  \<^bold>\<open>What the lemmas show.\<close>  The session table keeps its invariant and refines a four-state machine;
  a stuck in-progress session is characterised.  The command line parser accepts exactly the
  sentences of its grammar, stores what was bound, and returns.  The executor runs the selected
  actions in order, once per repetition, passes every property in the order of the file, and
  reports completion exactly when it succeeds.  The common configuration is accepted exactly under
  the stated conditions.  Log records round-trip through JSON, the log documents have the stated
  shape, a stopped logger writes nothing.  The module manager loads a library once and every action
  has its interfaces.  The GPU look-ups find what was entered.  The memory test stays inside its
  region, comes back, and never reports an error.
  The verdict of the PCIe qualification is the conjunction of its checks over the selected GPUs, its
  result does not depend on it, and most power budgeting texts cannot be read.
  The GPU monitor counts exactly the samples outside of the bounds and, with the key terminate, ends
  on the first.  The look-up of a processor handle only finds the first entry of its map.  The SBIOS
  mapping test passes when all selected devices are within the bounds, and never again after a bad
  key.  The power state monitor reports the changes between its samples.
  The GPU stress test passes exactly when an interval of the test reaches the target, its worker
  comes back, its keys are accepted exactly under the stated conditions, and with a broken BLAS
  object its verdict is not written.  The thermal test decides by the highest junction temperature,
  which its action ignores; the EDPp test decides by the highest power, and its second pass leaves
  the vector of its workers.
  A performance test is a failed action for the executor whatever its outcome.  The workers of a
  pulse test never block each other and leave together as long as none leaves early; one that does
  blocks the others for ever.  A positive verdict of a pulse test stands for a run without errors,
  the clocks are restored at its end, and with the ratio "nan" it does not end.

  \<^bold>\<open>Bounds and fuel.\<close>  Machine integers are words of their width where they are stored or wrap;
  string positions are \<open>nat\<close> (strings shorter than \<open>2 ^ 31\<close>).  Loops that may not end are
  \<open>partial_function (option)\<close>: the splitting loop with an empty delimiter, the walk over the
  address bits, the rounds of an action without a count.  Their termination is proved where it
  holds.  Block indexes of the memory test stay below \<open>2 ^ 32 - 128\<close>.

  \<^bold>\<open>Abstractions.\<close>  A mutex is the atomicity of the operation it protects; sleeps take no time
  that the model sees; clocks and random numbers are inputs.  The executor lives inside the one
  session the library allows (\<open>rvs_max_sessions\<close>).  Log node trees are values, so the sharing of
  nodes that \<^verbatim>\<open>AddNode\<close> permits is not modelled.  In the memory test one loop body of a thread is one
  step, workers that run in parallel are taken one after the other, and a failing \<^verbatim>\<open>HIP_CHECK\<close> ends
  the process.

  \<^bold>\<open>Not modelled.\<close>  The frames of the progress spinner and the help text (output only); the
  wrappers around hipBLASLt, rocBLAS and HSA (mostly calls of libraries that are not here); build
  files, packaging and tests; the test modules not listed above.
\<close>

section \<open>The session interface over the executor\<close>

definition sample_table :: "rvs_session_state_t \<Rightarrow> (unit, (nat, nat, unit) exec) rvs_lib" where
  "sample_table st = \<lparr>rvs_state = RVS_STATE_INITIALIZED, rvs_session =
     [\<lparr>ses_id = 1, ses_state = st, ses_callback = Some (),
       ses_property = (if st = RVS_SESSION_STATE_CREATED then Default_conf 0 else Custom_conf ''rvs.conf''),
       ses_executor = None\<rparr>]\<rparr>"

lemma sample_created: "reachable e r (sample_table RVS_SESSION_STATE_CREATED)"
proof -
  have "reachable e r (snd (rvs_initialize lib_start))"
    by (rule reach_step [OF reach_start, of _ _ Initialize]) simp
  from reach_step [OF this, of "Create True (Some ())"] show ?thesis
    by (simp add: rvs_initialize_def lib_start_def rvs_max_sessions_def zero_session_def rvs_session_create_def
        rvs_get_session_instance_def set_slot_def sample_table_def)
qed

lemma sample_ready: "reachable e r (sample_table RVS_SESSION_STATE_READY)"
  using reach_step [OF sample_created, of e r "Set_property 1 (Some (Custom_conf ''rvs.conf''))"]
  by (simp add: sample_table_def rvs_session_set_property_def rvs_validate_session_def set_slot_def Let_def)

lemmas sample_exec_created = sample_created [where r = "session_run sample_x_env () 1" and
    e = "exec_new (sys_start 0 (sample_logger False)) gpulist_empty"]

lemmas sample_exec_ready = sample_ready [where r = "session_run sample_x_env () 1" and
    e = "exec_new (sys_start 0 (sample_logger False)) gpulist_empty"]

text \<open>
  C2: However the calls of the interface follow one another, with the launcher's executor behind
  it, the session table keeps its invariant: a slot is idle exactly when it is free (no id, no
  callback, no executor), and a busy slot carries its own index plus one and a callback.
\<close>

theorem session_table_invariant:
  assumes "reachable (exec_new s g) (session_run env cb sid) l"
  shows "length (rvs_session l) = rvs_max_sessions \<and> (\<forall>i < length (rvs_session l). slot_ok i (rvs_session l ! i))"
  using rvs_exec.reachable_ok [OF assms] by (simp add: lib_ok_def)

theorem session_table_invariant_witness:
  "slot_ok 0 (rvs_session (sample_table RVS_SESSION_STATE_READY) ! 0)"
  using session_table_invariant [OF sample_exec_ready] by (simp add: rvs_max_sessions_def)

text \<open>
  C1: Every call that returns is a step of the abstract session machine: it leaves the states of
  the sessions alone, or makes the one transition the machine allows for that call.
\<close>

theorem session_refines_machine:
  assumes "reachable (exec_new s g) (session_run env cb sid) l"
    and "call_step (exec_new s g) (session_run env cb sid) l c = Some l'"
  shows "spec_step (abs_lib l) c (abs_lib l')"
  by (rule rvs_exec.call_step_refines [OF rvs_exec.reachable_ok [OF assms(1)] assms(2)])

theorem session_refines_machine_witness:
  "spec_step (abs_lib (sample_table RVS_SESSION_STATE_CREATED)) (Set_property 1 (Some (Custom_conf ''rvs.conf'')) :: unit call)
     (abs_lib (sample_table RVS_SESSION_STATE_READY))"
  by (rule session_refines_machine [OF sample_exec_created])
    (simp add: sample_table_def rvs_session_set_property_def rvs_validate_session_def set_slot_def Let_def)

text \<open>
  C3: A call other than a run succeeds exactly when its guard holds on the abstract state: the
  library is in the right state, the id names a session, and that session is in a state the call
  is meant for.  (Destroying the id 0 succeeds while a slot is idle.)
\<close>

theorem session_call_accepted_iff:
  assumes "reachable (exec_new s g) (session_run env cb sid) l" and "call_status l c = Some st"
  shows "st = RVS_STATUS_SUCCESS \<longleftrightarrow> enabled (abs_lib l) c"
  by (rule status_enabled [OF rvs_exec.reachable_ok [OF assms(1)] assms(2)])

theorem session_call_accepted_iff_witness:
  "fst (rvs_session_destroy (sample_table RVS_SESSION_STATE_CREATED) 1) = RVS_STATUS_SUCCESS \<and>
   fst (rvs_session_destroy (sample_table RVS_SESSION_STATE_CREATED) 2) \<noteq> RVS_STATUS_SUCCESS"
  using session_call_accepted_iff [OF sample_exec_created, of "Destroy 1"]
    session_call_accepted_iff [OF sample_exec_created, of "Destroy 2"]
  by (simp add: sample_table_def abs_lib_def)

text \<open>
  C4: When a run is reported successful, its session ends in the state "completed", from which it
  can be configured again, and the application's callback was called.
\<close>

theorem session_success_completes:
  assumes "reachable (exec_new s g) (session_run env cb sid) l"
    and "rvs_session_execute (exec_new s g) (session_run env cb sid) l n = Some (RVS_STATUS_SUCCESS, l', evs)"
  shows "\<exists>i < length (rvs_session l). n = i + 1 \<and>
     ses_state (rvs_session l' ! i) = RVS_SESSION_STATE_COMPLETED \<and> evs \<noteq> [] \<and>
     rvs_validate_session l' n = Some i"
  by (rule rvs_exec.execute_success_completes [OF rvs_exec.reachable_ok [OF assms(1)] assms(2)])

theorem session_success_completes_witness:
  "\<exists>l' evs. rvs_session_execute sample_exec (session_run sample_x_env () 1)
      (sample_table RVS_SESSION_STATE_READY) 1 = Some (RVS_STATUS_SUCCESS, l', evs) \<and>
    ses_state (rvs_session l' ! 0) = RVS_SESSION_STATE_COMPLETED"
proof -
  let ?r = "session_run sample_x_env () 1" and ?l = "sample_table RVS_SESSION_STATE_READY"
  obtain rs y where run: "?r sample_exec [(''conf'', ''rvs.conf'')] = (Some 0, rs, y)"
    using sample_run by blast
  have ok: "lib_ok ?l" by (simp add: lib_ok_def sample_table_def rvs_max_sessions_def slot_ok_def known_type_def)
  have sel: "rvs_state ?l = RVS_STATE_INITIALIZED" "0 < length (rvs_session ?l)"
    "ses_state (rvs_session ?l ! 0) = RVS_SESSION_STATE_READY"
    "execute_options (ses_property (rvs_session ?l ! 0)) = Some (Inr [(''conf'', ''rvs.conf'')])"
    "(case ses_executor (rvs_session ?l ! 0) of None \<Rightarrow> sample_exec | Some e \<Rightarrow> e) = sample_exec"
    by (simp_all add: sample_table_def execute_options_def)
  note rdy = rvs_exec.execute_ready [OF ok sel(1-4), where env = sample_x_env and cb = "()" and sid = 1 and
      s = "sys_start 0 (sample_logger False)" and g = gpulist_empty, folded sample_exec_def]
  have "rvs_session_execute sample_exec ?r ?l (0 + 1) =
      Some (if (0::int) \<noteq> 0 then RVS_STATUS_FAILED else RVS_STATUS_SUCCESS,
        set_slot ?l 0 ((rvs_session ?l ! 0)\<lparr>ses_state := state_after RVS_SESSION_STATE_INITIATED rs,
          ses_executor := Some y\<rparr>), map (\<lambda>r. (the (ses_callback (rvs_session ?l ! 0)), 0 + 1, r)) rs)"
    by (rule rdy) (simp only: sel(5) run)
  then obtain l' evs where e: "rvs_session_execute sample_exec ?r ?l 1 = Some (RVS_STATUS_SUCCESS, l', evs)"
    by simp
  from session_success_completes [OF sample_exec_ready, of 1 l' evs] e show ?thesis
    by (auto simp: sample_exec_def)
qed



section \<open>What a run executes\<close>

text \<open>
  C6: When every action has a name, a run executes the actions the value of the option \<^verbatim>\<open>-s\<close> names, in
  the order of the file and as often as it is asked to.  The value is a list of words between commas
  and white space.  Without a word every action is executed; when each word is the decimal number of
  a position (below \<open>2 ^ 31\<close>, with an optional plus sign), the actions at these positions, counted
  from 0; otherwise the actions whose name is one of the words.
\<close>

theorem run_executes_the_selection:
  assumes "list_all named as" and "word_list (case om_find opt ''-s'' of None \<Rightarrow> [] | Some v \<Rightarrow> v) ws"
  shows "times_loop env (select_actions opt) as n x =
    run_list env (concat (replicate n
      (if ws = [] then as
       else if \<forall>w \<in> set ws. \<exists>k. position_number w k then nths as {k. \<exists>w \<in> set ws. position_number w k}
       else filter (\<lambda>a. the_name a \<in> set ws) as))) x"
  by (simp only: times_loop_chosen [OF assms(1)] chosen_picked [OF assms(2)] picked_def)

lemma sample_words: "word_list ''1,0'' [''1'', ''0'']" "word_list ''c,1'' [''c'', ''1'']"
proof -
  have d: "\<not> word_end (CHR ''0'')" "\<not> word_end (CHR ''1'')" "\<not> word_end (CHR ''c'')" "word_end (CHR '','')"
    by (simp_all add: word_end_def isspace_def)
  have one: "word_list (c # rest) ([c] # ws)"
    if "\<not> word_end c" "rest = [] \<or> word_end (hd rest)" "word_list rest ws" for c rest ws
    using word_list_word [of "[c]" rest ws] that by simp
  show "word_list ''1,0'' [''1'', ''0'']" "word_list ''c,1'' [''c'', ''1'']"
    by (intro one word_list_skip word_list_end; simp add: d)+
qed

theorem run_executes_the_selection_witness:
  "times_loop sample_x_env (select_actions [(''-s'', ''1,0'')])
      [sample_action ''a'', sample_action ''b'', sample_action ''c''] 1 sample_loaded =
    run_list sample_x_env [sample_action ''a'', sample_action ''b''] sample_loaded \<and>
   times_loop sample_x_env (select_actions [(''-s'', ''c,1'')])
      [sample_action ''a'', sample_action ''b'', sample_action ''c''] 1 sample_loaded =
    run_list sample_x_env [sample_action ''c''] sample_loaded"
proof -
  have named: "list_all named [sample_action ''a'', sample_action ''b'', sample_action ''c'']"
    by (simp add: named_def sample_action_def)
  have pos: "position_number ''0'' k \<longleftrightarrow> k = 0" "position_number ''1'' k \<longleftrightarrow> k = 1" "\<not> position_number ''c'' k" for k
    using stoi_position [of "''0''" k] stoi_position [of "''1''" k] stoi_position [of "''c''" k]
    by (auto simp: std_string_simps)
  have no: "\<not> Ex (position_number ''c'')" using pos(3) by blast
  let ?as = "[sample_action ''a'', sample_action ''b'', sample_action ''c'']"
  have names: "the_name (sample_action n) = n" for n by (simp add: the_name_def sample_action_def)
  have picks: "picked [''1'', ''0''] ?as = [sample_action ''a'', sample_action ''b'']"
    "picked [''c'', ''1''] ?as = [sample_action ''c'']"
    by (simp_all add: picked_def pos no nths_Cons names)
  have words: "word_list (case om_find [(''-s'', ''1,0'')] ''-s'' of None \<Rightarrow> [] | Some v \<Rightarrow> v) [''1'', ''0'']"
    "word_list (case om_find [(''-s'', ''c,1'')] ''-s'' of None \<Rightarrow> [] | Some v \<Rightarrow> v) [''c'', ''1'']"
    by (simp_all add: sample_words)
  have once: "concat (replicate 1 xs) = xs" for xs :: "yaction list" by simp
  note r = run_executes_the_selection [OF named words(1), of sample_x_env 1 sample_loaded, folded picked_def, unfolded picks once]
    run_executes_the_selection [OF named words(2), of sample_x_env 1 sample_loaded, folded picked_def, unfolded picks once]
  show ?thesis by (rule conjI [OF r])
qed

text \<open>
  A run of actions that reaches its end has one summary row for each action executed, in order,
  with the name of the action and the upper-case name of its module; rows of earlier runs stay.
\<close>

theorem summary_has_a_row_per_action:
  assumes "run_list env as x = (Ret Next, y)"
  shows "\<exists>rs. action_details y = action_details x @ rs \<and> list_all2 row_of as rs"
  by (rule run_list_rows [OF assms])

theorem summary_has_a_row_per_action_witness:
  "\<exists>y r. run_list sample_x_env [sample_action ''a''] sample_loaded = (Ret Next, y) \<and>
     action_details y = [r] \<and> ea_name r = ''a''"
proof -
  obtain y where "yaml_action sample_x_env (sample_action ''a'') sample_loaded = (Ret Next, y)"
    using sample_action_runs by blast
  then have run: "run_list sample_x_env [sample_action ''a''] sample_loaded = (Ret Next, y)" by simp
  obtain rs where "action_details y = action_details sample_loaded @ rs" "list_all2 row_of [sample_action ''a''] rs"
    using summary_has_a_row_per_action [OF run] by blast
  then show ?thesis using run
    by (auto simp: list_all2_Cons1 sample_loaded_def sample_exec_def exec_new_def row_of_def sample_action_def)
qed

text \<open>
  Whether an action fails when it runs does not matter to the actions after it: the loop goes
  on exactly when the properties were set without an error code and without an exception.
\<close>

theorem failed_action_does_not_end_the_run:
  "fst (action_body env a n m pa act x) = Ret Next \<longleftrightarrow>
   fst (do_yaml_properties env (a_lib pa) act m (ya_props a) x) = Ret 0"
  by (rule body_continues)



text \<open>
  The option \<^verbatim>\<open>-i\<close> matters only to an action that has a \<open>device\<close> key of its own: without one,
  the properties are those of a run without the option.
\<close>

theorem indexes_need_a_device_key:
  assumes "list_all (\<lambda>p. p_key p \<noteq> Inr ''device'') props"
  shows "props_plan devices m (Some indexes) props = props_plan devices m None props"
proof -
  have "prop_plan devices m (Some indexes) p = prop_plan devices m None p" if "p_key p \<noteq> Inr ''device''" for p
    using that by (auto simp: prop_plan_def split: sum.splits)
  then show ?thesis using assms by (induction props) (auto simp: Let_def)
qed

theorem indexes_need_a_device_key_witness:
  "props_plan 8 ''gst'' (Some ''3'') [\<lparr>p_key = Inr ''count'', p_value = \<lparr>y_null = False, y_string = Inr ''1''\<rparr>, p_children = []\<rparr>] =
     ([(''count'', ''1'')], None)"
  using indexes_need_a_device_key [of "[\<lparr>p_key = Inr ''count'', p_value = \<lparr>y_null = False, y_string = Inr ''1''\<rparr>, p_children = []\<rparr>]"
      8 "''gst''" "''3''"]
  by (simp add: prop_plan_def is_yaml_properties_collection_def)

text \<open>
  C9: A run over an option map that returns 0 has told the application's callback last that the
  session completed successfully, and has unloaded every module.
\<close>

theorem successful_run_reports_completion:
  assumes "exec_run_opt env opt x = (Ret 0, y)" and "app_callback x = Some cb"
  shows "(\<exists>cs. x_calls y = x_calls x @ cs @ [(cb, user_param x, success_result)]) \<and> s_modulemap (x_sys y) = []"
  using run_opt_zero [OF assms] run_opt_unloads [OF assms(1)] by blast

theorem successful_run_reports_completion_witness:
  "\<exists>y. exec_run_opt sample_x_env [(''conf'', ''c'')] (snd (set_callback (Some ()) 1 sample_exec)) = (Ret 0, y) \<and>
     x_calls y \<noteq> [] \<and> last (x_calls y) = ((), 1, success_result)"
proof -
  obtain y where run: "exec_run_opt sample_x_env [(''conf'', ''c'')] (snd (set_callback (Some ()) 1 sample_exec)) = (Ret 0, y)"
    using sample_run_opt by blast
  have cb: "app_callback (snd (set_callback (Some ()) 1 sample_exec)) = Some ()"
    "user_param (snd (set_callback (Some ()) 1 sample_exec)) = 1"
    by (simp_all add: set_callback_def)
  from successful_run_reports_completion [OF run cb(1)] run cb(2) show ?thesis by auto
qed

text \<open>
  The configuration of a module is searched for in three places for each candidate name: the
  shared directory of the platform, the platform directory beside the executable, and the
  directory of the common configurations; the first file that exists is used.
\<close>

theorem configuration_search_order:
  "find_conf env path platform confs c =
     (case find (x_file_good env) (concat (map (conf_candidates path platform) confs)) of
        Some f \<Rightarrow> (True, f)
      | None \<Rightarrow> (False, if confs = [] then c else path @ ''conf/'' @ last confs))"
  by (rule find_conf_first)

section \<open>From the command line to the action\<close>

text \<open>
  C7: The duration given with \<^verbatim>\<open>-t\<close>, in seconds, reaches the action of a module as its \<open>duration\<close>
  key in milliseconds, whatever the configuration file says; the product wraps at 64 bits.
\<close>

theorem duration_option_reaches_the_action:
  fixes x :: "(('cb, 'up) module_world, nat, 'ecb) exec"
  assumes "parallel_valid (x_options env)" and "om_find (x_options env) ''-t'' = Some t"
    and "stoull t = Inr (v, k)" and "snd (props_plan (x_smi_devices env) m (option_indexes (x_options env)) props) = None"
    and "action_alive act (s_world (x_sys x))"
  shows "\<exists>y a. do_yaml_properties env (gst_module fill raw cb up run) act m props x = (Ret 0, y) \<and>
    mw_actions (s_world (x_sys y)) act = Some a \<and>
    property_get_int_def a ''duration'' old d = (0, v * 1000)"
proof -
  let ?lib = "gst_module fill raw cb up run" and ?x = "x_log env (''Module name :'' @ m) logresults x"
  obtain kvs where kvs: "props_plan (x_smi_devices env) m (option_indexes (x_options env)) props = (kvs, None)"
    using assms(4) by (metis prod.collapse)
  let ?pl = "kvs @ parallel_plan (x_options env) @ [(''duration'', to_string (unat (v * 1000)))]"
  have pl: "properties_plan (x_options env) (x_smi_devices env) m props = (?pl, None)"
    by (simp add: properties_plan_def kvs duration_plan_def assms(2,3))
  have alive: "action_alive act (s_world (x_sys ?x))" using assms(5) by (simp add: x_log_def)
  obtain r y where sa: "set_all env ?lib act ?pl 0 ?x = (r, y)" by fastforce
  note look = gst.set_all_look [OF alive, of env fill raw cb up run ?pl 0, unfolded sa]
  have run: "do_yaml_properties env ?lib act m props x = (Ret 0, y)"
    using look by (simp only: properties_follow [OF assms(1)] pl follow_def fst_conv snd_conv sa Let_def
        case_prod_conv option.case)
  obtain a where a: "mw_actions (s_world (x_sys y)) act = Some a"
    using look by (auto simp: action_alive_def)
  have "action_property act (s_world (x_sys y)) ''duration'' =
      (action_property act (s_world (x_sys ?x)) ++ map_of (rev ?pl)) ''duration''"
    using look by (simp only: snd_conv)
  then have "om_find (property a) ''duration'' = Some (to_string (unat (v * 1000)))"
    using a by (simp add: action_property_def)
  moreover have "unat (v * 1000) < 2 ^ 64" using unsigned_less [of "v * 1000"] by simp
  ultimately have "property_get_int_def a ''duration'' old d = (0, v * 1000)"
    by (simp add: property_get_int_def_cases uint_text_def to_string_digits dec_val_to_string)
  with run a show ?thesis by blast
qed

definition sample_world :: "(unit, unit) module_world" where
  "sample_world = \<lparr>mw_next = 1, mw_actions = [0 \<mapsto> sample_raw], mw_gpus = gpulist_empty\<rparr>"

definition timed_env :: "((unit, unit) module_world, nat) exec_env" where
  "timed_env = \<lparr>x_env = \<lparr>e_os = sample_os, e_options = [(''-t'', ''20'')], e_dlopen = (\<lambda>_. None),
       e_dlerror = [], e_modules_lib_dir = []\<rparr>,
     x_modules_file = (\<lambda>_. No_file), x_file_good = (\<lambda>_. True),
     x_load_file = (\<lambda>_. Inr None), x_load_string = (\<lambda>_. Inr None), x_data_root = [],
     x_versions = \<lparr>v_os = [], v_rvs = [], v_rocm = [], v_amdgpu = []\<rparr>, x_smi_devices = 0, x_smi_ids = [],
     x_power = None, x_garbage = (0, 0), x_nodes = [], x_hip = []\<rparr>"

theorem duration_option_reaches_the_action_witness:
  "\<exists>y a. do_yaml_properties timed_env (gst_module id sample_raw () () (\<lambda>act st. ((0, []), st))) 0 ''gst''
       [\<lparr>p_key = Inr ''duration'', p_value = \<lparr>y_null = False, y_string = Inr ''5''\<rparr>, p_children = []\<rparr>]
       (exec_new (sys_start sample_world (sample_logger False)) gpulist_empty :: (_, _, unit) exec) = (Ret 0, y) \<and>
     mw_actions (s_world (x_sys y)) 0 = Some a \<and> property_get_int_def a ''duration'' 0 1 = (0, 20000 :: u64)"
proof -
  let ?x = "exec_new (sys_start sample_world (sample_logger False)) gpulist_empty :: (_, _, unit) exec"
  let ?p = "[\<lparr>p_key = Inr ''duration'', p_value = \<lparr>y_null = False, y_string = Inr ''5''\<rparr>, p_children = []\<rparr>]"
  have opt: "x_options timed_env = [(''-t'', ''20'')]" by (simp add: timed_env_def)
  have "parallel_valid (x_options timed_env)" "om_find (x_options timed_env) ''-t'' = Some ''20''"
    by (simp_all add: opt parallel_valid_def)
  moreover have "stoull ''20'' = Inr (20, 2)" by (simp add: std_string_simps)
  moreover have "snd (props_plan (x_smi_devices timed_env) ''gst'' (option_indexes (x_options timed_env)) ?p) = None"
    by (simp add: opt option_indexes_def prop_plan_def is_yaml_properties_collection_def)
  moreover have "action_alive 0 (s_world (x_sys ?x))"
    by (simp add: action_alive_def exec_new_def sys_start_def sample_world_def)
  ultimately show ?thesis
    using duration_option_reaches_the_action [of timed_env "''20''" 20 2 "''gst''" ?p 0 ?x id sample_raw "()" "()"
        "\<lambda>act st. ((0, []), st)" 0 1] by simp
qed

end
